(* ===== verification/Prelude.thy ===== *)
theory Prelude
  imports Complex_Main
begin

text \<open>
  Shared ground of the development: the types the model gives to Python's values, the Python
  idioms the code uses everywhere (truthiness, \<open>a or b\<close>, \<open>round\<close>, exceptions), and
  the generic lemmas on lists and rounding that the components use.

  A Python float is modelled by the rational number it denotes and arithmetic on it is exact:
  rounding of intermediate results, infinities and NaN are outside the model, and a definition
  whose code tests for them says so. A \<open>datetime\<close> of freqtrade is its number of microseconds
  since the epoch in UTC; a time stamp of quantlab is its number of seconds.
\<close>

type_synonym flt = rat

type_synonym datetime = int

section \<open>Collections of facts\<close>

named_theorems py_simps \<open>rewrite rules for the Python idioms\<close>

named_theorems inv_intros \<open>introduction rules of the components' invariants\<close>

section \<open>Exceptions\<close>

text \<open>
  An operation that can raise returns \<^theory_text>\<open>py_error + 'a\<close>, with \<^term>\<open>Inl\<close> for
  the exception. The constructors are the exception classes the modelled code raises or lets
  escape; texts of messages are not modelled.
\<close>

datatype py_error =
    TypeError
  | ValueError
  | ZeroDivisionError
  | IndexError
  | AttributeError
  | KeyError
  | UnboundLocalError
  | AssertionError
  | PermissionError
  | IntegrityError
  | NoResultFound
  | MultipleResultsFound
  | FileNotFoundError
  | RuntimeError
  | DependencyException
  | PricingError
  | ExchangeError
  | InvalidOrderException
  | RetryableOrderError
  | InsufficientFundsError
  | TemporaryError
  | DDosProtection
  | StrategyError
  | OperationalException
  | ConfigurationError
  | RPCException

text \<open>What \<open>except DependencyException\<close> catches: the class and its subclasses.\<close>

fun is_dependency_exception :: "py_error \<Rightarrow> bool" where
  "is_dependency_exception e =
     (e \<in> {DependencyException, PricingError, ExchangeError, InvalidOrderException, RetryableOrderError,
             InsufficientFundsError, TemporaryError, DDosProtection})"

definition bindE :: "py_error + 'a \<Rightarrow> ('a \<Rightarrow> py_error + 'b) \<Rightarrow> py_error + 'b" where
  "bindE m f = (case m of Inl e \<Rightarrow> Inl e | Inr x \<Rightarrow> f x)"

lemma bindE_Inl [simp, py_simps]: "bindE (Inl e) f = Inl e"
  by (simp add: bindE_def)

lemma bindE_Inr [simp, py_simps]: "bindE (Inr x) f = f x"
  by (simp add: bindE_def)

lemma bindE_eq_Inr [py_simps]: "bindE m f = Inr y \<longleftrightarrow> (\<exists>x. m = Inr x \<and> f x = Inr y)"
  by (cases m) auto

lemma bindE_eq_InrE:
  assumes "bindE m f = Inr y"
  obtains x where "m = Inr x" and "f x = Inr y"
  using assms by (auto simp: bindE_eq_Inr)

text \<open>A sequence of operations on a state, stopped by the first exception.\<close>

fun runE :: "('e \<Rightarrow> 's \<Rightarrow> py_error + 's) \<Rightarrow> 'e list \<Rightarrow> 's \<Rightarrow> py_error + 's" where
  "runE step [] s = Inr s"
| "runE step (e # es) s = bindE (step e s) (runE step es)"

lemma runE_append: "runE step (xs @ ys) s = bindE (runE step xs s) (runE step ys)"
  by (induction xs arbitrary: s) (auto simp: bindE_def split: sum.split)

lemma runE_cong: "(\<And>x s. x \<in> set xs \<Longrightarrow> f x s = g x s) \<Longrightarrow> runE f xs s = runE g xs s"
  by (induction xs arbitrary: s) (auto simp: bindE_def split: sum.split)

text \<open>
  The contract of an operation that keeps an invariant and only moves the state upwards in a
  preorder, and what it gives for every run.
\<close>

locale monotone_steps =
  fixes step :: "'e \<Rightarrow> 's \<Rightarrow> py_error + 's"
    and inv :: "'s \<Rightarrow> bool"
    and below :: "'s \<Rightarrow> 's \<Rightarrow> bool"
  assumes below_refl: "below s s"
    and below_trans: "below s t \<Longrightarrow> below t u \<Longrightarrow> below s u"
    and step_inv: "inv s \<Longrightarrow> step e s = Inr s' \<Longrightarrow> inv s'"
    and step_below: "inv s \<Longrightarrow> step e s = Inr s' \<Longrightarrow> below s s'"
begin

lemma run_inv: "inv s \<Longrightarrow> runE step es s = Inr s' \<Longrightarrow> inv s'"
  by (induction es arbitrary: s) (auto simp: bindE_eq_Inr dest: step_inv)

lemma run_below: "inv s \<Longrightarrow> runE step es s = Inr s' \<Longrightarrow> below s s'"
proof (induction es arbitrary: s)
  case Nil
  then show ?case by (simp add: below_refl)
next
  case (Cons e es)
  from Cons.prems obtain t where "step e s = Inr t" and "runE step es t = Inr s'"
    by (auto simp: bindE_eq_Inr)
  with Cons.prems(1) Cons.IH show ?case
    by (meson below_trans step_below step_inv)
qed

text \<open>Every step of a run that returns was taken from a state of the run.\<close>

lemma run_step:
  assumes "inv s" and "runE step es s = Inr s'" and "e \<in> set es"
  shows "\<exists>a b. inv a \<and> below s a \<and> step e a = Inr b \<and> below b s'"
  using assms
proof (induction es arbitrary: s)
  case (Cons d es)
  from Cons.prems(2) obtain t where t: "step d s = Inr t" and rest: "runE step es t = Inr s'"
    by (auto simp: bindE_eq_Inr)
  note t_inv = step_inv [OF Cons.prems(1) t]
  show ?case
  proof (cases "e = d")
    case True
    with Cons.prems(1) t run_below [OF t_inv rest] show ?thesis by (blast intro: below_refl)
  next
    case False
    with Cons.IH [OF t_inv rest] Cons.prems(3) step_below [OF Cons.prems(1) t] show ?thesis
      by (auto intro: below_trans)
  qed
qed simp

end

section \<open>Truthiness\<close>

text \<open>
  \<open>if x\<close> for \<open>x: float | None\<close> is false for \<open>None\<close> and for zero, and
  \<open>x or d\<close> is \<open>x\<close> when \<open>x\<close> is true and \<open>d\<close> otherwise.
\<close>

fun truthy :: "flt option \<Rightarrow> bool" where
  "truthy None = False"
| "truthy (Some x) = (x \<noteq> 0)"

definition or_val :: "flt option \<Rightarrow> flt \<Rightarrow> flt" where
  "or_val a d = (case a of None \<Rightarrow> d | Some x \<Rightarrow> if x \<noteq> 0 then x else d)"

definition or_opt :: "flt option \<Rightarrow> flt option \<Rightarrow> flt option" where
  "or_opt a b = (if truthy a then a else b)"

lemma or_val_None [simp]: "or_val None d = d"
  by (simp add: or_val_def)

lemma or_val_Some [simp]: "or_val (Some x) d = (if x \<noteq> 0 then x else d)"
  by (simp add: or_val_def)

lemma or_val_same [simp]: "or_val (Some x) x = x"
  by simp

lemma or_opt_None [simp]: "or_opt None b = b"
  by (simp add: or_opt_def)

lemma or_opt_Some [simp]: "or_opt (Some x) b = (if x \<noteq> 0 then Some x else b)"
  by (simp add: or_opt_def)

lemma truthy_iff: "truthy a \<longleftrightarrow> (\<exists>x. a = Some x \<and> x \<noteq> 0)"
  by (cases a) auto

text \<open>A limit that may be infinite, with \<^term>\<open>None\<close> for \<open>inf\<close>: \<open>min(limit, x)\<close>.\<close>

definition min_limit :: "flt option \<Rightarrow> flt \<Rightarrow> flt" where
  "min_limit l x = (case l of None \<Rightarrow> x | Some m \<Rightarrow> min m x)"

lemma min_limit_simps [simp]: "min_limit None x = x" "min_limit (Some m) x = min m x"
  by (simp_all add: min_limit_def)

section \<open>Rounding\<close>

text \<open>
  \<open>round(x, n)\<close>: the nearest multiple of \<open>10^-n\<close>, ties to the even multiple.
\<close>

definition round_half_even :: "rat \<Rightarrow> int" where
  "round_half_even x =
     (let f = \<lfloor>x\<rfloor>; d = x - of_int f
      in if d < 1/2 then f else if d > 1/2 then f + 1 else if even f then f else f + 1)"

definition py_round :: "flt \<Rightarrow> nat \<Rightarrow> flt" where
  "py_round x n = of_int (round_half_even (x * 10 ^ n)) / 10 ^ n"

lemma round_half_even_of_int [simp]: "round_half_even (of_int k) = k"
  by (simp add: round_half_even_def)

lemma round_half_even_0 [simp]: "round_half_even 0 = 0"
  using round_half_even_of_int [of 0] by simp

lemma round_half_even_error: "\<bar>of_int (round_half_even x) - x\<bar> \<le> 1/2"
proof -
  have "of_int \<lfloor>x\<rfloor> \<le> x" and "x < of_int \<lfloor>x\<rfloor> + 1"
    by linarith+
  then have "0 \<le> x - of_int \<lfloor>x\<rfloor>" and "x - of_int \<lfloor>x\<rfloor> < 1"
    by linarith+
  then show ?thesis
    by (auto simp: round_half_even_def Let_def abs_le_iff)
qed

lemma round_half_even_mono:
  assumes "x \<le> y"
  shows "round_half_even x \<le> round_half_even y"
proof (cases "\<lfloor>x\<rfloor> = \<lfloor>y\<rfloor>")
  case True
  with assms show ?thesis
    by (auto simp: round_half_even_def Let_def)
next
  case False
  with assms have "\<lfloor>x\<rfloor> + 1 \<le> \<lfloor>y\<rfloor>"
    using floor_mono [OF assms] by linarith
  moreover have "round_half_even x \<le> \<lfloor>x\<rfloor> + 1" and "\<lfloor>y\<rfloor> \<le> round_half_even y"
    by (auto simp: round_half_even_def Let_def)
  ultimately show ?thesis by linarith
qed

lemma py_round_0 [simp]: "py_round 0 n = 0"
  by (simp add: py_round_def)

lemma py_round_mono: "x \<le> y \<Longrightarrow> py_round x n \<le> py_round y n"
  by (simp add: py_round_def divide_right_mono round_half_even_mono mult_right_mono)

lemma py_round_nonneg: "0 \<le> x \<Longrightarrow> 0 \<le> py_round x n"
  using py_round_mono [of 0 x n] by simp

lemma py_round_error: "\<bar>py_round x n - x\<bar> \<le> 1 / (2 * 10 ^ n)"
proof -
  have "py_round x n - x = (of_int (round_half_even (x * 10 ^ n)) - x * 10 ^ n) / 10 ^ n"
    by (simp add: py_round_def field_simps)
  then have "\<bar>py_round x n - x\<bar> = \<bar>of_int (round_half_even (x * 10 ^ n)) - x * 10 ^ n\<bar> / 10 ^ n"
    by (simp add: abs_divide)
  also have "\<dots> \<le> (1/2) / 10 ^ n"
    by (rule divide_right_mono [OF round_half_even_error]) simp
  finally show ?thesis by simp
qed

text \<open>Multiples of a positive unit on either side of a number.\<close>

lemma floor_mult_le: "0 < s \<Longrightarrow> s * of_int \<lfloor>x / s\<rfloor> \<le> (x::rat)"
  by (metis mult.commute of_int_floor_le pos_le_divide_eq)

lemma le_ceiling_mult: "0 < s \<Longrightarrow> (x::rat) \<le> s * of_int \<lceil>x / s\<rceil>"
  by (metis mult.commute le_of_int_ceiling pos_divide_le_eq)

lemma less_floor_mult_add:
  assumes "0 < s"
  shows "(x::rat) < s * of_int \<lfloor>x / s\<rfloor> + s"
proof -
  have "x / s < of_int \<lfloor>x / s\<rfloor> + 1" by linarith
  with assms have "x < (of_int \<lfloor>x / s\<rfloor> + 1) * s" by (simp add: pos_divide_less_eq)
  then show ?thesis by (simp add: algebra_simps)
qed

section \<open>Lists\<close>

text \<open>
  \<open>max(xs)\<close> and \<open>min(xs)\<close> of a non-empty list; \<open>max([])\<close> raises, which each use
  site handles.
\<close>

definition max_list :: "'a::linorder list \<Rightarrow> 'a" where
  "max_list xs = fold max (tl xs) (hd xs)"

definition min_list_py :: "'a::linorder list \<Rightarrow> 'a" where
  "min_list_py xs = fold min (tl xs) (hd xs)"

lemma fold_max_ge: "(a::'a::linorder) \<le> fold max xs a \<and> (\<forall>x \<in> set xs. x \<le> fold max xs a)"
proof (induction xs arbitrary: a)
  case (Cons y ys)
  from Cons.IH [of "max y a"] show ?case by auto
qed simp

lemma fold_max_in: "fold max xs (a::'a::linorder) \<in> insert a (set xs)"
proof (induction xs arbitrary: a)
  case (Cons y ys)
  from Cons.IH [of "max y a"] show ?case by (auto simp: max_def)
qed simp

lemma max_list_in: "xs \<noteq> [] \<Longrightarrow> max_list xs \<in> set xs"
  using fold_max_in [of "tl xs" "hd xs"] by (cases xs) (auto simp: max_list_def)

lemma max_list_ge: "x \<in> set xs \<Longrightarrow> x \<le> max_list xs"
  using fold_max_ge [of "hd xs" "tl xs"] by (cases xs) (auto simp: max_list_def)

lemma fold_min_le: "fold min xs (a::'a::linorder) \<le> a \<and> (\<forall>x \<in> set xs. fold min xs a \<le> x)"
proof (induction xs arbitrary: a)
  case (Cons y ys)
  from Cons.IH [of "min y a"] show ?case by auto
qed simp

lemma fold_min_in: "fold min xs (a::'a::linorder) \<in> insert a (set xs)"
proof (induction xs arbitrary: a)
  case (Cons y ys)
  from Cons.IH [of "min y a"] show ?case by (auto simp: min_def)
qed simp

lemma min_list_py_in: "xs \<noteq> [] \<Longrightarrow> min_list_py xs \<in> set xs"
  using fold_min_in [of "tl xs" "hd xs"] by (cases xs) (auto simp: min_list_py_def)

lemma min_list_py_le: "x \<in> set xs \<Longrightarrow> min_list_py xs \<le> x"
  using fold_min_le [of "tl xs" "hd xs"] by (cases xs) (auto simp: min_list_py_def)

lemma filter_filter_eq: "filter P (filter Q xs) = filter (\<lambda>x. Q x \<and> P x) xs"
  by (induction xs) auto

lemma sum_list_filter_add:
  "sum_list (map f (filter P xs)) + sum_list (map f (filter (\<lambda>x. \<not> P x) xs))
     = (sum_list (map f xs) :: 'a::ab_group_add)"
  by (induction xs) (auto simp: algebra_simps)

section \<open>Strings\<close>

text \<open>\<open>s.split(c)\<close> for a one-character separator: never empty.\<close>

fun split_on :: "char \<Rightarrow> string \<Rightarrow> string list" where
  "split_on c [] = [[]]"
| "split_on c (x # xs) =
     (if x = c then [] # split_on c xs
      else (case split_on c xs of [] \<Rightarrow> [[x]] | y # ys \<Rightarrow> (x # y) # ys))"

lemma split_on_not_Nil [simp]: "split_on c s \<noteq> []"
  by (induction s) (auto split: list.splits)

lemma hd_split_on: "hd (split_on c s) = takeWhile (\<lambda>x. x \<noteq> c) s"
  by (induction s) (auto split: list.splits)

text \<open>\<open>s.lower()\<close> and \<open>s.upper()\<close>, on ASCII text.\<close>

definition lower_char :: "char \<Rightarrow> char" where
  "lower_char c = (let n = of_char c :: nat in if 65 \<le> n \<and> n \<le> 90 then char_of (n + 32) else c)"

definition upper_char :: "char \<Rightarrow> char" where
  "upper_char c = (let n = of_char c :: nat in if 97 \<le> n \<and> n \<le> 122 then char_of (n - 32) else c)"

definition str_lower :: "string \<Rightarrow> string" where
  "str_lower s = List.map lower_char s"

definition str_upper :: "string \<Rightarrow> string" where
  "str_upper s = List.map upper_char s"

section \<open>Decimal text of integers\<close>

text \<open>\<open>str(n)\<close> for an integer.\<close>

fun show_nat :: "nat \<Rightarrow> string" where
  "show_nat n =
     (if n < 10 then [char_of (48 + n)] else show_nat (n div 10) @ [char_of (48 + n mod 10)])"

declare show_nat.simps [simp del]

definition show_int :: "int \<Rightarrow> string" where
  "show_int i = (if i < 0 then CHR ''-'' # show_nat (nat (- i)) else show_nat (nat i))"

lemma of_char_digit [simp]: "d < 10 \<Longrightarrow> of_char (char_of (48 + d) :: char) = (48 + d :: nat)"
  by (simp add: take_bit_nat_eq_self)

lemma char_digit_inj: "m < 10 \<Longrightarrow> n < 10 \<Longrightarrow> (char_of (48 + m) :: char) = char_of (48 + n) \<Longrightarrow> m = (n::nat)"
  by (metis add_left_cancel of_char_digit)

lemma show_nat_not_Nil [simp]: "show_nat n \<noteq> []"
  by (subst show_nat.simps) simp

lemma show_nat_last: "last (show_nat n) = char_of (48 + n mod 10)"
  by (subst show_nat.simps) simp

lemma show_nat_butlast: "butlast (show_nat n) = (if n < 10 then [] else show_nat (n div 10))"
  by (subst show_nat.simps) simp

lemma show_nat_inj: "show_nat m = show_nat n \<Longrightarrow> m = n"
proof (induction m arbitrary: n rule: less_induct)
  case (less m)
  have mod: "m mod 10 = n mod 10"
    using less.prems show_nat_last [of m] show_nat_last [of n] char_digit_inj [of "m mod 10" "n mod 10"]
    by simp
  have bl: "(if m < 10 then [] else show_nat (m div 10)) = (if n < 10 then [] else show_nat (n div 10))"
    using less.prems by (metis show_nat_butlast)
  show ?case
  proof (cases "m < 10")
    case True
    with bl have "n < 10" by (metis show_nat_not_Nil)
    with True mod show ?thesis by simp
  next
    case False
    with bl have n: "\<not> n < 10" by (auto split: if_splits)
    with False bl have "show_nat (m div 10) = show_nat (n div 10)" by simp
    moreover have "m div 10 < m" using False by simp
    ultimately have "m div 10 = n div 10" using less.IH by blast
    with mod show ?thesis by (metis div_mult_mod_eq)
  qed
qed

lemma show_nat_digits: "c \<in> set (show_nat n) \<Longrightarrow> \<exists>d<10. c = char_of (48 + d :: nat)"
proof (induction n rule: less_induct)
  case (less n)
  show ?case
  proof (cases "n < 10")
    case True
    with less.prems show ?thesis by (subst (asm) show_nat.simps) auto
  next
    case False
    with less.prems have "c \<in> set (show_nat (n div 10)) \<or> c = char_of (48 + n mod 10)"
      by (subst (asm) show_nat.simps) auto
    then show ?thesis
    proof
      assume "c \<in> set (show_nat (n div 10))"
      with less.IH [of "n div 10"] False show ?thesis by simp
    next
      assume "c = char_of (48 + n mod 10)"
      then show ?thesis by (intro exI [of _ "n mod 10"]) simp
    qed
  qed
qed

end
