(* ===== verification/Precision.thy ===== *)
theory Precision
  imports Prelude
begin

text \<open>
  Numbers and candle times as the exchange accepts them: \<open>freqtrade/exchange/exchange_utils.py\<close>,
  \<open>exchange_utils_timeframe.py\<close> and the conversions of \<open>freqtrade/util/datetime_helpers.py\<close>.

  ccxt is not part of the repository. What the code calls of it is the record \<^theory_text>\<open>ccxt\<close>,
  a parameter of every definition that needs it: division and remainder of \<open>Precise\<close>
  (addition, subtraction, multiplication and comparison of \<open>Precise\<close> are exact decimal
  arithmetic and are written as such), \<open>decimal_to_precision\<close>, and the parsing and
  rounding of time frames.
\<close>

section \<open>ccxt\<close>

datatype rounding_mode = TRUNCATE | ROUND | ROUND_UP | ROUND_DOWN

datatype precision_mode = DECIMAL_PLACES | SIGNIFICANT_DIGITS | TICK_SIZE | OTHER_MODE int

record ccxt =
  precise_div :: "flt \<Rightarrow> flt \<Rightarrow> flt"
  precise_mod :: "flt \<Rightarrow> flt \<Rightarrow> flt"
  decimal_to_precision :: "flt \<Rightarrow> rounding_mode \<Rightarrow> flt \<Rightarrow> precision_mode \<Rightarrow> flt"
  parse_timeframe :: "string \<Rightarrow> int"
  round_timeframe :: "string \<Rightarrow> int \<Rightarrow> rounding_mode \<Rightarrow> int"

text \<open>
  A concrete instance, for the witnesses: exact division, remainder towards minus infinity,
  multiples of \<open>10^-n\<close> or of the tick, and candles that start at multiples of their length.
\<close>

definition ccxt_example :: ccxt where
  "ccxt_example = \<lparr>
     precise_div = (/),
     precise_mod = (\<lambda>x y. x - y * of_int \<lfloor>x / y\<rfloor>),
     decimal_to_precision = (\<lambda>x r p m.
       let u = (case m of TICK_SIZE \<Rightarrow> p | _ \<Rightarrow> 1 / 10 ^ nat \<lfloor>p\<rfloor>); q = x / u
       in u * of_int (case r of TRUNCATE \<Rightarrow> (if 0 \<le> q then \<lfloor>q\<rfloor> else \<lceil>q\<rceil>)
                             | ROUND \<Rightarrow> round_half_even q | ROUND_UP \<Rightarrow> \<lceil>q\<rceil> | ROUND_DOWN \<Rightarrow> \<lfloor>q\<rfloor>)),
     parse_timeframe = (\<lambda>tf. if tf = ''1m'' then 60 else if tf = ''5m'' then 300
                              else if tf = ''1h'' then 3600 else 86400),
     round_timeframe = (\<lambda>tf t r.
       let ms = (if tf = ''1m'' then 60000 else if tf = ''5m'' then 300000
                 else if tf = ''1h'' then 3600000 else 86400000)
       in t - t mod ms + (if r = ROUND_UP then ms else 0))\<rparr>"

section \<open>Contracts and amounts\<close>

definition amount_to_contracts :: "ccxt \<Rightarrow> flt \<Rightarrow> flt option \<Rightarrow> flt" where
  "amount_to_contracts C amount contract_size =
     (if truthy contract_size \<and> contract_size \<noteq> Some 1
      then precise_div C amount (the contract_size) else amount)"

definition contracts_to_amount :: "flt \<Rightarrow> flt option \<Rightarrow> flt" where
  "contracts_to_amount num_contracts contract_size =
     (if truthy contract_size \<and> contract_size \<noteq> Some 1
      then num_contracts * the contract_size else num_contracts)"

definition trunc_int :: "flt \<Rightarrow> int" where \<comment> \<open>\<open>int(x)\<close>\<close>
  "trunc_int x = (if 0 \<le> x then \<lfloor>x\<rfloor> else \<lceil>x\<rceil>)"

definition amount_to_precision :: "ccxt \<Rightarrow> flt \<Rightarrow> flt option \<Rightarrow> precision_mode option \<Rightarrow> flt" where
  "amount_to_precision C amount amount_precision precisionMode =
     (case (amount_precision, precisionMode) of
        (Some p, Some mode) \<Rightarrow>
          (let precision = (if mode \<noteq> TICK_SIZE then of_int (trunc_int p) else p)
           in decimal_to_precision C amount TRUNCATE precision mode)
      | _ \<Rightarrow> amount)"

definition amount_to_contract_precision ::
    "ccxt \<Rightarrow> flt \<Rightarrow> flt option \<Rightarrow> precision_mode option \<Rightarrow> flt option \<Rightarrow> flt" where
  "amount_to_contract_precision C amount amount_precision precisionMode contract_size =
     (if amount_precision \<noteq> None \<and> precisionMode \<noteq> None then
        (let contracts = amount_to_contracts C amount contract_size;
             amount_p = amount_to_precision C contracts amount_precision precisionMode
         in contracts_to_amount amount_p contract_size)
      else amount)"

lemma amount_to_contract_precision_None [simp]:
  "amount_to_contract_precision C a None m c = a"
  "amount_to_contract_precision C a p None c = a"
  by (simp_all add: amount_to_contract_precision_def)

section \<open>Prices\<close>

text \<open>
  \<open>Decimal.adjusted()\<close>: the exponent of the most significant digit. A float prints with a
  decimal point, so zero is \<open>0.0\<close>, whose adjusted exponent is \<open>-1\<close>.
\<close>

fun ndigits :: "nat \<Rightarrow> nat" where
  "ndigits n = (if n < 10 then 1 else Suc (ndigits (n div 10)))"

declare ndigits.simps [simp del]

definition dec_adjusted :: "flt \<Rightarrow> int" where
  "dec_adjusted x =
     (if x = 0 then -1
      else (let (n, d) = quotient_of \<bar>x\<bar>; e = int (ndigits (nat n)) - int (ndigits (nat d))
            in if 10 powi e \<le> \<bar>x\<bar> then e else e - 1))"

text \<open>
  In the branch \<open>q < 0\<close> the code keeps the first \<open>precision\<close> characters of the plain
  decimal text: for a non-negative price that is the integer part of \<open>price / 10^-q\<close>. A
  negative price spends one character on its sign; the model covers non-negative prices there.
\<close>

definition price_to_precision_significant_digits ::
    "flt \<Rightarrow> flt \<Rightarrow> rounding_mode \<Rightarrow> flt" where
  "price_to_precision_significant_digits price price_precision rounding =
     (let precision = round_half_even price_precision;
          q = precision - dec_adjusted price - 1;
          sigfig = 10 powi (- q)
      in if q < 0 then
           (let below = sigfig * of_int \<lfloor>price / sigfig\<rfloor>; above = below + sigfig
            in if rounding = ROUND_UP then above else below)
         else if rounding = ROUND_DOWN
              then sigfig * of_int (trunc_int (price / sigfig))
              else sigfig * of_int (if 0 \<le> price then \<lceil>price / sigfig\<rceil> else \<lfloor>price / sigfig\<rfloor>))"

definition price_to_precision ::
    "ccxt \<Rightarrow> flt \<Rightarrow> flt option \<Rightarrow> precision_mode option \<Rightarrow> rounding_mode \<Rightarrow> py_error + flt" where
  "price_to_precision C price price_precision precisionMode rounding =
     (case (price_precision, precisionMode) of
        (Some pp, Some mode) \<Rightarrow>
          if rounding \<noteq> ROUND_UP \<and> rounding \<noteq> ROUND_DOWN then
            Inr (decimal_to_precision C price rounding
                   (if mode \<noteq> TICK_SIZE then of_int (trunc_int pp) else pp) mode)
          else (case mode of
            TICK_SIZE \<Rightarrow>
              (let missing = precise_mod C price pp
               in if missing \<noteq> 0 then
                    (let res = (if rounding = ROUND_UP then price - missing + pp
                                else price - missing)
                     in Inr (py_round res 14))
                  else Inr price)
          | DECIMAL_PLACES \<Rightarrow>
              (let ndigits = round_half_even pp; ticks = price * 10 powi ndigits
               in if rounding = ROUND_UP then Inr (of_int \<lceil>ticks\<rceil> / 10 powi ndigits)
                  else Inr (of_int \<lfloor>ticks\<rfloor> / 10 powi ndigits))
          | SIGNIFICANT_DIGITS \<Rightarrow>
              Inr (price_to_precision_significant_digits price pp rounding)
          | OTHER_MODE _ \<Rightarrow> Inl ValueError)
      | _ \<Rightarrow> Inr price)"

lemma price_to_precision_None [simp]:
  "price_to_precision C x None m r = Inr x"
  "price_to_precision C x p None r = Inr x"
  by (simp_all add: price_to_precision_def split: option.splits)

text \<open>
  What the stop loss relies on: rounding up never gives less than the price and rounding down
  never more. In \<open>DECIMAL_PLACES\<close> mode this holds of the code as it is; in
  \<open>SIGNIFICANT_DIGITS\<close> mode for every non-negative price.
\<close>

lemma decimal_places_up:
  assumes "price_to_precision C x (Some p) (Some DECIMAL_PLACES) ROUND_UP = Inr y"
  shows "x \<le> y" and "y < x + 1 / 10 powi round_half_even p"
proof -
  let ?u = "(10::rat) powi round_half_even p"
  have u: "0 < ?u" by simp
  have y: "y = of_int \<lceil>x * ?u\<rceil> / ?u"
    using assms by (simp add: price_to_precision_def Let_def)
  have "x * ?u \<le> of_int \<lceil>x * ?u\<rceil>" and "of_int \<lceil>x * ?u\<rceil> < x * ?u + 1"
    by linarith+
  with u y show "x \<le> y" and "y < x + 1 / ?u"
    by (simp_all add: pos_le_divide_eq pos_divide_less_eq distrib_right)
qed

lemma decimal_places_down:
  assumes "price_to_precision C x (Some p) (Some DECIMAL_PLACES) ROUND_DOWN = Inr y"
  shows "y \<le> x" and "x - 1 / 10 powi round_half_even p < y"
proof -
  let ?u = "(10::rat) powi round_half_even p"
  have u: "0 < ?u" by simp
  have y: "y = of_int \<lfloor>x * ?u\<rfloor> / ?u"
    using assms by (simp add: price_to_precision_def Let_def)
  have "of_int \<lfloor>x * ?u\<rfloor> \<le> x * ?u" and "x * ?u - 1 < of_int \<lfloor>x * ?u\<rfloor>"
    by linarith+
  with u y show "y \<le> x" and "x - 1 / ?u < y"
    by (simp_all add: pos_divide_le_eq pos_less_divide_eq left_diff_distrib)
qed

lemma powi_10_pos [simp]: "0 < (10::rat) powi k"
  by simp

lemma significant_digits_up:
  assumes "0 \<le> x"
  shows "x \<le> price_to_precision_significant_digits x p ROUND_UP"
  using assms less_floor_mult_add le_ceiling_mult powi_10_pos
  unfolding price_to_precision_significant_digits_def Let_def
  by (auto simp: order.strict_implies_order)

lemma significant_digits_down:
  assumes "0 \<le> x"
  shows "price_to_precision_significant_digits x p ROUND_DOWN \<le> x"
proof -
  have "trunc_int (x / 10 powi k) = \<lfloor>x / 10 powi k\<rfloor>" for k
    using assms by (simp add: trunc_int_def)
  then show ?thesis
    unfolding price_to_precision_significant_digits_def Let_def
    by (simp add: floor_mult_le)
qed

text \<open>The contract, and the two precision modes that meet it.\<close>

locale directed_rounding =
  fixes rnd :: "flt \<Rightarrow> rounding_mode \<Rightarrow> py_error + flt"
  assumes rnd_up: "0 \<le> x \<Longrightarrow> rnd x ROUND_UP = Inr y \<Longrightarrow> x \<le> y"
    and rnd_down: "0 \<le> x \<Longrightarrow> rnd x ROUND_DOWN = Inr y \<Longrightarrow> y \<le> x"
begin

lemma rnd_toward_price:
  assumes "0 \<le> x" and "rnd x (if short then ROUND_DOWN else ROUND_UP) = Inr y"
  shows "if short then y \<le> x else x \<le> y"
  using assms rnd_up rnd_down by auto

end

interpretation dec_places: directed_rounding "\<lambda>x. price_to_precision C x p (Some DECIMAL_PLACES)" for C p
proof
  fix x y
  show "price_to_precision C x p (Some DECIMAL_PLACES) ROUND_UP = Inr y \<Longrightarrow> x \<le> y"
    by (cases p) (auto dest: decimal_places_up)
  show "price_to_precision C x p (Some DECIMAL_PLACES) ROUND_DOWN = Inr y \<Longrightarrow> y \<le> x"
    by (cases p) (auto dest: decimal_places_down)
qed

interpretation sig_digits: directed_rounding "\<lambda>x. price_to_precision C x p (Some SIGNIFICANT_DIGITS)" for C p
proof
  fix x y :: flt
  assume x: "0 \<le> x"
  show "price_to_precision C x p (Some SIGNIFICANT_DIGITS) ROUND_UP = Inr y \<Longrightarrow> x \<le> y"
    using significant_digits_up [OF x] by (cases p) (auto simp: price_to_precision_def)
  show "price_to_precision C x p (Some SIGNIFICANT_DIGITS) ROUND_DOWN = Inr y \<Longrightarrow> y \<le> x"
    using significant_digits_down [OF x] by (cases p) (auto simp: price_to_precision_def)
qed

interpretation no_precision: directed_rounding "\<lambda>x. price_to_precision C x p None" for C p
  by standard auto

lemma price_toward_risk:
  assumes "m \<in> {None, Some DECIMAL_PLACES, Some SIGNIFICANT_DIGITS}" and "0 \<le> x"
    and "price_to_precision C x p m (if short then ROUND_DOWN else ROUND_UP) = Inr y"
  shows "if short then y \<le> x else x \<le> y"
proof -
  from assms(1) consider "m = None" | "m = Some DECIMAL_PLACES" | "m = Some SIGNIFICANT_DIGITS"
    by blast
  then show ?thesis
  proof cases
    case 1
    with assms show ?thesis by (simp add: no_precision.rnd_toward_price)
  next
    case 2
    with assms(2,3) show ?thesis by (intro dec_places.rnd_toward_price) simp_all
  next
    case 3
    with assms(2,3) show ?thesis by (intro sig_digits.rnd_toward_price) simp_all
  qed
qed

section \<open>Candle times\<close>

text \<open>
  \<open>dt_ts\<close> truncates to milliseconds, and \<open>dt_from_ts\<close> reads its argument as
  milliseconds from \<open>10^10\<close> on and as seconds below.
\<close>

definition dt_ts :: "datetime \<Rightarrow> int" where
  "dt_ts d = trunc_int (of_int d / 1000)"

definition dt_from_ts :: "int \<Rightarrow> datetime" where
  "dt_from_ts timestamp = (if timestamp > 10000000000 then timestamp * 1000 else timestamp * 1000000)"

definition day_us :: int where
  "day_us = 24 * 3600 * 1000000"

definition minutes_us :: "int \<Rightarrow> int" where \<comment> \<open>\<open>timedelta(minutes=m)\<close>\<close>
  "minutes_us m = m * 60000000"

definition dt_floor_day :: "datetime \<Rightarrow> datetime" where
  "dt_floor_day d = d - d mod day_us"

definition timeframe_to_seconds :: "ccxt \<Rightarrow> string \<Rightarrow> int" where
  "timeframe_to_seconds C timeframe = parse_timeframe C timeframe"

definition timeframe_to_minutes :: "ccxt \<Rightarrow> string \<Rightarrow> int" where
  "timeframe_to_minutes C timeframe = parse_timeframe C timeframe div 60"

definition timeframe_to_msecs :: "ccxt \<Rightarrow> string \<Rightarrow> int" where
  "timeframe_to_msecs C timeframe = parse_timeframe C timeframe * 1000"

definition timeframe_to_floor_freq :: "ccxt \<Rightarrow> string \<Rightarrow> string" where
  "timeframe_to_floor_freq C timeframe =
     (let timeframe_minutes = timeframe_to_seconds C timeframe div 60
      in if timeframe_minutes \<le> 1 then ''1s'' else ''1min'')"

definition timeframe_to_resample_freq :: "ccxt \<Rightarrow> string \<Rightarrow> string" where
  "timeframe_to_resample_freq C timeframe =
     (if timeframe = ''1y'' then ''1YS''
      else
        (let timeframe_seconds = timeframe_to_seconds C timeframe;
             timeframe_minutes = timeframe_seconds div 60
         in if 10000 < timeframe_minutes \<and> timeframe_minutes < 43200 then ''1W-MON''
            else if timeframe_minutes \<ge> 43200 \<and> timeframe_minutes < 525600 then timeframe @ ''S''
            else if timeframe_minutes > 43200 then timeframe
            else show_int timeframe_seconds @ ''s''))"

definition timeframe_to_prev_date :: "ccxt \<Rightarrow> string \<Rightarrow> datetime \<Rightarrow> datetime" where
  "timeframe_to_prev_date C timeframe date =
     dt_from_ts (round_timeframe C timeframe (dt_ts date) ROUND_DOWN div 1000)"

definition timeframe_to_next_date :: "ccxt \<Rightarrow> string \<Rightarrow> datetime \<Rightarrow> datetime" where
  "timeframe_to_next_date C timeframe date =
     dt_from_ts (round_timeframe C timeframe (dt_ts date) ROUND_UP div 1000)"

definition date_minus_candles :: "ccxt \<Rightarrow> string \<Rightarrow> int \<Rightarrow> datetime \<Rightarrow> datetime" where
  "date_minus_candles C timeframe candle_count date =
     timeframe_to_prev_date C timeframe date
       - minutes_us (timeframe_to_minutes C timeframe * candle_count)"

lemma dt_floor_day_bounds: "dt_floor_day d \<le> d" "d < dt_floor_day d + day_us"
  by (simp_all add: dt_floor_day_def day_us_def)

lemma minutes_us_add: "minutes_us (a + b) = minutes_us a + minutes_us b"
  by (simp add: minutes_us_def algebra_simps)

end
