(* ===== verification/Trade.thy ===== *)
theory Trade
  imports Precision
begin

text \<open>
  The data of \<open>freqtrade/persistence/trade_model.py\<close>: orders, trades, the properties derived
  from them, the selections over a trade's orders, and the operations that only fill fields in.
  Columns that may be NULL are options. An order belongs to its trade's list \<open>t_orders\<close>; code
  that mutates an order object of the list is modelled by the position of the order in the list,
  so that every reader of the list sees the change.
\<close>

section \<open>Enumerations and constants\<close>

datatype trading_mode = SPOT | MARGIN | FUTURES

datatype margin_mode = CROSS | ISOLATED | NO_MARGIN

datatype exit_type =
    ROI | STOP_LOSS | STOPLOSS_ON_EXCHANGE | TRAILING_STOP_LOSS | LIQUIDATION | EXIT_SIGNAL
  | FORCE_EXIT | EMERGENCY_EXIT | CUSTOM_EXIT | PARTIAL_EXIT | SOLD_ON_EXCHANGE | EXIT_NONE

fun exit_type_value :: "exit_type \<Rightarrow> string" where
  "exit_type_value ROI = ''roi''"
| "exit_type_value STOP_LOSS = ''stop_loss''"
| "exit_type_value STOPLOSS_ON_EXCHANGE = ''stoploss_on_exchange''"
| "exit_type_value TRAILING_STOP_LOSS = ''trailing_stop_loss''"
| "exit_type_value LIQUIDATION = ''liquidation''"
| "exit_type_value EXIT_SIGNAL = ''exit_signal''"
| "exit_type_value FORCE_EXIT = ''force_exit''"
| "exit_type_value EMERGENCY_EXIT = ''emergency_exit''"
| "exit_type_value CUSTOM_EXIT = ''custom_exit''"
| "exit_type_value PARTIAL_EXIT = ''partial_exit''"
| "exit_type_value SOLD_ON_EXCHANGE = ''sold_on_exchange''"
| "exit_type_value EXIT_NONE = ''''"

definition CANCELED_EXCHANGE_STATES :: "string list" where
  "CANCELED_EXCHANGE_STATES = [''cancelled'', ''canceled'', ''expired'', ''rejected'']"

definition NON_OPEN_EXCHANGE_STATES :: "string list" where
  "NON_OPEN_EXCHANGE_STATES = CANCELED_EXCHANGE_STATES @ [''closed'']"

definition MATH_CLOSE_PREC :: flt where
  "MATH_CLOSE_PREC = 1 / 10 ^ 14"

definition CUSTOM_TAG_MAX_LENGTH :: nat where
  "CUSTOM_TAG_MAX_LENGTH = 255"

section \<open>Orders\<close>

record order =
  o_ft_order_side :: string \<comment> \<open>buy, sell or stoploss\<close>
  o_ft_pair :: string
  o_ft_is_open :: bool
  o_ft_amount :: flt
  o_ft_price :: "flt option"
  o_order_id :: string
  o_status :: "string option"
  o_symbol :: "string option"
  o_order_type :: "string option"
  o_side :: "string option"
  o_price :: "flt option"
  o_average :: "flt option"
  o_amount :: "flt option"
  o_filled :: "flt option"
  o_remaining :: "flt option"
  o_cost :: "flt option"
  o_stop_price :: "flt option"
  o_order_date :: "datetime option"
  o_order_filled_date :: "datetime option"
  o_order_update_date :: "datetime option"
  o_funding_fee :: "flt option"
  o_ft_fee_base :: "flt option"
  o_ft_order_tag :: "string option"

text \<open>The constructor call \<open>Order(order_id=..., ft_order_side=..., ...)\<close> leaves the rest unset.\<close>

definition new_order :: "string \<Rightarrow> string \<Rightarrow> string \<Rightarrow> flt \<Rightarrow> flt option \<Rightarrow> order" where
  "new_order order_id side pair amount price = \<lparr>
     o_ft_order_side = side, o_ft_pair = pair, o_ft_is_open = True, o_ft_amount = amount,
     o_ft_price = price, o_order_id = order_id, o_status = None, o_symbol = None,
     o_order_type = None, o_side = None, o_price = None, o_average = None, o_amount = None,
     o_filled = None, o_remaining = None, o_cost = None, o_stop_price = None,
     o_order_date = None, o_order_filled_date = None, o_order_update_date = None,
     o_funding_fee = None, o_ft_fee_base = None, o_ft_order_tag = None\<rparr>"

definition order_date_utc :: "order \<Rightarrow> py_error + datetime" where
  "order_date_utc ord = (case o_order_date ord of None \<Rightarrow> Inl AttributeError | Some d \<Rightarrow> Inr d)"

definition order_filled_utc :: "order \<Rightarrow> datetime option" where
  "order_filled_utc ord = o_order_filled_date ord"

definition safe_amount :: "order \<Rightarrow> flt" where
  "safe_amount ord = or_val (o_amount ord) (o_ft_amount ord)"

definition safe_placement_price :: "order \<Rightarrow> flt option" where
  "safe_placement_price ord = or_opt (o_price ord) (or_opt (o_stop_price ord) (o_ft_price ord))"

definition safe_price :: "order \<Rightarrow> flt option" where
  "safe_price ord =
     or_opt (o_average ord) (or_opt (o_price ord) (or_opt (o_stop_price ord) (o_ft_price ord)))"

definition safe_filled :: "order \<Rightarrow> flt" where
  "safe_filled ord = (case o_filled ord of Some f \<Rightarrow> f | None \<Rightarrow> 0)"

definition safe_cost :: "order \<Rightarrow> flt" where
  "safe_cost ord = or_val (o_cost ord) 0"

definition safe_remaining :: "order \<Rightarrow> flt" where
  "safe_remaining ord =
     (case o_remaining ord of Some r \<Rightarrow> r | None \<Rightarrow> safe_amount ord - or_val (o_filled ord) 0)"

definition safe_fee_base :: "order \<Rightarrow> flt" where
  "safe_fee_base ord = or_val (o_ft_fee_base ord) 0"

definition safe_amount_after_fee :: "order \<Rightarrow> flt" where
  "safe_amount_after_fee ord = safe_filled ord - safe_fee_base ord"

definition order_stake_amount :: "ccxt \<Rightarrow> flt \<Rightarrow> order \<Rightarrow> py_error + flt" where
  "order_stake_amount C leverage ord =
     (case safe_price ord of None \<Rightarrow> Inl ValueError
      | Some p \<Rightarrow> Inr (precise_div C (safe_amount ord * p) leverage))"

definition order_stake_amount_filled :: "ccxt \<Rightarrow> flt \<Rightarrow> order \<Rightarrow> py_error + flt" where
  "order_stake_amount_filled C leverage ord =
     (case safe_price ord of None \<Rightarrow> Inl ValueError
      | Some p \<Rightarrow> Inr (precise_div C (safe_filled ord * p) leverage))"

lemma safe_filled_None [simp]: "o_filled ord = None \<Longrightarrow> safe_filled ord = 0"
  by (simp add: safe_filled_def)

lemma safe_remaining_split:
  "o_remaining ord = None \<Longrightarrow> safe_filled ord + safe_remaining ord = safe_amount ord"
  by (cases "o_filled ord") (auto simp: safe_remaining_def safe_filled_def)

subsection \<open>Updates from the exchange\<close>

text \<open>
  A ccxt order dictionary, as far as the code reads it. A missing key and a key with value
  \<open>None\<close> are treated alike by \<open>safe_value_fallback\<close> and by \<open>get(...) or ...\<close>, and are both
  \<^term>\<open>None\<close> here.
\<close>

record ccxt_order =
  c_id :: string
  c_status :: "string option"
  c_symbol :: "string option"
  c_type :: "string option"
  c_side :: "string option"
  c_price :: "flt option"
  c_amount :: "flt option"
  c_filled :: "flt option"
  c_average :: "flt option"
  c_remaining :: "flt option"
  c_cost :: "flt option"
  c_stopPrice :: "flt option"
  c_timestamp :: "int option"
  c_lastTradeTimestamp :: "int option"

definition safe_value_fallback :: "'a option \<Rightarrow> 'a option \<Rightarrow> 'a option \<Rightarrow> 'a option" where
  "safe_value_fallback v1 v2 default_value =
     (case v1 of Some x \<Rightarrow> Some x | None \<Rightarrow> (case v2 of Some y \<Rightarrow> Some y | None \<Rightarrow> default_value))"

definition update_from_ccxt_object :: "datetime \<Rightarrow> order \<Rightarrow> ccxt_order \<Rightarrow> py_error + order" where
  "update_from_ccxt_object now self c =
     (if o_order_id self \<noteq> c_id c then Inl DependencyException
      else
        (let o1 = self\<lparr>
               o_status := safe_value_fallback (c_status c) None (o_status self),
               o_symbol := safe_value_fallback (c_symbol c) None (o_symbol self),
               o_order_type := safe_value_fallback (c_type c) None (o_order_type self),
               o_side := safe_value_fallback (c_side c) None (o_side self),
               o_price := safe_value_fallback (c_price c) None (o_price self),
               o_amount := safe_value_fallback (c_amount c) None (o_amount self),
               o_filled := safe_value_fallback (c_filled c) None (o_filled self),
               o_average := safe_value_fallback (c_average c) None (o_average self),
               o_remaining := safe_value_fallback (c_remaining c) None (o_remaining self),
               o_cost := safe_value_fallback (c_cost c) None (o_cost self),
               o_stop_price := safe_value_fallback (c_stopPrice c) None (o_stop_price self)\<rparr>;
             order_date = safe_value_fallback (c_timestamp c) None None;
             o2 = (case order_date of
                     Some t \<Rightarrow> if t \<noteq> 0 then o1\<lparr>o_order_date := Some (dt_from_ts t)\<rparr>
                               else if o_order_date o1 = None then o1\<lparr>o_order_date := Some now\<rparr> else o1
                   | None \<Rightarrow> if o_order_date o1 = None then o1\<lparr>o_order_date := Some now\<rparr> else o1);
             o3 = o2\<lparr>o_ft_is_open := True\<rparr>;
             o4 = (if \<exists>st \<in> set NON_OPEN_EXCHANGE_STATES. o_status o3 = Some st then
                     (let o3' = o3\<lparr>o_ft_is_open := False\<rparr>
                      in if or_val (c_filled c) 0 > 0 \<and> o_order_filled_date o3' = None
                         then o3'\<lparr>o_order_filled_date :=
                                   map_option dt_from_ts
                                     (safe_value_fallback (c_lastTradeTimestamp c) None (Some (dt_ts now)))\<rparr>
                         else o3')
                   else o3)
         in Inr (o4\<lparr>o_order_update_date := Some now\<rparr>)))"

text \<open>
  \<open>Order.update_orders\<close> updates the first order of the list with the exchange's id, in place.
\<close>

fun update_orders :: "datetime \<Rightarrow> order list \<Rightarrow> ccxt_order \<Rightarrow> py_error + order list" where
  "update_orders now [] c = Inr []"
| "update_orders now (x # xs) c =
     (if o_order_id x = c_id c
      then bindE (update_from_ccxt_object now x c) (\<lambda>x'. Inr (x' # xs))
      else bindE (update_orders now xs c) (\<lambda>xs'. Inr (x # xs')))"

definition parse_from_ccxt_object ::
    "datetime \<Rightarrow> ccxt_order \<Rightarrow> string \<Rightarrow> string \<Rightarrow> flt option \<Rightarrow> flt option \<Rightarrow> py_error + order" where
  "parse_from_ccxt_object now c pair side amount price =
     update_from_ccxt_object now
       (new_order (c_id c) side pair (or_val amount (or_val (c_amount c) 0)) (or_opt price (c_price c))) c"

lemma update_from_ccxt_object_open:
  assumes "update_from_ccxt_object now ord c = Inr ord'"
  shows "o_ft_is_open ord' \<longleftrightarrow> (\<forall>st. o_status ord' = Some st \<longrightarrow> st \<notin> set NON_OPEN_EXCHANGE_STATES)"
  using assms
  by (auto simp: update_from_ccxt_object_def Let_def split: if_splits option.splits)

lemma update_from_ccxt_object_frame:
  assumes "update_from_ccxt_object now ord c = Inr ord'"
  shows "o_order_id ord' = o_order_id ord" "o_ft_order_side ord' = o_ft_order_side ord"
    "o_ft_pair ord' = o_ft_pair ord" "o_ft_fee_base ord' = o_ft_fee_base ord"
    "o_funding_fee ord' = o_funding_fee ord" "o_ft_amount ord' = o_ft_amount ord"
  using assms
  by (auto simp: update_from_ccxt_object_def Let_def split: if_splits option.splits)

lemma update_from_ccxt_object_filled_date:
  assumes "update_from_ccxt_object now ord c = Inr ord'" and "o_order_filled_date ord = Some d"
  shows "o_order_filled_date ord' = Some d"
  using assms
  by (auto simp: update_from_ccxt_object_def Let_def split: if_splits option.splits)

lemma update_orders_ids:
  "update_orders now xs c = Inr ys \<Longrightarrow> map o_order_id ys = map o_order_id xs"
  by (induction xs arbitrary: ys)
    (auto simp: bindE_eq_Inr update_from_ccxt_object_frame split: if_splits)

lemma update_orders_total: "\<exists>ys. update_orders now xs c = Inr ys"
  by (induction xs) (auto simp: update_from_ccxt_object_def Let_def)

section \<open>Trades\<close>

record trade =
  t_id :: int
  t_orders :: "order list"
  t_exchange :: string
  t_pair :: string
  t_base_currency :: "string option"
  t_stake_currency :: "string option"
  t_is_open :: bool
  t_fee_open :: flt
  t_fee_open_cost :: "flt option"
  t_fee_open_currency :: "string option"
  t_fee_close :: "flt option"
  t_fee_close_cost :: "flt option"
  t_fee_close_currency :: "string option"
  t_open_rate :: flt
  t_open_trade_value :: flt
  t_close_rate :: "flt option"
  t_close_rate_requested :: "flt option"
  t_close_profit :: "flt option"
  t_close_profit_abs :: "flt option"
  t_realized_profit :: flt
  t_stake_amount :: flt
  t_max_stake_amount :: "flt option"
  t_amount :: flt
  t_open_date :: datetime
  t_close_date :: "datetime option"
  t_stop_loss :: flt
  t_stop_loss_pct :: "flt option"
  t_initial_stop_loss :: "flt option"
  t_initial_stop_loss_pct :: "flt option"
  t_is_stop_loss_trailing :: bool
  t_max_rate :: "flt option"
  t_min_rate :: "flt option"
  t_exit_reason :: "string option"
  t_exit_order_status :: "string option"
  t_enter_tag :: "string option"
  t_trading_mode :: "trading_mode option"
  t_amount_precision :: "flt option"
  t_price_precision :: "flt option"
  t_precision_mode :: "precision_mode option"
  t_precision_mode_price :: "precision_mode option"
  t_contract_size :: "flt option"
  t_liquidation_price :: "flt option"
  t_is_short :: bool
  t_leverage :: flt
  t_interest_rate :: "flt option"
  t_funding_fees :: "flt option"
  t_funding_fee_running :: "flt option"

subsection \<open>Derived properties\<close>

definition leverage_or_1 :: "trade \<Rightarrow> flt" where \<comment> \<open>\<open>self.leverage or 1.0\<close>\<close>
  "leverage_or_1 t = or_val (Some (t_leverage t)) 1"

definition stoploss_or_liquidation :: "trade \<Rightarrow> flt" where
  "stoploss_or_liquidation t =
     (case t_liquidation_price t of
        Some l \<Rightarrow> if l \<noteq> 0
                  then (if t_is_short t then min (t_stop_loss t) l else max (t_stop_loss t) l)
                  else t_stop_loss t
      | None \<Rightarrow> t_stop_loss t)"

definition has_no_leverage :: "trade \<Rightarrow> bool" where
  "has_no_leverage t \<longleftrightarrow> t_leverage t = 1 \<and> \<not> t_is_short t"

definition borrowed :: "trade \<Rightarrow> flt" where
  "borrowed t =
     (if has_no_leverage t then 0
      else if \<not> t_is_short t
      then t_amount t * t_open_rate t * ((t_leverage t - 1) / t_leverage t)
      else t_amount t)"

definition entry_side :: "trade \<Rightarrow> string" where
  "entry_side t = (if t_is_short t then ''sell'' else ''buy'')"

definition exit_side :: "trade \<Rightarrow> string" where
  "exit_side t = (if t_is_short t then ''buy'' else ''sell'')"

definition trade_direction :: "trade \<Rightarrow> string" where
  "trade_direction t = (if t_is_short t then ''short'' else ''long'')"

definition str_or :: "string option \<Rightarrow> string \<Rightarrow> string" where \<comment> \<open>\<open>s or d\<close> on strings\<close>
  "str_or s d = (case s of None \<Rightarrow> d | Some x \<Rightarrow> if x = '''' then d else x)"

definition safe_base_currency :: "trade \<Rightarrow> string" where
  "safe_base_currency t = str_or (t_base_currency t) (hd (split_on CHR ''/'' (t_pair t)))"

definition safe_quote_currency :: "trade \<Rightarrow> string" where
  "safe_quote_currency t =
     (case t_stake_currency t of
        Some c \<Rightarrow> if c \<noteq> '''' then c else
          (case tl (split_on CHR ''/'' (t_pair t)) of [] \<Rightarrow> '''' | q # _ \<Rightarrow> hd (split_on CHR '':'' q))
      | None \<Rightarrow>
          (case tl (split_on CHR ''/'' (t_pair t)) of [] \<Rightarrow> '''' | q # _ \<Rightarrow> hd (split_on CHR '':'' q)))"

definition open_orders :: "trade \<Rightarrow> order list" where
  "open_orders t = filter (\<lambda>x. o_ft_is_open x \<and> o_ft_order_side x \<noteq> ''stoploss'') (t_orders t)"

definition has_open_orders :: "trade \<Rightarrow> bool" where
  "has_open_orders t \<longleftrightarrow>
     length (filter (\<lambda>x. o_ft_order_side x \<notin> set [''stoploss''] \<and> o_ft_is_open x) (t_orders t)) > 0"

definition has_open_position :: "trade \<Rightarrow> bool" where
  "has_open_position t \<longleftrightarrow> t_amount t > 0"

definition open_sl_orders :: "trade \<Rightarrow> order list" where
  "open_sl_orders t = filter (\<lambda>x. o_ft_order_side x \<in> set [''stoploss''] \<and> o_ft_is_open x) (t_orders t)"

definition has_open_sl_orders :: "trade \<Rightarrow> bool" where
  "has_open_sl_orders t \<longleftrightarrow> length (open_sl_orders t) > 0"

definition sl_orders :: "trade \<Rightarrow> order list" where
  "sl_orders t = filter (\<lambda>x. o_ft_order_side x \<in> set [''stoploss'']) (t_orders t)"

definition open_orders_ids :: "trade \<Rightarrow> string list" where
  "open_orders_ids t =
     map o_order_id (filter (\<lambda>x. o_ft_order_side x \<notin> set [''stoploss'']) (open_orders t))"

lemma entry_exit_sides [simp]:
  "entry_side t \<noteq> exit_side t" "exit_side t \<noteq> entry_side t"
  "entry_side t \<noteq> ''stoploss''" "exit_side t \<noteq> ''stoploss''"
  by (simp_all add: entry_side_def exit_side_def)

lemma has_open_orders_iff: "has_open_orders t \<longleftrightarrow> open_orders t \<noteq> []"
  by (auto simp: has_open_orders_def open_orders_def filter_empty_conv)

lemma open_orders_split:
  "length (open_orders t) + length (open_sl_orders t) = length (filter o_ft_is_open (t_orders t))"
proof -
  have "length (filter (\<lambda>x. o_ft_is_open x \<and> o_ft_order_side x \<noteq> ''stoploss'') xs)
      + length (filter (\<lambda>x. o_ft_order_side x \<in> set [''stoploss''] \<and> o_ft_is_open x) xs)
      = length (filter o_ft_is_open xs)" for xs
    by (induction xs) auto
  then show ?thesis by (simp add: open_orders_def open_sl_orders_def)
qed

subsection \<open>Selections over the orders\<close>

definition in_non_open_state :: "order \<Rightarrow> bool" where
  "in_non_open_state x \<longleftrightarrow> (\<exists>st \<in> set NON_OPEN_EXCHANGE_STATES. o_status x = Some st)"

definition in_canceled_state :: "order \<Rightarrow> bool" where
  "in_canceled_state x \<longleftrightarrow> (\<exists>st \<in> set CANCELED_EXCHANGE_STATES. o_status x = Some st)"

definition select_order_by_order_id :: "trade \<Rightarrow> string \<Rightarrow> order option" where
  "select_order_by_order_id t order_id = find (\<lambda>x. o_order_id x = order_id) (t_orders t)"

definition select_order :: "trade \<Rightarrow> string option \<Rightarrow> bool option \<Rightarrow> bool \<Rightarrow> order option" where
  "select_order t side open_only only_filled =
     find (\<lambda>x. \<not> (side \<noteq> None \<and> side \<noteq> Some '''' \<and> Some (o_ft_order_side x) \<noteq> side)
               \<and> \<not> (open_only \<noteq> None \<and> Some (o_ft_is_open x) \<noteq> open_only)
               \<and> \<not> (open_only = Some False \<and> only_filled
                     \<and> (\<not> truthy (o_filled x) \<or> \<not> in_non_open_state x)))
       (rev (t_orders t))"

definition select_filled_orders :: "trade \<Rightarrow> string option \<Rightarrow> order list" where
  "select_filled_orders t side =
     filter (\<lambda>x. (Some (o_ft_order_side x) = side \<or> side = None) \<and> \<not> o_ft_is_open x
                 \<and> truthy (o_filled x) \<and> in_non_open_state x) (t_orders t)"

definition select_filled_or_open_orders :: "trade \<Rightarrow> order list" where
  "select_filled_or_open_orders t =
     filter (\<lambda>x. (\<not> o_ft_is_open x \<and> or_val (o_filled x) 0 > 0 \<and> in_non_open_state x)
                 \<or> (o_ft_is_open x \<and> o_status x \<noteq> None)) (t_orders t)"

definition nr_of_successful_entries :: "trade \<Rightarrow> nat" where
  "nr_of_successful_entries t = length (select_filled_orders t (Some (entry_side t)))"

definition nr_of_successful_exits :: "trade \<Rightarrow> nat" where
  "nr_of_successful_exits t = length (select_filled_orders t (Some (exit_side t)))"

definition nr_of_successful_buys :: "trade \<Rightarrow> nat" where
  "nr_of_successful_buys t = length (select_filled_orders t (Some ''buy''))"

definition nr_of_successful_sells :: "trade \<Rightarrow> nat" where
  "nr_of_successful_sells t = length (select_filled_orders t (Some ''sell''))"

definition fully_canceled_entry_order_count :: "trade \<Rightarrow> nat" where
  "fully_canceled_entry_order_count t =
     length (filter (\<lambda>x. o_ft_order_side x = entry_side t \<and> in_canceled_state x
                         \<and> o_filled x = Some 0) (t_orders t))"

definition canceled_exit_order_count :: "trade \<Rightarrow> nat" where
  "canceled_exit_order_count t =
     length (filter (\<lambda>x. o_ft_order_side x = exit_side t \<and> in_canceled_state x) (t_orders t))"

definition safe_close_rate :: "trade \<Rightarrow> flt" where
  "safe_close_rate t = or_val (t_close_rate t) (or_val (t_close_rate_requested t) 0)"

lemma nr_entries_exits_sides:
  "nr_of_successful_entries t + nr_of_successful_exits t
     = nr_of_successful_buys t + nr_of_successful_sells t"
  by (simp add: nr_of_successful_entries_def nr_of_successful_exits_def nr_of_successful_buys_def
      nr_of_successful_sells_def entry_side_def exit_side_def)

subsection \<open>Dates of the fills\<close>

text \<open>
  \<open>max\<close> of an empty generator raises \<open>ValueError\<close>: filled orders without a fill date.
\<close>

definition p_date_last_filled_utc :: "trade \<Rightarrow> py_error + datetime option" where
  "p_date_last_filled_utc t =
     (let orders = select_filled_orders t None
      in if orders \<noteq> [] then
           (let dates = List.map_filter order_filled_utc orders
            in if dates = [] then Inl ValueError else Inr (Some (max_list dates)))
         else Inr None)"

definition date_last_filled_utc :: "trade \<Rightarrow> py_error + datetime" where
  "date_last_filled_utc t =
     bindE (p_date_last_filled_utc t) (\<lambda>d.
       case d of None \<Rightarrow> Inr (t_open_date t)
       | Some dt_last_filled \<Rightarrow> Inr (max_list [t_open_date t, dt_last_filled]))"

definition date_entry_fill_utc :: "trade \<Rightarrow> datetime option" where
  "date_entry_fill_utc t =
     (let orders = select_filled_orders t (Some (entry_side t));
          filled_date = List.map_filter order_filled_utc orders
      in if orders \<noteq> [] \<and> filled_date \<noteq> [] then Some (min_list_py filled_date) else None)"

lemma date_last_filled_after_open:
  "date_last_filled_utc t = Inr d \<Longrightarrow> t_open_date t \<le> d"
  by (auto simp: date_last_filled_utc_def bindE_eq_Inr max_list_def split: option.splits)

subsection \<open>Fees\<close>

definition update_fee :: "trade \<Rightarrow> flt \<Rightarrow> string option \<Rightarrow> flt option \<Rightarrow> string \<Rightarrow> trade" where
  "update_fee t fee_cost fee_currency fee_rate side =
     (if entry_side t = side \<and> t_fee_open_currency t = None then
        (let t1 = t\<lparr>t_fee_open_cost := Some fee_cost, t_fee_open_currency := fee_currency\<rparr>
         in case fee_rate of None \<Rightarrow> t1
            | Some r \<Rightarrow> t1\<lparr>t_fee_open := r, t_fee_close := Some r\<rparr>)
      else if exit_side t = side \<and> t_fee_close_currency t = None then
        (let t1 = t\<lparr>t_fee_close_cost := Some fee_cost, t_fee_close_currency := fee_currency\<rparr>
         in case fee_rate of None \<Rightarrow> t1 | Some r \<Rightarrow> t1\<lparr>t_fee_close := Some r\<rparr>)
      else t)"

definition fee_updated :: "trade \<Rightarrow> string \<Rightarrow> bool" where
  "fee_updated t side =
     (if entry_side t = side then t_fee_open_currency t \<noteq> None
      else if exit_side t = side then t_fee_close_currency t \<noteq> None
      else False)"

lemma update_fee_sides [simp]:
  "entry_side (update_fee t c cur r side) = entry_side t"
  "exit_side (update_fee t c cur r side) = exit_side t"
  by (simp_all add: update_fee_def entry_side_def exit_side_def Let_def split: option.split)

lemma update_fee_noop: "fee_updated t side \<Longrightarrow> update_fee t c cur r side = t"
  using entry_exit_sides(1) [of t]
  by (cases "entry_side t = side") (auto simp: update_fee_def fee_updated_def split: if_splits)

lemma update_fee_marks:
  assumes "side \<in> {entry_side t, exit_side t}"
  shows "fee_updated (update_fee t c (Some cur) r side) side"
proof (cases "entry_side t = side")
  case True
  then have "t_fee_open_currency (update_fee t c (Some cur) r side) \<noteq> None"
    using entry_exit_sides(1) [of t] by (simp add: update_fee_def Let_def split: option.split)
  with True show ?thesis by (simp add: fee_updated_def)
next
  case False
  with assms have "t_fee_close_currency (update_fee t c (Some cur) r side) \<noteq> None"
    by (simp add: update_fee_def Let_def split: option.split)
  with False assms show ?thesis by (simp add: fee_updated_def)
qed

lemma update_fee_twice:
  "update_fee (update_fee t c (Some cur) r side) c' cur' r' side = update_fee t c (Some cur) r side"
proof (cases "side \<in> {entry_side t, exit_side t}")
  case True
  then show ?thesis by (rule update_fee_noop [OF update_fee_marks])
next
  case False
  then have "update_fee t' c cur r side = t'"
    if "entry_side t' = entry_side t" "exit_side t' = exit_side t" for t' c cur r
    using that by (auto simp: update_fee_def)
  then show ?thesis by simp
qed

subsection \<open>Rates and fees that are only recorded\<close>

definition adjust_min_max_rates :: "trade \<Rightarrow> flt \<Rightarrow> flt \<Rightarrow> trade" where
  "adjust_min_max_rates t current_price current_price_low =
     t\<lparr>t_max_rate := Some (max current_price (or_val (t_max_rate t) (t_open_rate t))),
       t_min_rate := Some (min current_price_low (or_val (t_min_rate t) (t_open_rate t)))\<rparr>"

definition set_funding_fees :: "trade \<Rightarrow> flt option \<Rightarrow> trade" where
  "set_funding_fees t funding_fee =
     (case funding_fee of None \<Rightarrow> t
      | Some f \<Rightarrow>
          (let prior = sum_list (map (\<lambda>x. or_val (o_funding_fee x) 0) (t_orders t))
           in t\<lparr>t_funding_fee_running := Some f, t_funding_fees := Some (prior + f)\<rparr>))"

definition set_liquidation_price :: "ccxt \<Rightarrow> trade \<Rightarrow> flt option \<Rightarrow> py_error + trade" where
  "set_liquidation_price C t liquidation_price =
     (case liquidation_price of None \<Rightarrow> Inr t
      | Some l \<Rightarrow>
          bindE (price_to_precision C l (t_price_precision t) (t_precision_mode_price t) ROUND)
            (\<lambda>p. Inr (t\<lparr>t_liquidation_price := Some p\<rparr>)))"

lemma adjust_min_max_rates_bounds:
  assumes "adjust_min_max_rates t hi lo = t'" and "lo \<le> hi"
  shows "\<exists>mx mn. t_max_rate t' = Some mx \<and> t_min_rate t' = Some mn \<and> hi \<le> mx \<and> mn \<le> lo"
  using assms by (auto simp: adjust_min_max_rates_def)

end
