(* ===== verification/Trade_Stops.thy ===== *)
theory Trade_Stops
  imports Trade
begin

text \<open>
  The stop loss of a trade: \<open>LocalTrade.adjust_stop_loss\<close> and its helper, and
  \<open>stoploss_reinitialization\<close>. The stop of a long trade only walks up and that of a short trade
  only down, unless the caller asks for a refresh.
\<close>

section \<open>Setting and adjusting the stop\<close>

definition set_stop_loss :: "trade \<Rightarrow> flt \<Rightarrow> flt \<Rightarrow> trade" where
  "set_stop_loss t stop_loss percent =
     (let t1 = (if t_stop_loss t = 0 then t\<lparr>t_initial_stop_loss := Some stop_loss\<rparr> else t)
      in t1\<lparr>t_stop_loss := stop_loss, t_stop_loss_pct := Some (- 1 * \<bar>percent\<bar>)\<rparr>)"

text \<open>
  The closing log line formats \<open>self.initial_stop_loss\<close> with \<open>:.8f\<close>, which raises
  \<open>TypeError\<close> when it is \<open>None\<close>.
\<close>

definition adjust_stop_loss ::
    "ccxt \<Rightarrow> flt \<Rightarrow> flt option \<Rightarrow> bool \<Rightarrow> bool \<Rightarrow> trade \<Rightarrow> py_error + trade" where
  "adjust_stop_loss C current_price stoploss initial allow_refresh t =
     (case stoploss of None \<Rightarrow> Inr t
      | Some sl \<Rightarrow>
        if initial \<and> t_stop_loss t \<noteq> 0 then Inr t
        else
          (let leverage = leverage_or_1 t;
               new_loss = (if t_is_short t then current_price * (1 + \<bar>sl / leverage\<bar>)
                           else current_price * (1 - \<bar>sl / leverage\<bar>));
               rounding = (if t_is_short t then ROUND_DOWN else ROUND_UP)
           in bindE (price_to_precision C new_loss (t_price_precision t) (t_precision_mode_price t) rounding)
                (\<lambda>stop_loss_norm.
                   bindE
                     (if t_initial_stop_loss_pct t = None then
                        (let t1 = set_stop_loss t stop_loss_norm sl
                         in bindE (price_to_precision C stop_loss_norm (t_price_precision t)
                                     (t_precision_mode_price t) rounding)
                              (\<lambda>isl. Inr (t1\<lparr>t_initial_stop_loss := Some isl,
                                            t_initial_stop_loss_pct := Some (- 1 * \<bar>sl\<bar>)\<rparr>)))
                      else
                        (let higher_stop = stop_loss_norm > t_stop_loss t;
                             lower_stop = stop_loss_norm < t_stop_loss t
                         in if allow_refresh \<or> (higher_stop \<and> \<not> t_is_short t) \<or> (lower_stop \<and> t_is_short t)
                            then (let t1 = (if \<not> allow_refresh then t\<lparr>t_is_stop_loss_trailing := True\<rparr> else t)
                                  in Inr (set_stop_loss t1 stop_loss_norm sl))
                            else Inr t))
                     (\<lambda>t2. if t_initial_stop_loss t2 = None then Inl TypeError else Inr t2))))"

text \<open>Every open trade whose stop did not trail gets the strategy's stop anew.\<close>

definition reinit_trade :: "ccxt \<Rightarrow> flt \<Rightarrow> trade \<Rightarrow> py_error + trade" where
  "reinit_trade C desired_stoploss t =
     (if \<not> t_is_stop_loss_trailing t \<and> t_initial_stop_loss_pct t \<noteq> Some desired_stoploss
      then adjust_stop_loss C (t_open_rate t) (Some desired_stoploss) False False
             (t\<lparr>t_stop_loss := 0, t_initial_stop_loss_pct := None\<rparr>)
      else Inr t)"

fun stoploss_reinitialization :: "ccxt \<Rightarrow> flt \<Rightarrow> trade list \<Rightarrow> py_error + trade list" where
  "stoploss_reinitialization C desired_stoploss [] = Inr []"
| "stoploss_reinitialization C desired_stoploss (t # ts) =
     bindE (reinit_trade C desired_stoploss t) (\<lambda>t'.
       bindE (stoploss_reinitialization C desired_stoploss ts) (\<lambda>ts'. Inr (t' # ts')))"

section \<open>The ratchet\<close>

text \<open>How far the stop has moved in the direction that protects the position.\<close>

definition stop_level :: "trade \<Rightarrow> flt" where
  "stop_level t = (if t_is_short t then - t_stop_loss t else t_stop_loss t)"

definition stop_armed :: "trade \<Rightarrow> bool" where
  "stop_armed t \<longleftrightarrow> t_initial_stop_loss_pct t \<noteq> None"

lemma set_stop_loss_simps [simp]:
  "t_stop_loss (set_stop_loss t x p) = x"
  "t_stop_loss_pct (set_stop_loss t x p) = Some (- \<bar>p\<bar>)"
  "t_is_short (set_stop_loss t x p) = t_is_short t"
  "t_initial_stop_loss_pct (set_stop_loss t x p) = t_initial_stop_loss_pct t"
  "t_is_stop_loss_trailing (set_stop_loss t x p) = t_is_stop_loss_trailing t"
  "t_is_open (set_stop_loss t x p) = t_is_open t"
  "t_orders (set_stop_loss t x p) = t_orders t"
  "t_amount (set_stop_loss t x p) = t_amount t"
  "t_open_rate (set_stop_loss t x p) = t_open_rate t"
  "t_open_trade_value (set_stop_loss t x p) = t_open_trade_value t"
  "t_fee_open (set_stop_loss t x p) = t_fee_open t"
  "t_close_rate (set_stop_loss t x p) = t_close_rate t"
  "t_close_date (set_stop_loss t x p) = t_close_date t"
  "t_close_profit (set_stop_loss t x p) = t_close_profit t"
  "t_close_profit_abs (set_stop_loss t x p) = t_close_profit_abs t"
  "t_exit_order_status (set_stop_loss t x p) = t_exit_order_status t"
  "t_funding_fees (set_stop_loss t x p) = t_funding_fees t"
  "t_max_stake_amount (set_stop_loss t x p) = t_max_stake_amount t"
  "t_stake_amount (set_stop_loss t x p) = t_stake_amount t"
  "t_leverage (set_stop_loss t x p) = t_leverage t"
  "t_liquidation_price (set_stop_loss t x p) = t_liquidation_price t"
  "t_realized_profit (set_stop_loss t x p) = t_realized_profit t"
  by (simp_all add: set_stop_loss_def Let_def)

text \<open>The three outcomes of an adjustment that was not refused.\<close>

lemma adjust_stop_loss_cases:
  assumes "adjust_stop_loss C price sl initial refresh t = Inr t'"
  obtains (unchanged) "t' = t"
  | (first) x p isl where "sl = Some p" and "t_initial_stop_loss_pct t = None"
      and "t' = set_stop_loss t x p\<lparr>t_initial_stop_loss := Some isl,
                                     t_initial_stop_loss_pct := Some (- \<bar>p\<bar>)\<rparr>"
      and "price_to_precision C
             (if t_is_short t then price * (1 + \<bar>p / leverage_or_1 t\<bar>) else price * (1 - \<bar>p / leverage_or_1 t\<bar>))
             (t_price_precision t) (t_precision_mode_price t)
             (if t_is_short t then ROUND_DOWN else ROUND_UP) = Inr x"
  | (moved) x p where "sl = Some p" and "t_initial_stop_loss_pct t \<noteq> None"
      and "t' = set_stop_loss (if refresh then t else t\<lparr>t_is_stop_loss_trailing := True\<rparr>) x p"
      and "refresh \<or> (if t_is_short t then x < t_stop_loss t else t_stop_loss t < x)"
      and "price_to_precision C
             (if t_is_short t then price * (1 + \<bar>p / leverage_or_1 t\<bar>) else price * (1 - \<bar>p / leverage_or_1 t\<bar>))
             (t_price_precision t) (t_precision_mode_price t)
             (if t_is_short t then ROUND_DOWN else ROUND_UP) = Inr x"
proof (cases sl)
  case None
  with assms have "t' = t" by (simp add: adjust_stop_loss_def)
  then show ?thesis by (rule unchanged)
next
  case (Some p)
  show ?thesis
  proof (cases "initial \<and> t_stop_loss t \<noteq> 0")
    case True
    with assms Some have "t' = t" by (simp add: adjust_stop_loss_def)
    then show ?thesis by (rule unchanged)
  next
    case False
    let ?n = "if t_is_short t then price * (1 + \<bar>p / leverage_or_1 t\<bar>)
              else price * (1 - \<bar>p / leverage_or_1 t\<bar>)"
    let ?r = "if t_is_short t then ROUND_DOWN else ROUND_UP"
    from assms Some False obtain x where
      x: "price_to_precision C ?n (t_price_precision t) (t_precision_mode_price t) ?r = Inr x"
      by (auto simp: adjust_stop_loss_def Let_def bindE_eq_Inr split: if_splits)
    show ?thesis
    proof (cases "t_initial_stop_loss_pct t")
      case None
      with assms Some False x show ?thesis
        by (auto simp: adjust_stop_loss_def Let_def bindE_eq_Inr simp del: set_stop_loss_simps
            split: if_splits intro!: first)
    next
      case (Some q)
      with assms \<open>sl = Some p\<close> False x show ?thesis
        by (cases "t_is_short t"; cases refresh)
          (auto simp: adjust_stop_loss_def Let_def bindE_eq_Inr simp del: set_stop_loss_simps
            split: if_splits intro: moved unchanged)
    qed
  qed
qed

lemma adjust_stop_loss_frame:
  assumes "adjust_stop_loss C price sl initial refresh t = Inr t'"
  shows "t_is_short t' = t_is_short t" "t_is_open t' = t_is_open t" "t_orders t' = t_orders t"
    "t_amount t' = t_amount t" "t_open_rate t' = t_open_rate t"
    "t_open_trade_value t' = t_open_trade_value t" "t_fee_open t' = t_fee_open t"
    "t_close_rate t' = t_close_rate t" "t_close_date t' = t_close_date t"
    "t_close_profit t' = t_close_profit t" "t_close_profit_abs t' = t_close_profit_abs t"
    "t_exit_order_status t' = t_exit_order_status t" "t_funding_fees t' = t_funding_fees t"
    "t_max_stake_amount t' = t_max_stake_amount t" "t_stake_amount t' = t_stake_amount t"
    "t_leverage t' = t_leverage t" "t_liquidation_price t' = t_liquidation_price t"
    "t_realized_profit t' = t_realized_profit t"
  using assms by (cases rule: adjust_stop_loss_cases; simp)+

lemma adjust_stop_loss_armed:
  assumes "adjust_stop_loss C price sl initial refresh t = Inr t'" and "stop_armed t"
  shows "stop_armed t'"
  using assms by (cases rule: adjust_stop_loss_cases) (auto simp: stop_armed_def)

lemma adjust_stop_loss_level:
  assumes "adjust_stop_loss C price sl initial False t = Inr t'" and "stop_armed t"
  shows "stop_level t \<le> stop_level t'"
  using assms by (cases rule: adjust_stop_loss_cases) (auto simp: stop_armed_def stop_level_def)

text \<open>
  Adjustments without refresh, in any number and order, are a run of
  \<^theory_text>\<open>monotone_steps\<close>. An adjustment is the triple of its price, its stop and its
  \<open>initial\<close> flag.
\<close>

definition adjust_step :: "ccxt \<Rightarrow> flt \<times> flt option \<times> bool \<Rightarrow> trade \<Rightarrow> py_error + trade" where
  "adjust_step C = (\<lambda>(price, sl, initial). adjust_stop_loss C price sl initial False)"

definition stop_below :: "trade \<Rightarrow> trade \<Rightarrow> bool" where
  "stop_below t t' \<longleftrightarrow> t_is_short t = t_is_short t' \<and> stop_level t \<le> stop_level t'"

interpretation ratchet: monotone_steps "adjust_step C" stop_armed stop_below for C
proof
  fix t t' u :: trade and e
  show "stop_below t t" by (simp add: stop_below_def)
  show "stop_below t t' \<Longrightarrow> stop_below t' u \<Longrightarrow> stop_below t u"
    by (auto simp: stop_below_def)
  assume t: "stop_armed t" and "adjust_step C e t = Inr t'"
  then obtain price sl i where e: "adjust_stop_loss C price sl i False t = Inr t'"
    by (cases e) (auto simp: adjust_step_def)
  from adjust_stop_loss_armed [OF e t] show "stop_armed t'" .
  from adjust_stop_loss_frame(1) [OF e] adjust_stop_loss_level [OF e t] show "stop_below t t'"
    by (simp add: stop_below_def)
qed

text \<open>The stop loss of a trade never moves against the position. However many
  adjustments are made, at whatever prices and with whatever stop ratios, once an initial stop is
  set the stop of a long trade only rises and the stop of a short trade only falls, as long as no
  adjustment asks for a refresh.\<close>

theorem stop_only_tightens:
  assumes "t_initial_stop_loss_pct t \<noteq> None"
    and "runE (adjust_step C) es t = Inr t'"
  shows "t_is_short t' = t_is_short t
    \<and> (if t_is_short t then t_stop_loss t' \<le> t_stop_loss t else t_stop_loss t \<le> t_stop_loss t')"
proof -
  from assms have "stop_below t t'"
    by (intro ratchet.run_below) (simp_all add: stop_armed_def)
  then show ?thesis
    by (auto simp: stop_below_def stop_level_def)
qed

definition example_trade :: trade where
  "example_trade = \<lparr>
     t_id = 1, t_orders = [], t_exchange = ''binance'', t_pair = ''ETH/USDT'',
     t_base_currency = Some ''ETH'', t_stake_currency = Some ''USDT'', t_is_open = True,
     t_fee_open = 0, t_fee_open_cost = None, t_fee_open_currency = None, t_fee_close = Some 0,
     t_fee_close_cost = None, t_fee_close_currency = None, t_open_rate = 100,
     t_open_trade_value = 200, t_close_rate = None, t_close_rate_requested = None,
     t_close_profit = None, t_close_profit_abs = None, t_realized_profit = 0,
     t_stake_amount = 200, t_max_stake_amount = Some 200, t_amount = 2, t_open_date = 0,
     t_close_date = None, t_stop_loss = 0, t_stop_loss_pct = None, t_initial_stop_loss = None,
     t_initial_stop_loss_pct = None, t_is_stop_loss_trailing = False, t_max_rate = None,
     t_min_rate = None, t_exit_reason = None, t_exit_order_status = None, t_enter_tag = None,
     t_trading_mode = Some SPOT, t_amount_precision = None, t_price_precision = Some 2,
     t_precision_mode = None, t_precision_mode_price = Some DECIMAL_PLACES,
     t_contract_size = None, t_liquidation_price = None, t_is_short = False, t_leverage = 1,
     t_interest_rate = Some 0, t_funding_fees = None, t_funding_fee_running = None\<rparr>"

definition example_stopped :: trade where
  "example_stopped = example_trade\<lparr>t_stop_loss := 90, t_stop_loss_pct := Some (-1/10),
     t_initial_stop_loss := Some 90, t_initial_stop_loss_pct := Some (-1/10)\<rparr>"

lemma example_adjust:
  "runE (adjust_step ccxt_example) [(110, Some (-1/10), False), (80, Some (-1/10), False)] example_stopped
     = Inr (example_stopped\<lparr>t_stop_loss := 99, t_is_stop_loss_trailing := True\<rparr>)"
  by (simp add: adjust_step_def adjust_stop_loss_def example_stopped_def example_trade_def
      leverage_or_1_def price_to_precision_def Let_def set_stop_loss_def
      round_half_even_of_int [of 2, simplified])

theorem stop_only_tightens_witness:
  "t_stop_loss example_stopped
     \<le> t_stop_loss (example_stopped\<lparr>t_stop_loss := 99, t_is_stop_loss_trailing := True\<rparr>)"
  using stop_only_tightens [OF _ example_adjust]
  by (simp add: example_stopped_def example_trade_def)

section \<open>The stop and the risk asked for\<close>

text \<open>A stop that an adjustment sets never risks more than the stop ratio asked for.
  With prices rounded by the code itself (no precision, \<open>DECIMAL_PLACES\<close> or
  \<open>SIGNIFICANT_DIGITS\<close>) the new stop of a long trade lies at or above
  \<open>price * (1 - |stoploss / leverage|)\<close> and that of a short trade at or below
  \<open>price * (1 + |stoploss / leverage|)\<close>.\<close>

theorem stop_within_requested_risk:
  assumes "adjust_stop_loss C price (Some p) initial refresh t = Inr t'"
    and "t_precision_mode_price t \<in> {None, Some DECIMAL_PLACES, Some SIGNIFICANT_DIGITS}"
    and "0 \<le> price" and "\<bar>p / leverage_or_1 t\<bar> \<le> 1"
  shows "t' = t
    \<or> (if t_is_short t then t_stop_loss t' \<le> price * (1 + \<bar>p / leverage_or_1 t\<bar>)
        else price * (1 - \<bar>p / leverage_or_1 t\<bar>) \<le> t_stop_loss t')"
proof -
  let ?n = "if t_is_short t then price * (1 + \<bar>p / leverage_or_1 t\<bar>)
            else price * (1 - \<bar>p / leverage_or_1 t\<bar>)"
  have n: "0 \<le> ?n" using assms(3,4) by simp
  note dir = price_toward_risk [OF assms(2) n, of C "t_price_precision t" "t_is_short t"]
  from assms(1) show ?thesis
  proof (cases rule: adjust_stop_loss_cases)
    case unchanged
    then show ?thesis by blast
  next
    case (first x p' isl)
    with dir [of x] show ?thesis by (auto split: if_splits)
  next
    case (moved x p')
    with dir [of x] show ?thesis by (auto split: if_splits)
  qed
qed

theorem stop_within_requested_risk_witness:
  "90 \<le> t_stop_loss (example_trade\<lparr>t_stop_loss := 90, t_stop_loss_pct := Some (-1/10),
      t_initial_stop_loss := Some 90, t_initial_stop_loss_pct := Some (-1/10)\<rparr>)"
proof -
  have "adjust_stop_loss ccxt_example 100 (Some (-1/10)) False False example_trade
      = Inr (example_trade\<lparr>t_stop_loss := 90, t_stop_loss_pct := Some (-1/10),
              t_initial_stop_loss := Some 90, t_initial_stop_loss_pct := Some (-1/10)\<rparr>)"
    by (simp add: adjust_stop_loss_def example_trade_def leverage_or_1_def price_to_precision_def
        Let_def set_stop_loss_def round_half_even_of_int [of 2, simplified])
  from stop_within_requested_risk [OF this] show ?thesis
    by (simp add: example_trade_def leverage_or_1_def)
qed

end
