(* ===== verification/Trade_Profit.thy ===== *)
theory Trade_Profit
  imports Trade
begin

text \<open>
  Values and profits of a trade: \<open>freqtrade/leverage/interest.py\<close> and the \<open>calc_*\<close> methods of
  \<open>LocalTrade\<close>. \<open>now\<close> is the clock that \<open>calculate_interest\<close> reads for a trade that is not
  closed.
\<close>

section \<open>Interest\<close>

definition interest :: "ccxt \<Rightarrow> string \<Rightarrow> flt \<Rightarrow> flt \<Rightarrow> flt \<Rightarrow> py_error + flt" where
  "interest C exchange_name borrow rate hours =
     (let name = str_lower exchange_name
      in if name = ''binance'' then
           Inr (precise_div C (borrow * rate * of_int \<lceil>hours\<rceil>) 24)
         else if name = ''kraken'' then
           Inr (borrow * rate * (1 + of_int \<lceil>precise_div C hours 4\<rceil>))
         else Inl OperationalException)"

definition calculate_interest :: "ccxt \<Rightarrow> datetime \<Rightarrow> trade \<Rightarrow> py_error + flt" where
  "calculate_interest C now t =
     (if t_trading_mode t \<noteq> Some MARGIN \<or> has_no_leverage t then Inr 0
      else
        (let until = (case t_close_date t of Some d \<Rightarrow> d | None \<Rightarrow> now);
             total_seconds = of_int (until - t_open_date t) / 1000000;
             hours = precise_div C total_seconds 3600
         in case t_interest_rate t of None \<Rightarrow> Inl ValueError
            | Some rate \<Rightarrow> interest C (t_exchange t) (borrowed t) rate hours))"

section \<open>Open and close value\<close>

definition calc_open_trade_value :: "trade \<Rightarrow> flt \<Rightarrow> flt \<Rightarrow> flt" where
  "calc_open_trade_value t amount open_rate =
     (let open_value = amount * open_rate; fees = open_value * t_fee_open t
      in if t_is_short t then open_value - fees else open_value + fees)"

definition recalc_open_trade_value :: "trade \<Rightarrow> trade" where
  "recalc_open_trade_value t =
     t\<lparr>t_open_trade_value := calc_open_trade_value t (t_amount t) (t_open_rate t)\<rparr>"

definition calc_base_close :: "trade \<Rightarrow> flt \<Rightarrow> flt \<Rightarrow> flt option \<Rightarrow> flt" where
  "calc_base_close t amount rate fee =
     (let close_value = amount * rate; fees = close_value * or_val fee 0
      in if t_is_short t then close_value + fees else close_value - fees)"

definition trading_mode_or_spot :: "trade \<Rightarrow> trading_mode" where
  "trading_mode_or_spot t = (case t_trading_mode t of None \<Rightarrow> SPOT | Some m \<Rightarrow> m)"

definition calc_close_trade_value ::
    "ccxt \<Rightarrow> datetime \<Rightarrow> trade \<Rightarrow> flt option \<Rightarrow> flt option \<Rightarrow> py_error + flt" where
  "calc_close_trade_value C now t rate amount =
     (case rate of
        None \<Rightarrow> if \<not> truthy (t_close_rate t) then Inr 0 else Inl ValueError
      | Some r \<Rightarrow>
          (let amount1 = or_val amount (t_amount t)
           in case trading_mode_or_spot t of
                SPOT \<Rightarrow> Inr (calc_base_close t amount1 r (t_fee_close t))
              | MARGIN \<Rightarrow>
                  bindE (calculate_interest C now t) (\<lambda>total_interest.
                    if t_is_short t
                    then Inr (calc_base_close t (amount1 + total_interest) r (t_fee_close t))
                    else Inr (calc_base_close t amount1 r (t_fee_close t) - total_interest))
              | FUTURES \<Rightarrow>
                  (let funding_fees = or_val (t_funding_fees t) 0
                   in if t_is_short t
                      then Inr (calc_base_close t amount1 r (t_fee_close t) - funding_fees)
                      else Inr (calc_base_close t amount1 r (t_fee_close t) + funding_fees))))"

section \<open>Profit\<close>

record profit_struct =
  profit_abs :: flt
  profit_ratio :: flt
  total_profit :: flt
  total_profit_ratio :: flt

definition raw_profit_ratio :: "trade \<Rightarrow> flt \<Rightarrow> flt \<Rightarrow> flt" where
  "raw_profit_ratio t close_value open_value =
     (if t_is_short t then (1 - close_value / open_value) * t_leverage t
      else (close_value / open_value - 1) * t_leverage t)"

definition calculate_profit ::
    "ccxt \<Rightarrow> datetime \<Rightarrow> trade \<Rightarrow> flt option \<Rightarrow> flt option \<Rightarrow> flt option \<Rightarrow> py_error + profit_struct" where
  "calculate_profit C now t rate amount open_rate =
     bindE (calc_close_trade_value C now t rate amount) (\<lambda>close_value.
       let open_value = (case (amount, open_rate) of
                           (Some a, Some r) \<Rightarrow> calc_open_trade_value t a r
                         | _ \<Rightarrow> t_open_trade_value t);
           p_abs = (if t_is_short t then open_value - close_value else close_value - open_value);
           ratio = (if open_value = 0 then 0
                    else py_round (raw_profit_ratio t close_value open_value) 8);
           total_abs = p_abs + t_realized_profit t
       in bindE
            (if truthy (t_max_stake_amount t) then
               (let max_stake = the (t_max_stake_amount t)
                      * (if t_is_short t then 1 - t_fee_open t else 1 + t_fee_open t)
                in if max_stake = 0 then Inl ZeroDivisionError
                   else Inr (py_round (total_abs / max_stake) 8))
             else Inr 0)
            (\<lambda>total_ratio.
               Inr \<lparr>profit_abs = py_round p_abs 8, profit_ratio = ratio,
                    total_profit = py_round total_abs 8, total_profit_ratio = total_ratio\<rparr>))"

definition calc_profit ::
    "ccxt \<Rightarrow> datetime \<Rightarrow> trade \<Rightarrow> flt option \<Rightarrow> flt option \<Rightarrow> flt option \<Rightarrow> py_error + flt" where
  "calc_profit C now t rate amount open_rate =
     bindE (calculate_profit C now t rate amount open_rate) (\<lambda>p. Inr (profit_abs p))"

definition calc_profit_ratio ::
    "ccxt \<Rightarrow> datetime \<Rightarrow> trade \<Rightarrow> flt option \<Rightarrow> flt option \<Rightarrow> flt option \<Rightarrow> py_error + flt" where
  "calc_profit_ratio C now t rate amount open_rate =
     bindE (calc_close_trade_value C now t rate amount) (\<lambda>close_value.
       let open_value =
             (if amount = None \<and> open_rate = None then t_open_trade_value t
              else calc_open_trade_value t (or_val amount (t_amount t)) (or_val open_rate (t_open_rate t)))
       in if open_value = 0 then Inr 0
          else Inr (py_round (raw_profit_ratio t close_value open_value) 8))"

definition calc_close_rate_for_roi :: "ccxt \<Rightarrow> datetime \<Rightarrow> trade \<Rightarrow> flt \<Rightarrow> py_error + flt" where
  "calc_close_rate_for_roi C now t target_roi =
     (let deleveraged_roi = target_roi / leverage_or_1 t;
          open_value = calc_open_trade_value t (t_amount t) (t_open_rate t)
      in bindE (calc_close_trade_value C now t (Some 0) None) (\<lambda>value_at_0.
         bindE (calc_close_trade_value C now t (Some 1) None) (\<lambda>value_at_1.
           let alpha = value_at_1 - value_at_0;
               beta = value_at_0;
               s = (if t_is_short t then -1 else 1);
               adj = 1 + deleveraged_roi / s
           in if alpha = 0 then Inl ZeroDivisionError
              else Inr ((adj * open_value - beta) / alpha))))"

section \<open>The close value is affine in the rate\<close>

lemma calc_base_close_affine:
  "calc_base_close t a x f =
     calc_base_close t a 0 f + x * (calc_base_close t a 1 f - calc_base_close t a 0 f)"
  by (simp add: calc_base_close_def Let_def algebra_simps)

lemma close_value_affine:
  assumes "calc_close_trade_value C now t (Some 0) a = Inr v0"
    and "calc_close_trade_value C now t (Some 1) a = Inr v1"
  shows "calc_close_trade_value C now t (Some x) a = Inr (v0 + x * (v1 - v0))"
proof (cases "trading_mode_or_spot t")
  case SPOT
  with assms show ?thesis
    by (auto simp: calc_close_trade_value_def Let_def intro: calc_base_close_affine)
next
  case MARGIN
  with assms obtain i where "calculate_interest C now t = Inr i"
    by (auto simp: calc_close_trade_value_def Let_def bindE_eq_Inr)
  with MARGIN assms show ?thesis
    using calc_base_close_affine [of t _ x "t_fee_close t"]
    by (auto simp: calc_close_trade_value_def Let_def split: if_splits)
next
  case FUTURES
  with assms show ?thesis
    using calc_base_close_affine [of t _ x "t_fee_close t"]
    by (auto simp: calc_close_trade_value_def Let_def split: if_splits)
qed

lemma close_value_error_independent_of_rate:
  assumes "calc_close_trade_value C now t (Some x) a = Inl e"
  shows "calc_close_trade_value C now t (Some y) a = Inl e"
  using assms
  by (cases "trading_mode_or_spot t"; cases "calculate_interest C now t")
    (auto simp: calc_close_trade_value_def Let_def split: if_splits)

lemma raw_profit_ratio_at_target:
  assumes "open_value \<noteq> 0" and "t_leverage t \<noteq> 0"
    and "close_value = (1 + roi / t_leverage t / (if t_is_short t then -1 else 1)) * open_value"
  shows "raw_profit_ratio t close_value open_value = roi"
  using assms by (cases "t_is_short t") (simp_all add: raw_profit_ratio_def field_simps)

text \<open>Property C35: the close rate computed for a target return reaches exactly that return. In every
  trading mode and direction, when \<open>calc_close_rate_for_roi\<close> yields a rate and the recorded open
  value is the one of the current amount and open rate, \<open>calc_profit_ratio\<close> at that rate is the
  target, rounded to 8 places.\<close>

theorem close_rate_for_roi_roundtrip:
  assumes "calc_close_rate_for_roi C now t roi = Inr r"
    and "t_open_trade_value t = calc_open_trade_value t (t_amount t) (t_open_rate t)"
    and "t_open_trade_value t \<noteq> 0" and "t_leverage t \<noteq> 0"
  shows "calc_profit_ratio C now t (Some r) None None = Inr (py_round roi 8)"
proof -
  let ?adj = "1 + roi / t_leverage t / (if t_is_short t then -1 else 1)"
  from assms(1,4) obtain v0 v1 where
    v0: "calc_close_trade_value C now t (Some 0) None = Inr v0" and
    v1: "calc_close_trade_value C now t (Some 1) None = Inr v1" and
    alpha: "v1 - v0 \<noteq> 0" and
    r: "r = (?adj * t_open_trade_value t - v0) / (v1 - v0)"
    by (auto simp: calc_close_rate_for_roi_def Let_def bindE_eq_Inr leverage_or_1_def assms(2)
        split: if_splits)
  from close_value_affine [OF v0 v1, of r] r alpha
  have "calc_close_trade_value C now t (Some r) None = Inr (?adj * t_open_trade_value t)"
    by simp
  with raw_profit_ratio_at_target [OF assms(3,4) refl] assms(3) show ?thesis
    by (simp add: calc_profit_ratio_def)
qed

definition example_short_trade :: trade where
  "example_short_trade = \<lparr>
     t_id = 2, t_orders = [], t_exchange = ''binance'', t_pair = ''ETH/USDT:USDT'',
     t_base_currency = Some ''ETH'', t_stake_currency = Some ''USDT'', t_is_open = True,
     t_fee_open = 0, t_fee_open_cost = None, t_fee_open_currency = None, t_fee_close = Some 0,
     t_fee_close_cost = None, t_fee_close_currency = None, t_open_rate = 100,
     t_open_trade_value = 200, t_close_rate = None, t_close_rate_requested = None,
     t_close_profit = None, t_close_profit_abs = None, t_realized_profit = 0,
     t_stake_amount = 100, t_max_stake_amount = Some 100, t_amount = 2, t_open_date = 0,
     t_close_date = None, t_stop_loss = 0, t_stop_loss_pct = None, t_initial_stop_loss = None,
     t_initial_stop_loss_pct = None, t_is_stop_loss_trailing = False, t_max_rate = None,
     t_min_rate = None, t_exit_reason = None, t_exit_order_status = None, t_enter_tag = None,
     t_trading_mode = Some FUTURES, t_amount_precision = None, t_price_precision = None,
     t_precision_mode = None, t_precision_mode_price = None,
     t_contract_size = None, t_liquidation_price = None, t_is_short = True, t_leverage = 2,
     t_interest_rate = Some 0, t_funding_fees = Some 4, t_funding_fee_running = None\<rparr>"

theorem close_rate_for_roi_roundtrip_witness:
  "calc_profit_ratio ccxt_example 0 example_short_trade (Some 92) None None = Inr (py_round (1/5) 8)"
  by (rule close_rate_for_roi_roundtrip)
    (simp_all add: calc_close_rate_for_roi_def calc_close_trade_value_def example_short_trade_def
      calc_open_trade_value_def calc_base_close_def trading_mode_or_spot_def leverage_or_1_def Let_def)

end
