(* ===== verification/Trade_Recalc.thy ===== *)
theory Trade_Recalc
  imports Trade_Stops Trade_Profit
begin

text \<open>
  Position bookkeeping of a trade: \<open>recalc_trade_from_orders\<close> replays the orders of a trade,
  \<open>update_trade\<close> and \<open>close\<close> react to an order of the exchange, \<open>close_bt_order\<close> to a
  simulated fill. Orders are addressed by their position in the trade's list. When an exception
  escapes, Python leaves the object partly written; the model returns the exception only.
\<close>

section \<open>Replaying the orders\<close>

text \<open>
  The local variables of the loop. \<open>price\<close> and \<open>prof\<close> are unbound until an iteration assigns
  them, and keep the value of an earlier iteration afterwards.
\<close>

record recalc_acc =
  ra_self :: trade
  ra_amount :: flt
  ra_stake :: flt
  ra_max_stake :: flt
  ra_total_stake :: flt
  ra_avg_price :: flt
  ra_close_profit :: flt
  ra_close_profit_abs :: flt
  ra_total_funding :: flt
  ra_current_funding :: flt
  ra_price :: "flt option"
  ra_prof :: "profit_struct option"

definition recalc_init :: "trade \<Rightarrow> recalc_acc" where
  "recalc_init t = \<lparr>
     ra_self = t\<lparr>t_funding_fees := Some 0\<rparr>, ra_amount = 0, ra_stake = 0, ra_max_stake = 0,
     ra_total_stake = 0, ra_avg_price = 0, ra_close_profit = 0, ra_close_profit_abs = 0,
     ra_total_funding = 0, ra_current_funding = 0, ra_price = None, ra_prof = None\<rparr>"

text \<open>The position arithmetic of one order: everything but profit and funding.\<close>

definition recalc_position :: "ccxt \<Rightarrow> bool \<Rightarrow> flt \<Rightarrow> flt \<Rightarrow> recalc_acc \<Rightarrow> recalc_acc" where
  "recalc_position C is_exit tmp_amount tmp_price a =
     (if tmp_amount > 0 then
        (let side = (if is_exit then -1 else 1);
             amount = ra_amount a + tmp_amount * side;
             price = (if is_exit then ra_avg_price a else tmp_price);
             stake = ra_stake a + price * tmp_amount * side;
             avg = (if amount > 0 \<and> \<not> is_exit then precise_div C stake amount else ra_avg_price a)
         in a\<lparr>ra_amount := amount, ra_price := Some price, ra_stake := stake, ra_avg_price := avg\<rparr>)
      else a)"

definition recalc_exit ::
    "ccxt \<Rightarrow> datetime \<Rightarrow> order \<Rightarrow> recalc_acc \<Rightarrow> py_error + recalc_acc" where
  "recalc_exit C now ord a =
     (let self = (ra_self a)\<lparr>t_funding_fees := Some (ra_current_funding a)\<rparr>
      in bindE (calculate_profit C now self (safe_price ord) (Some (safe_amount_after_fee ord))
                  (Some (ra_avg_price a)))
           (\<lambda>prof.
              let cpa = ra_close_profit_abs a + profit_abs prof
              in Inr (a\<lparr>ra_self := self, ra_prof := Some prof, ra_close_profit_abs := cpa,
                        ra_close_profit :=
                          (if ra_total_stake a > 0
                           then (cpa / ra_total_stake a) * t_leverage self else ra_close_profit a),
                        ra_current_funding := 0\<rparr>)))"

definition recalc_entry :: "flt \<Rightarrow> recalc_acc \<Rightarrow> py_error + recalc_acc" where
  "recalc_entry tmp_amount a =
     (case ra_price a of
        None \<Rightarrow> Inl UnboundLocalError
      | Some price \<Rightarrow>
          Inr (a\<lparr>ra_total_stake := ra_total_stake a + calc_open_trade_value (ra_self a) tmp_amount price,
                 ra_max_stake := ra_max_stake a + tmp_amount * price\<rparr>))"

definition recalc_step ::
    "ccxt \<Rightarrow> datetime \<Rightarrow> order \<Rightarrow> recalc_acc \<Rightarrow> py_error + recalc_acc" where
  "recalc_step C now ord a =
     (if o_ft_is_open ord \<or> \<not> truthy (o_filled ord) then Inr a
      else
        (let fee = or_val (o_funding_fee ord) 0;
             a1 = a\<lparr>ra_current_funding := ra_current_funding a + fee,
                    ra_total_funding := ra_total_funding a + fee\<rparr>;
             tmp_amount = safe_amount_after_fee ord
         in case safe_price ord of None \<Rightarrow> Inl ValueError
            | Some tmp_price \<Rightarrow>
                (let is_exit = o_ft_order_side ord \<noteq> entry_side (ra_self a1);
                     a2 = recalc_position C is_exit tmp_amount tmp_price a1
                 in if is_exit then recalc_exit C now ord a2 else recalc_entry tmp_amount a2)))"

text \<open>What follows the loop: first the totals and the profit, then the open position.\<close>

definition finish_totals :: "recalc_acc \<Rightarrow> py_error + trade" where
  "finish_totals a =
     (let t1 = (ra_self a)\<lparr>t_funding_fees := Some (ra_total_funding a),
                 t_max_stake_amount := Some (ra_max_stake a / leverage_or_1 (ra_self a))\<rparr>
      in if ra_close_profit a \<noteq> 0 then
           (case ra_prof a of None \<Rightarrow> Inl UnboundLocalError
            | Some prof \<Rightarrow> Inr (t1\<lparr>t_close_profit := Some (ra_close_profit a),
                                  t_realized_profit := ra_close_profit_abs a,
                                  t_close_profit_abs := Some (profit_abs prof)\<rparr>))
         else Inr t1)"

definition reopen_position :: "ccxt \<Rightarrow> recalc_acc \<Rightarrow> flt \<Rightarrow> trade \<Rightarrow> py_error + trade" where
  "reopen_position C a amount_tr t2 =
     bindE (price_to_precision C (precise_div C (ra_stake a) (ra_amount a))
              (t_price_precision t2) (t_precision_mode_price t2) ROUND)
       (\<lambda>rate.
          let t3 = recalc_open_trade_value
                     (t2\<lparr>t_open_rate := rate, t_amount := amount_tr,
                         t_stake_amount := ra_stake a / leverage_or_1 t2,
                         t_fee_open_cost := Some (t_fee_open t2 * the (t_max_stake_amount t2))\<rparr>)
          in if t_stop_loss_pct t3 \<noteq> None
             then adjust_stop_loss C (t_open_rate t3) (t_stop_loss_pct t3) False False t3
             else Inr t3)"

definition finish_position :: "ccxt \<Rightarrow> bool \<Rightarrow> recalc_acc \<Rightarrow> trade \<Rightarrow> py_error + trade" where
  "finish_position C is_closing a t2 =
     (let amount_tr = amount_to_contract_precision C (ra_amount a) (t_amount_precision t2)
                        (t_precision_mode t2) (t_contract_size t2)
      in if amount_tr > 0 then reopen_position C a amount_tr t2
         else if is_closing \<and> ra_total_stake a > 0 then
           Inr (t2\<lparr>t_close_profit :=
                      Some ((ra_close_profit_abs a / ra_total_stake a) * t_leverage t2),
                   t_close_profit_abs := Some (ra_close_profit_abs a)\<rparr>)
         else Inr t2)"

definition recalc_finish :: "ccxt \<Rightarrow> bool \<Rightarrow> recalc_acc \<Rightarrow> py_error + trade" where
  "recalc_finish C is_closing a = bindE (finish_totals a) (finish_position C is_closing a)"

definition recalc_trade_from_orders :: "ccxt \<Rightarrow> datetime \<Rightarrow> bool \<Rightarrow> trade \<Rightarrow> py_error + trade" where
  "recalc_trade_from_orders C now is_closing t =
     bindE (runE (recalc_step C now) (t_orders t) (recalc_init t)) (recalc_finish C is_closing)"

section \<open>Orders of the exchange\<close>

definition close_trade :: "ccxt \<Rightarrow> datetime \<Rightarrow> flt option \<Rightarrow> trade \<Rightarrow> py_error + trade" where
  "close_trade C now rate t =
     bindE
       (case t_close_date t of Some d \<Rightarrow> Inr d
        | None \<Rightarrow> bindE (p_date_last_filled_utc t)
                    (\<lambda>d. Inr (case d of Some x \<Rightarrow> x | None \<Rightarrow> now)))
       (\<lambda>date.
          recalc_trade_from_orders C now True
            (t\<lparr>t_close_rate := rate, t_close_date := Some date, t_is_open := False,
               t_exit_order_status := Some ''closed''\<rparr>))"

text \<open>\<open>math.isclose\<close>, whose relative tolerance defaults to \<open>1e-9\<close>.\<close>

definition py_isclose :: "flt \<Rightarrow> flt \<Rightarrow> flt \<Rightarrow> bool" where
  "py_isclose a b abs_tol \<longleftrightarrow> \<bar>a - b\<bar> \<le> max (1 / 10 ^ 9 * max \<bar>a\<bar> \<bar>b\<bar>) abs_tol"

definition update_trade :: "ccxt \<Rightarrow> datetime \<Rightarrow> nat \<Rightarrow> bool \<Rightarrow> trade \<Rightarrow> py_error + trade" where
  "update_trade C now i recalculating t =
     (let ord = t_orders t ! i
      in if o_status ord = Some ''open'' \<or> safe_price ord = None then Inr t
         else
           (let t1 = (if o_ft_order_side ord \<noteq> ''stoploss''
                      then t\<lparr>t_orders := (t_orders t)[i := ord\<lparr>o_funding_fee := t_funding_fee_running t\<rparr>],
                             t_funding_fee_running := Some 0\<rparr>
                      else t);
                finish = (\<lambda>u.
                  if o_ft_order_side ord \<noteq> entry_side u then
                    (let amount_tr = amount_to_contract_precision C (t_amount u)
                            (t_amount_precision u) (t_precision_mode u) (t_contract_size u);
                         filled = safe_amount_after_fee ord
                     in if py_isclose filled amount_tr MATH_CLOSE_PREC
                           \<or> (\<not> recalculating \<and> filled > amount_tr)
                        then close_trade C now (safe_price ord) u
                        else recalc_trade_from_orders C now False u)
                  else Inr u)
            in if o_ft_order_side ord = entry_side t1 then
                 bindE (recalc_trade_from_orders C now False
                          (t1\<lparr>t_open_rate := the (safe_price ord), t_amount := safe_amount_after_fee ord\<rparr>))
                   finish
               else if o_ft_order_side ord = exit_side t1 then finish t1
               else if o_ft_order_side ord = ''stoploss'' \<and> o_status ord \<noteq> Some ''open'' then
                 finish (t1\<lparr>t_close_rate_requested := Some (t_stop_loss t1),
                            t_exit_reason := Some (exit_type_value STOPLOSS_ON_EXCHANGE)\<rparr>)
               else Inl ValueError))"

definition close_bt_order :: "ccxt \<Rightarrow> datetime \<Rightarrow> nat \<Rightarrow> datetime \<Rightarrow> trade \<Rightarrow> py_error + trade" where
  "close_bt_order C now i close_date t =
     (let ord = (t_orders t ! i)\<lparr>o_order_filled_date := Some close_date,
                  o_filled := o_amount (t_orders t ! i), o_remaining := Some 0,
                  o_status := Some ''closed'', o_ft_is_open := False,
                  o_funding_fee := t_funding_fee_running t\<rparr>;
          t1 = t\<lparr>t_orders := (t_orders t)[i := ord], t_funding_fee_running := Some 0\<rparr>
      in if o_ft_order_side ord = entry_side t1 \<and> truthy (o_price ord) then
           bindE (recalc_trade_from_orders C now False (t1\<lparr>t_open_rate := the (o_price ord)\<rparr>))
             (\<lambda>t2.
                let t3 = (if nr_of_successful_entries t2 = 1
                          then t2\<lparr>t_initial_stop_loss_pct := None, t_is_stop_loss_trailing := False\<rparr>
                          else t2)
                in adjust_stop_loss C (t_open_rate t3) (t_stop_loss_pct t3) False False t3)
         else Inr t1)"

section \<open>What a replay computes\<close>

text \<open>An order takes part in a replay when it is not open and its filled amount is not zero.\<close>

definition counted :: "order \<Rightarrow> bool" where
  "counted ord \<longleftrightarrow> \<not> o_ft_is_open ord \<and> truthy (o_filled ord)"

definition position_change :: "trade \<Rightarrow> order \<Rightarrow> flt" where
  "position_change t ord =
     (if counted ord \<and> safe_amount_after_fee ord > 0
      then (if o_ft_order_side ord = entry_side t then safe_amount_after_fee ord
            else - safe_amount_after_fee ord)
      else 0)"

definition net_position :: "trade \<Rightarrow> flt" where
  "net_position t = sum_list (List.map (position_change t) (t_orders t))"

definition funding_of :: "order \<Rightarrow> flt" where
  "funding_of ord = (if counted ord then or_val (o_funding_fee ord) 0 else 0)"

definition entry_cost :: "trade \<Rightarrow> order \<Rightarrow> flt" where
  "entry_cost t ord =
     (if counted ord \<and> o_ft_order_side ord = entry_side t
      then safe_amount_after_fee ord * the (safe_price ord) else 0)"

lemma recalc_position_simps [simp]:
  "ra_self (recalc_position C x m p a) = ra_self a"
  "ra_total_funding (recalc_position C x m p a) = ra_total_funding a"
  "ra_max_stake (recalc_position C x m p a) = ra_max_stake a"
  "ra_total_stake (recalc_position C x m p a) = ra_total_stake a"
  "ra_amount (recalc_position C x m p a) = ra_amount a + (if m > 0 then (if x then - m else m) else 0)"
  "m > 0 \<Longrightarrow> ra_price (recalc_position C False m p a) = Some p"
  by (simp_all add: recalc_position_def Let_def)

text \<open>One step of the loop, on the components that the specification speaks of.\<close>

lemma recalc_step_effect:
  assumes "recalc_step C now ord a = Inr b"
  shows "(\<exists>f. ra_self b = (ra_self a)\<lparr>t_funding_fees := f\<rparr>)
    \<and> ra_amount b = ra_amount a + position_change (ra_self a) ord
    \<and> ra_total_funding b = ra_total_funding a + funding_of ord"
proof (cases "counted ord")
  case False
  with assms have "b = a" by (auto simp: recalc_step_def counted_def)
  with False show ?thesis
    by (simp add: position_change_def funding_of_def)
      (metis trade.surjective trade.update_convs(46))
next
  case True
  then have c: "\<not> o_ft_is_open ord" "truthy (o_filled ord)" by (auto simp: counted_def)
  from assms c obtain p where p: "safe_price ord = Some p"
    by (auto simp: recalc_step_def Let_def split: option.splits)
  show ?thesis
  proof (cases "o_ft_order_side ord = entry_side (ra_self a)")
    case entry: True
    have "\<exists>f. ra_self a = ra_self a\<lparr>t_funding_fees := f\<rparr>"
      by (metis trade.surjective trade.update_convs(46))
    with assms c p entry True show ?thesis
      by (auto simp: recalc_step_def recalc_entry_def Let_def position_change_def funding_of_def
          split: option.splits)
  next
    case exit: False
    with assms c p True show ?thesis
      by (auto simp: recalc_step_def recalc_exit_def Let_def position_change_def funding_of_def
          bindE_eq_Inr)
  qed
qed

lemma position_change_funding [simp]:
  "position_change (t\<lparr>t_funding_fees := f\<rparr>) = position_change t"
  by (simp add: position_change_def entry_side_def fun_eq_iff)

lemma recalc_run_effect:
  assumes "runE (recalc_step C now) xs a = Inr b"
  shows "(\<exists>f. ra_self b = (ra_self a)\<lparr>t_funding_fees := f\<rparr>)
    \<and> ra_amount b = ra_amount a + sum_list (List.map (position_change (ra_self a)) xs)
    \<and> ra_total_funding b = ra_total_funding a + sum_list (List.map funding_of xs)"
  using assms
proof (induction xs arbitrary: a)
  case Nil
  then show ?case by simp (metis trade.surjective trade.update_convs(46))
next
  case (Cons x xs)
  from Cons.prems obtain a' where a': "recalc_step C now x a = Inr a'"
    and b: "runE (recalc_step C now) xs a' = Inr b"
    by (auto simp: bindE_eq_Inr)
  from recalc_step_effect [OF a'] Cons.IH [OF b] show ?case by auto
qed

text \<open>What the part after the loop leaves alone, and what it writes.\<close>

lemma finish_totals_effect:
  assumes "finish_totals a = Inr t2"
  shows "t_amount t2 = t_amount (ra_self a)" "t_amount_precision t2 = t_amount_precision (ra_self a)"
    "t_precision_mode t2 = t_precision_mode (ra_self a)"
    "t_contract_size t2 = t_contract_size (ra_self a)"
    "t_funding_fees t2 = Some (ra_total_funding a)"
    "t_max_stake_amount t2 = Some (ra_max_stake a / leverage_or_1 (ra_self a))"
    "t_is_open t2 = t_is_open (ra_self a)" "t_close_rate t2 = t_close_rate (ra_self a)"
    "t_close_date t2 = t_close_date (ra_self a)" "t_is_short t2 = t_is_short (ra_self a)"
    "t_exit_order_status t2 = t_exit_order_status (ra_self a)" "t_orders t2 = t_orders (ra_self a)"
  using assms by (simp_all add: finish_totals_def Let_def split: if_splits option.splits) auto

lemma reopen_position_effect:
  assumes "reopen_position C a m t2 = Inr t'"
  shows "t_amount t' = m" "t_funding_fees t' = t_funding_fees t2"
    "t_max_stake_amount t' = t_max_stake_amount t2" "t_is_open t' = t_is_open t2"
    "t_close_rate t' = t_close_rate t2" "t_close_date t' = t_close_date t2"
    "t_exit_order_status t' = t_exit_order_status t2" "t_orders t' = t_orders t2"
proof -
  from assms obtain rate t3 where
    t3: "t3 = recalc_open_trade_value (t2\<lparr>t_open_rate := rate, t_amount := m,
                 t_stake_amount := ra_stake a / leverage_or_1 t2,
                 t_fee_open_cost := Some (t_fee_open t2 * the (t_max_stake_amount t2))\<rparr>)"
    and t': "t' = t3 \<or> adjust_stop_loss C (t_open_rate t3) (t_stop_loss_pct t3) False False t3 = Inr t'"
    by (auto simp: reopen_position_def bindE_eq_Inr Let_def split: if_splits)
  then show "t_amount t' = m" "t_funding_fees t' = t_funding_fees t2"
    "t_max_stake_amount t' = t_max_stake_amount t2" "t_is_open t' = t_is_open t2"
    "t_close_rate t' = t_close_rate t2" "t_close_date t' = t_close_date t2"
    "t_exit_order_status t' = t_exit_order_status t2" "t_orders t' = t_orders t2"
    by (auto simp: recalc_open_trade_value_def dest: adjust_stop_loss_frame)
qed

lemma recalc_finish_effect:
  assumes "recalc_finish C cl a = Inr t'"
  defines "tr \<equiv> amount_to_contract_precision C (ra_amount a) (t_amount_precision (ra_self a))
                   (t_precision_mode (ra_self a)) (t_contract_size (ra_self a))"
  shows "t_amount t' = (if tr > 0 then tr else t_amount (ra_self a))
    \<and> t_funding_fees t' = Some (ra_total_funding a)
    \<and> t_max_stake_amount t' = Some (ra_max_stake a / leverage_or_1 (ra_self a))
    \<and> t_is_open t' = t_is_open (ra_self a) \<and> t_close_rate t' = t_close_rate (ra_self a)
    \<and> t_close_date t' = t_close_date (ra_self a)
    \<and> t_exit_order_status t' = t_exit_order_status (ra_self a)
    \<and> t_orders t' = t_orders (ra_self a)"
proof -
  from assms(1) obtain t2 where t2: "finish_totals a = Inr t2"
    and pos: "finish_position C cl a t2 = Inr t'"
    by (auto simp: recalc_finish_def bindE_eq_Inr)
  note f = finish_totals_effect [OF t2]
  show ?thesis
  proof (cases "tr > 0")
    case True
    with pos f have "reopen_position C a tr t2 = Inr t'"
      by (simp add: finish_position_def tr_def)
    from reopen_position_effect [OF this] f True show ?thesis by simp
  next
    case False
    with pos f show ?thesis
      by (auto simp: finish_position_def tr_def Let_def split: if_splits)
  qed
qed

lemma recalc_effect:
  assumes "recalc_trade_from_orders C now cl t = Inr t'"
  defines "tr \<equiv> amount_to_contract_precision C (net_position t) (t_amount_precision t)
                   (t_precision_mode t) (t_contract_size t)"
  shows "t_amount t' = (if tr > 0 then tr else t_amount t)
    \<and> t_funding_fees t' = Some (sum_list (List.map funding_of (t_orders t)))
    \<and> t_is_open t' = t_is_open t \<and> t_close_rate t' = t_close_rate t
    \<and> t_close_date t' = t_close_date t
    \<and> t_exit_order_status t' = t_exit_order_status t \<and> t_orders t' = t_orders t"
proof -
  from assms(1) obtain a where run: "runE (recalc_step C now) (t_orders t) (recalc_init t) = Inr a"
    and fin: "recalc_finish C cl a = Inr t'"
    by (auto simp: recalc_trade_from_orders_def bindE_eq_Inr)
  from recalc_run_effect [OF run] obtain f where
    a: "ra_self a = t\<lparr>t_funding_fees := f\<rparr>" "ra_amount a = net_position t"
      "ra_total_funding a = sum_list (List.map funding_of (t_orders t))"
    by (auto simp: recalc_init_def net_position_def)
  from recalc_finish_effect [OF fin] show ?thesis
    by (auto simp: a tr_def)
qed

text \<open>Property C7: replaying the orders of a trade computes its position from the fills. Whenever
  \<open>recalc_trade_from_orders\<close> returns, the amount of the trade is the sum of the filled entry
  amounts after fees minus the filled exit amounts after fees, brought to the contract precision
  (and left alone when nothing remains), and its funding fees are the sum over the same orders.\<close>

theorem recalc_refines_position:
  assumes "recalc_trade_from_orders C now is_closing t = Inr t'"
  shows "t_amount t' =
      (let remaining = amount_to_contract_precision C (net_position t) (t_amount_precision t)
                         (t_precision_mode t) (t_contract_size t)
       in if remaining > 0 then remaining else t_amount t)
    \<and> t_funding_fees t' = Some (sum_list (List.map funding_of (t_orders t)))"
  using recalc_effect [OF assms] by (simp add: Let_def)

definition example_entry :: order where
  "example_entry = (new_order ''e1'' ''buy'' ''ETH/USDT'' 2 (Some 100))
     \<lparr>o_ft_is_open := False, o_status := Some ''closed'', o_filled := Some 2, o_average := Some 100,
      o_amount := Some 2, o_order_filled_date := Some 5\<rparr>"

definition example_exit :: order where
  "example_exit = (new_order ''x1'' ''sell'' ''ETH/USDT'' 2 (Some 110))
     \<lparr>o_ft_is_open := False, o_status := Some ''closed'', o_filled := Some (1/2), o_average := Some 110,
      o_amount := Some 2, o_funding_fee := Some 3, o_order_filled_date := Some 9\<rparr>"

lemmas recalc_eval =
  recalc_trade_from_orders_def recalc_init_def recalc_step_def recalc_position_def recalc_exit_def
  recalc_entry_def recalc_finish_def finish_totals_def
  finish_position_def reopen_position_def calculate_profit_def calc_close_trade_value_def
  calc_base_close_def calc_open_trade_value_def recalc_open_trade_value_def trading_mode_or_spot_def
  raw_profit_ratio_def leverage_or_1_def safe_amount_after_fee_def safe_filled_def safe_fee_base_def
  safe_price_def entry_side_def exit_side_def Let_def py_round_def round_half_even_def
  amount_to_contract_precision_def

definition example_position :: trade where
  "example_position = example_trade\<lparr>t_orders := [example_entry, example_exit],
     t_precision_mode_price := None\<rparr>"

lemma example_position_recalc:
  "\<exists>t'. recalc_trade_from_orders ccxt_example 0 False example_position = Inr t'"
  by (simp add: recalc_eval example_position_def example_trade_def example_entry_def
      example_exit_def new_order_def ccxt_example_def)

theorem recalc_refines_position_witness:
  "\<exists>t'. recalc_trade_from_orders ccxt_example 0 False example_position = Inr t'
     \<and> t_amount t' = 3/2 \<and> t_funding_fees t' = Some 3"
proof -
  obtain t' where t': "recalc_trade_from_orders ccxt_example 0 False example_position = Inr t'"
    using example_position_recalc by blast
  from recalc_refines_position [OF t'] have "t_amount t' = 3/2 \<and> t_funding_fees t' = Some 3"
    by (simp add: net_position_def position_change_def funding_of_def counted_def example_position_def
        example_trade_def example_entry_def example_exit_def new_order_def entry_side_def
        safe_amount_after_fee_def safe_filled_def safe_fee_base_def Let_def)
  with t' show ?thesis by blast
qed

section \<open>Fills the fee consumes\<close>

lemma recalc_step_skip: "\<not> counted ord \<Longrightarrow> recalc_step C now ord a = Inr a"
  by (auto simp: recalc_step_def counted_def)

lemma runE_skip:
  "\<forall>x \<in> set xs. \<not> counted x \<Longrightarrow> runE (recalc_step C now) (xs @ ys) a = runE (recalc_step C now) ys a"
  by (induction xs) (auto simp: recalc_step_skip)

text \<open>A first entry whose base-currency fee is at least its fill makes the replay
  fail. No iteration has assigned \<open>price\<close> when the entry branch reads it, so
  \<open>recalc_trade_from_orders\<close> raises \<open>UnboundLocalError\<close> instead of leaving the trade empty.\<close>

theorem recalc_unbound_price:
  assumes "t_orders t = xs @ ord # ys" and "\<forall>x \<in> set xs. \<not> counted x"
    and "counted ord" and "o_ft_order_side ord = entry_side t" and "safe_price ord = Some p"
    and "safe_amount_after_fee ord \<le> 0"
  shows "recalc_trade_from_orders C now is_closing t = Inl UnboundLocalError"
proof -
  from assms(3) have "\<not> o_ft_is_open ord" and "truthy (o_filled ord)" by (auto simp: counted_def)
  with assms(4-6) have "recalc_step C now ord (recalc_init t) = Inl UnboundLocalError"
    by (simp add: recalc_step_def recalc_entry_def recalc_position_def recalc_init_def
        entry_side_def Let_def)
  with assms(1,2) show ?thesis
    by (simp add: recalc_trade_from_orders_def runE_skip)
qed

theorem recalc_unbound_price_witness:
  "recalc_trade_from_orders ccxt_example 0 False
     (example_trade\<lparr>t_orders := [example_entry\<lparr>o_ft_fee_base := Some 2\<rparr>]\<rparr>) = Inl UnboundLocalError"
  by (rule recalc_unbound_price [where xs = "[]" and ys = "[]"
        and ord = "example_entry\<lparr>o_ft_fee_base := Some 2\<rparr>" and p = 100])
    (simp_all add: counted_def example_entry_def new_order_def example_trade_def entry_side_def
      safe_price_def safe_amount_after_fee_def safe_filled_def safe_fee_base_def)

section \<open>The invested stake\<close>

definition sound_entries :: "trade \<Rightarrow> bool" where
  "sound_entries t \<longleftrightarrow> (\<forall>x \<in> set (t_orders t).
     counted x \<and> o_ft_order_side x = entry_side t \<longrightarrow> 0 < safe_amount_after_fee x)"

lemma recalc_step_stake:
  assumes "recalc_step C now ord a = Inr b"
    and "counted ord \<and> o_ft_order_side ord = entry_side (ra_self a) \<longrightarrow> 0 < safe_amount_after_fee ord"
  shows "ra_max_stake b = ra_max_stake a + entry_cost (ra_self a) ord"
proof (cases "counted ord")
  case False
  with assms show ?thesis by (simp add: recalc_step_skip entry_cost_def)
next
  case True
  then have c: "\<not> o_ft_is_open ord" "truthy (o_filled ord)" by (auto simp: counted_def)
  from assms c obtain p where p: "safe_price ord = Some p"
    by (auto simp: recalc_step_def Let_def split: option.splits)
  show ?thesis
  proof (cases "o_ft_order_side ord = entry_side (ra_self a)")
    case entry: True
    with assms c p True show ?thesis
      by (auto simp: recalc_step_def recalc_entry_def Let_def entry_cost_def split: option.splits)
  next
    case exit: False
    with assms c p True show ?thesis
      by (auto simp: recalc_step_def recalc_exit_def Let_def entry_cost_def bindE_eq_Inr)
  qed
qed

lemma entry_cost_funding [simp]: "entry_cost (t\<lparr>t_funding_fees := f\<rparr>) = entry_cost t"
  by (simp add: entry_cost_def entry_side_def fun_eq_iff)

lemma entry_side_funding [simp]: "entry_side (t\<lparr>t_funding_fees := f\<rparr>) = entry_side t"
  by (simp add: entry_side_def)

lemma recalc_run_stake:
  assumes "runE (recalc_step C now) xs a = Inr b"
    and "\<forall>x \<in> set xs. counted x \<and> o_ft_order_side x = entry_side (ra_self a) \<longrightarrow> 0 < safe_amount_after_fee x"
  shows "ra_max_stake b = ra_max_stake a + sum_list (List.map (entry_cost (ra_self a)) xs)"
  using assms
proof (induction xs arbitrary: a)
  case Nil
  then show ?case by simp
next
  case (Cons x xs)
  from Cons.prems(1) obtain a' where a': "recalc_step C now x a = Inr a'"
    and b: "runE (recalc_step C now) xs a' = Inr b"
    by (auto simp: bindE_eq_Inr)
  from recalc_step_effect [OF a'] obtain f where f: "ra_self a' = (ra_self a)\<lparr>t_funding_fees := f\<rparr>"
    by blast
  have "ra_max_stake a' = ra_max_stake a + entry_cost (ra_self a) x"
    using recalc_step_stake [OF a'] Cons.prems(2) by simp
  moreover have "ra_max_stake b = ra_max_stake a' + sum_list (List.map (entry_cost (ra_self a)) xs)"
    using Cons.IH [OF b] Cons.prems(2) by (simp add: f)
  ultimately show ?case by simp
qed

text \<open>The maximum stake of a trade is what its entries cost. When every filled entry
  keeps a positive amount after fees, the replay sets \<open>max_stake_amount\<close> to the sum of amount
  times price over the filled entries, divided by the leverage; exits do not reduce it.\<close>

theorem recalc_max_stake:
  assumes "recalc_trade_from_orders C now is_closing t = Inr t'" and "sound_entries t"
  shows "t_max_stake_amount t' =
    Some (sum_list (List.map (entry_cost t) (t_orders t)) / leverage_or_1 t)"
proof -
  from assms(1) obtain a where run: "runE (recalc_step C now) (t_orders t) (recalc_init t) = Inr a"
    and fin: "recalc_finish C is_closing a = Inr t'"
    by (auto simp: recalc_trade_from_orders_def bindE_eq_Inr)
  from recalc_run_effect [OF run] obtain f where f: "ra_self a = t\<lparr>t_funding_fees := f\<rparr>"
    by (auto simp: recalc_init_def)
  from recalc_run_stake [OF run] assms(2)
  have "ra_max_stake a = sum_list (List.map (entry_cost t) (t_orders t))"
    by (simp add: recalc_init_def sound_entries_def)
  with recalc_finish_effect [OF fin] f show ?thesis by (simp add: leverage_or_1_def)
qed

theorem recalc_max_stake_witness:
  "\<exists>t'. recalc_trade_from_orders ccxt_example 0 False example_position = Inr t'
     \<and> t_max_stake_amount t' = Some 200"
proof -
  obtain t' where t': "recalc_trade_from_orders ccxt_example 0 False example_position = Inr t'"
    using example_position_recalc by blast
  have "sound_entries example_position"
    by (simp add: sound_entries_def example_position_def example_trade_def example_entry_def
        example_exit_def new_order_def entry_side_def safe_amount_after_fee_def safe_filled_def
        safe_fee_base_def)
  from recalc_max_stake [OF t' this] have "t_max_stake_amount t' = Some 200"
    by (simp add: entry_cost_def counted_def example_position_def example_trade_def
        example_entry_def example_exit_def new_order_def entry_side_def leverage_or_1_def
        safe_amount_after_fee_def safe_filled_def safe_fee_base_def safe_price_def)
  with t' show ?thesis by blast
qed

section \<open>Exit orders\<close>

lemma close_trade_effect:
  assumes "close_trade C now rate t = Inr t'"
  shows "\<not> t_is_open t'" "t_close_rate t' = rate" "t_close_date t' \<noteq> None"
    "t_exit_order_status t' = Some ''closed''"
proof -
  from assms obtain d where "recalc_trade_from_orders C now True
      (t\<lparr>t_close_rate := rate, t_close_date := Some d, t_is_open := False,
         t_exit_order_status := Some ''closed''\<rparr>) = Inr t'"
    by (auto simp: close_trade_def bindE_eq_Inr)
  from recalc_effect [OF this]
  show "\<not> t_is_open t'" "t_close_rate t' = rate" "t_close_date t' \<noteq> None"
    "t_exit_order_status t' = Some ''closed''" by simp_all
qed

lemma update_trade_exit:
  assumes "update_trade C now i recalculating t = Inr t'"
    and "o_ft_order_side (t_orders t ! i) = exit_side t" and "safe_price (t_orders t ! i) = Some p"
    and "o_status (t_orders t ! i) \<noteq> Some ''open''"
  defines "u \<equiv> t\<lparr>t_orders := (t_orders t)[i := (t_orders t ! i)\<lparr>o_funding_fee := t_funding_fee_running t\<rparr>],
                  t_funding_fee_running := Some 0\<rparr>"
    and "m \<equiv> amount_to_contract_precision C (t_amount t) (t_amount_precision t)
               (t_precision_mode t) (t_contract_size t)"
    and "filled \<equiv> safe_amount_after_fee (t_orders t ! i)"
  shows "if py_isclose filled m MATH_CLOSE_PREC \<or> (\<not> recalculating \<and> filled > m)
    then close_trade C now (Some p) u = Inr t' else recalc_trade_from_orders C now False u = Inr t'"
proof -
  have sides: "exit_side t \<noteq> entry_side t" "exit_side t \<noteq> ''stoploss''"
    "exit_side u = exit_side t" "entry_side u = entry_side t"
    by (simp_all add: u_def entry_side_def exit_side_def)
  have "update_trade C now i recalculating t =
      (if py_isclose filled m MATH_CLOSE_PREC \<or> (\<not> recalculating \<and> filled > m)
       then close_trade C now (Some p) u else recalc_trade_from_orders C now False u)"
    using assms(2-4) sides
    by (simp add: update_trade_def Let_def m_def filled_def u_def)
  with assms(1) show ?thesis by presburger
qed

text \<open>An exit fill closes a trade exactly when it covers the position. Outside a
  recalculation, an exit order that is done and whose filled amount reaches the amount of the
  trade (at contract precision) closes it at the order's price with a close date; an exit that
  falls short by more than the comparison tolerance leaves the open flag as it was.\<close>

theorem exit_fill_closes_trade:
  assumes "update_trade C now i False t = Inr t'"
    and "o_ft_order_side (t_orders t ! i) = exit_side t" and "safe_price (t_orders t ! i) = Some p"
    and "o_status (t_orders t ! i) \<noteq> Some ''open''"
  shows
    "let position = amount_to_contract_precision C (t_amount t) (t_amount_precision t)
                      (t_precision_mode t) (t_contract_size t);
         filled = safe_amount_after_fee (t_orders t ! i)
     in (position \<le> filled \<longrightarrow>
           \<not> t_is_open t' \<and> t_close_rate t' = Some p \<and> t_close_date t' \<noteq> None)
      \<and> (0 \<le> filled \<and> filled + max (position / 10 ^ 9) (1 / 10 ^ 14) < position \<longrightarrow>
           t_is_open t' = t_is_open t \<and> t_close_rate t' = t_close_rate t)"
proof -
  define m where "m = amount_to_contract_precision C (t_amount t) (t_amount_precision t)
                      (t_precision_mode t) (t_contract_size t)"
  define filled where "filled = safe_amount_after_fee (t_orders t ! i)"
  note step = update_trade_exit [OF assms, folded m_def filled_def]
  have covered: "py_isclose filled m MATH_CLOSE_PREC \<or> filled > m" if "m \<le> filled"
    using that by (cases "filled = m") (auto simp: py_isclose_def MATH_CLOSE_PREC_def)
  have short: "\<not> (py_isclose filled m MATH_CLOSE_PREC \<or> filled > m)"
    if "0 \<le> filled" "filled + max (m / 10 ^ 9) (1 / 10 ^ 14) < m"
  proof -
    from that have "filled < m" and "0 \<le> m" by (auto simp: max_def split: if_splits)
    with that show ?thesis by (simp add: py_isclose_def MATH_CLOSE_PREC_def)
  qed
  have "\<not> t_is_open t' \<and> t_close_rate t' = Some p \<and> t_close_date t' \<noteq> None" if "m \<le> filled"
  proof -
    from step covered [OF that] obtain u where "close_trade C now (Some p) u = Inr t'" by auto
    from close_trade_effect [OF this] show ?thesis by simp
  qed
  moreover have "t_is_open t' = t_is_open t \<and> t_close_rate t' = t_close_rate t"
    if "0 \<le> filled" "filled + max (m / 10 ^ 9) (1 / 10 ^ 14) < m"
  proof -
    from step short [OF that] have "recalc_trade_from_orders C now False
      (t\<lparr>t_orders := (t_orders t)[i := (t_orders t ! i)\<lparr>o_funding_fee := t_funding_fee_running t\<rparr>],
         t_funding_fee_running := Some 0\<rparr>) = Inr t'" by (simp del: max_less_iff_conj)
    from recalc_effect [OF this] show ?thesis by simp
  qed
  ultimately show ?thesis
    unfolding Let_def m_def [symmetric] filled_def [symmetric] by blast
qed

theorem exit_fill_closes_trade_witness:
  "\<exists>t'. update_trade ccxt_example 0 1 False (example_position\<lparr>t_amount := 1/2\<rparr>) = Inr t'
     \<and> \<not> t_is_open t' \<and> t_close_rate t' = Some 110"
proof -
  let ?t = "example_position\<lparr>t_amount := 1/2\<rparr>"
  have "\<exists>t'. update_trade ccxt_example 0 1 False ?t = Inr t'"
    by (simp add: update_trade_def close_trade_def p_date_last_filled_utc_def py_isclose_def
        MATH_CLOSE_PREC_def select_filled_orders_def order_filled_utc_def List.map_filter_simps max_list_def recalc_eval example_position_def example_trade_def example_entry_def
        example_exit_def new_order_def ccxt_example_def)
  then obtain t' where t': "update_trade ccxt_example 0 1 False ?t = Inr t'" by blast
  from exit_fill_closes_trade [OF t'] have "\<not> t_is_open t' \<and> t_close_rate t' = Some 110"
    by (simp add: example_position_def example_trade_def example_exit_def new_order_def
        exit_side_def safe_price_def safe_amount_after_fee_def safe_filled_def safe_fee_base_def)
  with t' show ?thesis by blast
qed

end
