(* ===== verification/Bt_Trades.thy ===== *)
theory Bt_Trades
  imports Trade_Recalc
begin

text \<open>
  The container of trades that backtesting keeps in class attributes of \<open>LocalTrade\<close>
  (persistence/trade_model.py). The lists hold references, so the model has a heap of trades and
  the lists hold addresses: writing a trade is seen through every list. \<open>list.remove\<close> removes
  the first occurrence and raises \<open>ValueError\<close> when there is none.
\<close>

section \<open>The container\<close>

record bt_state =
  bt_heap :: "nat \<Rightarrow> trade"
  bt_trades :: "nat list"
  bt_trades_open :: "nat list"
  bt_trades_open_pp :: "string \<Rightarrow> nat list"
  bt_open_open_trade_count :: int
  bt_total_profit :: flt

definition reset_trades :: "bt_state \<Rightarrow> bt_state" where
  "reset_trades s = s\<lparr>bt_trades := [], bt_trades_open := [], bt_trades_open_pp := (\<lambda>_. []),
     bt_open_open_trade_count := 0, bt_total_profit := 0\<rparr>"

definition add_bt_trade :: "nat \<Rightarrow> bt_state \<Rightarrow> bt_state" where
  "add_bt_trade i s =
     (let t = bt_heap s i
      in if t_is_open t then
           s\<lparr>bt_trades_open := bt_trades_open s @ [i],
             bt_trades_open_pp := (bt_trades_open_pp s)(t_pair t := bt_trades_open_pp s (t_pair t) @ [i]),
             bt_open_open_trade_count := bt_open_open_trade_count s + 1\<rparr>
         else s\<lparr>bt_trades := bt_trades s @ [i]\<rparr>)"

definition remove_bt_trade :: "nat \<Rightarrow> bt_state \<Rightarrow> py_error + bt_state" where
  "remove_bt_trade i s =
     (let pair = t_pair (bt_heap s i)
      in if i \<notin> set (bt_trades_open s) \<or> i \<notin> set (bt_trades_open_pp s pair) then Inl ValueError
         else Inr (s\<lparr>bt_trades_open := remove1 i (bt_trades_open s),
                     bt_trades_open_pp :=
                       (bt_trades_open_pp s)(pair := remove1 i (bt_trades_open_pp s pair)),
                     bt_open_open_trade_count := bt_open_open_trade_count s - 1\<rparr>))"

definition close_bt_trade :: "nat \<Rightarrow> bt_state \<Rightarrow> py_error + bt_state" where
  "close_bt_trade i s =
     bindE (remove_bt_trade i s) (\<lambda>s1.
       let s2 = s1\<lparr>bt_trades := bt_trades s1 @ [i]\<rparr>
       in case t_close_profit_abs (bt_heap s2 i) of
            None \<Rightarrow> Inl TypeError
          | Some p \<Rightarrow> Inr (s2\<lparr>bt_total_profit := bt_total_profit s2 + p\<rparr>))"

definition get_trades_proxy ::
    "bt_state \<Rightarrow> string option \<Rightarrow> bool option \<Rightarrow> datetime option \<Rightarrow> datetime option \<Rightarrow> nat list" where
  "get_trades_proxy s pair is_open open_date close_date =
     (let sel0 = (case is_open of Some True \<Rightarrow> bt_trades_open s | Some False \<Rightarrow> bt_trades s
                  | None \<Rightarrow> bt_trades s @ bt_trades_open s);
          sel1 = (case pair of None \<Rightarrow> sel0
                  | Some p \<Rightarrow> if p = [] then sel0
                              else filter (\<lambda>i. t_pair (bt_heap s i) = p) sel0);
          sel2 = (case open_date of None \<Rightarrow> sel1
                  | Some d \<Rightarrow> filter (\<lambda>i. t_open_date (bt_heap s i) > d) sel1)
      in case close_date of None \<Rightarrow> sel2
         | Some d \<Rightarrow> filter (\<lambda>i. case t_close_date (bt_heap s i) of
                                  None \<Rightarrow> False | Some c \<Rightarrow> c > d) sel2)"

definition get_open_trades :: "bt_state \<Rightarrow> nat list" where
  "get_open_trades s = get_trades_proxy s None (Some True) None None"

definition get_open_trade_count :: "bt_state \<Rightarrow> int" where
  "get_open_trade_count s = bt_open_open_trade_count s"

text \<open>The bulk operation on open trades: new stops for a changed strategy (backtesting restart).\<close>

definition write_trade :: "nat \<Rightarrow> trade \<Rightarrow> bt_state \<Rightarrow> bt_state" where
  "write_trade i t s = s\<lparr>bt_heap := (bt_heap s)(i := t)\<rparr>"

section \<open>Runs of the container\<close>

text \<open>
  What a backtest does with the container. \<open>Modify\<close> is any change the trading loop makes to a
  trade object between two container operations; it never renames the pair.
\<close>

datatype bt_op =
    AddTrade nat
  | CloseTrade nat
  | RemoveTrade nat
  | Modify nat "trade \<Rightarrow> trade"

fun bt_step :: "bt_op \<Rightarrow> bt_state \<Rightarrow> py_error + bt_state" where
  "bt_step (AddTrade i) s = Inr (add_bt_trade i s)"
| "bt_step (CloseTrade i) s = close_bt_trade i s"
| "bt_step (RemoveTrade i) s = remove_bt_trade i s"
| "bt_step (Modify i f) s = Inr (write_trade i (f (bt_heap s i)) s)"

fun keeps_pair :: "bt_op \<Rightarrow> bool" where
  "keeps_pair (Modify i f) \<longleftrightarrow> (\<forall>t. t_pair (f t) = t_pair t)"
| "keeps_pair _ \<longleftrightarrow> True"

text \<open>
  The invariant: the count is the length of the open list, and the lists per pair are the open
  list filtered by pair.
\<close>

definition bt_indexed :: "bt_state \<Rightarrow> bool" where
  "bt_indexed s \<longleftrightarrow>
     bt_open_open_trade_count s = int (length (bt_trades_open s))
   \<and> (\<forall>p. bt_trades_open_pp s p = filter (\<lambda>i. t_pair (bt_heap s i) = p) (bt_trades_open s))"

lemma filter_remove1_True: "P i \<Longrightarrow> filter P (remove1 i xs) = remove1 i (filter P xs)"
  by (induction xs) auto

lemma filter_remove1_False: "\<not> P i \<Longrightarrow> filter P (remove1 i xs) = filter P xs"
  by (induction xs) auto

lemma bt_indexed_reset [intro, simp]: "bt_indexed (reset_trades s)"
  by (simp add: bt_indexed_def reset_trades_def)

lemma bt_indexed_add: "bt_indexed s \<Longrightarrow> bt_indexed (add_bt_trade i s)"
  by (auto simp: bt_indexed_def add_bt_trade_def Let_def)

lemma length_remove1_int: "x \<in> set xs \<Longrightarrow> int (length (remove1 x xs)) = int (length xs) - 1"
  by (induction xs) (auto simp: length_remove1 length_pos_if_in_set of_nat_diff Suc_leI)

lemma bt_indexed_remove: "bt_indexed s \<Longrightarrow> remove_bt_trade i s = Inr s' \<Longrightarrow> bt_indexed s'"
  by (auto simp: bt_indexed_def remove_bt_trade_def Let_def filter_remove1_True
      filter_remove1_False length_remove1_int split: if_splits)

lemma bt_indexed_profit [simp]: "bt_indexed (s\<lparr>bt_total_profit := p\<rparr>) = bt_indexed s"
  by (simp add: bt_indexed_def)

lemma bt_indexed_closed [simp]: "bt_indexed (s\<lparr>bt_trades := xs\<rparr>) = bt_indexed s"
  by (simp add: bt_indexed_def)

lemma bt_indexed_close: "bt_indexed s \<Longrightarrow> close_bt_trade i s = Inr s' \<Longrightarrow> bt_indexed s'"
  by (auto simp: close_bt_trade_def Let_def bindE_eq_Inr split: option.splits)
    (erule (1) bt_indexed_remove)

lemma bt_indexed_modify: "bt_indexed s \<Longrightarrow> \<forall>t. t_pair (f t) = t_pair t \<Longrightarrow>
  bt_indexed (write_trade i (f (bt_heap s i)) s)"
  by (auto simp: bt_indexed_def write_trade_def intro!: filter_cong)

lemma bt_indexed_step:
  "bt_indexed s \<Longrightarrow> keeps_pair oper \<Longrightarrow> bt_step oper s = Inr s' \<Longrightarrow> bt_indexed s'"
  by (cases oper) (auto intro: bt_indexed_add bt_indexed_modify bt_indexed_remove bt_indexed_close)

lemma bt_indexed_run:
  "bt_indexed s \<Longrightarrow> list_all keeps_pair ops \<Longrightarrow> runE bt_step ops s = Inr s' \<Longrightarrow> bt_indexed s'"
proof (induction ops arbitrary: s)
  case (Cons oper ops)
  then show ?case by (auto simp: bindE_eq_Inr dest: bt_indexed_step)
qed simp

text \<open>The container's shortcuts agree with its lists. After any run of container
  operations from a reset, with any changes of trade objects in between that keep the pair, the
  open-trade counter is the number of open trades, and the index per pair holds, in the same
  order, exactly what \<open>get_trades_proxy\<close> finds by filtering the open trades by that pair.\<close>

theorem bt_index_agrees:
  assumes "runE bt_step ops (reset_trades s) = Inr s'" and "list_all keeps_pair ops"
    and "pair \<noteq> ''''"
  shows "get_open_trade_count s' = int (length (get_open_trades s'))
    \<and> bt_trades_open_pp s' pair = get_trades_proxy s' (Some pair) (Some True) None None"
  using bt_indexed_run [OF bt_indexed_reset assms(2,1)] assms(3)
  by (simp add: bt_indexed_def get_open_trade_count_def get_open_trades_def get_trades_proxy_def)

definition example_container :: bt_state where
  "example_container = \<lparr>bt_heap = (\<lambda>i. example_trade\<lparr>t_close_profit_abs := Some (of_nat i)\<rparr>),
     bt_trades = [], bt_trades_open = [], bt_trades_open_pp = (\<lambda>_. []),
     bt_open_open_trade_count = 7, bt_total_profit = 9\<rparr>"

definition example_container_run :: "bt_op list" where
  "example_container_run = [AddTrade 1, AddTrade 2, CloseTrade 1, AddTrade 3]"

lemma example_container_returns:
  "\<exists>s'. runE bt_step example_container_run (reset_trades example_container) = Inr s'
     \<and> length (bt_trades_open s') = 2 \<and> bt_trades s' = [1]"
  by (simp add: example_container_run_def example_container_def reset_trades_def add_bt_trade_def
      close_bt_trade_def remove_bt_trade_def example_trade_def Let_def)

theorem bt_index_agrees_witness:
  "\<exists>s'. runE bt_step example_container_run (reset_trades example_container) = Inr s'
     \<and> get_open_trade_count s' = 2"
proof -
  obtain s' where s': "runE bt_step example_container_run (reset_trades example_container) = Inr s'"
    and n: "length (bt_trades_open s') = 2"
    using example_container_returns by blast
  have "list_all keeps_pair example_container_run" by (simp add: example_container_run_def)
  from bt_index_agrees [OF s' this, of "''ETH/USDT''"] n have "get_open_trade_count s' = 2"
    by (simp add: get_open_trades_def get_trades_proxy_def)
  with s' show ?thesis by blast
qed

section \<open>The running profit\<close>

text \<open>
  A run in which every trade that is added is open and a trade that was closed is not touched
  again: the discipline of the backtesting loop.
\<close>

fun bt_disciplined :: "bt_op list \<Rightarrow> bt_state \<Rightarrow> bool" where
  "bt_disciplined [] s \<longleftrightarrow> True"
| "bt_disciplined (oper # ops) s \<longleftrightarrow>
     (case oper of AddTrade i \<Rightarrow> t_is_open (bt_heap s i) | Modify i f \<Rightarrow> i \<notin> set (bt_trades s) | _ \<Rightarrow> True)
   \<and> (case bt_step oper s of Inl _ \<Rightarrow> True | Inr s' \<Rightarrow> bt_disciplined ops s')"

definition closed_profit :: "bt_state \<Rightarrow> flt" where
  "closed_profit s = sum_list (List.map (\<lambda>i. or_val (t_close_profit_abs (bt_heap s i)) 0) (bt_trades s))"

lemma closed_profit_step:
  assumes "bt_step oper s = Inr s'" and "bt_disciplined (oper # ops) s"
  shows "bt_total_profit s' - closed_profit s' = bt_total_profit s - closed_profit s"
proof (cases oper)
  case (AddTrade i)
  with assms show ?thesis by (auto simp: add_bt_trade_def closed_profit_def Let_def)
next
  case (CloseTrade i)
  with assms show ?thesis
    by (auto simp: close_bt_trade_def remove_bt_trade_def closed_profit_def Let_def bindE_eq_Inr
        or_val_def split: option.splits if_splits)
next
  case (RemoveTrade i)
  with assms show ?thesis by (auto simp: remove_bt_trade_def closed_profit_def Let_def split: if_splits)
next
  case (Modify i f)
  with assms have i: "i \<notin> set (bt_trades s)" and s': "s' = write_trade i (f (bt_heap s i)) s"
    by auto
  from i have "closed_profit s' = closed_profit s"
    unfolding closed_profit_def s' write_trade_def by (auto intro!: arg_cong [where f = sum_list])
  then show ?thesis by (simp add: s' write_trade_def)
qed

text \<open>The running total is the profit of the closed trades. In a backtest, which
  adds open trades and leaves closed ones alone, \<open>bt_total_profit\<close> is at every moment the sum of
  \<open>close_profit_abs\<close> over \<open>bt_trades\<close>.\<close>

theorem bt_profit_conserved:
  assumes "runE bt_step ops (reset_trades s) = Inr s'" and "bt_disciplined ops (reset_trades s)"
  shows "bt_total_profit s' = closed_profit s'"
proof -
  have "bt_total_profit s' - closed_profit s' = bt_total_profit r - closed_profit r"
    if "runE bt_step xs r = Inr s'" "bt_disciplined xs r" for xs r
    using that
  proof (induction xs arbitrary: r)
    case (Cons oper xs)
    from Cons.prems(1) obtain r' where r': "bt_step oper r = Inr r'" and rest: "runE bt_step xs r' = Inr s'"
      by (auto simp: bindE_eq_Inr)
    from Cons.prems(2) r' have "bt_disciplined xs r'" by simp
    with Cons.IH [OF rest] closed_profit_step [OF r' Cons.prems(2)] show ?case by simp
  qed simp
  from this [OF assms] show ?thesis by (simp add: reset_trades_def closed_profit_def)
qed

theorem bt_profit_conserved_witness:
  "\<exists>s'. runE bt_step example_container_run (reset_trades example_container) = Inr s'
     \<and> bt_total_profit s' = closed_profit s'"
proof -
  obtain s' where s': "runE bt_step example_container_run (reset_trades example_container) = Inr s'"
    using example_container_returns by blast
  have "bt_disciplined example_container_run (reset_trades example_container)"
    by (simp add: example_container_run_def example_container_def reset_trades_def add_bt_trade_def
        close_bt_trade_def remove_bt_trade_def example_trade_def Let_def)
  from bt_profit_conserved [OF s' this] s' show ?thesis by blast
qed

end
