(* ===== verification/Metrics.thy ===== *)
theory Metrics
  imports Precision
begin

text \<open>
  Performance metrics over a table of closed trades (data/metrics.py): drawdown, cumulated
  profit, expectancy. A table is a list of rows (close date, value). \<open>sort_values\<close> is an argument,
  since pandas sorts equal dates in an order it does not promise. Divisions of a column are IEEE
  divisions: they yield infinities and NaN instead of an exception.
\<close>

section \<open>Columns\<close>

datatype efloat = Fin flt | PosInf | NegInf | NaN

definition ediv :: "flt \<Rightarrow> flt \<Rightarrow> efloat" where
  "ediv a b = (if b \<noteq> 0 then Fin (a / b) else if a > 0 then PosInf else if a < 0 then NegInf else NaN)"

fun ele :: "efloat \<Rightarrow> efloat \<Rightarrow> bool" where
  "ele NaN _ = False"
| "ele _ NaN = False"
| "ele NegInf _ = True"
| "ele _ PosInf = True"
| "ele (Fin a) (Fin b) = (a \<le> b)"
| "ele _ _ = False"

fun cumsum_from :: "flt \<Rightarrow> flt list \<Rightarrow> flt list" where
  "cumsum_from acc [] = []"
| "cumsum_from acc (x # xs) = (acc + x) # cumsum_from (acc + x) xs"

definition cumsum :: "flt list \<Rightarrow> flt list" where
  "cumsum xs = cumsum_from 0 xs"

fun cummax_from :: "flt \<Rightarrow> flt list \<Rightarrow> flt list" where
  "cummax_from m [] = []"
| "cummax_from m (x # xs) = max m x # cummax_from (max m x) xs"

definition cummax :: "flt list \<Rightarrow> flt list" where
  "cummax xs = (case xs of [] \<Rightarrow> [] | x # ys \<Rightarrow> x # cummax_from x ys)"

text \<open>\<open>idxmax\<close> and \<open>idxmin\<close> are the first position of the extreme value; NaN is skipped.\<close>

definition idxmax :: "flt list \<Rightarrow> nat" where
  "idxmax xs = length (takeWhile (\<lambda>x. x \<noteq> max_list xs) xs)"

definition idxmin :: "flt list \<Rightarrow> nat" where
  "idxmin xs = length (takeWhile (\<lambda>x. x \<noteq> min_list_py xs) xs)"

definition idxmax_e :: "efloat list \<Rightarrow> nat" where
  "idxmax_e xs = length (takeWhile (\<lambda>x. \<not> (\<forall>y \<in> set xs. y = NaN \<or> ele y x)) xs)"

section \<open>Drawdown\<close>

record drawdown_row =
  d_cumulative :: flt
  d_high_value :: flt
  d_drawdown :: flt
  d_drawdown_relative :: efloat
  d_date :: datetime

definition calc_drawdown_series :: "(datetime \<times> flt) list \<Rightarrow> flt \<Rightarrow> drawdown_row list" where
  "calc_drawdown_series profit_results starting_balance =
     (let cumulative = cumsum (List.map snd profit_results);
          high_value = List.map (max 0) (cummax cumulative);
          relative = (\<lambda>(c, h). if starting_balance \<noteq> 0
                        then ediv ((starting_balance + h) - (starting_balance + c)) (starting_balance + h)
                        else ediv (h - c) h)
      in \<lparr>d_cumulative = 0, d_high_value = 0, d_drawdown = 0, d_drawdown_relative = Fin 0,
           d_date = fst (hd profit_results)\<rparr>
         # List.map (\<lambda>((c, h), d). \<lparr>d_cumulative = c, d_high_value = h, d_drawdown = c - h,
                                    d_drawdown_relative = relative (c, h), d_date = d\<rparr>)
             (zip (zip cumulative high_value) (List.map fst profit_results)))"

definition calculate_underwater ::
    "((datetime \<times> flt) list \<Rightarrow> (datetime \<times> flt) list) \<Rightarrow> (datetime \<times> flt) list \<Rightarrow> flt
       \<Rightarrow> py_error + drawdown_row list" where
  "calculate_underwater sort_values trades starting_balance =
     (if trades = [] then Inl ValueError
      else Inr (calc_drawdown_series (sort_values trades) starting_balance))"

record drawdown_result =
  drawdown_abs :: flt
  high_date :: datetime
  low_date :: datetime
  high_value :: flt
  low_value :: flt
  relative_account_drawdown :: efloat
  current_high_date :: datetime
  current_high_value :: flt
  current_drawdown_abs :: flt
  current_relative_account_drawdown :: efloat

definition calculate_max_drawdown ::
    "((datetime \<times> flt) list \<Rightarrow> (datetime \<times> flt) list) \<Rightarrow> (datetime \<times> flt) list \<Rightarrow> flt \<Rightarrow> bool
       \<Rightarrow> py_error + drawdown_result" where
  "calculate_max_drawdown sort_values trades starting_balance rel =
     (if trades = [] then Inl ValueError
      else
        (let profit_results = sort_values trades;
             df = calc_drawdown_series profit_results starting_balance;
             idx = (if rel then idxmax_e (List.map d_drawdown_relative df)
                    else idxmin (List.map d_drawdown df));
             high_idx = idxmax (List.map d_high_value (take (idx + 1) df));
             current_high_idx = idxmax (List.map d_high_value (butlast df))
         in Inr \<lparr>drawdown_abs = \<bar>d_drawdown (df ! idx)\<bar>,
                 high_date = fst (profit_results ! (high_idx - 1)),
                 low_date = fst (profit_results ! (idx - 1)),
                 high_value = d_cumulative (df ! high_idx),
                 low_value = d_cumulative (df ! idx),
                 relative_account_drawdown = d_drawdown_relative (df ! idx),
                 current_high_date = fst (profit_results ! (current_high_idx - 1)),
                 current_high_value = d_high_value (last df),
                 current_drawdown_abs = d_high_value (last df) - d_cumulative (last df),
                 current_relative_account_drawdown = d_drawdown_relative (last df)\<rparr>))"

section \<open>Cumulated profit and expectancy\<close>

definition calculate_csum :: "flt list \<Rightarrow> flt \<Rightarrow> py_error + (flt \<times> flt)" where
  "calculate_csum profit_abs starting_balance =
     (if profit_abs = [] then Inl ValueError
      else (let s = cumsum profit_abs
            in Inr (min_list_py s + starting_balance, max_list s + starting_balance)))"

definition calculate_expectancy :: "flt list \<Rightarrow> flt \<times> flt" where
  "calculate_expectancy profit_abs =
     (if length profit_abs > 0 then
        (let winning = filter (\<lambda>p. p > 0) profit_abs;
             losing = filter (\<lambda>p. p < 0) profit_abs;
             profit_sum = sum_list winning;
             loss_sum = \<bar>sum_list losing\<bar>;
             average_win = (if length winning > 0 then profit_sum / of_nat (length winning) else 0);
             average_loss = (if length losing > 0 then loss_sum / of_nat (length losing) else 0);
             winrate = of_nat (length winning) / of_nat (length profit_abs);
             loserate = of_nat (length losing) / of_nat (length profit_abs)
         in (winrate * average_win - loserate * average_loss,
             if average_loss > 0
             then (1 + average_win / average_loss) * winrate - 1 else 100))
      else (0, 100))"

section \<open>What the drawdown is\<close>

text \<open>The balance curve relative to the start: 0, then the cumulated values.\<close>

definition curve :: "(datetime \<times> flt) list \<Rightarrow> flt list" where
  "curve rows = 0 # cumsum (List.map snd rows)"

lemma length_cumsum_from [simp]: "length (cumsum_from a xs) = length xs"
  by (induction xs arbitrary: a) auto

lemma length_cummax_from [simp]: "length (cummax_from a xs) = length xs"
  by (induction xs arbitrary: a) auto

lemma length_cumsum [simp]: "length (cumsum xs) = length xs"
  by (simp add: cumsum_def)

lemma length_cummax [simp]: "length (cummax xs) = length xs"
  by (simp add: cummax_def split: list.splits)

lemma max_cummax: "List.map (max 0) (cummax xs) = cummax_from 0 xs"
proof -
  have "List.map (max a) (cummax_from m ys) = cummax_from (max a m) ys" for a m :: flt and ys
    by (induction ys arbitrary: m) (auto simp: max.assoc)
  then show ?thesis by (auto simp: cummax_def max.commute split: list.splits)
qed

lemma cummax_from_start: "j < length xs \<Longrightarrow> m \<le> cummax_from m xs ! j"
proof (induction xs arbitrary: m j)
  case (Cons x xs)
  show ?case
  proof (cases j)
    case (Suc k)
    with Cons.prems Cons.IH [of k "max m x"] show ?thesis by simp
  qed simp
qed simp

lemma cummax_from_upper: "j < length xs \<Longrightarrow> i \<le> j \<Longrightarrow> xs ! i \<le> cummax_from m xs ! j"
proof (induction xs arbitrary: m i j)
  case (Cons x xs)
  show ?case
  proof (cases j)
    case 0
    with Cons.prems show ?thesis by simp
  next
    case j: (Suc k)
    show ?thesis
    proof (cases i)
      case 0
      with j Cons.prems cummax_from_start [of k xs "max m x"] show ?thesis by simp
    next
      case (Suc l)
      with j Cons.prems Cons.IH [of k l "max m x"] show ?thesis by simp
    qed
  qed
qed simp

lemma cummax_from_attained:
  "j < length xs \<Longrightarrow> cummax_from m xs ! j = m \<or> (\<exists>i \<le> j. cummax_from m xs ! j = xs ! i)"
proof (induction xs arbitrary: m j)
  case (Cons x xs)
  show ?case
  proof (cases j)
    case 0
    then show ?thesis by (auto simp: max_def)
  next
    case (Suc k)
    with Cons.prems Cons.IH [of k "max m x"]
    consider "cummax_from (max m x) xs ! k = max m x" | i where "i \<le> k" "cummax_from (max m x) xs ! k = xs ! i"
      by auto
    then show ?thesis
    proof cases
      case 1
      with Suc show ?thesis by (auto simp: max_def intro: exI [of _ 0])
    next
      case 2
      with Suc show ?thesis by (intro disjI2 exI [of _ "Suc i"]) simp
    qed
  qed
qed simp

text \<open>The rows of the table are the curve and its running maximum.\<close>

lemma series_length [simp]: "length (calc_drawdown_series rows sb) = Suc (length rows)"
  by (simp add: calc_drawdown_series_def Let_def)

lemma series_cumulative: "j \<le> length rows \<Longrightarrow> d_cumulative (calc_drawdown_series rows sb ! j) = curve rows ! j"
  by (cases j) (simp_all add: calc_drawdown_series_def curve_def Let_def)

lemma series_drawdown: "j \<le> length rows \<Longrightarrow> d_drawdown (calc_drawdown_series rows sb ! j)
    = d_cumulative (calc_drawdown_series rows sb ! j) - d_high_value (calc_drawdown_series rows sb ! j)"
  by (cases j) (simp_all add: calc_drawdown_series_def Let_def)

lemma series_high: "j < length rows \<Longrightarrow>
    d_high_value (calc_drawdown_series rows sb ! Suc j) = cummax_from 0 (cumsum (List.map snd rows)) ! j"
  by (simp add: calc_drawdown_series_def Let_def max_cummax)

lemma series_high_upper:
  "j \<le> length rows \<Longrightarrow> i \<le> j \<Longrightarrow> curve rows ! i \<le> d_high_value (calc_drawdown_series rows sb ! j)"
proof (cases j)
  case 0
  assume "i \<le> j"
  with 0 show ?thesis by (simp add: curve_def calc_drawdown_series_def Let_def)
next
  case (Suc k)
  assume "j \<le> length rows" "i \<le> j"
  with Suc show ?thesis
    by (cases i) (auto simp: series_high curve_def intro: cummax_from_upper cummax_from_start)
qed

lemma series_high_attained:
  "j \<le> length rows \<Longrightarrow> \<exists>i \<le> j. d_high_value (calc_drawdown_series rows sb ! j) = curve rows ! i"
proof (cases j)
  case 0
  then show ?thesis by (simp add: curve_def calc_drawdown_series_def Let_def)
next
  case (Suc k)
  assume "j \<le> length rows"
  with Suc have k: "k < length (cumsum (List.map snd rows))" by simp
  from cummax_from_attained [OF k, of 0] show ?thesis
  proof
    assume "cummax_from 0 (cumsum (List.map snd rows)) ! k = 0"
    with Suc k show ?thesis by (auto simp: series_high curve_def)
  next
    assume "\<exists>i \<le> k. cummax_from 0 (cumsum (List.map snd rows)) ! k = cumsum (List.map snd rows) ! i"
    then obtain i where "i \<le> k" "cummax_from 0 (cumsum (List.map snd rows)) ! k = cumsum (List.map snd rows) ! i"
      by blast
    with Suc k show ?thesis by (intro exI [of _ "Suc i"]) (simp add: series_high curve_def)
  qed
qed

lemma idxmin_min:
  assumes "xs \<noteq> []"
  shows "idxmin xs < length xs" and "y \<in> set xs \<Longrightarrow> xs ! idxmin xs \<le> y"
proof -
  have shorter: "length (takeWhile (\<lambda>x. x \<noteq> m) ys) < length ys" if "m \<in> set ys" for m :: flt and ys
    using that by (induction ys) auto
  from shorter [OF min_list_py_in [OF assms]]
  have len: "length (takeWhile (\<lambda>x. x \<noteq> min_list_py xs) xs) < length xs" .
  then show "idxmin xs < length xs" by (simp add: idxmin_def)
  from nth_length_takeWhile [OF len] have "xs ! idxmin xs = min_list_py xs" by (simp add: idxmin_def)
  then show "y \<in> set xs \<Longrightarrow> xs ! idxmin xs \<le> y" by (simp add: min_list_py_le)
qed

text \<open>The reported maximum drawdown is the largest drop of the balance curve. One
  pass with a running maximum finds what comparing all pairs of moments finds: no later point of
  the curve lies further below an earlier one than \<open>drawdown_abs\<close>, and some pair of points is
  exactly that far apart.\<close>

theorem max_drawdown_largest_drop:
  assumes "calculate_max_drawdown sort_values trades starting_balance False = Inr r"
    and "mset (sort_values trades) = mset trades"
  defines "c \<equiv> curve (sort_values trades)"
  shows "(\<forall>j < length c. \<forall>i \<le> j. c ! i - c ! j \<le> drawdown_abs r)
    \<and> (\<exists>j < length c. \<exists>i \<le> j. drawdown_abs r = c ! i - c ! j)"
proof -
  define rows where "rows = sort_values trades"
  define df where "df = calc_drawdown_series rows starting_balance"
  define k where "k = idxmin (List.map d_drawdown df)"
  from assms(1) have dd: "drawdown_abs r = \<bar>d_drawdown (df ! k)\<bar>"
    by (auto simp: calculate_max_drawdown_def Let_def df_def rows_def k_def split: if_splits)
  have len: "length df = Suc (length rows)" "length c = Suc (length rows)"
    by (simp_all add: df_def c_def curve_def rows_def)
  have drop: "d_drawdown (df ! j) = c ! j - d_high_value (df ! j)" if "j \<le> length rows" for j
    using that by (simp add: df_def c_def rows_def series_drawdown series_cumulative)
  have upper: "c ! i \<le> d_high_value (df ! j)" if "i \<le> j" "j \<le> length rows" for i j
    using that series_high_upper [of j rows i starting_balance] by (simp add: df_def c_def rows_def)
  have ne: "List.map d_drawdown df \<noteq> []" using len by auto
  have k0: "k \<le> length rows" using idxmin_min(1) [OF ne] len by (simp add: k_def)
  have kmin: "d_drawdown (df ! k) \<le> d_drawdown (df ! j)" if "j \<le> length rows" for j
  proof -
    from that len have "List.map d_drawdown df ! j \<in> set (List.map d_drawdown df)"
      by (intro nth_mem) simp
    from idxmin_min(2) [OF ne this] show ?thesis
      using that k0 len by (simp add: k_def)
  qed
  have low: "drawdown_abs r = d_high_value (df ! k) - c ! k"
    using dd drop [of k] upper [of k k] k0 by simp
  have "c ! i - c ! j \<le> drawdown_abs r" if "i \<le> j" "j < length c" for i j
    using low upper [of i j] drop [of j] drop [of k] k0 kmin [of j] that len by simp
  moreover from series_high_attained [of k rows starting_balance] k0
  obtain i where "i \<le> k" "d_high_value (df ! k) = c ! i" by (auto simp: df_def c_def rows_def)
  ultimately show ?thesis
    using low k0 len by (metis le_imp_less_Suc order_refl)
qed

definition example_rows :: "(datetime \<times> flt) list" where
  "example_rows = [(1, 5), (2, -3), (3, 1), (4, -4), (5, 9)]"

theorem max_drawdown_largest_drop_witness:
  "\<exists>r. calculate_max_drawdown (sort_key fst) example_rows 0 False = Inr r
     \<and> (\<forall>j < 6. \<forall>i \<le> j. curve example_rows ! i - curve example_rows ! j \<le> drawdown_abs r)"
proof -
  obtain r where r: "calculate_max_drawdown (sort_key fst) example_rows 0 False = Inr r"
    by (simp add: calculate_max_drawdown_def example_rows_def Let_def)
  have s: "sort_key fst example_rows = example_rows"
    by (simp add: example_rows_def)
  from max_drawdown_largest_drop [OF r] s
  have "\<forall>j < 6. \<forall>i \<le> j. curve example_rows ! i - curve example_rows ! j \<le> drawdown_abs r"
    by (simp add: curve_def example_rows_def)
  with r show ?thesis by blast
qed

section \<open>Expectancy\<close>

lemma sum_split_sign:
  "sum_list ps = sum_list (filter (\<lambda>p. p > 0) ps) + sum_list (filter (\<lambda>p. p < 0) (ps :: flt list))"
  by (induction ps) auto

lemma sum_losing: "sum_list (filter (\<lambda>p. p < 0) (ps :: flt list)) \<le> 0"
  by (induction ps) auto

text \<open>The expectancy is the average profit of a trade. The win rate times the average
  win less the loss rate times the average loss is the sum of the profits over their number, for
  any table, including ones without wins, without losses or with break-even trades.\<close>

theorem expectancy_is_mean:
  "fst (calculate_expectancy profits) = (if profits = [] then 0 else sum_list profits / of_nat (length profits))"
proof (cases "profits = []")
  case True
  then show ?thesis by (simp add: calculate_expectancy_def)
next
  case False
  then have n: "(of_nat (length profits) :: rat) > 0" by simp
  have part: "(of_nat (length xs) / of_nat (length profits)) *
      (if length xs > 0 then s / of_nat (length xs) else 0) = (if xs = [] then 0 else s / of_nat (length profits))"
    for xs :: "flt list" and s :: rat by auto
  let ?w = "filter (\<lambda>p. p > 0) profits" and ?l = "filter (\<lambda>p. p < 0) profits"
  have "fst (calculate_expectancy profits) =
      (if ?w = [] then 0 else sum_list ?w / of_nat (length profits))
      - (if ?l = [] then 0 else \<bar>sum_list ?l\<bar> / of_nat (length profits))"
    using False unfolding calculate_expectancy_def Let_def by (simp only: part [symmetric]) simp
  also have "\<dots> = (sum_list ?w - \<bar>sum_list ?l\<bar>) / of_nat (length profits)"
    by (auto simp: diff_divide_distrib simp del: filter_empty_conv)
  also have "\<dots> = sum_list profits / of_nat (length profits)"
    using sum_losing [of profits] sum_split_sign [of profits] by simp
  finally show ?thesis using False by simp
qed

end
