(* ===== verification/Protections.thy ===== *)
theory Protections
  imports Bt_Trades Metrics
begin

text \<open>
  The protections (plugins/protections): rules that look at the closed trades and ask for a lock
  of a pair or of all pairs. Trades are read through \<open>get_trades_proxy\<close> on the container of
  Bt_Trades. The texts of floats and dates inside a lock's reason come from
  \<open>py_format\<close>, an argument; they only tell locks apart.
\<close>

section \<open>Configuration\<close>

record prot_config =
  pc_stop_duration :: "int option"
  pc_stop_duration_candles :: "int option"
  pc_lookback_period :: "int option"
  pc_lookback_period_candles :: "int option"
  pc_unlock_at :: "string option"

record py_format =
  repr_float :: "flt \<Rightarrow> string"
  format_percent :: "flt \<Rightarrow> string"
  format_minute :: "datetime \<Rightarrow> string"

record iprotection =
  ip_stop_duration_candles :: "int option"
  ip_stop_duration :: int
  ip_lookback_period_candles :: "int option"
  ip_lookback_period :: int
  ip_unlock_at :: "string option"

definition with_default :: "'a option \<Rightarrow> 'a \<Rightarrow> 'a" where
  "with_default a d = (case a of None \<Rightarrow> d | Some x \<Rightarrow> x)"

definition iprotection_init :: "ccxt \<Rightarrow> string \<Rightarrow> prot_config \<Rightarrow> iprotection" where
  "iprotection_init C timeframe cfg =
     (let tf_in_min = timeframe_to_minutes C timeframe;
          (sdc, sd, ua) =
            (case pc_stop_duration_candles cfg of
               Some n \<Rightarrow> (Some n, tf_in_min * n, None)
             | None \<Rightarrow> (case pc_unlock_at cfg of
                 Some u \<Rightarrow> (None, 0, Some u)
               | None \<Rightarrow> (None, with_default (pc_stop_duration cfg) 60, None)));
          (lbc, lb) =
            (case pc_lookback_period_candles cfg of
               Some n \<Rightarrow> (Some n, tf_in_min * n)
             | None \<Rightarrow> (None, with_default (pc_lookback_period cfg) 60))
      in \<lparr>ip_stop_duration_candles = sdc, ip_stop_duration = sd, ip_lookback_period_candles = lbc,
          ip_lookback_period = lb, ip_unlock_at = ua\<rparr>)"

section \<open>Texts\<close>

definition plural :: "int \<Rightarrow> string \<Rightarrow> string \<Rightarrow> string" where
  "plural num singular pl = (if num = 1 \<or> num = -1 then singular else pl)"

definition candles_or_minutes :: "int option \<Rightarrow> int \<Rightarrow> string" where
  "candles_or_minutes candles minutes =
     (case candles of
        Some n \<Rightarrow> if n \<noteq> 0 then show_int n @ '' '' @ plural n ''candle'' ''candles''
                  else show_int minutes @ '' '' @ plural minutes ''minute'' ''minutes''
      | None \<Rightarrow> show_int minutes @ '' '' @ plural minutes ''minute'' ''minutes'')"

definition stop_duration_str :: "iprotection \<Rightarrow> string" where
  "stop_duration_str p = candles_or_minutes (ip_stop_duration_candles p) (ip_stop_duration p)"

definition lookback_period_str :: "iprotection \<Rightarrow> string" where
  "lookback_period_str p = candles_or_minutes (ip_lookback_period_candles p) (ip_lookback_period p)"

definition unlock_reason_time_element :: "iprotection \<Rightarrow> string" where
  "unlock_reason_time_element p =
     (case ip_unlock_at p of Some u \<Rightarrow> ''until '' @ u | None \<Rightarrow> ''for '' @ stop_duration_str p)"

section \<open>The end of a lock\<close>

text \<open>
  The configuration check parses \<open>unlock_at\<close> with the format \<open>%H:%M\<close>: one or two digits each, in
  range. \<open>int\<close> is modelled on the strings of digits that pass this check; \<open>replace\<close> keeps the
  seconds and microseconds of the date and raises \<open>ValueError\<close> out of range.
\<close>

fun is_digit :: "char \<Rightarrow> bool" where
  "is_digit c = (48 \<le> (of_char c :: int) \<and> (of_char c :: int) \<le> 57)"

definition int_of_digits :: "string \<Rightarrow> int" where
  "int_of_digits s = fold (\<lambda>c n. n * 10 + (of_char c - 48)) s 0"

definition py_int :: "string \<Rightarrow> int option" where
  "py_int s = (if s \<noteq> [] \<and> list_all is_digit s then Some (int_of_digits s) else None)"

lemma py_int_nonneg: "py_int s = Some n \<Longrightarrow> 0 \<le> n"
proof -
  have "0 \<le> a \<Longrightarrow> list_all is_digit xs \<Longrightarrow> 0 \<le> fold (\<lambda>c n. n * 10 + (of_char c - 48)) xs (a::int)" for a xs
    by (induction xs arbitrary: a) auto
  then show "py_int s = Some n \<Longrightarrow> 0 \<le> n" by (auto simp: py_int_def int_of_digits_def split: if_splits)
qed

definition strptime_hm :: "string \<Rightarrow> (int \<times> int) option" where
  "strptime_hm s =
     (case split_on CHR '':'' s of
        [h, m] \<Rightarrow>
          if length h \<le> 2 \<and> length m \<le> 2 then
            (case (py_int h, py_int m) of
               (Some hh, Some mm) \<Rightarrow> if hh < 24 \<and> mm < 60 then Some (hh, mm) else None
             | _ \<Rightarrow> None)
          else None
      | _ \<Rightarrow> None)"

definition replace_hm :: "datetime \<Rightarrow> int \<Rightarrow> int \<Rightarrow> py_error + datetime" where
  "replace_hm d hour minute =
     (if 0 \<le> hour \<and> hour < 24 \<and> 0 \<le> minute \<and> minute < 60
      then Inr (dt_floor_day d + minutes_us (hour * 60 + minute) + d mod minutes_us 1)
      else Inl ValueError)"

definition calculate_lock_end :: "iprotection \<Rightarrow> trade list \<Rightarrow> py_error + datetime" where
  "calculate_lock_end p trades =
     (let dates = List.map_filter t_close_date trades
      in if dates = [] then Inl ValueError
         else
           (let max_date = max_list dates
            in case ip_unlock_at p of
                 Some ua \<Rightarrow>
                   (case split_on CHR '':'' ua of
                      [h, m] \<Rightarrow>
                        (case (py_int h, py_int m) of
                           (Some hour, Some minutes) \<Rightarrow>
                             bindE (replace_hm max_date hour minutes) (\<lambda>unlock_at.
                               Inr (if unlock_at < max_date then unlock_at + day_us else unlock_at))
                         | _ \<Rightarrow> Inl ValueError)
                    | _ \<Rightarrow> Inl ValueError)
               | None \<Rightarrow> Inr (max_date + minutes_us (ip_stop_duration p))))"

section \<open>The rules\<close>

record protection_return =
  pr_until :: datetime
  pr_reason :: string
  pr_lock_side :: string

definition closed_trades :: "bt_state \<Rightarrow> string option \<Rightarrow> datetime option \<Rightarrow> trade list" where
  "closed_trades s pair close_date =
     List.map (bt_heap s) (get_trades_proxy s pair (Some False) None close_date)"

definition look_back_until :: "iprotection \<Rightarrow> datetime \<Rightarrow> datetime" where
  "look_back_until p date_now = date_now - minutes_us (ip_lookback_period p)"

subsection \<open>CooldownPeriod\<close>

definition cooldown_period ::
    "iprotection \<Rightarrow> bt_state \<Rightarrow> string \<Rightarrow> datetime \<Rightarrow> py_error + protection_return option" where
  "cooldown_period p s pair date_now =
     (let trades = closed_trades s (Some pair) (Some (look_back_until p date_now))
      in if trades \<noteq> [] then
           (let trade = last (sort_key (\<lambda>t. the (t_close_date t)) trades)
            in bindE (calculate_lock_end p [trade]) (\<lambda>until.
                 Inr (Some \<lparr>pr_until = until,
                            pr_reason = ''Cooldown period for '' @ unlock_reason_time_element p @ ''.'',
                            pr_lock_side = ''*''\<rparr>)))
         else Inr None)"

subsection \<open>LowProfitPairs\<close>

definition low_profit ::
    "py_format \<Rightarrow> iprotection \<Rightarrow> int \<Rightarrow> flt \<Rightarrow> bool \<Rightarrow> bt_state \<Rightarrow> datetime \<Rightarrow> string \<Rightarrow> string
       \<Rightarrow> py_error + protection_return option" where
  "low_profit F p trade_limit required_profit only_per_side s date_now pair side =
     (let trades = closed_trades s (Some pair) (Some (look_back_until p date_now))
      in if int (length trades) < trade_limit then Inr None
         else
           (let profit = sum_list (List.map (\<lambda>t. or_val (t_close_profit t) 0)
                  (filter (\<lambda>t. truthy (t_close_profit t)
                                \<and> (\<not> only_per_side \<or> trade_direction t = side)) trades))
            in if profit < required_profit then
                 bindE (calculate_lock_end p trades) (\<lambda>until.
                   Inr (Some \<lparr>pr_until = until,
                              pr_reason = repr_float F profit @ '' < '' @ repr_float F required_profit
                                @ '' in '' @ lookback_period_str p @ '', locking ''
                                @ unlock_reason_time_element p @ ''.'',
                              pr_lock_side = (if only_per_side then side else ''*'')\<rparr>))
               else Inr None))"

subsection \<open>StoplossGuard\<close>

definition is_stoploss_exit :: "flt \<Rightarrow> trade \<Rightarrow> bool" where
  "is_stoploss_exit profit_limit t \<longleftrightarrow>
     (case t_exit_reason t of
        None \<Rightarrow> False
      | Some r \<Rightarrow> r \<in> set (List.map exit_type_value
                    [TRAILING_STOP_LOSS, STOP_LOSS, STOPLOSS_ON_EXCHANGE, LIQUIDATION]))
     \<and> (case t_close_profit t of None \<Rightarrow> False | Some p \<Rightarrow> p \<noteq> 0 \<and> p < profit_limit)"

definition stoploss_guard ::
    "iprotection \<Rightarrow> int \<Rightarrow> flt \<Rightarrow> bool \<Rightarrow> bt_state \<Rightarrow> datetime \<Rightarrow> string option \<Rightarrow> string
       \<Rightarrow> py_error + protection_return option" where
  "stoploss_guard p trade_limit profit_limit only_per_side s date_now pair side =
     (let trades1 = closed_trades s pair (Some (look_back_until p date_now));
          trades2 = filter (is_stoploss_exit profit_limit) trades1;
          trades = (if only_per_side then filter (\<lambda>t. trade_direction t = side) trades2 else trades2)
      in if int (length trades) < trade_limit then Inr None
         else bindE (calculate_lock_end p trades) (\<lambda>until.
           Inr (Some \<lparr>pr_until = until,
                      pr_reason = show_int trade_limit @ '' stoplosses in ''
                        @ show_int (ip_lookback_period p) @ '' min, locking ''
                        @ unlock_reason_time_element p @ ''.'',
                      pr_lock_side = (if only_per_side then side else ''*'')\<rparr>)))"

subsection \<open>MaxDrawdown\<close>

text \<open>
  A missing value of a column is NaN, which the cumulated sums and the search for the extreme
  value skip, so the rows without a value are left out; only an empty table raises. A relative
  drawdown that is NaN or infinite is compared as in IEEE arithmetic.
\<close>

definition drawdown_rows :: "(trade \<Rightarrow> flt option) \<Rightarrow> trade list \<Rightarrow> (datetime \<times> flt) list" where
  "drawdown_rows value trades =
     List.map_filter (\<lambda>t. map_option (\<lambda>v. (the (t_close_date t), v)) (value t)) trades"

fun egt :: "efloat \<Rightarrow> flt \<Rightarrow> bool" where
  "egt (Fin x) b = (x > b)"
| "egt PosInf b = True"
| "egt NegInf b = False"
| "egt NaN b = False"

definition drawdown_of ::
    "((datetime \<times> flt) list \<Rightarrow> (datetime \<times> flt) list) \<Rightarrow> bool \<Rightarrow> bt_state \<Rightarrow> datetime \<Rightarrow> trade list
       \<Rightarrow> flt \<Rightarrow> py_error + efloat" where
  "drawdown_of sort_values equity s lbu trades starting_balance =
     (if trades = [] then Inl ValueError
      else if equity then
        (let earlier = sum_list (List.map (\<lambda>t. or_val (t_close_profit_abs t) 0)
                (filter (\<lambda>t. the (t_close_date t) \<le> lbu) (closed_trades s None None)));
             rows = drawdown_rows t_close_profit_abs trades
         in if rows = [] then Inr (Fin 0)
            else bindE (calculate_max_drawdown sort_values rows (starting_balance + earlier) True)
                   (\<lambda>r. Inr (relative_account_drawdown r)))
      else
        (let rows = drawdown_rows t_close_profit trades
         in if rows = [] then Inr (Fin 0)
            else bindE (calculate_max_drawdown sort_values rows 0 False)
                   (\<lambda>r. Inr (Fin (drawdown_abs r)))))"

definition max_drawdown ::
    "((datetime \<times> flt) list \<Rightarrow> (datetime \<times> flt) list) \<Rightarrow> (efloat \<Rightarrow> string) \<Rightarrow> py_format \<Rightarrow> iprotection
       \<Rightarrow> int \<Rightarrow> flt \<Rightarrow> string \<Rightarrow> bt_state \<Rightarrow> datetime \<Rightarrow> flt \<Rightarrow> py_error + protection_return option" where
  "max_drawdown sort_values repr_e F p trade_limit max_allowed calculation_mode s date_now starting_balance =
     (let lbu = look_back_until p date_now;
          trades = closed_trades s None (Some lbu)
      in if int (length trades) < trade_limit then Inr None
         else
           (case drawdown_of sort_values (calculation_mode = ''equity'') s lbu trades starting_balance of
              Inl e \<Rightarrow> if e = ValueError then Inr None else Inl e
            | Inr drawdown \<Rightarrow>
                if egt drawdown max_allowed then
                  bindE (calculate_lock_end p trades) (\<lambda>until.
                    Inr (Some \<lparr>pr_until = until,
                               pr_reason = repr_e drawdown @ '' passed '' @ repr_float F max_allowed
                                 @ '' in '' @ lookback_period_str p @ '', locking ''
                                 @ unlock_reason_time_element p @ ''.'',
                               pr_lock_side = ''*''\<rparr>))
                else Inr None))"

subsection \<open>MaxDailyLoss and MaxWeeklyLoss\<close>

text \<open>Day 0 of the calendar, 1970-01-01, is a Thursday, which \<open>weekday()\<close> counts as 3.\<close>

datatype loss_period = Day | Week

definition weekday :: "datetime \<Rightarrow> int" where
  "weekday d = (d div day_us + 3) mod 7"

fun period_bounds :: "loss_period \<Rightarrow> datetime \<Rightarrow> datetime \<times> datetime" where
  "period_bounds Day date_now =
     (let start = dt_floor_day date_now in (start, start + day_us))"
| "period_bounds Week date_now =
     (let day_start = dt_floor_day date_now; week_start = day_start - weekday day_start * day_us
      in (week_start, week_start + 7 * day_us))"

fun period_name :: "loss_period \<Rightarrow> string" where
  "period_name Day = ''day''"
| "period_name Week = ''week''"

definition max_loss ::
    "py_format \<Rightarrow> loss_period \<Rightarrow> flt \<Rightarrow> bt_state \<Rightarrow> datetime \<Rightarrow> flt \<Rightarrow> protection_return option" where
  "max_loss F period max_allowed_loss s date_now starting_balance =
     (if max_allowed_loss \<le> 0 \<or> starting_balance \<le> 0 then None
      else
        (let (period_start, period_end) = period_bounds period date_now;
             trades = closed_trades s None (Some period_start)
         in if trades = [] then None
            else
              (let realized = sum_list (List.map (\<lambda>t. or_val (t_close_profit_abs t) 0) trades)
               in if realized \<ge> 0 then None
                  else
                    (let loss_ratio = \<bar>realized\<bar> / starting_balance
                     in if loss_ratio < max_allowed_loss then None
                        else Some \<lparr>pr_until = period_end,
                               pr_reason = ''Max '' @ period_name period @ '' loss ''
                                 @ format_percent F loss_ratio @ '' reached ''
                                 @ format_percent F max_allowed_loss @ ''; locking until ''
                                 @ format_minute F period_end @ '' UTC.'',
                               pr_lock_side = ''*''\<rparr>))))"

subsection \<open>ConsecutiveLossGuard\<close>

definition is_loss :: "trade \<Rightarrow> bool" where
  "is_loss t \<longleftrightarrow> or_val (t_close_profit t) 0 < 0"

text \<open>\<open>sorted(..., reverse=True)\<close> keeps equal dates in the order of the table.\<close>

definition recent_first :: "trade list \<Rightarrow> trade list" where
  "recent_first trades =
     sort_key (\<lambda>t. - the (t_close_date t)) (filter (\<lambda>t. t_close_date t \<noteq> None) trades)"

fun loss_streak :: "trade list \<Rightarrow> int" where
  "loss_streak [] = 0"
| "loss_streak (t # ts) = (if is_loss t then 1 + loss_streak ts else 0)"

definition consecutive_losses ::
    "iprotection \<Rightarrow> int \<Rightarrow> bt_state \<Rightarrow> datetime \<Rightarrow> py_error + protection_return option" where
  "consecutive_losses p trade_limit s date_now =
     (let closed = recent_first (closed_trades s None (Some (look_back_until p date_now)));
          streak = loss_streak closed
      in if streak < trade_limit then Inr None
         else bindE (calculate_lock_end p closed) (\<lambda>until.
           Inr (Some \<lparr>pr_until = until,
                      pr_reason = show_int streak @ '' consecutive losing trades reached the limit of ''
                        @ show_int trade_limit @ '', locking '' @ unlock_reason_time_element p @ ''.'',
                      pr_lock_side = ''*''\<rparr>)))"

section \<open>When locks end\<close>

lemma map_filter_date_mem: "c \<in> set (List.map_filter t_close_date trades) \<longleftrightarrow> (\<exists>t \<in> set trades. t_close_date t = Some c)"
  by (induction trades) (auto simp: List.map_filter_simps split: option.splits)

lemma replace_hm_bounds:
  assumes "replace_hm d h m = Inr u"
  shows "dt_floor_day d \<le> u \<and> u < dt_floor_day d + day_us \<and> (u mod day_us) div minutes_us 1 = h * 60 + m"
proof -
  from assms have hm: "0 \<le> h" "h < 24" "0 \<le> m" "m < 60"
    and u: "u = dt_floor_day d + (h * 60 + m) * 60000000 + d mod 60000000"
    by (auto simp: replace_hm_def minutes_us_def split: if_splits)
  define q where "q = d div day_us"
  have f: "dt_floor_day d = q * 86400000000"
    by (simp add: dt_floor_day_def q_def day_us_def minus_mod_eq_div_mult)
  define r where "r = d mod 60000000"
  have r: "0 \<le> r" "r < 60000000" by (simp_all add: r_def)
  define k where "k = h * 60 + m"
  have k: "0 \<le> k" "k < 1440" using hm by (simp_all add: k_def)
  have u': "u = k * 60000000 + r + q * 86400000000" by (simp add: u f k_def r_def)
  have small: "0 \<le> k * 60000000 + r" "k * 60000000 + r < 86400000000" using k r by linarith+
  then have "u mod day_us = k * 60000000 + r"
    by (simp add: u' day_us_def)
  then have "(u mod day_us) div minutes_us 1 = k" using r by (simp add: minutes_us_def)
  then show ?thesis using small by (simp add: f u' day_us_def k_def)
qed

text \<open>A lock ends where its rule says. With a stop duration the lock ends that many
  minutes after the last close among the trades that triggered it. With \<open>unlock_at\<close> it ends at the
  first moment with that hour and minute that is not before the last close (the seconds of the
  close are kept), hence less than a day later; a close at exactly that minute ends it at once.\<close>

theorem lock_end_bounds:
  assumes "calculate_lock_end p trades = Inr until"
  shows "\<exists>last_close. (\<exists>t \<in> set trades. t_close_date t = Some last_close)
    \<and> (\<forall>t \<in> set trades. \<forall>c. t_close_date t = Some c \<longrightarrow> c \<le> last_close)
    \<and> (case ip_unlock_at p of
         None \<Rightarrow> until = last_close + minutes_us (ip_stop_duration p)
       | Some ua \<Rightarrow> last_close \<le> until \<and> until < last_close + day_us
           \<and> (\<exists>h m hh mm. split_on CHR '':'' ua = [h, m] \<and> py_int h = Some hh \<and> py_int m = Some mm
                \<and> (until mod day_us) div minutes_us 1 = hh * 60 + mm))"
proof -
  let ?dates = "List.map_filter t_close_date trades"
  let ?max = "max_list ?dates"
  from assms have ne: "?dates \<noteq> []" by (auto simp: calculate_lock_end_def Let_def split: if_splits)
  have "case ip_unlock_at p of
         None \<Rightarrow> until = ?max + minutes_us (ip_stop_duration p)
       | Some ua \<Rightarrow> ?max \<le> until \<and> until < ?max + day_us
           \<and> (\<exists>h m hh mm. split_on CHR '':'' ua = [h, m] \<and> py_int h = Some hh \<and> py_int m = Some mm
                \<and> (until mod day_us) div minutes_us 1 = hh * 60 + mm)"
  proof (cases "ip_unlock_at p")
    case None
    with assms ne show ?thesis by (simp add: calculate_lock_end_def Let_def)
  next
    case (Some ua)
    with assms ne obtain h m hh mm u where parse: "split_on CHR '':'' ua = [h, m]"
        "py_int h = Some hh" "py_int m = Some mm"
      and u: "replace_hm ?max hh mm = Inr u"
      and till: "until = (if u < ?max then u + day_us else u)"
      by (auto simp: calculate_lock_end_def Let_def bindE_eq_Inr split: list.splits option.splits)
    from replace_hm_bounds [OF u] dt_floor_day_bounds [of ?max]
    have "?max \<le> until" "until < ?max + day_us" "(until mod day_us) div minutes_us 1 = hh * 60 + mm"
      by (auto simp: till)
    with Some parse show ?thesis by auto
  qed
  moreover have "\<exists>t \<in> set trades. t_close_date t = Some ?max"
    using max_list_in [OF ne] by (simp add: map_filter_date_mem)
  moreover have "\<forall>t \<in> set trades. \<forall>c. t_close_date t = Some c \<longrightarrow> c \<le> ?max"
    by (auto intro!: max_list_ge simp: map_filter_date_mem)
  ultimately show ?thesis by blast
qed

definition example_protection :: iprotection where
  "example_protection = \<lparr>ip_stop_duration_candles = None, ip_stop_duration = 0,
     ip_lookback_period_candles = None, ip_lookback_period = 60, ip_unlock_at = Some ''7:30''\<rparr>"

theorem lock_end_bounds_witness:
  "\<exists>until. calculate_lock_end example_protection [example_trade\<lparr>t_close_date := Some 90000000000\<rparr>] = Inr until
     \<and> 90000000000 \<le> until \<and> until < 90000000000 + day_us"
proof -
  let ?ts = "[example_trade\<lparr>t_close_date := Some 90000000000\<rparr>]"
  obtain u where u: "calculate_lock_end example_protection ?ts = Inr u"
    by (simp add: calculate_lock_end_def example_protection_def py_int_def int_of_digits_def
        replace_hm_def List.map_filter_simps Let_def)
  from lock_end_bounds [OF u] show ?thesis
    using u by (auto simp: example_protection_def)
qed

section \<open>When the rules ask for a lock\<close>

lemma closed_trades_close_date:
  "t \<in> set (closed_trades s pair (Some d)) \<Longrightarrow> \<exists>c. t_close_date t = Some c \<and> c > d"
  by (auto simp: closed_trades_def get_trades_proxy_def Let_def split: option.splits if_splits)

lemma calculate_lock_end_duration:
  "ip_unlock_at p = None \<Longrightarrow> (\<exists>t \<in> set trades. t_close_date t \<noteq> None) \<Longrightarrow>
    \<exists>u. calculate_lock_end p trades = Inr u"
  using map_filter_date_mem [of _ trades] by (fastforce simp: calculate_lock_end_def Let_def)

lemma loss_streak_ge: "0 \<le> loss_streak ts"
  by (induction ts) auto

lemma loss_streak_take:
  "int n \<le> loss_streak ts \<longleftrightarrow> n \<le> length ts \<and> (\<forall>t \<in> set (take n ts). is_loss t)"
proof (induction ts arbitrary: n)
  case (Cons t ts)
  then show ?case using loss_streak_ge [of ts] by (cases n) auto
qed auto

text \<open>The circuit breaker fires exactly on a streak. With a positive limit and a stop
  duration, \<open>ConsecutiveLossGuard\<close> asks for a lock if and only if the window holds at least
  \<open>trade_limit\<close> closed trades and the \<open>trade_limit\<close> most recent of them all lost; the lock then
  covers all pairs and both sides.\<close>

theorem streak_guard_exact:
  fixes s :: bt_state and date_now :: datetime
  assumes "1 \<le> trade_limit" and "ip_unlock_at p = None"
  defines "recent \<equiv> recent_first (closed_trades s None (Some (look_back_until p date_now)))"
  shows "(\<exists>l. consecutive_losses p (int trade_limit) s date_now = Inr (Some l) \<and> pr_lock_side l = ''*'')
      \<longleftrightarrow> trade_limit \<le> length recent \<and> (\<forall>t \<in> set (take trade_limit recent). is_loss t)"
proof -
  have "int trade_limit \<le> loss_streak recent \<Longrightarrow> \<exists>u. calculate_lock_end p recent = Inr u"
  proof (rule calculate_lock_end_duration [OF assms(2)])
    assume "int trade_limit \<le> loss_streak recent"
    with assms(1) have "recent \<noteq> []" by (auto simp: loss_streak_take)
    then have "hd recent \<in> set recent" by simp
    then show "\<exists>t \<in> set recent. t_close_date t \<noteq> None"
      by (auto simp: recent_def recent_first_def)
  qed
  then show ?thesis
    unfolding loss_streak_take [symmetric]
    by (auto simp: consecutive_losses_def Let_def recent_def [symmetric])
qed

definition example_losses :: bt_state where
  "example_losses = \<lparr>bt_heap = (\<lambda>i. example_trade\<lparr>t_close_date := Some (int i), t_close_profit := Some (- 1)\<rparr>),
     bt_trades = [1, 2], bt_trades_open = [], bt_trades_open_pp = (\<lambda>_. []),
     bt_open_open_trade_count = 0, bt_total_profit = 0\<rparr>"

theorem streak_guard_exact_witness:
  "\<exists>l. consecutive_losses (example_protection\<lparr>ip_unlock_at := None\<rparr>) (int 2) example_losses 3 = Inr (Some l)
     \<and> pr_lock_side l = ''*''"
  by (subst streak_guard_exact)
    (simp_all add: recent_first_def closed_trades_def get_trades_proxy_def look_back_until_def
      example_protection_def example_losses_def minutes_us_def is_loss_def)

lemma period_bounds_around:
  assumes "period_bounds period date_now = (a, b)"
  shows "a \<le> date_now \<and> date_now < b \<and> b - a = (case period of Day \<Rightarrow> day_us | Week \<Rightarrow> 7 * day_us)
    \<and> a mod day_us = 0 \<and> (period = Week \<longrightarrow> weekday a = 0)"
proof (cases period)
  case Day
  with assms show ?thesis
    using dt_floor_day_bounds [of date_now] by (auto simp: Let_def dt_floor_day_def day_us_def)
next
  case Week
  define D where "D = date_now div 86400000000"
  have f: "dt_floor_day date_now = D * 86400000000"
    by (simp add: dt_floor_day_def D_def day_us_def minus_mod_eq_div_mult)
  from Week assms have a: "a = (D - (D + 3) mod 7) * 86400000000" and b: "b = a + 7 * 86400000000"
    by (auto simp: Let_def f weekday_def day_us_def algebra_simps)
  have D: "D * 86400000000 \<le> date_now" "date_now < (D + 1) * 86400000000"
    unfolding D_def by presburger+
  have w: "0 \<le> (D + 3) mod 7" "(D + 3) mod 7 < 7" by simp_all
  have "(D - (D + 3) mod 7 + 3) mod 7 = 0" by presburger
  then have "weekday a = 0" "a mod day_us = 0" by (simp_all add: weekday_def day_us_def a)
  moreover have "(D + 3) mod 7 * 86400000000 \<le> 6 * 86400000000" "0 \<le> (D + 3) mod 7 * 86400000000"
    using w by simp_all
  with D have "a \<le> date_now" "date_now < b" unfolding a b left_diff_distrib distrib_right by linarith+
  ultimately show ?thesis using Week b by (simp add: day_us_def)
qed

lemma closed_trades_since: "closed_trades s None (Some d) =
    List.map (bt_heap s) (filter (\<lambda>i. case t_close_date (bt_heap s i) of None \<Rightarrow> False | Some c \<Rightarrow> c > d) (bt_trades s))"
  by (simp add: closed_trades_def get_trades_proxy_def)

definition realized_since :: "bt_state \<Rightarrow> datetime \<Rightarrow> flt" where
  "realized_since s d = sum_list (List.map (\<lambda>i. or_val (t_close_profit_abs (bt_heap s i)) 0)
     (filter (\<lambda>i. \<exists>c. t_close_date (bt_heap s i) = Some c \<and> c > d) (bt_trades s)))"

lemma realized_since_closed: "realized_since s d =
    sum_list (List.map (\<lambda>t. or_val (t_close_profit_abs t) 0) (closed_trades s None (Some d)))"
proof -
  have "filter (\<lambda>i. \<exists>c. t_close_date (bt_heap s i) = Some c \<and> c > d) (bt_trades s)
      = filter (\<lambda>i. case t_close_date (bt_heap s i) of None \<Rightarrow> False | Some c \<Rightarrow> c > d) (bt_trades s)"
    by (rule filter_cong) (auto split: option.splits)
  then show ?thesis by (simp add: realized_since_def closed_trades_since comp_def)
qed

text \<open>The loss budgets are exact. With a positive budget and starting balance,
  \<open>MaxDailyLoss\<close> and \<open>MaxWeeklyLoss\<close> ask for a lock exactly when the loss realized after the
  start of the current UTC day or of the current week (from Monday) reaches that share of the
  starting balance. The lock runs to the next midnight or the next Monday, which lies after now
  and at most one day or one week ahead.\<close>

theorem loss_budget_exact:
  assumes "0 < max_allowed_loss" and "0 < starting_balance" and "period_bounds period date_now = (a, b)"
  shows "((\<exists>l. max_loss F period max_allowed_loss s date_now starting_balance = Some l)
        \<longleftrightarrow> realized_since s a \<le> - (max_allowed_loss * starting_balance))
    \<and> (\<forall>l. max_loss F period max_allowed_loss s date_now starting_balance = Some l \<longrightarrow>
         pr_until l = b \<and> a \<le> date_now \<and> date_now < b
         \<and> b = a + (case period of Day \<Rightarrow> day_us | Week \<Rightarrow> 7 * day_us)
         \<and> a mod day_us = 0 \<and> (period = Week \<longrightarrow> weekday a = 0))"
proof -
  let ?ts = "closed_trades s None (Some a)"
  have budget: "0 < max_allowed_loss * starting_balance" using assms(1,2) by simp
  have ratio: "\<bar>r\<bar> / starting_balance < max_allowed_loss \<longleftrightarrow> - (max_allowed_loss * starting_balance) < r"
    if "r < 0" for r
  proof -
    from that have "\<bar>r\<bar> = - r" by simp
    moreover have "- r < max_allowed_loss * starting_balance \<longleftrightarrow> - (max_allowed_loss * starting_balance) < r"
      by linarith
    ultimately show ?thesis using assms(2) by (simp only: pos_divide_less_eq)
  qed
  have "?ts = [] \<Longrightarrow> realized_since s a = 0" by (simp add: realized_since_closed)
  with budget have "realized_since s a \<le> - (max_allowed_loss * starting_balance) \<Longrightarrow>
      realized_since s a < 0 \<and> ?ts \<noteq> []" by force
  with assms budget ratio have "(\<exists>l. max_loss F period max_allowed_loss s date_now starting_balance = Some l)
      \<longleftrightarrow> realized_since s a \<le> - (max_allowed_loss * starting_balance)"
    by (auto simp: max_loss_def Let_def realized_since_closed [symmetric] not_less not_le)
  moreover have "pr_until l = b"
    if "max_loss F period max_allowed_loss s date_now starting_balance = Some l" for l
    using that assms(3) by (auto simp: max_loss_def Let_def split: if_splits)
  ultimately show ?thesis using period_bounds_around [OF assms(3)] by (auto split: loss_period.splits)
qed

definition example_format :: py_format where
  "example_format = \<lparr>repr_float = (\<lambda>_. ''''), format_percent = (\<lambda>_. ''''), format_minute = (\<lambda>_. '''')\<rparr>"

theorem loss_budget_exact_witness:
  "\<exists>l. max_loss example_format Week (1/10) (example_losses\<lparr>bt_heap := (\<lambda>i. example_trade
        \<lparr>t_close_date := Some (5 * day_us), t_close_profit_abs := Some (- 50)\<rparr>)\<rparr>) (6 * day_us) 1000 = Some l"
  by (subst conjunct1 [OF loss_budget_exact [where a = "4 * day_us" and b = "11 * day_us"]])
    (simp_all add: realized_since_def example_losses_def day_us_def weekday_def dt_floor_day_def)

end
