(* ===== verification/Pair_Locks.thy ===== *)
theory Pair_Locks
  imports Precision
begin

text \<open>
  Pair locks (persistence/pairlock_middleware.py, persistence/pairlock.py). The table of locks is
  a list in insertion order, in both modes: \<open>PairLocks.locks\<close> in backtesting, the rows of
  \<open>pairlocks\<close> otherwise. \<open>now\<close> is an argument; where the code may read the wall clock the
  reading is one more argument, \<open>clock\<close>.
\<close>

section \<open>Locks\<close>

record pair_lock =
  l_pair :: string
  l_side :: string
  l_reason :: "string option"
  l_lock_time :: datetime
  l_lock_end_time :: datetime
  l_active :: bool

record lock_store =
  use_db :: bool
  ls_timeframe :: string
  ls_locks :: "pair_lock list"

definition reset_locks :: "lock_store \<Rightarrow> lock_store" where
  "reset_locks st = (if \<not> use_db st then st\<lparr>ls_locks := []\<rparr> else st)"

text \<open>The filters of the database query and of the list, as tests of one lock.\<close>

definition query_pair_locks_filter ::
    "string option \<Rightarrow> datetime \<Rightarrow> string option \<Rightarrow> pair_lock \<Rightarrow> bool" where
  "query_pair_locks_filter pair now side lock \<longleftrightarrow>
     l_lock_end_time lock > now \<and> l_active lock
     \<and> (case pair of None \<Rightarrow> True | Some p \<Rightarrow> p \<noteq> '''' \<longrightarrow> l_pair lock = p)
     \<and> (case side of None \<Rightarrow> True
        | Some s \<Rightarrow> if s \<noteq> ''*'' then l_side lock = s \<or> l_side lock = ''*'' else l_side lock = ''*'')"

definition list_pair_locks_filter ::
    "string option \<Rightarrow> datetime \<Rightarrow> string option \<Rightarrow> pair_lock \<Rightarrow> bool" where
  "list_pair_locks_filter pair now side lock \<longleftrightarrow>
     l_lock_end_time lock > now \<and> l_active lock
     \<and> (case pair of None \<Rightarrow> True | Some p \<Rightarrow> l_pair lock = p)
     \<and> (case side of None \<Rightarrow> True | Some s \<Rightarrow> l_side lock = ''*'' \<or> l_side lock = s)"

definition pair_locks_filter ::
    "lock_store \<Rightarrow> string option \<Rightarrow> datetime \<Rightarrow> string option \<Rightarrow> pair_lock \<Rightarrow> bool" where
  "pair_locks_filter st pair now side =
     (if use_db st then query_pair_locks_filter pair now side
      else list_pair_locks_filter pair now side)"

definition get_pair_locks ::
    "lock_store \<Rightarrow> string option \<Rightarrow> datetime \<Rightarrow> string option \<Rightarrow> pair_lock list" where
  "get_pair_locks st pair now side = filter (pair_locks_filter st pair now side) (ls_locks st)"

definition lock_pair ::
    "ccxt \<Rightarrow> lock_store \<Rightarrow> string \<Rightarrow> datetime \<Rightarrow> string option \<Rightarrow> datetime \<Rightarrow> string
       \<Rightarrow> pair_lock \<times> lock_store" where
  "lock_pair C st pair until reason now side =
     (let lock_end_time = timeframe_to_next_date C (ls_timeframe st) until;
          existing_locks = get_pair_locks st (Some pair) now (Some side)
      in case find (\<lambda>lock. l_reason lock = reason \<and> l_lock_end_time lock = lock_end_time
                           \<and> l_side lock = side) existing_locks of
           Some lock \<Rightarrow> (lock, st)
         | None \<Rightarrow>
             (let lock = \<lparr>l_pair = pair, l_side = side, l_reason = reason, l_lock_time = now,
                          l_lock_end_time = lock_end_time, l_active = True\<rparr>
              in (lock, st\<lparr>ls_locks := ls_locks st @ [lock]\<rparr>)))"

text \<open>\<open>sorted(..., reverse=True)\<close> is stable: of equal end times the first in the list stays first.\<close>

definition get_pair_longest_lock ::
    "lock_store \<Rightarrow> string \<Rightarrow> datetime \<Rightarrow> string \<Rightarrow> pair_lock option" where
  "get_pair_longest_lock st pair now side =
     (let locks = sort_key (\<lambda>l. - l_lock_end_time l) (get_pair_locks st (Some pair) now (Some side))
      in if locks \<noteq> [] then Some (hd locks) else None)"

text \<open>The locks are objects of the list: switching off a lock writes the row of the store.\<close>

definition deactivate :: "(pair_lock \<Rightarrow> bool) \<Rightarrow> lock_store \<Rightarrow> lock_store" where
  "deactivate P st = st\<lparr>ls_locks := List.map (\<lambda>l. if P l then l\<lparr>l_active := False\<rparr> else l) (ls_locks st)\<rparr>"

definition unlock_pair :: "lock_store \<Rightarrow> string \<Rightarrow> datetime \<Rightarrow> string \<Rightarrow> lock_store" where
  "unlock_pair st pair now side = deactivate (pair_locks_filter st (Some pair) now (Some side)) st"

definition unlock_reason :: "lock_store \<Rightarrow> string \<Rightarrow> datetime \<Rightarrow> datetime \<Rightarrow> lock_store" where
  "unlock_reason st reason now clock =
     (if use_db st then
        deactivate (\<lambda>l. l_lock_end_time l > now \<and> l_active l \<and> l_reason l = Some reason) st
      else
        deactivate (\<lambda>l. list_pair_locks_filter None clock None l \<and> l_reason l = Some reason) st)"

definition is_global_lock :: "lock_store \<Rightarrow> datetime \<Rightarrow> string \<Rightarrow> bool" where
  "is_global_lock st now side = (length (get_pair_locks st (Some ''*'') now (Some side)) > 0)"

definition is_pair_locked :: "lock_store \<Rightarrow> string \<Rightarrow> datetime \<Rightarrow> string \<Rightarrow> bool" where
  "is_pair_locked st pair now side =
     (length (get_pair_locks st (Some pair) now (Some side)) > 0 \<or> is_global_lock st now side)"

definition get_all_locks :: "lock_store \<Rightarrow> pair_lock list" where
  "get_all_locks st = ls_locks st"

section \<open>The two modes agree\<close>

lemma filters_agree: "pair \<noteq> Some '''' \<Longrightarrow>
  query_pair_locks_filter pair now side lock = list_pair_locks_filter pair now side lock"
  by (auto simp: query_pair_locks_filter_def list_pair_locks_filter_def split: option.splits)

lemma pair_locks_filter_list:
  "pair \<noteq> Some '''' \<Longrightarrow> pair_locks_filter st pair now side = list_pair_locks_filter pair now side"
  by (simp add: pair_locks_filter_def filters_agree fun_eq_iff)

text \<open>Backtesting and live trading see the same locks. For every store, date and
  side, and every pair but the empty string (which the database query reads as any pair), the
  query and the list select the same locks in the same order.\<close>

theorem lock_modes_agree:
  assumes "pair \<noteq> Some ''''"
  shows "get_pair_locks (st\<lparr>use_db := True\<rparr>) pair now side
       = get_pair_locks (st\<lparr>use_db := False\<rparr>) pair now side"
  using assms by (simp add: get_pair_locks_def pair_locks_filter_list)

definition example_store :: lock_store where
  "example_store = \<lparr>use_db = False, ls_timeframe = ''5m'', ls_locks = []\<rparr>"

theorem lock_modes_agree_witness:
  "get_pair_locks (example_store\<lparr>use_db := True\<rparr>) (Some ''ETH/USDT'') 0 (Some ''*'')
     = get_pair_locks (example_store\<lparr>use_db := False\<rparr>) (Some ''ETH/USDT'') 0 (Some ''*'')"
  by (rule lock_modes_agree) simp

section \<open>The interface of a lock store\<close>

text \<open>
  What the clients of the locks (protections, the trading loop) rely on: a pair is shut from the
  moment of a lock until the end of it, and locking loses no lock. \<open>shut s pair now side\<close> is
  the question the clients ask, \<open>end_of s until\<close> the moment a lock that is asked for really ends.
\<close>

locale lock_interface =
  fixes shut :: "'s \<Rightarrow> string \<Rightarrow> datetime \<Rightarrow> string \<Rightarrow> bool"
    and lock_until :: "string \<Rightarrow> datetime \<Rightarrow> string option \<Rightarrow> datetime \<Rightarrow> string \<Rightarrow> 's \<Rightarrow> 's"
    and end_of :: "'s \<Rightarrow> datetime \<Rightarrow> datetime"
  assumes shuts: "now' < end_of s until \<Longrightarrow> shut (lock_until pair until reason now side s) pair now' side"
    and keeps: "shut s pair now side \<Longrightarrow> shut (lock_until p until reason now' sd s) pair now side"
    and same_end: "end_of (lock_until p until reason now' sd s) = end_of s"
begin

text \<open>A batch of locks: every pair of the batch is shut afterwards.\<close>

lemma lock_all_keeps:
  "shut s pair now side \<Longrightarrow> shut (fold (\<lambda>(p, u, r, n, sd). lock_until p u r n sd) ls s) pair now side"
  by (induction ls arbitrary: s) (auto intro: keeps)

lemma lock_all_shuts:
  "(p, u, r, n, sd) \<in> set ls \<Longrightarrow> now' < end_of s u \<Longrightarrow>
    shut (fold (\<lambda>(p, u, r, n, sd). lock_until p u r n sd) ls s) p now' sd"
  by (induction ls arbitrary: s) (auto simp: same_end intro: lock_all_keeps shuts)

end

lemma get_pair_locks_lock:
  "set (get_pair_locks st pair now side) \<subseteq> set (get_pair_locks (snd (lock_pair C st p until reason now' sd)) pair now side)"
  by (auto simp: lock_pair_def Let_def get_pair_locks_def pair_locks_filter_def split: option.splits)

lemma lock_pair_shuts:
  assumes "now' < timeframe_to_next_date C (ls_timeframe st) until"
  shows "get_pair_locks (snd (lock_pair C st pair until reason now side)) (Some pair) now' (Some side) \<noteq> []"
proof (cases "find (\<lambda>lock. l_reason lock = reason
    \<and> l_lock_end_time lock = timeframe_to_next_date C (ls_timeframe st) until \<and> l_side lock = side)
    (get_pair_locks st (Some pair) now (Some side))")
  case None
  with assms show ?thesis
    by (auto simp: lock_pair_def Let_def get_pair_locks_def pair_locks_filter_def
        query_pair_locks_filter_def list_pair_locks_filter_def)
next
  case (Some lock)
  then have "lock \<in> set (get_pair_locks st (Some pair) now (Some side))"
    and "l_lock_end_time lock = timeframe_to_next_date C (ls_timeframe st) until"
    by (auto simp: find_Some_iff)
  with assms have "lock \<in> set (get_pair_locks st (Some pair) now' (Some side))"
    by (auto simp: get_pair_locks_def pair_locks_filter_def
        query_pair_locks_filter_def list_pair_locks_filter_def split: if_splits)
  with get_pair_locks_lock show ?thesis by (metis empty_iff empty_set subsetD)
qed

lemma lock_pair_timeframe [simp]: "ls_timeframe (snd (lock_pair C st p until reason now sd)) = ls_timeframe st"
  by (simp add: lock_pair_def Let_def split: option.splits)

lemma is_pair_locked_lock:
  "is_pair_locked st pair now side \<Longrightarrow> is_pair_locked (snd (lock_pair C st p until reason now' sd)) pair now side"
  using get_pair_locks_lock [of st "Some pair" now "Some side" C p until reason now' sd]
    get_pair_locks_lock [of st "Some ''*''" now "Some side" C p until reason now' sd]
  by (auto simp: is_pair_locked_def is_global_lock_def)

interpretation locks: lock_interface is_pair_locked
    "\<lambda>pair until reason now side st. snd (lock_pair C st pair until reason now side)"
    "\<lambda>st until. timeframe_to_next_date C (ls_timeframe st) until"
  for C :: ccxt
proof
  show "is_pair_locked (snd (lock_pair C st pair until reason now side)) pair now' side"
    if "now' < timeframe_to_next_date C (ls_timeframe st) until" for now' st until pair reason now side
    using lock_pair_shuts [OF that] by (simp add: is_pair_locked_def)
qed (auto intro: is_pair_locked_lock)

section \<open>Locking\<close>

text \<open>A lock holds until its end. After \<open>lock_pair\<close> the pair is locked on that side
  at every date before the next candle after \<open>until\<close>, whatever locks are added afterwards.\<close>

theorem lock_holds_until_end:
  assumes "now' < timeframe_to_next_date C (ls_timeframe st) until"
  shows "is_pair_locked
     (fold (\<lambda>(p, u, r, n, sd) s. snd (lock_pair C s p u r n sd)) later
        (snd (lock_pair C st pair until reason now side)))
     pair now' side"
  by (rule locks.lock_all_keeps) (rule locks.shuts [OF assms])

theorem lock_holds_until_end_witness:
  "is_pair_locked (fold (\<lambda>(p, u, r, n, sd) s. snd (lock_pair ccxt_example s p u r n sd))
         [(''BTC/USDT'', 10, None, 5, ''*'')]
       (snd (lock_pair ccxt_example example_store ''ETH/USDT'' 400000000 None 0 ''*'')))
     ''ETH/USDT'' 500000000 ''*''"
  by (rule lock_holds_until_end)
    (simp add: timeframe_to_next_date_def example_store_def ccxt_example_def dt_ts_def dt_from_ts_def trunc_int_def)

lemma lock_pair_again:
  assumes "lock_pair C st pair until reason now side = (lock, st')"
    and "now' < timeframe_to_next_date C (ls_timeframe st) until"
  shows "snd (lock_pair C st' pair until reason now' side) = st'"
proof -
  have "lock \<in> set (get_pair_locks st' (Some pair) now' (Some side)) \<and> l_reason lock = reason
      \<and> l_lock_end_time lock = timeframe_to_next_date C (ls_timeframe st) until \<and> l_side lock = side"
    using assms
    by (auto simp: lock_pair_def Let_def get_pair_locks_def pair_locks_filter_def find_Some_iff
        query_pair_locks_filter_def list_pair_locks_filter_def
        dest!: nth_mem split: option.splits if_splits)
  moreover from assms(1) have "ls_timeframe st' = ls_timeframe st"
    by (metis lock_pair_timeframe snd_conv)
  ultimately show ?thesis
    by (auto simp: lock_pair_def Let_def find_None_iff split: option.splits)
qed

section \<open>The longest lock\<close>

lemma get_pair_longest_lock_None:
  "get_pair_longest_lock st pair now side = None \<longleftrightarrow> get_pair_locks st (Some pair) now (Some side) = []"
  by (simp add: get_pair_longest_lock_def Let_def) (metis length_0_conv length_sort)

lemma get_pair_longest_lock_Some:
  assumes "get_pair_longest_lock st pair now side = Some lock"
  shows "lock \<in> set (get_pair_locks st (Some pair) now (Some side))"
    and "x \<in> set (get_pair_locks st (Some pair) now (Some side)) \<Longrightarrow> l_lock_end_time x \<le> l_lock_end_time lock"
proof -
  let ?xs = "get_pair_locks st (Some pair) now (Some side)"
  let ?ys = "sort_key (\<lambda>l. - l_lock_end_time l) ?xs"
  from assms have ne: "?ys \<noteq> []" and l: "lock = hd ?ys"
    by (auto simp: get_pair_longest_lock_def Let_def split: if_splits)
  from ne l show "lock \<in> set ?xs" by (metis hd_in_set set_sort)
  assume "x \<in> set ?xs"
  then have "x \<in> set ?ys" by simp
  moreover have "sorted (List.map (\<lambda>l. - l_lock_end_time l) ?ys)" by simp
  ultimately have "- l_lock_end_time (hd ?ys) \<le> - l_lock_end_time x"
    using ne by (cases ?ys) auto
  with l show "l_lock_end_time x \<le> l_lock_end_time lock" by simp
qed

section \<open>Unlocking\<close>

lemma get_pair_locks_deactivate:
  "get_pair_locks (deactivate P st) pair now side =
     filter (\<lambda>l. \<not> P l) (get_pair_locks st pair now side)"
proof -
  have off: "\<not> pair_locks_filter st' pair now side (l\<lparr>l_active := False\<rparr>)" for st' l
    by (simp add: pair_locks_filter_def query_pair_locks_filter_def list_pair_locks_filter_def)
  have "filter F (List.map (\<lambda>l. if P l then l\<lparr>l_active := False\<rparr> else l) xs) = filter (\<lambda>l. \<not> P l) (filter F xs)"
    if "\<And>l. \<not> F (l\<lparr>l_active := False\<rparr>)" for F :: "pair_lock \<Rightarrow> bool" and xs
    using that by (induction xs) auto
  from this [of "pair_locks_filter st pair now side" "ls_locks st", OF off] show ?thesis
    by (simp add: get_pair_locks_def deactivate_def pair_locks_filter_def)
qed

text \<open>Unlocking a pair opens it, and only it. After \<open>unlock_pair\<close> at \<open>now\<close>, no lock
  of the pair on that side is in force at \<open>now\<close> or later, so the pair is locked exactly when a
  global lock is; the locks of another pair are the ones they were.\<close>

theorem unlock_releases:
  fixes st :: lock_store and side :: string
  assumes "pair \<noteq> ''*''" and "pair \<noteq> ''''" and "now \<le> now'"
  defines "st' \<equiv> unlock_pair st pair now side"
  shows "get_pair_locks st' (Some pair) now' (Some side) = []
    \<and> is_pair_locked st' pair now' side = is_global_lock st now' side
    \<and> (\<forall>other \<in> - {pair, ''''}. get_pair_locks st' (Some other) now' sd = get_pair_locks st (Some other) now' sd)"
proof -
  have none_left: "get_pair_locks st' (Some pair) now' (Some side) = []"
    unfolding st'_def unlock_pair_def get_pair_locks_deactivate
    using assms(1-3)
    by (auto simp: filter_empty_conv get_pair_locks_def pair_locks_filter_list list_pair_locks_filter_def)
  have others: "get_pair_locks st' (Some other) now' sd' = get_pair_locks st (Some other) now' sd'"
    if "other \<in> - {pair, ''''}" for other sd'
    unfolding st'_def unlock_pair_def get_pair_locks_deactivate
    using that assms(1,2)
    by (auto simp: filter_id_conv get_pair_locks_def pair_locks_filter_list
        list_pair_locks_filter_def simp del: filter_filter)
  from assms(1) have "''*'' \<in> - {pair, ''''}" by auto
  note global = others [OF this, of "Some side"]
  have "is_pair_locked st' pair now' side = is_global_lock st now' side"
    unfolding is_pair_locked_def is_global_lock_def none_left global by simp
  with none_left others show ?thesis by blast
qed

theorem unlock_releases_witness:
  "get_pair_locks (unlock_pair (snd (lock_pair ccxt_example example_store ''ETH/USDT'' 400000000 None 0 ''*''))
      ''ETH/USDT'' 10 ''long'') (Some ''ETH/USDT'') 20 (Some ''long'') = []"
  by (rule conjunct1 [OF unlock_releases]) simp_all

text \<open>In backtesting, releasing locks by reason compares them with the wall clock.
  The branch without a database calls \<open>get_pair_locks(None)\<close> and drops the simulated date, so on
  historical data, where every lock ends before the wall clock, \<open>unlock_reason\<close> releases no lock;
  the branch with a database releases every lock with that reason in force at \<open>now\<close>.\<close>

theorem unlock_reason_backtest_noop:
  assumes "\<forall>l \<in> set (ls_locks st). l_lock_end_time l \<le> clock"
  shows "unlock_reason (st\<lparr>use_db := False\<rparr>) reason now clock = st\<lparr>use_db := False\<rparr>
    \<and> filter (\<lambda>l. l_reason l = Some reason)
        (get_pair_locks (unlock_reason (st\<lparr>use_db := True\<rparr>) reason now clock) None now None) = []"
proof
  have "List.map (\<lambda>l. if list_pair_locks_filter None clock None l \<and> l_reason l = Some reason
      then l\<lparr>l_active := False\<rparr> else l) (ls_locks st) = ls_locks st"
    using assms by (intro map_idI) (auto simp: list_pair_locks_filter_def)
  then show "unlock_reason (st\<lparr>use_db := False\<rparr>) reason now clock = st\<lparr>use_db := False\<rparr>"
    by (simp add: unlock_reason_def deactivate_def)
  show "filter (\<lambda>l. l_reason l = Some reason)
      (get_pair_locks (unlock_reason (st\<lparr>use_db := True\<rparr>) reason now clock) None now None) = []"
    by (simp add: unlock_reason_def get_pair_locks_deactivate)
      (auto simp: filter_empty_conv get_pair_locks_def pair_locks_filter_def query_pair_locks_filter_def)
qed

definition example_locked :: lock_store where
  "example_locked = snd (lock_pair ccxt_example example_store ''ETH/USDT'' 400000000 (Some ''cool'') 0 ''*'')"

theorem unlock_reason_backtest_noop_witness:
  "unlock_reason example_locked ''cool'' 100000000 900000000 = example_locked"
proof -
  have "\<forall>l \<in> set (ls_locks example_locked). l_lock_end_time l \<le> 900000000"
    by (simp add: example_locked_def example_store_def lock_pair_def get_pair_locks_def Let_def
        timeframe_to_next_date_def ccxt_example_def dt_ts_def dt_from_ts_def trunc_int_def)
  from unlock_reason_backtest_noop [OF this, of "''cool''" 100000000]
  have "unlock_reason (example_locked\<lparr>use_db := False\<rparr>) ''cool'' 100000000 900000000
      = example_locked\<lparr>use_db := False\<rparr>" by blast
  moreover have "example_locked\<lparr>use_db := False\<rparr> = example_locked"
    by (simp add: example_locked_def example_store_def lock_pair_def get_pair_locks_def Let_def)
  ultimately show ?thesis by simp
qed

end
