(* ===== verification/Protection_Manager.thy ===== *)
theory Protection_Manager
  imports Protections Pair_Locks
begin

text \<open>
  The protection manager (plugins/protectionmanager.py): it loads the configured protections, asks
  each of them in turn, and turns their answers into pair locks. The protections read the trades
  of the container, the locks live in the store of Pair_Locks.
\<close>

section \<open>Protections as values\<close>

datatype protection =
    CooldownPeriod iprotection
  | LowProfitPairs iprotection int flt bool
  | StoplossGuard iprotection int flt bool bool
  | MaxDrawdown iprotection int flt string
  | MaxLoss loss_period flt
  | ConsecutiveLossGuard iprotection int

record prot_options = prot_config +
  po_method :: string
  po_trade_limit :: "int option"
  po_required_profit :: "flt option"
  po_only_per_pair :: "bool option"
  po_only_per_side :: "bool option"
  po_max_allowed_drawdown :: "flt option"
  po_calculation_mode :: "string option"
  po_max_allowed_loss :: "flt option"

text \<open>The resolver finds the class by its name; a name without a class is an error.\<close>

definition load_protection :: "ccxt \<Rightarrow> string \<Rightarrow> prot_options \<Rightarrow> py_error + protection" where
  "load_protection C timeframe cfg =
     (let p = iprotection_init C timeframe (prot_config.truncate cfg); m = po_method cfg
      in if m = ''CooldownPeriod'' then Inr (CooldownPeriod p)
         else if m = ''LowProfitPairs'' then
           Inr (LowProfitPairs p (with_default (po_trade_limit cfg) 1)
                  (with_default (po_required_profit cfg) 0) (with_default (po_only_per_side cfg) False))
         else if m = ''StoplossGuard'' then
           Inr (StoplossGuard p (with_default (po_trade_limit cfg) 10)
                  (with_default (po_required_profit cfg) 0) (with_default (po_only_per_pair cfg) False)
                  (with_default (po_only_per_side cfg) False))
         else if m = ''MaxDrawdown'' then
           Inr (MaxDrawdown p (with_default (po_trade_limit cfg) 1)
                  (with_default (po_max_allowed_drawdown cfg) 0)
                  (with_default (po_calculation_mode cfg) ''ratios''))
         else if m = ''MaxDailyLoss'' then Inr (MaxLoss Day (with_default (po_max_allowed_loss cfg) 0))
         else if m = ''MaxWeeklyLoss'' then Inr (MaxLoss Week (with_default (po_max_allowed_loss cfg) 0))
         else if m = ''ConsecutiveLossGuard'' then
           Inr (ConsecutiveLossGuard p (with_default (po_trade_limit cfg) 4))
         else Inl OperationalException)"

fun has_global_stop :: "protection \<Rightarrow> bool" where
  "has_global_stop (CooldownPeriod _) = False"
| "has_global_stop (LowProfitPairs _ _ _ _) = False"
| "has_global_stop _ = True"

fun has_local_stop :: "protection \<Rightarrow> bool" where
  "has_local_stop (CooldownPeriod _) = True"
| "has_local_stop (LowProfitPairs _ _ _ _) = True"
| "has_local_stop (StoplossGuard _ _ _ _ _) = True"
| "has_local_stop _ = False"

text \<open>What the rules take from outside the repository.\<close>

record env =
  e_ccxt :: ccxt
  e_format :: py_format
  e_repr_drawdown :: "efloat \<Rightarrow> string"
  e_sort_values :: "(datetime \<times> flt) list \<Rightarrow> (datetime \<times> flt) list"

fun rule_global_stop ::
    "env \<Rightarrow> bt_state \<Rightarrow> datetime \<Rightarrow> string \<Rightarrow> flt \<Rightarrow> protection \<Rightarrow> py_error + protection_return option" where
  "rule_global_stop E s date_now side bal (StoplossGuard p limit pl dis per_side) =
     (if dis then Inr None else stoploss_guard p limit pl per_side s date_now None side)"
| "rule_global_stop E s date_now side bal (MaxDrawdown p limit mx mode) =
     max_drawdown (e_sort_values E) (e_repr_drawdown E) (e_format E) p limit mx mode s date_now bal"
| "rule_global_stop E s date_now side bal (MaxLoss period mx) =
     Inr (max_loss (e_format E) period mx s date_now bal)"
| "rule_global_stop E s date_now side bal (ConsecutiveLossGuard p limit) = consecutive_losses p limit s date_now"
| "rule_global_stop E s date_now side bal _ = Inr None"

fun rule_stop_per_pair ::
    "env \<Rightarrow> bt_state \<Rightarrow> string \<Rightarrow> datetime \<Rightarrow> string \<Rightarrow> flt \<Rightarrow> protection
       \<Rightarrow> py_error + protection_return option" where
  "rule_stop_per_pair E s pair date_now side bal (CooldownPeriod p) = cooldown_period p s pair date_now"
| "rule_stop_per_pair E s pair date_now side bal (LowProfitPairs p limit req per_side) =
     low_profit (e_format E) p limit req per_side s date_now pair side"
| "rule_stop_per_pair E s pair date_now side bal (StoplossGuard p limit pl dis per_side) =
     stoploss_guard p limit pl per_side s date_now (Some pair) side"
| "rule_stop_per_pair E s pair date_now side bal _ = Inr None"

section \<open>The manager\<close>

definition validate_protection :: "prot_config \<Rightarrow> py_error + unit" where
  "validate_protection prot =
     (let bad_time = (case pc_unlock_at prot of None \<Rightarrow> False | Some u \<Rightarrow> strptime_hm u = None)
      in if bad_time then Inl ConfigurationError
         else if pc_stop_duration prot \<noteq> None \<and> pc_stop_duration_candles prot \<noteq> None
         then Inl ConfigurationError
         else if pc_lookback_period prot \<noteq> None \<and> pc_lookback_period_candles prot \<noteq> None
         then Inl ConfigurationError
         else if pc_unlock_at prot \<noteq> None
              \<and> (pc_stop_duration prot \<noteq> None \<or> pc_stop_duration_candles prot \<noteq> None)
         then Inl ConfigurationError
         else Inr ())"

fun validate_protections :: "prot_options list \<Rightarrow> py_error + unit" where
  "validate_protections [] = Inr ()"
| "validate_protections (p # ps) =
     bindE (validate_protection (prot_config.truncate p)) (\<lambda>_. validate_protections ps)"

fun load_protections :: "ccxt \<Rightarrow> string \<Rightarrow> prot_options list \<Rightarrow> py_error + protection list" where
  "load_protections C timeframe [] = Inr []"
| "load_protections C timeframe (p # ps) =
     bindE (load_protection C timeframe p) (\<lambda>h. bindE (load_protections C timeframe ps) (\<lambda>hs. Inr (h # hs)))"

definition protection_manager_init ::
    "ccxt \<Rightarrow> string \<Rightarrow> prot_options list \<Rightarrow> py_error + protection list" where
  "protection_manager_init C timeframe protections =
     bindE (validate_protections protections) (\<lambda>_. load_protections C timeframe protections)"

text \<open>The state of the loop over the rules: the lock to return, and the lock store.\<close>

type_synonym pm_state = "pair_lock option \<times> lock_store"

definition global_stop_step ::
    "env \<Rightarrow> bt_state \<Rightarrow> datetime \<Rightarrow> string \<Rightarrow> flt \<Rightarrow> protection \<Rightarrow> pm_state \<Rightarrow> py_error + pm_state" where
  "global_stop_step E s now side bal h st =
     (if has_global_stop h then
        bindE (rule_global_stop E s now side bal h) (\<lambda>lock.
          case lock of
            None \<Rightarrow> Inr st
          | Some l \<Rightarrow>
              if \<not> is_global_lock (snd st) (pr_until l) (pr_lock_side l) then
                (let (lk, locks') = lock_pair (e_ccxt E) (snd st) ''*'' (pr_until l)
                                      (Some (pr_reason l)) now (pr_lock_side l)
                 in Inr (Some lk, locks'))
              else Inr st)
      else Inr st)"

definition global_stop ::
    "env \<Rightarrow> protection list \<Rightarrow> bt_state \<Rightarrow> datetime \<Rightarrow> string \<Rightarrow> flt \<Rightarrow> lock_store \<Rightarrow> py_error + pm_state" where
  "global_stop E handlers s now side bal store =
     runE (global_stop_step E s now side bal) handlers (None, store)"

definition stop_per_pair_step ::
    "env \<Rightarrow> bt_state \<Rightarrow> string \<Rightarrow> datetime \<Rightarrow> string \<Rightarrow> flt \<Rightarrow> protection \<Rightarrow> pm_state \<Rightarrow> py_error + pm_state" where
  "stop_per_pair_step E s pair now side bal h st =
     (if has_local_stop h then
        bindE (rule_stop_per_pair E s pair now side bal h) (\<lambda>lock.
          case lock of
            None \<Rightarrow> Inr st
          | Some l \<Rightarrow>
              if \<not> is_pair_locked (snd st) pair (pr_until l) (pr_lock_side l) then
                (let (lk, locks') = lock_pair (e_ccxt E) (snd st) pair (pr_until l)
                                      (Some (pr_reason l)) now (pr_lock_side l)
                 in Inr (Some lk, locks'))
              else Inr st)
      else Inr st)"

definition stop_per_pair ::
    "env \<Rightarrow> protection list \<Rightarrow> bt_state \<Rightarrow> string \<Rightarrow> datetime \<Rightarrow> string \<Rightarrow> flt \<Rightarrow> lock_store
       \<Rightarrow> py_error + pm_state" where
  "stop_per_pair E handlers s pair now side bal store =
     runE (stop_per_pair_step E s pair now side bal) handlers (None, store)"

section \<open>The manager only adds locks\<close>

definition extends_locks :: "pm_state \<Rightarrow> pm_state \<Rightarrow> bool" where
  "extends_locks a b \<longleftrightarrow> (\<exists>new. ls_locks (snd b) = ls_locks (snd a) @ new)
     \<and> use_db (snd b) = use_db (snd a) \<and> ls_timeframe (snd b) = ls_timeframe (snd a)
     \<and> (snd b \<noteq> snd a \<or> fst a \<noteq> None \<longrightarrow> fst b \<noteq> None)"

lemma lock_pair_extends:
  assumes "lock_pair C st pair until reason now side = (lk, st')"
  shows "extends_locks (r, st) (Some lk, st')"
proof -
  from assms have "st' = st \<or> (\<exists>l. st' = st\<lparr>ls_locks := ls_locks st @ [l]\<rparr>)"
    by (auto simp: lock_pair_def Let_def split: option.splits)
  then show ?thesis by (auto simp: extends_locks_def)
qed

lemma lock_step_extends:
  "(case lock_pair C (snd st) pair until reason now side of (lk, locks') \<Rightarrow> Inr (Some lk, locks')) = Inr st'
    \<Longrightarrow> extends_locks st st'"
  using lock_pair_extends [where r = "fst st" and st = "snd st"]
  by (auto split: prod.splits)

lemma extends_refl [simp]: "extends_locks a a"
  by (simp add: extends_locks_def)

lemma global_stop_step_extends:
  "global_stop_step E s now side bal h st = Inr st' \<Longrightarrow> extends_locks st st'"
  by (auto simp: global_stop_step_def bindE_eq_Inr Let_def dest: lock_step_extends split: if_splits option.splits)

lemma stop_per_pair_step_extends:
  "stop_per_pair_step E s pair now side bal h st = Inr st' \<Longrightarrow> extends_locks st st'"
  by (auto simp: stop_per_pair_step_def bindE_eq_Inr Let_def dest: lock_step_extends split: if_splits option.splits)

lemma extends_trans: "extends_locks a b \<Longrightarrow> extends_locks b c \<Longrightarrow> extends_locks a c"
  by (fastforce simp: extends_locks_def)

interpretation global_steps: monotone_steps "global_stop_step E s now side bal" "\<lambda>_. True" extends_locks
  for E s now side bal
  by unfold_locales (auto intro: extends_trans global_stop_step_extends)

interpretation pair_steps: monotone_steps "stop_per_pair_step E s pair now side bal" "\<lambda>_. True" extends_locks
  for E s pair now side bal
  by unfold_locales (auto intro: extends_trans stop_per_pair_step_extends)

lemma pair_locks_filter_use_db: "use_db a = use_db b \<Longrightarrow> pair_locks_filter a = pair_locks_filter b"
  by (simp add: pair_locks_filter_def fun_eq_iff)

lemma extends_get_pair_locks:
  "extends_locks a b \<Longrightarrow> set (get_pair_locks (snd a) pair now sd) \<subseteq> set (get_pair_locks (snd b) pair now sd)"
  by (auto simp: extends_locks_def get_pair_locks_def pair_locks_filter_def)

lemma extends_is_pair_locked:
  "extends_locks a b \<Longrightarrow> is_pair_locked (snd a) pair now sd \<Longrightarrow> is_pair_locked (snd b) pair now sd"
  using extends_get_pair_locks [of a b "Some pair" now "Some sd"]
    extends_get_pair_locks [of a b "Some ''*''" now "Some sd"]
  by (auto simp: is_pair_locked_def is_global_lock_def)

text \<open>A lock in force at a date is in force at every earlier one, and a lock of both sides, or of
  one side, answers a question about that side.\<close>

lemma get_pair_locks_earlier:
  assumes "get_pair_locks st pair until (Some l_sd) \<noteq> []" and "now \<le> until" and "l_sd = ''*'' \<or> l_sd = sd"
  shows "get_pair_locks st pair now (Some sd) \<noteq> []"
  using assms
  by (fastforce simp: get_pair_locks_def filter_empty_conv pair_locks_filter_def
      query_pair_locks_filter_def list_pair_locks_filter_def split: if_splits)

lemma global_stop_step_locks:
  assumes "global_stop_step E s now side bal h a = Inr b" and "has_global_stop h"
    and "rule_global_stop E s now side bal h = Inr (Some l)"
    and "pr_until l < timeframe_to_next_date (e_ccxt E) (ls_timeframe (snd a)) (pr_until l)"
  shows "get_pair_locks (snd b) (Some ''*'') (pr_until l) (Some (pr_lock_side l)) \<noteq> []"
proof (cases "is_global_lock (snd a) (pr_until l) (pr_lock_side l)")
  case True
  with assms(1-3) show ?thesis by (simp add: global_stop_step_def is_global_lock_def)
next
  case False
  with assms(1-3) have "snd b = snd (lock_pair (e_ccxt E) (snd a) ''*'' (pr_until l)
      (Some (pr_reason l)) now (pr_lock_side l))"
    by (auto simp: global_stop_step_def split: prod.splits)
  with lock_pair_shuts [OF assms(4)] show ?thesis by simp
qed

lemma stop_per_pair_step_locks:
  assumes "stop_per_pair_step E s pair now side bal h a = Inr b" and "has_local_stop h"
    and "rule_stop_per_pair E s pair now side bal h = Inr (Some l)"
    and "pr_until l < timeframe_to_next_date (e_ccxt E) (ls_timeframe (snd a)) (pr_until l)"
  shows "is_pair_locked (snd b) pair (pr_until l) (pr_lock_side l)"
proof (cases "is_pair_locked (snd a) pair (pr_until l) (pr_lock_side l)")
  case True
  with assms(1-3) show ?thesis by (simp add: stop_per_pair_step_def)
next
  case False
  with assms(1-3) have "snd b = snd (lock_pair (e_ccxt E) (snd a) pair (pr_until l)
      (Some (pr_reason l)) now (pr_lock_side l))"
    by (auto simp: stop_per_pair_step_def split: prod.splits)
  with lock_pair_shuts [OF assms(4)] show ?thesis by (simp add: is_pair_locked_def)
qed

text \<open>Property C15: what a rule asks for is enforced. When the manager has evaluated its rules, each
  rule that asked for a global stop keeps every pair locked, on the sides it named, at every date
  up to the end it asked for, whether its own lock was written or one that outlasts it was found;
  rules evaluated later do not undo it. The rounding of lock ends must be strict: the next candle
  begins after the date.\<close>

theorem global_stop_enforced:
  assumes "global_stop E handlers s now side bal store = Inr (result, store')"
    and "h \<in> set handlers" and "has_global_stop h"
    and "rule_global_stop E s now side bal h = Inr (Some l)"
    and "pr_until l < timeframe_to_next_date (e_ccxt E) (ls_timeframe store) (pr_until l)"
    and "now' \<le> pr_until l" and "pr_lock_side l = ''*'' \<or> pr_lock_side l = sd"
  shows "is_pair_locked store' pair now' sd"
proof -
  from global_steps.run_step [OF TrueI assms(1) [unfolded global_stop_def] assms(2)]
  obtain a b where a: "extends_locks (None, store) a" and step: "global_stop_step E s now side bal h a = Inr b"
    and b: "extends_locks b (result, store')" by blast
  from a have "ls_timeframe (snd a) = ls_timeframe store" by (simp add: extends_locks_def)
  with global_stop_step_locks [OF step assms(3,4)] assms(5)
  have "get_pair_locks (snd b) (Some ''*'') (pr_until l) (Some (pr_lock_side l)) \<noteq> []" by simp
  with extends_get_pair_locks [OF b]
  have "get_pair_locks store' (Some ''*'') (pr_until l) (Some (pr_lock_side l)) \<noteq> []"
    by (metis empty_iff empty_set get_pair_locks_def list.set_sel(1) snd_conv subsetD)
  from get_pair_locks_earlier [OF this assms(6,7)] show ?thesis
    by (simp add: is_pair_locked_def is_global_lock_def)
qed

definition example_env :: env where
  "example_env = \<lparr>e_ccxt = ccxt_example, e_format = example_format, e_repr_drawdown = (\<lambda>_. ''''),
     e_sort_values = sort_key fst\<rparr>"

definition example_guard :: protection where
  "example_guard = ConsecutiveLossGuard (example_protection\<lparr>ip_unlock_at := None\<rparr>) 2"

lemma example_rule: "\<exists>l. rule_global_stop example_env example_losses 3 ''long'' 1000 example_guard = Inr (Some l)
    \<and> pr_until l = 2 \<and> pr_lock_side l = ''*''"
  by (simp add: example_guard_def consecutive_losses_def recent_first_def closed_trades_def
      get_trades_proxy_def look_back_until_def example_protection_def example_losses_def minutes_us_def
      is_loss_def calculate_lock_end_def List.map_filter_simps max_list_def)

theorem global_stop_enforced_witness:
  "\<exists>r store'. global_stop example_env [example_guard] example_losses 3 ''long'' 1000 example_store = Inr (r, store')
     \<and> is_pair_locked store' ''ETH/USDT'' 2 ''long''"
proof -
  from example_rule obtain l where l: "rule_global_stop example_env example_losses 3 ''long'' 1000 example_guard
      = Inr (Some l)" "pr_until l = 2" "pr_lock_side l = ''*''" by blast
  have g: "has_global_stop example_guard" by (simp add: example_guard_def)
  obtain r store' where run: "global_stop example_env [example_guard] example_losses 3 ''long'' 1000 example_store
      = Inr (r, store')"
    using l g by (auto simp: global_stop_def global_stop_step_def is_global_lock_def get_pair_locks_def
        example_store_def Let_def split_beta)
  have "pr_until l < timeframe_to_next_date (e_ccxt example_env) (ls_timeframe example_store) (pr_until l)"
    by (simp add: l(2) example_env_def example_store_def timeframe_to_next_date_def ccxt_example_def
        dt_ts_def dt_from_ts_def trunc_int_def)
  from global_stop_enforced [OF run _ g l(1) this, of 2 "''long''" "''ETH/USDT''"] l run
  show ?thesis by auto
qed

section \<open>Nothing without an answer\<close>

lemma global_stop_none:
  "global_stop E handlers s now side bal store = Inr (None, store') \<Longrightarrow> store' = store"
  using global_steps.run_below [OF TrueI, of E s now side bal handlers "(None, store)" "(None, store')"]
  by (auto simp: global_stop_def extends_locks_def)

text \<open>The manager never releases a lock. A run of the rules for a pair leaves every
  lock of the store as it was and appends new ones behind them; when it returns no lock, the store
  is unchanged; and every rule for the pair that asked for a stop keeps the pair locked to the end
  it asked for.\<close>

theorem stop_per_pair_sound:
  assumes "stop_per_pair E handlers s pair now side bal store = Inr (result, store')"
  shows "(\<exists>new. ls_locks store' = ls_locks store @ new) \<and> (result = None \<longrightarrow> store' = store)
    \<and> (\<forall>h \<in> set handlers. \<forall>l. has_local_stop h
         \<and> rule_stop_per_pair E s pair now side bal h = Inr (Some l)
         \<and> pr_until l < timeframe_to_next_date (e_ccxt E) (ls_timeframe store) (pr_until l)
         \<longrightarrow> is_pair_locked store' pair (pr_until l) (pr_lock_side l))"
proof -
  from pair_steps.run_below [OF TrueI assms [unfolded stop_per_pair_def]]
  have "extends_locks (None, store) (result, store')" .
  then have "\<exists>new. ls_locks store' = ls_locks store @ new" "result = None \<longrightarrow> store' = store"
    by (auto simp: extends_locks_def)
  moreover have "is_pair_locked store' pair (pr_until l) (pr_lock_side l)"
    if "h \<in> set handlers" "has_local_stop h" "rule_stop_per_pair E s pair now side bal h = Inr (Some l)"
      "pr_until l < timeframe_to_next_date (e_ccxt E) (ls_timeframe store) (pr_until l)" for h l
  proof -
    from pair_steps.run_step [OF TrueI assms [unfolded stop_per_pair_def] that(1)]
    obtain a b where a: "extends_locks (None, store) a"
      and step: "stop_per_pair_step E s pair now side bal h a = Inr b"
      and b: "extends_locks b (result, store')" by blast
    from a have "ls_timeframe (snd a) = ls_timeframe store" by (simp add: extends_locks_def)
    with stop_per_pair_step_locks [OF step that(2,3)] that(4)
    have "is_pair_locked (snd b) pair (pr_until l) (pr_lock_side l)" by simp
    with extends_is_pair_locked [OF b] show ?thesis by simp
  qed
  ultimately show ?thesis by blast
qed

lemma example_cooldown_run:
  "\<exists>r store'. stop_per_pair example_env [CooldownPeriod (example_protection\<lparr>ip_unlock_at := None\<rparr>)]
     example_losses ''ETH/USDT'' 3 ''long'' 0 example_store = Inr (r, store')"
  by (simp add: stop_per_pair_def stop_per_pair_step_def cooldown_period_def closed_trades_def
      get_trades_proxy_def look_back_until_def example_protection_def example_losses_def minutes_us_def
      calculate_lock_end_def List.map_filter_simps max_list_def example_trade_def is_pair_locked_def
      is_global_lock_def get_pair_locks_def example_store_def split: prod.splits)

theorem stop_per_pair_sound_witness:
  "\<exists>r store'. stop_per_pair example_env [CooldownPeriod (example_protection\<lparr>ip_unlock_at := None\<rparr>)]
       example_losses ''ETH/USDT'' 3 ''long'' 0 example_store = Inr (r, store')
     \<and> (r = None \<longrightarrow> store' = example_store)"
  using example_cooldown_run stop_per_pair_sound by blast

section \<open>Configuration\<close>

lemma validate_protection_ok:
  "validate_protection p = Inr () \<longleftrightarrow>
     (\<forall>u. pc_unlock_at p = Some u \<longrightarrow> strptime_hm u \<noteq> None \<and> pc_stop_duration p = None
        \<and> pc_stop_duration_candles p = None)
   \<and> (pc_stop_duration p = None \<or> pc_stop_duration_candles p = None)
   \<and> (pc_lookback_period p = None \<or> pc_lookback_period_candles p = None)"
  by (auto simp: validate_protection_def Let_def split: option.splits)

text \<open>A configuration that passes the check gives a lock end: \<open>unlock_at\<close> parses.\<close>

lemma validated_lock_end:
  assumes "validate_protection cfg = Inr ()" and "\<exists>t \<in> set trades. t_close_date t \<noteq> None"
  shows "\<exists>u. calculate_lock_end (iprotection_init C tf cfg) trades = Inr u"
proof (cases "ip_unlock_at (iprotection_init C tf cfg)")
  case None
  then show ?thesis using assms(2) by (rule calculate_lock_end_duration)
next
  case (Some ua)
  then have "pc_unlock_at cfg = Some ua"
    by (auto simp: iprotection_init_def Let_def split: option.splits)
  with assms(1) have "strptime_hm ua \<noteq> None" by (simp add: validate_protection_ok)
  then obtain h m hh mm where p: "split_on CHR '':'' ua = [h, m]" "py_int h = Some hh" "py_int m = Some mm"
      "hh < 24" "mm < 60"
    by (auto simp: strptime_hm_def split: list.splits option.splits if_splits)
  from assms(2) have "List.map_filter t_close_date trades \<noteq> []"
    using map_filter_date_mem [of _ trades] by fastforce
  moreover have "0 \<le> hh" "0 \<le> mm" using p(2,3) by (auto dest: py_int_nonneg)
  ultimately show ?thesis using Some p by (auto simp: calculate_lock_end_def replace_hm_def Let_def)
qed

end
