(* ===== verification/Wallets.thy ===== *)
theory Wallets
  imports Bt_Trades "HOL-Library.AList"
begin

text \<open>
  Wallets and stake amounts (wallets.py). The trades come from the container of Bt_Trades; with
  \<open>wc_use_db\<close> the sums over it are the sums of the database (which skip NULL). The exchange's
  answers (balances, positions, market data, conversion rates) are arguments. A balance that the
  exchange reports as null is kept as 0, which is what every reader of it returns.
\<close>

section \<open>State and configuration\<close>

record wallet =
  w_free :: flt
  w_used :: flt
  w_total :: flt

record position_wallet =
  pw_position :: flt
  pw_leverage :: "flt option"
  pw_collateral :: flt
  pw_side :: string

record wallets =
  ws_wallets :: "string \<Rightarrow> wallet option"
  ws_positions :: "(string \<times> position_wallet) list"
  ws_last_refresh :: "datetime option"

record wallet_config =
  wc_trading_mode :: trading_mode
  wc_margin_mode :: margin_mode
  wc_is_backtest :: bool
  wc_use_db :: bool
  wc_dry_run :: bool
  wc_runmode_live :: bool
  wc_stake_currency :: string
  wc_start_cap :: "(string \<times> flt) list"
  wc_available_capital :: "flt option"
  wc_tradable_balance_ratio :: flt
  wc_amend_last_stake_amount :: bool
  wc_last_stake_amount_min_ratio :: flt
  wc_stake_amount :: "flt option"

text \<open>\<open>wc_stake_amount\<close> is \<open>None\<close> for \<open>"unlimited"\<close>. What the exchange object answers:\<close>

record exchange_position =
  xp_symbol :: string
  xp_side :: "string option"
  xp_collateral :: "flt option"
  xp_contracts :: flt
  xp_initial_margin :: "flt option"
  xp_leverage :: "flt option"

record wallet_exchange =
  wx_ccxt :: ccxt
  wx_base_currency :: "string \<Rightarrow> string"
  wx_conversion_rate :: "string \<Rightarrow> string \<Rightarrow> py_error + flt option"
  wx_balances :: "(string \<times> wallet option) list"
  wx_positions :: "exchange_position list"
  wx_contract_size :: "string \<Rightarrow> flt option"

definition get_free :: "wallets \<Rightarrow> string \<Rightarrow> flt" where
  "get_free W currency = (case ws_wallets W currency of None \<Rightarrow> 0 | Some b \<Rightarrow> w_free b)"

definition get_used :: "wallets \<Rightarrow> string \<Rightarrow> flt" where
  "get_used W currency = (case ws_wallets W currency of None \<Rightarrow> 0 | Some b \<Rightarrow> w_used b)"

definition get_total :: "wallets \<Rightarrow> string \<Rightarrow> flt" where
  "get_total W currency = (case ws_wallets W currency of None \<Rightarrow> 0 | Some b \<Rightarrow> w_total b)"

definition get_collateral :: "wallet_config \<Rightarrow> wallets \<Rightarrow> flt" where
  "get_collateral cfg W =
     (if wc_margin_mode cfg = CROSS then
        get_free W (wc_stake_currency cfg) + sum_list (List.map (pw_collateral \<circ> snd) (ws_positions W))
      else get_total W (wc_stake_currency cfg))"

definition get_owned :: "wallet_config \<Rightarrow> wallets \<Rightarrow> string \<Rightarrow> string \<Rightarrow> flt" where
  "get_owned cfg W pair base_currency =
     (if wc_trading_mode cfg \<noteq> FUTURES then get_total W base_currency
      else (case map_of (ws_positions W) pair of None \<Rightarrow> 0 | Some pos \<Rightarrow> pw_position pos))"

section \<open>Sums over the trades\<close>

definition sum_opt :: "bool \<Rightarrow> flt option list \<Rightarrow> py_error + flt" where
  "sum_opt skip_null xs =
     (if skip_null then Inr (sum_list (List.map (\<lambda>x. or_val x 0) xs))
      else if None \<in> set xs then Inl TypeError else Inr (sum_list (List.map the xs)))"

definition get_total_closed_profit :: "bool \<Rightarrow> bt_state \<Rightarrow> py_error + flt" where
  "get_total_closed_profit db s =
     sum_opt db (List.map (\<lambda>i. t_close_profit_abs (bt_heap s i))
                   (get_trades_proxy s None (Some False) None None))"

definition open_trades_of :: "bt_state \<Rightarrow> trade list" where
  "open_trades_of s = List.map (bt_heap s) (get_open_trades s)"

definition total_open_trades_stakes :: "bt_state \<Rightarrow> flt" where
  "total_open_trades_stakes s = sum_list (List.map t_stake_amount (open_trades_of s))"

fun sum_mapE :: "('a \<Rightarrow> py_error + flt) \<Rightarrow> 'a list \<Rightarrow> py_error + flt" where
  "sum_mapE f [] = Inr 0"
| "sum_mapE f (x # xs) = bindE (f x) (\<lambda>v. bindE (sum_mapE f xs) (\<lambda>s. Inr (v + s)))"

section \<open>Refreshing the wallets\<close>

text \<open>One open trade of a spot account: the stake its entry orders bind, and its wallet.\<close>

definition dry_spot_step ::
    "wallet_config \<Rightarrow> wallet_exchange \<Rightarrow> trade \<Rightarrow> (string \<Rightarrow> wallet option) \<times> flt
       \<Rightarrow> py_error + ((string \<Rightarrow> wallet option) \<times> flt)" where
  "dry_spot_step cfg X t acc =
     (let curr = wx_base_currency X (t_pair t)
      in bindE (sum_mapE (order_stake_amount (wx_ccxt X) (t_leverage t))
                  (filter (\<lambda>ord. o_ft_order_side ord = entry_side t) (open_orders t)))
           (\<lambda>used.
              let pending = sum_list (List.map (\<lambda>ord. the (o_amount ord))
                    (filter (\<lambda>ord. truthy (o_amount ord) \<and> o_ft_order_side ord = exit_side t)
                       (open_orders t)));
                  bal = (case map_of (wc_start_cap cfg) curr of None \<Rightarrow> 0 | Some b \<Rightarrow> b)
              in Inr ((fst acc)(curr \<mapsto> \<lparr>w_free = bal + t_amount t - pending, w_used = pending,
                                       w_total = t_amount t + bal\<rparr>),
                      snd acc + used)))"

definition dry_positions :: "trade list \<Rightarrow> (string \<times> position_wallet) list" where
  "dry_positions ts =
     fold (\<lambda>t ps. AList.update (t_pair t)
            \<lparr>pw_position = t_amount t, pw_leverage = Some (t_leverage t), pw_collateral = t_stake_amount t,
             pw_side = trade_direction t\<rparr> ps) ts []"

definition cross_margin_of :: "wallet_config \<Rightarrow> wallet_exchange \<Rightarrow> py_error + flt" where
  "cross_margin_of cfg X =
     (if wc_margin_mode cfg = CROSS then
        sum_mapE (\<lambda>(curr, bal).
            if curr = wc_stake_currency cfg then Inr 0
            else bindE (wx_conversion_rate X curr (wc_stake_currency cfg))
                   (\<lambda>rate. Inr (if truthy rate then bal * the rate else 0)))
          (wc_start_cap cfg)
      else Inr 0)"

definition add_start_cap :: "(string \<times> flt) list \<Rightarrow> (string \<Rightarrow> wallet option) \<Rightarrow> string \<Rightarrow> wallet option" where
  "add_start_cap caps ws =
     fold (\<lambda>(currency, bal) m. if m currency = None
             then m(currency \<mapsto> \<lparr>w_free = bal, w_used = 0, w_total = bal\<rparr>) else m) caps ws"

definition update_dry :: "wallet_config \<Rightarrow> wallet_exchange \<Rightarrow> bt_state \<Rightarrow> wallets \<Rightarrow> py_error + wallets" where
  "update_dry cfg X s W =
     (let open_trades = open_trades_of s;
          tot_in_trades = sum_list (List.map t_stake_amount open_trades)
      in bindE (if \<not> wc_is_backtest cfg then get_total_closed_profit (wc_use_db cfg) s
                else Inr (bt_total_profit s))
           (\<lambda>closed_profit.
              let tot_profit = closed_profit + sum_list (List.map t_realized_profit open_trades)
              in bindE (if wc_trading_mode cfg \<noteq> FUTURES
                        then bindE (runE (dry_spot_step cfg X) open_trades (Map.empty, 0))
                               (\<lambda>(ws, used). Inr (ws, [], used))
                        else Inr (Map.empty, dry_positions open_trades, tot_in_trades))
                   (\<lambda>(ws, ps, used_stake).
                      bindE (cross_margin_of cfg X) (\<lambda>cross_margin.
                        let cap = (case map_of (wc_start_cap cfg) (wc_stake_currency cfg) of
                                     None \<Rightarrow> 0 | Some b \<Rightarrow> b);
                            current_stake = cap + tot_profit - tot_in_trades;
                            ws1 = ws(wc_stake_currency cfg \<mapsto>
                                    \<lparr>w_free = current_stake + cross_margin, w_used = used_stake,
                                     w_total = current_stake + used_stake\<rparr>)
                        in Inr (W\<lparr>ws_wallets := add_start_cap (wc_start_cap cfg) ws1,
                                  ws_positions := ps\<rparr>)))))"

definition live_position ::
    "bt_state \<Rightarrow> wallet_exchange \<Rightarrow> exchange_position \<Rightarrow> (string \<times> position_wallet) option" where
  "live_position s X p =
     (case xp_side p of None \<Rightarrow> None
      | Some side \<Rightarrow>
          if xp_collateral p = Some 0 then None
          else
            (let symbol = xp_symbol p;
                 trades = get_trades_proxy s (Some symbol) (Some True) None None;
                 lev = (if truthy (xp_leverage p) then xp_leverage p
                        else if trades \<noteq> [] then Some (t_leverage (bt_heap s (hd trades))) else None);
                 collateral = (case xp_initial_margin p of Some v \<Rightarrow> v
                               | None \<Rightarrow> (case xp_collateral p of Some v \<Rightarrow> v | None \<Rightarrow> 0))
             in Some (symbol,
                  \<lparr>pw_position = contracts_to_amount (xp_contracts p) (wx_contract_size X symbol),
                   pw_leverage = lev, pw_collateral = collateral, pw_side = side\<rparr>)))"

definition update_live :: "wallet_exchange \<Rightarrow> bt_state \<Rightarrow> wallets \<Rightarrow> wallets" where
  "update_live X s W =
     W\<lparr>ws_wallets := fold (\<lambda>(c, b) m. case b of None \<Rightarrow> m | Some w \<Rightarrow> m(c \<mapsto> w)) (wx_balances X) Map.empty,
       ws_positions := fold (\<lambda>(sym, p). AList.update sym p)
                         (List.map_filter (live_position s X) (wx_positions X)) []\<rparr>"

definition hour_us :: int where
  "hour_us = 3600 * 1000000"

definition update_wallets ::
    "wallet_config \<Rightarrow> wallet_exchange \<Rightarrow> bt_state \<Rightarrow> datetime \<Rightarrow> bool \<Rightarrow> wallets \<Rightarrow> py_error + wallets" where
  "update_wallets cfg X s now require_update W =
     (if require_update \<or> (case ws_last_refresh W of None \<Rightarrow> True | Some d \<Rightarrow> d + hour_us < now) then
        bindE (if \<not> wc_dry_run cfg \<or> wc_runmode_live cfg then Inr (update_live X s W) else update_dry cfg X s W)
          (\<lambda>W'. Inr (W'\<lparr>ws_last_refresh := Some now\<rparr>))
      else Inr W)"

section \<open>Exit amounts\<close>

definition exit_amount_available :: "wallets \<Rightarrow> trade \<Rightarrow> bool" where
  "exit_amount_available W t =
     (if t_trading_mode t \<noteq> Some FUTURES
      then get_total W (safe_base_currency t) * (2 - 981/1000) \<ge> t_amount t
      else (case map_of (ws_positions W) (t_pair t) of
              None \<Rightarrow> False | Some pos \<Rightarrow> pw_position pos \<ge> t_amount t))"

definition check_exit_amount ::
    "wallet_config \<Rightarrow> wallet_exchange \<Rightarrow> bt_state \<Rightarrow> datetime \<Rightarrow> trade \<Rightarrow> wallets \<Rightarrow> py_error + (bool \<times> wallets)" where
  "check_exit_amount cfg X s now t W =
     (if \<not> exit_amount_available W t
      then bindE (update_wallets cfg X s now True W) (\<lambda>W'. Inr (exit_amount_available W' t, W'))
      else Inr (True, W))"

section \<open>Stakes\<close>

definition get_starting_balance :: "wallet_config \<Rightarrow> bt_state \<Rightarrow> wallets \<Rightarrow> py_error + flt" where
  "get_starting_balance cfg s W =
     (case wc_available_capital cfg of
        Some c \<Rightarrow> Inr c
      | None \<Rightarrow> bindE (get_total_closed_profit (wc_use_db cfg) s) (\<lambda>tot_profit.
          Inr ((get_free W (wc_stake_currency cfg) - tot_profit + total_open_trades_stakes s)
               * wc_tradable_balance_ratio cfg)))"

definition get_total_stake_amount :: "wallet_config \<Rightarrow> bt_state \<Rightarrow> wallets \<Rightarrow> py_error + flt" where
  "get_total_stake_amount cfg s W =
     (case wc_available_capital cfg of
        Some c \<Rightarrow> bindE (get_total_closed_profit (wc_use_db cfg) s) (\<lambda>tot_profit. Inr (c + tot_profit))
      | None \<Rightarrow> Inr ((total_open_trades_stakes s + get_free W (wc_stake_currency cfg))
                     * wc_tradable_balance_ratio cfg))"

definition get_available_stake_amount :: "wallet_config \<Rightarrow> bt_state \<Rightarrow> wallets \<Rightarrow> py_error + flt" where
  "get_available_stake_amount cfg s W =
     bindE (get_total_stake_amount cfg s W) (\<lambda>total.
       Inr (min (total - total_open_trades_stakes s) (get_free W (wc_stake_currency cfg))))"

text \<open>\<open>max_open_trades\<close> is an integer or infinity (\<open>None\<close>); a finite number over infinity is 0.\<close>

definition calculate_unlimited_stake_amount :: "flt \<Rightarrow> flt \<Rightarrow> int option \<Rightarrow> flt" where
  "calculate_unlimited_stake_amount available_amount val_tied_up max_open_trades =
     (if max_open_trades = Some 0 then 0
      else
        (let possible_stake = (case max_open_trades of None \<Rightarrow> 0
               | Some n \<Rightarrow> (available_amount + val_tied_up) / of_int n)
         in min possible_stake available_amount))"

definition check_available_stake_amount :: "wallet_config \<Rightarrow> flt \<Rightarrow> flt \<Rightarrow> py_error + flt" where
  "check_available_stake_amount cfg stake_amount available_amount =
     (let stake = (if wc_amend_last_stake_amount cfg then
                     (if available_amount > stake_amount * wc_last_stake_amount_min_ratio cfg
                      then min stake_amount available_amount else 0)
                   else stake_amount)
      in if available_amount < stake then Inl DependencyException else Inr (max stake 0))"

definition get_trade_stake_amount ::
    "wallet_config \<Rightarrow> wallet_exchange \<Rightarrow> bt_state \<Rightarrow> datetime \<Rightarrow> int option \<Rightarrow> bool \<Rightarrow> wallets
       \<Rightarrow> py_error + (flt \<times> wallets)" where
  "get_trade_stake_amount cfg X s now max_open_trades update W =
     bindE (if update then update_wallets cfg X s now True W else Inr W) (\<lambda>W1.
       bindE (get_available_stake_amount cfg s W1) (\<lambda>available_amount.
         let stake_amount = (case wc_stake_amount cfg of Some a \<Rightarrow> a
               | None \<Rightarrow> calculate_unlimited_stake_amount available_amount (total_open_trades_stakes s)
                          max_open_trades)
         in bindE (check_available_stake_amount cfg stake_amount available_amount)
              (\<lambda>stake. Inr (stake, W1))))"

definition validate_stake_amount ::
    "wallet_config \<Rightarrow> bt_state \<Rightarrow> wallets \<Rightarrow> flt option \<Rightarrow> flt option \<Rightarrow> flt option \<Rightarrow> flt option \<Rightarrow> py_error + flt" where
  "validate_stake_amount cfg s W stake_amount min_stake_amount max_stake_amount trade_amount =
     (if \<not> truthy stake_amount \<or> the stake_amount \<le> 0 then Inr 0
      else
        bindE (get_available_stake_amount cfg s W) (\<lambda>available.
          let stake = the stake_amount;
              allowed0 = min_limit max_stake_amount available;
              allowed = (if truthy trade_amount then min_limit (map_option (\<lambda>m. m - the trade_amount) max_stake_amount) allowed0
                         else allowed0)
          in case min_stake_amount of
               None \<Rightarrow> Inr (if stake > allowed then allowed else stake)
             | Some mn \<Rightarrow>
                 if mn > allowed then Inr 0
                 else if stake < mn \<and> stake * (13/10) < mn then Inr 0
                 else (let stake1 = (if stake < mn then mn else stake)
                       in Inr (if stake1 > allowed then allowed else stake1))))"

text \<open>A stake amount of \<^term>\<open>None\<close> for the maximum stands for infinity.\<close>

section \<open>Dry-run balances\<close>

lemma add_start_cap_keeps: "m c \<noteq> None \<Longrightarrow> add_start_cap caps m c = m c"
  unfolding add_start_cap_def
  by (induction caps arbitrary: m) (auto split: prod.splits)

lemma add_start_cap_other:
  "m c = None \<Longrightarrow> add_start_cap caps m c = map_option (\<lambda>b. \<lparr>w_free = b, w_used = 0, w_total = b\<rparr>) (map_of caps c)"
proof (induction caps arbitrary: m)
  case Nil
  then show ?case by (simp add: add_start_cap_def)
next
  case (Cons cap caps)
  obtain d b where cap: "cap = (d, b)" by fastforce
  define m' where "m' = (if m d = None then m(d \<mapsto> \<lparr>w_free = b, w_used = 0, w_total = b\<rparr>) else m)"
  have step: "add_start_cap (cap # caps) m = add_start_cap caps m'"
    by (simp add: add_start_cap_def cap m'_def)
  show ?case
  proof (cases "d = c")
    case True
    with Cons.prems have "m' c = Some \<lparr>w_free = b, w_used = 0, w_total = b\<rparr>" by (simp add: m'_def)
    with True show ?thesis using step by (simp add: add_start_cap_keeps cap)
  next
    case False
    with Cons.prems Cons.IH [of m'] step show ?thesis by (simp add: cap m'_def)
  qed
qed

text \<open>The wallet of the stake currency after a refresh.\<close>

lemma update_dry_stake_wallet:
  assumes "update_dry cfg X s W = Inr W'"
  shows "\<exists>closed used cm. (if \<not> wc_is_backtest cfg then get_total_closed_profit (wc_use_db cfg) s = Inr closed
        else closed = bt_total_profit s)
    \<and> cross_margin_of cfg X = Inr cm
    \<and> (wc_trading_mode cfg = FUTURES \<longrightarrow> used = total_open_trades_stakes s)
    \<and> (let current = with_cap + closed + sum_list (List.map t_realized_profit (open_trades_of s))
                      - total_open_trades_stakes s
       in with_cap = (case map_of (wc_start_cap cfg) (wc_stake_currency cfg) of None \<Rightarrow> 0 | Some b \<Rightarrow> b) \<longrightarrow>
          ws_wallets W' (wc_stake_currency cfg) =
            Some \<lparr>w_free = current + cm, w_used = used, w_total = current + used\<rparr>)"
proof -
  from assms obtain closed ws ps used cm where
    c: "(if \<not> wc_is_backtest cfg then get_total_closed_profit (wc_use_db cfg) s
         else Inr (bt_total_profit s)) = Inr closed"
    and u: "wc_trading_mode cfg = FUTURES \<longrightarrow> used = total_open_trades_stakes s"
    and cm: "cross_margin_of cfg X = Inr cm"
    and W': "ws_wallets W' = add_start_cap (wc_start_cap cfg) (ws(wc_stake_currency cfg \<mapsto>
       (let current = (case map_of (wc_start_cap cfg) (wc_stake_currency cfg) of None \<Rightarrow> 0 | Some b \<Rightarrow> b)
                      + (closed + sum_list (List.map t_realized_profit (open_trades_of s)))
                      - total_open_trades_stakes s
        in \<lparr>w_free = current + cm, w_used = used, w_total = current + used\<rparr>)))"
    by (fastforce simp: update_dry_def Let_def bindE_eq_Inr total_open_trades_stakes_def split: if_splits)
  from c u cm show ?thesis
    by (intro exI [of _ closed] exI [of _ used] exI [of _ cm])
      (simp add: W' add_start_cap_keeps Let_def add.assoc split: if_splits)
qed


definition example_config :: wallet_config where
  "example_config = \<lparr>wc_trading_mode = SPOT, wc_margin_mode = NO_MARGIN, wc_is_backtest = True,
     wc_use_db = False, wc_dry_run = True, wc_runmode_live = False, wc_stake_currency = ''USDT'',
     wc_start_cap = [(''USDT'', 1000)], wc_available_capital = None, wc_tradable_balance_ratio = 99/100,
     wc_amend_last_stake_amount = False, wc_last_stake_amount_min_ratio = 1/2, wc_stake_amount = None\<rparr>"

definition example_exchange :: wallet_exchange where
  "example_exchange = \<lparr>wx_ccxt = ccxt_example, wx_base_currency = (\<lambda>p. hd (split_on CHR ''/'' p)),
     wx_conversion_rate = (\<lambda>_ _. Inr None), wx_balances = [], wx_positions = [],
     wx_contract_size = (\<lambda>_. None)\<rparr>"

definition example_open :: bt_state where
  "example_open = \<lparr>bt_heap = (\<lambda>_. example_trade), bt_trades = [], bt_trades_open = [1],
     bt_trades_open_pp = (\<lambda>_. []), bt_open_open_trade_count = 1, bt_total_profit = 50\<rparr>"

definition no_wallets :: wallets where
  "no_wallets = \<lparr>ws_wallets = Map.empty, ws_positions = [], ws_last_refresh = None\<rparr>"

lemma example_update_dry: "\<exists>W'. update_dry example_config example_exchange example_open no_wallets = Inr W'"
  by (simp add: update_dry_def example_config_def example_open_def open_trades_of_def get_open_trades_def
      get_trades_proxy_def dry_spot_step_def open_orders_def example_trade_def cross_margin_of_def Let_def)


section \<open>Stake amounts\<close>

lemma available_le_free:
  "get_available_stake_amount cfg s W = Inr a \<Longrightarrow> a \<le> get_free W (wc_stake_currency cfg)"
  by (auto simp: get_available_stake_amount_def bindE_eq_Inr)

lemma check_available_bounds:
  "check_available_stake_amount cfg stake available = Inr r \<Longrightarrow> 0 \<le> r \<and> r \<le> max 0 available"
  by (auto simp: check_available_stake_amount_def Let_def split: if_splits)

lemma check_available_le_stake:
  "check_available_stake_amount cfg stake available = Inr r \<Longrightarrow> r \<le> max 0 stake"
  by (auto simp: check_available_stake_amount_def Let_def split: if_splits)


lemma example_stake:
  "get_available_stake_amount example_config example_open
     (no_wallets\<lparr>ws_wallets := [''USDT'' \<mapsto> \<lparr>w_free = 300, w_used = 0, w_total = 300\<rparr>]\<rparr>) = Inr 295"
  by (simp add: get_available_stake_amount_def get_total_stake_amount_def example_config_def get_free_def
      total_open_trades_stakes_def open_trades_of_def get_open_trades_def get_trades_proxy_def
      example_open_def example_trade_def)


text \<open>A validated stake respects its limits. The result is 0 or lies between the
  minimum stake and what is allowed (the smaller of the exchange's maximum, the available balance
  and, for a trade that is already open, the room left under the maximum); it exceeds the
  requested stake by at most thirty percent. The one negative result is the room itself, when it
  is negative and no minimum stake is known.\<close>

theorem validated_stake_bounds:
  assumes "validate_stake_amount cfg s W stake_amount min_stake max_stake trade_amount = Inr r"
    and "get_available_stake_amount cfg s W = Inr available"
    and "\<forall>mn. min_stake = Some mn \<longrightarrow> 0 \<le> mn"
  defines "allowed \<equiv> (if truthy trade_amount
       then min_limit (map_option (\<lambda>m. m - the trade_amount) max_stake) (min_limit max_stake available)
       else min_limit max_stake available)"
  shows "r = 0 \<or> (r \<le> allowed \<and> (\<exists>w. stake_amount = Some w \<and> 0 < w \<and> r \<le> w * (13/10))
      \<and> (\<forall>mn. min_stake = Some mn \<longrightarrow> mn \<le> r)
      \<and> (r < 0 \<longrightarrow> min_stake = None \<and> r = allowed))"
proof (cases "truthy stake_amount \<and> 0 < the stake_amount")
  case False
  with assms(1) show ?thesis by (auto simp: validate_stake_amount_def split: if_splits)
next
  case True
  then obtain w where w: "stake_amount = Some w" "0 < w" by (auto simp: truthy_iff)
  have r: "r = (case min_stake of None \<Rightarrow> (if w > allowed then allowed else w)
     | Some mn \<Rightarrow> if mn > allowed then 0 else if w < mn \<and> w * (13/10) < mn then 0
         else (let stake1 = (if w < mn then mn else w) in if stake1 > allowed then allowed else stake1))"
    using assms(1) [unfolded validate_stake_amount_def assms(2) bindE_Inr Let_def, folded allowed_def] w
    by (cases min_stake) (auto simp: Let_def split: if_splits)
  show ?thesis
  proof (cases min_stake)
    case None
    with r w show ?thesis by (auto simp: not_less)
  next
    case (Some mn)
    with assms(3) have "0 \<le> mn" by simp
    with r w Some show ?thesis by (auto simp: Let_def not_less split: if_splits)
  qed
qed

theorem validated_stake_bounds_witness:
  "\<exists>r. validate_stake_amount example_config example_open
       (no_wallets\<lparr>ws_wallets := [''USDT'' \<mapsto> \<lparr>w_free = 300, w_used = 0, w_total = 300\<rparr>]\<rparr>)
       (Some 400) (Some 10) (Some 1000) None = Inr r \<and> r \<le> 520"
proof -
  let ?W = "no_wallets\<lparr>ws_wallets := [''USDT'' \<mapsto> \<lparr>w_free = 300, w_used = 0, w_total = 300\<rparr>]\<rparr>"
  obtain r where r: "validate_stake_amount example_config example_open ?W (Some 400) (Some 10) (Some 1000) None = Inr r"
    by (simp add: validate_stake_amount_def example_stake)
  from validated_stake_bounds [OF r example_stake] r show ?thesis by auto
qed

end
