(* ===== verification/Liquidation.thy ===== *)
theory Liquidation
  imports Wallets
begin

text \<open>
  Liquidation prices of leveraged trades: \<open>get_liquidation_price\<close>, \<open>dry_run_liquidation_price\<close> and
  \<open>get_maintenance_ratio_and_amt\<close> of exchange/exchange.py, and \<open>update_liquidation_prices\<close> of
  leverage/liquidation_price.py. Markets, leverage tiers and positions are what the exchange
  object has cached or fetched.
\<close>

section \<open>The exchange\<close>

record market =
  m_taker :: "flt option"
  m_inverse :: bool

record leverage_tier =
  lt_min_notional :: flt
  lt_maintenance_margin_rate :: flt
  lt_maint_amt :: "flt option"

record liq_exchange =
  lx_trading_mode :: trading_mode
  lx_margin_mode :: margin_mode
  lx_dry_run :: bool
  lx_has_fetch_positions :: bool
  lx_knows_tiers :: bool
  lx_markets :: "string \<Rightarrow> market option"
  lx_default_taker :: flt
  lx_leverage_tiers :: "string \<Rightarrow> leverage_tier list option"
  lx_liquidation_buffer :: flt
  lx_positions :: "string \<Rightarrow> flt option list"

text \<open>
  \<open>lx_knows_tiers\<close> stands for the test of the run mode and of the two \<open>exchange_has\<close> queries;
  \<open>lx_positions\<close> lists the \<open>liquidationPrice\<close> of the fetched positions of a pair.
\<close>

definition get_maintenance_ratio_and_amt ::
    "liq_exchange \<Rightarrow> string \<Rightarrow> flt \<Rightarrow> py_error + (flt \<times> flt option)" where
  "get_maintenance_ratio_and_amt X pair notional_value =
     (if lx_knows_tiers X then
        (case lx_leverage_tiers X pair of
           None \<Rightarrow> Inl InvalidOrderException
         | Some pair_tiers \<Rightarrow>
             (case find (\<lambda>tier. notional_value \<ge> lt_min_notional tier) (rev pair_tiers) of
                Some tier \<Rightarrow> Inr (lt_maintenance_margin_rate tier, lt_maint_amt tier)
              | None \<Rightarrow> Inl ExchangeError))
      else Inl ExchangeError)"

definition dry_run_liquidation_price ::
    "liq_exchange \<Rightarrow> string \<Rightarrow> flt \<Rightarrow> bool \<Rightarrow> flt \<Rightarrow> flt \<Rightarrow> flt \<Rightarrow> py_error + flt option" where
  "dry_run_liquidation_price X pair open_rate is_short amount stake_amount wallet_balance =
     (case lx_markets X pair of
        None \<Rightarrow> Inl KeyError
      | Some market \<Rightarrow>
          (let taker_fee_rate = or_val (m_taker market) (lx_default_taker X)
           in bindE (get_maintenance_ratio_and_amt X pair stake_amount) (\<lambda>(mm_ratio, _).
                if lx_trading_mode X = FUTURES \<and> lx_margin_mode X = ISOLATED then
                  (if m_inverse market then Inl OperationalException
                   else if amount = 0 then Inl ZeroDivisionError
                   else
                     (let value = wallet_balance / amount;
                          mm_ratio_taker = mm_ratio + taker_fee_rate;
                          divisor = (if is_short then 1 + mm_ratio_taker else 1 - mm_ratio_taker)
                      in if divisor = 0 then Inl ZeroDivisionError
                         else Inr (Some ((if is_short then open_rate + value else open_rate - value)
                                         / divisor))))
                else Inl OperationalException)))"

definition add_liquidation_buffer :: "flt \<Rightarrow> flt \<Rightarrow> bool \<Rightarrow> flt \<Rightarrow> flt" where
  "add_liquidation_buffer buffer open_rate is_short liquidation_price =
     (let buffer_amount = \<bar>open_rate - liquidation_price\<bar> * buffer
      in max (if is_short then liquidation_price - buffer_amount else liquidation_price + buffer_amount) 0)"

definition get_liquidation_price ::
    "liq_exchange \<Rightarrow> string \<Rightarrow> flt \<Rightarrow> bool \<Rightarrow> flt \<Rightarrow> flt \<Rightarrow> flt \<Rightarrow> py_error + flt option" where
  "get_liquidation_price X pair open_rate is_short amount stake_amount wallet_balance =
     (if lx_trading_mode X = SPOT then Inr None
      else if lx_trading_mode X \<noteq> FUTURES then Inl OperationalException
      else
        bindE (if lx_dry_run X \<or> \<not> lx_has_fetch_positions X
               then dry_run_liquidation_price X pair open_rate is_short amount stake_amount wallet_balance
               else Inr (case lx_positions X pair of [] \<Rightarrow> None | p # _ \<Rightarrow> p))
          (\<lambda>price. Inr (map_option
             (add_liquidation_buffer (lx_liquidation_buffer X) open_rate is_short) price)))"

section \<open>Updating the trades\<close>

definition liquidation_step ::
    "ccxt \<Rightarrow> liq_exchange \<Rightarrow> flt \<Rightarrow> nat \<Rightarrow> bt_state \<Rightarrow> py_error + bt_state" where
  "liquidation_step C X wallet_balance i s =
     (let t = bt_heap s i
      in bindE (get_liquidation_price X (t_pair t) (t_open_rate t) (t_is_short t) (t_amount t)
                  (t_stake_amount t) wallet_balance)
           (\<lambda>price. bindE (set_liquidation_price C t price) (\<lambda>t'. Inr (write_trade i t' s))))"

text \<open>
  In cross margin mode the loop over the open trades stops at the first exception, and the trades
  updated before it stay updated. The \<open>DependencyException\<close> handler only logs.
\<close>

fun liquidation_loop ::
    "ccxt \<Rightarrow> liq_exchange \<Rightarrow> flt \<Rightarrow> nat list \<Rightarrow> bt_state \<Rightarrow> py_error option \<times> bt_state" where
  "liquidation_loop C X w [] s = (None, s)"
| "liquidation_loop C X w (i # is) s =
     (if has_open_position (bt_heap s i) then
        (case liquidation_step C X w i s of
           Inl e \<Rightarrow> (Some e, s)
         | Inr s' \<Rightarrow> liquidation_loop C X w is s')
      else liquidation_loop C X w is s)"

definition swallow_dependency :: "py_error option \<times> bt_state \<Rightarrow> py_error + bt_state" where
  "swallow_dependency r =
     (case fst r of None \<Rightarrow> Inr (snd r)
      | Some e \<Rightarrow> if is_dependency_exception e then Inr (snd r) else Inl e)"

definition update_liquidation_prices ::
    "ccxt \<Rightarrow> liq_exchange \<Rightarrow> wallet_config \<Rightarrow> wallets \<Rightarrow> bool \<Rightarrow> nat option \<Rightarrow> bt_state \<Rightarrow> py_error + bt_state" where
  "update_liquidation_prices C X cfg W dry_run trade s =
     swallow_dependency
       (if lx_margin_mode X = CROSS then
          liquidation_loop C X (if dry_run then get_collateral cfg W else 0) (get_open_trades s) s
        else
          (case trade of
             Some i \<Rightarrow> (case liquidation_step C X (t_stake_amount (bt_heap s i)) i s of
                          Inl e \<Rightarrow> (Some e, s) | Inr s' \<Rightarrow> (None, s'))
           | None \<Rightarrow> (Some DependencyException, s)))"

section \<open>Tiers\<close>

text \<open>With tiers in ascending order, the tier that applies is the highest one reached.\<close>

lemma maintenance_tier:
  assumes "get_maintenance_ratio_and_amt X pair notional = Inr (mmr, amt)"
    and "lx_leverage_tiers X pair = Some tiers" and "sorted (List.map lt_min_notional tiers)"
  shows "\<exists>tier \<in> set tiers. mmr = lt_maintenance_margin_rate tier \<and> lt_min_notional tier \<le> notional
    \<and> (\<forall>t \<in> set tiers. lt_min_notional t \<le> notional \<longrightarrow> lt_min_notional t \<le> lt_min_notional tier)"
proof -
  from assms(1,2) obtain tier where f: "find (\<lambda>t. notional \<ge> lt_min_notional t) (rev tiers) = Some tier"
    and m: "mmr = lt_maintenance_margin_rate tier"
    by (auto simp: get_maintenance_ratio_and_amt_def split: if_splits option.splits)
  from f obtain i where i: "i < length tiers" "notional \<ge> lt_min_notional (rev tiers ! i)" "tier = rev tiers ! i"
    and before: "\<forall>j < i. \<not> notional \<ge> lt_min_notional (rev tiers ! j)"
    by (auto simp: find_Some_iff)
  have "lt_min_notional t \<le> lt_min_notional tier" if t: "t \<in> set tiers" "lt_min_notional t \<le> notional" for t
  proof -
    from t obtain j where j: "j < length tiers" "t = rev tiers ! j"
      by (metis in_set_conv_nth length_rev set_rev)
    with before t have "i \<le> j" by (meson not_less)
    with j i have "tiers ! (length tiers - Suc j) = t" "tiers ! (length tiers - Suc i) = tier"
      by (simp_all add: rev_nth)
    moreover have "List.map lt_min_notional tiers ! (length tiers - Suc j)
        \<le> List.map lt_min_notional tiers ! (length tiers - Suc i)"
      using assms(3) \<open>i \<le> j\<close> i j by (intro sorted_nth_mono) auto
    ultimately show ?thesis using i j by simp
  qed
  with i m show ?thesis by (metis in_set_conv_nth length_rev set_rev)
qed

section \<open>Where the liquidation price lies\<close>

lemma buffer_between:
  assumes "0 \<le> buffer" "buffer \<le> 1" "0 \<le> open_rate"
  shows "\<not> is_short \<Longrightarrow> raw \<le> open_rate \<Longrightarrow>
      max raw 0 \<le> add_liquidation_buffer buffer open_rate is_short raw
      \<and> add_liquidation_buffer buffer open_rate is_short raw \<le> open_rate"
    and "is_short \<Longrightarrow> open_rate \<le> raw \<Longrightarrow>
      open_rate \<le> add_liquidation_buffer buffer open_rate is_short raw
      \<and> add_liquidation_buffer buffer open_rate is_short raw \<le> raw"
proof -
  have mono: "x * buffer \<le> x" "0 \<le> x * buffer" if "0 \<le> x" for x
    using that assms by (simp_all add: mult_left_le)
  show "\<not> is_short \<Longrightarrow> raw \<le> open_rate \<Longrightarrow>
      max raw 0 \<le> add_liquidation_buffer buffer open_rate is_short raw
      \<and> add_liquidation_buffer buffer open_rate is_short raw \<le> open_rate"
    using mono [of "open_rate - raw"] assms(3) by (auto simp: add_liquidation_buffer_def Let_def)
  show "is_short \<Longrightarrow> open_rate \<le> raw \<Longrightarrow>
      open_rate \<le> add_liquidation_buffer buffer open_rate is_short raw
      \<and> add_liquidation_buffer buffer open_rate is_short raw \<le> raw"
    using mono [of "raw - open_rate"] assms(3) by (auto simp: add_liquidation_buffer_def Let_def)
qed

text \<open>The liquidation price lies between the exchange's and the entry. For an isolated
  futures position whose margin per unit covers the maintenance margin and the fee, the simulated
  price with its buffer is never past the entry and never closer to ruin than the unbuffered
  price: for a long it is at most the entry and at least the unbuffered price, for a short the
  other way round.\<close>

theorem liquidation_between:
  assumes "get_liquidation_price X pair open_rate is_short amount stake wallet = Inr (Some l)"
    and "lx_dry_run X" and "dry_run_liquidation_price X pair open_rate is_short amount stake wallet = Inr (Some raw)"
    and "lx_markets X pair = Some market" and "get_maintenance_ratio_and_amt X pair stake = Inr (mmr, amt)"
    and "mm = mmr + or_val (m_taker market) (lx_default_taker X)"
    and "0 \<le> mm" and "mm < 1" and "0 < open_rate" and "open_rate * mm \<le> wallet / amount"
    and "0 \<le> lx_liquidation_buffer X" and "lx_liquidation_buffer X \<le> 1"
  shows "0 \<le> l \<and> (if is_short then open_rate \<le> l \<and> l \<le> raw else raw \<le> l \<and> l \<le> open_rate)"
proof -
  from assms(1,2,3) have l: "l = add_liquidation_buffer (lx_liquidation_buffer X) open_rate is_short raw"
    by (auto simp: get_liquidation_price_def split: if_splits)
  from assms(3-6) have raw: "raw = (if is_short then open_rate + wallet / amount else open_rate - wallet / amount)
      / (if is_short then 1 + mm else 1 - mm)"
    by (auto simp: dry_run_liquidation_price_def Let_def split: if_splits)
  show ?thesis
  proof (cases is_short)
    case True
    with raw assms(7,10) have "open_rate \<le> raw" by (simp add: pos_le_divide_eq distrib_left)
    with buffer_between(2) [OF assms(11,12), of open_rate is_short raw] True l assms(9)
    show ?thesis by auto
  next
    case False
    with raw assms(8,10) have "raw \<le> open_rate" by (simp add: pos_divide_le_eq right_diff_distrib)
    with buffer_between(1) [OF assms(11,12), of open_rate is_short raw] False l assms(9)
    show ?thesis by auto
  qed
qed

definition example_futures :: liq_exchange where
  "example_futures = \<lparr>lx_trading_mode = FUTURES, lx_margin_mode = ISOLATED, lx_dry_run = True,
     lx_has_fetch_positions = False, lx_knows_tiers = True,
     lx_markets = [''ETH/USDT:USDT'' \<mapsto> \<lparr>m_taker = None, m_inverse = False\<rparr>],
     lx_default_taker = 1/1000,
     lx_leverage_tiers = [''ETH/USDT:USDT'' \<mapsto>
       [\<lparr>lt_min_notional = 0, lt_maintenance_margin_rate = 1/100, lt_maint_amt = Some 0\<rparr>,
        \<lparr>lt_min_notional = 1000, lt_maintenance_margin_rate = 2/100, lt_maint_amt = None\<rparr>]],
     lx_liquidation_buffer = 5/100, lx_positions = (\<lambda>_. [])\<rparr>"

theorem liquidation_between_witness:
  "\<exists>l. get_liquidation_price example_futures ''ETH/USDT:USDT'' 100 False 5 50 50 = Inr (Some l)
     \<and> 0 \<le> l \<and> l \<le> 100"
proof -
  have m: "get_maintenance_ratio_and_amt example_futures ''ETH/USDT:USDT'' 50 = Inr (1/100, Some 0)"
    by (simp add: get_maintenance_ratio_and_amt_def example_futures_def)
  have mk: "lx_markets example_futures ''ETH/USDT:USDT'' = Some \<lparr>m_taker = None, m_inverse = False\<rparr>"
    by (simp add: example_futures_def)
  define raw :: flt where "raw = 90000 / 989"
  have raw: "dry_run_liquidation_price example_futures ''ETH/USDT:USDT'' 100 False 5 50 50 = Inr (Some raw)"
    by (simp add: dry_run_liquidation_price_def m mk raw_def) (simp add: example_futures_def)
  obtain l where l: "get_liquidation_price example_futures ''ETH/USDT:USDT'' 100 False 5 50 50 = Inr (Some l)"
    by (simp add: get_liquidation_price_def) (use raw in \<open>simp add: example_futures_def\<close>)
  have "0 \<le> l \<and> (if False then 100 \<le> l \<and> l \<le> raw else raw \<le> l \<and> l \<le> 100)"
    by (rule liquidation_between [OF l _ raw mk m refl]) (simp_all add: example_futures_def)
  with l show ?thesis by auto
qed

text \<open>A failure to find a price never stops trading and never touches a trade in isolated mode.\<close>

lemma update_liquidation_isolated_frame:
  assumes "update_liquidation_prices C X cfg W dry_run (Some i) s = Inr s'" and "lx_margin_mode X \<noteq> CROSS"
  shows "s' = s \<or> (\<exists>p. s' = write_trade i ((bt_heap s i)\<lparr>t_liquidation_price := p\<rparr>) s)"
proof (cases "liquidation_step C X (t_stake_amount (bt_heap s i)) i s")
  case (Inl e)
  with assms show ?thesis
    by (auto simp: update_liquidation_prices_def swallow_dependency_def split: if_splits)
next
  case (Inr s1)
  with assms have "s' = s1" by (simp add: update_liquidation_prices_def swallow_dependency_def)
  moreover from Inr obtain price t' where "set_liquidation_price C (bt_heap s i) price = Inr t'"
    and "s1 = write_trade i t' s"
    by (auto simp: liquidation_step_def Let_def bindE_eq_Inr)
  moreover from this(1) have "t' = bt_heap s i \<or> (\<exists>p. t' = (bt_heap s i)\<lparr>t_liquidation_price := Some p\<rparr>)"
    by (auto simp: set_liquidation_price_def bindE_eq_Inr split: option.splits)
  ultimately show ?thesis by (auto simp: write_trade_def)
qed

end
