(* ===== verification/Strategy_Exit.thy ===== *)
theory Strategy_Exit
  imports Trade_Recalc Pair_Locks
begin

text \<open>
  The decisions of a strategy about entries and exits (strategy/interface.py): the signals of the
  latest candle, the stop that follows the price, the minimal return on investment, and
  \<open>should_exit\<close>, which orders the reasons to exit. The methods a user strategy overrides
  (\<open>custom_stoploss\<close>, \<open>custom_roi\<close>, \<open>custom_exit\<close>, the timeout checks) are functions of the record:
  their wrapper hands them a copy of the trade, so they cannot change it, and turns their
  exceptions into the default value.
\<close>

section \<open>The strategy\<close>

datatype custom_exit_result = No_exit | Exit_true | Exit_reason string

record strategy =
  st_timeframe :: string
  st_minimal_roi :: "(int \<times> flt) list"
  st_stoploss :: flt
  st_trailing_stop :: bool
  st_trailing_stop_positive :: "flt option"
  st_trailing_stop_positive_offset :: flt
  st_trailing_only_offset_is_reached :: bool
  st_use_custom_stoploss :: bool
  st_use_exit_signal :: bool
  st_exit_profit_only :: bool
  st_exit_profit_offset :: flt
  st_ignore_roi_if_entry_signal :: bool
  st_use_custom_roi :: bool
  st_ignore_buying_expired_candle_after :: int
  st_can_short :: bool
  st_stop_uses_after_fill :: bool
  st_stoploss_on_exchange :: bool
  st_dry_run :: bool
  st_trading_mode :: trading_mode
  st_outdated_offset :: int
  st_entry_timeout :: "int option"
  st_exit_timeout :: "int option"
  st_timeout_unit_us :: int
  cb_custom_stoploss :: "trade \<Rightarrow> datetime \<Rightarrow> flt \<Rightarrow> flt \<Rightarrow> bool \<Rightarrow> flt option"
  cb_custom_roi :: "trade \<Rightarrow> datetime \<Rightarrow> int \<Rightarrow> flt option"
  cb_custom_exit :: "trade \<Rightarrow> datetime \<Rightarrow> flt \<Rightarrow> flt \<Rightarrow> custom_exit_result"
  cb_check_entry_timeout :: "trade \<Rightarrow> order \<Rightarrow> datetime \<Rightarrow> bool"
  cb_check_exit_timeout :: "trade \<Rightarrow> order \<Rightarrow> datetime \<Rightarrow> bool"

text \<open>
  The callbacks for a stop and a return give \<open>None\<close> where they fail or return NaN or an infinity.
  \<open>st_minimal_roi\<close> is a dict, with its keys in insertion order.
\<close>

section \<open>Signals\<close>

datatype signal_direction = LONG | SHORT

record candle =
  cd_date :: datetime
  cd_enter_long :: bool
  cd_exit_long :: bool
  cd_enter_short :: bool
  cd_exit_short :: bool
  cd_enter_tag :: "string option"
  cd_exit_tag :: "string option"

text \<open>A signal column counts when it equals 1. A tag that is not a string, or is \<open>nan\<close>, is none.\<close>

definition clean_tag :: "string option \<Rightarrow> string option" where
  "clean_tag tag = (if tag = Some ''nan'' then None else tag)"

definition get_latest_candle ::
    "ccxt \<Rightarrow> strategy \<Rightarrow> datetime \<Rightarrow> candle list \<Rightarrow> (candle \<times> datetime) option" where
  "get_latest_candle C S now dataframe =
     (if dataframe = [] then None
      else
        (let latest_date = max_list (List.map cd_date dataframe);
             latest = last (filter (\<lambda>c. cd_date c = latest_date) dataframe);
             timeframe_minutes = timeframe_to_minutes C (st_timeframe S)
         in if latest_date < now - minutes_us (timeframe_minutes * 2 + st_outdated_offset S)
            then None else Some (latest, latest_date)))"

definition get_exit_signal ::
    "ccxt \<Rightarrow> strategy \<Rightarrow> datetime \<Rightarrow> candle list \<Rightarrow> bool \<Rightarrow> bool \<times> bool \<times> string option" where
  "get_exit_signal C S now dataframe is_short =
     (case get_latest_candle C S now dataframe of
        None \<Rightarrow> (False, False, None)
      | Some (latest, _) \<Rightarrow>
          (if is_short then cd_enter_short latest else cd_enter_long latest,
           if is_short then cd_exit_short latest else cd_exit_long latest,
           clean_tag (cd_exit_tag latest)))"

definition ignore_expired_candle :: "strategy \<Rightarrow> datetime \<Rightarrow> datetime \<Rightarrow> int \<Rightarrow> bool \<Rightarrow> bool" where
  "ignore_expired_candle S latest_date current_time timeframe_seconds enter =
     (if st_ignore_buying_expired_candle_after S \<noteq> 0 \<and> enter
      then current_time - (latest_date + timeframe_seconds * 1000000)
             > st_ignore_buying_expired_candle_after S * 1000000
      else False)"

definition get_entry_signal ::
    "ccxt \<Rightarrow> strategy \<Rightarrow> datetime \<Rightarrow> candle list \<Rightarrow> signal_direction option \<times> string option" where
  "get_entry_signal C S now dataframe =
     (case get_latest_candle C S now dataframe of
        None \<Rightarrow> (None, None)
      | Some (latest, latest_date) \<Rightarrow>
          (let (sig1, tag1) =
                 (if cd_enter_long latest \<and> \<not> (cd_exit_long latest \<or> cd_enter_short latest)
                  then (Some LONG, cd_enter_tag latest) else (None, None));
               (sig2, tag2) =
                 (if st_trading_mode S \<noteq> SPOT \<and> st_can_short S \<and> cd_enter_short latest
                     \<and> \<not> (cd_exit_short latest \<or> cd_enter_long latest)
                  then (Some SHORT, cd_enter_tag latest) else (sig1, tag1));
               enter_tag = clean_tag tag2
           in if ignore_expired_candle S latest_date now (timeframe_to_seconds C (st_timeframe S)) (sig2 \<noteq> None)
              then (None, enter_tag) else (sig2, enter_tag)))"

definition strategy_is_pair_locked ::
    "ccxt \<Rightarrow> strategy \<Rightarrow> lock_store \<Rightarrow> datetime \<Rightarrow> string \<Rightarrow> datetime option \<Rightarrow> string \<Rightarrow> bool" where
  "strategy_is_pair_locked C S st now pair candle_date side =
     (case candle_date of None \<Rightarrow> is_pair_locked st pair now side
      | Some d \<Rightarrow> is_pair_locked st pair (timeframe_to_next_date C (st_timeframe S) d) side)"

section \<open>Stops\<close>

text \<open>
  The stop follows in three steps: the initial stop, the strategy's own function, and trailing.
  \<open>stop0\<close> and \<open>stop1\<close> are the values of \<open>stop_loss_value\<close> after the first and the second.
\<close>

definition apply_custom_stop ::
    "ccxt \<Rightarrow> strategy \<Rightarrow> datetime \<Rightarrow> flt \<Rightarrow> flt \<Rightarrow> bool \<Rightarrow> bool \<Rightarrow> flt \<Rightarrow> trade \<Rightarrow> py_error + (trade \<times> flt)" where
  "apply_custom_stop C S current_time bound_rate bound_profit after_fill dir_correct stop0 t =
     (if st_use_custom_stoploss S \<and> dir_correct then
        (let custom = cb_custom_stoploss S t current_time bound_rate bound_profit after_fill
         in if truthy custom
            then bindE (adjust_stop_loss C bound_rate custom False after_fill t) (\<lambda>t'. Inr (t', the custom))
            else Inr (t, stop0))
      else Inr (t, stop0))"

definition apply_trailing_stop ::
    "ccxt \<Rightarrow> strategy \<Rightarrow> flt \<Rightarrow> flt \<Rightarrow> bool \<Rightarrow> flt \<Rightarrow> trade \<Rightarrow> py_error + trade" where
  "apply_trailing_stop C S bound_rate bound_profit dir_correct stop1 t =
     (if st_trailing_stop S \<and> dir_correct then
        (let sl_offset = st_trailing_stop_positive_offset S
         in if \<not> (st_trailing_only_offset_is_reached S \<and> bound_profit < sl_offset) then
              (let stop2 = (case st_trailing_stop_positive S of
                              Some p \<Rightarrow> if bound_profit > sl_offset then p else stop1
                            | None \<Rightarrow> stop1)
               in adjust_stop_loss C bound_rate (Some stop2) False False t)
            else Inr t)
      else Inr t)"

definition ft_stoploss_adjust ::
    "ccxt \<Rightarrow> strategy \<Rightarrow> datetime \<Rightarrow> flt \<Rightarrow> datetime \<Rightarrow> flt \<Rightarrow> flt \<Rightarrow> flt option \<Rightarrow> flt option \<Rightarrow> flt option
       \<Rightarrow> bool \<Rightarrow> trade \<Rightarrow> py_error + trade" where
  "ft_stoploss_adjust C S clock current_rate current_time current_profit force_stoploss low high bound_profit
       after_fill t =
     (if after_fill \<and> \<not> st_stop_uses_after_fill S then Inr t
      else
        (let stop0 = (if force_stoploss \<noteq> 0 then force_stoploss else st_stoploss S)
         in bindE (adjust_stop_loss C (t_open_rate t) (Some stop0) True False t) (\<lambda>t1.
              let dir_correct = (if \<not> t_is_short t1 then t_stop_loss t1 < or_val low current_rate
                                 else t_stop_loss t1 > or_val high current_rate);
                  bound = (if t_is_short t1 then low else high)
              in bindE
                   (case bound_profit of Some p \<Rightarrow> Inr p
                    | None \<Rightarrow> if \<not> truthy bound then Inr current_profit
                              else calc_profit_ratio C clock t1 bound None None)
                   (\<lambda>bp. bindE
                      (apply_custom_stop C S current_time (or_val bound current_rate) bp after_fill dir_correct
                         stop0 t1)
                      (\<lambda>(t2, stop1).
                         apply_trailing_stop C S (or_val bound current_rate) bp dir_correct stop1 t2)))))"

record exit_check =
  ec_type :: exit_type
  ec_reason :: string

definition exit_check_tuple :: "exit_type \<Rightarrow> string \<Rightarrow> exit_check" where
  "exit_check_tuple ty reason =
     \<lparr>ec_type = ty, ec_reason = (if reason \<noteq> '''' then reason else exit_type_value ty)\<rparr>"

definition stop_hit :: "flt \<Rightarrow> flt option \<Rightarrow> flt option \<Rightarrow> trade \<Rightarrow> bool" where
  "stop_hit current_rate low high t \<longleftrightarrow>
     (t_stop_loss t \<ge> or_val low current_rate \<and> \<not> t_is_short t)
   \<or> (t_stop_loss t \<le> or_val high current_rate \<and> t_is_short t)"

definition liquidation_hit :: "flt \<Rightarrow> flt option \<Rightarrow> flt option \<Rightarrow> trade \<Rightarrow> bool" where
  "liquidation_hit current_rate low high t \<longleftrightarrow>
     truthy (t_liquidation_price t)
   \<and> ((the (t_liquidation_price t) \<ge> or_val low current_rate \<and> \<not> t_is_short t)
      \<or> (the (t_liquidation_price t) \<le> or_val high current_rate \<and> t_is_short t))"

definition stop_exit_type :: "strategy \<Rightarrow> flt \<Rightarrow> flt option \<Rightarrow> flt option \<Rightarrow> trade \<Rightarrow> exit_type" where
  "stop_exit_type S current_rate low high t =
     (if stop_hit current_rate low high t \<and> (\<not> st_stoploss_on_exchange S \<or> st_dry_run S)
      then (if t_is_stop_loss_trailing t then TRAILING_STOP_LOSS else STOP_LOSS)
      else if liquidation_hit current_rate low high t then LIQUIDATION
      else EXIT_NONE)"

definition ft_stoploss_reached ::
    "ccxt \<Rightarrow> strategy \<Rightarrow> datetime \<Rightarrow> flt \<Rightarrow> datetime \<Rightarrow> flt \<Rightarrow> flt \<Rightarrow> flt option \<Rightarrow> flt option \<Rightarrow> flt option
       \<Rightarrow> trade \<Rightarrow> py_error + (exit_check \<times> trade)" where
  "ft_stoploss_reached C S clock current_rate current_time current_profit force_stoploss low high bound_profit t =
     bindE (ft_stoploss_adjust C S clock current_rate current_time current_profit force_stoploss low high
              bound_profit False t)
       (\<lambda>t1. Inr (exit_check_tuple (stop_exit_type S current_rate low high t1) '''', t1))"

section \<open>Return on investment\<close>

definition roi_table_entry :: "(int \<times> flt) list \<Rightarrow> int \<Rightarrow> (int \<times> flt) option" where
  "roi_table_entry minimal_roi trade_dur =
     (let roi_list = filter (\<lambda>x. x \<le> trade_dur) (List.map fst minimal_roi)
      in if roi_list \<noteq> [] then
           (let roi_entry = max_list roi_list in Some (roi_entry, the (map_of minimal_roi roi_entry)))
         else None)"

definition min_roi_reached_entry ::
    "strategy \<Rightarrow> trade \<Rightarrow> int \<Rightarrow> datetime \<Rightarrow> (int \<times> flt) option" where
  "min_roi_reached_entry S t trade_dur current_time =
     (let custom_roi = (if st_use_custom_roi S then cb_custom_roi S t current_time trade_dur else None);
          entry = roi_table_entry (st_minimal_roi S) trade_dur
      in case custom_roi of
           Some c \<Rightarrow> (if entry = None \<or> c < snd (the entry) then Some (trade_dur, c) else entry)
         | None \<Rightarrow> entry)"

definition min_roi_reached :: "strategy \<Rightarrow> trade \<Rightarrow> flt \<Rightarrow> datetime \<Rightarrow> bool" where
  "min_roi_reached S t current_profit current_time =
     (let trade_dur = (current_time - t_open_date t) div minutes_us 1
      in case min_roi_reached_entry S t trade_dur current_time of
           None \<Rightarrow> False | Some (_, roi) \<Rightarrow> current_profit > roi)"

section \<open>Exits\<close>

definition signal_exit ::
    "strategy \<Rightarrow> trade \<Rightarrow> datetime \<Rightarrow> flt \<Rightarrow> flt \<Rightarrow> bool \<Rightarrow> bool \<Rightarrow> exit_type \<times> string" where
  "signal_exit S t current_time current_rate current_profit enter exit_sig =
     (if exit_sig \<and> \<not> enter then (EXIT_SIGNAL, '''')
      else (case cb_custom_exit S t current_time current_rate current_profit of
              No_exit \<Rightarrow> (EXIT_NONE, '''')
            | Exit_true \<Rightarrow> (CUSTOM_EXIT, '''')
            | Exit_reason r \<Rightarrow> if r = '''' then (EXIT_NONE, '''')
                               else (CUSTOM_EXIT, take CUSTOM_TAG_MAX_LENGTH r)))"

definition collect_exits ::
    "strategy \<Rightarrow> exit_type \<times> string \<Rightarrow> flt \<Rightarrow> exit_check \<Rightarrow> bool \<Rightarrow> exit_check list" where
  "collect_exits S sig current_profit stoplossflag roi_reached =
     (if fst sig = CUSTOM_EXIT
         \<or> (fst sig = EXIT_SIGNAL \<and> (\<not> st_exit_profit_only S \<or> current_profit > st_exit_profit_offset S))
      then [exit_check_tuple (fst sig) (snd sig)] else [])
     @ (if ec_type stoplossflag \<in> {STOP_LOSS, LIQUIDATION} then [stoplossflag] else [])
     @ (if roi_reached then [exit_check_tuple ROI ''''] else [])
     @ (if ec_type stoplossflag = TRAILING_STOP_LOSS then [stoplossflag] else [])"

definition should_exit ::
    "ccxt \<Rightarrow> strategy \<Rightarrow> datetime \<Rightarrow> trade \<Rightarrow> flt \<Rightarrow> datetime \<Rightarrow> bool \<Rightarrow> bool \<Rightarrow> flt option \<Rightarrow> flt option \<Rightarrow> flt
       \<Rightarrow> py_error + (exit_check list \<times> trade)" where
  "should_exit C S clock t rate current_time enter exit_sig low high force_stoploss =
     bindE (calc_profit_ratio C clock t (Some rate) None None) (\<lambda>current_profit.
     bindE (if low \<noteq> None \<or> high \<noteq> None
            then calc_profit_ratio C clock t (Some (or_val (if t_is_short t then low else high) rate)) None None
            else Inr current_profit) (\<lambda>current_profit_best.
     bindE (ft_stoploss_reached C S clock rate current_time current_profit force_stoploss low high
              (Some current_profit_best) (adjust_min_max_rates t (or_val high rate) (or_val low rate)))
       (\<lambda>(stoplossflag, t2).
          Inr (collect_exits S
                 (if st_use_exit_signal S
                  then signal_exit S t2 current_time rate current_profit enter exit_sig else (EXIT_NONE, ''''))
                 current_profit stoplossflag
                 (\<not> (enter \<and> st_ignore_roi_if_entry_signal S)
                  \<and> min_roi_reached S t2 current_profit_best current_time),
               t2))))"

section \<open>Timeouts\<close>

definition ft_check_timed_out :: "strategy \<Rightarrow> trade \<Rightarrow> order \<Rightarrow> datetime \<Rightarrow> py_error + bool" where
  "ft_check_timed_out S t ord current_time =
     (let timeout = (if o_ft_order_side ord = entry_side t then st_entry_timeout S else st_exit_timeout S);
          asked = (if o_ft_order_side ord = exit_side t then cb_check_exit_timeout S t ord current_time
                   else cb_check_entry_timeout S t ord current_time)
      in case timeout of
           None \<Rightarrow> Inr asked
         | Some n \<Rightarrow>
             if o_status ord = Some ''open'' then
               bindE (order_date_utc ord)
                 (\<lambda>d. Inr (d \<le> current_time - n * st_timeout_unit_us S \<or> asked))
             else Inr asked)"

section \<open>The stop follows the price in one direction\<close>

lemma stop_below_refl [simp]: "stop_below t t"
  by (simp add: stop_below_def)

lemma stop_below_trans: "stop_below t u \<Longrightarrow> stop_below u v \<Longrightarrow> stop_below t v"
  by (auto simp: stop_below_def)

lemma adjust_stop_below:
  assumes "adjust_stop_loss C price sl initial False t = Inr t'" and "stop_armed t"
  shows "stop_armed t' \<and> stop_below t t'"
  using adjust_stop_loss_armed [OF assms] adjust_stop_loss_level [OF assms]
    adjust_stop_loss_frame(1) [OF assms(1)] by (simp add: stop_below_def)

lemma apply_custom_stop_below:
  assumes "apply_custom_stop C S time rate bp False dir stop0 t = Inr (t', stop1)" and "stop_armed t"
  shows "stop_armed t' \<and> stop_below t t'"
  using assms adjust_stop_below
  by (auto simp: apply_custom_stop_def Let_def bindE_eq_Inr split: if_splits)

lemma apply_trailing_stop_below:
  assumes "apply_trailing_stop C S rate bp dir stop1 t = Inr t'" and "stop_armed t"
  shows "stop_armed t' \<and> stop_below t t'"
  using assms adjust_stop_below
  by (auto simp: apply_trailing_stop_def Let_def split: if_splits)

lemma ft_stoploss_adjust_below:
  assumes "ft_stoploss_adjust C S clock rate time profit force low high bp False t = Inr t'" and "stop_armed t"
  shows "stop_armed t' \<and> stop_below t t'"
proof -
  from assms(1) obtain s0 t1 t2 s1 rate' bp' dir where
    one: "adjust_stop_loss C (t_open_rate t) (Some s0) True False t = Inr t1"
    and two: "apply_custom_stop C S time rate' bp' False dir s0 t1 = Inr (t2, s1)"
    and three: "apply_trailing_stop C S rate' bp' dir s1 t2 = Inr t'"
    by (simp add: ft_stoploss_adjust_def Let_def bindE_eq_Inr) blast
  note one = adjust_stop_below [OF one assms(2)]
  note two = apply_custom_stop_below [OF two conjunct1 [OF one]]
  note three = apply_trailing_stop_below [OF three conjunct1 [OF two]]
  from one two three show ?thesis by (blast intro: stop_below_trans)
qed

text \<open>One look at the market: rate, time, profit, forced stop, low, high and profit at the bound.\<close>

type_synonym look = "flt \<times> datetime \<times> flt \<times> flt \<times> flt option \<times> flt option \<times> flt option"

definition follow_step :: "ccxt \<Rightarrow> strategy \<Rightarrow> datetime \<Rightarrow> look \<Rightarrow> trade \<Rightarrow> py_error + trade" where
  "follow_step C S clock = (\<lambda>(rate, time, profit, force, low, high, bp) t.
     ft_stoploss_adjust C S clock rate time profit force low high bp False t)"

interpretation follow: monotone_steps "follow_step C S clock" stop_armed stop_below for C S clock
proof
  show "stop_below t u \<Longrightarrow> stop_below u v \<Longrightarrow> stop_below t v" for t u v
    by (rule stop_below_trans)
  show "stop_armed t \<Longrightarrow> follow_step C S clock e t = Inr t' \<Longrightarrow> stop_armed t'"
    and "stop_armed t \<Longrightarrow> follow_step C S clock e t = Inr t' \<Longrightarrow> stop_below t t'" for t e t'
    by (cases e; auto simp: follow_step_def dest: ft_stoploss_adjust_below)+
qed simp

text \<open>Property C13: however the market moves and whatever a custom stop function answers, the stop
  of an open trade never moves away from the price. Over any sequence of looks at the market
  (live, or with the low and high of a candle), a long's stop does not fall and a short's does
  not rise.\<close>

theorem strategy_stop_never_loosens:
  assumes "t_initial_stop_loss_pct t \<noteq> None" and "runE (follow_step C S clock) looks t = Inr t'"
  shows "t_is_short t' = t_is_short t
    \<and> (if t_is_short t then t_stop_loss t' \<le> t_stop_loss t else t_stop_loss t \<le> t_stop_loss t')"
proof -
  from assms have "stop_below t t'" by (intro follow.run_below) (simp_all add: stop_armed_def)
  then show ?thesis by (auto simp: stop_below_def stop_level_def)
qed

definition example_strategy :: strategy where
  "example_strategy = \<lparr>st_timeframe = ''5m'', st_minimal_roi = [(0, 1/10), (60, 2/100)], st_stoploss = - 1/10,
     st_trailing_stop = True, st_trailing_stop_positive = None, st_trailing_stop_positive_offset = 0,
     st_trailing_only_offset_is_reached = False, st_use_custom_stoploss = False, st_use_exit_signal = True,
     st_exit_profit_only = False, st_exit_profit_offset = 0, st_ignore_roi_if_entry_signal = False,
     st_use_custom_roi = False, st_ignore_buying_expired_candle_after = 0, st_can_short = False,
     st_stop_uses_after_fill = False, st_stoploss_on_exchange = False, st_dry_run = True,
     st_trading_mode = SPOT, st_outdated_offset = 5, st_entry_timeout = Some 10, st_exit_timeout = None,
     st_timeout_unit_us = 60000000,
     cb_custom_stoploss = (\<lambda>_ _ _ _ _. None), cb_custom_roi = (\<lambda>_ _ _. None),
     cb_custom_exit = (\<lambda>_ _ _ _. No_exit), cb_check_entry_timeout = (\<lambda>_ _ _. False),
     cb_check_exit_timeout = (\<lambda>_ _ _. False)\<rparr>"

lemma example_follow:
  "runE (follow_step ccxt_example example_strategy 0)
     [(110, 0, 1/10, 0, None, None, Some (1/10)), (95, 0, 0, 0, None, None, Some 0)] example_stopped
   = Inr (example_stopped\<lparr>t_stop_loss := 99, t_is_stop_loss_trailing := True\<rparr>)"
  by (simp add: follow_step_def ft_stoploss_adjust_def apply_custom_stop_def apply_trailing_stop_def
      example_strategy_def adjust_stop_loss_def
      example_stopped_def example_trade_def leverage_or_1_def price_to_precision_def Let_def set_stop_loss_def
      round_half_even_of_int [of 2, simplified])

theorem strategy_stop_never_loosens_witness:
  "t_stop_loss example_stopped
     \<le> t_stop_loss (example_stopped\<lparr>t_stop_loss := 99, t_is_stop_loss_trailing := True\<rparr>)
   \<and> t_stop_loss example_stopped = 90"
  using strategy_stop_never_loosens [OF _ example_follow]
  by (simp add: example_stopped_def example_trade_def)

section \<open>Exits\<close>

fun exit_rank :: "exit_type \<Rightarrow> nat" where
  "exit_rank STOP_LOSS = 1"
| "exit_rank LIQUIDATION = 1"
| "exit_rank ROI = 2"
| "exit_rank TRAILING_STOP_LOSS = 3"
| "exit_rank _ = 0"

lemma exit_check_type [simp]: "ec_type (exit_check_tuple ty r) = ty"
  by (simp add: exit_check_tuple_def)

lemma ft_stoploss_reached_flag:
  "ft_stoploss_reached C S clock rate time profit force low high bp t = Inr (flag, t') \<Longrightarrow>
    ec_type flag = stop_exit_type S rate low high t'"
  by (auto simp: ft_stoploss_reached_def bindE_eq_Inr)


lemma example_exits:
  "\<exists>exits t'. should_exit ccxt_example example_strategy 0 example_stopped 80 60000000 False False None None 0
     = Inr (exits, t') \<and> stop_hit 80 None None t'"
  by (simp add: should_exit_def calc_profit_ratio_def calc_close_trade_value_def calc_base_close_def
      trading_mode_or_spot_def ft_stoploss_reached_def ft_stoploss_adjust_def apply_custom_stop_def apply_trailing_stop_def
      example_strategy_def
      adjust_stop_loss_def stop_hit_def stop_exit_type_def example_stopped_def example_trade_def Let_def
      adjust_min_max_rates_def signal_exit_def)


section \<open>Return on investment\<close>

lemma roi_table_entry_Some:
  assumes "roi_table_entry roi dur = Some (k, v)"
  shows "k \<le> dur \<and> map_of roi k = Some v \<and> (\<forall>k' \<in> fst ` set roi. k' \<le> dur \<longrightarrow> k' \<le> k)"
proof -
  let ?ks = "filter (\<lambda>x. x \<le> dur) (List.map fst roi)"
  from assms have ne: "?ks \<noteq> []" and k: "k = max_list ?ks" "v = the (map_of roi k)"
    by (auto simp: roi_table_entry_def Let_def split: if_splits)
  from max_list_in [OF ne] k have "k \<le> dur" "k \<in> fst ` set roi" by auto
  then obtain w where "map_of roi k = Some w" by (metis map_of_eq_None_iff option.exhaust)
  with k(2) have "map_of roi k = Some v" by simp
  moreover have "k' \<le> k" if "k' \<in> fst ` set roi" "k' \<le> dur" for k'
    unfolding k(1) using that by (intro max_list_ge) auto
  ultimately show ?thesis using \<open>k \<le> dur\<close> by blast
qed

lemma roi_table_entry_None: "roi_table_entry roi dur = None \<longleftrightarrow> (\<forall>k \<in> fst ` set roi. dur < k)"
  by (auto simp: roi_table_entry_def Let_def filter_empty_conv not_le)

text \<open>The profit that triggers an exit is the lowest one on offer. The threshold is the
  smaller of the ROI table's value for the greatest duration that has passed and the strategy's
  custom value; there is none exactly when the table has no such row and no custom value is
  given.\<close>

theorem roi_threshold_is_minimum:
  assumes "custom = (if st_use_custom_roi S then cb_custom_roi S t now dur else None)"
  shows "(case min_roi_reached_entry S t dur now of
       None \<Rightarrow> custom = None \<and> (\<forall>k \<in> fst ` set (st_minimal_roi S). dur < k)
     | Some (key, roi) \<Rightarrow>
         key \<le> dur
       \<and> (\<forall>c. custom = Some c \<longrightarrow> roi \<le> c)
       \<and> (\<forall>k v. map_of (st_minimal_roi S) k = Some v \<and> k \<le> dur
            \<and> (\<forall>k' \<in> fst ` set (st_minimal_roi S). k' \<le> dur \<longrightarrow> k' \<le> k) \<longrightarrow> roi \<le> v)
       \<and> (custom = Some roi \<or> map_of (st_minimal_roi S) key = Some roi))"
proof (cases "roi_table_entry (st_minimal_roi S) dur")
  case None
  then have later: "\<forall>k \<in> fst ` set (st_minimal_roi S). dur < k" by (simp add: roi_table_entry_None)
  then have "map_of (st_minimal_roi S) k \<noteq> Some v" if "k \<le> dur" for k v
    using that by (metis image_eqI fst_conv map_of_SomeD not_less)
  with None later show ?thesis
    by (auto simp: min_roi_reached_entry_def Let_def assms split: option.splits)
next
  case (Some e)
  obtain k v where e: "e = (k, v)" by fastforce
  from roi_table_entry_Some [OF Some [unfolded e]]
  have k: "k \<le> dur" "map_of (st_minimal_roi S) k = Some v"
    and top: "\<forall>k' \<in> fst ` set (st_minimal_roi S). k' \<le> dur \<longrightarrow> k' \<le> k" by blast+
  have same: "v' = v" if "map_of (st_minimal_roi S) k' = Some v'" "k' \<le> dur"
    "\<forall>k'' \<in> fst ` set (st_minimal_roi S). k'' \<le> dur \<longrightarrow> k'' \<le> k'" for k' v'
  proof -
    from that(1) k(2) have "k' \<in> fst ` set (st_minimal_roi S)" "k \<in> fst ` set (st_minimal_roi S)"
      by (metis image_eqI fst_conv map_of_SomeD)+
    with top that k have "k' = k" by (meson order_antisym)
    with that k show ?thesis by simp
  qed
  show ?thesis
  proof (cases custom)
    case None
    with Some e k same show ?thesis
      by (auto simp: min_roi_reached_entry_def Let_def assms [symmetric])
  next
    case c: (Some c)
    with Some e k same show ?thesis
      by (auto simp: min_roi_reached_entry_def Let_def assms [symmetric])
  qed
qed

theorem roi_threshold_is_minimum_witness:
  "min_roi_reached_entry (example_strategy\<lparr>st_use_custom_roi := True, cb_custom_roi := (\<lambda>_ _ _. Some (5/100))\<rparr>)
      example_trade 30 0 = Some (30, 5/100)
   \<and> (case min_roi_reached_entry (example_strategy\<lparr>st_use_custom_roi := True, cb_custom_roi := (\<lambda>_ _ _. Some (5/100))\<rparr>)
        example_trade 30 0 of None \<Rightarrow> False | Some (key, roi) \<Rightarrow> roi \<le> 5/100)"
proof -
  let ?S = "example_strategy\<lparr>st_use_custom_roi := True, cb_custom_roi := (\<lambda>_ _ _. Some (5/100))\<rparr>"
  have r: "min_roi_reached_entry ?S example_trade 30 0 = Some (30, 5/100)"
    by (simp add: min_roi_reached_entry_def roi_table_entry_def example_strategy_def max_list_def Let_def)
  from roi_threshold_is_minimum [where S = ?S and t = example_trade and now = 0 and dur = 30, OF refl] r
  show ?thesis by simp
qed

section \<open>Entry signals\<close>

text \<open>Entry signals are unambiguous. A long signal needs the long entry column, without
  a long exit and without a short entry in the same candle; a short signal needs, besides the
  mirror condition, a strategy that can short and an account that is not a spot account. A spot
  account never gets a short signal.\<close>

theorem entry_signal_sound:
  "(case get_entry_signal C S now dataframe of
      (Some LONG, _) \<Rightarrow> \<exists>c \<in> set dataframe. cd_enter_long c \<and> \<not> cd_exit_long c \<and> \<not> cd_enter_short c
    | (Some SHORT, _) \<Rightarrow> st_trading_mode S \<noteq> SPOT \<and> st_can_short S
        \<and> (\<exists>c \<in> set dataframe. cd_enter_short c \<and> \<not> cd_exit_short c \<and> \<not> cd_enter_long c)
    | (None, _) \<Rightarrow> True)"
proof (cases "get_latest_candle C S now dataframe")
  case None
  then show ?thesis by (simp add: get_entry_signal_def)
next
  case (Some r)
  obtain c d where r: "r = (c, d)" by fastforce
  from Some r have ne: "dataframe \<noteq> []" and c: "c = last (filter (\<lambda>x. cd_date x = max_list (List.map cd_date dataframe)) dataframe)"
    by (auto simp: get_latest_candle_def Let_def split: if_splits)
  from ne have "max_list (List.map cd_date dataframe) \<in> set (List.map cd_date dataframe)"
    by (intro max_list_in) simp
  then have "filter (\<lambda>x. cd_date x = max_list (List.map cd_date dataframe)) dataframe \<noteq> []"
    by (auto simp: filter_empty_conv)
  from last_in_set [OF this] c have "c \<in> set dataframe" by auto
  with Some r show ?thesis
    by (auto simp: get_entry_signal_def Let_def)
qed

end
