(* ===== verification/Islamic.thy ===== *)
theory Islamic
  imports Prelude
begin

text \<open>
  The compliance guards (freqtrade/islamic and plugins/pairlist/IslamicComplianceFilter.py): the
  checks of the configuration when the worker starts, the guard of exchange operations, the
  screening of pairs by name, and the gate every entry order passes. Strings are ASCII, as names of
  pairs are; the reasons are values, whose texts the code prints.
\<close>

section \<open>Configuration\<close>

datatype open_trades_limit = Finite flt | Unlimited_inf

record api_config =
  api_enabled :: bool
  api_listen_ip :: "string option"
  api_jwt_secret :: "string option"
  api_username :: "string option"
  api_password :: "string option"

record bot_config =
  bc_trading_mode :: "string option"
  bc_margin_mode :: "string option"
  bc_spot_only_enforced :: bool
  bc_max_open_trades :: "open_trades_limit option"
  bc_dry_run :: "bool option"
  bc_exchange_key :: "string option"
  bc_exchange_secret :: "string option"
  bc_api :: api_config

definition str_true :: "string option \<Rightarrow> bool" where
  "str_true s = (case s of None \<Rightarrow> False | Some x \<Rightarrow> x \<noteq> [])"

text \<open>\<open>TradingMode(s)\<close> raises \<open>ValueError\<close> for a string that is none of the values.\<close>

definition assert_spot_config :: "bot_config \<Rightarrow> py_error + unit" where
  "assert_spot_config cfg =
     (let trading_mode = (case bc_trading_mode cfg of None \<Rightarrow> ''spot'' | Some m \<Rightarrow> m)
      in if trading_mode \<notin> {''spot'', ''margin'', ''futures''} then Inl ValueError
         else if trading_mode \<noteq> ''spot'' then Inl ConfigurationError
         else if str_true (bc_margin_mode cfg) then Inl ConfigurationError
         else Inr ())"

definition enforce_spot_only :: "bot_config \<Rightarrow> py_error + bot_config" where
  "enforce_spot_only cfg =
     bindE (assert_spot_config cfg) (\<lambda>_. Inr (cfg\<lparr>bc_spot_only_enforced := True\<rparr>))"

definition spot_only_enforced :: "bot_config \<Rightarrow> bool" where
  "spot_only_enforced cfg = bc_spot_only_enforced cfg"

definition assert_spot_operation :: "bot_config \<Rightarrow> py_error + unit" where
  "assert_spot_operation cfg = (if spot_only_enforced cfg then Inl OperationalException else Inr ())"

definition validate_risk_config :: "bot_config \<Rightarrow> py_error + unit" where
  "validate_risk_config cfg =
     (case bc_max_open_trades cfg of
        None \<Rightarrow> Inl ConfigurationError
      | Some Unlimited_inf \<Rightarrow> Inl ConfigurationError
      | Some (Finite n) \<Rightarrow> if n = -1 \<or> n \<le> 0 then Inl ConfigurationError else Inr ())"

definition LOCAL_ADDRESSES :: "string list" where
  "LOCAL_ADDRESSES = [''127.0.0.1'', ''localhost'', ''::1'']"

definition MIN_JWT_SECRET_LEN :: nat where
  "MIN_JWT_SECRET_LEN = 16"

definition WEAK_PASSWORDS :: "string list" where
  "WEAK_PASSWORDS = ['''', ''password'', ''admin'', ''changeme'', ''freqtrader'', ''1234'']"

definition str_or_empty :: "string option \<Rightarrow> string" where
  "str_or_empty s = (case s of None \<Rightarrow> '''' | Some x \<Rightarrow> x)"

definition validate_api :: "api_config \<Rightarrow> py_error + unit" where
  "validate_api api =
     (if api_enabled api then
        (let listen_ip = (case api_listen_ip api of None \<Rightarrow> ''127.0.0.1'' | Some i \<Rightarrow> i)
         in if listen_ip \<notin> set LOCAL_ADDRESSES then
              (if length (str_or_empty (api_jwt_secret api)) < MIN_JWT_SECRET_LEN then Inl ConfigurationError
               else if \<not> str_true (api_username api)
                    \<or> str_or_empty (api_password api) \<in> set WEAK_PASSWORDS then Inl ConfigurationError
               else Inr ())
            else Inr ())
      else Inr ())"

definition validate_security_config :: "bot_config \<Rightarrow> py_error + unit" where
  "validate_security_config cfg =
     (if bc_dry_run cfg = Some False
         \<and> (\<not> str_true (bc_exchange_key cfg) \<or> \<not> str_true (bc_exchange_secret cfg))
      then Inl ConfigurationError
      else validate_api (bc_api cfg))"

text \<open>What the worker does with the configuration before it builds the bot.\<close>

definition worker_init_guards :: "bot_config \<Rightarrow> py_error + bot_config" where
  "worker_init_guards cfg =
     bindE (enforce_spot_only cfg) (\<lambda>cfg1.
     bindE (validate_risk_config cfg1) (\<lambda>_.
     bindE (validate_security_config cfg1) (\<lambda>_. Inr cfg1)))"

section \<open>Screening\<close>

datatype rejection =
    Short_selling
  | Leverage_forbidden flt
  | Compliance_blacklist
  | Leveraged_suffix string
  | Leveraged_multiplier string char

definition py_space :: "char \<Rightarrow> bool" where
  "py_space c = (let n = (of_char c :: nat) in n = 32 \<or> (9 \<le> n \<and> n \<le> 13) \<or> (28 \<le> n \<and> n \<le> 31))"

definition py_strip :: "string \<Rightarrow> string" where
  "py_strip s = rev (dropWhile py_space (rev (dropWhile py_space s)))"

definition base_currency :: "string \<Rightarrow> string" where
  "base_currency pair = str_upper (py_strip (hd (split_on CHR ''/'' pair)))"

definition DEFAULT_LEVERAGED_SUFFIXES :: "string list" where
  "DEFAULT_LEVERAGED_SUFFIXES = [''UP'', ''DOWN'', ''BULL'', ''BEAR'']"

definition DEFAULT_MIN_UNDERLYING_LEN :: nat where
  "DEFAULT_MIN_UNDERLYING_LEN = 2"

definition ascii_digit :: "char \<Rightarrow> bool" where
  "ascii_digit c = (let n = (of_char c :: nat) in 48 \<le> n \<and> n \<le> 57)"

definition ascii_upper :: "char \<Rightarrow> bool" where
  "ascii_upper c = (let n = (of_char c :: nat) in 65 \<le> n \<and> n \<le> 90)"

text \<open>
  The regular expression of multiplier tokens: the underlying is matched lazily, so the shortest
  prefix that leaves only digits before the direction is taken.
\<close>

definition multiplier_match :: "string \<Rightarrow> (string \<times> string \<times> char) option" where
  "multiplier_match base =
     (if base = [] \<or> last base \<notin> {CHR ''L'', CHR ''S''} then None
      else
        (let body = butlast base
         in map_option (\<lambda>k. (take k body, drop k body, last base))
              (find (\<lambda>k. list_all (\<lambda>c. ascii_upper c \<or> ascii_digit c) (take k body)
                         \<and> list_all ascii_digit (drop k body))
                 [1..<length body])))"

definition endswith :: "string \<Rightarrow> string \<Rightarrow> bool" where
  "endswith s suffix \<longleftrightarrow> length suffix \<le> length s \<and> drop (length s - length suffix) s = suffix"

definition leveraged_token_reason :: "string \<Rightarrow> string list \<Rightarrow> nat \<Rightarrow> rejection option" where
  "leveraged_token_reason base suffixes min_underlying_len =
     (case find (\<lambda>suffix. endswith base suffix \<and> length base - length suffix \<ge> min_underlying_len) suffixes of
        Some suffix \<Rightarrow> Some (Leveraged_suffix suffix)
      | None \<Rightarrow>
          (case multiplier_match base of
             Some (underlying, mult, dir) \<Rightarrow>
               if length underlying \<ge> min_underlying_len then Some (Leveraged_multiplier mult dir) else None
           | None \<Rightarrow> None))"

definition screen_pair ::
    "string \<Rightarrow> string list \<Rightarrow> string list \<Rightarrow> string list \<Rightarrow> nat \<Rightarrow> rejection option" where
  "screen_pair pair blacklist allowlist suffixes min_underlying_len =
     (let pair_u = str_upper (py_strip pair); base = base_currency pair
      in if pair_u \<in> set allowlist \<or> base \<in> set allowlist then None
         else if pair_u \<in> set blacklist \<or> base \<in> set blacklist then Some Compliance_blacklist
         else leveraged_token_reason base suffixes min_underlying_len)"

section \<open>The order gate and the pair list filter\<close>

definition LEVERAGE_EPSILON :: flt where
  "LEVERAGE_EPSILON = 1 / 10 ^ 9"

definition order_compliance_reason :: "string \<Rightarrow> bool \<Rightarrow> flt \<Rightarrow> rejection option" where
  "order_compliance_reason pair is_short leverage =
     (if is_short then Some Short_selling
      else if \<bar>leverage - 1\<bar> > LEVERAGE_EPSILON then Some (Leverage_forbidden leverage)
      else screen_pair pair [] [] DEFAULT_LEVERAGED_SUFFIXES DEFAULT_MIN_UNDERLYING_LEN)"

text \<open>The gate in \<open>execute_entry\<close>: active when enforcement is armed.\<close>

definition execute_entry_gate :: "bot_config \<Rightarrow> string \<Rightarrow> bool \<Rightarrow> flt \<Rightarrow> bool" where
  "execute_entry_gate cfg pair is_short leverage =
     (if spot_only_enforced cfg then order_compliance_reason pair is_short leverage = None else True)"

record compliance_filter =
  cf_blacklist :: "string list"
  cf_allowlist :: "string list"
  cf_suffixes :: "string list"
  cf_audit_mode :: bool

definition compliance_filter_init ::
    "string list \<Rightarrow> string list \<Rightarrow> string list option \<Rightarrow> bool \<Rightarrow> compliance_filter" where
  "compliance_filter_init blacklist allowlist suffixes audit_mode =
     (let norm = (\<lambda>s. str_upper (py_strip s))
      in \<lparr>cf_blacklist = List.map norm blacklist, cf_allowlist = List.map norm allowlist,
          cf_suffixes = (case suffixes of
             Some (s # ss) \<Rightarrow> List.map norm (s # ss) | _ \<Rightarrow> DEFAULT_LEVERAGED_SUFFIXES),
          cf_audit_mode = audit_mode\<rparr>)"

definition validate_pair :: "compliance_filter \<Rightarrow> string \<Rightarrow> bool" where
  "validate_pair F pair =
     (screen_pair pair (cf_blacklist F) (cf_allowlist F) (cf_suffixes F) DEFAULT_MIN_UNDERLYING_LEN = None
      \<or> cf_audit_mode F)"

section \<open>What starts is compliant\<close>

text \<open>Property C33: a bot that starts is a spot bot. When the worker's guards let a configuration
  pass, it trades spot without a margin mode, its number of open trades is a finite positive
  number, live trading has credentials, and an API server reachable from outside has a secret of
  16 characters and no weak password; enforcement is armed, so every guarded leverage or margin
  operation raises.\<close>

theorem worker_starts_compliant:
  assumes "worker_init_guards cfg = Inr cfg'"
  shows "cfg' = cfg\<lparr>bc_spot_only_enforced := True\<rparr>
    \<and> bc_trading_mode cfg \<in> {None, Some ''spot''} \<and> bc_margin_mode cfg \<in> {None, Some ''''}
    \<and> (\<exists>n > 0. bc_max_open_trades cfg = Some (Finite n))
    \<and> (bc_dry_run cfg = Some False \<longrightarrow> str_true (bc_exchange_key cfg) \<and> str_true (bc_exchange_secret cfg))
    \<and> (api_enabled (bc_api cfg) \<and> str_or_empty (api_listen_ip (bc_api cfg)) \<notin> set ('''' # LOCAL_ADDRESSES)
         \<longrightarrow> MIN_JWT_SECRET_LEN \<le> length (str_or_empty (api_jwt_secret (bc_api cfg)))
           \<and> str_or_empty (api_password (bc_api cfg)) \<notin> set WEAK_PASSWORDS)
    \<and> assert_spot_operation cfg' = Inl OperationalException"
proof -
  from assms have parts: "assert_spot_config cfg = Inr ()"
    "cfg' = cfg\<lparr>bc_spot_only_enforced := True\<rparr>"
    "validate_risk_config cfg' = Inr ()" "validate_security_config cfg' = Inr ()"
    by (auto simp: worker_init_guards_def enforce_spot_only_def bindE_eq_Inr)
  from parts(1) have "bc_trading_mode cfg \<in> {None, Some ''spot''}" "bc_margin_mode cfg \<in> {None, Some ''''}"
    by (auto simp: assert_spot_config_def str_true_def Let_def split: option.splits if_splits)
  moreover from parts(2,3) have "\<exists>n > 0. bc_max_open_trades cfg = Some (Finite n)"
    by (auto simp: validate_risk_config_def not_le split: option.splits open_trades_limit.splits if_splits)
  moreover from parts(2,4) have creds: "bc_dry_run cfg = Some False \<longrightarrow>
      str_true (bc_exchange_key cfg) \<and> str_true (bc_exchange_secret cfg)"
    and api: "validate_api (bc_api cfg) = Inr ()"
    by (auto simp: validate_security_config_def split: if_splits)
  moreover from api have "api_enabled (bc_api cfg)
      \<and> str_or_empty (api_listen_ip (bc_api cfg)) \<notin> set ('''' # LOCAL_ADDRESSES)
      \<longrightarrow> MIN_JWT_SECRET_LEN \<le> length (str_or_empty (api_jwt_secret (bc_api cfg)))
        \<and> str_or_empty (api_password (bc_api cfg)) \<notin> set WEAK_PASSWORDS"
    by (cases "api_listen_ip (bc_api cfg)")
      (auto simp: validate_api_def str_or_empty_def Let_def split: if_splits)
  moreover from parts(2) have "assert_spot_operation cfg' = Inl OperationalException"
    by (simp add: assert_spot_operation_def spot_only_enforced_def)
  ultimately show ?thesis using parts(2) by blast
qed

definition example_bot :: bot_config where
  "example_bot = \<lparr>bc_trading_mode = Some ''spot'', bc_margin_mode = None, bc_spot_only_enforced = False,
     bc_max_open_trades = Some (Finite 3), bc_dry_run = Some True, bc_exchange_key = None,
     bc_exchange_secret = None,
     bc_api = \<lparr>api_enabled = False, api_listen_ip = None, api_jwt_secret = None, api_username = None,
                api_password = None\<rparr>\<rparr>"

theorem worker_starts_compliant_witness:
  "\<exists>cfg'. worker_init_guards example_bot = Inr cfg' \<and> assert_spot_operation cfg' = Inl OperationalException"
proof -
  obtain cfg' where c: "worker_init_guards example_bot = Inr cfg'"
    by (simp add: worker_init_guards_def enforce_spot_only_def assert_spot_config_def example_bot_def
        validate_risk_config_def validate_security_config_def validate_api_def str_true_def)
  from worker_starts_compliant [OF c] c show ?thesis by blast
qed

section \<open>Leveraged tokens\<close>

lemma endswith_append: "endswith (u @ s) s"
  by (simp add: endswith_def)

lemma suffix_token_flagged:
  assumes "s \<in> set suffixes" and "min_len \<le> length u"
  shows "\<exists>x. leveraged_token_reason (u @ s) suffixes min_len = Some (Leveraged_suffix x)"
proof (cases "find (\<lambda>x. endswith (u @ s) x \<and> length (u @ s) - length x \<ge> min_len) suffixes")
  case None
  with assms endswith_append [of u s] show ?thesis by (auto simp: find_None_iff)
qed (auto simp: leveraged_token_reason_def)

lemma multiplier_token_match:
  assumes "list_all (\<lambda>c. ascii_upper c \<or> ascii_digit c) u" and "u \<noteq> []" and "\<not> ascii_digit (last u)"
    and "list_all ascii_digit m" and "m \<noteq> []" and "d \<in> {CHR ''L'', CHR ''S''}"
  shows "multiplier_match (u @ m @ [d]) = Some (u, m, d)"
proof -
  let ?ok = "\<lambda>k. list_all (\<lambda>c. ascii_upper c \<or> ascii_digit c) (take k (u @ m))
     \<and> list_all ascii_digit (drop k (u @ m))"
  have early: "\<not> ?ok k" if "k < length u" for k
  proof -
    from that have "last u \<in> set (drop k u)"
      by (metis drop_eq_Nil last_drop last_in_set not_less)
    with assms(3) that show ?thesis by (auto simp: list_all_iff)
  qed
  from assms(2,5) have lu: "0 < length u" and lm: "0 < length m" by simp_all
  have nth: "[1..<length (u @ m)] ! j = Suc j" if "Suc j < length u + length m" for j
    using that by simp
  let ?xs = "[1..<length (u @ m)]"
  have len: "length u - 1 < length ?xs"
    unfolding length_upt length_append using lu lm by linarith
  have at: "?xs ! (length u - 1) = length u"
    using nth [of "length u - 1"] lu lm by simp
  have hit: "?ok (?xs ! (length u - 1))" unfolding at using assms(1,4) by simp
  have miss: "\<forall>j < length u - 1. \<not> ?ok (?xs ! j)"
  proof (intro allI impI)
    fix j assume j: "j < length u - 1"
    then have "?xs ! j = Suc j" using lm by (intro nth) simp
    then show "\<not> ?ok (?xs ! j)" using early [of "Suc j"] j by simp
  qed
  have "find ?ok ?xs = Some (length u)"
    unfolding find_Some_iff using len at [symmetric] hit miss by (intro exI [of _ "length u - 1"]) blast
  with assms(6) show ?thesis by (simp add: multiplier_match_def Let_def butlast_append)
qed

text \<open>
  What the gate is for: a leveraged token is an underlying of two or more characters followed by UP,
  DOWN, BULL or BEAR, or one followed by a number and L or S, in whatever case the pair is written.
\<close>

definition leveraged_token_name :: "string \<Rightarrow> bool" where
  "leveraged_token_name base \<longleftrightarrow>
     (\<exists>u s. base = u @ s \<and> 2 \<le> length u \<and> s \<in> {''UP'', ''DOWN'', ''BULL'', ''BEAR''})
   \<or> (\<exists>u m d. base = u @ m @ [d] \<and> 2 \<le> length u \<and> list_all (\<lambda>c. ascii_upper c \<or> ascii_digit c) u
        \<and> \<not> ascii_digit (last u) \<and> m \<noteq> [] \<and> list_all ascii_digit m \<and> d \<in> {CHR ''L'', CHR ''S''})"

lemma screened_name:
  assumes "leveraged_token_reason base DEFAULT_LEVERAGED_SUFFIXES 2 = None"
  shows "\<not> leveraged_token_name base"
proof -
  have "s \<notin> {''UP'', ''DOWN'', ''BULL'', ''BEAR''}" if "base = u @ s" "2 \<le> length u" for u s
    using suffix_token_flagged [of s DEFAULT_LEVERAGED_SUFFIXES 2 u] that assms
    by (auto simp: DEFAULT_LEVERAGED_SUFFIXES_def)
  moreover have "d \<notin> {CHR ''L'', CHR ''S''}"
    if "base = u @ m @ [d]" "2 \<le> length u" "list_all (\<lambda>c. ascii_upper c \<or> ascii_digit c) u"
      "\<not> ascii_digit (last u)" "m \<noteq> []" "list_all ascii_digit m" for u m d
  proof
    assume "d \<in> {CHR ''L'', CHR ''S''}"
    moreover from that(2) have "u \<noteq> []" by auto
    ultimately have "multiplier_match base = Some (u, m, d)"
      using multiplier_token_match [of u m d] that(1,3-6) by simp
    with assms that(2) show False by (simp add: leveraged_token_reason_def split: option.splits)
  qed
  ultimately show ?thesis unfolding leveraged_token_name_def by blast
qed

lemma compliant_order:
  assumes "order_compliance_reason pair is_short leverage = None"
  shows "\<not> is_short" and "\<bar>leverage - 1\<bar> \<le> 1 / 10 ^ 9" and "\<not> leveraged_token_name (base_currency pair)"
  using assms screened_name
  by (auto simp: order_compliance_reason_def LEVERAGE_EPSILON_def screen_pair_def Let_def
      DEFAULT_MIN_UNDERLYING_LEN_def not_less split: if_splits)

text \<open>The order gate knows no blacklist. Its documentation promises that a blacklisted
  pair is refused, but it calls the screening without lists: whatever a pair list filter forbids,
  the gate lets the pair pass unless its name is that of a leveraged token.\<close>

theorem gate_ignores_lists:
  assumes "leveraged_token_reason (base_currency pair) (cf_suffixes F) 2 = None"
    and "cf_suffixes F = DEFAULT_LEVERAGED_SUFFIXES"
    and "base_currency pair \<in> set (cf_blacklist F)" and "base_currency pair \<notin> set (cf_allowlist F)"
    and "str_upper (py_strip pair) \<notin> set (cf_allowlist F)" and "\<not> cf_audit_mode F"
  shows "\<not> validate_pair F pair \<and> order_compliance_reason pair False 1 = None"
  using assms
  by (simp add: validate_pair_def screen_pair_def order_compliance_reason_def LEVERAGE_EPSILON_def
      DEFAULT_MIN_UNDERLYING_LEN_def Let_def)

theorem gate_ignores_lists_witness:
  "\<not> validate_pair (compliance_filter_init [''doge''] [] None False) ''DOGE/USDT''
   \<and> order_compliance_reason ''DOGE/USDT'' False 1 = None"
  by (rule gate_ignores_lists; code_simp)

end
