(* ===== verification/Ql_Risk.thy ===== *)
theory Ql_Risk
  imports Prelude
begin

text \<open>
  Risk rules of quantlab (quantlab/risk/engine.py), shared by the paper and the live engine. A
  violation is its rule; the detail text is left out. Times in quantlab are seconds.
\<close>

record risk_limits =
  max_position_usdt :: flt
  max_daily_loss_pct :: flt
  max_drawdown_pct :: flt
  max_simultaneous_positions :: int
  max_trade_risk_pct :: flt
  max_orders_per_hour :: int

definition default_limits :: risk_limits where
  "default_limits = \<lparr>max_position_usdt = 100, max_daily_loss_pct = 5, max_drawdown_pct = 20,
     max_simultaneous_positions = 1, max_trade_risk_pct = 5, max_orders_per_hour = 6\<rparr>"

text \<open>\<open>RiskLimits.from_dict\<close>: given values replace the defaults, \<open>int\<close> truncates towards 0.\<close>

definition to_int :: "flt \<Rightarrow> int" where
  "to_int x = (if x < 0 then \<lceil>x\<rceil> else \<lfloor>x\<rfloor>)"

definition limits_from_dict :: "(string \<Rightarrow> flt option) \<Rightarrow> risk_limits" where
  "limits_from_dict d =
     (let get = (\<lambda>key v. case d key of None \<Rightarrow> v | Some x \<Rightarrow> x);
          geti = (\<lambda>key v. case d key of None \<Rightarrow> v | Some x \<Rightarrow> to_int x);
          D = default_limits
      in \<lparr>max_position_usdt = get ''max_position_usdt'' (max_position_usdt D),
          max_daily_loss_pct = get ''max_daily_loss_pct'' (max_daily_loss_pct D),
          max_drawdown_pct = get ''max_drawdown_pct'' (max_drawdown_pct D),
          max_simultaneous_positions =
            geti ''max_simultaneous_positions'' (max_simultaneous_positions D),
          max_trade_risk_pct = get ''max_trade_risk_pct'' (max_trade_risk_pct D),
          max_orders_per_hour = geti ''max_orders_per_hour'' (max_orders_per_hour D)\<rparr>)"

datatype violation =
    Max_drawdown | Daily_loss
  | Duplicate_order | Max_position | Insufficient_balance | Min_order | Max_positions
  | Order_frequency | Trade_risk | No_stoploss

definition portfolio_breaches :: "risk_limits \<Rightarrow> flt \<Rightarrow> flt \<Rightarrow> flt \<Rightarrow> violation list" where
  "portfolio_breaches limits equity peak day_start_equity =
     (if peak > 0 \<and> (1 - equity / peak) * 100 \<ge> max_drawdown_pct limits then [Max_drawdown] else [])
   @ (if day_start_equity > 0 \<and> (1 - equity / day_start_equity) * 100 \<ge> max_daily_loss_pct limits
      then [Daily_loss] else [])"

record entry_request =
  er_quote :: flt
  er_equity :: flt
  er_free_usdt :: flt
  er_open_positions :: int
  er_orders_last_hour :: int
  er_min_notional :: flt
  er_stoploss_pct :: flt
  er_duplicate :: bool

definition risk_eps :: flt where
  "risk_eps = 1 / 10 ^ 9"

definition entry_violations :: "risk_limits \<Rightarrow> entry_request \<Rightarrow> violation list" where
  "entry_violations limits r =
     (if er_duplicate r then [Duplicate_order] else [])
   @ (if er_quote r > max_position_usdt limits + risk_eps then [Max_position] else [])
   @ (if er_quote r > er_free_usdt r + risk_eps then [Insufficient_balance] else [])
   @ (if er_quote r < er_min_notional r then [Min_order] else [])
   @ (if er_open_positions r \<ge> max_simultaneous_positions limits then [Max_positions] else [])
   @ (if er_orders_last_hour r \<ge> max_orders_per_hour limits then [Order_frequency] else [])
   @ (if er_equity r > 0 \<and> er_stoploss_pct r > 0
         \<and> er_quote r * er_stoploss_pct r / er_equity r * 100 > max_trade_risk_pct limits
      then [Trade_risk] else [])
   @ (if er_stoploss_pct r \<le> 0 then [No_stoploss] else [])"

text \<open>No violation means that every limit holds.\<close>

lemma entry_violations_Nil:
  "entry_violations limits r = [] \<longleftrightarrow>
     \<not> er_duplicate r \<and> er_quote r \<le> max_position_usdt limits + risk_eps
   \<and> er_quote r \<le> er_free_usdt r + risk_eps \<and> er_min_notional r \<le> er_quote r
   \<and> er_open_positions r < max_simultaneous_positions limits
   \<and> er_orders_last_hour r < max_orders_per_hour limits \<and> 0 < er_stoploss_pct r
   \<and> (0 < er_equity r \<longrightarrow> er_quote r * er_stoploss_pct r / er_equity r * 100 \<le> max_trade_risk_pct limits)"
  by (auto simp: entry_violations_def not_le not_less)

lemma portfolio_breaches_Nil:
  assumes "portfolio_breaches limits equity peak day_start = []"
  shows "0 < peak \<Longrightarrow> (100 - max_drawdown_pct limits) / 100 * peak < equity"
    and "0 < day_start \<Longrightarrow> (100 - max_daily_loss_pct limits) / 100 * day_start < equity"
proof -
  have conv: "(100 - m) / 100 * p < e" if "0 < p" "\<not> (1 - e / p) * 100 \<ge> m" for m p e :: flt
  proof -
    from that(2) have "(100 - m) / 100 < e / p" by (simp add: field_simps)
    with that(1) show ?thesis by (simp add: pos_less_divide_eq mult.commute)
  qed
  show "0 < peak \<Longrightarrow> (100 - max_drawdown_pct limits) / 100 * peak < equity"
    and "0 < day_start \<Longrightarrow> (100 - max_daily_loss_pct limits) / 100 * day_start < equity"
    using assms conv by (auto simp: portfolio_breaches_def split: if_splits)
qed

text \<open>An accepted entry risks a bounded share of the account. When the pre-trade checks
  find no violation, the loss at the stop is at most \<open>max_trade_risk_pct\<close> percent of the equity,
  the order is no larger than the position limit and the free balance (up to the tolerance), and
  one more position and one more order stay within their limits.\<close>

theorem accepted_entry_bounded:
  assumes "entry_violations limits r = []" and "0 < er_equity r"
  shows "er_quote r * er_stoploss_pct r \<le> max_trade_risk_pct limits / 100 * er_equity r
    \<and> er_quote r \<le> min (max_position_usdt limits) (er_free_usdt r) + risk_eps
    \<and> er_open_positions r + 1 \<le> max_simultaneous_positions limits
    \<and> er_orders_last_hour r + 1 \<le> max_orders_per_hour limits"
proof -
  from assms have ratio: "er_quote r * er_stoploss_pct r / er_equity r * 100 \<le> max_trade_risk_pct limits"
    by (simp add: entry_violations_Nil)
  then have "er_quote r * er_stoploss_pct r / er_equity r \<le> max_trade_risk_pct limits / 100"
    by (simp add: pos_le_divide_eq)
  with assms(2) have "er_quote r * er_stoploss_pct r \<le> max_trade_risk_pct limits / 100 * er_equity r"
    by (simp add: pos_divide_le_eq)
  with assms(1) show ?thesis by (auto simp: entry_violations_Nil)
qed

theorem accepted_entry_bounded_witness:
  "40 * (3/100) \<le> 5 / 100 * (100::flt)"
proof -
  let ?r = "\<lparr>er_quote = 40, er_equity = 100, er_free_usdt = 100, er_open_positions = 0,
    er_orders_last_hour = 0, er_min_notional = 5, er_stoploss_pct = 3/100, er_duplicate = False\<rparr>"
  have "entry_violations default_limits ?r = []"
    by (simp add: entry_violations_def default_limits_def risk_eps_def)
  from accepted_entry_bounded [OF this] show ?thesis by (simp add: default_limits_def)
qed

end
