(* ===== verification/Ql_Sim.thy ===== *)
theory Ql_Sim
  imports Prelude
begin

text \<open>
  The candle-by-candle simulation of quantlab (quantlab/backtest/core.py), shared by the backtester
  and the paper engine. A rejected order is kept as its time and cost.
\<close>

section \<open>State\<close>

record filters =
  min_notional :: flt
  step_size :: flt
  min_qty :: flt

definition round_qty :: "filters \<Rightarrow> flt \<Rightarrow> flt" where
  "round_qty F qty =
     (if step_size F > 0 then of_int \<lfloor>qty / step_size F + 1 / 10 ^ 9\<rfloor> * step_size F else qty)"

record exec_config =
  fee :: flt
  slippage :: flt
  stake_pct :: flt
  stoploss_pct :: flt
  takeprofit_pct :: flt
  cfg_filters :: filters

record position =
  entry_ts :: int
  entry_price :: flt
  p_qty :: flt
  entry_fee :: flt
  p_signal_ts :: int

datatype side = Buy | Sell

datatype fill_reason = Signal | Stoploss | Takeprofit | Manual_stop

record fill =
  f_side :: side
  f_ts :: int
  f_price :: flt
  f_qty :: flt
  f_fee :: flt
  f_reason :: fill_reason
  f_signal_ts :: int
  f_pnl :: flt
  f_pnl_pct :: flt

datatype pending = Enter | Exit

record sim_state =
  usdt :: flt
  s_position :: "position option"
  s_pending :: "pending option"
  pending_ts :: int
  pending_stake :: "flt option"
  rejected :: "(int \<times> flt) list"

definition new_state :: "flt \<Rightarrow> sim_state" where
  "new_state initial = \<lparr>usdt = initial, s_position = None, s_pending = None, pending_ts = 0,
     pending_stake = None, rejected = []\<rparr>"

definition equity :: "sim_state \<Rightarrow> flt \<Rightarrow> flt" where
  "equity s price = usdt s + (case s_position s of None \<Rightarrow> 0 | Some p \<Rightarrow> p_qty p * price)"

section \<open>Orders\<close>

definition sim_buy ::
    "exec_config \<Rightarrow> int \<Rightarrow> flt \<Rightarrow> int \<Rightarrow> sim_state \<Rightarrow> sim_state \<times> fill option" where
  "sim_buy cfg ts open_price signal_ts s =
     (let price = open_price * (1 + slippage cfg);
          stake = (case pending_stake s of Some x \<Rightarrow> x | None \<Rightarrow> stake_pct cfg);
          quote = min (equity s open_price * stake) (usdt s);
          qty = round_qty (cfg_filters cfg) (quote / (price * (1 + fee cfg)));
          cost = qty * price
      in if qty \<le> 0 \<or> qty < min_qty (cfg_filters cfg) \<or> cost < min_notional (cfg_filters cfg)
         then (s\<lparr>rejected := rejected s @ [(ts, cost)]\<rparr>, None)
         else
           (let fe = cost * fee cfg
            in (s\<lparr>usdt := usdt s - (cost + fe),
                  s_position := Some \<lparr>entry_ts = ts, entry_price = price, p_qty = qty, entry_fee = fe,
                                      p_signal_ts = signal_ts\<rparr>\<rparr>,
                Some \<lparr>f_side = Buy, f_ts = ts, f_price = price, f_qty = qty, f_fee = fe,
                      f_reason = Signal, f_signal_ts = signal_ts, f_pnl = 0, f_pnl_pct = 0\<rparr>)))"

text \<open>Prices are positive, so \<open>price * (1 + fee)\<close> is not 0 and the division does not raise.\<close>

definition basis :: "position \<Rightarrow> flt" where
  "basis pos = p_qty pos * entry_price pos + entry_fee pos"

definition sim_sell ::
    "exec_config \<Rightarrow> int \<Rightarrow> flt \<Rightarrow> fill_reason \<Rightarrow> position \<Rightarrow> sim_state \<Rightarrow> sim_state \<times> fill" where
  "sim_sell cfg ts raw_price reason pos s =
     (let price = raw_price * (1 - slippage cfg);
          proceeds = p_qty pos * price;
          fe = proceeds * fee cfg;
          pnl = proceeds - fe - p_qty pos * entry_price pos - entry_fee pos
      in (s\<lparr>usdt := usdt s + (proceeds - fe), s_position := None\<rparr>,
          \<lparr>f_side = Sell, f_ts = ts, f_price = price, f_qty = p_qty pos, f_fee = fe, f_reason = reason,
           f_signal_ts = p_signal_ts pos, f_pnl = pnl,
           f_pnl_pct = (if basis pos \<noteq> 0 then pnl / basis pos * 100 else 0)\<rparr>))"

section \<open>One candle\<close>

record ohlc =
  c_ts :: int
  c_open :: flt
  c_high :: flt
  c_low :: flt
  c_close :: flt

text \<open>The order of the last candle's signal, at this open.\<close>

definition execute_pending :: "exec_config \<Rightarrow> ohlc \<Rightarrow> bool \<Rightarrow> sim_state \<Rightarrow> sim_state \<times> fill list" where
  "execute_pending cfg k allow_entries s =
     (let (s1, fills) =
        (if s_pending s = Some Enter \<and> s_position s = None \<and> allow_entries then
           (case sim_buy cfg (c_ts k) (c_open k) (pending_ts s) s of
              (s1, Some f) \<Rightarrow> (s1, [f]) | (s1, None) \<Rightarrow> (s1, []))
         else
           (case s_position s of
              Some pos \<Rightarrow>
                if s_pending s = Some Exit
                then (case sim_sell cfg (c_ts k) (c_open k) Signal pos s of (s1, f) \<Rightarrow> (s1, [f]))
                else (s, [])
            | None \<Rightarrow> (s, [])))
      in (s1\<lparr>s_pending := None\<rparr>, fills))"

text \<open>The stop is looked at before the take-profit.\<close>

definition check_stops :: "exec_config \<Rightarrow> ohlc \<Rightarrow> sim_state \<Rightarrow> sim_state \<times> fill list" where
  "check_stops cfg k s =
     (case s_position s of
        None \<Rightarrow> (s, [])
      | Some pos \<Rightarrow>
          (let stop = entry_price pos * (1 - stoploss_pct cfg);
               tp = entry_price pos * (1 + takeprofit_pct cfg)
           in if stoploss_pct cfg > 0 \<and> c_low k \<le> stop then
                (case sim_sell cfg (c_ts k) (min stop (c_open k)) Stoploss pos s of (s1, f) \<Rightarrow> (s1, [f]))
              else if takeprofit_pct cfg > 0 \<and> c_high k \<ge> tp then
                (case sim_sell cfg (c_ts k) (max tp (c_open k)) Takeprofit pos s of (s1, f) \<Rightarrow> (s1, [f]))
              else (s, [])))"

definition record_signal :: "int \<Rightarrow> bool \<Rightarrow> bool \<Rightarrow> flt option \<Rightarrow> sim_state \<Rightarrow> sim_state" where
  "record_signal ts enter exit_sig stake s =
     (if s_position s = None \<and> enter
      then s\<lparr>s_pending := Some Enter, pending_ts := ts, pending_stake := stake\<rparr>
      else if s_position s \<noteq> None \<and> exit_sig then s\<lparr>s_pending := Some Exit, pending_ts := ts\<rparr>
      else s)"

record signal =
  g_enter :: bool
  g_exit :: bool
  g_stake :: "flt option"

definition on_candle ::
    "exec_config \<Rightarrow> ohlc \<Rightarrow> signal \<Rightarrow> bool \<Rightarrow> sim_state \<Rightarrow> sim_state \<times> fill list" where
  "on_candle cfg k g allow_entries s =
     (let (s1, fills1) = execute_pending cfg k allow_entries s;
          (s2, fills2) = check_stops cfg k s1
      in (record_signal (c_ts k) (g_enter g) (g_exit g) (g_stake g) s2, fills1 @ fills2))"

fun run_candles ::
    "exec_config \<Rightarrow> (ohlc \<times> signal \<times> bool) list \<Rightarrow> sim_state \<Rightarrow> sim_state \<times> fill list list" where
  "run_candles cfg [] s = (s, [])"
| "run_candles cfg ((k, g, allow) # ks) s =
     (let (s1, fills) = on_candle cfg k g allow s; (s2, rest) = run_candles cfg ks s1
      in (s2, fills # rest))"

section \<open>The books balance\<close>

text \<open>The book value of an account: cash plus what the open position cost.\<close>

definition book_value :: "sim_state \<Rightarrow> flt" where
  "book_value s = usdt s + (case s_position s of None \<Rightarrow> 0 | Some p \<Rightarrow> basis p)"

definition pnl_sum :: "fill list \<Rightarrow> flt" where
  "pnl_sum fs = sum_list (List.map f_pnl fs)"

lemma pnl_sum_simps [simp]: "pnl_sum [] = 0" "pnl_sum (f # fs) = f_pnl f + pnl_sum fs"
  "pnl_sum (fs @ gs) = pnl_sum fs + pnl_sum gs"
  by (simp_all add: pnl_sum_def)

lemma sim_buy_cases:
  assumes "sim_buy cfg ts op sts s = (s', r)" and "s_position s = None"
  obtains (rejected) x where "r = None" and "s' = s\<lparr>rejected := x\<rparr>"
  | (filled) f pos where "r = Some f" and "s_position s' = Some pos" and "f_pnl f = 0" and "f_side f = Buy"
      and "book_value s' = book_value s" and "0 < p_qty pos"
      and "usdt s' = usdt s - p_qty pos * (op * (1 + slippage cfg)) * (1 + fee cfg)"
      and "f_ts f = ts" and "f_signal_ts f = sts"
proof (cases "snd (sim_buy cfg ts op sts s)")
  case None
  with assms show ?thesis
    by (auto simp: sim_buy_def Let_def split: if_splits intro: rejected)
next
  case (Some f)
  with assms show ?thesis
    by (auto simp: sim_buy_def Let_def book_value_def basis_def algebra_simps split: if_splits intro!: filled)
qed

lemma sim_sell_book:
  "sim_sell cfg ts raw reason pos s = (s', f) \<Longrightarrow> s_position s = Some pos \<Longrightarrow>
    book_value s' = book_value s + f_pnl f \<and> s_position s' = None \<and> f_side f = Sell \<and> f_ts f = ts"
  by (auto simp: sim_sell_def Let_def book_value_def basis_def)

lemma execute_pending_book:
  assumes "execute_pending cfg k allow s = (s', fs)"
  shows "book_value s' = book_value s + pnl_sum fs"
proof (cases "s_pending s = Some Enter \<and> s_position s = None \<and> allow")
  case True
  obtain s1 r where b: "sim_buy cfg (c_ts k) (c_open k) (pending_ts s) s = (s1, r)" by fastforce
  from True b assms have s': "s' = s1\<lparr>s_pending := None\<rparr>" and fs: "fs = (case r of None \<Rightarrow> [] | Some f \<Rightarrow> [f])"
    by (auto simp: execute_pending_def split: option.splits)
  from b conjunct1 [OF conjunct2 [OF True]] show ?thesis
    by (cases rule: sim_buy_cases) (auto simp: s' fs book_value_def)
next
  case False
  show ?thesis
  proof (cases "s_position s")
    case None
    with False assms show ?thesis by (auto simp: execute_pending_def book_value_def)
  next
    case (Some pos)
    obtain s1 f where sl: "sim_sell cfg (c_ts k) (c_open k) Signal pos s = (s1, f)" by fastforce
    from sim_sell_book [OF sl Some] sl Some assms show ?thesis
      by (auto simp: execute_pending_def book_value_def split: if_splits)
  qed
qed

lemma check_stops_book:
  assumes "check_stops cfg k s = (s', fs)"
  shows "book_value s' = book_value s + pnl_sum fs"
  using assms sim_sell_book [where s = s and cfg = cfg and ts = "c_ts k"]
  by (fastforce simp: check_stops_def Let_def split: option.splits if_splits prod.splits)

lemma record_signal_book [simp]: "book_value (record_signal ts e x st s) = book_value s"
  by (simp add: record_signal_def book_value_def)

lemma on_candle_book:
  assumes "on_candle cfg k g allow s = (s', fs)"
  shows "book_value s' = book_value s + pnl_sum fs"
proof -
  obtain s1 f1 s2 f2 where 1: "execute_pending cfg k allow s = (s1, f1)" and 2: "check_stops cfg k s1 = (s2, f2)"
    by fastforce
  from execute_pending_book [OF 1] check_stops_book [OF 2] 1 2 assms show ?thesis
    by (auto simp: on_candle_def)
qed

lemma book_value_run:
  "run_candles cfg ks s = (s', fills) \<Longrightarrow> book_value s' = book_value s + pnl_sum (concat fills)"
proof (induction ks arbitrary: s fills)
  case (Cons x ks)
  obtain k g allow where x: "x = (k, g, allow)" by (cases x) auto
  obtain s1 f1 where 1: "on_candle cfg k g allow s = (s1, f1)" by fastforce
  obtain s2 f2 where 2: "run_candles cfg ks s1 = (s2, f2)" by fastforce
  from Cons.prems x 1 2 have "s2 = s'" "fills = f1 # f2" by auto
  with on_candle_book [OF 1] Cons.IH [of s1 f2] 2 show ?case by simp
qed simp

text \<open>Property C9: every unit of money is accounted for. Over any run of candles, signals and entry
  permissions, the cash of the simulation plus the cost of the open position equals the start
  balance plus the profits and losses of its sells; fees and slippage are all inside them.\<close>

theorem book_value_conserved:
  assumes "run_candles cfg ks (new_state initial) = (s', fills)"
  shows "usdt s' + (case s_position s' of None \<Rightarrow> 0 | Some p \<Rightarrow> p_qty p * entry_price p + entry_fee p)
    = initial + sum_list (List.map f_pnl (concat fills))"
proof -
  from book_value_run [OF assms] show ?thesis
    by (cases "s_position s'") (simp_all add: book_value_def basis_def new_state_def pnl_sum_def)
qed

definition example_exec :: exec_config where
  "example_exec = \<lparr>fee = 1/1000, slippage = 1/2000, stake_pct = 1, stoploss_pct = 3/100,
     takeprofit_pct = 5/100, cfg_filters = \<lparr>min_notional = 5, step_size = 0, min_qty = 0\<rparr>\<rparr>"

definition example_signal :: signal where
  "example_signal = \<lparr>g_enter = True, g_exit = False, g_stake = None\<rparr>"

definition example_candles :: "(ohlc \<times> signal \<times> bool) list" where
  "example_candles = List.map (\<lambda>(t, p). (\<lparr>c_ts = t, c_open = p, c_high = p + 1, c_low = p - 1, c_close = p\<rparr>,
     example_signal, True)) [(0, 100), (60, 100), (120, 110)]"

theorem book_value_conserved_witness:
  "\<exists>s' fills. run_candles example_exec example_candles (new_state 100) = (s', fills)
    \<and> usdt s' + (case s_position s' of None \<Rightarrow> 0 | Some p \<Rightarrow> p_qty p * entry_price p + entry_fee p)
      = 100 + sum_list (List.map f_pnl (concat fills))"
  by (metis book_value_conserved prod.exhaust)


section \<open>Fills alternate\<close>

text \<open>What a buy opens, when a sell closes a position, and runs of fills that do so in turn.\<close>

definition position_of :: "fill \<Rightarrow> position" where
  "position_of f = \<lparr>entry_ts = f_ts f, entry_price = f_price f, p_qty = f_qty f, entry_fee = f_fee f,
     p_signal_ts = f_signal_ts f\<rparr>"

definition closes :: "position \<Rightarrow> fill \<Rightarrow> bool" where
  "closes pos f \<longleftrightarrow> f_side f = Sell \<and> f_qty f = p_qty pos \<and> f_signal_ts f = p_signal_ts pos
     \<and> f_pnl f = f_qty f * f_price f - f_fee f - basis pos"

inductive alternates :: "position option \<Rightarrow> fill list \<Rightarrow> position option \<Rightarrow> bool" where
  none: "alternates p [] p"
| buy: "f_side f = Buy \<Longrightarrow> f_pnl f = 0 \<Longrightarrow> alternates (Some (position_of f)) fs q \<Longrightarrow> alternates None (f # fs) q"
| sell: "closes pos f \<Longrightarrow> alternates None fs q \<Longrightarrow> alternates (Some pos) (f # fs) q"

inductive_simps alternates_simps [simp]: "alternates p [] q" "alternates p (f # fs) q"

lemma alternates_append: "alternates p fs q \<Longrightarrow> alternates q gs r \<Longrightarrow> alternates p (fs @ gs) r"
  by (induction rule: alternates.induct) auto

lemma sim_buy_fill:
  "sim_buy cfg ts op sts s = (s', Some f) \<Longrightarrow>
     f_side f = Buy \<and> f_pnl f = 0 \<and> s_position s' = Some (position_of f) \<and> f_signal_ts f = sts"
  by (auto simp: sim_buy_def Let_def position_of_def split: if_splits)

lemma sim_sell_fill:
  "sim_sell cfg ts raw reason pos s = (s', f) \<Longrightarrow> closes pos f \<and> s_position s' = None"
  by (auto simp: sim_sell_def Let_def closes_def basis_def)

lemma execute_pending_alternates:
  assumes e: "execute_pending cfg k allow s = (s', fs)"
  shows "alternates (s_position s) fs (s_position s')
    \<and> (\<forall>f \<in> set fs. f_side f = Buy \<longrightarrow> s_pending s = Some Enter \<and> allow \<and> f_signal_ts f = pending_ts s)
    \<and> length fs \<le> 1"
proof (cases "s_pending s = Some Enter \<and> s_position s = None \<and> allow")
  case True
  obtain s1 r where b: "sim_buy cfg (c_ts k) (c_open k) (pending_ts s) s = (s1, r)" by fastforce
  show ?thesis
  proof (cases r)
    case None
    from b conjunct1 [OF conjunct2 [OF True]] True have "s_position s1 = None"
      by (cases rule: sim_buy_cases) (simp_all add: None)
    with True b None e show ?thesis by (auto simp: execute_pending_def)
  next
    case (Some f)
    with True b e sim_buy_fill [of cfg "c_ts k" "c_open k" "pending_ts s" s s1 f] show ?thesis
      by (auto simp: execute_pending_def)
  qed
next
  case False
  show ?thesis
  proof (cases "s_position s")
    case None
    with False e show ?thesis by (auto simp: execute_pending_def)
  next
    case (Some pos)
    obtain s1 f where sl: "sim_sell cfg (c_ts k) (c_open k) Signal pos s = (s1, f)" by fastforce
    from sim_sell_fill [OF sl] have "closes pos f" "s_position s1 = None" "f_side f = Sell"
      by (simp_all add: closes_def)
    with sl Some e show ?thesis
      by (cases "s_pending s = Some Exit") (auto simp: execute_pending_def)
  qed
qed

lemma check_stops_alternates:
  assumes e: "check_stops cfg k s = (s', fs)"
  shows "alternates (s_position s) fs (s_position s') \<and> (\<forall>f \<in> set fs. f_side f = Sell)"
proof (cases "s_position s")
  case None
  with e show ?thesis by (simp add: check_stops_def)
next
  case (Some pos)
  have "closes pos (snd (sim_sell cfg ts raw reason pos s)) \<and> s_position (fst (sim_sell cfg ts raw reason pos s)) = None
      \<and> f_side (snd (sim_sell cfg ts raw reason pos s)) = Sell" for ts raw reason
    using sim_sell_fill [OF prod.collapse [symmetric]] by (simp add: closes_def)
  with Some e show ?thesis
    by (auto simp: check_stops_def Let_def split_beta split: if_splits)
qed

text \<open>A candle buys at most once, on a pending entry, and its fills take turns.\<close>

lemma on_candle_alternates:
  assumes "on_candle cfg k g allow s = (s', fs)"
  shows "alternates (s_position s) fs (s_position s')
    \<and> (\<forall>f \<in> set fs. f_side f = Buy \<longrightarrow> s_pending s = Some Enter \<and> allow \<and> f_signal_ts f = pending_ts s)
    \<and> length (filter (\<lambda>f. f_side f = Buy) fs) \<le> 1"
proof -
  obtain s1 f1 s2 f2 where 1: "execute_pending cfg k allow s = (s1, f1)" and 2: "check_stops cfg k s1 = (s2, f2)"
    by fastforce
  from 1 2 assms have s': "s_position s' = s_position s2" and fs: "fs = f1 @ f2"
    by (auto simp: on_candle_def record_signal_def)
  note A = execute_pending_alternates [OF 1] and B = check_stops_alternates [OF 2]
  from B have "filter (\<lambda>f. f_side f = Buy) f2 = []" by (auto simp: filter_empty_conv)
  moreover have "length (filter (\<lambda>f. f_side f = Buy) f1) \<le> 1"
    using A length_filter_le order_trans by blast
  ultimately show ?thesis
    using A B alternates_append s' fs by fastforce
qed

lemma run_candles_alternates:
  "run_candles cfg ks s = (s', fills) \<Longrightarrow> alternates (s_position s) (concat fills) (s_position s')"
proof (induction ks arbitrary: s fills)
  case (Cons x ks)
  obtain k g allow where x: "x = (k, g, allow)" by (cases x) auto
  obtain s1 f1 where 1: "on_candle cfg k g allow s = (s1, f1)" by fastforce
  obtain s2 f2 where 2: "run_candles cfg ks s1 = (s2, f2)" by fastforce
  from Cons.prems x 1 2 have "s2 = s'" "fills = f1 # f2" by auto
  with Cons.IH [of s1 f2] 2 on_candle_alternates [OF 1] show ?case
    by (auto intro: alternates_append)
qed simp

section \<open>No lookahead\<close>

lemma on_candle_fills:
  "snd (on_candle cfg k g a s) = snd (on_candle cfg k g' a s)"
  by (simp add: on_candle_def split: prod.splits)

text \<open>A decision can only be executed later. The fills of a candle, and all fills
  before it, are the same whatever the signal of that candle says and whatever candles and signals
  follow: a signal computed from candle i has its first effect at the open of candle i + 1.\<close>

theorem no_lookahead:
  "take (Suc (length pre)) (snd (run_candles cfg (pre @ (k, g, a) # post) s))
    = take (Suc (length pre)) (snd (run_candles cfg (pre @ (k, g', a) # post') s))"
proof (induction pre arbitrary: s)
  case Nil
  show ?case using on_candle_fills [of cfg k g a s g'] by (simp add: split_beta)
next
  case (Cons x pre)
  show ?case using Cons [of "fst (on_candle cfg (fst x) (fst (snd x)) (snd (snd x)) s)"]
    by (cases x) (simp add: split_beta)
qed

section \<open>The cash balance\<close>

text \<open>What the tolerance of \<open>round_qty\<close> may cost at prices up to \<open>P\<close>.\<close>

definition overdraft :: "exec_config \<Rightarrow> flt \<Rightarrow> flt" where
  "overdraft cfg P = step_size (cfg_filters cfg) / 10 ^ 9 * (P * (1 + slippage cfg) * (1 + fee cfg))"

definition sane_config :: "exec_config \<Rightarrow> bool" where
  "sane_config cfg \<longleftrightarrow> 0 \<le> fee cfg \<and> fee cfg \<le> 1 \<and> 0 \<le> slippage cfg \<and> slippage cfg \<le> 1
     \<and> stoploss_pct cfg \<le> 1 \<and> 0 \<le> step_size (cfg_filters cfg)"

definition solvent :: "exec_config \<Rightarrow> flt \<Rightarrow> sim_state \<Rightarrow> bool" where
  "solvent cfg P s \<longleftrightarrow> - overdraft cfg P \<le> usdt s
     \<and> (\<forall>p. s_position s = Some p \<longrightarrow> 0 < p_qty p \<and> 0 < entry_price p)"

lemma round_qty_le:
  assumes "0 \<le> step_size F"
  shows "round_qty F q \<le> q + step_size F / 10 ^ 9"
proof (cases "step_size F > 0")
  case True
  have "of_int \<lfloor>q / step_size F + 1 / 10 ^ 9\<rfloor> * step_size F \<le> (q / step_size F + 1 / 10 ^ 9) * step_size F"
    by (rule mult_right_mono) (use assms in auto)
  also have "\<dots> = q + step_size F / 10 ^ 9" using True by (simp add: field_simps)
  finally show ?thesis using True by (simp add: round_qty_def)
qed (use assms in \<open>simp add: round_qty_def\<close>)

lemma buy_cost_bounded:
  assumes ok: "sane_config cfg" and p: "0 < op" "op \<le> P" and q: "quote \<le> u"
    and qty: "qty = round_qty (cfg_filters cfg) (quote / (op * (1 + slippage cfg) * (1 + fee cfg)))"
  shows "- overdraft cfg P \<le> u - qty * (op * (1 + slippage cfg)) * (1 + fee cfg)"
proof -
  let ?unit = "op * (1 + slippage cfg) * (1 + fee cfg)"
  from ok p have unit: "0 < ?unit" by (simp add: sane_config_def)
  from ok have st: "0 \<le> step_size (cfg_filters cfg)" by (simp add: sane_config_def)
  have "qty * ?unit \<le> (quote / ?unit + step_size (cfg_filters cfg) / 10 ^ 9) * ?unit"
    unfolding qty by (rule mult_right_mono [OF round_qty_le [OF st]]) (use unit in simp)
  also have "\<dots> = quote + step_size (cfg_filters cfg) / 10 ^ 9 * ?unit"
    using unit by (metis distrib_right nonzero_eq_divide_eq less_irrefl)
  also have "step_size (cfg_filters cfg) / 10 ^ 9 * ?unit \<le> overdraft cfg P"
    unfolding overdraft_def
    by (intro mult_left_mono mult_right_mono) (use ok p st in \<open>auto simp: sane_config_def\<close>)
  finally show ?thesis using q by (simp add: mult.assoc)
qed

lemma sim_buy_solvent:
  assumes "sane_config cfg" and "0 < op" "op \<le> P" and "solvent cfg P s" and "s_position s = None"
    and b: "sim_buy cfg ts op sts s = (s', r)"
  shows "solvent cfg P s'"
proof -
  define quote where "quote = min (equity s op * (case pending_stake s of Some x \<Rightarrow> x | None \<Rightarrow> stake_pct cfg)) (usdt s)"
  from assms(1-3) have "- overdraft cfg P \<le> usdt s - round_qty (cfg_filters cfg) (quote / (op * (1 + slippage cfg) * (1 + fee cfg)))
      * (op * (1 + slippage cfg)) * (1 + fee cfg)"
    by (intro buy_cost_bounded) (auto simp: quote_def)
  moreover from assms(1,2) have "0 < op * (1 + slippage cfg)" by (simp add: sane_config_def)
  ultimately show ?thesis
    using assms(4,5) b [symmetric] unfolding sim_buy_def Let_def quote_def [symmetric]
    by (auto simp: solvent_def algebra_simps split: if_splits)
qed

lemma sim_sell_solvent:
  assumes "sane_config cfg" and "0 \<le> raw" and "solvent cfg P s" and "s_position s = Some pos"
    and "sim_sell cfg ts raw reason pos s = (s', f)"
  shows "solvent cfg P s'"
proof -
  from assms(1-4) have "0 \<le> p_qty pos * (raw * (1 - slippage cfg)) * (1 - fee cfg)"
    by (intro mult_nonneg_nonneg) (auto simp: solvent_def sane_config_def less_imp_le)
  with assms(3-5) show ?thesis
    by (auto simp: sim_sell_def Let_def solvent_def algebra_simps)
qed


lemma execute_pending_solvent:
  assumes ok: "sane_config cfg" and k: "0 < c_open k" "c_open k \<le> P" and s: "solvent cfg P s"
    and e: "execute_pending cfg k allow s = (s', fs)"
  shows "solvent cfg P s'"
proof (cases "s_pending s = Some Enter \<and> s_position s = None \<and> allow")
  case True
  obtain s1 r where b: "sim_buy cfg (c_ts k) (c_open k) (pending_ts s) s = (s1, r)" by fastforce
  from sim_buy_solvent [OF ok k s _ b] True b e show ?thesis
    by (auto simp: execute_pending_def solvent_def split: option.splits)
next
  case False
  show ?thesis
  proof (cases "s_position s")
    case None
    with False s e show ?thesis by (auto simp: execute_pending_def solvent_def)
  next
    case (Some pos)
    obtain s1 f where sl: "sim_sell cfg (c_ts k) (c_open k) Signal pos s = (s1, f)" by fastforce
    from sim_sell_solvent [OF ok less_imp_le [OF k(1)] s Some sl] sl Some e s show ?thesis
      by (auto simp: execute_pending_def solvent_def split: if_splits)
  qed
qed

lemma check_stops_solvent:
  assumes ok: "sane_config cfg" and k: "0 < c_open k" and s: "solvent cfg P s"
    and e: "check_stops cfg k s = (s', fs)"
  shows "solvent cfg P s'"
proof (cases "s_position s")
  case None
  with s e show ?thesis by (simp add: check_stops_def)
next
  case (Some pos)
  have sold: "solvent cfg P (fst (sim_sell cfg ts raw reason pos s))" if "0 \<le> raw" for ts raw reason
    by (rule sim_sell_solvent [OF ok that s Some prod.collapse [symmetric]])
  from s Some have "0 < entry_price pos" by (simp add: solvent_def)
  with ok k have stop: "0 \<le> min (entry_price pos * (1 - stoploss_pct cfg)) (c_open k)"
    by (simp add: sane_config_def)
  from k have tp: "0 \<le> max tp (c_open k)" for tp by (simp add: max_def)
  from e Some s sold [OF stop] sold [OF tp] show ?thesis
    by (auto simp: check_stops_def Let_def split_beta split: if_splits)
qed

lemma on_candle_solvent:
  assumes "sane_config cfg" and "0 < c_open k" "c_open k \<le> P" and "solvent cfg P s"
    and "on_candle cfg k g allow s = (s', fs)"
  shows "solvent cfg P s'"
proof -
  obtain s1 f1 s2 f2 where 1: "execute_pending cfg k allow s = (s1, f1)" and 2: "check_stops cfg k s1 = (s2, f2)"
    by fastforce
  have "solvent cfg P s2"
    by (rule check_stops_solvent [OF assms(1,2) execute_pending_solvent [OF assms(1-4) 1] 2])
  with 1 2 assms(5) show ?thesis
    by (auto simp: on_candle_def record_signal_def solvent_def split: if_splits)
qed

text \<open>The simulation never spends money it does not have, but for the tolerance of the
  quantity rounding. With fees, slippage and stop between 0 and 100 percent, opens in (0, P] and a
  start balance of at least 0, the cash balance after any run is at least
  \<open>- step_size * 10^-9\<close> units at the dearest fill; without a step size it is never negative.\<close>

theorem cash_overdraft_bounded:
  assumes "sane_config cfg" and "\<forall>(k, _) \<in> set ks. 0 < c_open k \<and> c_open k \<le> P"
    and "0 \<le> initial" and "0 < P"
  shows "- (step_size (cfg_filters cfg) / 10 ^ 9 * (P * (1 + slippage cfg) * (1 + fee cfg)))
      \<le> usdt (fst (run_candles cfg ks (new_state initial)))"
proof -
  have "solvent cfg P (fst (run_candles cfg ks s))" if "solvent cfg P s" for s
    using that assms(2)
  proof (induction ks arbitrary: s)
    case (Cons x ks)
    obtain k g allow where x: "x = (k, g, allow)" by (cases x) auto
    obtain s1 f1 where 1: "on_candle cfg k g allow s = (s1, f1)" by fastforce
    from Cons.prems x have "solvent cfg P s1" by (intro on_candle_solvent [OF assms(1) _ _ _ 1]) auto
    with Cons.IH [of s1] Cons.prems x 1 show ?case by (simp add: split_beta)
  qed simp
  moreover from assms have "0 \<le> overdraft cfg P"
    unfolding overdraft_def by (intro mult_nonneg_nonneg divide_nonneg_nonneg) (auto simp: sane_config_def)
  with assms(3) have "solvent cfg P (new_state initial)" by (simp add: solvent_def new_state_def)
  ultimately show ?thesis unfolding solvent_def overdraft_def by blast
qed

theorem cash_overdraft_bounded_witness:
  "- (0 / 10 ^ 9 * (110 * (1 + 1/2000) * (1 + 1/1000)))
    \<le> usdt (fst (run_candles example_exec example_candles (new_state 100)))"
  using cash_overdraft_bounded [of example_exec example_candles 110 100]
  by (simp add: example_exec_def example_candles_def sane_config_def)

definition stepped_exec :: exec_config where
  "stepped_exec = example_exec\<lparr>fee := 0, slippage := 0, cfg_filters := \<lparr>min_notional = 5, step_size = 1, min_qty = 0\<rparr>\<rparr>"

text \<open>The balance can go negative. With a step size of 1 and a balance that is a
  billionth short of a whole step, the tolerance added before rounding down buys the whole step
  and the cash ends below 0.\<close>

theorem rounding_overdraws:
  "usdt (fst (run_candles stepped_exec (take 2 example_candles) (new_state (200 - 1 / 10 ^ 8)))) < 0"
proof -
  have "\<lfloor>(20000000009::flt) / 10000000000\<rfloor> = 2" by (rule floor_unique) simp_all
  then show ?thesis
    by (simp add: stepped_exec_def example_exec_def example_candles_def example_signal_def
        on_candle_def execute_pending_def check_stops_def record_signal_def sim_buy_def new_state_def
        equity_def round_qty_def Let_def)
qed

end
