(* ===== verification/Ql_Market.thy ===== *)
theory Ql_Market
  imports Ql_Sim "HOL-Library.Multiset"
begin

text \<open>
  The candle store of quantlab (quantlab/market/store.py): cleaning of frames, loading, and the
  incremental download. A file is the list of its rows; reading and writing it is left out. The
  client and the order of equal time stamps after \<open>sort_values\<close> are arguments.
\<close>

section \<open>Frames\<close>

record row = ohlc +
  c_volume :: flt

record kline =
  kl_open_ms :: int
  kl_open :: flt
  kl_high :: flt
  kl_low :: flt
  kl_close :: flt
  kl_volume :: flt

definition klines_to_frame :: "kline list \<Rightarrow> row list" where
  "klines_to_frame ks =
     List.map (\<lambda>r. \<lparr>c_ts = kl_open_ms r div 1000, c_open = kl_open r, c_high = kl_high r,
                  c_low = kl_low r, c_close = kl_close r, c_volume = kl_volume r\<rparr>) ks"

record validation_report =
  vr_rows :: nat
  vr_duplicates :: nat
  vr_gaps :: "(int \<times> int) list"
  vr_invalid :: nat

definition bad_row :: "int \<Rightarrow> row \<Rightarrow> bool" where
  "bad_row step r \<longleftrightarrow>
     c_high r < max (max (c_open r) (c_close r)) (c_low r)
   \<or> c_low r > min (c_open r) (c_close r)
   \<or> c_low r \<le> 0 \<or> c_volume r < 0 \<or> c_ts r mod step \<noteq> 0"

text \<open>\<open>drop_duplicates("ts", keep="last")\<close>.\<close>

fun drop_duplicates :: "row list \<Rightarrow> row list" where
  "drop_duplicates [] = []"
| "drop_duplicates (r # rs) =
     (if c_ts r \<in> c_ts ` set rs then drop_duplicates rs else r # drop_duplicates rs)"

fun gaps_of :: "int \<Rightarrow> int list \<Rightarrow> (int \<times> int) list" where
  "gaps_of step (a # b # ts) =
     (if b - a \<noteq> step then (a + step, b - step) # gaps_of step (b # ts) else gaps_of step (b # ts))"
| "gaps_of step _ = []"

definition clean :: "(row list \<Rightarrow> row list) \<Rightarrow> int \<Rightarrow> row list \<Rightarrow> row list \<times> validation_report" where
  "clean sort_values step df =
     (let n = length df;
          df1 = drop_duplicates (sort_values df);
          dups = n - length df1;
          invalid = length (filter (bad_row step) df1);
          df2 = filter (\<lambda>r. \<not> bad_row step r) df1
      in (df2, \<lparr>vr_rows = length df2, vr_duplicates = dups, vr_gaps = gaps_of step (List.map c_ts df2),
                vr_invalid = invalid\<rparr>))"

section \<open>The store\<close>

definition store_load :: "'a ohlc_scheme list \<Rightarrow> int option \<Rightarrow> int option \<Rightarrow> 'a ohlc_scheme list" where
  "store_load rows start_ts end_ts =
     filter (\<lambda>k. (case start_ts of None \<Rightarrow> True | Some a \<Rightarrow> c_ts k \<ge> a)
               \<and> (case end_ts of None \<Rightarrow> True | Some b \<Rightarrow> c_ts k \<le> b)) rows"

definition KLINES_MAX :: int where
  "KLINES_MAX = 1000"

definition HISTORY_DAYS :: int where
  "HISTORY_DAYS = 30 + 10"

definition last_closed_open :: "int \<Rightarrow> int \<Rightarrow> int" where
  "last_closed_open step now = (now div step) * step - step"

text \<open>
  The download loop: \<open>client\<close> is given the bounds in milliseconds. Every turn moves the cursor
  forward or ends the loop.
\<close>

function download ::
    "(int \<Rightarrow> int \<Rightarrow> py_error + kline list) \<Rightarrow> int \<Rightarrow> int \<Rightarrow> int \<Rightarrow> row list \<Rightarrow> py_error + row list" where
  "download client step last_open cursor frames =
     (if cursor \<le> last_open then
        bindE (client (cursor * 1000) (last_open * 1000 + 999)) (\<lambda>ks.
          if ks = [] then Inr frames
          else
            (let batch = klines_to_frame ks;
                 next_cursor = c_ts (last batch) + step
             in if next_cursor \<le> cursor then Inr (frames @ batch)
                else download client step last_open next_cursor (frames @ batch)))
      else Inr frames)"
  by pat_completeness auto

termination
  by (relation "measure (\<lambda>(_, _, last_open, cursor, _). nat (last_open + 1 - cursor))") auto

declare download.simps [simp del]

definition sync ::
    "(row list \<Rightarrow> row list) \<Rightarrow> (int \<Rightarrow> int \<Rightarrow> py_error + kline list) \<Rightarrow> int \<Rightarrow> int option \<Rightarrow> int
       \<Rightarrow> row list \<Rightarrow> py_error + row list \<times> validation_report" where
  "sync sort_values client step since_ts now existing =
     (let last_open = last_closed_open step now;
          cursor = (if existing \<noteq> [] then c_ts (last existing) + step
                    else case since_ts of
                      Some t \<Rightarrow> if t \<noteq> 0 then t else last_open - step * KLINES_MAX
                    | None \<Rightarrow> last_open - step * KLINES_MAX)
      in bindE (download client step last_open cursor existing) (\<lambda>frames.
           if frames = [] then Inr (existing, \<lparr>vr_rows = 0, vr_duplicates = 0, vr_gaps = [], vr_invalid = 0\<rparr>)
           else
             (let (df, report) = clean sort_values step frames
              in Inr (filter (\<lambda>r. c_ts r \<le> last_open) df, report))))"

section \<open>Cleaning\<close>

lemma drop_duplicates_set: "set (drop_duplicates rs) \<subseteq> set rs"
  by (induction rs) auto

lemma drop_duplicates_ts: "c_ts ` set (drop_duplicates rs) = c_ts ` set rs"
  by (induction rs) (auto simp: image_iff)

lemma drop_duplicates_sorted:
  "sorted (List.map c_ts rs) \<Longrightarrow> sorted_wrt (<) (List.map c_ts (drop_duplicates rs))"
proof (induction rs)
  case (Cons r rs)
  then have IH: "sorted_wrt (<) (List.map c_ts (drop_duplicates rs))" by simp
  show ?case
  proof (cases "c_ts r \<in> c_ts ` set rs")
    case False
    have "c_ts r < t" if "t \<in> c_ts ` set (drop_duplicates rs)" for t
    proof -
      from that have "t \<in> c_ts ` set rs" by (simp add: drop_duplicates_ts)
      with Cons.prems False show ?thesis by (auto simp: order.order_iff_strict)
    qed
    with IH False show ?thesis by auto
  qed (use IH in simp)
qed simp

lemma clean_sound:
  assumes "clean sort_values step df = (df', report)"
    and "mset (sort_values df) = mset df" and "sorted (List.map c_ts (sort_values df))"
  shows "sorted_wrt (<) (List.map c_ts df') \<and> set df' \<subseteq> set df \<and> (\<forall>r \<in> set df'. \<not> bad_row step r)
    \<and> vr_gaps report = gaps_of step (List.map c_ts df') \<and> vr_rows report = length df'"
proof -
  from assms(1) have df': "df' = filter (\<lambda>r. \<not> bad_row step r) (drop_duplicates (sort_values df))"
    by (simp add: clean_def Let_def)
  have "sorted_wrt (<) (List.map c_ts df')"
    using drop_duplicates_sorted [OF assms(3)] unfolding df' by (simp add: sorted_wrt_map sorted_wrt_filter)
  moreover from assms(2) have "set (sort_values df) = set df" by (metis set_mset_mset)
  ultimately show ?thesis
    using assms(1) drop_duplicates_set [of "sort_values df"] by (auto simp: clean_def Let_def df')
qed

lemma gaps_after:
  "(x, y) \<in> set (gaps_of step (b # us)) \<Longrightarrow> 0 < step \<Longrightarrow> sorted_wrt (<) (b # us) \<Longrightarrow> b \<le> x"
proof (induction us arbitrary: b)
  case (Cons u us)
  show ?case
  proof (cases "(x, y) = (b + step, u - step)")
    case True
    with Cons.prems(2) show ?thesis by simp
  next
    case False
    with Cons.prems(1) have "(x, y) \<in> set (gaps_of step (u # us))" by (auto split: if_splits)
    from Cons.IH [OF this] Cons.prems(2,3) show ?thesis by auto
  qed
qed simp

text \<open>A multiple of the step between the first and the last row is missing exactly when a gap covers it.\<close>

lemma gaps_cover:
  assumes "sorted_wrt (<) ts" and "\<forall>t \<in> set ts. t mod step = 0" and "0 < step" and "t mod step = 0"
    and "ts \<noteq> []" and "hd ts \<le> t" and "t \<le> last ts"
  shows "t \<notin> set ts \<longleftrightarrow> (\<exists>(a, b) \<in> set (gaps_of step ts). a \<le> t \<and> t \<le> b)"
  using assms
proof (induction step ts rule: gaps_of.induct)
  case (1 step a b ts)
  note pr = 1(3-)
  have aligned: "x + step \<le> y" if "x < y" "x mod step = 0" "y mod step = 0" for x y
  proof -
    from that have "step dvd y - x" by (simp add: dvd_diff mod_0_imp_dvd)
    with that(1) have "step \<le> y - x" by (simp add: zdvd_imp_le)
    then show ?thesis by simp
  qed
  show ?case
  proof (cases "b \<le> t")
    case True
    with 1 have "t \<notin> set (b # ts) \<longleftrightarrow> (\<exists>(a, b) \<in> set (gaps_of step (b # ts)). a \<le> t \<and> t \<le> b)"
      by (cases "b - a \<noteq> step") auto
    moreover have "a \<noteq> t" "\<not> t \<le> b - step" using True pr(1,3) by auto
    ultimately show ?thesis by auto
  next
    case False
    have no: "\<not> (\<exists>(x, y) \<in> set (gaps_of step (b # ts)). x \<le> t \<and> t \<le> y)"
      using False gaps_after [OF _ pr(3), of _ _ b ts] pr(1) by fastforce
    have "t \<notin> set (b # ts)" using False pr(1) by auto
    show ?thesis
    proof (cases "t = a")
      case True
      with no pr(3) show ?thesis by auto
    next
      case neq: False
      with pr(6) have "a < t" by simp
      with False aligned [of a t] aligned [of t b] pr(2,4) have "a + step \<le> t" "t \<le> b - step" by auto
      with neq \<open>t \<notin> set (b # ts)\<close> pr(3) show ?thesis by auto
    qed
  qed
qed auto


section \<open>What the store holds\<close>

lemma download_keeps: "download client step last_open cursor frames = Inr out \<Longrightarrow> set frames \<subseteq> set out"
proof (induction client step last_open cursor frames rule: download.induct)
  case (1 client step last_open cursor frames)
  from 1(2) show ?case
    by (subst (asm) download.simps)
      (fastforce simp: bindE_eq_Inr Let_def split: if_splits dest: 1(1))
qed

text \<open>Property C27: the store holds only closed, sound candles in order. Whatever the client answers,
  when a download ends the file is strictly ordered by time without duplicates, no candle in it is
  one the cleaning calls impossible, each had closed at \<open>now\<close>, and a candle time between the first
  and the last of the cleaned frame is missing from it exactly when a reported gap covers it.\<close>

theorem synced_store_sound:
  assumes "sync sort_values client step since now existing = Inr (df, report)" and "0 < step"
    and "\<And>rs. mset (sort_values rs) = mset rs \<and> sorted (List.map c_ts (sort_values rs))"
  shows "sorted_wrt (<) (List.map c_ts df) \<and> (\<forall>r \<in> set df. \<not> bad_row step r \<and> c_ts r + step \<le> now)
    \<and> (\<exists>all. df = filter (\<lambda>r. c_ts r \<le> last_closed_open step now) all
         \<and> (\<forall>t. t mod step = 0 \<and> all \<noteq> [] \<and> c_ts (hd all) \<le> t \<and> t \<le> c_ts (last all)
              \<longrightarrow> (t \<notin> c_ts ` set all \<longleftrightarrow> (\<exists>(a, b) \<in> set (vr_gaps report). a \<le> t \<and> t \<le> b))))"
proof -
  define last_open where "last_open = last_closed_open step now"
  have closed: "c + step \<le> now" if "c \<le> last_open" for c
    using that assms(2) by (simp add: last_open_def last_closed_open_def) (smt (verit) div_mult_mod_eq pos_mod_sign)
  from assms(1) obtain cursor frames where d: "download client step last_open cursor existing = Inr frames"
    and r: "(if frames = [] then (existing, \<lparr>vr_rows = 0, vr_duplicates = 0, vr_gaps = [], vr_invalid = 0\<rparr>)
           else (let (df, report) = clean sort_values step frames
              in (filter (\<lambda>r. c_ts r \<le> last_open) df, report))) = (df, report)"
    by (auto simp: sync_def Let_def bindE_eq_Inr last_open_def split: if_splits prod.splits)
  show ?thesis
  proof (cases "frames = []")
    case True
    with download_keeps [OF d] r have "df = []" by simp
    then show ?thesis by (auto intro!: exI [of _ "[]"])
  next
    case False
    obtain all rep where c: "clean sort_values step frames = (all, rep)" by fastforce
    with False r have df: "df = filter (\<lambda>r. c_ts r \<le> last_open) all" and rep: "rep = report" by auto
    note snd = clean_sound [OF c] assms(3) [of frames]
    then have srt: "sorted_wrt (<) (List.map c_ts all)" and ok: "\<forall>r \<in> set all. \<not> bad_row step r"
      and g: "vr_gaps report = gaps_of step (List.map c_ts all)" by (auto simp: rep)
    from ok have al: "\<forall>t \<in> set (List.map c_ts all). t mod step = 0" by (auto simp: bad_row_def)
    have A: "sorted_wrt (<) (List.map c_ts df)" using srt by (simp add: df sorted_wrt_map sorted_wrt_filter)
    have B: "\<forall>r \<in> set df. \<not> bad_row step r \<and> c_ts r + step \<le> now"
      using ok closed by (auto simp: df)
    have C: "t \<notin> c_ts ` set all \<longleftrightarrow> (\<exists>(a, b) \<in> set (vr_gaps report). a \<le> t \<and> t \<le> b)"
      if "t mod step = 0 \<and> all \<noteq> [] \<and> c_ts (hd all) \<le> t \<and> t \<le> c_ts (last all)" for t
      using gaps_cover [OF srt al assms(2) conjunct1 [OF that]] that g by (simp add: hd_map last_map)
    show ?thesis
      by (intro conjI A B exI [of _ all] allI impI df [unfolded last_open_def]) (rule C)
  qed
qed

definition example_client :: "int \<Rightarrow> int \<Rightarrow> py_error + kline list" where
  "example_client start_ms end_ms =
     Inr [\<lparr>kl_open_ms = start_ms, kl_open = 1, kl_high = 2, kl_low = 1, kl_close = 2, kl_volume = 5\<rparr>]"

lemma example_sync:
  "sync (sort_key c_ts) example_client 60 (Some 60) 200 [] = Inr
     ([\<lparr>c_ts = 60, c_open = 1, c_high = 2, c_low = 1, c_close = 2, c_volume = 5\<rparr>,
       \<lparr>c_ts = 120, c_open = 1, c_high = 2, c_low = 1, c_close = 2, c_volume = 5\<rparr>],
      \<lparr>vr_rows = 2, vr_duplicates = 0, vr_gaps = [], vr_invalid = 0\<rparr>)"
  by (simp add: sync_def last_closed_open_def example_client_def download.simps klines_to_frame_def
      clean_def bad_row_def Let_def)

theorem synced_store_sound_witness:
  "\<exists>df report. sync (sort_key c_ts) example_client 60 (Some 60) 200 [] = Inr (df, report) \<and> df \<noteq> []
    \<and> (\<forall>r \<in> set df. c_ts r + 60 \<le> 200)"
  using synced_store_sound [OF example_sync] example_sync by force

end
