(* ===== verification/Ql_Paper.thy ===== *)
theory Ql_Paper
  imports Ql_Risk Ql_Market
begin

text \<open>
  Paper trading of quantlab (quantlab/paper/engine.py): sessions that live in the database, advance
  one closed candle per transaction, and are paused, resumed, stopped and reset. A record holds the
  rows of one session; a transaction that raises is rolled back, so it leaves the record as it was.
  The frame of candles, the strategy and the clock are arguments; notifications and log lines are
  left out.
\<close>

section \<open>The rows of a session\<close>

datatype session_status = Running | Paused | Halted | Stopped

datatype halt_reason = Not_halted | Breach violation | Strategy_error

text \<open>The exit columns of a trade: \<open>exit_ts\<close> is null while it is open.\<close>

record paper_exit =
  px_ts :: int
  px_price :: flt
  px_fee :: flt
  px_pnl :: flt
  px_pnl_pct :: flt
  px_reason :: fill_reason

record paper_trade =
  pt_signal_ts :: int
  pt_entry_ts :: int
  pt_entry_price :: flt
  pt_qty :: flt
  pt_entry_fee :: flt
  pt_exit :: "paper_exit option"

text \<open>The pending signal is stored as its side, time and stake.\<close>

record paper_session =
  ps_status :: session_status
  ps_halt_reason :: halt_reason
  ps_fee :: flt
  ps_slippage :: flt
  ps_risk :: "string \<Rightarrow> flt option"
  ps_step :: int
  ps_last_candle_ts :: int
  ps_pending :: "(pending \<times> int \<times> flt option) option"
  ps_in_evaluation :: bool
  ps_initial_balance :: flt
  ps_peak_equity :: flt
  ps_usdt :: flt
  ps_base :: flt
  ps_trades :: "paper_trade list"
  ps_snapshots :: "(int \<times> flt) list"
  ps_events :: "halt_reason list"

definition is_active :: "session_status \<Rightarrow> bool" where
  "is_active st \<longleftrightarrow> st \<in> {Running, Paused, Halted}"

definition create_session ::
    "int option \<Rightarrow> flt \<Rightarrow> flt \<Rightarrow> flt \<Rightarrow> (string \<Rightarrow> flt option) \<Rightarrow> (string \<Rightarrow> flt option) \<Rightarrow> bool \<Rightarrow> int
       \<Rightarrow> py_error + paper_session" where
  "create_session timeframe capital fe slip version_risk risk in_evaluation now =
     (if capital \<le> 0 then Inl ValueError
      else case timeframe of
        None \<Rightarrow> Inl ValueError
      | Some step \<Rightarrow>
          Inr \<lparr>ps_status = Running, ps_halt_reason = Not_halted, ps_fee = fe, ps_slippage = slip,
               ps_risk = version_risk ++ risk, ps_step = step,
               ps_last_candle_ts = (now div step) * step - step, ps_pending = None,
               ps_in_evaluation = in_evaluation, ps_initial_balance = capital,
               ps_peak_equity = capital, ps_usdt = capital, ps_base = 0, ps_trades = [],
               ps_snapshots = [], ps_events = []\<rparr>)"

definition paper_exec_cfg :: "(flt \<times> flt) option \<Rightarrow> paper_session \<Rightarrow> exec_config" where
  "paper_exec_cfg pair ps =
     (let get = (\<lambda>key d. case ps_risk ps key of None \<Rightarrow> d | Some v \<Rightarrow> v)
      in \<lparr>fee = ps_fee ps, slippage = ps_slippage ps, stake_pct = get ''stake_pct'' (95/100),
          stoploss_pct = get ''stoploss_pct'' (3/100), takeprofit_pct = get ''takeprofit_pct'' 0,
          cfg_filters = (case pair of
             Some (notional, st) \<Rightarrow> \<lparr>min_notional = notional, step_size = st, min_qty = 0\<rparr>
           | None \<Rightarrow> \<lparr>min_notional = 5, step_size = 0, min_qty = 0\<rparr>)\<rparr>)"

section \<open>Loading\<close>

definition is_open_trade :: "paper_trade \<Rightarrow> bool" where
  "is_open_trade t \<longleftrightarrow> pt_exit t = None"

definition one_or_none :: "'a list \<Rightarrow> py_error + 'a option" where
  "one_or_none xs = (case xs of [] \<Rightarrow> Inr None | [x] \<Rightarrow> Inr (Some x) | _ \<Rightarrow> Inl MultipleResultsFound)"

definition one :: "'a list \<Rightarrow> py_error + 'a" where
  "one xs = (case xs of [] \<Rightarrow> Inl NoResultFound | [x] \<Rightarrow> Inr x | _ \<Rightarrow> Inl MultipleResultsFound)"

definition position_of_trade :: "paper_trade \<Rightarrow> position" where
  "position_of_trade t = \<lparr>entry_ts = pt_entry_ts t, entry_price = pt_entry_price t, p_qty = pt_qty t,
     entry_fee = pt_entry_fee t, p_signal_ts = pt_signal_ts t\<rparr>"

definition state_of :: "paper_session \<Rightarrow> paper_trade option \<Rightarrow> sim_state" where
  "state_of ps trade =
     \<lparr>usdt = ps_usdt ps, s_position = map_option position_of_trade trade,
      s_pending = map_option fst (ps_pending ps),
      pending_ts = (case ps_pending ps of None \<Rightarrow> 0 | Some (_, ts, _) \<Rightarrow> ts),
      pending_stake = (case ps_pending ps of None \<Rightarrow> None | Some (_, _, st) \<Rightarrow> st),
      rejected = []\<rparr>"

definition load_state :: "paper_session \<Rightarrow> py_error + sim_state \<times> paper_trade option" where
  "load_state ps =
     bindE (one_or_none (filter is_open_trade (ps_trades ps))) (\<lambda>trade. Inr (state_of ps trade, trade))"

definition day_start_equity :: "paper_session \<Rightarrow> int \<Rightarrow> flt" where
  "day_start_equity ps ts =
     (let midnight = ts - ts mod 86400
      in case sort_key fst (filter (\<lambda>(t, _). t \<ge> midnight) (ps_snapshots ps)) of
           [] \<Rightarrow> 0 | (_, e) # _ \<Rightarrow> e)"

section \<open>Booking fills\<close>

definition exit_of :: "fill \<Rightarrow> paper_exit" where
  "exit_of f = \<lparr>px_ts = f_ts f, px_price = f_price f, px_fee = f_fee f, px_pnl = f_pnl f,
     px_pnl_pct = f_pnl_pct f, px_reason = f_reason f\<rparr>"

text \<open>Writing the exit columns of the row \<open>t\<close>: a trade row is identified by its signal candle.\<close>

definition write_exit :: "fill \<Rightarrow> paper_trade \<Rightarrow> paper_trade list \<Rightarrow> paper_trade list" where
  "write_exit f t = List.map (\<lambda>r. if pt_signal_ts r = pt_signal_ts t then r\<lparr>pt_exit := Some (exit_of f)\<rparr> else r)"

definition trade_of_fill :: "fill \<Rightarrow> paper_trade" where
  "trade_of_fill f = \<lparr>pt_signal_ts = f_signal_ts f, pt_entry_ts = f_ts f, pt_entry_price = f_price f,
     pt_qty = f_qty f, pt_entry_fee = f_fee f, pt_exit = None\<rparr>"

text \<open>
  One turn of the loop over the fills; \<open>final\<close> is the position of the simulation after the candle.
  The flush after a buy checks that no trade of the session has the same signal candle.
\<close>

definition book_fill ::
    "position option \<Rightarrow> fill \<Rightarrow> paper_session \<times> paper_trade option
       \<Rightarrow> py_error + paper_session \<times> paper_trade option" where
  "book_fill final f st =
     (case st of (ps, trade) \<Rightarrow>
        if f_side f = Buy then
          (if \<exists>t \<in> set (ps_trades ps). pt_signal_ts t = f_signal_ts f then Inl IntegrityError
           else
             (let ps1 = ps\<lparr>ps_trades := ps_trades ps @ [trade_of_fill f], ps_base := ps_base ps + f_qty f\<rparr>
              in if trade = None
                 then bindE (one (filter is_open_trade (ps_trades ps1))) (\<lambda>t. Inr (ps1, Some t))
                 else Inr (ps1, trade)))
        else if trade = None \<and> final \<noteq> None then Inl AssertionError
        else
          bindE (case trade of Some t \<Rightarrow> Inr t | None \<Rightarrow> one (filter is_open_trade (ps_trades ps)))
            (\<lambda>t. Inr (ps\<lparr>ps_trades := write_exit f t (ps_trades ps), ps_base := ps_base ps - f_qty f\<rparr>, None)))"

section \<open>One candle, one transaction\<close>

definition halt_on_breach :: "flt \<Rightarrow> flt \<Rightarrow> paper_session \<Rightarrow> paper_session" where
  "halt_on_breach eq day_start ps =
     (if ps_status ps = Running then
        (case portfolio_breaches (limits_from_dict (ps_risk ps)) eq (ps_peak_equity ps) day_start of
           [] \<Rightarrow> ps
         | v # _ \<Rightarrow> ps\<lparr>ps_status := Halted, ps_halt_reason := Breach v,
                       ps_events := ps_events ps @ [Breach v]\<rparr>)
      else ps)"

definition store_candle :: "int \<Rightarrow> sim_state \<Rightarrow> flt \<Rightarrow> paper_session \<Rightarrow> py_error + paper_session" where
  "store_candle ts state close_price ps =
     (let ps1 = ps\<lparr>ps_usdt := usdt state,
                   ps_pending := map_option (\<lambda>p. (p, pending_ts state, pending_stake state)) (s_pending state),
                   ps_last_candle_ts := ts\<rparr>;
          eq = equity state close_price;
          ps2 = ps1\<lparr>ps_peak_equity := max (ps_peak_equity ps1) eq\<rparr>;
          day_start = or_val (Some (day_start_equity ps2 ts)) eq
      in if ts \<in> fst ` set (ps_snapshots ps2) then Inl IntegrityError
         else Inr (halt_on_breach eq day_start (ps2\<lparr>ps_snapshots := ps_snapshots ps2 @ [(ts, eq)]\<rparr>)))"

definition apply_candle ::
    "exec_config \<Rightarrow> ohlc \<Rightarrow> signal \<Rightarrow> bool \<Rightarrow> paper_session \<Rightarrow> py_error + paper_session" where
  "apply_candle cfg k g stale ps =
     bindE (load_state ps) (\<lambda>(state, trade).
       let allow = (ps_status ps = Running \<and> \<not> stale);
           (state', fills) = on_candle cfg k (g\<lparr>g_enter := g_enter g \<and> allow\<rparr>) allow state
       in bindE (runE (book_fill (s_position state')) fills (ps, trade)) (\<lambda>(ps1, _).
            store_candle (c_ts k) state' (c_close k) ps1))"

text \<open>The transaction of a tick for one row: it does nothing when another process was faster.\<close>

definition tick_candle ::
    "(flt \<times> flt) option \<Rightarrow> int \<Rightarrow> ohlc \<times> signal \<Rightarrow> paper_session \<Rightarrow> py_error + paper_session \<times> bool" where
  "tick_candle pair now row ps =
     (case row of (k, g) \<Rightarrow>
        if ps_last_candle_ts ps \<ge> c_ts k then Inr (ps, False)
        else bindE (apply_candle (paper_exec_cfg pair ps) k g (c_ts k + ps_step ps * 2 < now) ps)
               (\<lambda>ps'. Inr (ps', True)))"


section \<open>A tick\<close>

definition WINDOW :: int where
  "WINDOW = 600"

text \<open>The loop over the new rows stops at the first transaction that raises.\<close>

fun tick_rows ::
    "(flt \<times> flt) option \<Rightarrow> int \<Rightarrow> (ohlc \<times> signal) list \<Rightarrow> nat \<Rightarrow> paper_session
       \<Rightarrow> (py_error + nat) \<times> paper_session" where
  "tick_rows pair now [] n ps = (Inr n, ps)"
| "tick_rows pair now (row # rows) n ps =
     (case tick_candle pair now row ps of
        Inl e \<Rightarrow> (Inl e, ps)
      | Inr (ps', applied) \<Rightarrow> tick_rows pair now rows (if applied then Suc n else n) ps')"

text \<open>
  \<open>signals\<close> stands for the strategy and the sizing: it is given the frame and answers a signal per
  row, or raises; \<open>sized\<close> is whether the risk settings ask for sizing.
\<close>

definition tick_session ::
    "ohlc list \<Rightarrow> (ohlc list \<Rightarrow> py_error + signal list) \<Rightarrow> bool \<Rightarrow> (flt \<times> flt) option \<Rightarrow> int
       \<Rightarrow> paper_session \<Rightarrow> (py_error + nat) \<times> paper_session" where
  "tick_session file signals sized pair now ps =
     (if \<not> is_active (ps_status ps) then (Inr 0, ps)
      else
        (let last = ps_last_candle_ts ps;
             hist = (if sized then max (ps_step ps * WINDOW) (HISTORY_DAYS * 86400) else ps_step ps * WINDOW);
             df = store_load file (Some (last - hist)) None;
             is_new = (\<lambda>k. c_ts k > last \<and> c_ts k + ps_step ps \<le> now)
         in if filter is_new df = [] then (Inr 0, ps)
            else case signals df of
              Inl _ \<Rightarrow> (Inr 0, ps\<lparr>ps_status := Halted, ps_halt_reason := Strategy_error,
                                  ps_events := ps_events ps @ [Strategy_error]\<rparr>)
            | Inr sig \<Rightarrow> tick_rows pair now (filter (\<lambda>(k, _). is_new k) (zip df sig)) 0 ps))"

text \<open>All sessions in turn; an exception of one is logged and the others go on.\<close>

definition tick_all ::
    "(paper_session \<Rightarrow> (py_error + nat) \<times> paper_session) \<Rightarrow> paper_session list \<Rightarrow> nat \<times> paper_session list" where
  "tick_all tick sessions =
     (let rs = List.map (\<lambda>ps. if is_active (ps_status ps) then tick ps else (Inr 0, ps)) sessions
      in (sum_list (List.map (\<lambda>(r, _). case r of Inl _ \<Rightarrow> 0 | Inr n \<Rightarrow> n) rs), List.map snd rs))"

section \<open>The owner's actions\<close>

definition close_at_last_price ::
    "(flt \<times> flt) option \<Rightarrow> ohlc list option \<Rightarrow> paper_session \<Rightarrow> py_error + paper_session" where
  "close_at_last_price pair store ps =
     bindE (load_state ps) (\<lambda>(state, trade).
       case (trade, store) of
         (Some t, Some file) \<Rightarrow>
           (let df = store_load file (Some (ps_last_candle_ts ps - ps_step ps)) None
            in if df = [] then Inr ps
               else
                 (let k = last df;
                      (state', f) = sim_sell (paper_exec_cfg pair ps) (c_ts k) (c_close k) Manual_stop
                                      (position_of_trade t) state
                  in Inr (ps\<lparr>ps_trades := write_exit f t (ps_trades ps), ps_usdt := usdt state', ps_base := 0\<rparr>)))
       | _ \<Rightarrow> Inr ps)"

definition last_equity :: "paper_session \<Rightarrow> flt option" where
  "last_equity ps =
     (case sort_key fst (ps_snapshots ps) of [] \<Rightarrow> None | xs \<Rightarrow> Some (snd (last xs)))"

definition set_status ::
    "string \<Rightarrow> (flt \<times> flt) option \<Rightarrow> ohlc list option \<Rightarrow> int \<Rightarrow> paper_session \<Rightarrow> py_error + paper_session" where
  "set_status action pair store clock ps =
     (if action = ''pause'' \<and> ps_status ps = Running then Inr (ps\<lparr>ps_status := Paused\<rparr>)
      else if action = ''resume'' \<and> ps_status ps \<in> {Paused, Halted} then
        (let ps1 = (if ps_status ps = Halted
                    then (case last_equity ps of None \<Rightarrow> ps | Some e \<Rightarrow> ps\<lparr>ps_peak_equity := e\<rparr>) else ps)
         in Inr (ps1\<lparr>ps_status := Running, ps_halt_reason := Not_halted\<rparr>))
      else if action = ''stop'' \<and> is_active (ps_status ps) then
        bindE (close_at_last_price pair store ps) (\<lambda>ps1.
          Inr (ps1\<lparr>ps_status := Stopped, ps_pending := None\<rparr>))
      else if action = ''reset'' then
        (if ps_in_evaluation ps then Inl ValueError
         else Inr (ps\<lparr>ps_trades := [], ps_snapshots := [], ps_usdt := ps_initial_balance ps, ps_base := 0,
                     ps_peak_equity := ps_initial_balance ps,
                     ps_last_candle_ts := (clock div ps_step ps) * ps_step ps - ps_step ps,
                     ps_pending := None, ps_halt_reason := Not_halted, ps_status := Running\<rparr>))
      else Inl ValueError)"

section \<open>The life of a session\<close>

text \<open>
  Every transaction of a session: rows of ticks, in any order and from any number of processes, a
  halt by a broken strategy, and the owner's actions. A transaction that raises leaves no trace.
\<close>

datatype transaction =
    Row "(flt \<times> flt) option" int ohlc signal
  | Broken_strategy
  | Owner string "(flt \<times> flt) option" "ohlc list option" int

fun transact :: "transaction \<Rightarrow> paper_session \<Rightarrow> py_error + paper_session" where
  "transact (Row pair now k g) ps = bindE (tick_candle pair now (k, g) ps) (\<lambda>(ps', _). Inr ps')"
| "transact Broken_strategy ps =
     Inr (ps\<lparr>ps_status := Halted, ps_halt_reason := Strategy_error,
             ps_events := ps_events ps @ [Strategy_error]\<rparr>)"
| "transact (Owner action pair store clock) ps = set_status action pair store clock ps"

inductive lives :: "paper_session \<Rightarrow> transaction list \<Rightarrow> paper_session \<Rightarrow> bool" where
  start: "lives ps [] ps"
| commit: "lives ps xs ps' \<Longrightarrow> transact x ps' = Inr ps'' \<Longrightarrow> lives ps (xs @ [x]) ps''"
| rollback: "lives ps xs ps' \<Longrightarrow> transact x ps' = Inl e \<Longrightarrow> lives ps (xs @ [x]) ps'"


section \<open>The books of a session\<close>

definition open_trades :: "paper_session \<Rightarrow> paper_trade list" where
  "open_trades ps = filter is_open_trade (ps_trades ps)"

definition closed_pnl :: "paper_trade list \<Rightarrow> flt" where
  "closed_pnl ts = sum_list (List.map (\<lambda>t. case pt_exit t of None \<Rightarrow> 0 | Some x \<Rightarrow> px_pnl x) ts)"

definition signal_times :: "paper_session \<Rightarrow> int set" where
  "signal_times ps = pt_signal_ts ` set (ps_trades ps)"

text \<open>The object the loop holds is the one open row, and it is the position of the simulation.\<close>

definition tracks :: "paper_session \<Rightarrow> paper_trade option \<Rightarrow> position option \<Rightarrow> bool" where
  "tracks ps trade pos \<longleftrightarrow> distinct (List.map pt_signal_ts (ps_trades ps))
     \<and> open_trades ps = (case trade of None \<Rightarrow> [] | Some t \<Rightarrow> [t])
     \<and> pos = map_option position_of_trade trade
     \<and> ps_base ps = (case pos of None \<Rightarrow> 0 | Some p \<Rightarrow> p_qty p)"

lemma write_exit_split:
  assumes "distinct (List.map pt_signal_ts (xs @ t # ys))"
  shows "write_exit f t (xs @ t # ys) = xs @ t\<lparr>pt_exit := Some (exit_of f)\<rparr> # ys"
  using assms unfolding write_exit_def by (auto intro!: map_idI) (metis image_eqI)+

text \<open>Closing the one open row: the other rows are closed already.\<close>

lemma close_tracked:
  assumes "tracks ps (Some t) pos"
  shows "distinct (List.map pt_signal_ts (write_exit f t (ps_trades ps)))
    \<and> filter is_open_trade (write_exit f t (ps_trades ps)) = []
    \<and> closed_pnl (write_exit f t (ps_trades ps)) = closed_pnl (ps_trades ps) + f_pnl f
    \<and> pt_signal_ts ` set (write_exit f t (ps_trades ps)) = signal_times ps"
proof -
  from assms have d: "distinct (List.map pt_signal_ts (ps_trades ps))"
    and op: "filter is_open_trade (ps_trades ps) = [t]" by (simp_all add: tracks_def open_trades_def)
  from op have "t \<in> set (filter is_open_trade (ps_trades ps))" by simp
  then have "t \<in> set (ps_trades ps)" and is_op: "is_open_trade t" by simp_all
  then obtain xs ys where sp: "ps_trades ps = xs @ t # ys" by (meson split_list)
  from op is_op sp have "filter is_open_trade xs = [] \<and> filter is_open_trade ys = []"
    by (cases "filter is_open_trade xs") auto
  with is_op d sp write_exit_split [of xs t ys f] show ?thesis
    by (simp add: is_open_trade_def closed_pnl_def signal_times_def exit_of_def)
qed

definition buys :: "fill list \<Rightarrow> fill list" where
  "buys = filter (\<lambda>f. f_side f = Buy)"

lemma buys_simps [simp]: "buys [] = []" "f_side f = Buy \<Longrightarrow> buys (f # fs) = f # buys fs"
  "f_side f = Sell \<Longrightarrow> buys (f # fs) = buys fs"
  by (simp_all add: buys_def)

text \<open>Fills that take turns are booked without an exception, and the rows follow the simulation.\<close>

lemma book_fills:
  assumes "alternates pos fs q" and "tracks ps trade pos"
    and "distinct (List.map f_signal_ts (buys fs))" and "f_signal_ts ` set (buys fs) \<inter> signal_times ps = {}"
  shows "\<exists>trades base trade'. runE (book_fill final) fs (ps, trade) = Inr (ps\<lparr>ps_trades := trades, ps_base := base\<rparr>, trade')
    \<and> tracks (ps\<lparr>ps_trades := trades, ps_base := base\<rparr>) trade' q
    \<and> closed_pnl trades = closed_pnl (ps_trades ps) + pnl_sum fs
    \<and> pt_signal_ts ` set trades = signal_times ps \<union> f_signal_ts ` set (buys fs)"
  using assms
proof (induction arbitrary: ps trade rule: alternates.induct)
  case (none p)
  then show ?case
    by (intro exI [of _ "ps_trades ps"] exI [of _ "ps_base ps"] exI [of _ trade]) (simp add: signal_times_def)
next
  case (buy f fs q)
  let ?t = "trade_of_fill f"
  let ?ps = "ps\<lparr>ps_trades := ps_trades ps @ [?t], ps_base := ps_base ps + f_qty f\<rparr>"
  from buy.prems(1) have tr: "trade = None" and none_open: "filter is_open_trade (ps_trades ps) = []"
    and base: "ps_base ps = 0" and d: "distinct (List.map pt_signal_ts (ps_trades ps))"
    by (auto simp: tracks_def open_trades_def split: option.splits)
  from buy.prems(3) buy.hyps(1) have fresh: "f_signal_ts f \<notin> signal_times ps" by simp
  then have new: "\<not> (\<exists>t \<in> set (ps_trades ps). pt_signal_ts t = f_signal_ts f)" by (auto simp: signal_times_def) (metis image_eqI)
  have booked: "book_fill final f (ps, trade) = Inr (?ps, Some ?t)"
    using new tr none_open buy.hyps(1)
    by (simp add: book_fill_def one_def is_open_trade_def trade_of_fill_def)
  have "tracks ?ps (Some ?t) (Some (position_of f))"
    using none_open base d fresh
    by (auto simp: tracks_def open_trades_def is_open_trade_def trade_of_fill_def position_of_trade_def
        position_of_def signal_times_def)
  moreover have times: "signal_times ?ps = insert (f_signal_ts f) (signal_times ps)"
    by (auto simp: signal_times_def trade_of_fill_def)
  moreover have "closed_pnl (ps_trades ?ps) = closed_pnl (ps_trades ps)"
    by (simp add: closed_pnl_def trade_of_fill_def)
  ultimately show ?case
    using buy.IH [of ?ps "Some ?t"] buy.prems(2,3) buy.hyps(1,2) booked by auto
next
  case (sell pos f fs q)
  from sell.prems(1) obtain t where tr: "trade = Some t" and pos: "pos = position_of_trade t"
    by (auto simp: tracks_def split: option.splits)
  let ?ps = "ps\<lparr>ps_trades := write_exit f t (ps_trades ps), ps_base := ps_base ps - f_qty f\<rparr>"
  from sell.hyps(1) have f: "f_side f = Sell" "f_qty f = p_qty pos" by (simp_all add: closes_def)
  have booked: "book_fill final f (ps, trade) = Inr (?ps, None)"
    using f tr by (simp add: book_fill_def)
  note closed = close_tracked [OF sell.prems(1) [unfolded tr], of f]
  have "tracks ?ps None None"
    using closed sell.prems(1) f tr by (simp add: tracks_def open_trades_def)
  moreover have "signal_times ?ps = signal_times ps" using closed by (simp add: signal_times_def)
  moreover have "distinct (List.map f_signal_ts (buys fs))" "f_signal_ts ` set (buys fs) \<inter> signal_times ps = {}"
    using sell.prems(2,3) f by simp_all
  ultimately obtain trades base trade' where
    "runE (book_fill final) fs (?ps, None) = Inr (?ps\<lparr>ps_trades := trades, ps_base := base\<rparr>, trade')"
    and "tracks (?ps\<lparr>ps_trades := trades, ps_base := base\<rparr>) trade' q"
    and "closed_pnl trades = closed_pnl (ps_trades ?ps) + pnl_sum fs"
    and "pt_signal_ts ` set trades = signal_times ps \<union> f_signal_ts ` set (buys fs)"
    using sell.IH [of ?ps None] by metis
  with booked closed f show ?case
    by (intro exI [of _ trades] exI [of _ base] exI [of _ trade']) simp
qed


definition paper_ok :: "paper_session \<Rightarrow> bool" where
  "paper_ok ps \<longleftrightarrow>
     (\<exists>trade. tracks ps trade (map_option position_of_trade trade)
        \<and> book_value (state_of ps trade) = ps_initial_balance ps + closed_pnl (ps_trades ps))
     \<and> distinct (List.map fst (ps_snapshots ps))
     \<and> (\<forall>ts \<in> fst ` set (ps_snapshots ps). ts \<le> ps_last_candle_ts ps)
     \<and> (\<forall>ts \<in> signal_times ps. ts \<le> ps_last_candle_ts ps)
     \<and> (\<forall>ts st. ps_pending ps = Some (Enter, ts, st) \<longrightarrow>
          ts \<le> ps_last_candle_ts ps \<and> (\<forall>t \<in> signal_times ps. t < ts))"

lemma load_tracked:
  "tracks ps trade pos \<Longrightarrow> load_state ps = Inr (state_of ps trade, trade)"
  by (auto simp: load_state_def tracks_def open_trades_def one_or_none_def split: option.splits)

lemma state_of_simps [simp]:
  "usdt (state_of ps trade) = ps_usdt ps"
  "s_position (state_of ps trade) = map_option position_of_trade trade"
  "s_pending (state_of ps trade) = map_option fst (ps_pending ps)"
  by (simp_all add: state_of_def)

text \<open>The pending signal after a candle is the one of that candle.\<close>

lemma on_candle_pending:
  "on_candle cfg k g a s = (s', fs) \<Longrightarrow> s_pending s' = Some p \<Longrightarrow>
     pending_ts s' = c_ts k \<and> (p = Enter \<longrightarrow> g_enter g \<and> s_position s' = None \<and> pending_stake s' = g_stake g)"
proof -
  assume r: "on_candle cfg k g a s = (s', fs)" and p: "s_pending s' = Some p"
  obtain s1 f1 s2 f2 where 1: "execute_pending cfg k a s = (s1, f1)" and 2: "check_stops cfg k s1 = (s2, f2)"
    by fastforce
  from 1 have "s_pending s1 = None" by (auto simp: execute_pending_def split: prod.splits)
  then have "s_pending (fst (sim_sell cfg ts raw reason pos s1)) = None" for ts raw reason pos
    by (simp add: sim_sell_def Let_def)
  with 2 \<open>s_pending s1 = None\<close> have "s_pending s2 = None"
    by (auto simp: check_stops_def Let_def split_beta split: option.splits if_splits)
  with r p 1 2 show ?thesis by (auto simp: on_candle_def record_signal_def split: if_splits)
qed

lemma halt_on_breach_frame [simp]:
  "ps_trades (halt_on_breach e d ps) = ps_trades ps" "ps_base (halt_on_breach e d ps) = ps_base ps"
  "ps_usdt (halt_on_breach e d ps) = ps_usdt ps" "ps_pending (halt_on_breach e d ps) = ps_pending ps"
  "ps_last_candle_ts (halt_on_breach e d ps) = ps_last_candle_ts ps"
  "ps_snapshots (halt_on_breach e d ps) = ps_snapshots ps"
  "ps_initial_balance (halt_on_breach e d ps) = ps_initial_balance ps"
  by (simp_all add: halt_on_breach_def split: list.split)

lemma tracks_cong:
  "ps_trades ps = ps_trades ps' \<Longrightarrow> ps_base ps = ps_base ps' \<Longrightarrow> tracks ps t p = tracks ps' t p"
  by (simp add: tracks_def open_trades_def)

text \<open>A newer candle is applied without an exception and keeps the books.\<close>

lemma apply_candle_ok:
  assumes ok: "paper_ok ps" and newer: "ps_last_candle_ts ps < c_ts k"
  defines "allow stale \<equiv> ps_status ps = Running \<and> \<not> stale"
  shows "\<exists>trade trade' s' fills ps'. load_state ps = Inr (state_of ps trade, trade)
    \<and> on_candle cfg k (g\<lparr>g_enter := g_enter g \<and> allow stale\<rparr>) (allow stale) (state_of ps trade) = (s', fills)
    \<and> apply_candle cfg k g stale ps = Inr ps' \<and> paper_ok ps' \<and> load_state ps' = Inr (state_of ps' trade', trade')
    \<and> usdt s' = ps_usdt ps' \<and> s_position s' = map_option position_of_trade trade'
    \<and> ps_pending ps' = map_option (\<lambda>p. (p, pending_ts s', pending_stake s')) (s_pending s')
    \<and> signal_times ps' = signal_times ps \<union> f_signal_ts ` set (buys fills)
    \<and> ps_last_candle_ts ps' = c_ts k \<and> ps_initial_balance ps' = ps_initial_balance ps"
proof -
  from ok obtain trade where tr: "tracks ps trade (map_option position_of_trade trade)"
    and book: "book_value (state_of ps trade) = ps_initial_balance ps + closed_pnl (ps_trades ps)"
    by (auto simp: paper_ok_def)
  note load = load_tracked [OF tr]
  obtain s' fills where oc: "on_candle cfg k (g\<lparr>g_enter := g_enter g \<and> allow stale\<rparr>) (allow stale) (state_of ps trade) = (s', fills)"
    by fastforce
  note alt = on_candle_alternates [OF oc]
  have sig: "\<exists>st. ps_pending ps = Some (Enter, f_signal_ts f, st)" if "f \<in> set (buys fills)" for f
  proof -
    from that alt have "map_option fst (ps_pending ps) = Some Enter" "f_signal_ts f = pending_ts (state_of ps trade)"
      by (auto simp: buys_def)
    then show ?thesis by (auto simp: state_of_def)
  qed
  from alt have "length (buys fills) \<le> 1" by (simp add: buys_def)
  then have dist: "distinct (List.map f_signal_ts (buys fills))" by (cases "buys fills") auto
  have fresh: "f_signal_ts ` set (buys fills) \<inter> signal_times ps = {}"
    using sig ok by (fastforce simp: paper_ok_def)
  from book_fills [OF _ tr dist fresh, of "s_position s'" "s_position s'"] alt
  obtain trades base trade' where
    booked: "runE (book_fill (s_position s')) fills (ps, trade) = Inr (ps\<lparr>ps_trades := trades, ps_base := base\<rparr>, trade')"
    and tr': "tracks (ps\<lparr>ps_trades := trades, ps_base := base\<rparr>) trade' (s_position s')"
    and pnl: "closed_pnl trades = closed_pnl (ps_trades ps) + pnl_sum fills"
    and times: "pt_signal_ts ` set trades = signal_times ps \<union> f_signal_ts ` set (buys fills)"
    by auto
  let ?ps1 = "ps\<lparr>ps_trades := trades, ps_base := base\<rparr>"
  from ok newer have "c_ts k \<notin> fst ` set (ps_snapshots ps)" by (auto simp: paper_ok_def)
  then obtain ps' where st: "store_candle (c_ts k) s' (c_close k) ?ps1 = Inr ps'"
    by (simp add: store_candle_def Let_def)
  have ps': "ps_trades ps' = trades" "ps_base ps' = base" "ps_usdt ps' = usdt s'"
    "ps_pending ps' = map_option (\<lambda>p. (p, pending_ts s', pending_stake s')) (s_pending s')"
    "ps_last_candle_ts ps' = c_ts k" "ps_initial_balance ps' = ps_initial_balance ps"
    "\<exists>e. ps_snapshots ps' = ps_snapshots ps @ [(c_ts k, e)]"
    using st by (auto simp: store_candle_def Let_def split: if_splits)
  have applied: "apply_candle cfg k g stale ps = Inr ps'"
    using load oc booked st unfolding allow_def by (simp add: apply_candle_def Let_def)
  have pos: "s_position s' = map_option position_of_trade trade'" using tr' by (simp add: tracks_def)
  have tracked: "tracks ps' trade' (map_option position_of_trade trade')"
    using tr' pos ps' tracks_cong [of ps' ?ps1] by simp
  have times': "signal_times ps' = signal_times ps \<union> f_signal_ts ` set (buys fills)"
    using ps' times by (simp add: signal_times_def)
  have "book_value (state_of ps' trade') = book_value s'"
    using ps' pos by (simp add: book_value_def)
  also have "\<dots> = ps_initial_balance ps' + closed_pnl (ps_trades ps')"
    using on_candle_book [OF oc] book pnl ps' by simp
  finally have book': "book_value (state_of ps' trade') = ps_initial_balance ps' + closed_pnl (ps_trades ps')" .
  have bound: "ts < c_ts k" if "ts \<in> signal_times ps'" for ts
    using that ok newer sig unfolding times' paper_ok_def by fastforce
  have "paper_ok ps'"
    unfolding paper_ok_def
  proof (intro conjI)
    show "\<exists>trade. tracks ps' trade (map_option position_of_trade trade)
        \<and> book_value (state_of ps' trade) = ps_initial_balance ps' + closed_pnl (ps_trades ps')"
      using tracked book' by blast
    show "distinct (List.map fst (ps_snapshots ps'))" "\<forall>ts \<in> fst ` set (ps_snapshots ps'). ts \<le> ps_last_candle_ts ps'"
      using ps' ok newer by (force simp: paper_ok_def)+
    show "\<forall>ts \<in> signal_times ps'. ts \<le> ps_last_candle_ts ps'" using bound ps' by fastforce
    show "\<forall>ts st. ps_pending ps' = Some (Enter, ts, st) \<longrightarrow>
          ts \<le> ps_last_candle_ts ps' \<and> (\<forall>t \<in> signal_times ps'. t < ts)"
      using on_candle_pending [OF oc] bound ps' by auto
  qed
  show ?thesis
    by (rule exI [of _ trade], rule exI [of _ trade'], rule exI [of _ s'], rule exI [of _ fills], rule exI [of _ ps'])
      (intro conjI load oc applied \<open>paper_ok ps'\<close> load_tracked [OF tracked] pos ps' times' ps'(3) [symmetric])
qed


section \<open>Every transaction keeps the books\<close>

lemma paper_ok_frame [simp]:
  "paper_ok (ps\<lparr>ps_status := a\<rparr>) = paper_ok ps" "paper_ok (ps\<lparr>ps_halt_reason := b\<rparr>) = paper_ok ps"
  "paper_ok (ps\<lparr>ps_events := c\<rparr>) = paper_ok ps" "paper_ok (ps\<lparr>ps_peak_equity := d\<rparr>) = paper_ok ps"
  by (simp_all add: paper_ok_def tracks_def open_trades_def signal_times_def book_value_def)

lemma paper_ok_drop_pending [simp]: "paper_ok ps \<Longrightarrow> paper_ok (ps\<lparr>ps_pending := None\<rparr>)"
  by (simp add: paper_ok_def tracks_def open_trades_def signal_times_def book_value_def)

lemma paper_ok_empty:
  "ps_trades ps = [] \<Longrightarrow> ps_snapshots ps = [] \<Longrightarrow> ps_base ps = 0 \<Longrightarrow> ps_pending ps = None \<Longrightarrow>
     ps_usdt ps = ps_initial_balance ps \<Longrightarrow> paper_ok ps"
  by (auto simp: paper_ok_def tracks_def open_trades_def signal_times_def book_value_def closed_pnl_def
      intro!: exI [of _ None])

lemma close_at_last_price_ok:
  assumes ok: "paper_ok ps" and c: "close_at_last_price pair store ps = Inr ps'"
  shows "paper_ok ps' \<and> ps_initial_balance ps' = ps_initial_balance ps"
proof -
  from ok obtain trade where tr: "tracks ps trade (map_option position_of_trade trade)"
    and book: "book_value (state_of ps trade) = ps_initial_balance ps + closed_pnl (ps_trades ps)"
    by (auto simp: paper_ok_def)
  note load = load_tracked [OF tr]
  show ?thesis
  proof (cases "ps' = ps")
    case True
    with ok show ?thesis by simp
  next
    case False
    with c load obtain t rows where t: "trade = Some t" and st: "store = Some rows"
      by (auto simp: close_at_last_price_def split: option.splits)
    define k where "k = last (store_load rows (Some (ps_last_candle_ts ps - ps_step ps)) None)"
    obtain s' f where sl: "sim_sell (paper_exec_cfg pair ps) (c_ts k) (c_close k) Manual_stop (position_of_trade t)
        (state_of ps trade) = (s', f)" by fastforce
    with False c load t st have
      ps': "ps' = ps\<lparr>ps_trades := write_exit f t (ps_trades ps), ps_usdt := usdt s', ps_base := 0\<rparr>"
      by (auto simp: close_at_last_price_def Let_def k_def split: if_splits)
    note closed = close_tracked [OF tr [unfolded t], of f]
    from sim_sell_book [OF sl] t have "usdt s' = book_value (state_of ps trade) + f_pnl f"
      by (auto simp: book_value_def)
    with closed book ps' have "book_value (state_of ps' None) = ps_initial_balance ps' + closed_pnl (ps_trades ps')"
      by (simp add: book_value_def)
    moreover from closed ps' have "tracks ps' None None" by (simp add: tracks_def open_trades_def)
    moreover from closed ps' have "signal_times ps' = signal_times ps" by (simp add: signal_times_def)
    ultimately have "paper_ok ps'"
      unfolding paper_ok_def using ok by (intro conjI exI [of _ None]) (simp_all add: paper_ok_def ps')
    then show ?thesis by (simp add: ps')
  qed
qed

lemma set_status_ok:
  assumes ok: "paper_ok ps" and c: "set_status action pair store clock ps = Inr ps'"
  shows "paper_ok ps' \<and> ps_initial_balance ps' = ps_initial_balance ps"
proof -
  consider "action = ''pause''" | "action = ''resume''" | "action = ''stop''" | "action = ''reset''"
    using c by (auto simp: set_status_def split: if_splits)
  then show ?thesis
  proof cases
    case 3
    with c close_at_last_price_ok [OF ok] show ?thesis
      by (auto simp: set_status_def bindE_eq_Inr split: if_splits)
  next
    case 4
    with c show ?thesis
      by (auto simp: set_status_def split: if_splits intro!: paper_ok_empty)
  qed (use c ok in \<open>auto simp: set_status_def Let_def split: if_splits option.splits\<close>)
qed

lemma tick_candle_ok:
  assumes ok: "paper_ok ps"
  shows "\<exists>ps' b. tick_candle pair now (k, g) ps = Inr (ps', b) \<and> paper_ok ps'
    \<and> ps_initial_balance ps' = ps_initial_balance ps \<and> ps_last_candle_ts ps' = max (ps_last_candle_ts ps) (c_ts k)
    \<and> b = (ps_last_candle_ts ps < c_ts k)"
proof (cases "ps_last_candle_ts ps < c_ts k")
  case True
  from apply_candle_ok [OF ok True, of "paper_exec_cfg pair ps" g "c_ts k + ps_step ps * 2 < now"] True
  show ?thesis by (auto simp: tick_candle_def)
next
  case False
  with ok show ?thesis by (intro exI [of _ ps] exI [of _ False]) (simp add: tick_candle_def)
qed

lemma transact_ok:
  assumes "paper_ok ps" and "transact x ps = Inr ps'"
  shows "paper_ok ps' \<and> ps_initial_balance ps' = ps_initial_balance ps"
proof (cases x)
  case (Row pair now k g)
  from tick_candle_ok [OF assms(1), of pair now k g] assms(2) Row show ?thesis by auto
next
  case Broken_strategy
  with assms show ?thesis by auto
next
  case (Owner action pair store clock)
  with assms set_status_ok show ?thesis by auto
qed

lemma lives_ok: "lives ps xs ps' \<Longrightarrow> paper_ok ps \<Longrightarrow> paper_ok ps' \<and> ps_initial_balance ps' = ps_initial_balance ps"
  by (induction rule: lives.induct) (auto dest: transact_ok)

lemma created_ok: "create_session tf capital fe sl vr r ev now = Inr ps \<Longrightarrow> paper_ok ps \<and> ps_initial_balance ps = capital"
  by (auto simp: create_session_def split: if_splits option.splits intro!: paper_ok_empty)

text \<open>What a session that was created and lived through transactions is.\<close>

definition reachable :: "paper_session \<Rightarrow> bool" where
  "reachable ps \<longleftrightarrow> (\<exists>tf capital fe sl vr r ev now ps0 xs.
     create_session tf capital fe sl vr r ev now = Inr ps0 \<and> lives ps0 xs ps)"

lemma reachable_ok: "reachable ps \<Longrightarrow> paper_ok ps"
  by (auto simp: reachable_def dest: created_ok lives_ok)

text \<open>The books of a paper session balance at every moment. After any history of
  candles (in any order, repeated, from several processes), strategy failures and owner actions, no
  candle makes the session fail, at most one trade is open, the base balance is its quantity, and
  the cash plus its cost is the start capital plus the profits and losses of the closed trades.\<close>

theorem paper_books_balance:
  assumes "create_session tf capital fe sl vr r ev now0 = Inr ps0" and "lives ps0 xs ps"
  shows "(\<exists>res. tick_candle pair now (k, g) ps = Inr res)
    \<and> length (open_trades ps) \<le> 1 \<and> ps_base ps = sum_list (List.map pt_qty (open_trades ps))
    \<and> ps_usdt ps + sum_list (List.map (\<lambda>t. pt_qty t * pt_entry_price t + pt_entry_fee t) (open_trades ps))
      = capital + closed_pnl (ps_trades ps)"
proof -
  from created_ok [OF assms(1)] lives_ok [OF assms(2)] have ok: "paper_ok ps" and init: "ps_initial_balance ps = capital"
    by auto
  from ok obtain trade where "tracks ps trade (map_option position_of_trade trade)"
    and "book_value (state_of ps trade) = capital + closed_pnl (ps_trades ps)"
    by (auto simp: paper_ok_def init)
  then show ?thesis using tick_candle_ok [OF ok, of pair now k g]
    by (auto simp: tracks_def book_value_def basis_def position_of_trade_def split: option.splits)
qed


text \<open>A session that trades: an entry signal, its fill at the next open, and a later stop by the owner.\<close>

definition example_life :: "transaction list" where
  "example_life =
     [Row None 150 \<lparr>c_ts = 60, c_open = 100, c_high = 101, c_low = 99, c_close = 100\<rparr>
        \<lparr>g_enter = True, g_exit = False, g_stake = None\<rparr>,
      Row None 200 \<lparr>c_ts = 120, c_open = 100, c_high = 101, c_low = 99, c_close = 100\<rparr>
        \<lparr>g_enter = False, g_exit = False, g_stake = None\<rparr>]"

definition example_session :: paper_session where
  "example_session = \<lparr>ps_status = Running, ps_halt_reason = Not_halted, ps_fee = 0, ps_slippage = 0,
     ps_risk = Map.empty, ps_step = 60, ps_last_candle_ts = 0, ps_pending = None,
     ps_in_evaluation = False, ps_initial_balance = 100, ps_peak_equity = 100, ps_usdt = 100,
     ps_base = 0, ps_trades = [], ps_snapshots = [], ps_events = []\<rparr>"

lemma example_created: "create_session (Some 60) 100 0 0 Map.empty Map.empty False 60 = Inr example_session"
  by (simp add: create_session_def example_session_def)

lemma lives_run: "runE transact xs ps = Inr ps' \<Longrightarrow> lives ps xs ps'"
proof (induction xs arbitrary: ps' rule: rev_induct)
  case Nil
  then show ?case by (simp add: lives.start)
next
  case (snoc x xs)
  have "runE transact (xs @ ys) ps = bindE (runE transact xs ps) (runE transact ys)" for ys
    by (induction xs arbitrary: ps) (auto simp: bindE_def split: sum.split)
  from snoc.prems this [of "[x]"] obtain t where "runE transact xs ps = Inr t" "transact x t = Inr ps'"
    by (auto simp: bindE_eq_Inr)
  with snoc.IH show ?case by (auto intro: lives.commit)
qed

lemmas run_simps = bindE_def runE.simps transact.simps tick_candle_def apply_candle_def load_state_def
  one_or_none_def state_of_def on_candle_def execute_pending_def check_stops_def record_signal_def
  sim_buy_def book_fill_def one_def store_candle_def halt_on_breach_def portfolio_breaches_def
  limits_from_dict_def default_limits_def day_start_equity_def equity_def round_qty_def
  paper_exec_cfg_def trade_of_fill_def is_open_trade_def position_of_trade_def Let_def

lemma example_lives: "\<exists>ps. lives example_session example_life ps \<and> ps_trades ps \<noteq> []"
proof -
  have "\<exists>ps. runE transact example_life example_session = Inr ps \<and> ps_trades ps \<noteq> []"
    by (simp add: example_life_def example_session_def run_simps)
  then show ?thesis by (auto dest: lives_run)
qed

theorem paper_books_balance_witness:
  "\<exists>ps. ps_trades ps \<noteq> [] \<and> ps_base ps = sum_list (List.map pt_qty (open_trades ps))
    \<and> ps_usdt ps + sum_list (List.map (\<lambda>t. pt_qty t * pt_entry_price t + pt_entry_fee t) (open_trades ps))
      = 100 + closed_pnl (ps_trades ps)"
  using example_lives paper_books_balance [OF example_created] by blast


section \<open>Paper trading is the simulation\<close>

lemma example_reachable: "reachable example_session"
  using example_created lives.start unfolding reachable_def by blast

text \<open>Property C10: paper trading computes what the backtest computes. In any reachable state a new
  candle, stored in the database and loaded again, leaves the cash, the position and the pending
  signal that the shared simulation computes from the loaded state; entries are masked unless the
  session is running and the candle is fresh.\<close>

theorem paper_refines_simulation:
  assumes "reachable ps" and "ps_last_candle_ts ps < c_ts k" and "load_state ps = Inr (s, trade)"
    and "allow = (ps_status ps = Running \<and> \<not> stale)"
    and "on_candle cfg k (g\<lparr>g_enter := g_enter g \<and> allow\<rparr>) allow s = (s', fills)"
  shows "\<exists>ps' s'' trade'. apply_candle cfg k g stale ps = Inr ps' \<and> load_state ps' = Inr (s'', trade')
    \<and> usdt s'' = usdt s' \<and> s_position s'' = s_position s' \<and> s_pending s'' = s_pending s'
    \<and> (s_pending s' \<noteq> None \<longrightarrow> pending_ts s'' = pending_ts s' \<and> pending_stake s'' = pending_stake s')"
proof -
  from apply_candle_ok [OF reachable_ok [OF assms(1)] assms(2), of cfg g stale] assms(3-5)
  obtain ps' trade' where "apply_candle cfg k g stale ps = Inr ps'"
    and "load_state ps' = Inr (state_of ps' trade', trade')" and "usdt s' = ps_usdt ps'"
    and "s_position s' = map_option position_of_trade trade'"
    and "ps_pending ps' = map_option (\<lambda>p. (p, pending_ts s', pending_stake s')) (s_pending s')"
    by auto
  then show ?thesis
    by (intro exI [of _ ps'] exI [of _ "state_of ps' trade'"] exI [of _ trade'])
      (auto simp: state_of_def option.map_comp o_def option.map_ident)
qed

theorem paper_refines_simulation_witness:
  "\<exists>ps' s'' trade'. apply_candle (paper_exec_cfg None example_session) (fst (example_candles ! 1)) example_signal False
       example_session = Inr ps' \<and> load_state ps' = Inr (s'', trade') \<and> s_pending s'' = Some Enter"
proof -
  let ?s = "state_of example_session None"
  have load: "load_state example_session = Inr (?s, None)"
    by (simp add: load_state_def example_session_def one_or_none_def)
  obtain s' fills where oc: "on_candle (paper_exec_cfg None example_session) (fst (example_candles ! 1))
      (example_signal\<lparr>g_enter := g_enter example_signal \<and> True\<rparr>) True ?s = (s', fills)" by fastforce
  then have "s_pending s' = Some Enter"
    by (auto simp: on_candle_def execute_pending_def check_stops_def record_signal_def state_of_def
        example_session_def example_signal_def)
  with paper_refines_simulation [OF example_reachable _ load _ oc, of False] show ?thesis
    by (auto simp: example_session_def example_candles_def)
qed

text \<open>Property C23: paper trading opens nothing it should not. A transaction for a candle adds a trade
  only in a running session, on a candle that is at most two candle lengths old, for an entry
  signal that was recorded by an earlier candle and no trade has used yet; whatever happens, the
  last applied candle is afterwards at least this one, so it cannot be applied again.\<close>

theorem paper_entries_authorised:
  assumes "reachable ps" and "tick_candle pair now (k, g) ps = Inr (ps', applied)"
    and "t \<in> set (ps_trades ps')" and "pt_signal_ts t \<notin> signal_times ps"
  shows "ps_status ps = Running \<and> now \<le> c_ts k + 2 * ps_step ps
    \<and> (\<exists>st. ps_pending ps = Some (Enter, pt_signal_ts t, st)) \<and> pt_signal_ts t < c_ts k
    \<and> applied \<and> ps_last_candle_ts ps' = c_ts k \<and> distinct (List.map pt_signal_ts (ps_trades ps'))"
proof -
  have newer: "ps_last_candle_ts ps < c_ts k" and applied: applied
    using assms(2-4) by (auto simp: tick_candle_def signal_times_def bindE_eq_Inr split: if_splits)
  define stale where "stale = (c_ts k + ps_step ps * 2 < now)"
  note ok = reachable_ok [OF assms(1)]
  from apply_candle_ok [OF ok newer, of "paper_exec_cfg pair ps" g stale]
  obtain trade s' fills where load: "load_state ps = Inr (state_of ps trade, trade)"
    and oc: "on_candle (paper_exec_cfg pair ps) k (g\<lparr>g_enter := g_enter g \<and> ps_status ps = Running \<and> \<not> stale\<rparr>)
        (ps_status ps = Running \<and> \<not> stale) (state_of ps trade) = (s', fills)"
    and ps': "apply_candle (paper_exec_cfg pair ps) k g stale ps = Inr ps'" "paper_ok ps'"
      "signal_times ps' = signal_times ps \<union> f_signal_ts ` set (buys fills)" "ps_last_candle_ts ps' = c_ts k"
    using assms(2) newer by (auto simp: tick_candle_def stale_def)
  from assms(3,4) ps'(3) obtain f where f: "f \<in> set (buys fills)" and t: "pt_signal_ts t = f_signal_ts f"
    by (auto simp: signal_times_def)
  from on_candle_alternates [OF oc] f have "map_option fst (ps_pending ps) = Some Enter"
    and "ps_status ps = Running \<and> \<not> stale" and "f_signal_ts f = pending_ts (state_of ps trade)"
    by (auto simp: buys_def)
  moreover from this(1,3) t obtain st where "ps_pending ps = Some (Enter, pt_signal_ts t, st)"
    by (auto simp: state_of_def)
  moreover from this ok have "pt_signal_ts t \<le> ps_last_candle_ts ps" by (auto simp: paper_ok_def)
  moreover from ps'(2) have "distinct (List.map pt_signal_ts (ps_trades ps'))" by (auto simp: paper_ok_def tracks_def)
  ultimately show ?thesis using newer applied ps'(4) by (auto simp: stale_def)
qed


theorem paper_entries_authorised_witness:
  "\<exists>ps (ps' :: paper_session) (t :: paper_trade). reachable ps \<and> t \<in> set (ps_trades ps') \<and> ps_status ps = Running \<and> pt_signal_ts t < 120
    \<and> ps_last_candle_ts ps' = 120"
proof -
  let ?k = "\<lparr>c_ts = 120, c_open = 100, c_high = 101, c_low = 99, c_close = 100 :: flt\<rparr>"
  let ?g = "\<lparr>g_enter = False, g_exit = False, g_stake = None\<rparr>"
  have "\<exists>ps ps' t. runE transact [hd example_life] example_session = Inr ps \<and> ps_trades ps = []
      \<and> tick_candle None 200 (?k, ?g) ps = Inr (ps', True) \<and> t \<in> set (ps_trades ps')"
    by (simp add: example_life_def example_session_def run_simps)
  then obtain ps ps' t where 1: "runE transact [hd example_life] example_session = Inr ps" "ps_trades ps = []"
    and 2: "tick_candle None 200 (?k, ?g) ps = Inr (ps', True)" and 3: "t \<in> set (ps_trades ps')" by blast
  from 1 example_created have r: "reachable ps" unfolding reachable_def by (blast dest: lives_run)
  from paper_entries_authorised [OF r 2 3] 1(2) have
    "ps_status ps = Running" "pt_signal_ts t < 120" "ps_last_candle_ts ps' = 120" by (simp_all add: signal_times_def)
  with r 3 show ?thesis by (intro exI [of _ ps] exI [of _ ps'] exI [of _ t]) simp
qed

section \<open>A tick catches up\<close>

lemma tick_rows_ok:
  assumes "paper_ok ps"
  shows "\<exists>m ps'. tick_rows pair now rows n ps = (Inr m, ps') \<and> paper_ok ps' \<and> n \<le> m \<and> m \<le> n + length rows
    \<and> ps_last_candle_ts ps \<le> ps_last_candle_ts ps' \<and> (\<forall>(k, g) \<in> set rows. c_ts k \<le> ps_last_candle_ts ps')
    \<and> ps_last_candle_ts ps' \<in> insert (ps_last_candle_ts ps) ((c_ts \<circ> fst) ` set rows)"
  using assms
proof (induction rows arbitrary: ps n)
  case (Cons row rows)
  obtain k g where row: "row = (k, g)" by fastforce
  from tick_candle_ok [OF Cons.prems, of pair now k g] obtain ps1 b where
    1: "tick_candle pair now (k, g) ps = Inr (ps1, b)" "paper_ok ps1"
       "ps_last_candle_ts ps1 = max (ps_last_candle_ts ps) (c_ts k)" by blast
  from Cons.IH [OF 1(2), of "if b then Suc n else n"] obtain m ps2 where
    "tick_rows pair now rows (if b then Suc n else n) ps1 = (Inr m, ps2)" "paper_ok ps2"
    "(if b then Suc n else n) \<le> m" "m \<le> (if b then Suc n else n) + length rows"
    "ps_last_candle_ts ps1 \<le> ps_last_candle_ts ps2" "\<forall>(k, g) \<in> set rows. c_ts k \<le> ps_last_candle_ts ps2"
    "ps_last_candle_ts ps2 \<in> insert (ps_last_candle_ts ps1) ((c_ts \<circ> fst) ` set rows)"
    by blast
  with 1 row show ?case by (auto split: if_splits simp: max_def)
qed simp

text \<open>The window of candles a tick loads holds every fresh candle of the file.\<close>

lemma fresh_rows:
  assumes "0 \<le> hist" and "\<And>k. fresh k \<Longrightarrow> t < c_ts k"
    and "df = store_load candles (Some (t - hist)) None" and "length sig = length df"
  shows "set (filter fresh df) = {k \<in> set candles. fresh k}"
    and "fst ` set (filter (\<lambda>(k, _). fresh k) (zip df sig)) = {k \<in> set candles. fresh k}"
proof -
  show df: "set (filter fresh df) = {k \<in> set candles. fresh k}"
    using assms(1,2) by (fastforce simp: assms(3) store_load_def)
  have "fst ` set (zip df sig) = set df" using assms(4) by (metis list.set_map map_fst_zip)
  then have "fst ` set (filter (\<lambda>(k, _). fresh k) (zip df sig)) = {k \<in> set df. fresh k}" by force
  with df show "fst ` set (filter (\<lambda>(k, _). fresh k) (zip df sig)) = {k \<in> set candles. fresh k}" by auto
qed



end
