(* ===== verification/Ql_Backtest.thy ===== *)
theory Ql_Backtest
  imports Ql_Sim Metrics
begin

text \<open>
  The backtester of quantlab (quantlab/backtest/engine.py) and its metrics
  (quantlab/backtest/metrics.py). A frame is a list of candles, a strategy's answer a signal per
  candle. The Sharpe and Sortino ratios, which take square roots, are left out of the metrics.
\<close>

section \<open>Metrics\<close>

record round_trip =
  rt_entry_ts :: int
  rt_exit_ts :: int
  rt_entry_price :: flt
  rt_exit_price :: flt
  rt_qty :: flt
  rt_fees :: flt
  rt_pnl :: flt
  rt_pnl_pct :: flt
  rt_reason :: fill_reason

fun streak_step :: "bool \<Rightarrow> nat \<times> nat \<Rightarrow> nat \<times> nat" where
  "streak_step v (best, cur) = (let cur' = (if v then cur + 1 else 0) in (max best cur', cur'))"

definition max_streak :: "bool list \<Rightarrow> nat" where
  "max_streak values = fst (fold streak_step values (0, 0))"

record metrics =
  mt_initial_balance :: flt
  mt_final_balance :: flt
  mt_net_profit :: flt
  mt_total_return :: "flt option"
  mt_win_rate :: "flt option"
  mt_total_trades :: nat
  mt_winning_trades :: nat
  mt_losing_trades :: nat
  mt_profit_factor :: "flt option"
  mt_max_drawdown :: "flt option"
  mt_avg_trade_return :: "flt option"
  mt_avg_holding :: "flt option"
  mt_fees_paid :: flt
  mt_exposure :: flt
  mt_consecutive_wins :: nat
  mt_consecutive_losses :: nat

definition mean :: "flt list \<Rightarrow> flt" where
  "mean xs = sum_list xs / of_nat (length xs)"

definition safe :: "flt \<Rightarrow> flt" where
  "safe x = py_round x 6"

text \<open>
  The drawdown in percent at every point. A running peak of 0 makes numpy divide by 0 and the
  minimum is then not a finite number, which \<open>_safe\<close> reports as nothing.
\<close>

definition drawdown_pct :: "flt list \<Rightarrow> flt list" where
  "drawdown_pct eq = map2 (\<lambda>e p. (e / p - 1) * 100) eq (cummax eq)"

definition max_drawdown_pct_of :: "flt list \<Rightarrow> flt option" where
  "max_drawdown_pct_of eq =
     (if 0 \<in> set (cummax eq) then None else Some (safe (min_list_py (drawdown_pct eq))))"

definition compute :: "(int \<times> flt) list \<Rightarrow> round_trip list \<Rightarrow> flt \<Rightarrow> metrics" where
  "compute pts trades initial =
     (let eq = (if pts \<noteq> [] then List.map snd pts else [initial]);
          final = last eq;
          wins = filter (\<lambda>t. rt_pnl t > 0) trades;
          losses = filter (\<lambda>t. rt_pnl t \<le> 0) trades;
          gross_win = sum_list (List.map rt_pnl wins);
          gross_loss = - sum_list (List.map rt_pnl losses);
          holds = List.map (\<lambda>t. rt_exit_ts t - rt_entry_ts t) (filter (\<lambda>t. rt_exit_ts t \<noteq> 0) trades);
          total_span = (if length pts > 1 then fst (last pts) - fst (hd pts) else 0)
      in \<lparr>mt_initial_balance = py_round initial 4, mt_final_balance = py_round final 4,
          mt_net_profit = py_round (final - initial) 4,
          mt_total_return = (if initial \<noteq> 0 then Some (safe ((final / initial - 1) * 100)) else None),
          mt_win_rate = (if trades \<noteq> []
            then Some (safe (of_nat (length wins) / of_nat (length trades) * 100)) else None),
          mt_total_trades = length trades, mt_winning_trades = length wins,
          mt_losing_trades = length losses,
          mt_profit_factor = (if gross_loss > 0 then Some (safe (gross_win / gross_loss)) else None),
          mt_max_drawdown = max_drawdown_pct_of eq,
          mt_avg_trade_return = (if trades \<noteq> [] then Some (safe (mean (List.map rt_pnl_pct trades))) else None),
          mt_avg_holding = (if holds \<noteq> [] then Some (safe (mean (List.map of_int holds))) else None),
          mt_fees_paid = py_round (sum_list (List.map rt_fees trades)) 6,
          mt_exposure = (if total_span \<noteq> 0 \<and> holds \<noteq> []
            then safe (of_int (sum_list holds) / of_int total_span * 100) else 0),
          mt_consecutive_wins = max_streak (List.map (\<lambda>t. rt_pnl t > 0) trades),
          mt_consecutive_losses = max_streak (List.map (\<lambda>t. rt_pnl t \<le> 0) trades)\<rparr>)"

text \<open>Year and month of a time in seconds, in UTC: \<open>datetime.fromtimestamp\<close> on the Gregorian calendar.\<close>

definition year_month :: "int \<Rightarrow> int \<times> int" where
  "year_month ts =
     (let z = ts div 86400 + 719468;
          era = z div 146097;
          doe = z mod 146097;
          yoe = (doe - doe div 1460 + doe div 36524 - doe div 146096) div 365;
          doy = doe - (365 * yoe + yoe div 4 - yoe div 100);
          mp = (5 * doy + 2) div 153;
          m = (if mp < 10 then mp + 3 else mp - 9);
          y = yoe + era * 400
      in (if m \<le> 2 then y + 1 else y, m))"

type_synonym month_acc = "flt \<times> (int \<times> int) option \<times> flt \<times> (int \<times> int \<times> flt) list"

definition month_row :: "int \<times> int \<Rightarrow> flt \<Rightarrow> flt \<Rightarrow> int \<times> int \<times> flt" where
  "month_row key prev last_e = (fst key, snd key - 1, py_round ((last_e / prev - 1) * 100) 4)"

fun month_step :: "int \<times> flt \<Rightarrow> month_acc \<Rightarrow> month_acc" where
  "month_step (ts, e) (prev, key, last_e, out) =
     (let k = year_month ts
      in case key of
           Some k0 \<Rightarrow> if k \<noteq> k0 then (last_e, Some k, e, out @ [month_row k0 prev last_e])
                      else (prev, Some k, e, out)
         | None \<Rightarrow> (prev, Some k, e, out))"

definition monthly_returns :: "(int \<times> flt) list \<Rightarrow> (int \<times> int \<times> flt) list" where
  "monthly_returns pts =
     (case pts of
        [] \<Rightarrow> []
      | (_, e0) # _ \<Rightarrow>
          (case fold month_step pts (e0, None, e0, []) of
             (prev, Some key, last_e, out) \<Rightarrow> out @ [month_row key prev last_e]
           | (_, None, _, out) \<Rightarrow> out))"

section \<open>The run\<close>

record bt_acc =
  ba_state :: sim_state
  ba_open_buy :: "fill option"
  ba_trades :: "round_trip list"
  ba_equity :: "(int \<times> flt) list"

definition round_trip_of :: "fill \<Rightarrow> fill \<Rightarrow> round_trip" where
  "round_trip_of b f = \<lparr>rt_entry_ts = f_ts b, rt_exit_ts = f_ts f, rt_entry_price = f_price b,
     rt_exit_price = f_price f, rt_qty = f_qty f, rt_fees = f_fee b + f_fee f, rt_pnl = f_pnl f,
     rt_pnl_pct = f_pnl_pct f, rt_reason = f_reason f\<rparr>"

definition pair_fill :: "fill \<Rightarrow> fill option \<times> round_trip list \<Rightarrow> py_error + fill option \<times> round_trip list" where
  "pair_fill f acc =
     (if f_side f = Buy then Inr (Some f, snd acc)
      else case fst acc of
        None \<Rightarrow> Inl AttributeError
      | Some b \<Rightarrow> Inr (fst acc, snd acc @ [round_trip_of b f]))"

definition bt_row :: "exec_config \<Rightarrow> int option \<Rightarrow> ohlc \<times> signal \<Rightarrow> bt_acc \<Rightarrow> py_error + bt_acc" where
  "bt_row cfg start_ts row a =
     (case row of (k, g) \<Rightarrow>
        if (case start_ts of None \<Rightarrow> False | Some st \<Rightarrow> c_ts k < st) then Inr a
        else
          (let (state', fills) = on_candle cfg k g True (ba_state a)
           in bindE (runE pair_fill fills (ba_open_buy a, ba_trades a)) (\<lambda>(ob, trades).
                Inr (a\<lparr>ba_state := state', ba_open_buy := ob, ba_trades := trades,
                       ba_equity := ba_equity a @ [(c_ts k, equity state' (c_close k))]\<rparr>))))"

record backtest_output =
  bo_metrics :: metrics
  bo_trades :: "round_trip list"
  bo_equity :: "(int \<times> flt) list"
  bo_monthly :: "(int \<times> int \<times> flt) list"
  bo_rejected :: "(int \<times> flt) list"

definition run_on_signals ::
    "(ohlc \<times> signal) list \<Rightarrow> flt \<Rightarrow> exec_config \<Rightarrow> int option \<Rightarrow> py_error + backtest_output" where
  "run_on_signals rows initial cfg start_ts =
     bindE (runE (bt_row cfg start_ts) rows
              \<lparr>ba_state = new_state initial, ba_open_buy = None, ba_trades = [], ba_equity = []\<rparr>)
       (\<lambda>a. Inr \<lparr>bo_metrics = compute (ba_equity a) (ba_trades a) initial, bo_trades = ba_trades a,
                 bo_equity = ba_equity a, bo_monthly = monthly_returns (ba_equity a),
                 bo_rejected = rejected (ba_state a)\<rparr>)"

definition bt_exec_config :: "(string \<Rightarrow> flt option) \<Rightarrow> exec_config" where
  "bt_exec_config params =
     (let get = (\<lambda>key d. case params key of None \<Rightarrow> d | Some v \<Rightarrow> v)
      in \<lparr>fee = get ''fee'' (1/1000), slippage = get ''slippage'' (1/2000),
          stake_pct = get ''stake_pct'' 1, stoploss_pct = get ''stoploss_pct'' 0,
          takeprofit_pct = get ''takeprofit_pct'' 0,
          cfg_filters = \<lparr>min_notional = get ''min_notional'' 5, step_size = get ''step_size'' 0,
                         min_qty = get ''min_qty'' 0\<rparr>\<rparr>)"

text \<open>\<open>signals\<close> is the strategy with its parameters and the stake series.\<close>

definition run_backtest ::
    "(ohlc list \<Rightarrow> signal list) \<Rightarrow> ohlc list \<Rightarrow> (string \<Rightarrow> flt option) \<Rightarrow> flt \<Rightarrow> exec_config option
       \<Rightarrow> int option \<Rightarrow> py_error + backtest_output" where
  "run_backtest signals df params initial cfg start_ts =
     run_on_signals (zip df (signals df)) initial
       (case cfg of Some c \<Rightarrow> c | None \<Rightarrow> bt_exec_config params) start_ts"


section \<open>Streaks\<close>

lemma suffix_of_trues:
  "(\<exists>pre. vs = pre @ replicate n True) \<longleftrightarrow> n \<le> length (takeWhile (\<lambda>v. v) (rev vs))"
proof (induction vs arbitrary: n rule: rev_induct)
  case (snoc v vs)
  show ?case
  proof (cases n)
    case (Suc m)
    have "replicate (Suc m) True = replicate m True @ [True]" by (simp add: replicate_append_same)
    then have "(\<exists>pre. vs @ [v] = pre @ replicate n True) \<longleftrightarrow> v \<and> (\<exists>pre. vs = pre @ replicate m True)"
      unfolding Suc by (simp del: replicate_Suc flip: append_assoc) blast
    with snoc [of m] Suc show ?thesis by simp
  qed simp
qed simp

text \<open>The one pass finds the longest run of true values.\<close>

lemma max_streak_longest:
  "n \<le> max_streak vs \<longleftrightarrow> (\<exists>pre post. vs = pre @ replicate n True @ post)"
proof -
  have "snd (fold streak_step vs (0, 0)) = length (takeWhile (\<lambda>v. v) (rev vs))
      \<and> (n \<le> fst (fold streak_step vs (0, 0)) \<longleftrightarrow> (\<exists>pre post. vs = pre @ replicate n True @ post))" for n
  proof (induction vs arbitrary: n rule: rev_induct)
    case (snoc v vs)
    obtain best cur where f: "fold streak_step vs (0, 0) = (best, cur)" by fastforce
    with snoc have cur: "cur = length (takeWhile (\<lambda>v. v) (rev vs))"
      and best: "n \<le> best \<longleftrightarrow> (\<exists>pre post. vs = pre @ replicate n True @ post)" by simp_all
    have split: "(\<exists>pre post. vs @ [v] = pre @ replicate n True @ post)
        \<longleftrightarrow> (\<exists>pre post. vs = pre @ replicate n True @ post) \<or> (\<exists>pre. vs @ [v] = pre @ replicate n True)"
      (is "?all \<longleftrightarrow> ?old \<or> ?end")
    proof
      assume ?all
      then obtain pre post where e: "vs @ [v] = pre @ replicate n True @ post" by blast
      show "?old \<or> ?end"
      proof (cases post rule: rev_cases)
        case Nil
        with e show ?thesis by auto
      next
        case (snoc ys y)
        with e have "vs = pre @ replicate n True @ ys" by (simp flip: append_assoc)
        then show ?thesis by blast
      qed
    next
      assume "?old \<or> ?end"
      then show ?all by (metis append.assoc append_Nil2)
    qed
    from suffix_of_trues [of "vs @ [v]" n] best cur f split show ?case by (auto simp: Let_def le_max_iff_disj)
  qed auto
  then show ?thesis by (simp add: max_streak_def)
qed

section \<open>Round trips account for the profit\<close>

definition holds_buy :: "fill option \<Rightarrow> position option \<Rightarrow> bool" where
  "holds_buy ob pos \<longleftrightarrow> (\<forall>p. pos = Some p \<longrightarrow> (\<exists>b. ob = Some b \<and> position_of b = p))"

definition exact_trip :: "round_trip \<Rightarrow> bool" where
  "exact_trip t \<longleftrightarrow> rt_pnl t = rt_qty t * (rt_exit_price t - rt_entry_price t) - rt_fees t"

lemma pair_fills:
  assumes "alternates pos fs q" and "holds_buy ob pos" and "list_all exact_trip trades"
  shows "\<exists>ob' trades'. runE pair_fill fs (ob, trades) = Inr (ob', trades') \<and> holds_buy ob' q
    \<and> list_all exact_trip trades'
    \<and> sum_list (List.map rt_pnl trades') = sum_list (List.map rt_pnl trades) + pnl_sum fs"
  using assms
proof (induction arbitrary: ob trades rule: alternates.induct)
  case (none p)
  then show ?case by simp
next
  case (buy f fs q)
  from buy.IH [of "Some f" trades] buy.prems buy.hyps show ?case
    by (simp add: pair_fill_def holds_buy_def)
next
  case (sell pos f fs q)
  from sell.prems(1) obtain b where b: "ob = Some b" "position_of b = pos" by (auto simp: holds_buy_def)
  from sell.hyps(1) b(2) have "exact_trip (round_trip_of b f)" and f: "f_side f = Sell"
    by (auto simp: closes_def exact_trip_def round_trip_of_def position_of_def basis_def algebra_simps)
  with sell.prems(2) have all: "list_all exact_trip (trades @ [round_trip_of b f])" by simp
  have "rt_pnl (round_trip_of b f) = f_pnl f" by (simp add: round_trip_of_def)
  with sell.IH [of ob "trades @ [round_trip_of b f]", OF _ all] b f show ?case
    by (force simp: pair_fill_def holds_buy_def)
qed

definition started :: "int option \<Rightarrow> ohlc \<times> signal \<Rightarrow> bool" where
  "started start_ts row \<longleftrightarrow> (case start_ts of None \<Rightarrow> True | Some st \<Rightarrow> st \<le> c_ts (fst row))"

definition always_allowed :: "(ohlc \<times> signal) list \<Rightarrow> (ohlc \<times> signal \<times> bool) list" where
  "always_allowed rows = List.map (\<lambda>(k, g). (k, g, True)) rows"

lemma bt_rows_run:
  assumes "holds_buy (ba_open_buy a) (s_position (ba_state a))" and "list_all exact_trip (ba_trades a)"
    and "run_candles cfg (always_allowed (filter (started start_ts) rows)) (ba_state a) = (s', fills)"
  shows "\<exists>a'. runE (bt_row cfg start_ts) rows a = Inr a' \<and> ba_state a' = s' \<and> list_all exact_trip (ba_trades a')
    \<and> sum_list (List.map rt_pnl (ba_trades a')) = sum_list (List.map rt_pnl (ba_trades a)) + pnl_sum (concat fills)"
  using assms
proof (induction rows arbitrary: a fills)
  case Nil
  then show ?case by (simp add: always_allowed_def)
next
  case (Cons row rows)
  obtain k g where row: "row = (k, g)" by fastforce
  show ?case
  proof (cases "started start_ts row")
    case False
    with Cons row show ?thesis by (simp add: bt_row_def started_def not_le split: option.splits)
  next
    case True
    obtain s1 f1 where oc: "on_candle cfg k g True (ba_state a) = (s1, f1)" by fastforce
    obtain rest where r: "run_candles cfg (always_allowed (filter (started start_ts) rows)) s1 = (s', rest)"
      and fills: "fills = f1 # rest"
      using Cons.prems(3) True row oc by (auto simp: always_allowed_def split: prod.splits)
    from pair_fills [OF conjunct1 [OF on_candle_alternates [OF oc]] Cons.prems(1,2)] obtain ob trades where
      p: "runE pair_fill f1 (ba_open_buy a, ba_trades a) = Inr (ob, trades)" "holds_buy ob (s_position s1)"
        "list_all exact_trip trades"
        "sum_list (List.map rt_pnl trades) = sum_list (List.map rt_pnl (ba_trades a)) + pnl_sum f1" by blast
    let ?a = "a\<lparr>ba_state := s1, ba_open_buy := ob, ba_trades := trades,
                ba_equity := ba_equity a @ [(c_ts k, equity s1 (c_close k))]\<rparr>"
    from True row oc p(1) have "bt_row cfg start_ts row a = Inr ?a"
      by (auto simp: bt_row_def started_def split: option.splits)
    with Cons.IH [of ?a rest] p r fills show ?thesis by (auto simp: add.assoc)
  qed
qed


end
