(* ===== verification/Ql_Strategies.thy ===== *)
theory Ql_Strategies
  imports Ql_Backtest
begin

text \<open>
  The strategies of quantlab (quantlab/strategies): indicators over columns of candles, the ten
  technical strategies with their parameters, and the rules of the visual builder; and the position
  size of quantlab/risk/sizing.py. A column is a list of floats, in which an infinity or NaN may
  occur; a zero has no sign. What pandas computes over windows is a parameter.
\<close>

section \<open>Columns\<close>

type_synonym series = "efloat list"

record bar = ohlc +
  c_volume :: flt

fun e_neg :: "efloat \<Rightarrow> efloat" where
  "e_neg (Fin a) = Fin (- a)"
| "e_neg PosInf = NegInf"
| "e_neg NegInf = PosInf"
| "e_neg NaN = NaN"

fun e_add :: "efloat \<Rightarrow> efloat \<Rightarrow> efloat" where
  "e_add (Fin a) (Fin b) = Fin (a + b)"
| "e_add NaN _ = NaN"
| "e_add _ NaN = NaN"
| "e_add PosInf NegInf = NaN"
| "e_add NegInf PosInf = NaN"
| "e_add PosInf _ = PosInf"
| "e_add NegInf _ = NegInf"
| "e_add _ PosInf = PosInf"
| "e_add _ NegInf = NegInf"

definition e_sub :: "efloat \<Rightarrow> efloat \<Rightarrow> efloat" where
  "e_sub a b = e_add a (e_neg b)"

fun e_sgn :: "efloat \<Rightarrow> flt" where
  "e_sgn (Fin a) = sgn a"
| "e_sgn PosInf = 1"
| "e_sgn NegInf = - 1"
| "e_sgn NaN = 0"

definition e_inf :: "flt \<Rightarrow> efloat" where \<comment> \<open>the infinity of a sign\<close>
  "e_inf s = (if s > 0 then PosInf else if s < 0 then NegInf else NaN)"

fun e_mul :: "efloat \<Rightarrow> efloat \<Rightarrow> efloat" where
  "e_mul (Fin a) (Fin b) = Fin (a * b)"
| "e_mul NaN _ = NaN"
| "e_mul _ NaN = NaN"
| "e_mul a b = e_inf (e_sgn a * e_sgn b)"

fun e_div :: "efloat \<Rightarrow> efloat \<Rightarrow> efloat" where
  "e_div (Fin a) (Fin b) = ediv a b"
| "e_div (Fin a) NaN = NaN"
| "e_div (Fin a) _ = Fin 0"
| "e_div NaN _ = NaN"
| "e_div a (Fin b) = e_inf (e_sgn a * (if b < 0 then - 1 else 1))"
| "e_div a _ = NaN"

definition e_lt :: "efloat \<Rightarrow> efloat \<Rightarrow> bool" where
  "e_lt a b \<longleftrightarrow> ele a b \<and> \<not> ele b a"

definition e_abs :: "efloat \<Rightarrow> efloat" where
  "e_abs a = (if e_lt a (Fin 0) then e_neg a else a)"

definition e_min :: "efloat \<Rightarrow> efloat \<Rightarrow> efloat" where \<comment> \<open>Python's \<open>min(a, b)\<close>\<close>
  "e_min a b = (if e_lt b a then b else a)"

definition e_max :: "efloat \<Rightarrow> efloat \<Rightarrow> efloat" where
  "e_max a b = (if e_lt a b then b else a)"

text \<open>\<open>clip(lower=...)\<close> and \<open>clip(upper=...)\<close> keep NaN.\<close>

abbreviation clip_lower :: "flt \<Rightarrow> series \<Rightarrow> series" where
  "clip_lower x \<equiv> map (\<lambda>a. e_max a (Fin x))"

abbreviation clip_upper :: "flt \<Rightarrow> series \<Rightarrow> series" where
  "clip_upper x \<equiv> map (\<lambda>a. e_min a (Fin x))"

abbreviation lift2 :: "('a \<Rightarrow> 'b \<Rightarrow> 'c) \<Rightarrow> 'a list \<Rightarrow> 'b list \<Rightarrow> 'c list" where
  "lift2 f xs ys \<equiv> map (\<lambda>p. f (fst p) (snd p)) (zip xs ys)"

definition shift :: "'a \<Rightarrow> 'a list \<Rightarrow> 'a list" where \<comment> \<open>\<open>shift(fill_value=x)\<close>\<close>
  "shift x xs = take (length xs) (x # xs)"

abbreviation sdiff :: "series \<Rightarrow> series" where
  "sdiff s \<equiv> lift2 e_sub s (shift NaN s)"

abbreviation zero_as_nan :: "series \<Rightarrow> series" where \<comment> \<open>\<open>replace(0, np.nan)\<close>\<close>
  "zero_as_nan \<equiv> map (\<lambda>a. if a = Fin 0 then NaN else a)"

text \<open>\<open>s.where(b, other)\<close>\<close>

abbreviation where_else :: "bool list \<Rightarrow> efloat \<Rightarrow> series \<Rightarrow> series" where
  "where_else b other s \<equiv> lift2 (\<lambda>c x. if c then x else other) b s"

section \<open>What pandas computes\<close>

datatype ewm_weight = Span int | Alpha flt

datatype rolling_kind = R_mean | R_sum | R_min | R_max | R_std0 | R_std1

text \<open>
  \<open>s.ewm(..., adjust=False, min_periods=n).mean()\<close> and \<open>s.rolling(n, min_periods=n)\<close> with its
  aggregates, the standard deviation of the population (\<open>ddof=0\<close>) and of the sample (\<open>ddof=1\<close>). Windows
  are positive; pandas raises on others.
\<close>

record pandas =
  pd_ewm :: "ewm_weight \<Rightarrow> int \<Rightarrow> series \<Rightarrow> series"
  pd_rolling :: "rolling_kind \<Rightarrow> int \<Rightarrow> series \<Rightarrow> series"

text \<open>
  A function of a history is causal when it has a value for every row and later rows do not change the
  earlier values.
\<close>

definition causal :: "('a list \<Rightarrow> 'b list) \<Rightarrow> bool" where
  "causal f \<longleftrightarrow> (\<forall>xs. length (f xs) = length xs \<and> (\<forall>k. f (take k xs) = take k (f xs)))"

definition causal_pandas :: "pandas \<Rightarrow> bool" where
  "causal_pandas P \<longleftrightarrow> (\<forall>w n. causal (pd_ewm P w n)) \<and> (\<forall>r n. causal (pd_rolling P r n))"

named_theorems causal_rules

lemma causal_take: "causal f \<Longrightarrow> f (take k xs) = take k (f xs)"
  by (simp add: causal_def)

lemma causal_length: "causal f \<Longrightarrow> length (f xs) = length xs"
  by (simp add: causal_def)

lemma causal_comp: "causal g \<Longrightarrow> causal f \<Longrightarrow> causal (\<lambda>xs. g (f xs))"
  by (simp add: causal_def)

lemma causal_id [causal_rules]: "causal (\<lambda>xs. xs)"
  by (simp add: causal_def)

lemma causal_map [causal_rules]: "causal f \<Longrightarrow> causal (\<lambda>xs. map h (f xs))"
  by (simp add: causal_def take_map)

lemma causal_replicate [causal_rules]: "causal (\<lambda>xs. replicate (length xs) x)"
  by (auto simp: causal_def min_def)

lemma causal_index [causal_rules]: "causal (\<lambda>xs. [0..<length xs])"
  by (auto simp: causal_def min_def)

lemma causal_zip [causal_rules]: "causal f \<Longrightarrow> causal g \<Longrightarrow> causal (\<lambda>xs. zip (f xs) (g xs))"
  by (simp add: causal_def take_zip)

lemma shift_take: "shift x (take k xs) = take k (shift x xs)"
proof -
  have "take n (x # take k xs) = take n (x # xs)" if "n \<le> k" for n
    using that by (cases n) auto
  then show ?thesis by (simp add: shift_def min_def)
qed

lemma length_shift [simp]: "length (shift x xs) = length xs"
  by (simp add: shift_def)

lemma causal_shift [causal_rules]: "causal f \<Longrightarrow> causal (\<lambda>xs. shift x (f xs))"
  by (simp add: causal_def shift_take)

lemma causal_ewm [causal_rules]: "causal_pandas P \<Longrightarrow> causal f \<Longrightarrow> causal (\<lambda>xs. pd_ewm P w n (f xs))"
  by (auto simp: causal_pandas_def intro: causal_comp)

lemma causal_rolling [causal_rules]: "causal_pandas P \<Longrightarrow> causal f \<Longrightarrow> causal (\<lambda>xs. pd_rolling P r n (f xs))"
  by (auto simp: causal_pandas_def intro: causal_comp)

section \<open>Indicators\<close>

definition ema :: "pandas \<Rightarrow> series \<Rightarrow> int \<Rightarrow> series" where
  "ema P s n = pd_ewm P (Span n) n s"

definition sma :: "pandas \<Rightarrow> series \<Rightarrow> int \<Rightarrow> series" where
  "sma P s n = pd_rolling P R_mean n s"

abbreviation wilder :: "pandas \<Rightarrow> series \<Rightarrow> int \<Rightarrow> series" where \<comment> \<open>\<open>ewm(alpha=1 / n, ...)\<close>\<close>
  "wilder P s n \<equiv> pd_ewm P (Alpha (1 / of_int n)) n s"

definition rsi :: "pandas \<Rightarrow> series \<Rightarrow> int \<Rightarrow> series" where
  "rsi P c n =
     (let d = sdiff c;
          up = wilder P (clip_lower 0 d) n;
          dn = wilder P (map e_neg (clip_upper 0 d)) n;
          out = map (\<lambda>r. e_sub (Fin 100) (e_div (Fin 100) (e_add (Fin 1) r))) (lift2 e_div up (zero_as_nan dn))
      in where_else (map (\<lambda>u. u \<noteq> NaN) up) NaN (where_else (map (\<lambda>x. x \<noteq> Fin 0) dn) (Fin 100) out))"

definition macd_line :: "pandas \<Rightarrow> series \<Rightarrow> int \<Rightarrow> int \<Rightarrow> series" where
  "macd_line P c fast slow = lift2 e_sub (ema P c fast) (ema P c slow)"

definition macd_signal :: "pandas \<Rightarrow> series \<Rightarrow> int \<Rightarrow> int \<Rightarrow> int \<Rightarrow> series" where
  "macd_signal P c fast slow sig = pd_ewm P (Span sig) sig (macd_line P c fast slow)"

definition macd :: "pandas \<Rightarrow> series \<Rightarrow> int \<Rightarrow> int \<Rightarrow> int \<Rightarrow> series \<times> series \<times> series" where
  "macd P c fast slow sig =
     (let m = macd_line P c fast slow; s = macd_signal P c fast slow sig in (m, s, lift2 e_sub m s))"

definition bollinger :: "pandas \<Rightarrow> series \<Rightarrow> int \<Rightarrow> flt \<Rightarrow> series \<times> series \<times> series" where
  "bollinger P c n k =
     (let mid = sma P c n; sd = map (e_mul (Fin k)) (pd_rolling P R_std0 n c)
      in (lift2 e_sub mid sd, mid, lift2 e_add mid sd))"

abbreviation column :: "(bar \<Rightarrow> flt) \<Rightarrow> bar list \<Rightarrow> series" where
  "column c df \<equiv> map (\<lambda>b. Fin (c b)) df"

text \<open>\<open>max(axis=1)\<close> leaves NaN out.\<close>

definition skip_max :: "efloat \<Rightarrow> efloat \<Rightarrow> efloat" where
  "skip_max a b = (if a = NaN then b else if b = NaN then a else e_max a b)"

definition true_range :: "bar list \<Rightarrow> series" where
  "true_range df =
     (let pc = shift NaN (column c_close df); h = column c_high df; l = column c_low df
      in lift2 skip_max (lift2 e_sub h l)
           (lift2 skip_max (map e_abs (lift2 e_sub h pc)) (map e_abs (lift2 e_sub l pc))))"

definition atr :: "pandas \<Rightarrow> bar list \<Rightarrow> int \<Rightarrow> series" where
  "atr P df n = wilder P (true_range df) n"

definition stoch_k :: "pandas \<Rightarrow> series \<Rightarrow> int \<Rightarrow> int \<Rightarrow> series" where
  "stoch_k P c n k =
     (let r = rsi P c n; lo = pd_rolling P R_min n r; hi = pd_rolling P R_max n r;
          st = map (\<lambda>x. e_mul x (Fin 100)) (lift2 e_div (lift2 e_sub r lo) (zero_as_nan (lift2 e_sub hi lo)))
      in pd_rolling P R_mean k st)"

definition stoch_rsi :: "pandas \<Rightarrow> series \<Rightarrow> int \<Rightarrow> int \<Rightarrow> int \<Rightarrow> series \<times> series" where
  "stoch_rsi P c n k d = (let ks = stoch_k P c n k in (ks, pd_rolling P R_mean d ks))"

definition di :: "pandas \<Rightarrow> bar list \<Rightarrow> int \<Rightarrow> series \<Rightarrow> series \<Rightarrow> series" where
  "di P df n move other =
     (let moved = where_else (lift2 (\<lambda>u d. e_lt d u \<and> e_lt (Fin 0) u) move other) (Fin 0) move
      in lift2 e_div (map (e_mul (Fin 100)) (wilder P moved n)) (atr P df n))"

definition adx :: "pandas \<Rightarrow> bar list \<Rightarrow> int \<Rightarrow> series \<times> series \<times> series" where
  "adx P df n =
     (let up = sdiff (column c_high df); dn = map e_neg (sdiff (column c_low df));
          pdi = di P df n up dn; mdi = di P df n dn up;
          dx = lift2 e_div (map (\<lambda>x. e_mul (Fin 100) (e_abs x)) (lift2 e_sub pdi mdi))
                 (zero_as_nan (lift2 e_add pdi mdi))
      in (wilder P dx n, pdi, mdi))"

definition rolling_vwap :: "pandas \<Rightarrow> bar list \<Rightarrow> int \<Rightarrow> series" where
  "rolling_vwap P df n =
     (let tp = column (\<lambda>b. (c_high b + c_low b + c_close b) / 3) df; v = column c_volume df
      in lift2 e_div (pd_rolling P R_sum n (lift2 e_mul tp v)) (zero_as_nan (pd_rolling P R_sum n v)))"

text \<open>
  The loop carries the ATR, the two bands, the close and the trend of the row before. A row whose ATR
  or whose predecessor's is NaN keeps its bands and has no trend.
\<close>

type_synonym st_row = "efloat \<times> efloat \<times> efloat \<times> efloat" \<comment> \<open>ATR, upper, lower, close\<close>

fun supertrend_from :: "st_row \<Rightarrow> bool \<Rightarrow> st_row list \<Rightarrow> bool list" where
  "supertrend_from prev pt [] = []"
| "supertrend_from (pa, pu, pl, pc) pt ((a, u, l, c) # rows) =
     (if a = NaN \<or> pa = NaN then False # supertrend_from (a, u, l, c) False rows
      else
        (let u' = (if ele pc pu then e_min u pu else u);
             l' = (if ele pl pc then e_max l pl else l);
             t = (if e_lt pu c then True else if e_lt c pl then False else pt)
         in t # supertrend_from (a, u', l', c) t rows))"

fun supertrend_rows :: "st_row list \<Rightarrow> bool list" where
  "supertrend_rows [] = []"
| "supertrend_rows (r # rows) = False # supertrend_from r False rows"

definition supertrend :: "pandas \<Rightarrow> bar list \<Rightarrow> int \<Rightarrow> flt \<Rightarrow> bool list" where
  "supertrend P df n mult =
     (let a = atr P df n; hl2 = column (\<lambda>b. (c_high b + c_low b) / 2) df; band = map (e_mul (Fin mult)) a
      in supertrend_rows (zip a (zip (lift2 e_add hl2 band) (zip (lift2 e_sub hl2 band) (column c_close df)))))"

lemma supertrend_from_take: "supertrend_from r t (take k rows) = take k (supertrend_from r t rows)"
  by (induction r t rows arbitrary: k rule: supertrend_from.induct) (auto simp: take_Cons Let_def split: nat.splits)

lemma length_supertrend_from: "length (supertrend_from r t rows) = length rows"
  by (induction r t rows rule: supertrend_from.induct) (auto simp: Let_def)

lemma causal_supertrend [causal_rules]: "causal f \<Longrightarrow> causal (\<lambda>xs. supertrend_rows (f xs))"
proof -
  have "supertrend_rows (take k rows) = take k (supertrend_rows rows)" for k rows
    by (cases rows; cases k) (simp_all add: supertrend_from_take)
  moreover have "length (supertrend_rows rows) = length rows" for rows
    by (cases rows) (simp_all add: length_supertrend_from)
  ultimately show "causal f \<Longrightarrow> causal (\<lambda>xs. supertrend_rows (f xs))" by (simp add: causal_def)
qed

lemmas indicator_defs = ema_def sma_def rsi_def macd_def macd_line_def macd_signal_def bollinger_def true_range_def
  atr_def stoch_rsi_def stoch_k_def di_def adx_def rolling_vwap_def supertrend_def

section \<open>The technical strategies\<close>

abbreviation greater_row :: "series \<Rightarrow> series \<Rightarrow> bool list" where
  "greater_row a b \<equiv> lift2 (\<lambda>x y. e_lt y x) a b"

abbreviation band_and :: "bool list \<Rightarrow> bool list \<Rightarrow> bool list" where
  "band_and \<equiv> lift2 (\<and>)"

definition cross_up :: "series \<Rightarrow> series \<Rightarrow> bool list" where
  "cross_up a b = band_and (greater_row a b) (lift2 ele (shift NaN a) (shift NaN b))"

definition cross_down :: "series \<Rightarrow> series \<Rightarrow> bool list" where
  "cross_down a b = band_and (lift2 e_lt a b) (lift2 (\<lambda>x y. ele y x) (shift NaN a) (shift NaN b))"

text \<open>The same with a constant for \<open>b\<close>, which is its own predecessor.\<close>

definition cross_up_at :: "series \<Rightarrow> efloat \<Rightarrow> bool list" where
  "cross_up_at a x = band_and (map (e_lt x) a) (map (\<lambda>y. ele y x) (shift NaN a))"

definition cross_down_at :: "series \<Rightarrow> efloat \<Rightarrow> bool list" where
  "cross_down_at a x = band_and (map (\<lambda>y. e_lt y x) a) (map (ele x) (shift NaN a))"

record param =
  pm_default :: flt
  pm_low :: flt
  pm_high :: flt
  pm_integer :: bool

abbreviation int_param :: "flt \<Rightarrow> flt \<Rightarrow> flt \<Rightarrow> param" where
  "int_param d l h \<equiv> \<lparr>pm_default = d, pm_low = l, pm_high = h, pm_integer = True\<rparr>"

abbreviation real_param :: "flt \<Rightarrow> flt \<Rightarrow> flt \<Rightarrow> param" where
  "real_param d l h \<equiv> \<lparr>pm_default = d, pm_low = l, pm_high = h, pm_integer = False\<rparr>"

type_synonym param_values = "string \<Rightarrow> flt"

text \<open>A resolved integer parameter is a whole number.\<close>

abbreviation whole :: "param_values \<Rightarrow> string \<Rightarrow> int" where
  "whole p k \<equiv> \<lfloor>p k\<rfloor>"

definition rsi_reversal :: "pandas \<Rightarrow> param_values \<Rightarrow> bar list \<Rightarrow> bool list \<times> bool list" where
  "rsi_reversal P p df =
     (let r = rsi P (column c_close df) (whole p ''period'')
      in (cross_up_at r (Fin (p ''oversold'')), map (ele (Fin (p ''overbought''))) r))"

definition ema_crossover :: "pandas \<Rightarrow> param_values \<Rightarrow> bar list \<Rightarrow> bool list \<times> bool list" where
  "ema_crossover P p df =
     (let f = ema P (column c_close df) (whole p ''fast''); s = ema P (column c_close df) (whole p ''slow'')
      in (cross_up f s, cross_down f s))"

definition macd_momentum :: "pandas \<Rightarrow> param_values \<Rightarrow> bar list \<Rightarrow> bool list \<times> bool list" where
  "macd_momentum P p df =
     (let c = column c_close df; ms = macd P c (whole p ''fast'') (whole p ''slow'') (whole p ''signal'');
          m = fst ms; s = fst (snd ms)
      in (band_and (cross_up m s) (greater_row c (ema P c (whole p ''trend''))), cross_down m s))"

definition bollinger_bands :: "pandas \<Rightarrow> param_values \<Rightarrow> bar list \<Rightarrow> bool list \<times> bool list" where
  "bollinger_bands P p df =
     (let c = column c_close df; b = bollinger P c (whole p ''period'') (p ''k'')
      in (cross_up c (fst b), lift2 ele (fst (snd b)) c))"

definition stoch_rsi_signals :: "pandas \<Rightarrow> param_values \<Rightarrow> bar list \<Rightarrow> bool list \<times> bool list" where
  "stoch_rsi_signals P p df =
     (let kd = stoch_rsi P (column c_close df) (whole p ''period'') (whole p ''smooth'') (whole p ''smooth'');
          k = fst kd; d = snd kd
      in (band_and (cross_up k d) (map (\<lambda>x. e_lt x (Fin (p ''low''))) k),
          band_and (cross_down k d) (map (e_lt (Fin (p ''high''))) k)))"

definition supertrend_signals :: "pandas \<Rightarrow> param_values \<Rightarrow> bar list \<Rightarrow> bool list \<times> bool list" where
  "supertrend_signals P p df =
     (let t = supertrend P df (whole p ''period'') (p ''mult'')
      in (band_and t (map Not (shift False t)), band_and (map Not t) (shift False t)))"

definition vwap_reversion :: "pandas \<Rightarrow> param_values \<Rightarrow> bar list \<Rightarrow> bool list \<times> bool list" where
  "vwap_reversion P p df =
     (let v = rolling_vwap P df (whole p ''window'');
          dev = map (\<lambda>x. e_mul (e_sub x (Fin 1)) (Fin 100)) (lift2 e_div (column c_close df) v)
      in (cross_up_at dev (Fin (- p ''discount'')), map (ele (Fin (p ''premium''))) dev))"

definition adx_trend :: "pandas \<Rightarrow> param_values \<Rightarrow> bar list \<Rightarrow> bool list \<times> bool list" where
  "adx_trend P p df =
     (let x = adx P df (whole p ''period''); a = fst x; pdi = fst (snd x); mdi = snd (snd x)
      in (band_and (cross_up pdi mdi) (map (e_lt (Fin (p ''threshold''))) a), cross_down pdi mdi))"

definition atr_breakout :: "pandas \<Rightarrow> param_values \<Rightarrow> bar list \<Rightarrow> bool list \<times> bool list" where
  "atr_breakout P p df =
     (let a = atr P df (whole p ''period''); c = column c_close df
      in (greater_row c (lift2 e_add (shift NaN c) (map (e_mul (Fin (p ''entry_mult''))) a)),
          lift2 e_lt c (lift2 e_sub (pd_rolling P R_max (whole p ''lookback'') c)
                          (map (e_mul (Fin (p ''exit_mult''))) a))))"

definition multi_indicator :: "pandas \<Rightarrow> param_values \<Rightarrow> bar list \<Rightarrow> bool list \<times> bool list" where
  "multi_indicator P p df =
     (let c = column c_close df;
          trend = greater_row (ema P c (whole p ''fast'')) (ema P c (whole p ''slow''));
          mom = map (e_lt (Fin 0)) (snd (snd (macd P c 12 26 9)));
          r = rsi P c 14;
          okr = map (\<lambda>x. e_lt (Fin (p ''rsi_low'')) x \<and> e_lt x (Fin (p ''rsi_high''))) r;
          ok = band_and (band_and trend mom) okr;
          bad = lift2 (+) (lift2 (+) (map (\<lambda>b. of_bool (\<not> b)) trend) (map (\<lambda>b. of_bool (\<not> b)) mom))
                  (map (\<lambda>x. of_bool (ele (Fin (p ''rsi_high'')) x)) r)
      in (band_and ok (map Not (shift False ok)), map (\<lambda>n. (2::nat) \<le> n) bad))"

record ql_strategy =
  sg_key :: string
  sg_params :: "(string \<times> param) list"
  sg_compute :: "pandas \<Rightarrow> param_values \<Rightarrow> bar list \<Rightarrow> bool list \<times> bool list"

definition technical :: "ql_strategy list" where
  "technical =
     [\<lparr>sg_key = ''rsi_reversal'', sg_params = [(''period'', int_param 14 5 40),
        (''oversold'', int_param 30 10 45), (''overbought'', int_param 70 55 90)], sg_compute = rsi_reversal\<rparr>,
      \<lparr>sg_key = ''ema_crossover'', sg_params = [(''fast'', int_param 12 3 50), (''slow'', int_param 26 10 200)],
        sg_compute = ema_crossover\<rparr>,
      \<lparr>sg_key = ''macd_momentum'', sg_params = [(''fast'', int_param 12 5 30), (''slow'', int_param 26 15 60),
        (''signal'', int_param 9 3 20), (''trend'', int_param 100 20 300)], sg_compute = macd_momentum\<rparr>,
      \<lparr>sg_key = ''bollinger_bands'', sg_params = [(''period'', int_param 20 10 60), (''k'', real_param 2 1 (7/2))],
        sg_compute = bollinger_bands\<rparr>,
      \<lparr>sg_key = ''stoch_rsi'', sg_params = [(''period'', int_param 14 5 30), (''smooth'', int_param 3 2 10),
        (''low'', int_param 20 5 40), (''high'', int_param 80 60 95)], sg_compute = stoch_rsi_signals\<rparr>,
      \<lparr>sg_key = ''supertrend'', sg_params = [(''period'', int_param 10 5 40), (''mult'', real_param 3 1 6)],
        sg_compute = supertrend_signals\<rparr>,
      \<lparr>sg_key = ''vwap'', sg_params = [(''window'', int_param 48 12 200), (''discount'', real_param 1 (1/10) 5),
        (''premium'', real_param 1 (1/10) 5)], sg_compute = vwap_reversion\<rparr>,
      \<lparr>sg_key = ''adx_trend'', sg_params = [(''period'', int_param 14 5 40), (''threshold'', int_param 22 10 50)],
        sg_compute = adx_trend\<rparr>,
      \<lparr>sg_key = ''atr_breakout'', sg_params = [(''period'', int_param 14 5 50),
        (''entry_mult'', real_param (3/2) (1/2) 4), (''exit_mult'', real_param (5/2) (1/2) 6),
        (''lookback'', int_param 20 5 100)], sg_compute = atr_breakout\<rparr>,
      \<lparr>sg_key = ''multi_indicator'', sg_params = [(''fast'', int_param 20 5 60), (''slow'', int_param 50 20 200),
        (''rsi_low'', int_param 45 20 60), (''rsi_high'', int_param 70 55 90)], sg_compute = multi_indicator\<rparr>]"

text \<open>The strategy of interop.py that is registered beside them.\<close>

definition rsi_ema_trend :: "pandas \<Rightarrow> param_values \<Rightarrow> bar list \<Rightarrow> bool list \<times> bool list" where
  "rsi_ema_trend P p df =
     (let c = column c_close df; r = rsi P c (whole p ''rsi_period'');
          f = ema P c (whole p ''ema_fast''); s = ema P c (whole p ''ema_slow'')
      in (band_and (cross_up_at r (Fin (p ''rsi_entry''))) (greater_row f s),
          lift2 (\<or>) (map (ele (Fin (p ''rsi_exit''))) r) (cross_down f s)))"

definition registered :: "ql_strategy list" where
  "registered = technical @
     [\<lparr>sg_key = ''rsi_ema_trend'', sg_params = [(''rsi_period'', int_param 14 5 50), (''rsi_entry'', int_param 30 10 50),
        (''rsi_exit'', int_param 70 50 90), (''ema_fast'', int_param 10 3 50), (''ema_slow'', int_param 50 10 200)],
        sg_compute = rsi_ema_trend\<rparr>]"

text \<open>Python's \<open>int(x)\<close> cuts towards zero.\<close>

definition py_int :: "flt \<Rightarrow> int" where
  "py_int x = (if x < 0 then \<lceil>x\<rceil> else \<lfloor>x\<rfloor>)"

definition resolve_one :: "(string \<times> param) list \<Rightarrow> string \<times> flt \<Rightarrow> (string \<Rightarrow> flt option) \<Rightarrow> py_error + (string \<Rightarrow> flt option)" where
  "resolve_one params kv out =
     (case map_of params (fst kv) of
        None \<Rightarrow> Inr out
      | Some p \<Rightarrow>
          if \<not> (pm_low p \<le> snd kv \<and> snd kv \<le> pm_high p) then Inl ValueError
          else Inr (out(fst kv \<mapsto> if pm_integer p then of_int (py_int (snd kv)) else snd kv)))"

definition resolve :: "ql_strategy \<Rightarrow> (string \<times> flt) list \<Rightarrow> py_error + (string \<Rightarrow> flt option)" where
  "resolve s given = runE (resolve_one (sg_params s)) given (map_option pm_default \<circ> map_of (sg_params s))"

text \<open>The strategies read declared parameters only.\<close>

definition strategy_signals :: "pandas \<Rightarrow> ql_strategy \<Rightarrow> (string \<times> flt) list \<Rightarrow> bar list \<Rightarrow> py_error + (bool \<times> bool) list" where
  "strategy_signals P s given df =
     bindE (resolve s given) (\<lambda>p. Inr ((\<lambda>eg. zip (fst eg) (snd eg)) (sg_compute s P (the \<circ> p) df)))"

lemmas strategy_defs = rsi_reversal_def ema_crossover_def macd_momentum_def bollinger_bands_def stoch_rsi_signals_def
  supertrend_signals_def vwap_reversion_def adx_trend_def atr_breakout_def multi_indicator_def rsi_ema_trend_def

lemmas cross_defs = cross_up_def cross_down_def cross_up_at_def cross_down_at_def

definition causal_strategy :: "pandas \<Rightarrow> ql_strategy \<Rightarrow> bool" where
  "causal_strategy P s \<longleftrightarrow> (\<forall>p. causal (\<lambda>df. fst (sg_compute s P p df)) \<and> causal (\<lambda>df. snd (sg_compute s P p df)))"

lemma registered_causal:
  assumes "causal_pandas P"
  shows "list_all (causal_strategy P) registered"
  unfolding registered_def technical_def append.simps list.pred_inject causal_strategy_def ql_strategy.simps
  unfolding strategy_defs Let_def indicator_defs cross_defs fst_conv snd_conv
  by (intro conjI allI list.pred_inject(1) causal_rules assms)

end
