(* ===== verification/Ql_Rules.thy ===== *)
theory Ql_Rules
  imports Ql_Strategies "HOL-Library.Sublist"
begin

text \<open>
  The visual rule builder of quantlab (quantlab/strategies/rules.py), the position size
  (quantlab/risk/sizing.py) and the backtest of a strategy with its size: no later candle changes an
  earlier trade.
\<close>

section \<open>Rules\<close>

datatype rule_val = Number flt | Text string

record rule =
  r_op :: "string option"
  r_ind :: "string option"
  r_kind :: "string option"
  r_val :: "rule_val option"

type_synonym rule_params = "string \<Rightarrow> flt option"

record rule_set =
  rs_entry :: "rule list"
  rs_exit :: "rule list"
  rs_join_entry :: "string option"
  rs_join_exit :: "string option"
  rs_prm :: rule_params

text \<open>
  pandas raises \<open>ValueError\<close> for a span below 1, a weight outside 0 to 1 and a negative window;
  \<open>1 / n\<close> raises for a period of 0.
\<close>

definition with_spans :: "int list \<Rightarrow> 'a \<Rightarrow> py_error + 'a" where
  "with_spans ns x = (if list_all (\<lambda>n. 1 \<le> n) ns then Inr x else Inl ValueError)"

definition rule_series :: "pandas \<Rightarrow> rule_params \<Rightarrow> string \<Rightarrow> bar list \<Rightarrow> py_error + series" where
  "rule_series P prm name df =
     (let c = column c_close df;
          num = (\<lambda>k d. case prm k of Some v \<Rightarrow> v | None \<Rightarrow> d);
          g = (\<lambda>k d. py_int (num k d));
          fast = g ''macdF'' 12; slow = g ''macdS'' 26; sig = g ''macdSig'' 9;
          n = g ''rsiP'' 14; bb = g ''bbP'' 20; k = num ''bbK'' 2
      in if name = ''close'' then Inr c
         else if name = ''open'' then Inr (column c_open df)
         else if name = ''high'' then Inr (column c_high df)
         else if name = ''low'' then Inr (column c_low df)
         else if name = ''volume'' \<or> name = ''vol'' then Inr (column c_volume df)
         else if name = ''rsi'' then (if n = 0 then Inl ZeroDivisionError else with_spans [n] (rsi P c n))
         else if name = ''emaF'' then with_spans [g ''emaF'' 20] (ema P c (g ''emaF'' 20))
         else if name = ''emaS'' then with_spans [g ''emaS'' 50] (ema P c (g ''emaS'' 50))
         else if name = ''ema200'' then Inr (ema P c 200)
         else if name = ''sma50'' then Inr (sma P c 50)
         else if name = ''macd'' then with_spans [fast, slow, sig] (snd (snd (macd P c fast slow sig)))
         else if name = ''macdLine'' then with_spans [fast, slow, sig] (fst (macd P c fast slow sig))
         else if name = ''macdSig'' then with_spans [fast, slow, sig] (fst (snd (macd P c fast slow sig)))
         else if name = ''bbl'' then with_spans [bb + 1] (fst (bollinger P c bb k))
         else if name = ''bbm'' then with_spans [bb + 1] (fst (snd (bollinger P c bb k)))
         else if name = ''bbu'' then with_spans [bb + 1] (snd (snd (bollinger P c bb k)))
         else if name = ''atr'' then Inr (map (\<lambda>x. e_mul x (Fin 100)) (lift2 e_div (atr P df 14) c))
         else if name = ''adx'' then Inr (fst (adx P df 14))
         else if name = ''vwap'' then Inr (rolling_vwap P df 48)
         else if name = ''stoch'' then Inr (fst (stoch_rsi P c 14 3 3))
         else Inl ValueError)"

type_synonym series_cache = "string \<Rightarrow> series option"

definition cached_series ::
    "pandas \<Rightarrow> rule_params \<Rightarrow> string \<Rightarrow> bar list \<Rightarrow> series_cache \<Rightarrow> py_error + series \<times> series_cache" where
  "cached_series P prm name df cache =
     (case cache name of
        Some a \<Rightarrow> Inr (a, cache)
      | None \<Rightarrow> bindE (rule_series P prm name df) (\<lambda>a. Inr (a, cache(name \<mapsto> a))))"

definition compare_column :: "string \<Rightarrow> series \<Rightarrow> series \<Rightarrow> bool list" where
  "compare_column op a b =
     (if op = ''lt'' then lift2 e_lt a b
      else if op = ''gt'' then lift2 (\<lambda>x y. e_lt y x) a b
      else if op = ''le'' then lift2 ele a b
      else if op = ''ge'' then lift2 (\<lambda>x y. ele y x) a b
      else if op = ''xa'' then cross_up a b
      else cross_down a b)"

definition compare_constant :: "string \<Rightarrow> series \<Rightarrow> efloat \<Rightarrow> bool list" where
  "compare_constant op a b =
     (if op = ''lt'' then map (\<lambda>x. e_lt x b) a
      else if op = ''gt'' then map (e_lt b) a
      else if op = ''le'' then map (\<lambda>x. ele x b) a
      else if op = ''ge'' then map (ele b) a
      else if op = ''xa'' then cross_up_at a b
      else cross_down_at a b)"

definition rule_ops :: "string list" where
  "rule_ops = [''lt'', ''gt'', ''le'', ''ge'', ''xa'', ''xb'']"

text \<open>\<open>float(val)\<close>, with Python's reading of a text as \<open>pf\<close>.\<close>

definition rule_constant :: "(string \<Rightarrow> efloat option) \<Rightarrow> rule_val option \<Rightarrow> py_error + efloat" where
  "rule_constant pf v =
     (case v of
        None \<Rightarrow> Inl KeyError
      | Some (Number x) \<Rightarrow> Inr (Fin x)
      | Some (Text t) \<Rightarrow> (case pf t of None \<Rightarrow> Inl ValueError | Some x \<Rightarrow> Inr x))"

definition condition ::
    "pandas \<Rightarrow> (string \<Rightarrow> efloat option) \<Rightarrow> rule_params \<Rightarrow> bar list \<Rightarrow> rule \<Rightarrow> series_cache
       \<Rightarrow> py_error + bool list \<times> series_cache" where
  "condition P pf prm df r cache =
     (case r_op r of
        None \<Rightarrow> Inl ValueError
      | Some op \<Rightarrow>
          if op \<notin> set rule_ops then Inl ValueError
          else (case r_ind r of
                  None \<Rightarrow> Inl KeyError
                | Some name \<Rightarrow>
                    bindE (cached_series P prm name df cache) (\<lambda>(a, cache1).
                      if r_kind r = Some ''ind''
                      then (case r_val r of
                              None \<Rightarrow> Inl KeyError
                            | Some (Number _) \<Rightarrow> Inl ValueError
                            | Some (Text other) \<Rightarrow>
                                bindE (cached_series P prm other df cache1) (\<lambda>(b, cache2).
                                  Inr (compare_column op a b, cache2)))
                      else bindE (rule_constant pf (r_val r)) (\<lambda>b. Inr (compare_constant op a b, cache1)))))"

definition join_rows :: "string \<Rightarrow> bool list \<Rightarrow> bool list \<Rightarrow> bool list" where
  "join_rows join a b = (if join = ''OR'' then lift2 (\<or>) a b else lift2 (\<and>) a b)"

definition combine_step ::
    "pandas \<Rightarrow> (string \<Rightarrow> efloat option) \<Rightarrow> rule_params \<Rightarrow> bar list \<Rightarrow> string \<Rightarrow> rule
       \<Rightarrow> bool list option \<times> series_cache \<Rightarrow> py_error + bool list option \<times> series_cache" where
  "combine_step P pf prm df join r s =
     bindE (condition P pf prm df r (snd s)) (\<lambda>(c, cache).
       Inr (Some (case fst s of None \<Rightarrow> c | Some out \<Rightarrow> join_rows join out c), cache))"

definition combine ::
    "pandas \<Rightarrow> (string \<Rightarrow> efloat option) \<Rightarrow> rule_params \<Rightarrow> bar list \<Rightarrow> string \<Rightarrow> rule list \<Rightarrow> series_cache
       \<Rightarrow> py_error + bool list \<times> series_cache" where
  "combine P pf prm df join rows cache =
     (if rows = [] then Inr (replicate (length df) False, cache)
      else bindE (runE (combine_step P pf prm df join) rows (None, cache)) (\<lambda>(out, c). Inr (the out, c)))"

definition or_default :: "'a \<Rightarrow> 'a option \<Rightarrow> 'a" where
  "or_default d x = (case x of None \<Rightarrow> d | Some v \<Rightarrow> v)"

definition rule_signals ::
    "pandas \<Rightarrow> (string \<Rightarrow> efloat option) \<Rightarrow> rule_set \<Rightarrow> bar list \<Rightarrow> py_error + (bool \<times> bool) list" where
  "rule_signals P pf rs df =
     bindE (combine P pf (rs_prm rs) df (or_default ''AND'' (rs_join_entry rs)) (rs_entry rs) Map.empty)
       (\<lambda>(enter, cache).
     bindE (combine P pf (rs_prm rs) df (or_default ''OR'' (rs_join_exit rs)) (rs_exit rs) cache)
       (\<lambda>(leave, _). Inr (zip enter leave)))"

text \<open>A version's rules are run once over made-up candles before it is saved.\<close>

definition validate ::
    "pandas \<Rightarrow> (string \<Rightarrow> efloat option) \<Rightarrow> bar list \<Rightarrow> rule_set \<Rightarrow> py_error + unit" where
  "validate P pf sample rs =
     (if rs_entry rs = [] then Inl ValueError else bindE (rule_signals P pf rs sample) (\<lambda>_. Inr ()))"

section \<open>What a set of rules means\<close>

text \<open>The same without the cache.\<close>

definition condition_of ::
    "pandas \<Rightarrow> (string \<Rightarrow> efloat option) \<Rightarrow> rule_params \<Rightarrow> rule \<Rightarrow> bar list \<Rightarrow> py_error + bool list" where
  "condition_of P pf prm r df =
     (case r_op r of
        None \<Rightarrow> Inl ValueError
      | Some op \<Rightarrow>
          if op \<notin> set rule_ops then Inl ValueError
          else (case r_ind r of
                  None \<Rightarrow> Inl KeyError
                | Some name \<Rightarrow>
                    bindE (rule_series P prm name df) (\<lambda>a.
                      if r_kind r = Some ''ind''
                      then (case r_val r of
                              None \<Rightarrow> Inl KeyError
                            | Some (Number _) \<Rightarrow> Inl ValueError
                            | Some (Text other) \<Rightarrow>
                                bindE (rule_series P prm other df) (\<lambda>b. Inr (compare_column op a b)))
                      else bindE (rule_constant pf (r_val r)) (\<lambda>b. Inr (compare_constant op a b)))))"

fun join_conditions ::
    "pandas \<Rightarrow> (string \<Rightarrow> efloat option) \<Rightarrow> rule_params \<Rightarrow> string \<Rightarrow> rule list \<Rightarrow> bool list \<Rightarrow> bar list
       \<Rightarrow> py_error + bool list" where
  "join_conditions P pf prm join [] out df = Inr out"
| "join_conditions P pf prm join (r # rows) out df =
     bindE (condition_of P pf prm r df) (\<lambda>c. join_conditions P pf prm join rows (join_rows join out c) df)"

fun combined ::
    "pandas \<Rightarrow> (string \<Rightarrow> efloat option) \<Rightarrow> rule_params \<Rightarrow> string \<Rightarrow> rule list \<Rightarrow> bar list \<Rightarrow> py_error + bool list" where
  "combined P pf prm join [] df = Inr (replicate (length df) False)"
| "combined P pf prm join (r # rows) df =
     bindE (condition_of P pf prm r df) (\<lambda>c. join_conditions P pf prm join rows c df)"

definition rule_meaning ::
    "pandas \<Rightarrow> (string \<Rightarrow> efloat option) \<Rightarrow> rule_set \<Rightarrow> bar list \<Rightarrow> py_error + (bool \<times> bool) list" where
  "rule_meaning P pf rs df =
     bindE (combined P pf (rs_prm rs) (or_default ''AND'' (rs_join_entry rs)) (rs_entry rs) df) (\<lambda>enter.
     bindE (combined P pf (rs_prm rs) (or_default ''OR'' (rs_join_exit rs)) (rs_exit rs) df) (\<lambda>leave.
       Inr (zip enter leave)))"

definition cache_sound :: "pandas \<Rightarrow> rule_params \<Rightarrow> bar list \<Rightarrow> series_cache \<Rightarrow> bool" where
  "cache_sound P prm df cache \<longleftrightarrow> (\<forall>name a. cache name = Some a \<longrightarrow> rule_series P prm name df = Inr a)"

text \<open>A computation with a cache agrees with one without.\<close>

definition same_result :: "(series_cache \<Rightarrow> bool) \<Rightarrow> py_error + 'a \<times> series_cache \<Rightarrow> py_error + 'a \<Rightarrow> bool" where
  "same_result ok m m' \<longleftrightarrow>
     (\<exists>e. m = Inl e \<and> m' = Inl e) \<or> (\<exists>x c. m = Inr (x, c) \<and> m' = Inr x \<and> ok c)"

named_theorems same_rules

lemma same_Inl [same_rules]: "same_result ok (Inl e) (Inl e)"
  by (simp add: same_result_def)

lemma same_Inr [same_rules]: "ok c \<Longrightarrow> same_result ok (Inr (x, c)) (Inr x)"
  by (simp add: same_result_def)

lemma same_bind [same_rules]:
  "same_result ok m m' \<Longrightarrow> (\<And>x c. ok c \<Longrightarrow> same_result ok (f (x, c)) (f' x))
    \<Longrightarrow> same_result ok (bindE m f) (bindE m' f')"
  by (fastforce simp: same_result_def)

lemma same_bind_pure [same_rules]:
  "(\<And>x. same_result ok (f x) (f' x)) \<Longrightarrow> same_result ok (bindE m f) (bindE m f')"
  by (cases m) (simp_all add: same_result_def)

lemma same_cached [same_rules]:
  "cache_sound P prm df c
    \<Longrightarrow> same_result (cache_sound P prm df) (cached_series P prm name df c) (rule_series P prm name df)"
  by (cases "c name"; cases "rule_series P prm name df")
    (auto simp: same_result_def cached_series_def cache_sound_def)

lemma same_condition [same_rules]:
  "cache_sound P prm df c
    \<Longrightarrow> same_result (cache_sound P prm df) (condition P pf prm df r c) (condition_of P pf prm r df)"
  unfolding condition_def condition_of_def
  by (auto split: option.split rule_val.split intro!: same_rules)

lemma same_join:
  "cache_sound P prm df c \<Longrightarrow>
     same_result (cache_sound P prm df)
       (bindE (runE (combine_step P pf prm df join) rows (Some out, c)) (\<lambda>(out, c). Inr (the out, c)))
       (join_conditions P pf prm join rows out df)"
proof (induction rows arbitrary: out c)
  case Nil
  then show ?case by (simp add: same_Inr)
next
  case (Cons r rows)
  from same_condition [OF Cons.prems, of pf r] Cons.IH show ?case
    by (auto simp: same_result_def [of _ "condition P pf prm df r c"] combine_step_def intro: same_Inl)
qed

lemma same_combine [same_rules]:
  assumes "cache_sound P prm df c"
  shows "same_result (cache_sound P prm df) (combine P pf prm df join rows c) (combined P pf prm join rows df)"
proof (cases rows)
  case (Cons r rest)
  from same_condition [OF assms, of pf r] same_join show ?thesis
    by (auto simp: Cons combine_def same_result_def [of _ "condition P pf prm df r c"] combine_step_def intro: same_Inl)
qed (use assms in \<open>simp add: combine_def same_Inr\<close>)

lemma rule_signals_meaning: "rule_signals P pf rs df = rule_meaning P pf rs df"
proof -
  let ?ok = "cache_sound P (rs_prm rs) df"
  have start: "?ok Map.empty" by (simp add: cache_sound_def)
  from same_combine [OF start, of pf "or_default ''AND'' (rs_join_entry rs)" "rs_entry rs"]
    same_combine [of P "rs_prm rs" df _ pf "or_default ''OR'' (rs_join_exit rs)" "rs_exit rs"]
  show ?thesis by (fastforce simp: same_result_def rule_signals_def rule_meaning_def)
qed

section \<open>Errors do not depend on the candles\<close>

text \<open>Either every frame gives the same error or none does and the values are causal.\<close>

definition uniform :: "('a list \<Rightarrow> py_error + 'b list) \<Rightarrow> bool" where
  "uniform m \<longleftrightarrow> (\<exists>e. \<forall>df. m df = Inl e) \<or> (\<exists>f. causal f \<and> (\<forall>df. m df = Inr (f df)))"

named_theorems uniform_rules

lemma uniform_Inl [uniform_rules]: "uniform (\<lambda>df. Inl e)"
  by (simp add: uniform_def)

lemma uniform_Inr [uniform_rules]: "causal f \<Longrightarrow> uniform (\<lambda>df. Inr (f df))"
  by (auto simp: uniform_def)

lemma uniform_bind [uniform_rules]:
  "uniform m \<Longrightarrow> (\<And>f. causal f \<Longrightarrow> uniform (\<lambda>df. h (f df) df)) \<Longrightarrow> uniform (\<lambda>df. bindE (m df) (\<lambda>x. h x df))"
  by (fastforce simp: uniform_def)

lemma uniform_bind_const [uniform_rules]:
  "(\<And>x. uniform (\<lambda>df. h x df)) \<Longrightarrow> uniform (\<lambda>df. bindE m (\<lambda>x. h x df))"
  by (cases m) (simp_all add: uniform_Inl)

lemma uniform_if [uniform_rules]:
  "uniform m \<Longrightarrow> uniform m' \<Longrightarrow> uniform (\<lambda>df. if b then m df else m' df)"
  by (cases b) simp_all

lemma uniform_option [uniform_rules]:
  "uniform m \<Longrightarrow> (\<And>x. uniform (h x)) \<Longrightarrow> uniform (\<lambda>df. case v of None \<Rightarrow> m df | Some x \<Rightarrow> h x df)"
  by (cases v) simp_all

lemma uniform_rule_val [uniform_rules]:
  "(\<And>x. uniform (m x)) \<Longrightarrow> (\<And>x. uniform (h x)) \<Longrightarrow> uniform (\<lambda>df. case v of Number x \<Rightarrow> m x df | Text x \<Rightarrow> h x df)"
  by (cases v) simp_all

lemma uniform_spans [uniform_rules]: "causal f \<Longrightarrow> uniform (\<lambda>df. with_spans ns (f df))"
  unfolding with_spans_def by (intro uniform_rules)

lemma uniform_series [uniform_rules]: "causal_pandas P \<Longrightarrow> uniform (rule_series P prm name)"
  unfolding rule_series_def Let_def indicator_defs fst_conv snd_conv
  by (intro uniform_rules causal_rules)

lemma causal_compare [causal_rules]: "causal f \<Longrightarrow> causal g \<Longrightarrow> causal (\<lambda>df. compare_column op (f df) (g df))"
  unfolding compare_column_def cross_defs by (cases "op = ''lt''"; cases "op = ''gt''"; cases "op = ''le''";
    cases "op = ''ge''"; cases "op = ''xa''") (auto intro!: causal_rules)

lemma causal_constant [causal_rules]: "causal f \<Longrightarrow> causal (\<lambda>df. compare_constant op (f df) b)"
  unfolding compare_constant_def cross_defs by (cases "op = ''lt''"; cases "op = ''gt''"; cases "op = ''le''";
    cases "op = ''ge''"; cases "op = ''xa''") (auto intro!: causal_rules)

lemma causal_join [causal_rules]: "causal f \<Longrightarrow> causal g \<Longrightarrow> causal (\<lambda>df. join_rows join (f df) (g df))"
  unfolding join_rows_def by (cases "join = ''OR''") (auto intro!: causal_rules)

lemma uniform_condition [uniform_rules]:
  assumes "causal_pandas P" shows "uniform (condition_of P pf prm r)"
  unfolding condition_of_def by (intro uniform_rules causal_rules assms)

lemma uniform_joined: "causal_pandas P \<Longrightarrow> causal f \<Longrightarrow> uniform (\<lambda>df. join_conditions P pf prm join rows (f df) df)"
  by (induction rows arbitrary: f) (auto intro!: uniform_rules causal_rules)

lemma uniform_combined [uniform_rules]: "causal_pandas P \<Longrightarrow> uniform (\<lambda>df. combined P pf prm join rows df)"
  by (cases rows) (auto intro!: uniform_rules uniform_joined causal_rules)

lemma uniform_rule_signals: "causal_pandas P \<Longrightarrow> uniform (rule_signals P pf rs)"
  unfolding rule_signals_meaning rule_meaning_def by (intro uniform_rules causal_rules)

lemma uniform_strategy:
  assumes "causal_pandas P" and "s \<in> set registered"
  shows "uniform (strategy_signals P s given)"
proof -
  from registered_causal [OF assms(1)] assms(2) have "causal_strategy P s" by (simp add: list_all_iff)
  then show ?thesis unfolding strategy_signals_def causal_strategy_def by (auto intro!: uniform_rules causal_rules)
qed

section \<open>Position size\<close>

abbreviation day_of :: "bar \<Rightarrow> int" where
  "day_of b \<equiv> c_ts b div 86400"

text \<open>\<open>groupby(day).last()\<close>\<close>

definition daily_closes :: "bar list \<Rightarrow> (int \<times> flt) list" where
  "daily_closes df =
     map (\<lambda>d. (d, c_close (last (filter (\<lambda>b. day_of b = d) df)))) (sort (remdups (map day_of df)))"

definition pct_change :: "series \<Rightarrow> series" where
  "pct_change s = map (\<lambda>x. e_sub x (Fin 1)) (lift2 e_div s (shift NaN s))"

text \<open>The stake of each day, from the days before it.\<close>

definition daily_stake :: "pandas \<Rightarrow> flt \<Rightarrow> int \<Rightarrow> flt \<Rightarrow> flt list \<Rightarrow> series" where
  "daily_stake P target lookback max_stake prices =
     (let vol = shift NaN (pd_rolling P R_std1 lookback (pct_change (map Fin prices)))
      in map (\<lambda>x. if x = NaN then Fin (1/10) else x) (clip_upper max_stake (map (e_div (Fin target)) vol)))"

definition vol_target_stake :: "pandas \<Rightarrow> bar list \<Rightarrow> flt \<Rightarrow> int \<Rightarrow> flt \<Rightarrow> series" where
  "vol_target_stake P df target lookback max_stake =
     (let daily = daily_closes df;
          stake = daily_stake P target lookback max_stake (map snd daily)
      in map (\<lambda>b. case map_of (zip (map fst daily) stake) (day_of b) of Some x \<Rightarrow> x | None \<Rightarrow> NaN) df)"

record sizing =
  sz_mode :: "string option"
  sz_target :: "flt option"

definition stake_series :: "pandas \<Rightarrow> bar list \<Rightarrow> sizing option \<Rightarrow> (string \<Rightarrow> flt option) \<Rightarrow> series option" where
  "stake_series P df sizing risk =
     (case sizing of
        None \<Rightarrow> None
      | Some z \<Rightarrow>
          if sz_mode z \<noteq> Some ''vol_target'' then None
          else Some (vol_target_stake P df (or_default (3/200) (sz_target z)) 30
                       (or_default (95/100) (risk ''stake_pct''))))"

section \<open>A strategy's backtest\<close>

text \<open>
  A stake that is not a finite number comes only from a negative target; the simulator rejects its
  order as it does one of size 0.
\<close>

definition stake_of :: "efloat \<Rightarrow> flt" where
  "stake_of x = (case x of Fin a \<Rightarrow> a | _ \<Rightarrow> 0)"

definition sized_rows :: "series option \<Rightarrow> bar list \<Rightarrow> (bool \<times> bool) list \<Rightarrow> (ohlc \<times> signal) list" where
  "sized_rows stakes df sig =
     map (\<lambda>(b, (e, x), st). (ohlc.truncate b, \<lparr>g_enter = e, g_exit = x, g_stake = st\<rparr>))
       (zip df (zip sig (case stakes of None \<Rightarrow> replicate (length df) None | Some s \<Rightarrow> map (Some \<circ> stake_of) s)))"

definition strategy_backtest ::
    "pandas \<Rightarrow> (bar list \<Rightarrow> py_error + (bool \<times> bool) list) \<Rightarrow> (string \<Rightarrow> flt option) \<Rightarrow> sizing option \<Rightarrow> flt
       \<Rightarrow> exec_config option \<Rightarrow> int option \<Rightarrow> bar list \<Rightarrow> py_error + backtest_output" where
  "strategy_backtest P signals params sizing initial cfg start_ts df =
     bindE (signals df) (\<lambda>sig.
       run_on_signals (sized_rows (stake_series P df sizing params) df sig) initial
         (case cfg of Some c \<Rightarrow> c | None \<Rightarrow> bt_exec_config params) start_ts)"

section \<open>Closed days alone decide a stake\<close>

lemma stake_finite:
  assumes "0 \<le> target" and "x \<in> set (daily_stake P target n m prices)"
  shows "\<exists>a. x = Fin a"
proof -
  have "e_min (e_div (Fin target) v) (Fin m) \<notin> {PosInf, NegInf}" for v
    using assms(1) by (cases v) (auto simp: e_min_def e_lt_def ediv_def)
  with assms(2) have "x \<notin> {NaN, PosInf, NegInf}" by (auto simp: daily_stake_def Let_def split: if_splits)
  then show ?thesis by (cases x) auto
qed

lemma causal_snoc: "causal f \<Longrightarrow> butlast (f (xs @ [x])) = f xs"
  using causal_take [of f "length xs" "xs @ [x]"] causal_length [of f "xs @ [x]"] by (simp add: butlast_conv_take)

lemma shift_snoc: "shift x (ys @ [y]) = x # ys"
  by (simp add: shift_def)

lemma daily_stake_last:
  assumes "causal_pandas P"
  shows "daily_stake P t n m (cs @ [c]) = daily_stake P t n m (cs @ [c'])"
    and "\<exists>y. daily_stake P t n m (cs @ [c, d]) = daily_stake P t n m (cs @ [c]) @ [y]"
proof -
  let ?f = "\<lambda>cs. pd_rolling P R_std1 n (pct_change (map Fin cs))"
  have f: "causal ?f" unfolding pct_change_def by (intro causal_rules assms)
  have s: "shift NaN (?f (cs @ [c])) = NaN # ?f cs" for cs c
    using causal_snoc [OF f, of cs c] causal_length [OF f, of "cs @ [c]"]
    by (cases "?f (cs @ [c])" rule: rev_cases) (simp_all add: shift_snoc)
  define h where "h = (\<lambda>v. let x = e_min (e_div (Fin t) v) (Fin m) in if x = NaN then Fin (1/10) else x)"
  have d: "daily_stake P t n m cs = map h (shift NaN (?f cs))" for cs
    by (simp add: daily_stake_def h_def Let_def comp_def)
  show "daily_stake P t n m (cs @ [c]) = daily_stake P t n m (cs @ [c'])" unfolding d s ..
  have "?f (cs @ [c]) = ?f cs @ [last (?f (cs @ [c]))]"
    using causal_snoc [OF f, of cs c] causal_length [OF f, of "cs @ [c]"]
    by (cases "?f (cs @ [c])" rule: rev_cases) auto
  then obtain y where y: "?f (cs @ [c]) = ?f cs @ [y]" by blast
  show "\<exists>y. daily_stake P t n m (cs @ [c, d]) = daily_stake P t n m (cs @ [c]) @ [y]"
    using s [of cs c] s [of "cs @ [c]" d] unfolding d y by simp
qed

lemma days_snoc:
  fixes ds :: "int list"
  assumes "sorted (ds @ [d])"
  shows "sort (remdups (ds @ [d])) = (if d \<in> set ds then sort (remdups ds) else sort (remdups ds) @ [d])"
  using assms by (intro sorted_distinct_set_unique) (auto simp: sorted_append)

lemma days_last:
  fixes ds :: "int list"
  assumes "sorted (ds @ [d])" and "d \<in> set ds"
  shows "\<exists>D. sort (remdups ds) = D @ [d] \<and> d \<notin> set D"
proof -
  from assms(2) obtain D e where D: "sort (remdups ds) = D @ [e]"
    by (cases "sort (remdups ds)" rule: rev_cases) (auto dest: arg_cong [of _ _ set])
  then have "set ds = insert e (set D)" and "sorted (D @ [e])" and "distinct (D @ [e])"
    by (metis set_sort set_remdups set_append list.simps(15) empty_set Un_insert_right sup_bot_right)
      (metis D sorted_sort, metis D distinct_remdups distinct_sort)
  with assms have "d = e" by (auto simp: sorted_append intro: antisym)
  with D \<open>distinct (D @ [e])\<close> show ?thesis by simp
qed

lemma stake_snoc:
  assumes P: "causal_pandas P" and s: "sorted (map day_of (df @ [b]))"
  shows "\<exists>y. vol_target_stake P (df @ [b]) t n m = vol_target_stake P df t n m @ [y]"
proof -
  let ?d = "day_of b"
  define close_of where "close_of = (\<lambda>df d. c_close (last (filter (\<lambda>b. day_of b = d) df)))"
  define D where "D = sort (remdups (map day_of df))"
  have closes: "daily_closes df = map (\<lambda>d. (d, close_of df d)) (sort (remdups (map day_of df)))" for df
    by (simp add: daily_closes_def close_of_def)
  have same: "close_of (df @ [b]) d = close_of df d" if "d \<noteq> ?d" for d
    using that by (simp add: close_of_def)
  define S where "S = daily_stake P t n m (map (close_of df) D)"
  define S' where "S' = daily_stake P t n m (map (close_of (df @ [b])) (sort (remdups (map day_of (df @ [b])))))"
  define pick where "pick = (\<lambda>D S b. case map_of (zip D S) (day_of b) of Some x \<Rightarrow> x | None \<Rightarrow> NaN)"
  have "map_of (zip (sort (remdups (map day_of (df @ [b])))) S') d = map_of (zip D S) d" if "d \<in> set D" for d
  proof (cases "?d \<in> day_of ` set df")
    case True
    with days_last [of "map day_of df" ?d] s obtain E where E: "D = E @ [?d]" "?d \<notin> set E"
      by (auto simp: D_def)
    from True days_snoc [of "map day_of df" ?d] s have D': "sort (remdups (map day_of (df @ [b]))) = D"
      by (simp add: D_def)
    from E(2) have "map (close_of (df @ [b])) E = map (close_of df) E" by (auto intro: same)
    then have "S' = S"
      unfolding S'_def S_def D' E(1)
      using daily_stake_last(1) [OF P, of t n m "map (close_of df) E" "close_of (df @ [b]) ?d" "close_of df ?d"] by (simp cong: map_cong)
    with D' show ?thesis by simp
  next
    case False
    with days_snoc [of "map day_of df" ?d] s have D': "sort (remdups (map day_of (df @ [b]))) = D @ [?d]"
      by (simp add: D_def image_iff)
    from that obtain E e where E: "D = E @ [e]" by (cases D rule: rev_cases) auto
    from False have "?d \<notin> set D" by (simp add: D_def)
    then have "map (close_of (df @ [b])) D = map (close_of df) D" by (auto intro: same)
    then obtain y where y: "S' = S @ [y]"
      unfolding S'_def S_def D' E
      using daily_stake_last(2) [OF P, of t n m "map (close_of df) E" "close_of df e" "close_of (df @ [b]) ?d"]
      by (auto cong: map_cong)
    have "length S = length D" using P by (simp add: S_def daily_stake_def Let_def causal_pandas_def causal_def pct_change_def)
    with y that \<open>?d \<notin> set D\<close> show ?thesis unfolding D' by (auto simp: map_add_def map_of_zip_is_None split: option.split)
  qed
  then have "pick (sort (remdups (map day_of (df @ [b])))) S' x = pick D S x" if "x \<in> set df" for x
    using that by (simp add: pick_def D_def)
  moreover have "vol_target_stake P df t n m = map (pick D S) df"
    by (simp add: vol_target_stake_def closes pick_def S_def D_def comp_def Let_def)
  moreover have "vol_target_stake P (df @ [b]) t n m = map (pick (sort (remdups (map day_of (df @ [b])))) S') (df @ [b])"
    unfolding vol_target_stake_def closes pick_def S'_def Let_def by (simp add: comp_def)
  ultimately show ?thesis by simp
qed

lemma stake_take:
  assumes "causal_pandas P" and "sorted (map day_of df)"
  shows "vol_target_stake P (take k df) t n m = take k (vol_target_stake P df t n m)"
  using assms(2)
proof (induction df rule: rev_induct)
  case (snoc b df)
  from stake_snoc [OF assms(1) snoc.prems] obtain y
    where y: "vol_target_stake P (df @ [b]) t n m = vol_target_stake P df t n m @ [y]" by blast
  have len: "length (vol_target_stake P df t n m) = length df" for df by (simp add: vol_target_stake_def Let_def)
  from snoc show ?case by (cases "k \<le> length df") (auto simp: y len sorted_append)
qed (simp add: vol_target_stake_def daily_closes_def)

section \<open>A run only adds to its books\<close>

definition extends :: "bt_acc \<Rightarrow> bt_acc \<Rightarrow> bool" where
  "extends a b \<longleftrightarrow> prefix (ba_trades a) (ba_trades b) \<and> prefix (ba_equity a) (ba_equity b)
     \<and> prefix (rejected (ba_state a)) (rejected (ba_state b))"

interpretation pairing: monotone_steps pair_fill "\<lambda>_. True" "\<lambda>a b. prefix (snd a) (snd b)"
  by unfold_locales (auto simp: pair_fill_def split: if_splits option.splits)

lemma pairing_prefix: "runE pair_fill fs (ob, ts) = Inr (ob', ts') \<Longrightarrow> prefix ts ts'"
  using pairing.run_below [where s = "(ob, ts)" and es = fs and s' = "(ob', ts')"] by simp

lemma sim_buy_rejected: "sim_buy cfg ts op st s = (s', f) \<Longrightarrow> prefix (rejected s) (rejected s')"
  by (auto simp: sim_buy_def Let_def split: if_splits)

lemma sim_sell_rejected: "sim_sell cfg ts p r pos s = (s', f) \<Longrightarrow> rejected s' = rejected s"
  by (auto simp: sim_sell_def Let_def)

lemma on_candle_rejected: "prefix (rejected s) (rejected (fst (on_candle cfg k g allow s)))"
proof -
  have pending: "prefix (rejected s) (rejected (fst (execute_pending cfg k allow s)))"
    by (auto simp: execute_pending_def Let_def split: prod.splits option.splits
        dest: sim_buy_rejected sim_sell_rejected)
  have stops: "rejected (fst (check_stops cfg k s)) = rejected s" for s
    by (auto simp: check_stops_def Let_def split: prod.splits option.splits dest: sim_sell_rejected)
  from pending stops [of "fst (execute_pending cfg k allow s)"] show ?thesis
    by (auto simp: on_candle_def record_signal_def split: prod.splits)
qed

interpretation rows: monotone_steps "bt_row cfg start_ts" "\<lambda>_. True" extends for cfg start_ts
proof unfold_locales
  fix a b c :: bt_acc and row
  show "extends a a" by (simp add: extends_def)
  show "extends a b \<Longrightarrow> extends b c \<Longrightarrow> extends a c" by (auto simp: extends_def intro: prefix_order.trans)
  show "bt_row cfg start_ts row a = Inr b \<Longrightarrow> extends a b"
    using on_candle_rejected [of "ba_state a" cfg "fst row" "snd row" True]
    by (auto simp: extends_def bt_row_def bindE_eq_Inr split: prod.splits if_splits option.splits dest: pairing_prefix)
qed simp

lemma run_prefix:
  "\<exists>early out. run_on_signals rows initial cfg st = Inr early \<and> run_on_signals (rows @ later) initial cfg st = Inr out
     \<and> prefix (bo_trades early) (bo_trades out) \<and> prefix (bo_equity early) (bo_equity out)
     \<and> prefix (bo_rejected early) (bo_rejected out)"
proof -
  let ?a = "\<lparr>ba_state = new_state initial, ba_open_buy = None, ba_trades = [], ba_equity = []\<rparr>"
  have "\<exists>a. runE (bt_row cfg st) rows ?a = Inr a" for rows
    using bt_rows_run [of ?a cfg st rows, OF _ _ surjective_pairing] by (auto simp: holds_buy_def new_state_def)
  then obtain a b where a: "runE (bt_row cfg st) rows ?a = Inr a" and b: "runE (bt_row cfg st) (rows @ later) ?a = Inr b"
    by metis
  then have "extends a b" by (auto simp: runE_append bindE_eq_Inr intro: rows.run_below)
  with a b show ?thesis by (simp add: run_on_signals_def extends_def)
qed

lemma sized_rows_take: "sized_rows (map_option (take k) st) (take k df) (take k sig) = take k (sized_rows st df sig)"
  by (cases st) (simp_all add: sized_rows_def take_map take_zip min.commute)

lemma backtest_prefix:
  assumes P: "causal_pandas P" and sg: "uniform signals" and s: "sorted (map c_ts df)"
  shows "(\<exists>e. strategy_backtest P signals params sizing initial cfg st (take k df) = Inl e
        \<and> strategy_backtest P signals params sizing initial cfg st df = Inl e)
    \<or> (\<exists>early out. strategy_backtest P signals params sizing initial cfg st (take k df) = Inr early
        \<and> strategy_backtest P signals params sizing initial cfg st df = Inr out
        \<and> prefix (bo_trades early) (bo_trades out) \<and> prefix (bo_equity early) (bo_equity out)
        \<and> prefix (bo_rejected early) (bo_rejected out))"
proof -
  from s have days: "sorted (map day_of df)"
    by (auto simp: sorted_iff_nth_mono intro!: zdiv_mono1)
  have stakes: "stake_series P (take k df) sizing params = map_option (take k) (stake_series P df sizing params)"
    by (cases sizing) (simp_all add: stake_series_def stake_take [OF P days])
  define rows where "rows = (\<lambda>df f. sized_rows (stake_series P df sizing params) df (f df))"
  have "rows (take k df) f = take k (rows df f)" if "causal f" for f
    using causal_take [OF that] by (simp add: rows_def stakes sized_rows_take)
  then have "\<exists>later. rows df f = rows (take k df) f @ later" if "causal f" for f
    using that by (metis append_take_drop_id)
  with sg show ?thesis
    using run_prefix by (fastforce simp: uniform_def strategy_backtest_def rows_def)
qed

section \<open>The strategies look at no later candle\<close>

text \<open>Property C18: the strategies do not look ahead. Take any registered strategy with any
  parameters, or any rules of the visual builder, with the fixed stake or the one that targets a
  volatility, and pandas functions that use earlier rows only. A backtest over the first candles of a
  history either fails exactly when the one over all of it does, with the same error, or its round
  trips, its equity curve and its rejected orders are a prefix of those of the whole history.\<close>

theorem strategies_never_look_ahead:
  assumes "causal_pandas P"
    and "(\<exists>s \<in> set registered. signals = strategy_signals P s given) \<or> signals = rule_signals P pf rs"
    and "sorted (map c_ts df)"
  shows "(\<exists>e. strategy_backtest P signals params sizing initial cfg st (take k df) = Inl e
        \<and> strategy_backtest P signals params sizing initial cfg st df = Inl e)
    \<or> (\<exists>early out. strategy_backtest P signals params sizing initial cfg st (take k df) = Inr early
        \<and> strategy_backtest P signals params sizing initial cfg st df = Inr out
        \<and> prefix (bo_trades early) (bo_trades out) \<and> prefix (bo_equity early) (bo_equity out)
        \<and> prefix (bo_rejected early) (bo_rejected out))"
  using assms uniform_strategy uniform_rule_signals by (intro backtest_prefix) auto

text \<open>Property C19: rules that were accepted never fail later. When the check of a version's rules
  passes on its made-up candles, then on every history the rules give a signal for every candle
  without an error, the signals of earlier candles do not depend on later ones, and they are what
  the conditions mean without the cache of columns.\<close>

theorem validated_rules_never_fail:
  assumes "causal_pandas P" and "validate P pf sample rs = Inr ()"
  shows "\<exists>f. causal f \<and> (\<forall>df. rule_signals P pf rs df = Inr (f df) \<and> rule_meaning P pf rs df = Inr (f df))"
proof -
  from assms(2) obtain sig where "rule_signals P pf rs sample = Inr sig"
    by (auto simp: validate_def bindE_eq_Inr split: if_splits)
  with uniform_rule_signals [OF assms(1), of pf rs] obtain f where "causal f" "\<And>df. rule_signals P pf rs df = Inr (f df)"
    by (auto simp: uniform_def)
  then show ?thesis by (auto simp: rule_signals_meaning [symmetric])
qed

section \<open>A concrete pandas\<close>

text \<open>Windows as lists of values; the root of a variance by ten steps of Newton's method.\<close>

definition window :: "nat \<Rightarrow> series \<Rightarrow> nat \<Rightarrow> series" where
  "window n xs i = drop (Suc i - n) (take (Suc i) xs)"

fun fins :: "series \<Rightarrow> flt list" where
  "fins (Fin a # xs) = a # fins xs"
| "fins (_ # xs) = fins xs"
| "fins [] = []"

fun newton :: "nat \<Rightarrow> flt \<Rightarrow> flt \<Rightarrow> flt" where
  "newton 0 v x = x"
| "newton (Suc n) v x = (if x = 0 then 0 else newton n v ((x + v / x) / 2))"

definition variance :: "flt \<Rightarrow> flt list \<Rightarrow> flt" where
  "variance ddof xs = sum_list (map (\<lambda>x. (x - mean xs) ^ 2) xs) / (of_nat (length xs) - ddof)"

fun window_value :: "rolling_kind \<Rightarrow> flt list \<Rightarrow> flt" where
  "window_value R_mean xs = mean xs"
| "window_value R_sum xs = sum_list xs"
| "window_value R_min xs = fold min xs (hd xs)"
| "window_value R_max xs = fold max xs (hd xs)"
| "window_value R_std0 xs = newton 10 (variance 0 xs) (variance 0 xs)"
| "window_value R_std1 xs = newton 10 (variance 1 xs) (variance 1 xs)"

definition example_rolling :: "rolling_kind \<Rightarrow> int \<Rightarrow> series \<Rightarrow> series" where
  "example_rolling r n xs =
     map (\<lambda>i. let w = window (nat n) xs i
              in if length (fins w) < nat n then NaN else Fin (window_value r (fins w))) [0..<length xs]"

fun ewm_from :: "flt \<Rightarrow> flt option \<Rightarrow> series \<Rightarrow> series" where
  "ewm_from a prev (Fin x # xs) =
     (let y = (case prev of None \<Rightarrow> x | Some p \<Rightarrow> (1 - a) * p + a * x) in Fin y # ewm_from a (Some y) xs)"
| "ewm_from a prev (_ # xs) = (case prev of None \<Rightarrow> NaN | Some p \<Rightarrow> Fin p) # ewm_from a prev xs"
| "ewm_from a prev [] = []"

definition example_ewm :: "ewm_weight \<Rightarrow> int \<Rightarrow> series \<Rightarrow> series" where
  "example_ewm w n xs =
     map (\<lambda>(i, y). if int i + 1 < n then NaN else y)
       (zip [0..<length xs] (ewm_from (case w of Span s \<Rightarrow> 2 / (of_int s + 1) | Alpha a \<Rightarrow> a) None xs))"

definition example_pandas :: pandas where
  "example_pandas = \<lparr>pd_ewm = example_ewm, pd_rolling = example_rolling\<rparr>"

lemma ewm_from_take: "ewm_from a prev (take k xs) = take k (ewm_from a prev xs)"
  by (induction a prev xs arbitrary: k rule: ewm_from.induct) (auto simp: take_Cons Let_def split: nat.splits)

lemma length_ewm_from: "length (ewm_from a prev xs) = length xs"
  by (induction a prev xs rule: ewm_from.induct) (auto simp: Let_def)

lemma example_causal: "causal_pandas example_pandas"
proof -
  have "causal (example_rolling r n)" for r n
  proof -
    have "window m (take k xs) i = window m xs i" if "i < k" for m k xs i
      using that by (simp add: window_def min_absorb1 Suc_le_eq)
    then show ?thesis by (auto simp: causal_def example_rolling_def take_map min_def Let_def)
  qed
  moreover have "causal (example_ewm w n)" for w n
    unfolding example_ewm_def by (intro causal_rules) (simp add: causal_def ewm_from_take length_ewm_from)
  ultimately show ?thesis by (simp add: causal_pandas_def example_pandas_def)
qed

definition example_bars :: "bar list" where
  "example_bars = map (\<lambda>i. \<lparr>c_ts = int i * 3600, c_open = 100 + of_nat i, c_high = 102 + of_nat i,
     c_low = 99 + of_nat i, c_close = 101 + of_nat i, c_volume = 10\<rparr>) [0..<5]"

definition example_rules :: rule_set where
  "example_rules = \<lparr>rs_entry = [\<lparr>r_op = Some ''gt'', r_ind = Some ''close'', r_kind = None,
       r_val = Some (Number 101)\<rparr>],
     rs_exit = [\<lparr>r_op = Some ''xa'', r_ind = Some ''close'', r_kind = Some ''ind'',
       r_val = Some (Text ''open'')\<rparr>],
     rs_join_entry = None, rs_join_exit = None, rs_prm = Map.empty\<rparr>"

lemma example_frame: "sorted (map c_ts example_bars)" "length example_bars = 5"
  by (simp_all add: example_bars_def upt_conv_Cons)

lemma example_rule_signals:
  "rule_signals example_pandas (\<lambda>t. None) example_rules example_bars
    = Inr [(False, False), (True, False), (True, False), (True, False), (True, False)]"
  by (simp add: rule_signals_def combine_def combine_step_def condition_def cached_series_def rule_series_def
      example_rules_def example_bars_def compare_column_def compare_constant_def cross_up_def rule_ops_def
      rule_constant_def or_default_def e_lt_def shift_def Let_def upt_conv_Cons)

theorem strategies_never_look_ahead_witness:
  "\<exists>early out.
    strategy_backtest example_pandas (rule_signals example_pandas (\<lambda>t. None) example_rules) Map.empty
      (Some \<lparr>sz_mode = Some ''vol_target'', sz_target = None\<rparr>) 100 None None (take 3 example_bars) = Inr early
    \<and> strategy_backtest example_pandas (rule_signals example_pandas (\<lambda>t. None) example_rules) Map.empty
      (Some \<lparr>sz_mode = Some ''vol_target'', sz_target = None\<rparr>) 100 None None example_bars = Inr out
    \<and> prefix (bo_trades early) (bo_trades out) \<and> prefix (bo_equity early) (bo_equity out)
    \<and> prefix (bo_rejected early) (bo_rejected out)"
proof -
  have "strategy_backtest example_pandas (rule_signals example_pandas (\<lambda>t. None) example_rules) ps z i c st example_bars
      \<noteq> Inl e" for ps z i c st e
    using run_prefix [of _ i _ st "[]"] by (auto simp: strategy_backtest_def example_rule_signals) (metis Inl_Inr_False)
  with strategies_never_look_ahead [OF example_causal _ example_frame(1),
      of "rule_signals example_pandas (\<lambda>t. None) example_rules" undefined "\<lambda>t. None" example_rules]
  show ?thesis by blast
qed

theorem validated_rules_never_fail_witness:
  "\<exists>f. causal f \<and> f example_bars = [(False, False), (True, False), (True, False), (True, False), (True, False)]
    \<and> (\<forall>df. rule_signals example_pandas (\<lambda>t. None) example_rules df = Inr (f df))"
proof -
  have "validate example_pandas (\<lambda>t. None) example_bars example_rules = Inr ()"
    by (simp add: validate_def example_rule_signals) (simp add: example_rules_def)
  from validated_rules_never_fail [OF example_causal this] example_rule_signals show ?thesis by auto
qed

end
