(* ===== verification/Ql_Interop.thy ===== *)
theory Ql_Interop
  imports Ql_Rules
begin

text \<open>
  Strategies of another framework as data (quantlab/strategies/interop.py): a specification is
  converted to rules of the visual builder, or refused. The conversion keeps the meaning of the
  specification, although the rules have one slot for the RSI and two for EMA periods.
\<close>

section \<open>Specifications\<close>

datatype operand =
    Spec_number flt
  | Spec_source string
  | Spec_indicator "string option" "int option" \<comment> \<open>\<open>indicator\<close>, \<open>period\<close>\<close>

record spec_cond =
  sc_left :: operand
  sc_op :: "string option"
  sc_right :: operand

record spec =
  sp_side :: "string option"
  sp_should_short :: bool
  sp_order_type :: "string option"
  sp_has_code :: bool \<comment> \<open>one of the keys with code or a ladder of profits is set\<close>
  sp_should_long :: "spec_cond list"
  sp_exit :: "spec_cond list"

definition spec_ops :: "(string \<times> string) list" where
  "spec_ops = [(''<'', ''lt''), (''>'', ''gt''), (''<='', ''le''), (''>='', ''ge''), (''crosses_above'', ''xa''),
     (''crosses_below'', ''xb'')]"

definition spec_sources :: "string list" where
  "spec_sources = [''close'', ''open'', ''high'', ''low'', ''volume'']"

section \<open>Conversion\<close>

text \<open>The parameters of the rules and the periods of the EMA slots; \<open>UnsupportedSpec\<close> is a \<open>ValueError\<close>.\<close>

type_synonym slots = "rule_params \<times> int list"

definition rsi_period :: "int option \<Rightarrow> int" where \<comment> \<open>\<open>period or 14\<close>\<close>
  "rsi_period period = (case period of None \<Rightarrow> 14 | Some n \<Rightarrow> if n = 0 then 14 else n)"

definition spec_term :: "operand \<Rightarrow> slots \<Rightarrow> py_error + rule_val \<times> slots" where
  \<comment> \<open>a number, or the name of an indicator\<close>
  "spec_term t st =
     (case st of (prm, emas) \<Rightarrow>
      case t of
        Spec_number x \<Rightarrow> Inr (Number x, st)
      | Spec_source s \<Rightarrow> if s \<notin> set spec_sources then Inl ValueError else Inr (Text s, st)
      | Spec_indicator name period \<Rightarrow>
          if name = Some ''rsi'' then
            (let n = of_int (rsi_period period);
                 prm' = (if prm ''rsiP'' = None then prm(''rsiP'' \<mapsto> n) else prm)
             in if prm' ''rsiP'' \<noteq> Some n then Inl ValueError else Inr (Text ''rsi'', (prm', emas)))
          else if name = Some ''ema'' then
            (case period of
               None \<Rightarrow> Inl ValueError
             | Some n \<Rightarrow>
                 if n \<in> set emas then Inr (Text (if hd emas = n then ''emaF'' else ''emaS''), st)
                 else if length emas = 2 then Inl ValueError
                 else
                   (let slot = (if emas = [] then ''emaF'' else ''emaS'')
                    in Inr (Text slot, (prm(slot \<mapsto> of_int n), emas @ [n]))))
          else Inl ValueError)"

definition convert_cond :: "spec_cond \<Rightarrow> rule list \<times> slots \<Rightarrow> py_error + rule list \<times> slots" where
  "convert_cond c acc =
     (case sc_op c of
        None \<Rightarrow> Inl ValueError
      | Some o1 \<Rightarrow>
          (case map_of spec_ops o1 of
             None \<Rightarrow> Inl ValueError
           | Some op \<Rightarrow>
               bindE (spec_term (sc_left c) (snd acc)) (\<lambda>(lv, st1).
                 case lv of
                   Number _ \<Rightarrow> Inl ValueError
                 | Text ind \<Rightarrow>
                     bindE (spec_term (sc_right c) st1) (\<lambda>(rv, st2).
                       Inr (fst acc @ [\<lparr>r_op = Some op, r_ind = Some ind,
                              r_kind = Some (case rv of Number _ \<Rightarrow> ''num'' | Text _ \<Rightarrow> ''ind''), r_val = Some rv\<rparr>],
                            st2)))))"

definition convert :: "spec_cond list \<Rightarrow> slots \<Rightarrow> py_error + rule list \<times> slots" where
  "convert conds st = runE convert_cond conds ([], st)"

definition spec_to_rules :: "spec \<Rightarrow> py_error + rule_set" where
  "spec_to_rules sp =
     (if or_default ''long'' (sp_side sp) \<noteq> ''long'' \<or> sp_should_short sp then Inl ValueError
      else if or_default ''market'' (sp_order_type sp) \<noteq> ''market'' then Inl ValueError
      else if sp_has_code sp then Inl ValueError
      else if sp_should_long sp = [] then Inl ValueError
      else
        bindE (convert (sp_should_long sp) (Map.empty, [])) (\<lambda>(entry, st1).
        bindE (convert (sp_exit sp) st1) (\<lambda>(leave, st2).
          Inr \<lparr>rs_entry = entry, rs_exit = leave, rs_join_entry = Some ''AND'', rs_join_exit = Some ''OR'',
               rs_prm = fst st2\<rparr>)))"

section \<open>What a specification means\<close>

text \<open>Every operand has its own period; all entry conditions, any exit condition.\<close>

definition operand_series :: "pandas \<Rightarrow> operand \<Rightarrow> bar list \<Rightarrow> py_error + series" where
  "operand_series P t df =
     (case t of
        Spec_source s \<Rightarrow>
          Inr (column (if s = ''close'' then c_close else if s = ''open'' then c_open else if s = ''high'' then c_high
                       else if s = ''low'' then c_low else c_volume) df)
      | Spec_indicator name period \<Rightarrow>
          if name = Some ''rsi'' then with_spans [rsi_period period] (rsi P (column c_close df) (rsi_period period))
          else with_spans [the period] (ema P (column c_close df) (the period))
      | Spec_number _ \<Rightarrow> Inl ValueError)"

definition spec_cond_meaning :: "pandas \<Rightarrow> spec_cond \<Rightarrow> bar list \<Rightarrow> py_error + bool list" where
  "spec_cond_meaning P c df =
     (let op = the (map_of spec_ops (the (sc_op c))) in
      bindE (operand_series P (sc_left c) df) (\<lambda>a.
        case sc_right c of
          Spec_number x \<Rightarrow> Inr (compare_constant op a (Fin x))
        | _ \<Rightarrow> bindE (operand_series P (sc_right c) df) (\<lambda>b. Inr (compare_column op a b))))"

fun spec_joined :: "pandas \<Rightarrow> string \<Rightarrow> spec_cond list \<Rightarrow> bool list \<Rightarrow> bar list \<Rightarrow> py_error + bool list" where
  "spec_joined P join [] out df = Inr out"
| "spec_joined P join (c # cs) out df =
     bindE (spec_cond_meaning P c df) (\<lambda>x. spec_joined P join cs (join_rows join out x) df)"

fun spec_conditions :: "pandas \<Rightarrow> string \<Rightarrow> spec_cond list \<Rightarrow> bar list \<Rightarrow> py_error + bool list" where
  "spec_conditions P join [] df = Inr (replicate (length df) False)"
| "spec_conditions P join (c # cs) df = bindE (spec_cond_meaning P c df) (\<lambda>x. spec_joined P join cs x df)"

definition spec_meaning :: "pandas \<Rightarrow> spec \<Rightarrow> bar list \<Rightarrow> py_error + (bool \<times> bool) list" where
  "spec_meaning P sp df =
     bindE (spec_conditions P ''AND'' (sp_should_long sp) df) (\<lambda>enter.
     bindE (spec_conditions P ''OR'' (sp_exit sp) df) (\<lambda>leave. Inr (zip enter leave)))"

section \<open>Slots are filled once\<close>

definition slots_sound :: "slots \<Rightarrow> bool" where
  "slots_sound st \<longleftrightarrow> length (snd st) \<le> 2 \<and> distinct (snd st)
     \<and> (fst st ''emaF'' = (if snd st = [] then None else Some (of_int (hd (snd st)))))
     \<and> (fst st ''emaS'' = (if length (snd st) < 2 then None else Some (of_int (snd st ! 1))))"

lemma py_int_of_int [simp]: "py_int (of_int n) = n"
  by (simp add: py_int_def)

lemma series_source: "s \<in> set spec_sources \<Longrightarrow> rule_series P prm s df = operand_series P (Spec_source s) df"
  unfolding spec_sources_def set_simps insert_iff empty_iff
  by (elim disjE FalseE; hypsubst) (simp_all add: rule_series_def operand_series_def)

lemma series_rsi:
  "prm ''rsiP'' = Some (of_int n) \<Longrightarrow> n \<noteq> 0
    \<Longrightarrow> rule_series P prm ''rsi'' df = with_spans [n] (rsi P (column c_close df) n)"
  by (simp add: rule_series_def Let_def)

lemma series_ema:
  "prm ''emaF'' = Some (of_int n) \<Longrightarrow> rule_series P prm ''emaF'' df = with_spans [n] (ema P (column c_close df) n)"
  "prm ''emaS'' = Some (of_int n) \<Longrightarrow> rule_series P prm ''emaS'' df = with_spans [n] (ema P (column c_close df) n)"
  by (simp_all add: rule_series_def Let_def)

lemma rsi_period_nonzero [simp]: "rsi_period period \<noteq> 0"
  by (simp add: rsi_period_def split: option.split)

lemma map_leD: "m \<subseteq>\<^sub>m m' \<Longrightarrow> m k = Some v \<Longrightarrow> m' k = Some v"
  by (metis domI map_le_def)

text \<open>A slot that an operand was given stays its own, however the parameters grow.\<close>

lemma ema_slots:
  assumes "slots_sound (prm, emas)" and "spec_term (Spec_indicator (Some ''ema'') (Some n)) (prm, emas) = Inr (v, (prm', emas'))"
  shows "slots_sound (prm', emas') \<and> prm \<subseteq>\<^sub>m prm'
    \<and> (\<exists>slot. v = Text slot \<and> slot \<in> {''emaF'', ''emaS''} \<and> prm' slot = Some (of_int n))"
proof (cases "n \<in> set emas")
  case True
  have "emas = [] \<or> (\<exists>a. emas = [a]) \<or> (\<exists>a b. emas = [a, b])"
    using assms(1) by (cases emas; cases "tl emas") (auto simp: slots_sound_def)
  with assms True show ?thesis by (auto simp: spec_term_def slots_sound_def split: if_splits)
next
  case False
  have "emas = [] \<or> (\<exists>a. emas = [a]) \<or> length emas = 2"
    using assms(1) by (cases emas; cases "tl emas") (auto simp: slots_sound_def)
  with assms False show ?thesis
    by (auto simp: spec_term_def slots_sound_def Let_def map_le_def split: if_splits)
qed

lemma rsi_slot:
  assumes "slots_sound (prm, emas)" and "spec_term (Spec_indicator (Some ''rsi'') period) (prm, emas) = Inr (v, (prm', emas'))"
  shows "slots_sound (prm', emas') \<and> prm \<subseteq>\<^sub>m prm' \<and> v = Text ''rsi'' \<and> prm' ''rsiP'' = Some (of_int (rsi_period period))"
  using assms by (auto simp: spec_term_def slots_sound_def Let_def map_le_def split: if_splits)

definition means :: "pandas \<Rightarrow> slots \<Rightarrow> operand \<Rightarrow> rule_val \<Rightarrow> bool" where
  "means P st t v \<longleftrightarrow>
     (case v of
        Number x \<Rightarrow> t = Spec_number x
      | Text name \<Rightarrow> (\<forall>x. t \<noteq> Spec_number x)
          \<and> (\<forall>prm. fst st \<subseteq>\<^sub>m prm \<longrightarrow> rule_series P prm name = operand_series P t))"

lemma means_later: "means P st t v \<Longrightarrow> fst st \<subseteq>\<^sub>m fst st' \<Longrightarrow> means P st' t v"
  by (auto simp: means_def split: rule_val.splits intro: map_le_trans)

lemma spec_term_means:
  assumes "spec_term t st = Inr (v, st')" and "slots_sound st"
  shows "slots_sound st' \<and> fst st \<subseteq>\<^sub>m fst st' \<and> means P st' t v"
proof -
  obtain prm emas prm' emas' where st: "st = (prm, emas)" "st' = (prm', emas')" by (metis surj_pair)
  show ?thesis
  proof (cases t)
    case (Spec_number x)
    with assms st show ?thesis by (auto simp: spec_term_def means_def)
  next
    case (Spec_source s)
    with assms st have "v = Text s" "st' = st" "s \<in> set spec_sources" by (auto simp: spec_term_def split: if_splits)
    with Spec_source assms(2) show ?thesis by (auto simp: means_def series_source fun_eq_iff)
  next
    case (Spec_indicator name period)
    with assms(1) st consider "name = Some ''rsi''" | n where "name = Some ''ema''" "period = Some n"
      by (auto simp: spec_term_def split: if_splits option.splits)
    then show ?thesis
    proof cases
      case 1
      with rsi_slot [of prm emas period v prm' emas'] assms st Spec_indicator show ?thesis
        by (auto simp: means_def operand_series_def fun_eq_iff intro!: series_rsi dest: map_leD)
    next
      case 2
      with ema_slots [of prm emas n v prm' emas'] assms st Spec_indicator show ?thesis
        by (auto simp: means_def operand_series_def fun_eq_iff intro!: series_ema dest: map_leD)
    qed
  qed
qed

section \<open>Conversion keeps the meaning\<close>

definition rules_mean :: "pandas \<Rightarrow> slots \<Rightarrow> rule list \<Rightarrow> spec_cond list \<Rightarrow> bool" where
  "rules_mean P st rows conds \<longleftrightarrow>
     list_all2 (\<lambda>r c. \<forall>prm pf. fst st \<subseteq>\<^sub>m prm \<longrightarrow> condition_of P pf prm r = spec_cond_meaning P c) rows conds"

lemma spec_ops_known: "map_of spec_ops o1 = Some op \<Longrightarrow> op \<in> set rule_ops"
  by (auto simp: spec_ops_def rule_ops_def split: if_splits)

lemma convert_cond_means:
  assumes "convert_cond c (rows, st) = Inr (rows', st')" and "slots_sound st"
  shows "slots_sound st' \<and> fst st \<subseteq>\<^sub>m fst st'
    \<and> (\<exists>r. rows' = rows @ [r] \<and> rules_mean P st' [r] [c])"
proof -
  from assms(1) obtain o1 op where ops: "sc_op c = Some o1" "map_of spec_ops o1 = Some op"
    by (auto simp: convert_cond_def split: option.splits)
  with assms(1) obtain lv st1 where l0: "spec_term (sc_left c) st = Inr (lv, st1)"
    by (auto simp: convert_cond_def bindE_eq_Inr)
  with assms(1) ops obtain ind where l: "spec_term (sc_left c) st = Inr (Text ind, st1)" and lv: "lv = Text ind"
    by (cases lv) (auto simp: convert_cond_def)
  with assms(1) ops obtain rv where r: "spec_term (sc_right c) st1 = Inr (rv, st')"
    and rows': "rows' = rows @ [\<lparr>r_op = Some op, r_ind = Some ind,
          r_kind = Some (case rv of Number _ \<Rightarrow> ''num'' | Text _ \<Rightarrow> ''ind''), r_val = Some rv\<rparr>]"
    by (auto simp: convert_cond_def bindE_eq_Inr)
  from spec_term_means [OF l assms(2), of P] have l': "slots_sound st1" "fst st \<subseteq>\<^sub>m fst st1" "means P st1 (sc_left c) (Text ind)"
    by auto
  from spec_term_means [OF r l'(1), of P] have r': "slots_sound st'" "fst st1 \<subseteq>\<^sub>m fst st'" "means P st' (sc_right c) rv"
    by auto
  from means_later [OF l'(3) r'(2)] r'(3) ops spec_ops_known [OF ops(2)]
  have "rules_mean P st' [\<lparr>r_op = Some op, r_ind = Some ind,
          r_kind = Some (case rv of Number _ \<Rightarrow> ''num'' | Text _ \<Rightarrow> ''ind''), r_val = Some rv\<rparr>] [c]"
    by (cases rv; cases "sc_right c")
      (auto simp: rules_mean_def condition_of_def spec_cond_meaning_def means_def rule_constant_def fun_eq_iff)
  with rows' r'(1) l'(2) r'(2) show ?thesis by (blast intro: map_le_trans)
qed

lemma rules_mean_later: "rules_mean P st rows conds \<Longrightarrow> fst st \<subseteq>\<^sub>m fst st' \<Longrightarrow> rules_mean P st' rows conds"
  unfolding rules_mean_def by (erule list_all2_mono) (blast intro: map_le_trans)

lemma rules_mean_append:
  "rules_mean P st rows conds \<Longrightarrow> rules_mean P st rows' conds' \<Longrightarrow> rules_mean P st (rows @ rows') (conds @ conds')"
  by (auto simp: rules_mean_def intro: list_all2_appendI)

lemma convert_means:
  assumes "runE convert_cond conds (rows, st) = Inr (rows', st')" and "slots_sound st" and "rules_mean P st rows done_conds"
  shows "slots_sound st' \<and> fst st \<subseteq>\<^sub>m fst st' \<and> rules_mean P st' rows' (done_conds @ conds)"
  using assms
proof (induction conds arbitrary: rows st done_conds)
  case (Cons c conds)
  from Cons.prems(1) obtain rows1 st1 where c: "convert_cond c (rows, st) = Inr (rows1, st1)"
    and rest: "runE convert_cond conds (rows1, st1) = Inr (rows', st')" by (auto simp: bindE_eq_Inr)
  from convert_cond_means [OF c Cons.prems(2), of P] obtain r where s1: "slots_sound st1" "fst st \<subseteq>\<^sub>m fst st1"
    "rows1 = rows @ [r]" "rules_mean P st1 [r] [c]" by blast
  with Cons.prems(3) have "rules_mean P st1 rows1 (done_conds @ [c])"
    by (auto intro: rules_mean_append rules_mean_later)
  from Cons.IH [OF rest s1(1) this] s1(2) show ?case by (auto intro: map_le_trans)
qed auto

lemma join_means:
  "rules_mean P st rows conds \<Longrightarrow> fst st \<subseteq>\<^sub>m prm
    \<Longrightarrow> join_conditions P pf prm join rows out df = spec_joined P join conds out df"
proof (induction rows arbitrary: conds out)
  case (Cons r rows)
  then show ?case by (cases conds) (auto simp: rules_mean_def bindE_def split: sum.split)
qed (auto simp: rules_mean_def)

lemma combined_means:
  "rules_mean P st rows conds \<Longrightarrow> fst st \<subseteq>\<^sub>m prm \<Longrightarrow> combined P pf prm join rows df = spec_conditions P join conds df"
  using join_means [of P st "tl rows" "tl conds" prm pf join]
  by (cases rows; cases conds) (auto simp: rules_mean_def bindE_def split: sum.split)

text \<open>Property C20: a converted strategy trades as specified. When a specification is accepted, then on
  every history the rules give the signals, or the error, that the specification means: every
  operand with its own period, all conditions to enter and any condition to exit, although all RSI
  operands share one slot and all EMA operands share two.\<close>

theorem conversion_keeps_meaning:
  assumes "spec_to_rules sp = Inr rs"
  shows "rule_signals P pf rs df = spec_meaning P sp df"
proof -
  from assms obtain entry st1 leave st2 where e: "convert (sp_should_long sp) (Map.empty, []) = Inr (entry, st1)"
    and x: "convert (sp_exit sp) st1 = Inr (leave, st2)"
    and rs: "rs = \<lparr>rs_entry = entry, rs_exit = leave, rs_join_entry = Some ''AND'', rs_join_exit = Some ''OR'', rs_prm = fst st2\<rparr>"
    by (auto simp: spec_to_rules_def bindE_eq_Inr split: if_splits)
  have "slots_sound (Map.empty, [])" by (simp add: slots_sound_def)
  from convert_means [OF e [unfolded convert_def] this, of P "[]"] have s1: "slots_sound st1" "rules_mean P st1 entry (sp_should_long sp)"
    by (auto simp: rules_mean_def)
  from convert_means [OF x [unfolded convert_def] s1(1), of P "[]"] have s2: "fst st1 \<subseteq>\<^sub>m fst st2" "rules_mean P st2 leave (sp_exit sp)"
    by (auto simp: rules_mean_def)
  from combined_means [OF rules_mean_later [OF s1(2) s2(1)] map_le_refl] combined_means [OF s2(2) map_le_refl]
  show ?thesis by (simp add: rule_signals_meaning rule_meaning_def spec_meaning_def rs or_default_def)
qed

section \<open>The two specifications of the program\<close>

abbreviation spec_ema :: "int \<Rightarrow> operand" where
  "spec_ema n \<equiv> Spec_indicator (Some ''ema'') (Some n)"

definition jesse_ema_cross :: spec where
  "jesse_ema_cross = \<lparr>sp_side = None, sp_should_short = False, sp_order_type = Some ''market'', sp_has_code = False,
     sp_should_long = [\<lparr>sc_left = spec_ema 20, sc_op = Some ''crosses_above'', sc_right = spec_ema 50\<rparr>],
     sp_exit = [\<lparr>sc_left = spec_ema 20, sc_op = Some ''crosses_below'', sc_right = spec_ema 50\<rparr>]\<rparr>"

definition jesse_rsi_trend :: spec where
  "jesse_rsi_trend = \<lparr>sp_side = None, sp_should_short = False, sp_order_type = Some ''market'', sp_has_code = False,
     sp_should_long = [\<lparr>sc_left = Spec_indicator (Some ''rsi'') (Some 14), sc_op = Some ''crosses_above'', sc_right = Spec_number 40\<rparr>,
       \<lparr>sc_left = Spec_source ''close'', sc_op = Some ''>'', sc_right = spec_ema 100\<rparr>],
     sp_exit = [\<lparr>sc_left = Spec_indicator (Some ''rsi'') (Some 14), sc_op = Some ''>='', sc_right = Spec_number 65\<rparr>]\<rparr>"

definition spec_strategy_signals ::
    "pandas \<Rightarrow> (string \<Rightarrow> efloat option) \<Rightarrow> spec \<Rightarrow> bar list \<Rightarrow> py_error + (bool \<times> bool) list" where
  "spec_strategy_signals P pf sp df = bindE (spec_to_rules sp) (\<lambda>rs. rule_signals P pf rs df)"

theorem conversion_keeps_meaning_witness:
  "\<exists>rs. spec_to_rules jesse_rsi_trend = Inr rs \<and> length (rs_entry rs) = 2
    \<and> rule_signals example_pandas (\<lambda>t. None) rs example_bars = spec_meaning example_pandas jesse_rsi_trend example_bars"
proof -
  have "case spec_to_rules jesse_rsi_trend of Inr rs \<Rightarrow> length (rs_entry rs) = 2 | Inl _ \<Rightarrow> False" by code_simp
  then have "\<exists>rs. spec_to_rules jesse_rsi_trend = Inr rs \<and> length (rs_entry rs) = 2" by (auto split: sum.splits)
  with conversion_keeps_meaning show ?thesis by blast
qed

end
