(* ===== verification/Ql_Approval.thy ===== *)
theory Ql_Approval
  imports Islamic
begin

text \<open>
  The owner's approval of real trading (quantlab/evaluation/approval.py): authorizations with their
  limits, their revocation, and the gates that must be open before real orders are sent. The
  database tables are lists of rows; log lines and notifications are left out.
\<close>

section \<open>Rows\<close>

record authorization =
  au_id :: int
  au_environment :: string
  au_report_id :: int
  au_version :: int
  au_pairs :: "string list"
  au_max_capital :: flt
  au_max_position :: flt
  au_daily_loss_limit :: flt
  au_max_drawdown_pct :: flt
  au_fee_assumption :: flt
  au_stop_conditions :: "string \<Rightarrow> flt option"
  au_confirmation :: string
  au_revoked :: bool

record report_row =
  rr_version :: int
  rr_eligible :: bool

record evaluation_report =
  rp_id :: int
  rp_run_id :: int
  rp_is_final :: bool
  rp_rows :: "report_row list"

record evaluation_run =
  ev_id :: int
  ev_status :: string

record approval_db =
  ad_live_enabled :: bool
  ad_auths :: "authorization list"
  ad_connections :: "string list"
  ad_reports :: "evaluation_report list"
  ad_runs :: "evaluation_run list"

definition HARD_CAPITAL_CAP_USDT :: flt where
  "HARD_CAPITAL_CAP_USDT = 100"

definition CONFIRMATION :: string where
  "CONFIRMATION = ''REAL PUL BILAN SAVDONI TASDIQLAYMAN''"

definition TESTNET_CONFIRMATION :: string where
  "TESTNET_CONFIRMATION = ''TESTNET''"

text \<open>Identifiers are assigned upwards.\<close>

definition next_id :: "int list \<Rightarrow> int" where
  "next_id ids = fold max ids 0 + 1"

definition is_active_auth :: "string \<Rightarrow> authorization \<Rightarrow> bool" where
  "is_active_auth environment a \<longleftrightarrow> au_environment a = environment \<and> \<not> au_revoked a"

definition active_authorization :: "approval_db \<Rightarrow> string \<Rightarrow> authorization option" where
  "active_authorization s environment =
     (case rev (sort_key au_id (filter (is_active_auth environment) (ad_auths s))) of
        [] \<Rightarrow> None | a # _ \<Rightarrow> Some a)"

datatype gate_reason = Live_disabled | No_authorization | No_credentials

definition gate_reasons :: "approval_db \<Rightarrow> string \<Rightarrow> gate_reason list" where
  "gate_reasons s environment =
     (if environment = ''live'' \<and> \<not> ad_live_enabled s then [Live_disabled] else [])
   @ (if active_authorization s environment = None then [No_authorization] else [])
   @ (if environment \<notin> set (ad_connections s) then [No_credentials] else [])"

section \<open>Authorizing and revoking\<close>

text \<open>The screening of \<open>market/universe.py\<close> is the one of the compliance package with no lists.\<close>

definition universe_screen_pair :: "string \<Rightarrow> rejection option" where
  "universe_screen_pair pair =
     screen_pair pair [] [] DEFAULT_LEVERAGED_SUFFIXES DEFAULT_MIN_UNDERLYING_LEN"

definition guard :: "bool \<Rightarrow> py_error + unit" where
  "guard b = (if b then Inr () else Inl ValueError)"

record auth_request =
  rq_report_id :: "int option"
  rq_version :: int
  rq_pairs :: "string list"
  rq_max_capital :: flt
  rq_max_position :: flt
  rq_daily_loss_limit :: flt
  rq_max_drawdown_pct :: flt
  rq_fee_assumption :: flt
  rq_stop_conditions :: "string \<Rightarrow> flt option"
  rq_confirmation :: string
  rq_environment :: string

definition check_limits :: "auth_request \<Rightarrow> py_error + unit" where
  "check_limits q =
     bindE (guard (length (rq_pairs q) = 1)) (\<lambda>_.
     bindE (guard (\<forall>p \<in> set (rq_pairs q). universe_screen_pair p = None)) (\<lambda>_.
     bindE (guard (0 < rq_max_capital q \<and> rq_max_capital q \<le> HARD_CAPITAL_CAP_USDT)) (\<lambda>_.
     bindE (guard (0 < rq_max_position q \<and> rq_max_position q \<le> rq_max_capital q)) (\<lambda>_.
     bindE (guard (0 < rq_daily_loss_limit q \<and> rq_daily_loss_limit q \<le> rq_max_capital q)) (\<lambda>_.
     bindE (guard (0 < rq_max_drawdown_pct q \<and> rq_max_drawdown_pct q \<le> 50)) (\<lambda>_.
     guard (0 \<le> rq_fee_assumption q \<and> rq_fee_assumption q \<le> 1/100)))))))"

text \<open>Real money needs a final report of a finished evaluation in which this version was eligible.\<close>

definition check_report :: "approval_db \<Rightarrow> auth_request \<Rightarrow> py_error + evaluation_report option" where
  "check_report s q =
     (if rq_environment q = ''live'' then
        bindE (guard (rq_confirmation q = CONFIRMATION)) (\<lambda>_.
          let rep = (case rq_report_id q of
                       None \<Rightarrow> None
                     | Some i \<Rightarrow> if i = 0 then None else find (\<lambda>r. rp_id r = i) (ad_reports s))
          in case rep of
               None \<Rightarrow> Inl ValueError
             | Some r \<Rightarrow>
                 bindE (guard (rp_is_final r)) (\<lambda>_.
                   case find (\<lambda>e. ev_id e = rp_run_id r) (ad_runs s) of
                     None \<Rightarrow> Inl AttributeError
                   | Some e \<Rightarrow>
                       bindE (guard (ev_status e = ''finished'')) (\<lambda>_.
                         case find (\<lambda>row. rr_version row = rq_version q) (rp_rows r) of
                           None \<Rightarrow> Inl ValueError
                         | Some row \<Rightarrow> bindE (guard (rr_eligible row)) (\<lambda>_. Inr (Some r)))))
      else
        bindE (guard (rq_confirmation q = TESTNET_CONFIRMATION)) (\<lambda>_.
          case rev (sort_key rp_id (ad_reports s)) of [] \<Rightarrow> Inr None | r # _ \<Rightarrow> Inr (Some r)))"

definition placeholder_report :: "approval_db \<Rightarrow> evaluation_report \<times> approval_db" where
  "placeholder_report s =
     (let run = \<lparr>ev_id = next_id (List.map ev_id (ad_runs s)), ev_status = ''finished''\<rparr>;
          rep = \<lparr>rp_id = next_id (List.map rp_id (ad_reports s)), rp_run_id = ev_id run,
                 rp_is_final = False, rp_rows = []\<rparr>
      in (rep, s\<lparr>ad_runs := ad_runs s @ [run], ad_reports := ad_reports s @ [rep]\<rparr>))"

definition revoke :: "string \<Rightarrow> approval_db \<Rightarrow> approval_db" where
  "revoke environment s =
     s\<lparr>ad_auths := List.map (\<lambda>a. if is_active_auth environment a then a\<lparr>au_revoked := True\<rparr> else a) (ad_auths s)\<rparr>"

definition authorize :: "auth_request \<Rightarrow> approval_db \<Rightarrow> py_error + int \<times> approval_db" where
  "authorize q s =
     bindE (check_limits q) (\<lambda>_.
     bindE (check_report s q) (\<lambda>found.
       let (rep, s1) = (case found of Some r \<Rightarrow> (r, s) | None \<Rightarrow> placeholder_report s);
           s2 = revoke (rq_environment q) s1;
           a = \<lparr>au_id = next_id (List.map au_id (ad_auths s2)), au_environment = rq_environment q,
                au_report_id = rp_id rep, au_version = rq_version q, au_pairs = rq_pairs q,
                au_max_capital = rq_max_capital q, au_max_position = rq_max_position q,
                au_daily_loss_limit = rq_daily_loss_limit q,
                au_max_drawdown_pct = rq_max_drawdown_pct q,
                au_fee_assumption = rq_fee_assumption q,
                au_stop_conditions = rq_stop_conditions q,
                au_confirmation = rq_confirmation q, au_revoked = False\<rparr>
       in Inr (au_id a, s2\<lparr>ad_auths := ad_auths s2 @ [a]\<rparr>)))"

section \<open>What an authorization guarantees\<close>

definition sound_auth :: "authorization \<Rightarrow> bool" where
  "sound_auth a \<longleftrightarrow> (\<exists>p. au_pairs a = [p] \<and> universe_screen_pair p = None)
     \<and> 0 < au_max_capital a \<and> au_max_capital a \<le> 100
     \<and> 0 < au_max_position a \<and> au_max_position a \<le> au_max_capital a
     \<and> 0 < au_daily_loss_limit a \<and> au_daily_loss_limit a \<le> au_max_capital a
     \<and> 0 < au_max_drawdown_pct a \<and> au_max_drawdown_pct a \<le> 50"

definition sound_db :: "approval_db \<Rightarrow> bool" where
  "sound_db s \<longleftrightarrow> (\<forall>a \<in> set (ad_auths s). sound_auth a)"

lemma guard_Inr [simp]: "guard b = Inr x \<longleftrightarrow> b"
  by (simp add: guard_def)

lemma next_id_greater: "i \<in> set ids \<Longrightarrow> i < next_id ids"
proof -
  assume "i \<in> set ids"
  with fold_max_ge [of 0 ids] have "i \<le> fold max ids 0" by simp
  then show ?thesis by (simp add: next_id_def)
qed

lemma is_active_revoked [simp]: "is_active_auth e (a\<lparr>au_revoked := True\<rparr>) = False"
  by (simp add: is_active_auth_def)

lemma revoke_active:
  "filter (is_active_auth e) (ad_auths (revoke env s)) = (if e = env then [] else filter (is_active_auth e) (ad_auths s))"
proof -
  have act: "is_active_auth e (if is_active_auth env a then a\<lparr>au_revoked := True\<rparr> else a) \<longleftrightarrow> e \<noteq> env \<and> is_active_auth e a" for a
    by (cases "is_active_auth env a") (auto simp add: is_active_auth_def)
  have keep: "e \<noteq> env \<Longrightarrow> is_active_auth e a \<Longrightarrow> \<not> is_active_auth env a" for a
    by (simp add: is_active_auth_def)
  have "filter (is_active_auth e) (List.map (\<lambda>a. if is_active_auth env a then a\<lparr>au_revoked := True\<rparr> else a) xs)
      = (if e = env then [] else filter (is_active_auth e) xs)" for xs
    by (cases "e = env"; induction xs) (simp_all add: act keep)
  then show ?thesis by (simp add: revoke_def)
qed

lemma revoke_ids [simp]: "List.map au_id (ad_auths (revoke env s)) = List.map au_id (ad_auths s)"
  by (simp add: revoke_def)

lemma revoke_frame [simp]: "ad_connections (revoke env s) = ad_connections s"
  "ad_live_enabled (revoke env s) = ad_live_enabled s"
  by (simp_all add: revoke_def)

lemma sound_revoked [simp]: "sound_auth (a\<lparr>au_revoked := b\<rparr>) = sound_auth a"
  by (simp add: sound_auth_def)

lemma active_authorization_in:
  "active_authorization s e = Some a \<Longrightarrow> a \<in> set (ad_auths s) \<and> is_active_auth e a"
proof -
  assume "active_authorization s e = Some a"
  then obtain xs where "rev (sort_key au_id (filter (is_active_auth e) (ad_auths s))) = a # xs"
    by (auto simp: active_authorization_def split: list.splits)
  then have "a \<in> set (rev (sort_key au_id (filter (is_active_auth e) (ad_auths s))))" by (metis list.set_intros(1))
  then show ?thesis by simp
qed

text \<open>The row an accepted request adds, and what was checked for it.\<close>

lemma authorize_result:
  assumes "authorize q s = Inr (i, s')"
  obtains a rest where "ad_auths s' = rest @ [a]" and "au_id a = i" and "sound_auth a"
    and "is_active_auth (rq_environment q) a" and "filter (is_active_auth (rq_environment q)) rest = []"
    and "sound_db s \<Longrightarrow> (\<forall>x \<in> set rest. sound_auth x)"
    and "au_version a = rq_version q" and "au_confirmation a = rq_confirmation q"
    and "rq_environment q = ''live'' \<Longrightarrow> rq_confirmation q = CONFIRMATION
         \<and> (\<exists>r \<in> set (ad_reports s). rp_id r = au_report_id a \<and> rp_is_final r
              \<and> (\<exists>e \<in> set (ad_runs s). ev_id e = rp_run_id r \<and> ev_status e = ''finished'')
              \<and> (\<exists>row \<in> set (rp_rows r). rr_version row = au_version a \<and> rr_eligible row))"
    and "ad_connections s' = ad_connections s" and "ad_live_enabled s' = ad_live_enabled s"
proof -
  from assms obtain found where lim: "check_limits q = Inr ()" and rep: "check_report s q = Inr found"
    by (auto simp: authorize_def bindE_eq_Inr)
  define r1 where "r1 = (case found of Some r \<Rightarrow> (r, s) | None \<Rightarrow> placeholder_report s)"
  define s2 where "s2 = revoke (rq_environment q) (snd r1)"
  define a where "a = \<lparr>au_id = next_id (List.map au_id (ad_auths s2)), au_environment = rq_environment q,
                au_report_id = rp_id (fst r1), au_version = rq_version q, au_pairs = rq_pairs q,
                au_max_capital = rq_max_capital q, au_max_position = rq_max_position q,
                au_daily_loss_limit = rq_daily_loss_limit q, au_max_drawdown_pct = rq_max_drawdown_pct q,
                au_fee_assumption = rq_fee_assumption q, au_stop_conditions = rq_stop_conditions q,
                au_confirmation = rq_confirmation q, au_revoked = False\<rparr>"
  from assms lim rep have i: "au_id a = i" and s': "s' = s2\<lparr>ad_auths := ad_auths s2 @ [a]\<rparr>"
    unfolding authorize_def a_def r1_def s2_def by (auto simp: Let_def split_beta split: option.splits)
  have r1: "ad_auths (snd r1) = ad_auths s" "ad_connections (snd r1) = ad_connections s"
    "ad_live_enabled (snd r1) = ad_live_enabled s"
    by (simp_all add: r1_def placeholder_report_def Let_def split: option.splits)
  show thesis
  proof (rule that [of "ad_auths s2" a])
    show "sound_auth a"
      using lim by (auto simp: sound_auth_def a_def check_limits_def bindE_eq_Inr HARD_CAPITAL_CAP_USDT_def length_Suc_conv)
    show "filter (is_active_auth (rq_environment q)) (ad_auths s2) = []"
      by (simp add: s2_def revoke_active)
    show "\<forall>x \<in> set (ad_auths s2). sound_auth x" if "sound_db s"
      using that r1 by (auto simp: s2_def revoke_def sound_db_def)
    show "rq_confirmation q = CONFIRMATION
         \<and> (\<exists>r \<in> set (ad_reports s). rp_id r = au_report_id a \<and> rp_is_final r
              \<and> (\<exists>e \<in> set (ad_runs s). ev_id e = rp_run_id r \<and> ev_status e = ''finished'')
              \<and> (\<exists>row \<in> set (rp_rows r). rr_version row = au_version a \<and> rr_eligible row))"
      if "rq_environment q = ''live''"
      using rep that
      by (auto simp: check_report_def bindE_eq_Inr Let_def find_Some_iff a_def r1_def split: option.splits if_splits) fastforce
  qed (use i s' r1 in \<open>simp_all add: a_def is_active_auth_def s2_def\<close>)
qed

lemma authorize_sound_db: "sound_db s \<Longrightarrow> authorize q s = Inr (i, s') \<Longrightarrow> sound_db s'"
  by (erule authorize_result) (auto simp: sound_db_def)

lemma revoke_sound_db: "sound_db s \<Longrightarrow> sound_db (revoke env s)"
  by (auto simp: sound_db_def revoke_def)

text \<open>Property C22: only what the owner approved within the hard cap can be active. An accepted
  authorization is the active one of its environment, every older one of it is revoked, it covers
  one pair that passes the compliance screening, its capital is at most 100 USDT and its position
  and daily loss within the capital; for real money the report it rests on is final, its evaluation
  has finished, and the version was found eligible in it.\<close>

theorem authorize_bounded:
  assumes "authorize q s = Inr (i, s')"
  shows "\<exists>a. active_authorization s' (rq_environment q) = Some a \<and> au_id a = i \<and> sound_auth a
    \<and> filter (is_active_auth (rq_environment q)) (ad_auths s') = [a]
    \<and> au_version a = rq_version q \<and> au_max_position a \<le> 100
    \<and> (rq_environment q = ''live'' \<longrightarrow> au_confirmation a = CONFIRMATION
         \<and> (\<exists>r \<in> set (ad_reports s). rp_id r = au_report_id a \<and> rp_is_final r
              \<and> (\<exists>e \<in> set (ad_runs s). ev_id e = rp_run_id r \<and> ev_status e = ''finished'')
              \<and> (\<exists>row \<in> set (rp_rows r). rr_version row = au_version a \<and> rr_eligible row)))"
proof -
  show ?thesis
  proof (rule authorize_result [OF assms])
    fix a rest
    assume a: "ad_auths s' = rest @ [a]" "au_id a = i" "sound_auth a"
    "is_active_auth (rq_environment q) a" "filter (is_active_auth (rq_environment q)) rest = []"
      and rest: "au_version a = rq_version q" "au_confirmation a = rq_confirmation q"
    "rq_environment q = ''live'' \<Longrightarrow> rq_confirmation q = CONFIRMATION
         \<and> (\<exists>r \<in> set (ad_reports s). rp_id r = au_report_id a \<and> rp_is_final r
              \<and> (\<exists>e \<in> set (ad_runs s). ev_id e = rp_run_id r \<and> ev_status e = ''finished'')
              \<and> (\<exists>row \<in> set (rp_rows r). rr_version row = au_version a \<and> rr_eligible row))"
    from a have "active_authorization s' (rq_environment q) = Some a" by (simp add: active_authorization_def)
    with a rest show ?thesis by (intro exI [of _ a]) (auto simp: sound_auth_def)
  qed
qed

definition example_request :: auth_request where
  "example_request = \<lparr>rq_report_id = Some 7, rq_version = 3, rq_pairs = [''BTC/USDT''], rq_max_capital = 100,
     rq_max_position = 50, rq_daily_loss_limit = 5, rq_max_drawdown_pct = 20, rq_fee_assumption = 1/1000,
     rq_stop_conditions = Map.empty, rq_confirmation = CONFIRMATION, rq_environment = ''live''\<rparr>"

definition example_db :: approval_db where
  "example_db = \<lparr>ad_live_enabled = True, ad_auths = [], ad_connections = [''live''],
     ad_reports = [\<lparr>rp_id = 7, rp_run_id = 2, rp_is_final = True,
                    rp_rows = [\<lparr>rr_version = 3, rr_eligible = True\<rparr>]\<rparr>],
     ad_runs = [\<lparr>ev_id = 2, ev_status = ''finished''\<rparr>]\<rparr>"

lemma btc_passes: "universe_screen_pair ''BTC/USDT'' = None"
  by code_simp

lemma example_authorized: "\<exists>i s'. authorize example_request example_db = Inr (i, s')"
  by (simp add: authorize_def check_limits_def check_report_def guard_def example_request_def example_db_def
      btc_passes HARD_CAPITAL_CAP_USDT_def Let_def)

theorem authorize_bounded_witness:
  "\<exists>i s' a. authorize example_request example_db = Inr (i, s') \<and> active_authorization s' ''live'' = Some a
    \<and> au_max_position a \<le> 100"
proof -
  from example_authorized obtain i s' where r: "authorize example_request example_db = Inr (i, s')" by blast
  moreover have "rq_environment example_request = ''live''" by (simp add: example_request_def)
  ultimately show ?thesis using authorize_bounded [OF r] by auto
qed

end
