(* ===== verification/Ql_Live.thy ===== *)
theory Ql_Live
  imports Ql_Risk Ql_Approval Ql_Market
begin

text \<open>
  The real-order engine of quantlab (quantlab/live/engine.py) with the exchange it talks to
  (quantlab/live/exchange.py) as an argument: one answer per call. The rows of one portfolio are a
  record; the transactions of a cycle commit one by one, so a program that raises leaves what was
  committed before. The last component lists the orders handed to the exchange; the code
  does not have it, and no definition reads it. Within a cycle the clock stands still; log lines and
  notifications are left out.
\<close>

section \<open>Rows and answers\<close>

datatype live_status = Live_stopped | Live_running | Live_halted

datatype live_halt =
    No_live_halt
  | Gate_closed "gate_reason list"
  | Unknown_order_state string
  | Exchange_rejected string
  | Risk_breach violation
  | Live_strategy_error
  | Kill_switch

record live_order =
  lo_cid :: string
  lo_symbol :: string
  lo_side :: side
  lo_quote :: "flt option"
  lo_base :: "flt option"
  lo_status :: string
  lo_created :: int

record live_exit =
  lx_ts :: int
  lx_price :: flt
  lx_fee :: flt
  lx_pnl :: flt
  lx_reason :: string

record live_trade =
  lt_symbol :: string
  lt_entry_ts :: int
  lt_entry_price :: flt
  lt_qty :: flt
  lt_entry_fee :: flt
  lt_exit :: "live_exit option"

record sent_order =
  so_cid :: string
  so_symbol :: string
  so_side :: side
  so_amount :: flt

datatype live_event = Halt_event live_halt | Entry_rejected violation

record live =
  lv_id :: int
  lv_status :: live_status
  lv_halt :: live_halt
  lv_authorization_id :: "int option"
  lv_initial_capital :: flt
  lv_peak_equity :: flt
  lv_last_candle_ts :: int
  lv_orders :: "live_order list"
  lv_trades :: "live_trade list"
  lv_snapshots :: "(int \<times> flt) list"
  lv_events :: "live_event list"
  lv_sent :: "sent_order list"

record order_response =
  os_status :: "string option"
  os_executed_qty :: flt
  os_quote_qty :: flt
  os_fills :: "(flt \<times> string) list"

datatype answer = Placed order_response | Outcome_unknown | Refused

datatype query_answer = Found order_response | Not_found | Query_failed

record exchange_api =
  xa_buy :: "string \<Rightarrow> flt \<Rightarrow> string \<Rightarrow> answer"
  xa_sell :: "string \<Rightarrow> flt \<Rightarrow> string \<Rightarrow> answer"
  xa_query :: "string \<Rightarrow> string \<Rightarrow> query_answer"
  xa_account :: "(string \<Rightarrow> flt option) option"
  xa_cancel_all :: bool

section \<open>Programs over the rows\<close>

type_synonym 'a prog = "live \<Rightarrow> (py_error + 'a) \<times> live"

definition doneP :: "'a \<Rightarrow> 'a prog" where
  "doneP x lv = (Inr x, lv)"

definition bindP :: "'a prog \<Rightarrow> ('a \<Rightarrow> 'b prog) \<Rightarrow> 'b prog" where
  "bindP m f lv = (case m lv of (Inl e, lv') \<Rightarrow> (Inl e, lv') | (Inr x, lv') \<Rightarrow> f x lv')"

definition raiseP :: "py_error \<Rightarrow> 'a prog" where
  "raiseP e lv = (Inl e, lv)"

definition modifyP :: "(live \<Rightarrow> live) \<Rightarrow> unit prog" where
  "modifyP f lv = (Inr (), f lv)"

fun eachP :: "('e \<Rightarrow> unit prog) \<Rightarrow> 'e list \<Rightarrow> unit prog" where
  "eachP f [] = doneP ()"
| "eachP f (x # xs) = bindP (f x) (\<lambda>_. eachP f xs)"

section \<open>Orders\<close>

function strip_usdt :: "string \<Rightarrow> string" where
  "strip_usdt s =
     (case s of [] \<Rightarrow> []
      | x # xs \<Rightarrow> if take 4 s = ''USDT'' then strip_usdt (drop 4 s) else x # strip_usdt xs)"
  by pat_completeness auto

termination
  by (relation "measure length") auto

declare strip_usdt.simps [simp del]

text \<open>Average price, executed base quantity after fees in base, and the fee in quote.\<close>

definition fill_price :: "string \<Rightarrow> order_response \<Rightarrow> flt \<times> flt \<times> flt" where
  "fill_price symbol res =
     (let qty = os_executed_qty res;
          avg = (if qty \<noteq> 0 then os_quote_qty res / qty else 0);
          in_usdt = sum_list (List.map fst (filter (\<lambda>(_, a). a = ''USDT'') (os_fills res)));
          in_base = sum_list (List.map fst
            (filter (\<lambda>(_, a). a \<noteq> ''USDT'' \<and> a = strip_usdt symbol) (os_fills res)))
      in (avg, qty - in_base, in_usdt + in_base * avg))"

definition halt :: "live_halt \<Rightarrow> live \<Rightarrow> live" where
  "halt h lv = lv\<lparr>lv_status := Live_halted, lv_halt := h, lv_events := lv_events lv @ [Halt_event h]\<rparr>"

definition order_cids :: "live \<Rightarrow> string list" where
  "order_cids lv = List.map lo_cid (lv_orders lv)"

text \<open>The write-ahead record: the identifier is unique in the table.\<close>

definition write_order ::
    "int \<Rightarrow> string \<Rightarrow> side \<Rightarrow> string \<Rightarrow> flt option \<Rightarrow> flt option \<Rightarrow> bool prog" where
  "write_order now symbol sd cid quote base lv =
     (if cid \<in> set (order_cids lv) then (Inr False, lv)
      else (Inr True, lv\<lparr>lv_orders := lv_orders lv @
              [\<lparr>lo_cid = cid, lo_symbol = symbol, lo_side = sd, lo_quote = quote, lo_base = base,
                lo_status = ''pending'', lo_created = now\<rparr>]\<rparr>))"

definition finish :: "string \<Rightarrow> string \<Rightarrow> unit prog" where
  "finish cid status lv =
     (if cid \<in> set (order_cids lv)
      then (Inr (), lv\<lparr>lv_orders := List.map (\<lambda>r. if lo_cid r = cid then r\<lparr>lo_status := status\<rparr> else r) (lv_orders lv)\<rparr>)
      else (Inl NoResultFound, lv))"

definition res_status :: "order_response \<Rightarrow> string" where
  "res_status res = (case os_status res of None \<Rightarrow> ''FILLED'' | Some st \<Rightarrow> st)"

definition open_live :: "live_trade \<Rightarrow> bool" where
  "open_live t \<longleftrightarrow> lt_exit t = None"

definition the_open :: "live_trade option prog" where
  "the_open lv =
     (case filter open_live (lv_trades lv) of
        [] \<Rightarrow> (Inr None, lv) | [t] \<Rightarrow> (Inr (Some t), lv) | _ \<Rightarrow> (Inl MultipleResultsFound, lv))"

definition exit_trade :: "int \<Rightarrow> flt \<Rightarrow> flt \<Rightarrow> string \<Rightarrow> live \<Rightarrow> live" where
  "exit_trade ts avg fe reason lv =
     lv\<lparr>lv_trades := List.map (\<lambda>t. if open_live t
          then t\<lparr>lt_exit := Some \<lparr>lx_ts = ts, lx_price = avg, lx_fee = fe,
                   lx_pnl = lt_qty t * avg - lt_qty t * lt_entry_price t - lt_entry_fee t - fe,
                   lx_reason = reason\<rparr>\<rparr>
          else t) (lv_trades lv)\<rparr>"

definition book :: "int \<Rightarrow> string \<Rightarrow> side \<Rightarrow> order_response \<Rightarrow> string \<Rightarrow> int option \<Rightarrow> unit prog" where
  "book clock symbol sd res reason ts0 =
     (let ts = (case ts0 of Some t \<Rightarrow> if t \<noteq> 0 then t else clock | None \<Rightarrow> clock);
          (avg, qty, fe) = fill_price symbol res
      in bindP the_open (\<lambda>t.
           case (sd, t) of
             (Buy, None) \<Rightarrow> modifyP (\<lambda>lv. lv\<lparr>lv_trades := lv_trades lv @
                 [\<lparr>lt_symbol = symbol, lt_entry_ts = ts, lt_entry_price = avg, lt_qty = qty,
                   lt_entry_fee = fe, lt_exit = None\<rparr>]\<rparr>)
           | (Sell, Some _) \<Rightarrow> modifyP (exit_trade ts avg fe reason)
           | _ \<Rightarrow> doneP ()))"

text \<open>Handing an order to the exchange.\<close>

definition call_exchange :: "exchange_api \<Rightarrow> string \<Rightarrow> side \<Rightarrow> string \<Rightarrow> flt \<Rightarrow> answer prog" where
  "call_exchange X symbol sd cid amount lv =
     (Inr (if sd = Buy then xa_buy X symbol amount cid else xa_sell X symbol amount cid),
      lv\<lparr>lv_sent := lv_sent lv @ [\<lparr>so_cid = cid, so_symbol = symbol, so_side = sd, so_amount = amount\<rparr>]\<rparr>)"

definition send ::
    "exchange_api \<Rightarrow> int \<Rightarrow> string \<Rightarrow> side \<Rightarrow> string \<Rightarrow> flt \<Rightarrow> string \<Rightarrow> int option \<Rightarrow> bool prog" where
  "send X clock symbol sd cid amount reason ts =
     bindP (write_order clock symbol sd cid (if sd = Buy then Some amount else None)
              (if sd = Sell then Some amount else None)) (\<lambda>fresh.
       if \<not> fresh then doneP False
       else bindP (call_exchange X symbol sd cid amount) (\<lambda>ans.
         case ans of
           Outcome_unknown \<Rightarrow>
             bindP (finish cid ''unknown'') (\<lambda>_.
             bindP (modifyP (halt (Unknown_order_state cid))) (\<lambda>_. doneP False))
         | Refused \<Rightarrow>
             bindP (finish cid ''rejected'') (\<lambda>_.
             bindP (modifyP (halt (Exchange_rejected cid))) (\<lambda>_. doneP False))
         | Placed res \<Rightarrow>
             bindP (finish cid (str_lower (res_status res))) (\<lambda>_.
             bindP (book clock symbol sd res reason ts) (\<lambda>_. doneP True))))"

definition unresolved :: "live_order \<Rightarrow> bool" where
  "unresolved r \<longleftrightarrow> lo_status r \<in> {''pending'', ''unknown''}"

definition reconcile_one :: "exchange_api \<Rightarrow> int \<Rightarrow> live_order \<Rightarrow> unit prog" where
  "reconcile_one X clock r =
     (case xa_query X (lo_symbol r) (lo_cid r) of
        Query_failed \<Rightarrow> doneP ()
      | Not_found \<Rightarrow> finish (lo_cid r) ''not_placed''
      | Found res \<Rightarrow>
          bindP (finish (lo_cid r) (str_lower (res_status res))) (\<lambda>_.
            if os_status res = Some ''FILLED''
            then book clock (lo_symbol r) (lo_side r) res ''signal'' None else doneP ()))"

definition reconcile :: "exchange_api \<Rightarrow> int \<Rightarrow> unit prog" where
  "reconcile X clock lv = eachP (reconcile_one X clock) (filter unresolved (lv_orders lv)) lv"


section \<open>A cycle\<close>

text \<open>
  The strategy version an authorization names: its step, its risk settings, the entry and exit
  columns of the last row, and the last stake of its sizing, if it has any.
\<close>

record version_rows =
  vs_step :: int
  vs_risk :: "string \<Rightarrow> flt option"
  vs_signals :: "ohlc list \<Rightarrow> py_error + (bool \<times> bool)"
  vs_stake :: "ohlc list \<Rightarrow> flt option"

record tick_env =
  te_environment :: string
  te_now :: int
  te_last_price :: "flt option"
  te_candles :: "string \<Rightarrow> ohlc list"
  te_version :: "int \<Rightarrow> version_rows"
  te_min_notional :: "string \<Rightarrow> flt option"
  te_exchange :: exchange_api

definition LIVE_WINDOW :: int where
  "LIVE_WINDOW = 600"

definition to_symbol :: "string \<Rightarrow> string" where
  "to_symbol pair = filter (\<lambda>c. c \<noteq> CHR ''/'') pair"

definition cid_of :: "live \<Rightarrow> char \<Rightarrow> int \<Rightarrow> string" where
  "cid_of lv c n = ''ql'' @ show_int (lv_id lv) @ [c] @ show_int n"

definition live_limits :: "authorization \<Rightarrow> risk_limits" where
  "live_limits a =
     (let stop = (\<lambda>key d. case au_stop_conditions a key of None \<Rightarrow> d | Some v \<Rightarrow> v)
      in default_limits\<lparr>max_position_usdt := au_max_position a, max_drawdown_pct := au_max_drawdown_pct a,
           max_daily_loss_pct := au_daily_loss_limit a / max (au_max_capital a) (1 / 10 ^ 9) * 100,
           max_orders_per_hour := to_int (stop ''max_orders_per_hour'' 6),
           max_trade_risk_pct := stop ''max_trade_risk_pct'' 5\<rparr>)"

definition orders_last_hour :: "int \<Rightarrow> live \<Rightarrow> int" where
  "orders_last_hour now lv =
     int (length (filter (\<lambda>r. lo_status r \<in> {''filled'', ''unknown'', ''pending''} \<and> lo_created r \<ge> now - 3600)
                    (lv_orders lv)))"

text \<open>Closing the gate: permission was withdrawn while running.\<close>

definition check_gate :: "gate_reason list \<Rightarrow> live \<Rightarrow> live" where
  "check_gate reasons lv =
     (if reasons \<noteq> [] \<and> lv_status lv = Live_running then halt (Gate_closed reasons) lv else lv)"

text \<open>The transaction after the balances: peak, snapshot of the day, and the breaches that halt.\<close>

definition record_equity :: "risk_limits \<Rightarrow> flt \<Rightarrow> int \<Rightarrow> flt \<Rightarrow> live \<Rightarrow> live" where
  "record_equity limits max_capital candle_ts eq lv =
     (let lv1 = lv\<lparr>lv_peak_equity := max (lv_peak_equity lv) (min eq (max_capital * 10))\<rparr>;
          midnight = candle_ts - candle_ts mod 86400;
          day_start = (case sort_key fst (filter (\<lambda>(t, _). t \<ge> midnight) (lv_snapshots lv1)) of
                         [] \<Rightarrow> eq | (_, e) # _ \<Rightarrow> e);
          lv2 = (if candle_ts \<in> fst ` set (lv_snapshots lv1) then lv1
                 else lv1\<lparr>lv_snapshots := lv_snapshots lv1 @ [(candle_ts, eq)]\<rparr>)
      in if lv_status lv2 = Live_running then
           (case portfolio_breaches limits eq (lv_peak_equity lv2) day_start of
              [] \<Rightarrow> lv2 | v # _ \<Rightarrow> halt (Risk_breach v) lv2)
         else lv2)"

definition entry_quote ::
    "risk_limits \<Rightarrow> authorization \<Rightarrow> flt option \<Rightarrow> flt \<Rightarrow> flt \<Rightarrow> flt" where
  "entry_quote limits a stake eq free =
     (let sized = (case stake of Some st \<Rightarrow> min eq (au_max_capital a) * st
                   | None \<Rightarrow> max_position_usdt limits)
      in py_round (min (min (min sized (max_position_usdt limits)) (au_max_capital a)) free * (999/1000)) 2)"

definition try_entry ::
    "tick_env \<Rightarrow> authorization \<Rightarrow> string \<Rightarrow> int \<Rightarrow> flt option \<Rightarrow> flt \<Rightarrow> flt \<Rightarrow> int \<Rightarrow> flt \<Rightarrow> flt
       \<Rightarrow> string prog" where
  "try_entry E a symbol candle_ts stake eq free orders_hour notional stop_pct lv =
     (let limits = live_limits a;
          quote = entry_quote limits a stake eq free;
          vio = entry_violations limits \<lparr>er_quote = quote, er_equity = min eq (au_max_capital a),
                  er_free_usdt = free, er_open_positions = 0, er_orders_last_hour = orders_hour,
                  er_min_notional = notional, er_stoploss_pct = stop_pct, er_duplicate = False\<rparr>
      in if lv_status lv \<noteq> Live_running then (Inr ''entry_blocked'', lv)
         else if vio \<noteq> [] then (Inr ''entry_rejected'', lv\<lparr>lv_events := lv_events lv @ List.map Entry_rejected vio\<rparr>)
         else bindP (send (te_exchange E) (te_now E) symbol Buy (cid_of lv CHR ''e'' candle_ts) quote
                       ''signal'' (Some (te_now E))) (\<lambda>_. doneP ''entry'') lv)"

text \<open>What a cycle does with a new closed candle.\<close>

definition act_on_candle ::
    "tick_env \<Rightarrow> authorization \<Rightarrow> version_rows \<Rightarrow> string \<Rightarrow> ohlc list \<Rightarrow> flt \<Rightarrow> flt \<Rightarrow> int \<Rightarrow> flt \<Rightarrow> flt
       \<Rightarrow> string prog" where
  "act_on_candle E a ver symbol df price open_qty orders_hour notional stop_pct lv =
     (let candle_ts = c_ts (last df)
      in case vs_signals ver df of
           Inl _ \<Rightarrow> (Inr ''strategy_error'', halt Live_strategy_error lv)
         | Inr (enter, exit_sig) \<Rightarrow>
             (let lv1 = lv\<lparr>lv_last_candle_ts := candle_ts\<rparr>
              in case xa_account (te_exchange E) of
                   None \<Rightarrow> (Inl RuntimeError, lv1)
                 | Some balances \<Rightarrow>
                     (let free = (case balances ''USDT'' of None \<Rightarrow> 0 | Some b \<Rightarrow> b);
                          eq = free + open_qty * price;
                          lv2 = record_equity (live_limits a) (au_max_capital a) candle_ts eq lv1
                      in if open_qty \<noteq> 0 \<and> exit_sig then
                           bindP (send (te_exchange E) (te_now E) symbol Sell (cid_of lv2 CHR ''x'' candle_ts)
                                    open_qty ''signal'' (Some (te_now E))) (\<lambda>_. doneP ''exit'') lv2
                         else if enter \<and> open_qty = 0 then
                           try_entry E a symbol candle_ts (vs_stake ver df) eq free orders_hour notional stop_pct lv2
                         else (Inr ''idle'', lv2))))"

definition manage ::
    "tick_env \<Rightarrow> authorization \<Rightarrow> int \<Rightarrow> string prog" where
  "manage E a last_ts lv =
     (let ver = te_version E (au_version a)
      in case au_pairs a of
           [] \<Rightarrow> (Inl IndexError, lv)
         | pair # _ \<Rightarrow>
             bindP the_open (\<lambda>trade lv.
               let (entry, open_qty) = (case trade of Some t \<Rightarrow> (lt_entry_price t, lt_qty t) | None \<Rightarrow> (0, 0));
                   notional = (case te_min_notional E pair of None \<Rightarrow> 5 | Some m \<Rightarrow> m);
                   orders_hour = orders_last_hour (te_now E) lv;
                   symbol = to_symbol pair;
                   step = vs_step ver;
                   df = store_load (te_candles E pair)
                          (Some (te_now E - max (step * LIVE_WINDOW) (HISTORY_DAYS * 86400))) None;
                   stop_pct = (case vs_risk ver ''stoploss_pct'' of None \<Rightarrow> 3/100 | Some v \<Rightarrow> v);
                   price = (case te_last_price E of Some p \<Rightarrow> p
                            | None \<Rightarrow> if df \<noteq> [] then c_close (last df) else 0)
               in if open_qty \<noteq> 0 \<and> price \<noteq> 0 \<and> price \<le> entry * (1 - stop_pct) then
                    bindP (send (te_exchange E) (te_now E) symbol Sell (cid_of lv CHR ''s'' (te_now E div 60))
                             open_qty ''stoploss'' (Some (te_now E))) (\<lambda>_. doneP ''stoploss'') lv
                  else if df = [] \<or> c_ts (last df) + step > te_now E \<or> c_ts (last df) \<le> last_ts
                  then (Inr ''no_new_candle'', lv)
                  else if c_ts (last df) + step * 2 < te_now E then (Inr ''stale_data'', lv)
                  else act_on_candle E a ver symbol df price open_qty orders_hour notional stop_pct lv) lv)"

definition tick :: "approval_db \<Rightarrow> tick_env \<Rightarrow> string prog" where
  "tick db E lv =
     (if lv_status lv = Live_stopped then (Inr ''stopped'', lv)
      else
        (let lv1 = check_gate (gate_reasons db (te_environment E)) lv;
             auth = active_authorization db (te_environment E);
             last_ts = lv_last_candle_ts lv1
         in bindP (reconcile (te_exchange E) (te_now E)) (\<lambda>_ lv2.
              if \<exists>r \<in> set (lv_orders lv2). unresolved r then (Inr ''waiting_reconcile'', lv2)
              else case auth of
                None \<Rightarrow> (Inr ''no_authorization'', lv2)
              | Some a \<Rightarrow> manage E a last_ts lv2) lv1))"

section \<open>The owner's actions\<close>

definition start :: "approval_db \<Rightarrow> string \<Rightarrow> unit prog" where
  "start db environment lv =
     (if gate_reasons db environment \<noteq> [] then (Inl PermissionError, lv)
      else case active_authorization db environment of
        None \<Rightarrow> (Inl AttributeError, lv)
      | Some a \<Rightarrow>
          (let lv1 = lv\<lparr>lv_status := Live_running, lv_halt := No_live_halt,
                       lv_authorization_id := Some (au_id a)\<rparr>
           in (Inr (), if lv_initial_capital lv1 = 0
                       then lv1\<lparr>lv_initial_capital := au_max_capital a, lv_peak_equity := au_max_capital a\<rparr>
                       else lv1)))"

definition stop :: "unit prog" where
  "stop lv = (Inr (), lv\<lparr>lv_status := Live_stopped\<rparr>)"

text \<open>The result is whether the position was closed, or nothing when the exchange refused or failed.\<close>

definition kill_switch :: "exchange_api option \<Rightarrow> bool \<Rightarrow> int \<Rightarrow> bool prog" where
  "kill_switch exchange close_positions clock lv =
     (let lv1 = halt Kill_switch lv
      in case the_open lv of
           (Inl e, _) \<Rightarrow> (Inl e, lv)
         | (Inr trade, _) \<Rightarrow>
             (case (exchange, trade) of
                (Some X, Some t) \<Rightarrow>
                  (if \<not> close_positions then (Inr False, lv1)
                   else if \<not> xa_cancel_all X then (Inr False, lv1)
                   else
                     (let cid = cid_of lv1 CHR ''k'' clock
                      in bindP (call_exchange X (lt_symbol t) Sell cid (lt_qty t)) (\<lambda>ans lv2.
                           case ans of
                             Placed res \<Rightarrow>
                               (if cid \<in> set (order_cids lv2) then (Inl IntegrityError, lv2)
                                else
                                  (let (avg, _, fe) = fill_price (lt_symbol t) res
                                   in (Inr True, exit_trade clock avg fe ''kill_switch''
                                        (lv2\<lparr>lv_orders := lv_orders lv2 @
                                          [\<lparr>lo_cid = cid, lo_symbol = lt_symbol t, lo_side = Sell, lo_quote = None,
                                            lo_base = Some (lt_qty t), lo_status = str_lower (res_status res),
                                            lo_created = clock\<rparr>]\<rparr>))))
                           | _ \<Rightarrow> (Inr False, lv2)) lv1))
              | _ \<Rightarrow> (Inr False, lv1)))"


section \<open>What each program touches\<close>

lemmas prog_simps = doneP_def bindP_def raiseP_def modifyP_def

text \<open>Rows, orders and status that a program leaves alone.\<close>

definition same_orders :: "live \<Rightarrow> live \<Rightarrow> bool" where
  "same_orders lv lv' \<longleftrightarrow> order_cids lv' = order_cids lv \<and> lv_sent lv' = lv_sent lv
     \<and> lv_status lv' = lv_status lv \<and> lv_id lv' = lv_id lv \<and> lv_last_candle_ts lv' = lv_last_candle_ts lv"

lemma same_orders_refl [simp]: "same_orders lv lv"
  by (simp add: same_orders_def)

lemma same_orders_trans: "same_orders a b \<Longrightarrow> same_orders b c \<Longrightarrow> same_orders a c"
  by (simp add: same_orders_def)

lemma finish_same: "same_orders lv (snd (finish cid st lv))"
  by (auto simp: finish_def same_orders_def order_cids_def o_def)

lemma the_open_state [simp]: "snd (the_open lv) = lv"
  by (simp add: the_open_def split: list.split)

lemma book_same: "same_orders lv (snd (book clock symbol sd res reason ts lv)) \<and> lv_orders (snd (book clock symbol sd res reason ts lv)) = lv_orders lv"
  by (auto simp: book_def Let_def split_beta prog_simps the_open_def same_orders_def order_cids_def exit_trade_def
      split: list.split side.split option.split)

lemma snd_bindP: "snd (bindP m f lv) = (case m lv of (Inl e, lv') \<Rightarrow> lv' | (Inr x, lv') \<Rightarrow> snd (f x lv'))"
  by (auto simp: bindP_def split: prod.split sum.split)

lemma same_orders_bind:
  "same_orders lv (snd (m lv)) \<Longrightarrow> (\<And>x lv'. same_orders lv' (snd (f x lv'))) \<Longrightarrow> same_orders lv (snd (bindP m f lv))"
  by (auto simp: bindP_def split: prod.split sum.split intro: same_orders_trans)

lemma reconcile_one_same: "same_orders lv (snd (reconcile_one X clock r lv))"
  using finish_same book_same
  by (auto simp: reconcile_one_def doneP_def split: query_answer.split intro!: same_orders_bind)

lemma eachP_same: "(\<And>x lv. same_orders lv (snd (f x lv))) \<Longrightarrow> same_orders lv (snd (eachP f xs lv))"
  by (induction xs arbitrary: lv) (auto simp: doneP_def intro!: same_orders_bind)

lemma reconcile_same: "same_orders lv (snd (reconcile X clock lv))"
  unfolding reconcile_def by (rule eachP_same) (rule reconcile_one_same)

text \<open>A sent order has its row: either the identifier was used before and nothing happens, or the row
  is written, the order is sent, and an unknown or refused outcome halts the engine.\<close>

lemma send_cases:
  obtains (used) "cid \<in> set (order_cids lv)" and "send X clock symbol sd cid amount reason ts lv = (Inr False, lv)"
  | (sent) "cid \<notin> set (order_cids lv)"
      and "order_cids (snd (send X clock symbol sd cid amount reason ts lv)) = order_cids lv @ [cid]"
      and "lv_sent (snd (send X clock symbol sd cid amount reason ts lv))
             = lv_sent lv @ [\<lparr>so_cid = cid, so_symbol = symbol, so_side = sd, so_amount = amount\<rparr>]"
      and "(if sd = Buy then xa_buy X symbol amount cid else xa_sell X symbol amount cid) = Outcome_unknown \<Longrightarrow>
             lv_status (snd (send X clock symbol sd cid amount reason ts lv)) = Live_halted
             \<and> (\<exists>r \<in> set (lv_orders (snd (send X clock symbol sd cid amount reason ts lv))). lo_cid r = cid \<and> lo_status r = ''unknown'')"
proof (cases "cid \<in> set (order_cids lv)")
  case True
  then show ?thesis by (intro used) (simp_all add: send_def write_order_def prog_simps)
next
  case False
  define row where "row = \<lparr>lo_cid = cid, lo_symbol = symbol, lo_side = sd, lo_quote = (if sd = Buy then Some amount else None),
    lo_base = (if sd = Sell then Some amount else None), lo_status = ''pending'', lo_created = clock\<rparr>"
  define lv1 where "lv1 = lv\<lparr>lv_orders := lv_orders lv @ [row],
      lv_sent := lv_sent lv @ [\<lparr>so_cid = cid, so_symbol = symbol, so_side = sd, so_amount = amount\<rparr>]\<rparr>"
  have cids: "order_cids lv1 = order_cids lv @ [cid]" by (simp add: lv1_def order_cids_def row_def)
  then have fin: "finish cid st lv1 = (Inr (), lv1\<lparr>lv_orders := List.map (\<lambda>r. if lo_cid r = cid then r\<lparr>lo_status := st\<rparr> else r) (lv_orders lv1)\<rparr>)" for st
    by (simp add: finish_def)
  define ans where "ans = (if sd = Buy then xa_buy X symbol amount cid else xa_sell X symbol amount cid)"
  have run: "send X clock symbol sd cid amount reason ts lv =
      (case ans of
           Outcome_unknown \<Rightarrow> bindP (finish cid ''unknown'') (\<lambda>_.
             bindP (modifyP (halt (Unknown_order_state cid))) (\<lambda>_. doneP False)) lv1
         | Refused \<Rightarrow> bindP (finish cid ''rejected'') (\<lambda>_.
             bindP (modifyP (halt (Exchange_rejected cid))) (\<lambda>_. doneP False)) lv1
         | Placed res \<Rightarrow> bindP (finish cid (str_lower (res_status res))) (\<lambda>_.
             bindP (book clock symbol sd res reason ts) (\<lambda>_. doneP True)) lv1)"
    using False by (simp add: send_def write_order_def call_exchange_def bindP_def ans_def lv1_def row_def split: answer.split)
  have halt_same: "order_cids (halt h l) = order_cids l" "lv_sent (halt h l) = lv_sent l" "lv_orders (halt h l) = lv_orders l"
    "lv_status (halt h l) = Live_halted" for h l
    by (simp_all add: halt_def order_cids_def)
  have keeps: "order_cids (snd (send X clock symbol sd cid amount reason ts lv)) = order_cids lv1
      \<and> lv_sent (snd (send X clock symbol sd cid amount reason ts lv)) = lv_sent lv1"
  proof (cases ans)
    case (Placed res)
    have "same_orders lv1 (snd (bindP (finish cid (str_lower (res_status res))) (\<lambda>_.
             bindP (book clock symbol sd res reason ts) (\<lambda>_. doneP True)) lv1))"
      using finish_same book_same by (auto simp: doneP_def intro!: same_orders_bind)
    with run Placed show ?thesis by (simp add: same_orders_def)
  qed (use run fin halt_same finish_same [of lv1] in \<open>simp_all add: prog_simps same_orders_def order_cids_def o_def\<close>)
  show ?thesis
  proof (rule sent [OF False])
    show "order_cids (snd (send X clock symbol sd cid amount reason ts lv)) = order_cids lv @ [cid]"
      using keeps cids by simp
    show "lv_sent (snd (send X clock symbol sd cid amount reason ts lv))
             = lv_sent lv @ [\<lparr>so_cid = cid, so_symbol = symbol, so_side = sd, so_amount = amount\<rparr>]"
      using keeps by (simp add: lv1_def)
    show "lv_status (snd (send X clock symbol sd cid amount reason ts lv)) = Live_halted
             \<and> (\<exists>r \<in> set (lv_orders (snd (send X clock symbol sd cid amount reason ts lv))). lo_cid r = cid \<and> lo_status r = ''unknown'')"
      if "(if sd = Buy then xa_buy X symbol amount cid else xa_sell X symbol amount cid) = Outcome_unknown"
    proof -
      from that have "ans = Outcome_unknown" by (simp add: ans_def)
      with run fin have "snd (send X clock symbol sd cid amount reason ts lv) = halt (Unknown_order_state cid)
          (lv1\<lparr>lv_orders := List.map (\<lambda>r. if lo_cid r = cid then r\<lparr>lo_status := ''unknown''\<rparr> else r) (lv_orders lv1)\<rparr>)"
        by (simp add: prog_simps)
      moreover have "row \<in> set (lv_orders lv1)" "lo_cid row = cid" by (simp_all add: lv1_def row_def)
      ultimately show ?thesis by (auto simp: halt_same intro: bexI [of _ "row\<lparr>lo_status := ''unknown''\<rparr>"])
    qed
  qed
qed


section \<open>A cycle sends at most one order\<close>

definition one_order :: "(sent_order \<Rightarrow> bool) \<Rightarrow> live \<Rightarrow> live \<Rightarrow> bool" where
  "one_order P lv lv' \<longleftrightarrow>
     (lv_sent lv' = lv_sent lv \<and> order_cids lv' = order_cids lv)
   \<or> (\<exists>ord. lv_sent lv' = lv_sent lv @ [ord] \<and> so_cid ord \<notin> set (order_cids lv)
        \<and> order_cids lv' = order_cids lv @ [so_cid ord] \<and> P ord)"

lemma one_order_none: "lv_sent lv' = lv_sent lv \<Longrightarrow> order_cids lv' = order_cids lv \<Longrightarrow> one_order P lv lv'"
  by (simp add: one_order_def)

lemma one_order_before: "same_orders lv lv1 \<Longrightarrow> one_order P lv1 lv2 \<Longrightarrow> one_order P lv lv2"
  by (simp add: one_order_def same_orders_def)

lemma one_order_mono: "one_order P lv lv' \<Longrightarrow> (\<And>ord. P ord \<Longrightarrow> Q ord) \<Longrightarrow> one_order Q lv lv'"
  by (auto simp: one_order_def)

lemma send_one:
  assumes "P \<lparr>so_cid = cid, so_symbol = symbol, so_side = sd, so_amount = amount\<rparr>"
  shows "one_order P lv (snd (bindP (send X clock symbol sd cid amount reason ts) (\<lambda>_. doneP x) lv))"
proof -
  have "snd (bindP (send X clock symbol sd cid amount reason ts) (\<lambda>_. doneP x) lv)
      = snd (send X clock symbol sd cid amount reason ts lv)"
    by (auto simp: snd_bindP doneP_def split: prod.split sum.split)
  then show ?thesis
    using assms by (cases rule: send_cases [of cid lv X clock symbol sd amount reason ts])
      (auto simp: one_order_def)
qed

lemma record_equity_same:
  "lv_sent (record_equity l c t e lv) = lv_sent lv" "order_cids (record_equity l c t e lv) = order_cids lv"
  "lv_status (record_equity l c t e lv) = Live_running \<Longrightarrow> lv_status lv = Live_running"
  "lv_last_candle_ts (record_equity l c t e lv) = lv_last_candle_ts lv"
  by (auto simp: record_equity_def Let_def halt_def order_cids_def split: list.splits if_splits)

text \<open>What holds of an entry order.\<close>

definition buy_ok :: "tick_env \<Rightarrow> authorization \<Rightarrow> sent_order \<Rightarrow> bool" where
  "buy_ok E a ord \<longleftrightarrow>
     (\<exists>p ps. au_pairs a = p # ps \<and> so_symbol ord = to_symbol p)
     \<and> so_amount ord \<le> au_max_position a + 1 / 10 ^ 9
     \<and> so_amount ord \<le> py_round (au_max_capital a * (999/1000)) 2
     \<and> (\<exists>bal. xa_account (te_exchange E) = Some bal
          \<and> so_amount ord \<le> (case bal ''USDT'' of None \<Rightarrow> 0 | Some b \<Rightarrow> b) + 1 / 10 ^ 9)
     \<and> 0 < (case vs_risk (te_version E (au_version a)) ''stoploss_pct'' of None \<Rightarrow> 3/100 | Some v \<Rightarrow> v)"

lemma entry_quote_capital: "entry_quote limits a stake eq free \<le> py_round (au_max_capital a * (999/1000)) 2"
  unfolding entry_quote_def Let_def by (intro py_round_mono mult_right_mono) auto

lemma try_entry_one:
  assumes "xa_account (te_exchange E) = Some bal" and "free = (case bal ''USDT'' of None \<Rightarrow> 0 | Some b \<Rightarrow> b)"
    and "au_pairs a = p # ps" and "symbol = to_symbol p"
    and "stop_pct = (case vs_risk (te_version E (au_version a)) ''stoploss_pct'' of None \<Rightarrow> 3/100 | Some v \<Rightarrow> v)"
  shows "one_order (\<lambda>ord. lv_status lv = Live_running \<and> buy_ok E a ord) lv
    (snd (try_entry E a symbol t stake eq free oh notional stop_pct lv))"
proof -
  let ?q = "entry_quote (live_limits a) a stake eq free"
  let ?r = "\<lparr>er_quote = ?q, er_equity = min eq (au_max_capital a), er_free_usdt = free, er_open_positions = 0,
    er_orders_last_hour = oh, er_min_notional = notional, er_stoploss_pct = stop_pct, er_duplicate = False\<rparr>"
  show ?thesis
  proof (cases "lv_status lv = Live_running \<and> entry_violations (live_limits a) ?r = []")
    case True
    then have "buy_ok E a \<lparr>so_cid = cid_of lv CHR ''e'' t, so_symbol = symbol, so_side = Buy, so_amount = ?q\<rparr>"
      using assms entry_quote_capital [of "live_limits a" a stake eq free]
      by (auto simp: buy_ok_def entry_violations_def live_limits_def Let_def risk_eps_def split: if_splits)
    with True show ?thesis
      by (auto simp: try_entry_def Let_def intro!: send_one)
  next
    case False
    then show ?thesis by (auto simp: try_entry_def Let_def order_cids_def intro!: one_order_none)
  qed
qed

lemma act_on_candle_one:
  assumes "au_pairs a = p # ps" and "symbol = to_symbol p" and "ver = te_version E (au_version a)"
    and "stop_pct = (case vs_risk ver ''stoploss_pct'' of None \<Rightarrow> 3/100 | Some v \<Rightarrow> v)"
  shows "one_order (\<lambda>ord. so_side ord = Buy \<longrightarrow> lv_status lv = Live_running \<and> buy_ok E a ord) lv
    (snd (act_on_candle E a ver symbol df price open_qty oh notional stop_pct lv))"
proof (cases "vs_signals ver df")
  case (Inl e)
  then show ?thesis by (simp add: act_on_candle_def Let_def halt_def order_cids_def one_order_none)
next
  case (Inr es)
  obtain enter exit_sig where es: "es = (enter, exit_sig)" by fastforce
  let ?lv1 = "lv\<lparr>lv_last_candle_ts := c_ts (last df)\<rparr>"
  show ?thesis
  proof (cases "xa_account (te_exchange E)")
    case None
    with Inr es show ?thesis by (simp add: act_on_candle_def Let_def order_cids_def one_order_none)
  next
    case (Some bal)
    define free where "free = (case bal ''USDT'' of None \<Rightarrow> 0 | Some b \<Rightarrow> b)"
    define eqv where "eqv = free + open_qty * price"
    define lv2 where "lv2 = record_equity (live_limits a) (au_max_capital a) (c_ts (last df)) eqv ?lv1"
    have same: "lv_sent lv2 = lv_sent lv" "order_cids lv2 = order_cids lv"
      and run: "lv_status lv2 = Live_running \<Longrightarrow> lv_status lv = Live_running"
      using record_equity_same [of "live_limits a" "au_max_capital a" "c_ts (last df)" eqv ?lv1]
      by (simp_all add: lv2_def order_cids_def)
    have entry: "one_order (\<lambda>ord. lv_status lv2 = Live_running \<and> buy_ok E a ord) lv2
        (snd (try_entry E a symbol (c_ts (last df)) (vs_stake ver df) eqv free oh notional stop_pct lv2))"
      by (rule try_entry_one [OF Some free_def assms(1,2)]) (simp add: assms(3,4))
    have sell: "one_order (\<lambda>ord. so_side ord = Buy \<longrightarrow> lv_status lv = Live_running \<and> buy_ok E a ord) lv2
        (snd (bindP (send (te_exchange E) (te_now E) symbol Sell (cid_of lv2 CHR ''x'' (c_ts (last df)))
                 open_qty ''signal'' (Some (te_now E))) (\<lambda>_. doneP ''exit'') lv2))"
      by (rule send_one) simp
    have act: "snd (act_on_candle E a ver symbol df price open_qty oh notional stop_pct lv) =
       (if open_qty \<noteq> 0 \<and> exit_sig
        then snd (bindP (send (te_exchange E) (te_now E) symbol Sell (cid_of lv2 CHR ''x'' (c_ts (last df)))
                 open_qty ''signal'' (Some (te_now E))) (\<lambda>_. doneP ''exit'') lv2)
        else if enter \<and> open_qty = 0
        then snd (try_entry E a symbol (c_ts (last df)) (vs_stake ver df) eqv free oh notional stop_pct lv2)
        else lv2)"
      unfolding act_on_candle_def Let_def lv2_def eqv_def free_def using Inr es Some by simp
    have "one_order (\<lambda>ord. so_side ord = Buy \<longrightarrow> lv_status lv = Live_running \<and> buy_ok E a ord) lv2
        (snd (act_on_candle E a ver symbol df price open_qty oh notional stop_pct lv))"
      unfolding act using sell one_order_mono [OF entry] run one_order_none [of lv2 lv2]
      by simp
    then show ?thesis by (simp add: one_order_def same)
  qed
qed

lemma manage_one:
  "one_order (\<lambda>ord. so_side ord = Buy \<longrightarrow> lv_status lv = Live_running \<and> buy_ok E a ord) lv (snd (manage E a last_ts lv))"
proof (cases "au_pairs a")
  case Nil
  then show ?thesis by (simp add: manage_def Let_def one_order_none)
next
  case (Cons p ps)
  obtain r where r: "the_open lv = (r, lv)" by (metis surj_pair the_open_state snd_conv)
  show ?thesis
  proof (cases r)
    case (Inl e)
    with r Cons show ?thesis by (simp add: manage_def Let_def bindP_def one_order_none)
  next
    case (Inr trade)
    obtain entry open_qty where eo: "(case trade of Some t \<Rightarrow> (lt_entry_price t, lt_qty t) | None \<Rightarrow> (0, 0)) = (entry, open_qty)"
      by fastforce
    let ?ver = "te_version E (au_version a)"
    let ?df = "store_load (te_candles E p) (Some (te_now E - max (vs_step ?ver * LIVE_WINDOW) (HISTORY_DAYS * 86400))) None"
    let ?stop = "case vs_risk ?ver ''stoploss_pct'' of None \<Rightarrow> 3/100 | Some v \<Rightarrow> v"
    let ?price = "case te_last_price E of Some p \<Rightarrow> p | None \<Rightarrow> if ?df \<noteq> [] then c_close (last ?df) else 0"
    let ?act = "act_on_candle E a ?ver (to_symbol p) ?df ?price open_qty (orders_last_hour (te_now E) lv)
        (case te_min_notional E p of None \<Rightarrow> 5 | Some m \<Rightarrow> m) ?stop lv"
    let ?sell = "bindP (send (te_exchange E) (te_now E) (to_symbol p) Sell (cid_of lv CHR ''s'' (te_now E div 60))
        open_qty ''stoploss'' (Some (te_now E))) (\<lambda>_. doneP ''stoploss'') lv"
    have "snd (manage E a last_ts lv) \<in> {lv, snd ?sell, snd ?act}"
      unfolding manage_def Let_def bindP_def [of the_open] using Cons r Inr eo by simp
    moreover have "one_order (\<lambda>ord. so_side ord = Buy \<longrightarrow> lv_status lv = Live_running \<and> buy_ok E a ord) lv (snd ?sell)"
      by (rule send_one) simp
    moreover note act_on_candle_one [OF Cons refl refl refl]
    moreover note one_order_none [of lv lv]
    ultimately show ?thesis by auto
  qed
qed

text \<open>The one order of a cycle is new; when it is a buy, the gates are open and the limits hold.\<close>

lemma tick_one:
  "one_order (\<lambda>ord. so_side ord = Buy \<longrightarrow> lv_status lv = Live_running \<and> gate_reasons db (te_environment E) = []
      \<and> (\<exists>a. active_authorization db (te_environment E) = Some a \<and> buy_ok E a ord)) lv (snd (tick db E lv))"
proof (cases "lv_status lv = Live_stopped")
  case True
  then show ?thesis by (simp add: tick_def one_order_none)
next
  case False
  define lv1 where "lv1 = check_gate (gate_reasons db (te_environment E)) lv"
  define out where "out = reconcile (te_exchange E) (te_now E) lv1"
  have gate: "lv_sent lv1 = lv_sent lv" "order_cids lv1 = order_cids lv"
    "lv_status lv1 = Live_running \<Longrightarrow> lv_status lv = Live_running \<and> gate_reasons db (te_environment E) = []"
    by (auto simp: lv1_def check_gate_def halt_def order_cids_def split: if_splits)
  have same: "same_orders lv1 (snd out)" unfolding out_def by (rule reconcile_same)
  have "snd (tick db E lv) \<in> {snd out} \<union> {snd (manage E a (lv_last_candle_ts lv1) (snd out)) | a.
      active_authorization db (te_environment E) = Some a}"
    using False
    by (auto simp: tick_def Let_def lv1_def [symmetric] bindP_def out_def split: prod.split sum.split option.split)
  then show ?thesis
  proof
    assume "snd (tick db E lv) \<in> {snd out}"
    with same gate show ?thesis by (simp add: one_order_none same_orders_def)
  next
    assume "snd (tick db E lv) \<in> {snd (manage E a (lv_last_candle_ts lv1) (snd out)) | a.
      active_authorization db (te_environment E) = Some a}"
    then obtain a where a: "active_authorization db (te_environment E) = Some a"
      and t: "snd (tick db E lv) = snd (manage E a (lv_last_candle_ts lv1) (snd out))" by auto
    have "one_order (\<lambda>ord. so_side ord = Buy \<longrightarrow> lv_status (snd out) = Live_running \<and> buy_ok E a ord) lv1 (snd (tick db E lv))"
      unfolding t by (rule one_order_before [OF same manage_one])
    moreover have "lv_status (snd out) = lv_status lv1" using same by (simp add: same_orders_def)
    ultimately show ?thesis using gate a by (auto simp: one_order_def)
  qed
qed


section \<open>Orders over the life of the engine\<close>

definition new_portfolio :: "int \<Rightarrow> live" where
  "new_portfolio i = \<lparr>lv_id = i, lv_status = Live_stopped, lv_halt = No_live_halt, lv_authorization_id = None,
     lv_initial_capital = 0, lv_peak_equity = 0, lv_last_candle_ts = 0, lv_orders = [], lv_trades = [],
     lv_snapshots = [], lv_events = [], lv_sent = []\<rparr>"

text \<open>
  What the worker and the owner do, in any order, with any approvals, market and exchange at every
  step: cycles, starts and stops. A cycle may raise, and what it committed stays.
\<close>

datatype live_op =
    Cycle approval_db tick_env
  | Start approval_db string
  | Stop

fun live_step :: "live_op \<Rightarrow> live \<Rightarrow> live" where
  "live_step (Cycle db E) lv = snd (tick db E lv)"
| "live_step (Start db environment) lv = snd (start db environment lv)"
| "live_step Stop lv = snd (stop lv)"

definition recorded :: "live \<Rightarrow> bool" where
  "recorded lv \<longleftrightarrow> distinct (order_cids lv) \<and> distinct (List.map so_cid (lv_sent lv))
     \<and> so_cid ` set (lv_sent lv) \<subseteq> set (order_cids lv)"

lemma start_same: "lv_sent (snd (start db e lv)) = lv_sent lv \<and> order_cids (snd (start db e lv)) = order_cids lv"
  by (simp add: start_def Let_def order_cids_def split: option.split)

lemma one_order_recorded: "recorded lv \<Longrightarrow> one_order P lv lv' \<Longrightarrow> recorded lv'"
  unfolding recorded_def one_order_def by (elim disjE exE conjE) (simp_all, blast)

lemma live_step_one: "one_order (\<lambda>_. True) lv (live_step x lv)"
proof (cases x)
  case (Cycle db E)
  show ?thesis using one_order_mono [OF tick_one] by (simp add: Cycle)
next
  case (Start db e)
  with start_same [of db e lv] show ?thesis by (simp add: one_order_none)
qed (simp add: one_order_none stop_def order_cids_def)

lemma live_steps_recorded: "recorded lv \<Longrightarrow> recorded (fold live_step ops lv)"
  by (induction ops arbitrary: lv) (auto intro: one_order_recorded live_step_one)


text \<open>Property C12: real money is risked only as approved. An order to buy that a cycle sends needs a
  running engine, open gates and the active authorization; it is for the authorized pair, which
  passes the compliance screening, with a stop distance, and spends at most the authorized position
  and the free balance (up to a billionth) and less than the hard cap of 100 USDT.\<close>

theorem live_buys_authorised:
  assumes "ord \<in> set (drop (length (lv_sent lv)) (lv_sent (snd (tick db E lv))))" and "so_side ord = Buy"
    and "sound_db db"
  shows "lv_status lv = Live_running \<and> gate_reasons db (te_environment E) = []
    \<and> (te_environment E = ''live'' \<longrightarrow> ad_live_enabled db)
    \<and> (\<exists>a p. active_authorization db (te_environment E) = Some a \<and> au_pairs a = [p]
         \<and> universe_screen_pair p = None \<and> so_symbol ord = to_symbol p
         \<and> so_amount ord \<le> au_max_position a + 1 / 10 ^ 9 \<and> so_amount ord < 100
         \<and> 0 < (case vs_risk (te_version E (au_version a)) ''stoploss_pct'' of None \<Rightarrow> 3/100 | Some v \<Rightarrow> v)
         \<and> (\<exists>bal. xa_account (te_exchange E) = Some bal
              \<and> so_amount ord \<le> (case bal ''USDT'' of None \<Rightarrow> 0 | Some b \<Rightarrow> b) + 1 / 10 ^ 9))"
proof -
  from tick_one [of lv db E] assms(1,2) obtain a where
    run: "lv_status lv = Live_running" "gate_reasons db (te_environment E) = []"
    and a: "active_authorization db (te_environment E) = Some a" and ok: "buy_ok E a ord"
    by (auto simp: one_order_def)
  from active_authorization_in [OF a] assms(3) have sound: "sound_auth a" by (simp add: sound_db_def)
  then have "py_round (au_max_capital a * (999/1000)) 2 \<le> py_round (999/10) 2"
    by (intro py_round_mono) (simp add: sound_auth_def)
  also have "py_round (999/10) 2 = 999/10"
    using round_half_even_of_int [of 9990] by (simp add: py_round_def)
  finally have "so_amount ord < 100" using ok by (simp add: buy_ok_def)
  with run a ok sound show ?thesis
    by (auto simp: buy_ok_def sound_auth_def gate_reasons_def split: if_splits)
qed

section \<open>Unresolved orders\<close>

lemma finish_other: "r \<in> set (lv_orders lv) \<Longrightarrow> lo_cid r \<noteq> cid \<Longrightarrow> r \<in> set (lv_orders (snd (finish cid st lv)))"
  by (force simp: finish_def)

lemma reconcile_one_keeps:
  assumes "r \<in> set (lv_orders lv)" and "xa_query X (lo_symbol r) (lo_cid r) = Query_failed"
    and "lo_cid q = lo_cid r \<longrightarrow> lo_symbol q = lo_symbol r"
  shows "r \<in> set (lv_orders (snd (reconcile_one X clock q lv)))"
proof (cases "lo_cid q = lo_cid r")
  case True
  with assms show ?thesis by (simp add: reconcile_one_def doneP_def)
next
  case False
  then have fin: "r \<in> set (lv_orders (snd (finish (lo_cid q) st lv)))" for st
    using finish_other assms(1) by metis
  show ?thesis
  proof (cases "xa_query X (lo_symbol q) (lo_cid q)")
    case (Found res)
    then show ?thesis
      using fin [of "str_lower (res_status res)"] book_same [of _ clock "lo_symbol q" "lo_side q" res "''signal''" None]
      by (auto simp: reconcile_one_def snd_bindP doneP_def split: prod.split sum.split)
  qed (use fin assms(1) in \<open>simp_all add: reconcile_one_def doneP_def\<close>)
qed

lemma reconcile_keeps:
  assumes "r \<in> set (lv_orders lv)" and "xa_query X (lo_symbol r) (lo_cid r) = Query_failed" and "distinct (order_cids lv)"
  shows "r \<in> set (lv_orders (snd (reconcile X clock lv)))"
proof -
  have each: "r \<in> set (lv_orders l) \<Longrightarrow> \<forall>q \<in> set qs. lo_cid q = lo_cid r \<longrightarrow> lo_symbol q = lo_symbol r \<Longrightarrow>
      r \<in> set (lv_orders (snd (eachP (reconcile_one X clock) qs l)))" for qs l
  proof (induction qs arbitrary: l)
    case (Cons q qs)
    from reconcile_one_keeps [OF Cons.prems(1) assms(2)] Cons.prems(2)
    have "r \<in> set (lv_orders (snd (reconcile_one X clock q l)))" by simp
    with Cons.IH Cons.prems(2) show ?case by (auto simp: snd_bindP split: prod.split sum.split)
  qed (simp add: doneP_def)
  from assms(1,3) have "\<forall>q \<in> set (lv_orders lv). lo_cid q = lo_cid r \<longrightarrow> q = r"
    unfolding order_cids_def by (metis distinct_map inj_on_def)
  with assms(1) show ?thesis unfolding reconcile_def by (intro each) auto
qed

text \<open>Property C24: an order with an unknown outcome stops everything until it is resolved. While the
  exchange cannot answer for a recorded order that is pending or unknown, a cycle sends no order
  at all, neither entries nor exits, and the order stays unresolved.\<close>

theorem unresolved_order_blocks:
  assumes "r \<in> set (lv_orders lv)" and "unresolved r" and "distinct (order_cids lv)"
    and "xa_query (te_exchange E) (lo_symbol r) (lo_cid r) = Query_failed"
  shows "lv_sent (snd (tick db E lv)) = lv_sent lv \<and> r \<in> set (lv_orders (snd (tick db E lv)))"
proof (cases "lv_status lv = Live_stopped")
  case True
  with assms(1) show ?thesis by (simp add: tick_def)
next
  case False
  define lv1 where "lv1 = check_gate (gate_reasons db (te_environment E)) lv"
  define out where "out = reconcile (te_exchange E) (te_now E) lv1"
  have lv1: "lv_orders lv1 = lv_orders lv" "lv_sent lv1 = lv_sent lv" "order_cids lv1 = order_cids lv"
    by (simp_all add: lv1_def check_gate_def halt_def order_cids_def)
  have r: "r \<in> set (lv_orders (snd out))"
    unfolding out_def by (rule reconcile_keeps) (use assms lv1 in auto)
  then have "snd (tick db E lv) = snd out"
    using False assms(2)
    by (auto simp: tick_def Let_def lv1_def [symmetric] bindP_def out_def split: prod.split sum.split)
  with r reconcile_same [of lv1 "te_exchange E" "te_now E"] lv1 show ?thesis
    by (simp add: out_def same_orders_def)
qed


section \<open>A concrete cycle\<close>

definition example_auth :: authorization where
  "example_auth = \<lparr>au_id = 1, au_environment = ''live'', au_report_id = 7, au_version = 3,
     au_pairs = [''BTC/USDT''], au_max_capital = 100, au_max_position = 50, au_daily_loss_limit = 5,
     au_max_drawdown_pct = 20, au_fee_assumption = 1/1000, au_stop_conditions = Map.empty,
     au_confirmation = CONFIRMATION, au_revoked = False\<rparr>"

definition example_approved :: approval_db where
  "example_approved = example_db\<lparr>ad_auths := [example_auth]\<rparr>"

definition filled :: "flt \<Rightarrow> flt \<Rightarrow> order_response" where
  "filled qty quote = \<lparr>os_status = Some ''FILLED'', os_executed_qty = qty, os_quote_qty = quote, os_fills = []\<rparr>"

definition example_exchange :: exchange_api where
  "example_exchange = \<lparr>xa_buy = (\<lambda>_ quote _. Placed (filled (quote / 100) quote)),
     xa_sell = (\<lambda>_ _ _. Outcome_unknown), xa_query = (\<lambda>_ _. Query_failed),
     xa_account = Some [''USDT'' \<mapsto> 100], xa_cancel_all = True\<rparr>"

definition example_tick :: tick_env where
  "example_tick = \<lparr>te_environment = ''live'', te_now = 150, te_last_price = None,
     te_candles = (\<lambda>_. [\<lparr>c_ts = 60, c_open = 100, c_high = 101, c_low = 99, c_close = 100\<rparr>]),
     te_version = (\<lambda>_. \<lparr>vs_step = 60, vs_risk = Map.empty, vs_signals = (\<lambda>_. Inr (True, False)), vs_stake = (\<lambda>_. None)\<rparr>),
     te_min_notional = Map.empty, te_exchange = example_exchange\<rparr>"

definition running :: live where
  "running = (new_portfolio 1)\<lparr>lv_status := Live_running\<rparr>"

lemma example_gates: "gate_reasons example_approved ''live'' = []"
  "active_authorization example_approved ''live'' = Some example_auth"
  by (simp_all add: gate_reasons_def active_authorization_def example_approved_def example_db_def example_auth_def
      is_active_auth_def)

lemma example_sound: "sound_db example_approved"
  by (simp add: sound_db_def sound_auth_def example_approved_def example_auth_def btc_passes)

lemma example_buys: "\<exists>ord. lv_sent (snd (tick example_approved example_tick running)) = [ord] \<and> so_side ord = Buy"
proof -
  have round: "py_round (999 / 20) 2 = 999 / 20"
    using round_half_even_of_int [of 4995] by (simp add: py_round_def)
  have env: "te_environment example_tick = ''live''" by (simp add: example_tick_def)
  show ?thesis
    unfolding tick_def env example_gates
    by (simp add: running_def new_portfolio_def check_gate_def reconcile_def prog_simps
        manage_def the_open_def example_auth_def example_tick_def store_load_def HISTORY_DAYS_def LIVE_WINDOW_def
        act_on_candle_def example_exchange_def record_equity_def live_limits_def default_limits_def
        portfolio_breaches_def try_entry_def entry_quote_def round entry_violations_def risk_eps_def to_int_def
        orders_last_hour_def send_def write_order_def order_cids_def call_exchange_def finish_def book_def
        fill_price_def filled_def Let_def)
qed

theorem live_buys_authorised_witness:
  "\<exists>ord. lv_sent (snd (tick example_approved example_tick running)) = [ord] \<and> so_side ord = Buy
    \<and> so_amount ord \<le> 50 + 1 / 10 ^ 9 \<and> so_amount ord < 100"
proof -
  from example_buys obtain ord where ord: "lv_sent (snd (tick example_approved example_tick running)) = [ord]"
    and buy: "so_side ord = Buy" by blast
  have "ord \<in> set (drop (length (lv_sent running)) (lv_sent (snd (tick example_approved example_tick running))))"
    unfolding ord by (simp add: running_def new_portfolio_def)
  from live_buys_authorised [OF this buy example_sound] example_gates
  have "so_amount ord \<le> 50 + 1 / 10 ^ 9" "so_amount ord < 100" by (auto simp: example_tick_def example_auth_def)
  with ord buy show ?thesis by blast
qed

definition stuck :: live where
  "stuck = running\<lparr>lv_orders := [\<lparr>lo_cid = ''ql1e0'', lo_symbol = ''BTCUSDT'', lo_side = Buy, lo_quote = Some 50,
     lo_base = None, lo_status = ''unknown'', lo_created = 0\<rparr>]\<rparr>"

theorem unresolved_order_blocks_witness:
  "lv_sent (snd (tick example_approved example_tick stuck)) = []"
proof -
  have "hd (lv_orders stuck) \<in> set (lv_orders stuck)" "unresolved (hd (lv_orders stuck))" "distinct (order_cids stuck)"
    by (simp_all add: stuck_def unresolved_def order_cids_def)
  from unresolved_order_blocks [OF this, of example_tick example_approved] show ?thesis
    by (simp add: stuck_def running_def new_portfolio_def example_tick_def example_exchange_def)
qed

section \<open>Two flaws\<close>

text \<open>Property C40: an entry that fills nothing hides the position of the next one. When the exchange
  accepts a buy but executes a quantity of 0 (an expired market order), the engine books an open
  trade of quantity 0. The next buy, whatever it executes, is then in no trade: its quantity is
  neither watched by the stop nor sold by an exit signal.\<close>

theorem empty_fill_hides_position:
  fixes clock :: int and ts :: "int option"
  assumes "filter open_live (lv_trades lv) = []" and "cid1 \<notin> set (order_cids lv)" and "cid2 \<notin> set (order_cids lv)" and "cid1 \<noteq> cid2"
    and "xa_buy X symbol amount cid1 = Placed void" and "os_executed_qty void = 0" and "os_fills void = []"
    and "xa_buy X symbol amount cid2 = Placed res"
  defines "lv1 \<equiv> snd (send X clock symbol Buy cid1 amount ''signal'' ts lv)"
  defines "lv2 \<equiv> snd (send X clock symbol Buy cid2 amount ''signal'' ts lv1)"
  shows "length (lv_sent lv2) = length (lv_sent lv) + 2 \<and> lv_trades lv2 = lv_trades lv1
    \<and> (\<exists>t. filter open_live (lv_trades lv2) = [t] \<and> lt_qty t = 0)"
proof -
  define fin where "fin = (\<lambda>cid st lv. lv\<lparr>lv_orders := List.map (\<lambda>r. if lo_cid r = cid then r\<lparr>lo_status := st\<rparr> else r) (lv_orders lv)\<rparr> :: live)"
  have step: "send X clock symbol Buy cid amount ''signal'' ts l = (case book clock symbol Buy r ''signal'' ts
        (fin cid (str_lower (res_status r)) (l\<lparr>lv_orders := lv_orders l @ [\<lparr>lo_cid = cid, lo_symbol = symbol, lo_side = Buy,
           lo_quote = Some amount, lo_base = None, lo_status = ''pending'', lo_created = clock\<rparr>],
           lv_sent := lv_sent l @ [\<lparr>so_cid = cid, so_symbol = symbol, so_side = Buy, so_amount = amount\<rparr>]\<rparr>)) of
        (Inl e, l') \<Rightarrow> (Inl e, l') | (Inr _, l') \<Rightarrow> (Inr True, l'))"
    if "cid \<notin> set (order_cids l)" "xa_buy X symbol amount cid = Placed r" for cid l r
    using that by (simp add: send_def write_order_def call_exchange_def bindP_def finish_def order_cids_def fin_def doneP_def split: prod.split sum.split)
  have fin [simp]: "lv_trades (fin cid st l) = lv_trades l" "lv_sent (fin cid st l) = lv_sent l"
    "List.map lo_cid (lv_orders (fin cid st l)) = List.map lo_cid (lv_orders l)" for cid st l
    by (simp_all add: fin_def o_def)
  obtain tm where t1: "lv_trades lv1 = lv_trades lv @ [\<lparr>lt_symbol = symbol, lt_entry_ts = tm,
      lt_entry_price = 0, lt_qty = 0, lt_entry_fee = 0, lt_exit = None\<rparr>]"
    and s1: "length (lv_sent lv1) = length (lv_sent lv) + 1" and c1: "order_cids lv1 = order_cids lv @ [cid1]"
    using assms(1,6,7) unfolding lv1_def step [OF assms(2,5)]
    by (simp add: book_def Let_def bindP_def the_open_def modifyP_def fill_price_def order_cids_def)
  have "cid2 \<notin> set (order_cids lv1)" using c1 assms(3,4) by simp
  from step [OF this assms(8)] t1 assms(1) have "lv_trades lv2 = lv_trades lv1" and "length (lv_sent lv2) = length (lv_sent lv1) + 1"
    unfolding lv2_def
    by (simp_all add: book_def Let_def split_beta bindP_def the_open_def doneP_def open_live_def)
  with t1 s1 assms(1) show ?thesis by (simp add: open_live_def)
qed


theorem empty_fill_hides_position_witness:
  "\<exists>(X :: exchange_api) (lv2 :: live). length (lv_sent lv2) = 2 \<and> (\<exists>t :: live_trade. filter open_live (lv_trades lv2) = [t] \<and> lt_qty t = 0)
    \<and> xa_buy X ''BTCUSDT'' 50 ''ql1e60'' = Placed (filled 1 50)"
proof -
  define X where "X = example_exchange\<lparr>xa_buy := (\<lambda>_ quote cid. if cid = ''ql1e0'' then Placed (filled 0 0) else Placed (filled 1 50))\<rparr>"
  have pre: "filter open_live (lv_trades running) = []" "''ql1e0'' \<notin> set (order_cids running)" "''ql1e60'' \<notin> set (order_cids running)"
    "''ql1e0'' \<noteq> ''ql1e60''" "xa_buy X ''BTCUSDT'' 50 ''ql1e0'' = Placed (filled 0 0)" "os_executed_qty (filled 0 0) = 0"
    "os_fills (filled 0 0) = []" "xa_buy X ''BTCUSDT'' 50 ''ql1e60'' = Placed (filled 1 50)" and x: "xa_buy X ''BTCUSDT'' 50 ''ql1e60'' = Placed (filled 1 50)"
    by (simp_all add: running_def new_portfolio_def order_cids_def X_def filled_def)
  let ?first = "snd (send X 0 ''BTCUSDT'' Buy ''ql1e0'' 50 ''signal'' None running)"
  have "length (lv_sent running) = 0" by (simp add: running_def new_portfolio_def)
  with empty_fill_hides_position [OF pre, of 0 None] x show ?thesis
    by (intro exI [of _ X] exI [of _ "snd (send X 0 ''BTCUSDT'' Buy ''ql1e60'' 50 ''signal'' None ?first)"]) auto
qed

text \<open>The kill switch sells without a record. The module promises that each order is
  written to the database before it is sent; the emergency sale is sent first, and when its outcome
  is unknown there is no row for it, so a reconciliation has nothing to ask the exchange about.\<close>

theorem kill_switch_unrecorded:
  assumes "filter open_live (lv_trades lv) = [t]" and "xa_cancel_all X"
    and "xa_sell X (lt_symbol t) (lt_qty t) (cid_of lv CHR ''k'' clock) = Outcome_unknown"
  shows "\<exists>lv' ord. kill_switch (Some X) True clock lv = (Inr False, lv') \<and> lv_sent lv' = lv_sent lv @ [ord]
    \<and> so_side ord = Sell \<and> so_amount ord = lt_qty t \<and> lv_orders lv' = lv_orders lv \<and> lv_status lv' = Live_halted"
  using assms by (simp add: kill_switch_def the_open_def call_exchange_def bindP_def halt_def cid_of_def Let_def)

theorem kill_switch_unrecorded_witness:
  "\<exists>lv lv' ord. kill_switch (Some example_exchange) True 7 lv = (Inr False, lv') \<and> lv_sent lv' = [ord]
    \<and> so_amount ord = 2 \<and> lv_orders lv' = []"
proof -
  define lv where "lv = running\<lparr>lv_trades := [\<lparr>lt_symbol = ''BTCUSDT'', lt_entry_ts = 0, lt_entry_price = 100,
    lt_qty = 2, lt_entry_fee = 0, lt_exit = None\<rparr>]\<rparr>"
  have "filter open_live (lv_trades lv) = [hd (lv_trades lv)]" "xa_cancel_all example_exchange"
    "xa_sell example_exchange (lt_symbol (hd (lv_trades lv))) (lt_qty (hd (lv_trades lv))) (cid_of lv CHR ''k'' 7) = Outcome_unknown"
    by (simp_all add: lv_def running_def new_portfolio_def open_live_def example_exchange_def)
  from kill_switch_unrecorded [OF this] obtain lv' ord where
    "kill_switch (Some example_exchange) True 7 lv = (Inr False, lv')" "lv_sent lv' = lv_sent lv @ [ord]"
    "so_amount ord = lt_qty (hd (lv_trades lv))" "lv_orders lv' = lv_orders lv" by blast
  then show ?thesis by (intro exI [of _ lv] exI [of _ lv'] exI [of _ ord])
      (simp add: lv_def running_def new_portfolio_def)
qed

text \<open>A cycle whose account query fails has already marked the candle as seen, so its signals are lost.\<close>

lemma account_failure_marks_candle:
  "vs_signals ver df = Inr sig \<Longrightarrow> xa_account (te_exchange E) = None \<Longrightarrow>
     act_on_candle E a ver symbol df price open_qty oh notional stop_pct lv
       = (Inl RuntimeError, lv\<lparr>lv_last_candle_ts := c_ts (last df)\<rparr>)"
  by (cases sig) (simp add: act_on_candle_def Let_def)

end
