(* ===== verification/Ql_Jobs.thy ===== *)
theory Ql_Jobs
  imports Prelude
begin

text \<open>
  The background jobs of quantlab (quantlab/services.py, JobRunner, with the worker loop of
  quantlab/worker.py and the cancel endpoint of quantlab/api/app.py). The jobs table is a list of
  rows in the order of their identifiers; what a job computes is left open, only how it reports
  progress and ends is modelled. Payloads are kept as the identifier of the row they name.
\<close>

section \<open>Rows\<close>

datatype job_status = Queued | Running_job | Done | Errored | Cancelled

record job =
  j_id :: nat
  j_kind :: string
  j_related :: int
  j_status :: job_status
  j_progress :: flt
  j_note :: string
  j_cancel_requested :: bool
  j_started_at :: "int option"
  j_finished_at :: "int option"

text \<open>The status columns of the rows that jobs are about, by kind and identifier.\<close>

record job_db =
  jd_jobs :: "job list"
  jd_related :: "string \<times> int \<Rightarrow> string option"

definition update_job :: "nat \<Rightarrow> (job \<Rightarrow> job) \<Rightarrow> job_db \<Rightarrow> job_db" where
  "update_job i f db = db\<lparr>jd_jobs := List.map (\<lambda>j. if j_id j = i then f j else j) (jd_jobs db)\<rparr>"

definition get_job :: "nat \<Rightarrow> job_db \<Rightarrow> job option" where
  "get_job i db = find (\<lambda>j. j_id j = i) (jd_jobs db)"

definition enqueue :: "string \<Rightarrow> int \<Rightarrow> job_db \<Rightarrow> nat \<times> job_db" where
  "enqueue kind related db =
     (let i = (if jd_jobs db = [] then 1 else j_id (last (jd_jobs db)) + 1)
      in (i, db\<lparr>jd_jobs := jd_jobs db @
            [\<lparr>j_id = i, j_kind = kind, j_related = related, j_status = Queued, j_progress = 0,
              j_note = '''', j_cancel_requested = False, j_started_at = None, j_finished_at = None\<rparr>]\<rparr>))"

definition cancel_job :: "nat \<Rightarrow> job_db \<Rightarrow> job_db" where
  "cancel_job i = update_job i (\<lambda>j. let j1 = j\<lparr>j_cancel_requested := True\<rparr>
     in if j_status j1 = Queued then j1\<lparr>j_status := Cancelled\<rparr> else j1)"

section \<open>The runner\<close>

definition recover :: "job_db \<Rightarrow> nat \<times> job_db" where
  "recover db =
     (length (filter (\<lambda>j. j_status j = Running_job) (jd_jobs db)),
      db\<lparr>jd_jobs := List.map (\<lambda>j. if j_status j = Running_job
           then j\<lparr>j_status := Queued, j_progress := 0, j_note := ''restarted after worker restart''\<rparr> else j)
         (jd_jobs db)\<rparr>)"

definition claim :: "int \<Rightarrow> job_db \<Rightarrow> nat option \<times> job_db" where
  "claim now db =
     (case find (\<lambda>j. j_status j = Queued) (jd_jobs db) of
        None \<Rightarrow> (None, db)
      | Some j \<Rightarrow>
          if j_cancel_requested j then (None, update_job (j_id j) (\<lambda>j. j\<lparr>j_status := Cancelled\<rparr>) db)
          else (Some (j_id j), update_job (j_id j) (\<lambda>j. j\<lparr>j_status := Running_job, j_started_at := Some now\<rparr>) db))"

text \<open>A progress report raises when cancellation was requested, and its transaction is rolled back.\<close>

datatype progress_result = Continue | Job_cancelled

definition progress :: "nat \<Rightarrow> flt \<Rightarrow> string option \<Rightarrow> job_db \<Rightarrow> py_error + progress_result \<times> job_db" where
  "progress i part note db =
     (case get_job i db of
        None \<Rightarrow> Inl AttributeError
      | Some j \<Rightarrow>
          if j_cancel_requested j then Inr (Job_cancelled, db)
          else Inr (Continue, update_job i (\<lambda>j. let j1 = j\<lparr>j_progress := py_round part 4\<rparr>
                 in case note of Some (c # cs) \<Rightarrow> j1\<lparr>j_note := c # cs\<rparr> | _ \<Rightarrow> j1) db))"

definition marked_kinds :: "string list" where
  "marked_kinds = [''backtest'', ''optimize'', ''train'', ''sweep'']"

definition mark_related :: "job \<Rightarrow> string \<Rightarrow> job_db \<Rightarrow> job_db" where
  "mark_related j status db =
     (if j_kind j \<in> set marked_kinds \<and> jd_related db (j_kind j, j_related j) \<noteq> None
      then db\<lparr>jd_related := (jd_related db)((j_kind j, j_related j) \<mapsto> status)\<rparr> else db)"

definition finish_done :: "int \<Rightarrow> nat \<Rightarrow> job_db \<Rightarrow> job_db" where
  "finish_done now i = update_job i (\<lambda>j. j\<lparr>j_status := Done, j_progress := 1, j_finished_at := Some now\<rparr>)"

definition finish_cancelled :: "int \<Rightarrow> job \<Rightarrow> job_db \<Rightarrow> job_db" where
  "finish_cancelled now j db =
     mark_related j ''cancelled'' (update_job (j_id j) (\<lambda>j. j\<lparr>j_status := Cancelled, j_finished_at := Some now\<rparr>) db)"

definition finish_error :: "int \<Rightarrow> job \<Rightarrow> job_db \<Rightarrow> job_db" where
  "finish_error now j db =
     mark_related j ''error'' (update_job (j_id j) (\<lambda>j. j\<lparr>j_status := Errored, j_finished_at := Some now\<rparr>) db)"

section \<open>The worker, the owner and crashes\<close>

datatype worker = Idle | Busy job | Crashed

text \<open>
  One step of the system: the owner enqueues or asks for a cancellation at any time; the worker
  claims, reports progress, and ends its job in one of three ways; it may crash at any time, and
  then starts again with a recovery.
\<close>

inductive job_step :: "job_db \<times> worker \<Rightarrow> job_db \<times> worker \<Rightarrow> bool" where
  enqueued: "job_step (db, w) (snd (enqueue kind related db), w)"
| cancel: "job_step (db, w) (cancel_job i db, w)"
| claimed: "claim now db = (Some i, db') \<Longrightarrow> get_job i db' = Some j \<Longrightarrow> job_step (db, Idle) (db', Busy j)"
| nothing_claimed: "claim now db = (None, db') \<Longrightarrow> job_step (db, Idle) (db', Idle)"
| progressed: "progress (j_id j) part note db = Inr (Continue, db') \<Longrightarrow> job_step (db, Busy j) (db', Busy j)"
| stopped: "progress (j_id j) part note db = Inr (Job_cancelled, db') \<Longrightarrow>
    job_step (db, Busy j) (finish_cancelled now j db', Idle)"
| ended: "job_step (db, Busy j) (finish_done now (j_id j) db, Idle)"
| failed: "job_step (db, Busy j) (finish_error now j db, Idle)"
| crash: "job_step (db, w) (db, Crashed)"
| restart: "job_step (db, Crashed) (snd (recover db), Idle)"

inductive_cases busy_stepE: "job_step (db, Busy j) s"

inductive job_steps :: "job_db \<times> worker \<Rightarrow> job_db \<times> worker \<Rightarrow> bool" where
  refl: "job_steps s s"
| more: "job_steps s t \<Longrightarrow> job_step t u \<Longrightarrow> job_steps s u"

section \<open>One job at a time\<close>

definition ids :: "job_db \<Rightarrow> nat list" where
  "ids db = List.map j_id (jd_jobs db)"

definition running_ids :: "job_db \<Rightarrow> nat set" where
  "running_ids db = {i. \<exists>j \<in> set (jd_jobs db). j_id j = i \<and> j_status j = Running_job}"

text \<open>Identifiers increase, and only the job of a busy worker is running.\<close>

fun jobs_ok :: "job_db \<times> worker \<Rightarrow> bool" where
  "jobs_ok (db, w) \<longleftrightarrow> sorted_wrt (<) (ids db) \<and>
     (case w of Idle \<Rightarrow> running_ids db = {}
      | Busy j \<Rightarrow> running_ids db = {j_id j}
      | Crashed \<Rightarrow> (\<exists>i. running_ids db \<subseteq> {i}))"

lemma update_job_ids: "(\<And>j. j_id (f j) = j_id j) \<Longrightarrow> ids (update_job i f db) = ids db"
  by (simp add: update_job_def ids_def o_def)

lemma running_update:
  "(\<And>j. j_id (f j) = j_id j) \<Longrightarrow> (\<And>j. j_status (f j) \<noteq> Running_job) \<Longrightarrow>
     running_ids (update_job i f db) = running_ids db - {i}"
  by (auto simp: running_ids_def update_job_def)

lemma running_update_le:
  "(\<And>j. j_id (f j) = j_id j) \<Longrightarrow> (\<And>j. j_status (f j) = Running_job \<Longrightarrow> j_status j = Running_job) \<Longrightarrow>
     running_ids (update_job i f db) \<subseteq> running_ids db"
  by (auto simp: running_ids_def update_job_def)

lemma running_update_eq:
  assumes id: "\<And>j. j_id (f j) = j_id j" and st: "\<And>j. j_status (f j) = Running_job \<longleftrightarrow> j_status j = Running_job"
  shows "running_ids (update_job i f db) = running_ids db"
proof -
  define g where "g = (\<lambda>j. if j_id j = i then f j else j)"
  have "j_id (g j) = j_id j" "j_status (g j) = Running_job \<longleftrightarrow> j_status j = Running_job" for j
    by (simp_all add: g_def id st)
  then show ?thesis unfolding update_job_def g_def [symmetric] by (simp add: running_ids_def)
qed

lemma running_update_start:
  assumes id: "\<And>j. j_id (f j) = j_id j" and st: "\<And>j. j_status (f j) = Running_job" and i: "i \<in> set (ids db)"
  shows "running_ids (update_job i f db) = insert i (running_ids db)"
proof -
  define g where "g = (\<lambda>j. if j_id j = i then f j else j)"
  have "j_id (g j) = j_id j" "j_status (g j) = Running_job \<longleftrightarrow> j_id j = i \<or> j_status j = Running_job" for j
    by (simp_all add: g_def id st)
  moreover from i obtain j where "j \<in> set (jd_jobs db)" "j_id j = i" by (auto simp: ids_def)
  ultimately show ?thesis unfolding update_job_def g_def [symmetric] by (auto simp: running_ids_def)
qed

lemma mark_related_jobs [simp]: "jd_jobs (mark_related j st db) = jd_jobs db"
  by (simp add: mark_related_def)

lemma marked [simp]: "ids (mark_related j st db) = ids db" "running_ids (mark_related j st db) = running_ids db"
  by (simp_all add: ids_def running_ids_def)


lemma recover_jobs: "ids (snd (recover db)) = ids db" "running_ids (snd (recover db)) = {}"
  by (auto simp: recover_def ids_def running_ids_def o_def intro!: map_cong)

lemma enqueue_jobs:
  assumes "sorted_wrt (<) (ids db)"
  shows "sorted_wrt (<) (ids (snd (enqueue k r db))) \<and> running_ids (snd (enqueue k r db)) = running_ids db"
proof -
  have "i \<le> last (ids db)" if "i \<in> set (ids db)" for i
    using that assms by (cases "ids db" rule: rev_cases) (auto simp: sorted_wrt_append)
  then have "\<forall>i \<in> set (ids db). i < fst (enqueue k r db)"
    by (cases "jd_jobs db = []") (auto simp: enqueue_def ids_def last_map less_Suc_eq_le)
  with assms show ?thesis
    by (auto simp: enqueue_def ids_def running_ids_def Let_def sorted_wrt_append)
qed

text \<open>What a row may become: its identifier stays, a final status stays, and once its cancellation is
  requested it does not start to run.\<close>

definition final_status :: "job_status \<Rightarrow> bool" where
  "final_status st \<longleftrightarrow> st \<in> {Done, Errored, Cancelled}"

definition evolves :: "job \<Rightarrow> job \<Rightarrow> bool" where
  "evolves j j' \<longleftrightarrow> j_id j' = j_id j \<and> (final_status (j_status j) \<longrightarrow> j_status j' = j_status j)
     \<and> (j_cancel_requested j \<longrightarrow> j_cancel_requested j')
     \<and> (j_cancel_requested j \<and> j_status j \<noteq> Running_job \<longrightarrow> j_status j' \<noteq> Running_job)"

lemma evolves_refl [simp]: "evolves j j"
  by (simp add: evolves_def)

lemma evolves_trans: "evolves a b \<Longrightarrow> evolves b c \<Longrightarrow> evolves a c"
  by (auto simp: evolves_def)

definition db_evolves :: "job_db \<Rightarrow> job_db \<Rightarrow> bool" where
  "db_evolves db db' \<longleftrightarrow> (\<forall>j \<in> set (jd_jobs db). \<exists>j' \<in> set (jd_jobs db'). evolves j j')"

lemma db_evolves_refl [simp]: "db_evolves db db"
  unfolding db_evolves_def using evolves_refl by blast

lemma db_evolves_trans: "db_evolves a b \<Longrightarrow> db_evolves b c \<Longrightarrow> db_evolves a c"
  unfolding db_evolves_def by (meson evolves_trans)

lemma update_evolves:
  "(\<And>j. j \<in> set (jd_jobs db) \<Longrightarrow> j_id j = i \<Longrightarrow> evolves j (f j)) \<Longrightarrow> db_evolves db (update_job i f db)"
proof (unfold db_evolves_def, intro ballI)
  fix j assume ev: "\<And>j. j \<in> set (jd_jobs db) \<Longrightarrow> j_id j = i \<Longrightarrow> evolves j (f j)" and j: "j \<in> set (jd_jobs db)"
  then have "evolves j (if j_id j = i then f j else j)" by simp
  with j show "\<exists>j' \<in> set (jd_jobs (update_job i f db)). evolves j j'"
    by (intro bexI [of _ "if j_id j = i then f j else j"]) (simp_all add: update_job_def)
qed

lemma mark_evolves [simp]: "db_evolves db (mark_related j st db') = db_evolves db db'"
  by (simp add: db_evolves_def)

lemma unique_id: "sorted_wrt (<) (ids db) \<Longrightarrow> j \<in> set (jd_jobs db) \<Longrightarrow> j' \<in> set (jd_jobs db) \<Longrightarrow> j_id j = j_id j' \<Longrightarrow> j = j'"
proof -
  assume "sorted_wrt (<) (ids db)" "j \<in> set (jd_jobs db)" "j' \<in> set (jd_jobs db)" "j_id j = j_id j'"
  moreover from this(1) have "distinct (List.map j_id (jd_jobs db))"
    unfolding ids_def by (simp add: strict_sorted_iff)
  ultimately show ?thesis by (metis distinct_map inj_on_def)
qed

lemma get_job_id: "get_job i db = Some j \<Longrightarrow> j_id j = i"
  by (auto simp: get_job_def find_Some_iff)

lemma claim_jobs:
  assumes "claim now db = (r, db')" and "sorted_wrt (<) (ids db)"
  shows "ids db' = ids db \<and> db_evolves db db'
     \<and> running_ids db' = running_ids db \<union> (case r of None \<Rightarrow> {} | Some i \<Rightarrow> {i})"
proof (cases "find (\<lambda>j. j_status j = Queued) (jd_jobs db)")
  case None
  with assms show ?thesis by (simp add: claim_def)
next
  case (Some j)
  then have j: "j \<in> set (jd_jobs db)" "j_status j = Queued" by (auto simp: find_Some_iff)
  then have only: "k = j" if "k \<in> set (jd_jobs db)" "j_id k = j_id j" for k
    using unique_id [OF assms(2)] that by blast
  show ?thesis
  proof (cases "j_cancel_requested j")
    case True
    with Some assms(1) have r: "r = None" "db' = update_job (j_id j) (\<lambda>j. j\<lparr>j_status := Cancelled\<rparr>) db"
      by (auto simp: claim_def)
    have "j_id j \<notin> running_ids db" 
    proof
      assume "j_id j \<in> running_ids db"
      then obtain k where "k \<in> set (jd_jobs db)" "j_id k = j_id j" "j_status k = Running_job"
        by (auto simp: running_ids_def)
      with only [of k] j show False by simp
    qed
    moreover have "db_evolves db db'"
      unfolding r by (rule update_evolves, drule (1) only) (simp add: evolves_def final_status_def j)
    ultimately show ?thesis by (simp add: r update_job_ids running_update)
  next
    case False
    with Some assms(1) have r: "r = Some (j_id j)"
      "db' = update_job (j_id j) (\<lambda>j. j\<lparr>j_status := Running_job, j_started_at := Some now\<rparr>) db"
      by (auto simp: claim_def)
    have "running_ids db' = running_ids db \<union> {j_id j}"
      using j unfolding r by (subst running_update_start) (auto simp: ids_def)
    moreover have "db_evolves db db'"
      unfolding r by (rule update_evolves, drule (1) only) (simp add: evolves_def final_status_def j False)
    ultimately show ?thesis by (simp add: r update_job_ids)
  qed
qed

lemma progress_jobs:
  assumes "progress i part note db = Inr (r, db')"
  shows "ids db' = ids db \<and> running_ids db' = running_ids db \<and> db_evolves db db' \<and> (r = Job_cancelled \<longrightarrow> db' = db)"
proof -
  define f where "f = (\<lambda>j :: job. let j1 = j\<lparr>j_progress := py_round part 4\<rparr>
                 in case note of Some (c # cs) \<Rightarrow> j1\<lparr>j_note := c # cs\<rparr> | _ \<Rightarrow> j1)"
  have f: "j_id (f j) = j_id j" "j_status (f j) = j_status j" "j_cancel_requested (f j) = j_cancel_requested j" for j
    by (simp_all add: f_def Let_def split: option.splits list.splits)
  have "ids (update_job i f db) = ids db" "running_ids (update_job i f db) = running_ids db"
    "db_evolves db (update_job i f db)"
    by (simp_all add: update_job_ids running_update_eq update_evolves evolves_def f)
  with assms show ?thesis by (auto simp: progress_def f_def [symmetric] split: option.splits if_splits)
qed

lemma cancel_jobs:
  "ids (cancel_job i db) = ids db" "running_ids (cancel_job i db) = running_ids db" "db_evolves db (cancel_job i db)"
proof -
  define f where "f = (\<lambda>j :: job. let j1 = j\<lparr>j_cancel_requested := True\<rparr>
     in if j_status j1 = Queued then j1\<lparr>j_status := Cancelled\<rparr> else j1)"
  have f: "j_id (f j) = j_id j" "j_status (f j) = Running_job \<longleftrightarrow> j_status j = Running_job" "evolves j (f j)" for j
    by (auto simp: f_def Let_def evolves_def final_status_def)
  show "ids (cancel_job i db) = ids db" "running_ids (cancel_job i db) = running_ids db" "db_evolves db (cancel_job i db)"
    unfolding cancel_job_def f_def [symmetric]
    by (simp_all add: update_job_ids update_evolves running_update_eq f)
qed

lemma finish_jobs:
  "ids (finish_done n i db) = ids db" "running_ids (finish_done n i db) = running_ids db - {i}"
  "ids (finish_cancelled n j db) = ids db" "running_ids (finish_cancelled n j db) = running_ids db - {j_id j}"
  "ids (finish_error n j db) = ids db" "running_ids (finish_error n j db) = running_ids db - {j_id j}"
  by (simp_all add: finish_done_def finish_cancelled_def finish_error_def update_job_ids running_update)

lemma finish_evolves:
  assumes "sorted_wrt (<) (ids db)" and "running_ids db = {i}"
  shows "db_evolves db (finish_done n i db)"
    and "j_id j = i \<Longrightarrow> db_evolves db (finish_cancelled n j db)" and "j_id j = i \<Longrightarrow> db_evolves db (finish_error n j db)"
proof -
  have "j_status k = Running_job" if "k \<in> set (jd_jobs db)" "j_id k = i" for k
    using that assms unique_id by (fastforce simp: running_ids_def)
  then show "db_evolves db (finish_done n i db)" "j_id j = i \<Longrightarrow> db_evolves db (finish_cancelled n j db)"
    "j_id j = i \<Longrightarrow> db_evolves db (finish_error n j db)"
    by (auto simp: finish_done_def finish_cancelled_def finish_error_def evolves_def final_status_def intro!: update_evolves)
qed

lemma recover_evolves: "db_evolves db (snd (recover db))"
proof (unfold db_evolves_def, intro ballI)
  define f where "f = (\<lambda>j :: job. if j_status j = Running_job
           then j\<lparr>j_status := Queued, j_progress := 0, j_note := ''restarted after worker restart''\<rparr> else j)"
  fix j assume "j \<in> set (jd_jobs db)"
  then show "\<exists>j' \<in> set (jd_jobs (snd (recover db))). evolves j j'"
    by (intro bexI [of _ "f j"]) (auto simp: recover_def evolves_def final_status_def f_def)
qed

lemma job_step_ok: "job_step s t \<Longrightarrow> jobs_ok s \<Longrightarrow> jobs_ok t \<and> db_evolves (fst s) (fst t)"
proof (induction rule: job_step.induct)
  case (enqueued db w k r)
  have "db_evolves db (snd (enqueue k r db))" by (auto simp: db_evolves_def enqueue_def Let_def intro: evolves_refl)
  with enqueued show ?case using enqueue_jobs [of db k r] by (cases w) auto
next
  case (cancel db w i)
  then show ?case using cancel_jobs by (cases w) auto
next
  case (claimed now db i db' j)
  then show ?case using claim_jobs [of now db "Some i" db'] get_job_id by auto
next
  case (nothing_claimed now db db')
  then show ?case using claim_jobs [of now db None db'] by auto
next
  case (progressed j part nt db db')
  then show ?case using progress_jobs by fastforce
next
  case (stopped j part nt db db' now)
  then show ?case using progress_jobs [OF stopped.hyps] finish_evolves by (auto simp: finish_jobs)
next
  case (crash db w)
  then show ?case by (cases w) auto
qed (auto simp: finish_jobs recover_jobs finish_evolves recover_evolves)

lemma job_steps_ok: "job_steps s t \<Longrightarrow> jobs_ok s \<Longrightarrow> jobs_ok t \<and> db_evolves (fst s) (fst t)"
  by (induction rule: job_steps.induct) (auto dest: job_step_ok intro: db_evolves_trans)

definition empty_db :: job_db where
  "empty_db = \<lparr>jd_jobs = [], jd_related = Map.empty\<rparr>"

text \<open>Property C25: jobs run one at a time and end once. From an empty table, whatever the owner
  enqueues and cancels and however often the worker crashes, at most one row is marked running,
  and none while the worker is idle; from there on a job that is done, failed or cancelled keeps
  that status, and a job that is not running when its cancellation has been requested never runs.\<close>

theorem jobs_disciplined:
  assumes "job_steps (empty_db, Idle) (db, w)" and "job_steps (db, w) (db', w')" and "j \<in> set (jd_jobs db)"
  shows "(\<forall>a \<in> set (jd_jobs db). \<forall>b \<in> set (jd_jobs db).
        j_status a = Running_job \<and> j_status b = Running_job \<longrightarrow> w \<noteq> Idle \<and> a = b)
    \<and> (\<exists>j' \<in> set (jd_jobs db'). j_id j' = j_id j
        \<and> (j_status j \<in> {Done, Errored, Cancelled} \<longrightarrow> j_status j' = j_status j)
        \<and> (j_cancel_requested j \<and> j_status j \<noteq> Running_job \<longrightarrow> j_status j' \<noteq> Running_job))"
proof -
  have "jobs_ok (empty_db, Idle)" by (simp add: empty_db_def ids_def running_ids_def)
  with job_steps_ok [OF assms(1)] have ok: "jobs_ok (db, w)" by simp
  then have one: "a = b \<and> w \<noteq> Idle" if "a \<in> set (jd_jobs db)" "b \<in> set (jd_jobs db)"
    "j_status a = Running_job" "j_status b = Running_job" for a b
  proof -
    from that have r: "j_id a \<in> running_ids db" "j_id b \<in> running_ids db" by (auto simp: running_ids_def)
    with ok have "j_id a = j_id b" "w \<noteq> Idle" by (auto split: worker.splits)
    with ok that unique_id show ?thesis by (auto split: worker.splits)
  qed
  from job_steps_ok [OF assms(2)] ok assms(3) obtain j' where "j' \<in> set (jd_jobs db')" "evolves j j'"
    by (auto simp: db_evolves_def)
  with one show ?thesis by (auto simp: evolves_def final_status_def)
qed

text \<open>A run with a queued job that is cancelled, a job that runs through a crash, and its end.\<close>

definition demo_waiting :: job_db where
  "demo_waiting = cancel_job 2 (snd (enqueue ''train'' 3 (snd (enqueue ''backtest'' 7 empty_db))))"

definition demo_running :: job_db where
  "demo_running = snd (claim 100 demo_waiting)"

definition demo_restarted :: job_db where
  "demo_restarted = snd (claim 300 (snd (recover demo_running)))"

definition demo_done :: job_db where
  "demo_done = finish_done 400 1 demo_restarted"

lemmas job_defs = empty_db_def enqueue_def cancel_job_def claim_def recover_def finish_done_def
  update_job_def get_job_def Let_def

definition demo_row :: "nat \<Rightarrow> string \<Rightarrow> int \<Rightarrow> job" where
  "demo_row i kind related =
     \<lparr>j_id = i, j_kind = kind, j_related = related, j_status = Queued, j_progress = 0,
      j_note = [], j_cancel_requested = False, j_started_at = None, j_finished_at = None\<rparr>"

lemma demo_rows:
  "jd_jobs demo_waiting = [demo_row 1 ''backtest'' 7,
     (demo_row 2 ''train'' 3)\<lparr>j_cancel_requested := True, j_status := Cancelled\<rparr>]"
  by (simp add: demo_waiting_def demo_row_def job_defs)

lemma demo_rows_running:
  "jd_jobs demo_running = [(demo_row 1 ''backtest'' 7)\<lparr>j_status := Running_job, j_started_at := Some 100\<rparr>,
     (demo_row 2 ''train'' 3)\<lparr>j_cancel_requested := True, j_status := Cancelled\<rparr>]"
  "claim 100 demo_waiting = (Some 1, demo_running)"
  by (simp_all add: demo_running_def claim_def demo_rows demo_row_def update_job_def)

lemma demo_rows_restarted:
  "jd_jobs demo_restarted = [(demo_row 1 ''backtest'' 7)\<lparr>j_status := Running_job, j_started_at := Some 300,
       j_note := ''restarted after worker restart''\<rparr>,
     (demo_row 2 ''train'' 3)\<lparr>j_cancel_requested := True, j_status := Cancelled\<rparr>]"
  "claim 300 (snd (recover demo_running)) = (Some 1, demo_restarted)"
  by (simp_all add: demo_restarted_def claim_def recover_def demo_rows_running demo_row_def update_job_def)

lemma demo_start: "job_steps (empty_db, Idle) (demo_running, Busy (hd (jd_jobs demo_running)))"
proof -
  have "job_steps (empty_db, Idle) (demo_waiting, Idle)"
    unfolding demo_waiting_def
    by (rule job_steps.more [OF job_steps.more [OF job_steps.more [OF job_steps.refl job_step.enqueued]
          job_step.enqueued] job_step.cancel])
  moreover have "get_job 1 demo_running = Some (hd (jd_jobs demo_running))"
    by (simp add: get_job_def demo_rows_running demo_row_def)
  ultimately show ?thesis
    using job_step.claimed [OF demo_rows_running(2)] by (simp add: job_steps.more)
qed

lemma demo_end: "job_steps (demo_running, Busy j) (demo_done, Idle)"
proof -
  define k where "k = hd (jd_jobs demo_restarted)"
  have k: "get_job 1 demo_restarted = Some k"
    by (simp add: get_job_def demo_rows_restarted demo_row_def k_def)
  with job_step.ended [of demo_restarted k 400] have "job_step (demo_restarted, Busy k) (demo_done, Idle)"
    by (simp add: demo_done_def get_job_id)
  then show ?thesis
    using job_step.claimed [OF demo_rows_restarted(2) k] job_step.crash job_step.restart
    by (meson job_steps.intros)
qed

lemma jobs_disciplined_witness:
  "j_status (hd (jd_jobs demo_running)) = Running_job \<and> j_status (last (jd_jobs demo_running)) = Cancelled
    \<and> (\<exists>k \<in> set (jd_jobs demo_done). j_id k = 2 \<and> j_status k = Cancelled)"
  using jobs_disciplined [OF demo_start demo_end, of "last (jd_jobs demo_running)"]
  by (auto simp: demo_rows_running demo_row_def)

end
