(* ===== verification/Ql_Auth.thy ===== *)
theory Ql_Auth
  imports Prelude
begin

text \<open>
  Authentication of the owner of quantlab (quantlab/api/auth.py): password checks with a lockout and
  signed session tokens. Times of the lockout are microseconds, those of tokens seconds. The key
  derivation, the signature and the encoding of texts are those of Python's library, given as
  functions. A stored password is ASCII text, as \<open>hash_password\<close> makes it.
\<close>

section \<open>Passwords\<close>

record auth_codec =
  au_kdf :: "string \<Rightarrow> string \<Rightarrow> string" \<comment> \<open>scrypt of a password and a salt in hexadecimal\<close>
  au_hex :: "string \<Rightarrow> string option" \<comment> \<open>\<open>bytes.fromhex(s).hex()\<close>, nothing when it raises\<close>

definition hash_password :: "auth_codec \<Rightarrow> string \<Rightarrow> string \<Rightarrow> string" where
  "hash_password A password salt = ''scrypt$'' @ salt @ ''$'' @ au_kdf A password salt"

text \<open>An empty salt is replaced by a random one, so a stored password without a salt matches nothing.\<close>

definition verify_password :: "auth_codec \<Rightarrow> string \<Rightarrow> string \<Rightarrow> py_error + bool" where
  "verify_password A password stored =
     (case split_on (CHR ''$'') stored of
        [_, salt, _] \<Rightarrow>
          (case au_hex A salt of
             None \<Rightarrow> Inl ValueError
           | Some h \<Rightarrow> Inr (h \<noteq> [] \<and> hash_password A password h = stored))
      | _ \<Rightarrow> Inr False)"

section \<open>Login with a lockout\<close>

definition MAX_FAILED :: int where
  "MAX_FAILED = 5"

definition lock_time :: int where \<comment> \<open>\<open>LOCK_MINUTES\<close>\<close>
  "lock_time = 15 * 60 * 1000000"

record owner =
  ow_password_hash :: string
  ow_failed_logins :: int
  ow_locked_until :: "int option"

datatype login_result = Login_ok | Login_invalid | Login_locked

definition is_locked :: "int \<Rightarrow> owner \<Rightarrow> bool" where
  "is_locked now u \<longleftrightarrow> (case ow_locked_until u of None \<Rightarrow> False | Some t \<Rightarrow> now < t)"

definition failed_login :: "int \<Rightarrow> owner \<Rightarrow> owner" where
  "failed_login now u =
     (if ow_failed_logins u + 1 \<ge> MAX_FAILED
      then u\<lparr>ow_failed_logins := 0, ow_locked_until := Some (now + lock_time)\<rparr>
      else u\<lparr>ow_failed_logins := ow_failed_logins u + 1\<rparr>)"

type_synonym owners = "string \<Rightarrow> owner option"

definition attempt_login ::
    "auth_codec \<Rightarrow> int \<Rightarrow> string \<Rightarrow> string \<Rightarrow> owners \<Rightarrow> py_error + login_result \<times> owners" where
  "attempt_login A now username password s =
     (case s username of
        None \<Rightarrow> Inr (Login_invalid, s)
      | Some u \<Rightarrow>
          if is_locked now u then Inr (Login_locked, s)
          else
            bindE (verify_password A password (ow_password_hash u)) (\<lambda>ok.
              if \<not> ok then Inr (Login_invalid, s(username \<mapsto> failed_login now u))
              else Inr (Login_ok, s(username \<mapsto> u\<lparr>ow_failed_logins := 0, ow_locked_until := None\<rparr>))))"

text \<open>
  The times at which an attempt for a user had its password compared, in a sequence of attempts.
\<close>

fun checked_times ::
    "auth_codec \<Rightarrow> string \<Rightarrow> (int \<times> string \<times> string) list \<Rightarrow> owners \<Rightarrow> py_error + int list" where
  "checked_times A name [] s = Inr []"
| "checked_times A name ((now, username, password) # rest) s =
     bindE (attempt_login A now username password s) (\<lambda>(r, s').
     bindE (checked_times A name rest s') (\<lambda>ts.
       Inr (if username = name \<and> s name \<noteq> None \<and> r \<noteq> Login_locked then now # ts else ts)))"

definition wrong_password :: "auth_codec \<Rightarrow> owner \<Rightarrow> string \<Rightarrow> bool" where
  "wrong_password A u password \<longleftrightarrow> verify_password A password (ow_password_hash u) = Inr False"

section \<open>Guessing is slow\<close>

text \<open>After the checks at positions \<open>4 - f\<close>, \<open>9 - f\<close>, ... the user is locked.\<close>

lemma checks_spaced:
  assumes "s name = Some u" and "0 \<le> ow_failed_logins u" and "ow_failed_logins u < MAX_FAILED"
    and "sorted (map fst attempts)"
    and "\<forall>(now, username, password) \<in> set attempts. username = name \<longrightarrow> wrong_password A u password"
    and "checked_times A name attempts s = Inr ts"
  shows "set ts \<subseteq> fst ` set attempts \<and> sorted ts \<and> (\<forall>t \<in> set ts. \<forall>l. ow_locked_until u = Some l \<longrightarrow> l \<le> t)
    \<and> (\<forall>j. int (j mod 5) = 4 - ow_failed_logins u \<longrightarrow> j + 1 < length ts \<longrightarrow> ts ! j + lock_time \<le> ts ! (j + 1))"
  using assms
proof (induction attempts arbitrary: s u ts)
  case (Cons a attempts)
  obtain now username password where a: "a = (now, username, password)" by (cases a)
  from Cons.prems(6) a obtain r s' ts' where at: "attempt_login A now username password s = Inr (r, s')"
    and rest: "checked_times A name attempts s' = Inr ts'"
    and ts: "ts = (if username = name \<and> s name \<noteq> None \<and> r \<noteq> Login_locked then now # ts' else ts')"
    by (auto simp: bindE_eq_Inr)
  have later: "\<forall>x \<in> set attempts. now \<le> fst x" and sorted: "sorted (map fst attempts)" using Cons.prems(4) a by auto
  have others: "\<forall>(now, username, password) \<in> set attempts. username = name \<longrightarrow> wrong_password A u password"
    using Cons.prems(5) by auto
  show ?case
  proof (cases "username = name \<and> \<not> is_locked now u")
    case False
    with at Cons.prems(1) have "s' name = Some u" and "ts = ts'"
      by (auto simp: attempt_login_def ts bindE_eq_Inr split: option.splits if_splits)
    with Cons.IH [OF _ Cons.prems(2,3) sorted others rest] show ?thesis by auto
  next
    case True
    with Cons.prems(5) a have wrong: "wrong_password A u password" by auto
    with at Cons.prems(1) True have s': "s' name = Some (failed_login now u)" and r: "r = Login_invalid"
      by (auto simp: attempt_login_def wrong_password_def)
    with ts Cons.prems(1) True have ts: "ts = now # ts'" by simp
    let ?u = "failed_login now u"
    have hash: "wrong_password A ?u = wrong_password A u" by (simp add: fun_eq_iff wrong_password_def failed_login_def)
    have f: "0 \<le> ow_failed_logins ?u" "ow_failed_logins ?u < MAX_FAILED"
      using Cons.prems(2,3) by (auto simp: failed_login_def MAX_FAILED_def)
    from Cons.IH [OF s' f sorted _ rest] others hash have
      ih: "set ts' \<subseteq> fst ` set attempts" "sorted ts'" "\<forall>t \<in> set ts'. \<forall>l. ow_locked_until ?u = Some l \<longrightarrow> l \<le> t"
        "\<forall>j. int (j mod 5) = 4 - ow_failed_logins ?u \<longrightarrow> j + 1 < length ts' \<longrightarrow> ts' ! j + lock_time \<le> ts' ! (j + 1)"
      by auto
    have "\<forall>t \<in> set ts. \<forall>l. ow_locked_until u = Some l \<longrightarrow> l \<le> t"
      using True ih(1) later by (fastforce simp: ts is_locked_def)
    moreover have "ts ! j + lock_time \<le> ts ! (j + 1)"
      if j: "int (j mod 5) = 4 - ow_failed_logins u" "j + 1 < length ts" for j
    proof (cases j)
      case 0
      with j(1) have "ow_failed_logins u = 4" by simp
      then have "ow_locked_until ?u = Some (now + lock_time)" by (simp add: failed_login_def MAX_FAILED_def)
      with ih(3) j(2) 0 show ?thesis by (simp add: ts)
    next
      case (Suc i)
      have "int (i mod 5) = 4 - ow_failed_logins ?u"
      proof (cases "ow_failed_logins u = 4")
        case True
        with j(1) Suc have "Suc i mod 5 = 0" by simp
        then have "i mod 5 = 4" by presburger
        with True show ?thesis by (simp add: failed_login_def MAX_FAILED_def)
      next
        case False
        with j(1) Suc have "int (Suc i mod 5) = 4 - ow_failed_logins u" "Suc i mod 5 \<noteq> 0" by auto
        moreover from this(2) have "Suc i mod 5 = Suc (i mod 5)" by presburger
        ultimately show ?thesis using False Cons.prems(3) by (simp add: failed_login_def MAX_FAILED_def)
      qed
      with ih(4) j(2) Suc show ?thesis by (simp add: ts)
    qed
    ultimately show ?thesis using ih(1,2) later a by (fastforce simp: ts)
  qed
qed simp

text \<open>Property C21: passwords cannot be guessed fast. However attempts for any users are mixed, as long
  as nobody knows the password, at most five checks of one user's password happen in any fifteen
  minutes: the sixth check after any check is at least the time of the lockout later.\<close>

theorem guesses_limited:
  assumes "s name = Some u" and "0 \<le> ow_failed_logins u" and "ow_failed_logins u < MAX_FAILED"
    and "sorted (map fst attempts)"
    and "\<forall>(now, username, password) \<in> set attempts. username = name \<longrightarrow> wrong_password A u password"
    and "checked_times A name attempts s = Inr ts" and "i + 5 < length ts"
  shows "ts ! i + lock_time \<le> ts ! (i + 5)"
proof -
  from checks_spaced [OF assms(1-6)] have ts: "sorted ts"
    "\<And>j. int (j mod 5) = 4 - ow_failed_logins u \<Longrightarrow> j + 1 < length ts \<Longrightarrow> ts ! j + lock_time \<le> ts ! (j + 1)" by auto
  define k where "k = nat (4 - ow_failed_logins u)"
  have k: "int k = 4 - ow_failed_logins u" "k < 5" using assms(2,3) by (auto simp: k_def MAX_FAILED_def)
  have "\<exists>d < 5. (i + d) mod 5 = k" using k(2) by presburger
  then obtain d where d: "d < 5" "(i + d) mod 5 = k" by blast
  define j where "j = i + d"
  with d have j: "i \<le> j" "j \<le> i + 4" "j mod 5 = k" by auto
  with ts(2) [of j] k(1) assms(7) have "ts ! j + lock_time \<le> ts ! (j + 1)" by simp
  moreover have "ts ! i \<le> ts ! j" "ts ! (j + 1) \<le> ts ! (i + 5)"
    using ts(1) j assms(7) by (auto intro: sorted_nth_mono)
  ultimately show ?thesis by linarith
qed

text \<open>Six wrong guesses half an hour apart: all of them are checked.\<close>

definition example_codec :: auth_codec where
  "example_codec = \<lparr>au_kdf = (\<lambda>password salt. password @ salt), au_hex = Some\<rparr>"

definition example_owner :: owner where
  "example_owner = \<lparr>ow_password_hash = hash_password example_codec ''secret'' ''00'', ow_failed_logins = 0,
     ow_locked_until = None\<rparr>"

definition example_guesses :: "(int \<times> string \<times> string) list" where
  "example_guesses = List.map (\<lambda>k. (k * 1800000000, ''owner'', ''guess'')) [0, 1, 2, 3, 4, 5]"

lemma example_guesses_wrong: "wrong_password example_codec example_owner ''guess''"
  by code_simp

theorem guesses_limited_witness:
  "\<exists>ts. checked_times example_codec ''owner'' example_guesses [''owner'' \<mapsto> example_owner] = Inr ts
    \<and> length ts = 6 \<and> ts ! 0 + lock_time \<le> ts ! (0 + 5)"
proof -
  have run: "checked_times example_codec ''owner'' example_guesses [''owner'' \<mapsto> example_owner]
      = Inr [0, 1800000000, 3600000000, 5400000000, 7200000000, 9000000000]" by code_simp
  have "[0, 1800000000, 3600000000, 5400000000, 7200000000, 9000000000] ! 0 + lock_time
      \<le> [0, 1800000000, 3600000000, 5400000000, 7200000000, 9000000000] ! (0 + 5)"
    by (rule guesses_limited [OF _ _ _ _ _ run])
      (use example_guesses_wrong in \<open>simp_all add: example_owner_def MAX_FAILED_def example_guesses_def\<close>)
  with run show ?thesis by auto
qed

section \<open>Session tokens\<close>

text \<open>What a body decodes to: nothing when it is no JSON, else its two keys.\<close>

record token_codec =
  tk_body :: "string \<Rightarrow> int \<Rightarrow> string" \<comment> \<open>base 64 of the JSON of a name and a time\<close>
  tk_data :: "string \<Rightarrow> (string option \<times> int option) option"
  tk_sign :: "string \<Rightarrow> string \<Rightarrow> string" \<comment> \<open>the signature in hexadecimal\<close>

definition SESSION_SECONDS :: int where
  "SESSION_SECONDS = 12 * 3600"

definition token_now :: "int \<Rightarrow> int option \<Rightarrow> int" where \<comment> \<open>\<open>now or int(time.time())\<close>\<close>
  "token_now clock now = (case now of None \<Rightarrow> clock | Some n \<Rightarrow> if n = 0 then clock else n)"

definition make_token :: "token_codec \<Rightarrow> int \<Rightarrow> string \<Rightarrow> string \<Rightarrow> int option \<Rightarrow> string" where
  "make_token T clock secret username now =
     (let body = tk_body T username (token_now clock now + SESSION_SECONDS) in body @ ''.'' @ tk_sign T secret body)"

definition rsplit_dot :: "string \<Rightarrow> string \<times> string" where \<comment> \<open>\<open>s.rsplit('.', 1)\<close> of a text with a dot\<close>
  "rsplit_dot s =
     (rev (tl (dropWhile (\<lambda>c. c \<noteq> CHR ''.'') (rev s))), rev (takeWhile (\<lambda>c. c \<noteq> CHR ''.'') (rev s)))"

definition read_token :: "token_codec \<Rightarrow> int \<Rightarrow> string \<Rightarrow> string option \<Rightarrow> int option \<Rightarrow> py_error + string option" where
  "read_token T clock secret token now =
     (case token of
        None \<Rightarrow> Inr None
      | Some t \<Rightarrow>
          if CHR ''.'' \<notin> set t then Inr None
          else
            (case rsplit_dot t of (body, sig) \<Rightarrow>
               if sig \<noteq> tk_sign T secret body then Inr None
               else
                 (case tk_data T body of
                    None \<Rightarrow> Inr None
                  | Some (u, expiry) \<Rightarrow>
                      if token_now clock now < (case expiry of None \<Rightarrow> 0 | Some e \<Rightarrow> e)
                      then (case u of None \<Rightarrow> Inl KeyError | Some name \<Rightarrow> Inr (Some name))
                      else Inr None)))"

lemma rsplit_dot: "CHR ''.'' \<notin> set sig \<Longrightarrow> rsplit_dot (body @ CHR ''.'' # sig) = (body, sig)"
  by (simp add: rsplit_dot_def takeWhile_append dropWhile_append)

lemma rsplit_dot_eq:
  assumes "CHR ''.'' \<in> set s" and "rsplit_dot s = (body, sig)"
  shows "s = body @ CHR ''.'' # sig"
proof -
  from assms(1) have "CHR ''.'' \<in> set (rev s)" by simp
  then obtain xs ys where s: "rev s = xs @ CHR ''.'' # ys" "CHR ''.'' \<notin> set xs" by (metis split_list_first)
  then have eq: "s = rev ys @ CHR ''.'' # rev xs" by (metis append.assoc append_Cons append_Nil rev_append rev_rev_ident rev.simps(2))
  with s(2) rsplit_dot [of "rev xs" "rev ys"] assms(2) show ?thesis by simp
qed

text \<open>What a client of the tokens relies on: bodies decode to what they were made of, a signature is
  hexadecimal.\<close>

locale token_format =
  fixes T :: token_codec
  assumes decodes: "tk_data T (tk_body T u e) = Some (Some u, Some e)"
    and no_dot: "CHR ''.'' \<notin> set (tk_sign T secret body)"
begin

lemma token_round_trip:
  "read_token T clock' secret (Some (make_token T clock secret u now)) now'
     = Inr (if token_now clock' now' < token_now clock now + SESSION_SECONDS then Some u else None)"
  by (simp add: read_token_def make_token_def Let_def rsplit_dot no_dot decodes)

end

text \<open>Names without a colon, times in unary: a codec that keeps the laws.\<close>

fun unary_data :: "nat \<Rightarrow> string \<Rightarrow> (string option \<times> int option) option" where
  "unary_data n [] = None"
| "unary_data n (c # cs) =
     (if c = CHR ''+'' then unary_data (Suc n) cs
      else if c = CHR '':'' then Some (Some cs, Some (int n))
      else if c = CHR ''-'' then Some (Some cs, Some (- int n))
      else None)"

definition unary_codec :: token_codec where
  "unary_codec = \<lparr>tk_body = (\<lambda>u e. replicate (nat \<bar>e\<bar>) (CHR ''+'') @ (if 0 \<le> e then CHR '':'' else CHR ''-'') # u),
     tk_data = unary_data 0, tk_sign = (\<lambda>secret body. List.filter (\<lambda>c. c \<noteq> CHR ''.'') (secret @ body))\<rparr>"

lemma unary_data_replicate: "unary_data n (replicate k (CHR ''+'') @ s) = unary_data (n + k) s"
  by (induction k arbitrary: n) simp_all

interpretation unary: token_format unary_codec
  by unfold_locales (auto simp: unary_codec_def unary_data_replicate)

text \<open>An accepted token carries the signature of its body, and its time has not come.\<close>

lemma accepted_token:
  assumes "read_token T clock secret (Some t) now = Inr (Some u)"
  shows "\<exists>body expiry. t = body @ CHR ''.'' # tk_sign T secret body \<and> tk_data T body = Some (Some u, expiry)
    \<and> token_now clock now < (case expiry of None \<Rightarrow> 0 | Some e \<Rightarrow> e)"
proof -
  obtain body sig where split: "rsplit_dot t = (body, sig)" by fastforce
  with assms have dot: "CHR ''.'' \<in> set t" and sig: "sig = tk_sign T secret body"
    and "\<exists>expiry. tk_data T body = Some (Some u, expiry) \<and> token_now clock now < (case expiry of None \<Rightarrow> 0 | Some e \<Rightarrow> e)"
    by (auto simp: read_token_def split: if_splits prod.splits option.splits)
  with rsplit_dot_eq [OF dot split] show ?thesis by blast
qed

end
