(* ===== verification/Ql_Watchdog.thy ===== *)
theory Ql_Watchdog
  imports Prelude "HOL-Library.AList"
begin

text \<open>
  The watchdog of quantlab (quantlab/watchdog.py): it finds workers that are silent, timeframes without
  new candles and a full disk, alerts the owner once, repeats rarely and reports recovery. Times are
  seconds; the two readings of the clock in \<open>find_problems\<close> are taken as one. The texts of the messages are
  left out; a problem is named by its key.
\<close>

section \<open>Problems\<close>

definition SILENCE :: "(string \<times> flt) list" where
  "SILENCE = [(''market'', 600), (''paper'', 600), (''jobs'', 3600), (''trainer'', 2400)]"

definition REPEAT_SECONDS :: flt where
  "REPEAT_SECONDS = 6 * 3600"

definition CANDLE_GRACE :: flt where
  "CANDLE_GRACE = 900"

definition DISK_LIMIT_PCT :: flt where
  "DISK_LIMIT_PCT = 90"

definition TIMEFRAMES :: "(string \<times> int) list" where
  "TIMEFRAMES = [(''1m'', 60), (''5m'', 300), (''15m'', 900), (''30m'', 1800), (''1h'', 3600), (''4h'', 14400),
     (''1d'', 86400)]"

record monitored =
  mo_heartbeats :: "(string \<times> flt) list" \<comment> \<open>name (the key of the table) and \<open>at.timestamp()\<close>\<close>
  mo_running :: "(string \<times> int) list" \<comment> \<open>timeframe and last candle of the running sessions\<close>
  mo_disk :: "flt \<times> flt" \<comment> \<open>used and total\<close>

definition silent_worker :: "flt \<Rightarrow> string \<times> flt \<Rightarrow> bool" where
  "silent_worker now h = (case map_of SILENCE (fst h) of None \<Rightarrow> False | Some limit \<Rightarrow> limit < now - snd h)"

text \<open>The newest candle per timeframe, in the order the timeframes are met.\<close>

fun latest_candles :: "(string \<times> int) list \<Rightarrow> (string \<times> int) list \<Rightarrow> (string \<times> int) list" where
  "latest_candles latest [] = latest"
| "latest_candles latest ((tf, ts) # rows) =
     latest_candles (AList.update tf (max (case map_of latest tf of None \<Rightarrow> 0 | Some t \<Rightarrow> t) ts) latest) rows"

definition stalled_timeframe :: "flt \<Rightarrow> string \<times> int \<Rightarrow> bool" where
  "stalled_timeframe now l =
     (case map_of TIMEFRAMES (fst l) of
        None \<Rightarrow> False
      | Some step \<Rightarrow> step \<noteq> 0 \<and> of_int (snd l + 2 * step) + CANDLE_GRACE < now)"

definition find_problems :: "monitored \<Rightarrow> flt \<Rightarrow> py_error + string list" where
  "find_problems m now =
     (if snd (mo_disk m) = 0 then Inl ZeroDivisionError
      else
        Inr (List.map (\<lambda>h. ''worker:'' @ fst h) (List.filter (silent_worker now) (mo_heartbeats m))
           @ List.map (\<lambda>l. ''candles:'' @ fst l) (List.filter (stalled_timeframe now) (latest_candles [] (mo_running m)))
           @ (if DISK_LIMIT_PCT \<le> fst (mo_disk m) / snd (mo_disk m) * 100 then [''disk''] else [])))"

section \<open>Messages\<close>

datatype watch_message = Trouble "string list" | Recovered

type_synonym seen = "(string \<times> flt) list" \<comment> \<open>the row \<open>watchdog\<close> of the settings\<close>

definition due_problems :: "flt \<Rightarrow> seen \<Rightarrow> string list \<Rightarrow> string list" where
  "due_problems now seen problems =
     List.filter (\<lambda>k. REPEAT_SECONDS \<le> now - (case map_of seen k of None \<Rightarrow> 0 | Some t \<Rightarrow> t)) problems"

definition kept_problems :: "flt \<Rightarrow> seen \<Rightarrow> string list \<Rightarrow> seen" where
  "kept_problems now seen problems =
     fold (\<lambda>k. AList.update k now) (due_problems now seen problems) (List.filter (\<lambda>p. fst p \<in> set problems) seen)"

definition watchdog_check :: "flt \<Rightarrow> monitored \<Rightarrow> seen \<Rightarrow> py_error + watch_message list \<times> seen" where
  "watchdog_check now m seen =
     bindE (find_problems m now) (\<lambda>problems.
       (let due = due_problems now seen problems;
            recovered = List.filter (\<lambda>p. fst p \<notin> set problems) seen
        in Inr ((if due = [] then [] else [Trouble due]) @ (if recovered = [] then [] else [Recovered]),
                kept_problems now seen problems)))"

section \<open>Each problem is reported, and seldom again\<close>

lemma map_of_updates:
  "map_of (fold (\<lambda>k. AList.update k (v :: flt)) ks m) k = (if k \<in> set ks then Some v else map_of m k)"
  by (induction ks arbitrary: m) (auto simp: update_conv')

lemma map_of_keys_filter: "map_of (List.filter (\<lambda>p. fst p \<in> A) m) k = (if k \<in> A then map_of m k else None)"
  by (induction m) auto

lemma kept_problems_at:
  "map_of (kept_problems now seen problems) k =
     (if k \<in> set (due_problems now seen problems) then Some now
      else if k \<in> set problems then map_of seen k else None)"
  by (simp add: kept_problems_def map_of_updates map_of_keys_filter)

lemma due_subset: "set (due_problems now seen problems) \<subseteq> set problems"
  by (auto simp: due_problems_def)

text \<open>After a check every present problem has a time, less than the repetition ago, and nothing else has.\<close>

lemma checked_times_recent:
  assumes "watchdog_check now m seen = Inr (msgs, seen')" and "find_problems m now = Inr problems" and "REPEAT_SECONDS \<le> now"
  shows "k \<in> set problems \<longleftrightarrow> (\<exists>t. map_of seen' k = Some t)"
    and "map_of seen' k = Some t \<Longrightarrow> now - t < REPEAT_SECONDS"
  using assms due_subset [of now seen problems]
  by (auto simp: watchdog_check_def Let_def kept_problems_at due_problems_def REPEAT_SECONDS_def
      split: if_splits option.splits)

text \<open>A sequence of checks, with the problems each of them reported.\<close>

fun reports :: "(flt \<times> monitored) list \<Rightarrow> seen \<Rightarrow> py_error + (flt \<times> watch_message list) list" where
  "reports [] seen = Inr []"
| "reports ((now, m) # rest) seen =
     bindE (watchdog_check now m seen) (\<lambda>(msgs, seen').
     bindE (reports rest seen') (\<lambda>rs. Inr ((now, msgs) # rs)))"

definition reported :: "string \<Rightarrow> watch_message list \<Rightarrow> bool" where
  "reported k msgs \<longleftrightarrow> (\<exists>due. Trouble due \<in> set msgs \<and> k \<in> set due)"

lemma reported_due:
  assumes "watchdog_check now m seen = Inr (msgs, seen')" and "find_problems m now = Inr problems"
  shows "reported k msgs \<longleftrightarrow> k \<in> set (due_problems now seen problems)"
proof -
  from assms have "msgs = (if due_problems now seen problems = [] then [] else [Trouble (due_problems now seen problems)])
      @ (if List.filter (\<lambda>p. fst p \<notin> set problems) seen = [] then [] else [Recovered])"
    by (simp add: watchdog_check_def Let_def)
  then show ?thesis by (auto simp: reported_def)
qed

lemma known_problem_due:
  "map_of seen k = Some t \<Longrightarrow> k \<in> set (due_problems now seen problems) \<longleftrightarrow> k \<in> set problems \<and> REPEAT_SECONDS \<le> now - t"
  by (simp add: due_problems_def)

lemma image_in_fst: "map fst rs = map fst cs \<Longrightarrow> (x, y) \<in> set rs \<Longrightarrow> x \<in> fst ` set cs"
  by (metis fst_conv image_eqI list.set_map)

lemma reports_times: "reports cs seen = Inr rs \<Longrightarrow> map fst rs = map fst cs"
  by (induction cs seen arbitrary: rs rule: reports.induct) (auto simp: bindE_eq_Inr)

text \<open>A problem that stays is not reported again before the repetition time.\<close>

lemma quiet_while_present:
  assumes "reports cs seen = Inr rs" and "map_of seen k = Some t"
    and "\<forall>(now, m) \<in> set cs. \<exists>problems. find_problems m now = Inr problems \<and> k \<in> set problems"
    and "sorted (map fst cs)" and "(now, msgs) \<in> set rs" and "reported k msgs"
  shows "t + REPEAT_SECONDS \<le> now"
  using assms
proof (induction cs arbitrary: seen rs)
  case (Cons c cs)
  obtain time m where c: "c = (time, m)" by (cases c)
  from Cons.prems(1) c obtain first seen' rs' where step: "watchdog_check time m seen = Inr (first, seen')"
    and rest: "reports cs seen' = Inr rs'" and rs: "rs = (time, first) # rs'"
    by (auto simp: bindE_eq_Inr)
  from Cons.prems(3) c obtain problems where p: "find_problems m time = Inr problems" "k \<in> set problems" by auto
  show ?case
  proof (cases "REPEAT_SECONDS \<le> time - t")
    case False
    with step p Cons.prems(2) have "map_of seen' k = Some t"
      by (auto simp: watchdog_check_def Let_def kept_problems_at known_problem_due)
    moreover have "\<not> reported k first" using reported_due [OF step p(1)] False Cons.prems(2) by (simp add: known_problem_due)
    ultimately show ?thesis using Cons.IH [OF rest] Cons.prems(3-6) rs by auto
  next
    case True
    moreover have "time \<le> now" using Cons.prems(4,5) rs c image_in_fst [OF reports_times [OF rest], of now msgs] by auto
    ultimately show ?thesis by simp
  qed
qed simp

end
