(* ===== verification/Exchange_Markets.thy ===== *)
theory Exchange_Markets
  imports Liquidation
begin

text \<open>
  What the exchange object of freqtrade computes from the markets it has loaded
  (exchange/exchange.py): which markets may be traded, contract sizes and precision, the limits of
  stakes and leverage, entry and exit rates, conversion rates, fees and funding fees. Markets,
  tickers, order books and candles are what ccxt answered; a missing key of a market and a key
  with value \<open>None\<close> are treated alike.
\<close>

section \<open>Markets\<close>

record limit_range =
  lr_min :: "flt option"
  lr_max :: "flt option"

record xmarket =
  xm_base :: "string option"
  xm_quote :: "string option"
  xm_type :: "string option"
  xm_flags :: "string \<Rightarrow> bool" \<comment> \<open>spot, margin, swap, linear: present and \<open>True\<close>\<close>
  xm_active :: "bool option"
  xm_price_precision :: "flt option"
  xm_amount_precision :: "flt option"
  xm_contract_size :: "flt option"
  xm_cost :: limit_range
  xm_amount :: limit_range
  xm_leverage_max :: "flt option"

text \<open>A parsed leverage tier: the maintenance data of Liquidation and the caps.\<close>

record trading_tier = leverage_tier +
  tt_max_notional :: "flt option"
  tt_max_leverage :: flt

record ticker =
  tk_ask :: "flt option"
  tk_bid :: "flt option"
  tk_last :: "flt option"

record order_book =
  ob_asks :: "(flt \<times> flt) list"
  ob_bids :: "(flt \<times> flt) list"

record exchange =
  ex_ccxt :: ccxt
  ex_trading_mode :: trading_mode
  ex_precision_mode :: precision_mode
  ex_precision_mode_price :: precision_mode
  ex_futures_name :: string
  ex_markets :: "(string \<times> xmarket) list"
  ex_leverage_tiers :: "string \<Rightarrow> trading_tier list option"
  ex_amount_reserve_percent :: flt
  ex_stake_currency :: string
  ex_unknown_fee_rate :: "flt option"
  ex_proxy_coin :: "string \<Rightarrow> string option"
  ex_fee :: "string \<Rightarrow> bool \<Rightarrow> flt" \<comment> \<open>pair, taker\<close>
  ex_has_order_book :: bool
  ex_order_book :: "string \<Rightarrow> nat \<Rightarrow> py_error + order_book"
  ex_ticker :: "string \<Rightarrow> py_error + ticker"
  ex_tickers :: "trading_mode option \<Rightarrow> string \<Rightarrow> ticker option"

definition x_market :: "exchange \<Rightarrow> string \<Rightarrow> xmarket option" where
  "x_market X = map_of (ex_markets X)"

definition get_pair_quote_currency :: "exchange \<Rightarrow> string \<Rightarrow> string" where
  "get_pair_quote_currency X pair =
     (case x_market X pair of Some m \<Rightarrow> (case xm_quote m of Some q \<Rightarrow> q | None \<Rightarrow> []) | None \<Rightarrow> [])"

definition get_pair_base_currency :: "exchange \<Rightarrow> string \<Rightarrow> string" where
  "get_pair_base_currency X pair =
     (case x_market X pair of Some m \<Rightarrow> (case xm_base m of Some b \<Rightarrow> b | None \<Rightarrow> []) | None \<Rightarrow> [])"

definition market_is_future :: "exchange \<Rightarrow> xmarket \<Rightarrow> bool" where
  "market_is_future X m \<longleftrightarrow>
     xm_flags m (ex_futures_name X) \<and> xm_type m = Some ''swap'' \<and> xm_flags m ''linear''"

definition market_is_spot :: "xmarket \<Rightarrow> bool" where
  "market_is_spot m = xm_flags m ''spot''"

definition market_is_margin :: "xmarket \<Rightarrow> bool" where
  "market_is_margin m = xm_flags m ''margin''"

definition market_is_active :: "xmarket \<Rightarrow> bool" where
  "market_is_active m \<longleftrightarrow> xm_active m \<noteq> Some False"

definition market_is_tradable :: "exchange \<Rightarrow> xmarket \<Rightarrow> bool" where
  "market_is_tradable X m \<longleftrightarrow>
     xm_quote m \<noteq> None \<and> xm_base m \<noteq> None
   \<and> (ex_precision_mode X \<noteq> TICK_SIZE
      \<or> (case xm_price_precision m of None \<Rightarrow> True | Some p \<Rightarrow> p > 1 / 10 ^ 11))
   \<and> ((ex_trading_mode X = SPOT \<and> market_is_spot m)
      \<or> (ex_trading_mode X = MARGIN \<and> market_is_margin m)
      \<or> (ex_trading_mode X = FUTURES \<and> market_is_future X m))"

definition keep_markets :: "bool \<Rightarrow> (xmarket \<Rightarrow> bool) \<Rightarrow> (string \<times> xmarket) list \<Rightarrow> (string \<times> xmarket) list" where
  "keep_markets asked P ms = (if asked then filter (P \<circ> snd) ms else ms)"

definition get_markets ::
    "exchange \<Rightarrow> string list \<Rightarrow> string list \<Rightarrow> bool \<Rightarrow> bool \<Rightarrow> bool \<Rightarrow> bool \<Rightarrow> bool
       \<Rightarrow> py_error + (string \<times> xmarket) list" where
  "get_markets X base_currencies quote_currencies spot_only margin_only futures_only tradable_only active_only =
     (if ex_markets X = [] then Inl OperationalException
      else Inr
        (keep_markets active_only market_is_active
        (keep_markets futures_only (market_is_future X)
        (keep_markets margin_only market_is_margin
        (keep_markets spot_only market_is_spot
        (keep_markets tradable_only (market_is_tradable X)
        (keep_markets (quote_currencies \<noteq> []) (\<lambda>m. \<exists>q \<in> set quote_currencies. xm_quote m = Some q)
        (keep_markets (base_currencies \<noteq> []) (\<lambda>m. \<exists>b \<in> set base_currencies. xm_base m = Some b)
           (ex_markets X)))))))))"

section \<open>Contracts and precision\<close>

definition get_contract_size :: "exchange \<Rightarrow> string \<Rightarrow> flt option" where
  "get_contract_size X pair =
     (if ex_trading_mode X = FUTURES then
        (case x_market X pair of None \<Rightarrow> None
         | Some m \<Rightarrow> Some (case xm_contract_size m of None \<Rightarrow> 1 | Some c \<Rightarrow> c))
      else Some 1)"

definition x_amount_to_contracts :: "exchange \<Rightarrow> string \<Rightarrow> flt \<Rightarrow> flt" where
  "x_amount_to_contracts X pair amount = amount_to_contracts (ex_ccxt X) amount (get_contract_size X pair)"

definition x_contracts_to_amount :: "exchange \<Rightarrow> string \<Rightarrow> flt \<Rightarrow> flt" where
  "x_contracts_to_amount X pair n = contracts_to_amount n (get_contract_size X pair)"

definition get_precision_amount :: "exchange \<Rightarrow> string \<Rightarrow> flt option" where
  "get_precision_amount X pair = (case x_market X pair of None \<Rightarrow> None | Some m \<Rightarrow> xm_amount_precision m)"

definition get_precision_price :: "exchange \<Rightarrow> string \<Rightarrow> flt option" where
  "get_precision_price X pair = (case x_market X pair of None \<Rightarrow> None | Some m \<Rightarrow> xm_price_precision m)"

definition x_amount_to_precision :: "exchange \<Rightarrow> string \<Rightarrow> flt \<Rightarrow> flt" where
  "x_amount_to_precision X pair amount =
     amount_to_precision (ex_ccxt X) amount (get_precision_amount X pair) (Some (ex_precision_mode X))"

definition x_amount_to_contract_precision :: "exchange \<Rightarrow> string \<Rightarrow> flt \<Rightarrow> flt" where
  "x_amount_to_contract_precision X pair amount =
     amount_to_contract_precision (ex_ccxt X) amount (get_precision_amount X pair)
       (Some (ex_precision_mode X)) (get_contract_size X pair)"

definition x_price_to_precision :: "exchange \<Rightarrow> string \<Rightarrow> flt \<Rightarrow> rounding_mode \<Rightarrow> py_error + flt" where
  "x_price_to_precision X pair price r =
     price_to_precision (ex_ccxt X) price (get_precision_price X pair) (Some (ex_precision_mode_price X)) r"

definition price_get_one_pip :: "exchange \<Rightarrow> string \<Rightarrow> py_error + flt" where
  "price_get_one_pip X pair =
     (case x_market X pair of None \<Rightarrow> Inl KeyError
      | Some m \<Rightarrow>
          (case xm_price_precision m of None \<Rightarrow> Inl TypeError
           | Some p \<Rightarrow> Inr (if ex_precision_mode X = TICK_SIZE then p else 1 / 10 powi \<lfloor>p\<rfloor>)))"

section \<open>Limits of stakes and leverage\<close>

definition get_max_notional_from_tiers :: "exchange \<Rightarrow> string \<Rightarrow> flt \<Rightarrow> flt option" where
  "get_max_notional_from_tiers X pair leverage =
     (if ex_trading_mode X \<noteq> FUTURES then None
      else (case ex_leverage_tiers X pair of
              None \<Rightarrow> None
            | Some tiers \<Rightarrow>
                (case find (\<lambda>tier. leverage \<le> tt_max_leverage tier) (rev tiers) of
                   None \<Rightarrow> None | Some tier \<Rightarrow> tt_max_notional tier)))"

text \<open>The reserve that is added to the minimal stake for the stop: between 1 and 1.5.\<close>

definition stoploss_reserve :: "exchange \<Rightarrow> flt \<Rightarrow> flt" where
  "stoploss_reserve X stoploss =
     max (min (if \<bar>stoploss\<bar> \<noteq> 1 then (1 + ex_amount_reserve_percent X) / (1 - \<bar>stoploss\<bar>) else 3/2) (3/2)) 1"

text \<open>The limits that apply; for the maximum the cap of the leverage tier comes first.\<close>

definition stake_limits :: "exchange \<Rightarrow> string \<Rightarrow> xmarket \<Rightarrow> flt \<Rightarrow> flt \<Rightarrow> bool \<Rightarrow> flt \<Rightarrow> flt list" where
  "stake_limits X pair m price stoploss is_min leverage =
     (let limit = (\<lambda>r. if is_min then lr_min r else lr_max r);
          margin_reserve = (if is_min then 1 + ex_amount_reserve_percent X else 1);
          sl_reserve = (if is_min then stoploss_reserve X stoploss else 1);
          tiers = (if is_min then None else get_max_notional_from_tiers X pair leverage)
      in (if truthy tiers then [the tiers] else [])
         @ (case limit (xm_cost m) of None \<Rightarrow> [] | Some c \<Rightarrow> [x_contracts_to_amount X pair c * sl_reserve])
         @ (case limit (xm_amount m) of None \<Rightarrow> []
            | Some a \<Rightarrow> [x_contracts_to_amount X pair a * price * margin_reserve]))"

text \<open>\<^term>\<open>None\<close> is no limit: Python's \<open>None\<close> for the minimum and infinity for the maximum.\<close>

definition get_stake_amount_limit ::
    "exchange \<Rightarrow> string \<Rightarrow> flt \<Rightarrow> flt \<Rightarrow> bool \<Rightarrow> flt \<Rightarrow> py_error + flt option" where
  "get_stake_amount_limit X pair price stoploss is_min leverage =
     (case x_market X pair of
        None \<Rightarrow> Inl ValueError
      | Some m \<Rightarrow>
          (let limits = stake_limits X pair m price stoploss is_min leverage
           in if limits = [] then Inr None
              else Inr (Some ((if is_min then max_list limits else min_list_py limits)
                              / (if leverage = 0 then 1 else leverage)))))"

definition get_min_pair_stake_amount ::
    "exchange \<Rightarrow> string \<Rightarrow> flt \<Rightarrow> flt \<Rightarrow> flt \<Rightarrow> py_error + flt option" where
  "get_min_pair_stake_amount X pair price stoploss leverage =
     get_stake_amount_limit X pair price stoploss True leverage"

definition get_max_pair_stake_amount :: "exchange \<Rightarrow> string \<Rightarrow> flt \<Rightarrow> flt \<Rightarrow> py_error + flt option" where
  "get_max_pair_stake_amount X pair price leverage =
     get_stake_amount_limit X pair price 0 False leverage"

text \<open>
  The loop over the leverage tiers. It ends with the leverage of a tier, or after the last tier
  with the maximal stake of that tier (\<^term>\<open>None\<close> for infinity); an empty list of tiers leaves
  \<open>max_stake\<close> unassigned.
\<close>

fun max_leverage_loop :: "flt \<Rightarrow> flt option \<Rightarrow> flt option option \<Rightarrow> trading_tier list \<Rightarrow> py_error + flt" where
  "max_leverage_loop stake prior last_max [] =
     (case last_max of
        None \<Rightarrow> Inl UnboundLocalError
      | Some None \<Rightarrow> Inl OperationalException
      | Some (Some max_stake) \<Rightarrow> if stake > max_stake then Inl InvalidOrderException else Inl OperationalException)"
| "max_leverage_loop stake prior last_max (tier # tiers) =
     (let lev = tt_max_leverage tier;
          min_stake = lt_min_notional tier / or_val prior lev;
          max_stake = map_option (\<lambda>n. n / lev) (tt_max_notional tier);
          below_max = (case max_stake of None \<Rightarrow> True | Some m \<Rightarrow> stake \<le> m)
      in if min_stake \<le> stake \<and> below_max then Inr lev
         else if stake < min_stake \<and> below_max then Inr lev
         else max_leverage_loop stake (Some lev) (Some max_stake) tiers)"

definition get_max_leverage :: "exchange \<Rightarrow> string \<Rightarrow> flt option \<Rightarrow> py_error + flt" where
  "get_max_leverage X pair stake_amount =
     (case ex_trading_mode X of
        SPOT \<Rightarrow> Inr 1
      | FUTURES \<Rightarrow>
          (case stake_amount of
             None \<Rightarrow> Inl OperationalException
           | Some stake \<Rightarrow>
               (case ex_leverage_tiers X pair of
                  None \<Rightarrow> Inr 1
                | Some tiers \<Rightarrow>
                    if stake = 0 then (case tiers of [] \<Rightarrow> Inl IndexError | t # _ \<Rightarrow> Inr (tt_max_leverage t))
                    else max_leverage_loop stake None None tiers))
      | MARGIN \<Rightarrow>
          (case x_market X pair of None \<Rightarrow> Inl KeyError
           | Some m \<Rightarrow> Inr (case xm_leverage_max m of Some l \<Rightarrow> l | None \<Rightarrow> 1)))"

section \<open>Entry and exit rates\<close>

record pricing =
  pc_price_side :: string
  pc_use_order_book :: bool
  pc_order_book_top :: nat
  pc_price_last_balance :: flt

definition price_map :: "((string \<times> string \<times> string) \<times> string) list" where
  "price_map =
     [((''entry'', ''long'', ''same''), ''bid''), ((''entry'', ''long'', ''other''), ''ask''),
      ((''entry'', ''short'', ''same''), ''ask''), ((''entry'', ''short'', ''other''), ''bid''),
      ((''exit'', ''long'', ''same''), ''ask''), ((''exit'', ''long'', ''other''), ''bid''),
      ((''exit'', ''short'', ''same''), ''bid''), ((''exit'', ''short'', ''other''), ''ask'')]"

definition get_price_side :: "bool \<Rightarrow> bool \<Rightarrow> pricing \<Rightarrow> string" where
  "get_price_side is_entry is_short conf =
     (if pc_price_side conf \<in> {''same'', ''other''}
      then the (map_of price_map (if is_entry then ''entry'' else ''exit'',
                 if is_short then ''short'' else ''long'', pc_price_side conf))
      else pc_price_side conf)"

definition get_rate_from_ticker :: "bool \<Rightarrow> ticker \<Rightarrow> pricing \<Rightarrow> string \<Rightarrow> flt option" where
  "get_rate_from_ticker is_entry tk conf price_side =
     (let ticker_rate = (if price_side = ''bid'' then tk_bid tk else tk_ask tk)
      in if truthy (tk_last tk) \<and> truthy ticker_rate then
           (let rate = the ticker_rate; lst = the (tk_last tk); balance = pc_price_last_balance conf
            in if is_entry \<and> rate > lst then Some (rate + balance * (lst - rate))
               else if \<not> is_entry \<and> rate < lst then Some (rate - balance * (rate - lst))
               else ticker_rate)
         else ticker_rate)"

text \<open>\<open>order_book[side][depth - 1]\<close>: position 0 would be the last entry.\<close>

definition get_rate_from_ob :: "order_book \<Rightarrow> string \<Rightarrow> nat \<Rightarrow> py_error + flt" where
  "get_rate_from_ob ob price_side depth =
     (let obside = (if price_side = ''bid'' then ob_bids ob else ob_asks ob);
          i = (if depth = 0 then length obside - 1 else depth - 1)
      in if i < length obside then Inr (fst (obside ! i)) else Inl PricingError)"

text \<open>Both rates are cached per pair; an entry of a cache may expire between two calls.\<close>

record rate_caches =
  rc_entry :: "string \<Rightarrow> flt option"
  rc_exit :: "string \<Rightarrow> flt option"

definition cached_rate :: "bool \<Rightarrow> string \<Rightarrow> rate_caches \<Rightarrow> flt option" where
  "cached_rate is_entry pair rc = (if is_entry then rc_entry rc pair else rc_exit rc pair)"

definition cache_rate :: "bool \<Rightarrow> string \<Rightarrow> flt \<Rightarrow> rate_caches \<Rightarrow> rate_caches" where
  "cache_rate is_entry pair rate rc =
     (if is_entry then rc\<lparr>rc_entry := (rc_entry rc)(pair \<mapsto> rate)\<rparr>
      else rc\<lparr>rc_exit := (rc_exit rc)(pair \<mapsto> rate)\<rparr>)"

definition get_rate ::
    "exchange \<Rightarrow> (bool \<Rightarrow> pricing) \<Rightarrow> string \<Rightarrow> bool \<Rightarrow> bool \<Rightarrow> bool \<Rightarrow> order_book option \<Rightarrow> ticker option
       \<Rightarrow> rate_caches \<Rightarrow> py_error + (flt \<times> rate_caches)" where
  "get_rate X conf pair refresh is_entry is_short order_book ticker rc =
     (if \<not> refresh \<and> truthy (cached_rate is_entry pair rc)
      then Inr (the (cached_rate is_entry pair rc), rc)
      else
        (let price_side = get_price_side is_entry is_short (conf is_entry)
         in bindE
              (if pc_use_order_book (conf is_entry) then
                 bindE (case order_book of Some ob \<Rightarrow> Inr ob
                        | None \<Rightarrow> ex_order_book X pair (pc_order_book_top (conf is_entry)))
                   (\<lambda>ob. bindE (get_rate_from_ob ob price_side (pc_order_book_top (conf is_entry)))
                          (\<lambda>r. Inr (Some r)))
               else
                 bindE (case ticker of Some tk \<Rightarrow> Inr tk | None \<Rightarrow> ex_ticker X pair)
                   (\<lambda>tk. Inr (get_rate_from_ticker is_entry tk (conf is_entry) price_side)))
              (\<lambda>rate. case rate of None \<Rightarrow> Inl PricingError
                      | Some r \<Rightarrow> Inr (r, cache_rate is_entry pair r rc))))"

definition get_rates ::
    "exchange \<Rightarrow> (bool \<Rightarrow> pricing) \<Rightarrow> string \<Rightarrow> bool \<Rightarrow> bool \<Rightarrow> rate_caches
       \<Rightarrow> py_error + (flt \<times> flt \<times> rate_caches)" where
  "get_rates X conf pair refresh is_short rc =
     (let entry0 = (if refresh then None else rc_entry rc pair);
          exit0 = (if refresh then None else rc_exit rc pair)
      in bindE
           (if truthy entry0 then Inr (the entry0, None, None, rc)
            else if pc_use_order_book (conf True) then
              bindE (ex_order_book X pair (max (pc_order_book_top (conf True)) (pc_order_book_top (conf False))))
                (\<lambda>ob. bindE (get_rate X conf pair refresh True is_short (Some ob) None rc)
                   (\<lambda>(r, rc1). Inr (r, Some ob, None, rc1)))
            else
              bindE (ex_ticker X pair)
                (\<lambda>tk. bindE (get_rate X conf pair refresh True is_short None (Some tk) rc)
                   (\<lambda>(r, rc1). Inr (r, None, Some tk, rc1))))
           (\<lambda>(entry, ob, tk, rc1).
              if truthy exit0 then Inr (entry, the exit0, rc1)
              else bindE (get_rate X conf pair refresh False is_short ob tk rc1)
                     (\<lambda>(r, rc2). Inr (entry, r, rc2))))"

section \<open>Conversion rates and fees\<close>

definition starts_with :: "string \<Rightarrow> string \<Rightarrow> bool" where
  "starts_with p s \<longleftrightarrow> take (length p) s = p"

definition ends_with :: "string \<Rightarrow> string \<Rightarrow> bool" where
  "ends_with p s \<longleftrightarrow> starts_with (rev p) (rev s)"

definition get_valid_pair_combination :: "exchange \<Rightarrow> string \<Rightarrow> string \<Rightarrow> string list" where
  "get_valid_pair_combination X c1 c2 =
     filter (\<lambda>pair. case x_market X pair of None \<Rightarrow> False | Some m \<Rightarrow> xm_active m = Some True)
       [c1 @ ''/'' @ c2, c2 @ ''/'' @ c1, c1 @ ''/'' @ c2 @ '':'' @ c2, c2 @ ''/'' @ c1 @ '':'' @ c1]"

definition any_ticker :: "exchange \<Rightarrow> string \<Rightarrow> ticker option" where
  "any_ticker X pair =
     (case ex_tickers X None pair of
        Some tk \<Rightarrow> Some tk
      | None \<Rightarrow> ex_tickers X (Some (if ex_trading_mode X \<noteq> SPOT then SPOT else FUTURES)) pair)"

fun first_conversion :: "exchange \<Rightarrow> string \<Rightarrow> string list \<Rightarrow> flt option" where
  "first_conversion X currency [] = None"
| "first_conversion X currency (pair # pairs) =
     (case any_ticker X pair of
        None \<Rightarrow> first_conversion X currency pairs
      | Some tk \<Rightarrow>
          (let rate = safe_value_fallback (tk_last tk) (tk_ask tk) None
           in if truthy rate \<and> starts_with currency pair \<and> \<not> ends_with currency pair
              then Some (1 / the rate) else rate))"

text \<open>When no market combines the two currencies the \<open>ValueError\<close> is turned into \<open>None\<close>.\<close>

definition get_conversion_rate :: "exchange \<Rightarrow> string \<Rightarrow> string \<Rightarrow> flt option" where
  "get_conversion_rate X coin currency =
     (let coin' = (case ex_proxy_coin X coin of Some c \<Rightarrow> c | None \<Rightarrow> coin);
          currency' = (case ex_proxy_coin X currency of Some c \<Rightarrow> c | None \<Rightarrow> currency)
      in if coin' = currency' then Some 1
         else first_conversion X currency' (get_valid_pair_combination X coin' currency'))"

record fee_dict =
  fd_currency :: "string option"
  fd_cost :: "flt option"
  fd_rate :: "flt option"

definition order_has_fee :: "fee_dict option \<Rightarrow> bool" where
  "order_has_fee fee =
     (case fee of None \<Rightarrow> False | Some f \<Rightarrow> fd_currency f \<noteq> None \<and> fd_cost f \<noteq> None)"

definition calculate_fee_rate ::
    "exchange \<Rightarrow> fee_dict \<Rightarrow> string \<Rightarrow> flt option \<Rightarrow> flt \<Rightarrow> py_error + flt option" where
  "calculate_fee_rate X fee symbol cost amount =
     (case fd_rate fee of
        Some r \<Rightarrow> Inr (Some r)
      | None \<Rightarrow>
          (case fd_currency fee of
             None \<Rightarrow> Inr None
           | Some fee_curr \<Rightarrow>
               (case fd_cost fee of
                  None \<Rightarrow> Inl TypeError
                | Some fee_cost \<Rightarrow>
                    if fee_curr = get_pair_base_currency X symbol then
                      (if amount = 0 then Inl ZeroDivisionError else Inr (Some (py_round (fee_cost / amount) 8)))
                    else if fee_curr = get_pair_quote_currency X symbol then
                      Inr (if truthy cost then Some (py_round (fee_cost / the cost) 8) else None)
                    else if \<not> truthy cost then Inr None
                    else
                      (let rate = get_conversion_rate X fee_curr (ex_stake_currency X);
                           used = (if truthy rate then rate else ex_unknown_fee_rate X)
                       in Inr (if truthy used then Some (py_round (fee_cost * the used / the cost) 8) else None)))))"

definition extract_cost_curr_rate ::
    "exchange \<Rightarrow> fee_dict \<Rightarrow> string \<Rightarrow> flt option \<Rightarrow> flt \<Rightarrow> py_error + (flt \<times> string \<times> flt option)" where
  "extract_cost_curr_rate X fee symbol cost amount =
     (case (fd_cost fee, fd_currency fee) of
        (Some c, Some cur) \<Rightarrow>
          bindE (calculate_fee_rate X fee symbol cost amount) (\<lambda>r. Inr (c, cur, r))
      | _ \<Rightarrow> Inl TypeError)"

section \<open>Funding fees\<close>

text \<open>Candles of the mark price and of the funding rate; \<^term>\<open>None\<close> is a missing value (NaN).\<close>

record funding_row =
  fr_date :: datetime
  fr_open_mark :: "flt option"
  fr_open_fund :: "flt option"

type_synonym rate_candles = "(datetime \<times> flt option) list"

definition inner_merge :: "rate_candles \<Rightarrow> rate_candles \<Rightarrow> funding_row list" where
  "inner_merge mark funding =
     concat (List.map (\<lambda>(d, m). List.map (\<lambda>(_, f). \<lparr>fr_date = d, fr_open_mark = m, fr_open_fund = f\<rparr>)
                                (filter (\<lambda>(d', _). d' = d) funding)) mark)"

definition left_merge :: "rate_candles \<Rightarrow> rate_candles \<Rightarrow> funding_row list" where
  "left_merge mark funding =
     concat (List.map (\<lambda>(d, m).
        (case filter (\<lambda>(d', _). d' = d) funding of
           [] \<Rightarrow> [\<lparr>fr_date = d, fr_open_mark = m, fr_open_fund = None\<rparr>]
         | fs \<Rightarrow> List.map (\<lambda>(_, f). \<lparr>fr_date = d, fr_open_mark = m, fr_open_fund = f\<rparr>) fs)) mark)"

definition fill_leading :: "flt \<Rightarrow> funding_row list \<Rightarrow> funding_row list" where
  "fill_leading v rows =
     List.map (\<lambda>r. r\<lparr>fr_open_fund := Some v\<rparr>) (takeWhile (\<lambda>r. fr_open_fund r = None) rows)
     @ dropWhile (\<lambda>r. fr_open_fund r = None) rows"

definition combine_funding_and_mark ::
    "rate_candles \<Rightarrow> rate_candles \<Rightarrow> flt option \<Rightarrow> funding_row list" where
  "combine_funding_and_mark funding mark futures_funding_rate =
     (case futures_funding_rate of
        None \<Rightarrow> inner_merge mark funding
      | Some v \<Rightarrow>
          if funding = []
          then List.map (\<lambda>(d, m). \<lparr>fr_date = d, fr_open_mark = m, fr_open_fund = Some v\<rparr>) mark
          else filter (\<lambda>r. fr_open_mark r \<noteq> None \<and> fr_open_fund r \<noteq> None)
                 (fill_leading v (left_merge mark funding)))"

text \<open>
  \<open>unit_us\<close> is the resolution of the date column in microseconds. The dates are sorted, so
  \<open>searchsorted\<close> counts the dates before (or up to) the bound. A sum with a NaN counts as no fee.
\<close>

definition calculate_funding_fees ::
    "int \<Rightarrow> funding_row list \<Rightarrow> flt \<Rightarrow> bool \<Rightarrow> datetime \<Rightarrow> datetime \<Rightarrow> flt" where
  "calculate_funding_fees unit_us df amount is_short open_date close_date =
     (let lo = - ((- open_date) div unit_us) * unit_us;
          hi = close_date div unit_us * unit_us;
          a = length (takeWhile (\<lambda>r. fr_date r < lo) df);
          b = length (takeWhile (\<lambda>r. fr_date r \<le> hi) df);
          df1 = drop a (take b df);
          fees = (if \<exists>r \<in> set df1. fr_open_fund r = None \<or> fr_open_mark r = None then 0
                  else sum_list (List.map (\<lambda>r. the (fr_open_fund r) * the (fr_open_mark r) * amount) df1))
      in if is_short then fees else - fees)"

definition funding_fee_cutoff :: "datetime \<Rightarrow> bool" where
  "funding_fee_cutoff open_date \<longleftrightarrow> open_date mod 3600000000 < 1000000"

text \<open>\<open>mark\<close> and \<open>funding\<close> are the two candle histories, \<^term>\<open>None\<close> when the exchange sent none.\<close>

definition fetch_and_calculate_funding_fees ::
    "ccxt \<Rightarrow> int \<Rightarrow> (datetime \<Rightarrow> rate_candles option) \<Rightarrow> (datetime \<Rightarrow> rate_candles option) \<Rightarrow> string
       \<Rightarrow> datetime \<Rightarrow> flt \<Rightarrow> bool \<Rightarrow> datetime \<Rightarrow> datetime option \<Rightarrow> py_error + flt" where
  "fetch_and_calculate_funding_fees C unit_us mark funding mark_timeframe now amount is_short open_date close_date =
     (let open1 = (if funding_fee_cutoff open_date then timeframe_to_prev_date C ''1h'' open_date else open_date);
          close1 = (case close_date of None \<Rightarrow> now | Some d \<Rightarrow> d);
          since = timeframe_to_prev_date C mark_timeframe open1
      in case (funding since, mark since) of
           (Some fr, Some mr) \<Rightarrow>
             Inr (calculate_funding_fees unit_us (combine_funding_and_mark fr mr None) amount is_short open1 close1)
         | _ \<Rightarrow> Inl ExchangeError)"

section \<open>Stops on the exchange\<close>

definition stoploss_adjust :: "bool \<Rightarrow> flt \<Rightarrow> flt option \<Rightarrow> string \<Rightarrow> py_error + bool" where
  "stoploss_adjust on_exchange stop_loss order_stop side =
     (if \<not> on_exchange then Inl OperationalException
      else Inr (case order_stop of None \<Rightarrow> True
                | Some p \<Rightarrow> (side = ''sell'' \<and> stop_loss > p) \<or> (side = ''buy'' \<and> stop_loss < p)))"

definition get_stop_limit_rate :: "flt \<Rightarrow> flt option \<Rightarrow> string \<Rightarrow> py_error + flt" where
  "get_stop_limit_rate stop_price limit_ratio side =
     (let pct = (case limit_ratio of Some r \<Rightarrow> r | None \<Rightarrow> 99/100);
          limit_rate = (if side = ''sell'' then stop_price * pct else stop_price * (2 - pct));
          bad = (if side = ''sell'' then stop_price < limit_rate else stop_price > limit_rate)
      in if bad then Inl InvalidOrderException else Inr limit_rate)"

text \<open>The order types for stops the exchange knows, a dict in its order.\<close>

definition get_stop_order_type :: "(string \<times> string) list \<Rightarrow> string \<Rightarrow> string \<times> string" where
  "get_stop_order_type available user_order_type =
     (case map_of available user_order_type of
        Some ordertype \<Rightarrow> (ordertype, user_order_type)
      | None \<Rightarrow> (snd (hd available), fst (hd available)))"

text \<open>
  The depth of an order book the exchange accepts: \<open>get_next_limit_in_list\<close> picks it from the list of depths.
\<close>

definition get_next_limit_in_list :: "int \<Rightarrow> int list \<Rightarrow> bool \<Rightarrow> int option \<Rightarrow> int option" where
  "get_next_limit_in_list wanted limit_range range_required upper_limit =
     (if limit_range = [] then
        Some (case upper_limit of Some u \<Rightarrow> if u \<noteq> 0 then min wanted u else wanted | None \<Rightarrow> wanted)
      else
        (let result = min_list_py (filter (\<lambda>x. wanted \<le> x) limit_range @ [max_list limit_range])
         in if \<not> range_required \<and> wanted > result then None else Some result))"

section \<open>Properties of the limits\<close>

lemma max_list_bound: "xs \<noteq> [] \<Longrightarrow> max_list xs \<le> (b :: flt) \<longleftrightarrow> (\<forall>x \<in> set xs. x \<le> b)"
  using max_list_ge max_list_in by (blast intro: order_trans)

lemma min_list_bound: "xs \<noteq> [] \<Longrightarrow> (b :: flt) \<le> min_list_py xs \<longleftrightarrow> (\<forall>x \<in> set xs. b \<le> x)"
  using min_list_py_le min_list_py_in by (blast intro: order_trans)

lemma stoploss_reserve_ge: "1 \<le> stoploss_reserve X stoploss"
  by (simp add: stoploss_reserve_def)

text \<open>A stake respects a limit when it is on the right side of it, or there is none.\<close>

definition at_least :: "flt option \<Rightarrow> flt \<Rightarrow> bool" where
  "at_least l x \<longleftrightarrow> (case l of None \<Rightarrow> True | Some m \<Rightarrow> m \<le> x)"

definition at_most :: "flt option \<Rightarrow> flt \<Rightarrow> bool" where
  "at_most l x \<longleftrightarrow> (case l of None \<Rightarrow> True | Some m \<Rightarrow> x \<le> m)"

lemma min_stake_limits:
  assumes "get_min_pair_stake_amount X pair price sl lev = Inr mn" and "x_market X pair = Some m"
    and "at_least mn stake" and "0 < lev"
  shows "\<forall>l \<in> set (stake_limits X pair m price sl True lev). l \<le> stake * lev"
  using assms max_list_bound [of "stake_limits X pair m price sl True lev" "stake * lev"]
  by (auto simp: get_min_pair_stake_amount_def get_stake_amount_limit_def Let_def at_least_def
      pos_divide_le_eq split: if_splits)

lemma max_stake_limits:
  assumes "get_max_pair_stake_amount X pair price lev = Inr mx" and "x_market X pair = Some m"
    and "at_most mx stake" and "0 < lev"
  shows "\<forall>l \<in> set (stake_limits X pair m price 0 False lev). stake * lev \<le> l"
  using assms min_list_bound [of "stake_limits X pair m price 0 False lev" "stake * lev"]
  by (auto simp: get_max_pair_stake_amount_def get_stake_amount_limit_def Let_def at_most_def
      pos_le_divide_eq split: if_splits)

lemma le_mult_ge_1: "0 \<le> a \<Longrightarrow> 1 \<le> r \<Longrightarrow> a * r \<le> b \<Longrightarrow> a \<le> (b :: flt)"
  using mult_left_mono [of 1 r a] by simp

text \<open>A stake between the limits makes an order the exchange accepts. When it is at
  least the minimal and at most the maximal stake, its value with leverage respects the cost limits
  of the market and the cap of the leverage tier, and its amount the amount limits.\<close>

theorem stake_limits_sound:
  assumes "get_min_pair_stake_amount X pair price sl lev = Inr mn" and "at_least mn stake"
    and "get_max_pair_stake_amount X pair price lev = Inr mx" and "at_most mx stake"
    and "x_market X pair = Some m" and "0 < lev" and "0 < price" and "0 \<le> ex_amount_reserve_percent X"
    and "\<And>a. lr_min (xm_cost m) = Some a \<Longrightarrow> 0 \<le> x_contracts_to_amount X pair a"
    and "\<And>a. lr_min (xm_amount m) = Some a \<Longrightarrow> 0 \<le> x_contracts_to_amount X pair a"
  shows "at_least (map_option (x_contracts_to_amount X pair) (lr_min (xm_cost m))) (stake * lev)
    \<and> at_most (map_option (x_contracts_to_amount X pair) (lr_max (xm_cost m))) (stake * lev)
    \<and> at_least (map_option (x_contracts_to_amount X pair) (lr_min (xm_amount m))) (stake * lev / price)
    \<and> at_most (map_option (x_contracts_to_amount X pair) (lr_max (xm_amount m))) (stake * lev / price)
    \<and> (\<forall>n. get_max_notional_from_tiers X pair lev = Some n \<and> n \<noteq> 0 \<longrightarrow> stake * lev \<le> n)"
proof -
  note mins = min_stake_limits [OF assms(1,5,2,6)]
  note maxs = max_stake_limits [OF assms(3,5,4,6)]
  have "at_least (map_option (x_contracts_to_amount X pair) (lr_min (xm_cost m))) (stake * lev)"
  proof (cases "lr_min (xm_cost m)")
    case (Some c)
    with mins have "x_contracts_to_amount X pair c * stoploss_reserve X sl \<le> stake * lev"
      by (auto simp: stake_limits_def Let_def)
    from le_mult_ge_1 [OF assms(9) [OF Some] stoploss_reserve_ge this] Some show ?thesis
      by (simp add: at_least_def)
  qed (simp add: at_least_def)
  moreover have "at_least (map_option (x_contracts_to_amount X pair) (lr_min (xm_amount m))) (stake * lev / price)"
  proof (cases "lr_min (xm_amount m)")
    case (Some a)
    with mins have "x_contracts_to_amount X pair a * price * (1 + ex_amount_reserve_percent X) \<le> stake * lev"
      by (auto simp: stake_limits_def Let_def)
    moreover have "0 \<le> x_contracts_to_amount X pair a * price"
      using assms(7) assms(10) [OF Some] by simp
    ultimately have "x_contracts_to_amount X pair a * price \<le> stake * lev"
      using assms(8) by (meson le_mult_ge_1 le_add_same_cancel1)
    with Some assms(7) show ?thesis by (simp add: at_least_def pos_le_divide_eq)
  qed (simp add: at_least_def)
  moreover have "at_most (map_option (x_contracts_to_amount X pair) (lr_max (xm_cost m))) (stake * lev)"
    using maxs by (auto simp: stake_limits_def Let_def at_most_def split: option.splits)
  moreover have "at_most (map_option (x_contracts_to_amount X pair) (lr_max (xm_amount m))) (stake * lev / price)"
    using maxs assms(7) by (auto simp: stake_limits_def Let_def at_most_def pos_divide_le_eq split: option.splits)
  moreover have "stake * lev \<le> n" if "get_max_notional_from_tiers X pair lev = Some n" "n \<noteq> 0" for n
    using maxs that by (auto simp: stake_limits_def Let_def)
  ultimately show ?thesis by blast
qed

text \<open>The tier a leverage is taken from holds the stake at that leverage.\<close>

lemma max_leverage_loop_sound:
  assumes "max_leverage_loop stake prior last_max tiers = Inr lev" and "\<forall>t \<in> set tiers. 0 < tt_max_leverage t"
  shows "\<exists>t \<in> set tiers. lev = tt_max_leverage t \<and> at_most (tt_max_notional t) (stake * lev)"
  using assms
proof (induction stake prior last_max tiers rule: max_leverage_loop.induct)
  case (2 stake prior last_max tier tiers)
  have "at_most (tt_max_notional tier) (stake * tt_max_leverage tier)"
    if "case map_option (\<lambda>n. n / tt_max_leverage tier) (tt_max_notional tier) of None \<Rightarrow> True | Some m \<Rightarrow> stake \<le> m"
    using that "2.prems"(2) by (auto simp: at_most_def pos_le_divide_eq split: option.splits)
  then show ?case using 2 by (fastforce simp: Let_def split: if_splits)
qed (auto split: option.splits if_splits)

lemma max_leverage_loop_error:
  "max_leverage_loop stake prior last_max tiers = Inl e \<Longrightarrow> tiers \<noteq> [] \<Longrightarrow>
     e = InvalidOrderException \<and> (\<exists>n. tt_max_notional (last tiers) = Some n \<and> n / tt_max_leverage (last tiers) < stake)"
proof (induction stake prior last_max tiers rule: max_leverage_loop.induct)
  case (2 stake prior last_max tier tiers)
  have skip: "max_leverage_loop stake (Some (tt_max_leverage tier))
      (Some (map_option (\<lambda>n. n / tt_max_leverage tier) (tt_max_notional tier))) tiers = Inl e"
    and above: "\<exists>n. tt_max_notional tier = Some n \<and> n / tt_max_leverage tier < stake"
    using "2.prems"(1) by (auto simp: Let_def not_le split: if_splits option.splits)
  show ?case
  proof (cases "tiers = []")
    case True
    with skip above show ?thesis by auto
  next
    case False
    have "e = InvalidOrderException \<and> (\<exists>n. tt_max_notional (last tiers) = Some n \<and> n / tt_max_leverage (last tiers) < stake)"
      using "2.IH" [OF refl refl refl refl] "2.prems"(1) skip False by (auto simp: Let_def split: if_splits option.splits)
    with False show ?thesis by simp
  qed
qed simp

text \<open>The maximal leverage fits its tier. For a known futures pair and a stake other
  than 0, the leverage is the one of a tier whose cap the leveraged stake respects; the only
  failure is a stake that is too large for the last tier, and the error the code marks as never
  reached is not.\<close>

theorem leverage_fits_tier:
  assumes "ex_trading_mode X = FUTURES" and "ex_leverage_tiers X pair = Some tiers" and "tiers \<noteq> []"
    and "\<forall>t \<in> set tiers. 0 < tt_max_leverage t" and "stake \<noteq> 0"
  shows "case get_max_leverage X pair (Some stake) of
      Inr lev \<Rightarrow> (\<exists>t \<in> set tiers. lev = tt_max_leverage t \<and> at_most (tt_max_notional t) (stake * lev))
    | Inl e \<Rightarrow> e = InvalidOrderException
        \<and> (\<exists>n. tt_max_notional (last tiers) = Some n \<and> n < stake * tt_max_leverage (last tiers))"
proof (cases "max_leverage_loop stake None None tiers")
  case (Inl e)
  with max_leverage_loop_error [OF Inl assms(3)] assms show ?thesis
    by (auto simp: get_max_leverage_def pos_divide_less_eq)
next
  case (Inr lev)
  with max_leverage_loop_sound [OF Inr assms(4)] assms show ?thesis
    by (auto simp: get_max_leverage_def)
qed

section \<open>Funding fees of a window\<close>

lemma le_div_int: "0 < c \<Longrightarrow> a \<le> b div c \<longleftrightarrow> a * c \<le> (b::int)"
proof
  assume "0 < c" and "a \<le> b div c"
  then have "a * c \<le> b div c * c" by (simp add: mult_right_mono)
  also have "\<dots> \<le> b" using \<open>0 < c\<close> using pos_mod_sign [of c b] by (simp add: minus_mod_eq_div_mult [symmetric])
  finally show "a * c \<le> b" .
next
  assume c: "0 < c" and "a * c \<le> b"
  then have "a * c div c \<le> b div c" by (intro zdiv_mono1)
  with c show "a \<le> b div c" by simp
qed

lemma ceiling_le_multiple: "0 < u \<Longrightarrow> - ((- x) div u) * u \<le> k * u \<longleftrightarrow> x \<le> k * (u::int)"
proof -
  assume u: "0 < u"
  then have "- ((- x) div u) * u \<le> k * u \<longleftrightarrow> - ((- x) div u) \<le> k"
    using mult_le_cancel_right_pos [of u "- ((- x) div u)" k] by blast
  also have "\<dots> \<longleftrightarrow> - k \<le> (- x) div u" by auto
  also have "\<dots> \<longleftrightarrow> x \<le> k * u" using le_div_int [OF u, of "- k" "- x"] by simp
  finally show ?thesis .
qed

lemma le_floor_multiple: "0 < u \<Longrightarrow> k * u \<le> x div u * u \<longleftrightarrow> k * u \<le> (x::int)"
  using le_div_int [of u k x] by (simp add: mult_le_cancel_right)

lemma window_filter:
  "sorted (List.map f xs) \<Longrightarrow>
     drop (length (takeWhile (\<lambda>x. f x < lo) xs)) (take (length (takeWhile (\<lambda>x. f x \<le> hi) xs)) xs)
       = filter (\<lambda>x. lo \<le> f x \<and> f x \<le> (hi :: int)) xs"
proof (induction xs)
  case (Cons x xs)
  show ?case
  proof (cases "f x \<le> hi")
    case True
    show ?thesis
    proof (cases "f x < lo")
      case False
      have "takeWhile (\<lambda>x. f x \<le> hi) xs = filter (\<lambda>x. lo \<le> f x \<and> f x \<le> hi) xs"
        using Cons.prems False
      proof (induction xs)
        case (Cons y ys)
        then show ?case by (cases "f y \<le> hi") (auto intro!: filter_False [symmetric])
      qed simp
      with True False show ?thesis using takeWhile_eq_take [of "\<lambda>x. f x \<le> hi" xs] by simp
    qed (use True Cons in simp)
  next
    case False
    with Cons.prems have "filter (\<lambda>x. lo \<le> f x \<and> f x \<le> hi) xs = []" by (auto simp: filter_empty_conv)
    with False show ?thesis by simp
  qed
qed simp

text \<open>The funding fees of a trade are those of its life. For candles in the order of
  their dates, on the grid of the column's resolution, the fees are the sum of rate times mark
  price times amount over exactly the candles between the opening and the close, both included,
  paid by longs and received by shorts; a missing value among them makes the fees 0.\<close>

theorem funding_fees_window:
  fixes open_date close_date :: datetime
  assumes "sorted (List.map fr_date df)" and "0 < unit_us" and "\<And>r. r \<in> set df \<Longrightarrow> unit_us dvd fr_date r"
  defines "window \<equiv> filter (\<lambda>r. open_date \<le> fr_date r \<and> fr_date r \<le> close_date) df"
  shows "calculate_funding_fees unit_us df amount is_short open_date close_date =
    (if is_short then 1 else - 1) *
      (if list_all (\<lambda>r. fr_open_fund r \<noteq> None \<and> fr_open_mark r \<noteq> None) window
       then amount * sum_list (List.map (\<lambda>r. the (fr_open_fund r) * the (fr_open_mark r)) window) else 0)"
proof -
  define lo where "lo = - ((- open_date) div unit_us) * unit_us"
  define hi where "hi = close_date div unit_us * unit_us"
  have "lo \<le> fr_date r \<and> fr_date r \<le> hi \<longleftrightarrow> open_date \<le> fr_date r \<and> fr_date r \<le> close_date" if r: "r \<in> set df" for r
  proof -
    from assms(3) [OF r] obtain k where "fr_date r = k * unit_us" by (auto simp: dvd_def mult.commute)
    with ceiling_le_multiple [OF assms(2), of open_date k] le_floor_multiple [OF assms(2), of k close_date]
    show ?thesis by (simp add: lo_def hi_def)
  qed
  then have w: "filter (\<lambda>r. lo \<le> fr_date r \<and> fr_date r \<le> hi) df = window"
    unfolding window_def by (intro filter_cong) auto
  have "calculate_funding_fees unit_us df amount is_short open_date close_date =
      (let fees = (if \<exists>r \<in> set window. fr_open_fund r = None \<or> fr_open_mark r = None then 0
         else sum_list (List.map (\<lambda>r. the (fr_open_fund r) * the (fr_open_mark r) * amount) window))
       in if is_short then fees else - fees)"
    unfolding calculate_funding_fees_def Let_def lo_def [symmetric] hi_def [symmetric]
      window_filter [OF assms(1)] w by simp
  moreover have "sum_list (List.map (\<lambda>r. the (fr_open_fund r) * the (fr_open_mark r) * amount) window)
      = amount * sum_list (List.map (\<lambda>r. the (fr_open_fund r) * the (fr_open_mark r)) window)"
    by (simp add: sum_list_const_mult [symmetric] mult.commute)
  ultimately show ?thesis by (auto simp: list_all_iff Let_def)
qed

definition example_funding :: "funding_row list" where
  "example_funding = [
     \<lparr>fr_date = 0, fr_open_mark = Some 100, fr_open_fund = Some (1/1000)\<rparr>,
     \<lparr>fr_date = 28800000, fr_open_mark = Some 110, fr_open_fund = Some (2/1000)\<rparr>,
     \<lparr>fr_date = 57600000, fr_open_mark = Some 120, fr_open_fund = Some (- 1/1000)\<rparr>]"

theorem funding_fees_window_witness:
  "calculate_funding_fees 1000 example_funding 2 False 5 57600001 = - (1/5)"
  by (subst funding_fees_window) (auto simp: example_funding_def simp del: not_None_eq)

section \<open>Rates\<close>

text \<open>The table of price sides: entering a long and leaving a short buy.\<close>

lemma get_price_side_eq:
  "get_price_side is_entry is_short conf =
     (if pc_price_side conf \<in> {''same'', ''other''}
      then (if (is_entry \<noteq> is_short) = (pc_price_side conf = ''same'') then ''bid'' else ''ask'')
      else pc_price_side conf)"
  by (auto simp: get_price_side_def price_map_def)

lemma interpolation_between:
  assumes "0 \<le> b" "b \<le> (1 :: flt)"
  shows "y \<le> x \<Longrightarrow> y \<le> x + b * (y - x) \<and> x + b * (y - x) \<le> x"
    and "x \<le> y \<Longrightarrow> x \<le> x - b * (x - y) \<and> x - b * (x - y) \<le> y"
proof -
  show "y \<le> x \<Longrightarrow> y \<le> x + b * (y - x) \<and> x + b * (y - x) \<le> x"
    using mult_right_mono_neg [of b 1 "y - x"] mult_nonneg_nonpos [of b "y - x"] assms by auto
  show "x \<le> y \<Longrightarrow> x \<le> x - b * (x - y) \<and> x - b * (x - y) \<le> y"
    using mult_right_mono_neg [of b 1 "x - y"] mult_nonneg_nonpos [of b "x - y"] assms by auto
qed

text \<open>A rate from the ticker is never worse than the price of its side. With a balance
  between 0 and 1 an entry pays at most the quoted price and an exit gets at least it, and the rate
  lies between that price and the last one.\<close>

theorem ticker_rate_between:
  assumes "get_rate_from_ticker is_entry tk conf side = Some r"
    and "(if side = ''bid'' then tk_bid tk else tk_ask tk) = Some quoted"
    and "0 \<le> pc_price_last_balance conf" and "pc_price_last_balance conf \<le> 1"
  shows "(if is_entry then r \<le> quoted else quoted \<le> r)
    \<and> (case tk_last tk of None \<Rightarrow> r = quoted
       | Some lst \<Rightarrow> min quoted lst \<le> r \<and> r \<le> max quoted lst)"
  using assms interpolation_between [OF assms(3,4)]
  by (auto simp: get_rate_from_ticker_def Let_def split: option.splits if_splits)

theorem ticker_rate_between_witness:
  "\<exists>r. get_rate_from_ticker True \<lparr>tk_ask = Some 102, tk_bid = Some 101, tk_last = Some 100\<rparr>
      \<lparr>pc_price_side = ''ask'', pc_use_order_book = False, pc_order_book_top = 1, pc_price_last_balance = 1/2\<rparr>
      ''ask'' = Some r \<and> r \<le> 102 \<and> 100 \<le> r"
proof -
  let ?tk = "\<lparr>tk_ask = Some 102, tk_bid = Some 101, tk_last = Some 100\<rparr>"
  let ?conf = "\<lparr>pc_price_side = ''ask'', pc_use_order_book = False, pc_order_book_top = 1, pc_price_last_balance = 1/2\<rparr>"
  obtain r where r: "get_rate_from_ticker True ?tk ?conf ''ask'' = Some r" by (simp add: get_rate_from_ticker_def)
  from ticker_rate_between [OF r, of 102] r show ?thesis by auto
qed

text \<open>A stop limit order is placed on the far side of the stop, or not at all.\<close>

lemma stop_limit_rate_side:
  "get_stop_limit_rate stop ratio side = Inr r \<Longrightarrow> (if side = ''sell'' then r \<le> stop else stop \<le> r)"
  by (auto simp: get_stop_limit_rate_def Let_def split: if_splits)

section \<open>Examples\<close>

definition example_futures_market :: xmarket where
  "example_futures_market = \<lparr>xm_base = Some ''ETH'', xm_quote = Some ''USDT'', xm_type = Some ''swap'',
     xm_flags = (\<lambda>f. f \<in> {''swap'', ''linear''}), xm_active = Some True,
     xm_price_precision = Some (1/100), xm_amount_precision = Some (1/1000), xm_contract_size = Some 1,
     xm_cost = \<lparr>lr_min = Some 5, lr_max = None\<rparr>, xm_amount = \<lparr>lr_min = Some (1/100), lr_max = Some 1000\<rparr>,
     xm_leverage_max = None\<rparr>"

definition example_x :: exchange where
  "example_x = \<lparr>ex_ccxt = ccxt_example, ex_trading_mode = FUTURES, ex_precision_mode = TICK_SIZE,
     ex_precision_mode_price = TICK_SIZE, ex_futures_name = ''swap'',
     ex_markets = [(''ETH/USDT:USDT'', example_futures_market)],
     ex_leverage_tiers = [''ETH/USDT:USDT'' \<mapsto>
       [\<lparr>lt_min_notional = 0, lt_maintenance_margin_rate = 1/100, lt_maint_amt = Some 0,
         tt_max_notional = Some 1000, tt_max_leverage = 20\<rparr>,
        \<lparr>lt_min_notional = 1000, lt_maintenance_margin_rate = 2/100, lt_maint_amt = None,
         tt_max_notional = Some 5000, tt_max_leverage = 10\<rparr>]],
     ex_amount_reserve_percent = 5/100, ex_stake_currency = ''USDT'', ex_unknown_fee_rate = None,
     ex_proxy_coin = (\<lambda>_. None), ex_fee = (\<lambda>_ _. 1/1000), ex_has_order_book = True,
     ex_order_book = (\<lambda>_ _. Inr \<lparr>ob_asks = [(100, 1), (101, 2)], ob_bids = [(99, 1), (98, 5)]\<rparr>),
     ex_ticker = (\<lambda>_. Inl ExchangeError), ex_tickers = (\<lambda>_ _. None)\<rparr>"

lemma example_x_market: "x_market example_x ''ETH/USDT:USDT'' = Some example_futures_market"
  by (simp add: x_market_def example_x_def)

theorem stake_limits_sound_witness:
  "\<exists>mn mx. get_min_pair_stake_amount example_x ''ETH/USDT:USDT'' 100 (- 5/100) 2 = Inr mn
     \<and> get_max_pair_stake_amount example_x ''ETH/USDT:USDT'' 100 2 = Inr mx \<and> at_least mn 50 \<and> at_most mx 50
     \<and> at_least (Some 5) (50 * 2) \<and> at_most (Some 1000) (50 * 2 / 100)"
proof -
  have cs: "x_contracts_to_amount example_x ''ETH/USDT:USDT'' n = n" for n
    by (simp add: x_contracts_to_amount_def contracts_to_amount_def get_contract_size_def example_x_market)
      (simp add: example_futures_market_def)
  have tier: "get_max_notional_from_tiers example_x ''ETH/USDT:USDT'' 2 = Some 5000"
    by (simp add: get_max_notional_from_tiers_def example_x_def)
  have reserve: "ex_amount_reserve_percent example_x = 5/100" by (simp add: example_x_def)
  obtain mn where mn: "get_min_pair_stake_amount example_x ''ETH/USDT:USDT'' 100 (- 5/100) 2 = Inr mn" "at_least mn 50"
    by (simp add: get_min_pair_stake_amount_def get_stake_amount_limit_def example_x_market stake_limits_def cs
        stoploss_reserve_def reserve) (simp add: example_futures_market_def max_list_def at_least_def cs)
  obtain mx where mx: "get_max_pair_stake_amount example_x ''ETH/USDT:USDT'' 100 2 = Inr mx" "at_most mx 50"
    by (simp add: get_max_pair_stake_amount_def get_stake_amount_limit_def example_x_market stake_limits_def cs tier)
      (simp add: example_futures_market_def min_list_py_def at_most_def cs)
  have "at_least (Some 5) (50 * 2) \<and> at_most (Some 1000) (50 * 2 / 100)"
    using stake_limits_sound [OF mn mx example_x_market]
    by (simp add: cs reserve) (simp add: example_futures_market_def cs)
  with mn mx show ?thesis by blast
qed

theorem leverage_fits_tier_witness:
  "\<exists>lev. get_max_leverage example_x ''ETH/USDT:USDT'' (Some 60) = Inr lev \<and> 60 * lev \<le> 5000"
proof -
  have tiers: "ex_leverage_tiers example_x ''ETH/USDT:USDT'' = Some
       [\<lparr>lt_min_notional = 0, lt_maintenance_margin_rate = 1/100, lt_maint_amt = Some 0,
         tt_max_notional = Some 1000, tt_max_leverage = 20\<rparr>,
        \<lparr>lt_min_notional = 1000, lt_maintenance_margin_rate = 2/100, lt_maint_amt = None,
         tt_max_notional = Some 5000, tt_max_leverage = 10\<rparr>]"
    and mode: "ex_trading_mode example_x = FUTURES"
    by (simp_all add: example_x_def)
  have "get_max_leverage example_x ''ETH/USDT:USDT'' (Some 60) = Inr 10"
    by (simp add: get_max_leverage_def tiers mode)
  with leverage_fits_tier [OF mode tiers, of 60] show ?thesis by (auto simp: at_most_def)
qed

end
