(* ===== verification/Exchange_Orders.thy ===== *)
theory Exchange_Orders
  imports Exchange_Markets
begin

text \<open>
  The simulated orders of a dry run (exchange/exchange.py): how an order is created, when a limit or
  stop order counts as filled, at which price a market order fills, and the retries around every
  call of the exchange (exchange/common.py). The order book is what ccxt answers at the moment of
  the call; an order is an object of the dictionary of open orders, so its changes are stored.
\<close>

section \<open>Orders\<close>

record order_fee =
  of_currency :: string
  of_cost :: flt
  of_rate :: flt

record dry_order =
  do_id :: string
  do_symbol :: string
  do_price :: flt
  do_average :: flt
  do_amount :: flt
  do_cost :: flt
  do_type :: string
  do_side :: string
  do_filled :: flt
  do_remaining :: flt
  do_timestamp :: int
  do_status :: string
  do_fee :: "order_fee option"
  do_stop_price :: "flt option"
  do_is_stop :: bool \<comment> \<open>\<open>ft_order_type\<close> is \<open>stoploss\<close>\<close>

definition add_dry_order_fee :: "exchange \<Rightarrow> string \<Rightarrow> bool \<Rightarrow> dry_order \<Rightarrow> dry_order" where
  "add_dry_order_fee X pair taker ord =
     (let fee = ex_fee X pair taker
      in ord\<lparr>do_fee := Some \<lparr>of_currency = get_pair_quote_currency X pair, of_cost = do_cost ord * fee,
                             of_rate = fee\<rparr>\<rparr>)"

section \<open>Market orders\<close>

text \<open>
  The loop over the entries of one side of the order book: what is left to fill, the value so far
  and the price of the entry looked at last. What the book cannot fill is valued at its last price.
\<close>

fun fill_loop :: "(flt \<times> flt) list \<Rightarrow> flt \<Rightarrow> flt \<Rightarrow> flt \<Rightarrow> flt" where
  "fill_loop [] remaining_amount filled_value price = filled_value + remaining_amount * price"
| "fill_loop ((p, volume) # entries) remaining_amount filled_value price =
     (if remaining_amount > 0 then
        (if remaining_amount < volume then filled_value + remaining_amount * p
         else fill_loop entries (remaining_amount - volume) (filled_value + volume * p) p)
      else filled_value)"

definition book_for :: "exchange \<Rightarrow> string \<Rightarrow> nat \<Rightarrow> order_book option \<Rightarrow> py_error + order_book" where
  "book_for X pair depth ob = (case ob of Some b \<Rightarrow> Inr b | None \<Rightarrow> ex_order_book X pair depth)"

definition get_dry_market_fill_price ::
    "exchange \<Rightarrow> string \<Rightarrow> string \<Rightarrow> flt \<Rightarrow> flt \<Rightarrow> flt \<Rightarrow> order_book option \<Rightarrow> py_error + flt" where
  "get_dry_market_fill_price X pair side amount rate worst_rate ob =
     (if ex_has_order_book X then
        bindE (book_for X pair 20 ob) (\<lambda>b.
          if amount = 0 then Inl ZeroDivisionError
          else
            (let filled_value = fill_loop (if side = ''buy'' then ob_asks b else ob_bids b) amount 0 0;
                 forecast = max filled_value 0 / amount
             in x_price_to_precision X pair
                  (if side = ''buy'' then min forecast worst_rate else max forecast worst_rate) ROUND))
      else Inr rate)"

section \<open>Limit and stop orders\<close>

definition dry_is_price_crossed ::
    "exchange \<Rightarrow> string \<Rightarrow> string \<Rightarrow> flt \<Rightarrow> order_book option \<Rightarrow> flt \<Rightarrow> bool \<Rightarrow> py_error + bool" where
  "dry_is_price_crossed X pair side lmt ob offset is_stop =
     (if \<not> ex_has_order_book X then Inr (\<not> is_stop)
      else
        bindE (book_for X pair 1 ob) (\<lambda>b.
          Inr (if (side = ''buy'' \<and> \<not> is_stop) \<or> (side = ''sell'' \<and> is_stop)
               then (case ob_asks b of [] \<Rightarrow> False | (p, _) # _ \<Rightarrow> lmt * (1 - offset) \<ge> p)
               else (case ob_bids b of [] \<Rightarrow> False | (p, _) # _ \<Rightarrow> lmt * (1 + offset) \<le> p))))"

definition stop_branch :: "exchange \<Rightarrow> bool \<Rightarrow> order_book option \<Rightarrow> dry_order \<Rightarrow> py_error + dry_order" where
  "stop_branch X immediate ob ord =
     (let pair = do_symbol ord
      in bindE (if ob = None \<and> ex_has_order_book X then bindE (ex_order_book X pair 20) (\<lambda>b. Inr (Some b))
                else Inr ob) (\<lambda>book.
         let price = (case do_stop_price ord of Some p \<Rightarrow> p | None \<Rightarrow> do_price ord)
         in bindE (dry_is_price_crossed X pair (do_side ord) price book 0 True) (\<lambda>crossed.
              if crossed \<and> immediate then Inl InvalidOrderException
              else if crossed then
                bindE (get_dry_market_fill_price X pair (do_side ord) (do_amount ord) price (do_price ord) book)
                  (\<lambda>average. Inr (add_dry_order_fee X pair immediate
                     (ord\<lparr>do_status := ''closed'', do_filled := do_amount ord, do_remaining := 0,
                          do_average := average, do_cost := do_amount ord * average\<rparr>)))
              else Inr ord)))"

definition check_dry_limit_order_filled ::
    "exchange \<Rightarrow> bool \<Rightarrow> order_book option \<Rightarrow> dry_order \<Rightarrow> py_error + dry_order" where
  "check_dry_limit_order_filled X immediate ob ord =
     (if do_status ord \<noteq> ''closed'' \<and> do_is_stop ord then stop_branch X immediate ob ord
      else if do_status ord \<noteq> ''closed'' \<and> do_type ord = ''limit'' \<and> \<not> do_is_stop ord then
        bindE (dry_is_price_crossed X (do_symbol ord) (do_side ord) (do_price ord) ob 0 False) (\<lambda>crossed.
          if crossed
          then Inr (add_dry_order_fee X (do_symbol ord) immediate
                 (ord\<lparr>do_status := ''closed'', do_filled := do_amount ord, do_remaining := 0\<rparr>))
          else Inr ord)
      else Inr ord)"

section \<open>Creating, fetching and cancelling\<close>

text \<open>The dictionary of the simulated orders, by identifier.\<close>

type_synonym dry_orders = "string \<Rightarrow> dry_order option"

definition new_dry_order ::
    "exchange \<Rightarrow> string \<Rightarrow> int \<Rightarrow> string \<Rightarrow> string \<Rightarrow> string \<Rightarrow> flt \<Rightarrow> flt \<Rightarrow> bool \<Rightarrow> flt option \<Rightarrow> dry_order" where
  "new_dry_order X order_id now pair ordertype side amount rate stop_loss stop_price =
     (let a = x_contracts_to_amount X pair (x_amount_to_precision X pair (x_amount_to_contracts X pair amount))
      in \<lparr>do_id = order_id, do_symbol = pair, do_price = rate, do_average = rate, do_amount = a,
          do_cost = a * rate, do_type = ordertype, do_side = side, do_filled = 0, do_remaining = a,
          do_timestamp = now, do_status = ''open'', do_fee = None,
          do_stop_price = (if stop_loss then Some (or_val stop_price rate) else None),
          do_is_stop = stop_loss\<rparr>)"

text \<open>A limit order that crosses the spread by more than one percent becomes a market order.\<close>

definition convert_to_market :: "exchange \<Rightarrow> order_book option \<Rightarrow> dry_order \<Rightarrow> py_error + dry_order" where
  "convert_to_market X ob ord =
     (if \<not> do_is_stop ord \<and> do_type ord = ''limit'' \<and> ob \<noteq> None then
        bindE (dry_is_price_crossed X (do_symbol ord) (do_side ord) (do_price ord) ob (1/100) False)
          (\<lambda>crossed. Inr (if crossed then ord\<lparr>do_type := ''market''\<rparr> else ord))
      else Inr ord)"

definition fill_market :: "exchange \<Rightarrow> order_book option \<Rightarrow> flt \<Rightarrow> dry_order \<Rightarrow> py_error + dry_order" where
  "fill_market X ob amount ord =
     (if do_type ord = ''market'' \<and> \<not> do_is_stop ord then
        (let rate = do_price ord;
             worst_rate = rate * (if do_side ord = ''buy'' then 1 + 5/100 else 1 - 5/100)
         in bindE (get_dry_market_fill_price X (do_symbol ord) (do_side ord) amount rate worst_rate ob)
              (\<lambda>average. Inr (add_dry_order_fee X (do_symbol ord) True
                 (ord\<lparr>do_average := average, do_filled := do_amount ord, do_remaining := 0,
                      do_status := ''closed'', do_cost := do_amount ord * average\<rparr>))))
      else Inr ord)"

definition create_dry_run_order ::
    "exchange \<Rightarrow> string \<Rightarrow> int \<Rightarrow> string \<Rightarrow> string \<Rightarrow> string \<Rightarrow> flt \<Rightarrow> flt \<Rightarrow> bool \<Rightarrow> flt option
       \<Rightarrow> dry_orders \<Rightarrow> py_error + (dry_order \<times> dry_orders)" where
  "create_dry_run_order X order_id now pair ordertype side amount rate stop_loss stop_price orders =
     bindE (if ex_has_order_book X then bindE (ex_order_book X pair 20) (\<lambda>b. Inr (Some b)) else Inr None) (\<lambda>ob.
     bindE (convert_to_market X ob (new_dry_order X order_id now pair ordertype side amount rate stop_loss stop_price))
       (\<lambda>o1.
     bindE (fill_market X ob amount o1) (\<lambda>o2.
     bindE (check_dry_limit_order_filled X True ob o2) (\<lambda>o3. Inr (o3, orders(order_id \<mapsto> o3))))))"

definition create_order_dry ::
    "exchange \<Rightarrow> string \<Rightarrow> int \<Rightarrow> string \<Rightarrow> string \<Rightarrow> string \<Rightarrow> flt \<Rightarrow> flt
       \<Rightarrow> dry_orders \<Rightarrow> py_error + (dry_order \<times> dry_orders)" where
  "create_order_dry X order_id now pair ordertype side amount rate orders =
     bindE (x_price_to_precision X pair rate ROUND)
       (\<lambda>p. create_dry_run_order X order_id now pair ordertype side amount p False None orders)"

text \<open>Stops on the exchange; \<open>available\<close> are the types the exchange knows, none when it has no stops.\<close>

definition create_stoploss_dry ::
    "exchange \<Rightarrow> (string \<times> string) list \<Rightarrow> string option \<Rightarrow> flt option \<Rightarrow> string \<Rightarrow> int \<Rightarrow> string \<Rightarrow> flt \<Rightarrow> flt
       \<Rightarrow> string \<Rightarrow> dry_orders \<Rightarrow> py_error + (dry_order \<times> dry_orders)" where
  "create_stoploss_dry X available user_type limit_ratio order_id now pair amount stop_price side orders =
     (if available = [] then Inl OperationalException
      else
        (let (ordertype, user_order_type) =
               get_stop_order_type available (case user_type of Some u \<Rightarrow> u | None \<Rightarrow> ''market'');
             round_mode = (if side = ''buy'' then ROUND_DOWN else ROUND_UP)
         in bindE (x_price_to_precision X pair stop_price round_mode) (\<lambda>stop_norm.
            bindE (if user_order_type = ''limit''
                   then bindE (get_stop_limit_rate stop_price limit_ratio side)
                          (\<lambda>r. bindE (x_price_to_precision X pair r round_mode) (\<lambda>p. Inr (Some p)))
                   else Inr None) (\<lambda>limit_rate.
              create_dry_run_order X order_id now pair ordertype side amount (or_val limit_rate stop_norm) True
                (Some stop_norm) orders))))"

text \<open>\<open>persisted\<close> looks an order of an earlier run up in the database.\<close>

definition fetch_dry_run_order ::
    "exchange \<Rightarrow> (string \<Rightarrow> dry_order option) \<Rightarrow> string \<Rightarrow> dry_orders \<Rightarrow> py_error + (dry_order \<times> dry_orders)" where
  "fetch_dry_run_order X persisted order_id orders =
     (case (case orders order_id of Some ord \<Rightarrow> Some ord | None \<Rightarrow> persisted order_id) of
        None \<Rightarrow> Inl InvalidOrderException
      | Some ord \<Rightarrow> bindE (check_dry_limit_order_filled X False None ord)
                      (\<lambda>o1. Inr (o1, orders(order_id \<mapsto> o1))))"

text \<open>An order that cannot be found gives an empty answer.\<close>

definition cancel_order_dry ::
    "exchange \<Rightarrow> (string \<Rightarrow> dry_order option) \<Rightarrow> string \<Rightarrow> dry_orders
       \<Rightarrow> py_error + (dry_order option \<times> dry_orders)" where
  "cancel_order_dry X persisted order_id orders =
     (case fetch_dry_run_order X persisted order_id orders of
        Inl e \<Rightarrow> if e \<in> {InvalidOrderException, RetryableOrderError, InsufficientFundsError}
                 then Inr (None, orders) else Inl e
      | Inr (ord, orders1) \<Rightarrow>
          (let o1 = ord\<lparr>do_status := ''canceled'', do_filled := 0, do_remaining := do_amount ord\<rparr>
           in Inr (Some o1, orders1(order_id \<mapsto> o1))))"

definition check_order_canceled_empty :: "dry_order \<Rightarrow> bool" where
  "check_order_canceled_empty ord \<longleftrightarrow> do_status ord \<in> set NON_OPEN_EXCHANGE_STATES \<and> do_filled ord = 0"

section \<open>Retries\<close>

text \<open>
  A call decorated with \<open>@retrier\<close>: \<open>f n\<close> is the outcome of the \<open>n\<close>-th attempt. The result comes
  with the delays slept before the further attempts.
\<close>

definition calculate_backoff :: "int \<Rightarrow> int \<Rightarrow> int" where
  "calculate_backoff retrycount max_retries = (max_retries - retrycount)\<^sup>2 + 1"

definition is_temporary :: "py_error \<Rightarrow> bool" where
  "is_temporary e \<longleftrightarrow> e \<in> {TemporaryError, DDosProtection, RetryableOrderError}"

fun retrier :: "nat \<Rightarrow> nat \<Rightarrow> nat \<Rightarrow> (nat \<Rightarrow> py_error + 'a) \<Rightarrow> (py_error + 'a) \<times> int list" where
  "retrier retries 0 n f = (f n, [])"
| "retrier retries (Suc count) n f =
     (case f n of
        Inr x \<Rightarrow> (Inr x, [])
      | Inl e \<Rightarrow>
          if is_temporary e then
            (let (r, delays) = retrier retries count (Suc n) f
             in (r, (if e \<in> {DDosProtection, RetryableOrderError}
                     then [calculate_backoff (int count + 1) (int retries)] else []) @ delays))
          else (Inl e, []))"

section \<open>Market orders take the best of the book\<close>

lemma fill_loop_acc: "fill_loop book rem filled price = filled + fill_loop book rem 0 price"
proof (induction book arbitrary: rem filled price)
  case (Cons e book)
  obtain p v where e: "e = (p, v)" by fastforce
  have "fill_loop book (rem - v) (filled + v * p) p = (filled + v * p) + fill_loop book (rem - v) 0 p"
    and "fill_loop book (rem - v) (v * p) p = v * p + fill_loop book (rem - v) 0 p"
    by (rule Cons.IH)+
  then show ?case by (simp add: e)
qed simp

lemma fill_loop_Cons:
  "fill_loop ((p, v) # book) rem 0 price =
     (if rem > 0 then (if rem < v then rem * p else v * p + fill_loop book (rem - v) 0 p) else 0)"
  using fill_loop_acc [of book "rem - v" "v * p" p] by simp

declare fill_loop.simps(2) [simp del]

lemmas fill_loop_simps = fill_loop.simps(1) fill_loop_Cons

lemma fill_loop_neg: "fill_loop (List.map (apfst uminus) book) rem 0 (- price) = - fill_loop book rem 0 price"
  by (induction book arbitrary: rem price) (auto simp: fill_loop_simps algebra_simps)

text \<open>What the next units cost is at least the price of the first entry.\<close>

lemma fill_loop_0: "(\<And>p v. (p, v) \<in> set book \<Longrightarrow> 0 < v) \<Longrightarrow> fill_loop book 0 0 price = 0"
  by (cases book) (auto simp: fill_loop_simps)

lemma fill_loop_marginal:
  assumes "\<And>q v. (q, v) \<in> set book \<Longrightarrow> 0 < v \<and> p \<le> q" and "p \<le> price" and "0 \<le> a" and "0 \<le> d"
  shows "fill_loop book a 0 price + d * p \<le> fill_loop book (a + d) 0 price"
  using assms
proof (induction book arbitrary: a d price)
  case Nil
  then show ?case by (simp add: algebra_simps mult_left_mono)
next
  case (Cons e book)
  obtain q w where e: "e = (q, w)" by fastforce
  with Cons.prems(1) have w: "0 < w" and q: "p \<le> q" by auto
  have book: "\<And>q v. (q, v) \<in> set book \<Longrightarrow> 0 < v \<and> p \<le> q" using Cons.prems(1) by auto
  note IH = Cons.IH [OF book q]
  have zero: "fill_loop book 0 0 q = 0" using book by (intro fill_loop_0) auto
  consider "a + d = 0" | "0 < a + d" "a + d < w" | "0 < a + d" "a < w" "w \<le> a + d" | "w \<le> a"
    using Cons.prems(3,4) by linarith
  then show ?case
  proof cases
    case 1
    with Cons.prems(3,4) have "a = 0" "d = 0" by auto
    then show ?thesis by simp
  next
    case 2
    then show ?thesis using q Cons.prems(3,4)
      by (auto simp: e fill_loop_simps algebra_simps mult_left_mono)
  next
    case 3
    from IH [of 0 "a + d - w"] 3 zero have "(a + d - w) * p \<le> fill_loop book (a + d - w) 0 q" by simp
    moreover have "(w - a) * p \<le> (w - a) * q" using q 3 by (intro mult_left_mono) auto
    moreover have "fill_loop (e # book) a 0 price = a * q" using 3 w Cons.prems(3) by (auto simp: e fill_loop_simps)
    ultimately show ?thesis using 3 by (simp add: e fill_loop_simps algebra_simps)
  next
    case 4
    from IH [of "a - w" d] 4 Cons.prems(4) show ?thesis using w
      by (simp add: e fill_loop_simps algebra_simps)
  qed
qed

text \<open>A way to take an amount from the book: how much of each entry.\<close>

definition takes :: "(flt \<times> flt) list \<Rightarrow> flt list \<Rightarrow> flt \<Rightarrow> bool" where
  "takes book xs amount \<longleftrightarrow> list_all2 (\<lambda>(_, v) x. 0 \<le> x \<and> x \<le> v) book xs \<and> sum_list xs = amount"

definition value_of :: "(flt \<times> flt) list \<Rightarrow> flt list \<Rightarrow> flt" where
  "value_of book xs = sum_list (List.map2 (\<lambda>(p, _) x. p * x) book xs)"

lemma takes_nonneg: "takes book xs amount \<Longrightarrow> 0 \<le> amount"
proof (induction book arbitrary: xs amount)
  case (Cons e book)
  then obtain x ys where "xs = x # ys" "0 \<le> x" "takes book ys (amount - x)"
    by (auto simp: takes_def list_all2_Cons1 split: prod.splits)
  with Cons.IH show ?case by fastforce
qed (simp add: takes_def)

lemma fill_loop_cheapest:
  assumes "sorted (List.map fst book)" and "\<And>p v. (p, v) \<in> set book \<Longrightarrow> 0 < v" and "takes book xs amount"
  shows "fill_loop book amount 0 price \<le> value_of book xs"
  using assms
proof (induction book arbitrary: xs amount price)
  case Nil
  then show ?case by (auto simp: takes_def value_of_def)
next
  case (Cons e book)
  obtain p v where e: "e = (p, v)" by fastforce
  from Cons.prems(3) e obtain x ys where xs: "xs = x # ys" "0 \<le> x" "x \<le> v" and ys: "takes book ys (amount - x)"
    by (auto simp: takes_def list_all2_Cons1)
  have rest: "0 \<le> amount - x"
    using ys by (rule takes_nonneg)
  have v: "0 < v" and book: "\<And>q w. (q, w) \<in> set book \<Longrightarrow> 0 < w \<and> p \<le> q"
    using Cons.prems(1,2) e by force+
  have IH: "fill_loop book (amount - x) 0 p \<le> value_of book ys"
    using Cons.prems(1) book by (intro Cons.IH ys) auto
  have val: "value_of (e # book) xs = p * x + value_of book ys" by (simp add: value_of_def xs e)
  define m where "m = min v amount"
  have greedy: "fill_loop (e # book) amount 0 price = m * p + fill_loop book (amount - m) 0 p"
    using xs rest v fill_loop_0 [of book p] book by (auto simp: e fill_loop_simps m_def min_def)
  have "fill_loop book (amount - m) 0 p + (m - x) * p \<le> fill_loop book (amount - m + (m - x)) 0 p"
    using xs rest by (intro fill_loop_marginal book) (auto simp: m_def)
  with IH have "fill_loop book (amount - m) 0 p + (m - x) * p \<le> value_of book ys" by simp
  with greedy val show ?case by (simp add: algebra_simps)
qed

lemma fill_loop_taken:
  assumes "\<And>p v. (p, v) \<in> set book \<Longrightarrow> 0 < v" and "0 \<le> amount" and "amount \<le> sum_list (List.map snd book)"
  shows "\<exists>xs. takes book xs amount \<and> fill_loop book amount 0 price = value_of book xs"
  using assms
proof (induction book arbitrary: amount price)
  case Nil
  then show ?case by (auto simp: takes_def value_of_def)
next
  case (Cons e book)
  obtain p v where e: "e = (p, v)" by fastforce
  with Cons.prems(1) have v: "0 < v" by auto
  define m where "m = min v amount"
  have "\<exists>xs. takes book xs (amount - m) \<and> fill_loop book (amount - m) 0 p = value_of book xs"
  proof (rule Cons.IH)
    show "amount - m \<le> sum_list (List.map snd book)"
    proof (cases "v \<le> amount")
      case True
      with Cons.prems(3) show ?thesis by (simp add: e m_def)
    next
      case False
      moreover have "0 \<le> sum_list (List.map snd book)"
        using Cons.prems(1) by (intro sum_list_nonneg) (fastforce simp: less_imp_le)
      ultimately show ?thesis by (simp add: m_def)
    qed
  qed (use Cons.prems in \<open>auto simp: m_def\<close>)
  then obtain xs where xs: "takes book xs (amount - m)" "fill_loop book (amount - m) 0 p = value_of book xs" by blast
  have "fill_loop (e # book) amount 0 price = m * p + fill_loop book (amount - m) 0 p"
    using Cons.prems(1,2) v fill_loop_0 [of book p] by (auto simp: e fill_loop_simps m_def min_def)
  with xs v Cons.prems(2) show ?case
    by (intro exI [of _ "m # xs"]) (auto simp: takes_def value_of_def e m_def)
qed

text \<open>For the bids the same holds with the prices negated.\<close>

lemma takes_neg: "takes (List.map (apfst uminus) book) xs amount = takes book xs amount"
  by (simp add: takes_def list_all2_map1 split_beta')

lemma value_of_neg: "length book = length xs \<Longrightarrow> value_of (List.map (apfst uminus) book) xs = - value_of book xs"
  unfolding value_of_def by (induction book xs rule: list_induct2) auto

definition better :: "string \<Rightarrow> flt \<Rightarrow> flt \<Rightarrow> bool" where
  "better side a b \<longleftrightarrow> (if side = ''buy'' then a \<le> b else b \<le> a)"

definition book_side :: "string \<Rightarrow> order_book \<Rightarrow> (flt \<times> flt) list" where
  "book_side side b = (if side = ''buy'' then ob_asks b else ob_bids b)"

text \<open>The book as exchanges send it: the best price first, positive volumes and prices.\<close>

definition proper_book :: "string \<Rightarrow> order_book \<Rightarrow> bool" where
  "proper_book side b \<longleftrightarrow> (\<forall>(p, v) \<in> set (book_side side b). 0 \<le> p \<and> 0 < v)
     \<and> sorted_wrt (better side) (List.map fst (book_side side b))"

lemma fill_loop_best:
  assumes "proper_book side b" and "takes (book_side side b) xs amount"
  shows "better side (fill_loop (book_side side b) amount 0 0) (value_of (book_side side b) xs)"
proof (cases "side = ''buy''")
  case True
  have "sorted_wrt (\<le>) (List.map fst (book_side side b))"
    using assms(1) True by (auto simp: proper_book_def better_def elim: sorted_wrt_mono_rel [rotated])
  then show ?thesis
    using assms True fill_loop_cheapest [of "book_side side b"] by (fastforce simp: proper_book_def better_def)
next
  case False
  let ?neg = "List.map (apfst uminus) (book_side side b)"
  have "sorted_wrt (\<lambda>p q. q \<le> p) (List.map fst (book_side side b))"
    using assms(1) False by (auto simp: proper_book_def better_def elim: sorted_wrt_mono_rel [rotated])
  then have "sorted (List.map fst ?neg)" by (simp add: sorted_wrt_map)
  moreover have "0 < v" if "(p, v) \<in> set ?neg" for p v using that assms(1) by (auto simp: proper_book_def)
  moreover have "takes ?neg xs amount" using assms(2) by (simp add: takes_neg)
  ultimately have "fill_loop ?neg amount 0 (- 0) \<le> value_of ?neg xs" by (rule fill_loop_cheapest)
  then show ?thesis
    using assms(2) False fill_loop_neg [of "book_side side b" amount 0] value_of_neg [of "book_side side b" xs]
    by (auto simp: better_def takes_def dest: list_all2_lengthD)
qed

lemma value_of_nonneg: "proper_book side b \<Longrightarrow> takes (book_side side b) xs amount \<Longrightarrow> 0 \<le> value_of (book_side side b) xs"
proof -
  have "(\<forall>(p, v) \<in> set bk. (0 :: flt) \<le> p \<and> (0 :: flt) < v) \<Longrightarrow> list_all2 (\<lambda>(_, v) x. 0 \<le> x \<and> x \<le> v) bk xs \<Longrightarrow> 0 \<le> value_of bk xs"
    for bk by (induction bk arbitrary: xs) (fastforce simp: value_of_def list_all2_Cons1)+
  then show "proper_book side b \<Longrightarrow> takes (book_side side b) xs amount \<Longrightarrow> 0 \<le> value_of (book_side side b) xs"
    by (simp add: proper_book_def takes_def)
qed

text \<open>Property C30: a simulated market order takes the best of the order book. When the book can
  fill the amount, its price before rounding is the average of the best way to take the amount from
  the entries (no other way costs a buyer less or pays a seller more), limited by the worst rate.\<close>

theorem market_fill_takes_best:
  assumes "ex_has_order_book X" and "proper_book side b" and "0 < amount"
    and "amount \<le> sum_list (List.map snd (book_side side b))"
  shows "\<exists>xs. takes (book_side side b) xs amount
    \<and> (\<forall>ys. takes (book_side side b) ys amount \<longrightarrow>
          better side (value_of (book_side side b) xs) (value_of (book_side side b) ys))
    \<and> get_dry_market_fill_price X pair side amount rate worst_rate (Some b) =
        x_price_to_precision X pair
          (if side = ''buy'' then min (value_of (book_side side b) xs / amount) worst_rate
           else max (value_of (book_side side b) xs / amount) worst_rate) ROUND"
proof -
  have pos: "\<And>p v. (p, v) \<in> set (book_side side b) \<Longrightarrow> 0 < v" using assms(2) by (auto simp: proper_book_def)
  have "\<exists>xs. takes (book_side side b) xs amount \<and> fill_loop (book_side side b) amount 0 0 = value_of (book_side side b) xs"
    by (rule fill_loop_taken [OF _ less_imp_le [OF assms(3)] assms(4)]) (rule pos)
  then obtain xs where
    xs: "takes (book_side side b) xs amount" "fill_loop (book_side side b) amount 0 0 = value_of (book_side side b) xs"
    by blast
  have "get_dry_market_fill_price X pair side amount rate worst_rate (Some b) =
        x_price_to_precision X pair
          (if side = ''buy'' then min (value_of (book_side side b) xs / amount) worst_rate
           else max (value_of (book_side side b) xs / amount) worst_rate) ROUND"
    using assms(1,3) xs(2) value_of_nonneg [OF assms(2) xs(1)]
    by (auto simp: get_dry_market_fill_price_def book_for_def book_side_def Let_def)
  with xs fill_loop_best [OF assms(2)] show ?thesis by metis
qed

definition example_book :: order_book where
  "example_book = \<lparr>ob_asks = [(100, 1), (101, 2)], ob_bids = [(99, 1), (98, 5)]\<rparr>"

theorem market_fill_takes_best_witness:
  "\<exists>c. get_dry_market_fill_price example_x ''ETH/USDT:USDT'' ''buy'' 2 100 105 (Some example_book)
     = x_price_to_precision example_x ''ETH/USDT:USDT'' (min (c / 2) 105) ROUND \<and> c \<le> 201"
proof -
  let ?asks = "book_side ''buy'' example_book"
  have "takes ?asks [1, 1] 2" "value_of ?asks [1, 1] = 201"
    by (simp_all add: takes_def value_of_def book_side_def example_book_def)
  moreover have "ex_has_order_book example_x" by (simp add: example_x_def)
  moreover have "proper_book ''buy'' example_book"
    by (simp add: proper_book_def book_side_def example_book_def better_def)
  moreover have "2 \<le> sum_list (List.map snd ?asks)" by (simp add: book_side_def example_book_def)
  ultimately show ?thesis
    using market_fill_takes_best [of example_x "''buy''" example_book 2 "''ETH/USDT:USDT''" 100 105]
    by (fastforce simp: better_def)
qed

text \<open>With an empty side of the book a buy is filled at price 0.\<close>

lemma empty_book_fills_free:
  assumes "ex_has_order_book X" and "ob_asks b = []" and "0 < amount" and "0 \<le> worst_rate"
  shows "get_dry_market_fill_price X pair ''buy'' amount rate worst_rate (Some b) = x_price_to_precision X pair 0 ROUND"
  using assms by (simp add: get_dry_market_fill_price_def book_for_def Let_def)

section \<open>The simulated orders stay consistent\<close>

text \<open>
  An order's cost is amount times average price, its parts make up the amount, a closed order is
  filled and carries the fee on its cost, and any other order counts as unfilled.
\<close>

definition dry_ok :: "dry_order \<Rightarrow> bool" where
  "dry_ok ord \<longleftrightarrow> do_cost ord = do_amount ord * do_average ord
     \<and> do_filled ord + do_remaining ord = do_amount ord
     \<and> (if do_status ord = ''closed''
        then do_filled ord = do_amount ord
          \<and> (\<exists>fee. do_fee ord = Some fee \<and> of_cost fee = do_cost ord * of_rate fee)
        else do_status ord \<in> {''open'', ''canceled''} \<and> do_filled ord = 0)"

lemma add_dry_order_fee_ok:
  "do_cost ord = do_amount ord * do_average ord \<Longrightarrow> do_filled ord = do_amount ord \<Longrightarrow> do_remaining ord = 0 \<Longrightarrow>
     do_status ord = ''closed'' \<Longrightarrow> dry_ok (add_dry_order_fee X pair taker ord)"
  by (simp add: dry_ok_def add_dry_order_fee_def Let_def)

lemma new_dry_order_ok [simp]:
  "dry_ok (new_dry_order X i now pair ty side amount rate sl sp)"
  "do_status (new_dry_order X i now pair ty side amount rate sl sp) = ''open''"
  by (simp_all add: dry_ok_def new_dry_order_def Let_def)

lemma stop_branch_ok: "stop_branch X imm ob ord = Inr o1 \<Longrightarrow> dry_ok ord \<Longrightarrow> dry_ok o1"
  by (auto simp: stop_branch_def Let_def bindE_eq_Inr split: if_splits intro!: add_dry_order_fee_ok)

lemma check_dry_ok: "check_dry_limit_order_filled X imm ob ord = Inr o1 \<Longrightarrow> dry_ok ord \<Longrightarrow> dry_ok o1"
proof -
  assume r: "check_dry_limit_order_filled X imm ob ord = Inr o1" and ok: "dry_ok ord"
  then have "dry_ok (add_dry_order_fee X (do_symbol ord) imm
      (ord\<lparr>do_status := ''closed'', do_filled := do_amount ord, do_remaining := 0\<rparr>))"
    by (intro add_dry_order_fee_ok) (simp_all add: dry_ok_def)
  with r ok show ?thesis
    by (auto simp: check_dry_limit_order_filled_def bindE_eq_Inr split: if_splits dest: stop_branch_ok)
qed

lemma convert_to_market_ok: "convert_to_market X ob ord = Inr o1 \<Longrightarrow> dry_ok ord \<Longrightarrow> dry_ok o1"
  by (auto simp: convert_to_market_def bindE_eq_Inr dry_ok_def split: if_splits)

lemma fill_market_ok: "fill_market X ob amount ord = Inr o1 \<Longrightarrow> dry_ok ord \<Longrightarrow> dry_ok o1"
  by (auto simp: fill_market_def Let_def bindE_eq_Inr split: if_splits intro!: add_dry_order_fee_ok)

definition orders_ok :: "dry_orders \<Rightarrow> bool" where
  "orders_ok orders \<longleftrightarrow> (\<forall>i ord. orders i = Some ord \<longrightarrow> dry_ok ord)"

lemma create_ok:
  assumes "create_dry_run_order X i now pair ty side amount rate sl sp orders = Inr (ord, orders')" and "orders_ok orders"
  shows "dry_ok ord \<and> orders_ok orders' \<and> orders' i = Some ord"
proof -
  from assms(1) obtain ob o1 o2 where
    "convert_to_market X ob (new_dry_order X i now pair ty side amount rate sl sp) = Inr o1"
    "fill_market X ob amount o1 = Inr o2" "check_dry_limit_order_filled X True ob o2 = Inr ord"
    and orders': "orders' = orders(i \<mapsto> ord)"
    by (auto simp: create_dry_run_order_def bindE_eq_Inr)
  then have "dry_ok ord" by (meson convert_to_market_ok fill_market_ok check_dry_ok new_dry_order_ok(1))
  with assms(2) orders' show ?thesis by (auto simp: orders_ok_def)
qed

lemma fetch_ok:
  assumes "fetch_dry_run_order X persisted i orders = Inr (ord, orders')" and "orders_ok orders" and "orders_ok persisted"
  shows "dry_ok ord \<and> orders_ok orders' \<and> orders' i = Some ord"
proof -
  from assms(1) obtain old where "orders i = Some old \<or> persisted i = Some old"
    and c: "check_dry_limit_order_filled X False None old = Inr ord" and o: "orders' = orders(i \<mapsto> ord)"
    by (auto simp: fetch_dry_run_order_def bindE_eq_Inr split: option.splits)
  with assms(2,3) have "dry_ok old" by (auto simp: orders_ok_def)
  with check_dry_ok [OF c] o assms(2) show ?thesis by (auto simp: orders_ok_def)
qed

lemma canceled_ok: "dry_ok ord \<Longrightarrow> dry_ok (ord\<lparr>do_status := ''canceled'', do_filled := 0, do_remaining := do_amount ord\<rparr>)"
  by (simp add: dry_ok_def)

lemma cancel_ok:
  assumes "cancel_order_dry X persisted i orders = Inr (r, orders')" and "orders_ok orders" and "orders_ok persisted"
  shows "orders_ok orders'"
proof (cases "fetch_dry_run_order X persisted i orders")
  case (Inr q)
  then obtain ord orders1 where f: "fetch_dry_run_order X persisted i orders = Inr (ord, orders1)" by (cases q) auto
  with fetch_ok [OF f assms(2,3)] assms(1) show ?thesis
    by (auto simp: cancel_order_dry_def Let_def orders_ok_def canceled_ok split: if_splits)
qed (use assms in \<open>auto simp: cancel_order_dry_def split: if_splits\<close>)

text \<open>What the bot does with simulated orders; a call that raises leaves them as they were.\<close>

datatype dry_op =
    Create_order string int string string string flt flt
  | Create_stop "(string \<times> string) list" "string option" "flt option" string int string flt flt string
  | Fetch_order string
  | Cancel_order string

fun dry_step :: "(string \<Rightarrow> dry_order option) \<Rightarrow> exchange \<times> dry_op \<Rightarrow> dry_orders \<Rightarrow> dry_orders" where
  "dry_step persisted (X, Create_order i now pair ty side amount rate) orders =
     (case create_order_dry X i now pair ty side amount rate orders of Inl _ \<Rightarrow> orders | Inr (_, os) \<Rightarrow> os)"
| "dry_step persisted (X, Create_stop av ut ratio i now pair amount stop side) orders =
     (case create_stoploss_dry X av ut ratio i now pair amount stop side orders of Inl _ \<Rightarrow> orders | Inr (_, os) \<Rightarrow> os)"
| "dry_step persisted (X, Fetch_order i) orders =
     (case fetch_dry_run_order X persisted i orders of Inl _ \<Rightarrow> orders | Inr (_, os) \<Rightarrow> os)"
| "dry_step persisted (X, Cancel_order i) orders =
     (case cancel_order_dry X persisted i orders of Inl _ \<Rightarrow> orders | Inr (_, os) \<Rightarrow> os)"

lemma create_order_ok: "create_order_dry X i now pair ty side amount rate orders = Inr (ord, orders') \<Longrightarrow>
    orders_ok orders \<Longrightarrow> orders_ok orders'"
  by (auto simp: create_order_dry_def bindE_eq_Inr dest: create_ok)

lemma create_stop_ok: "create_stoploss_dry X av ut ratio i now pair amount stop side orders = Inr (ord, orders') \<Longrightarrow>
    orders_ok orders \<Longrightarrow> orders_ok orders'"
  by (auto simp: create_stoploss_dry_def Let_def bindE_eq_Inr dest: create_ok split: if_splits prod.splits)

lemma dry_step_ok: "orders_ok persisted \<Longrightarrow> orders_ok orders \<Longrightarrow> orders_ok (dry_step persisted e orders)"
proof -
  assume ok: "orders_ok persisted" "orders_ok orders"
  obtain X oper where e: "e = (X, oper)" by fastforce
  show ?thesis
  proof (cases oper)
    case (Create_order i now pair ty side amount rate)
    with ok show ?thesis by (auto simp: e split: sum.split dest: create_order_ok)
  next
    case (Create_stop av ut ratio i now pair amount stop side)
    with ok show ?thesis by (auto simp: e split: sum.split dest: create_stop_ok)
  next
    case (Fetch_order i)
    with ok show ?thesis by (auto simp: e split: sum.split dest: fetch_ok)
  next
    case (Cancel_order i)
    with ok show ?thesis by (auto simp: e split: sum.split dest: cancel_ok)
  qed
qed

lemma dry_steps_ok: "orders_ok persisted \<Longrightarrow> orders_ok orders \<Longrightarrow> orders_ok (fold (dry_step persisted) es orders)"
  by (induction es arbitrary: orders) (auto simp: dry_step_ok)


definition example_orders :: dry_orders where
  "example_orders = fold (dry_step Map.empty)
     [(example_x, Create_order ''a'' 1 ''ETH/USDT:USDT'' ''limit'' ''buy'' 2 98),
      (example_x, Create_order ''b'' 2 ''ETH/USDT:USDT'' ''limit'' ''buy'' 2 100),
      (example_x, Cancel_order ''a'')] Map.empty"

lemma example_x_order: "x_contracts_to_amount example_x ''ETH/USDT:USDT''
     (x_amount_to_precision example_x ''ETH/USDT:USDT'' (x_amount_to_contracts example_x ''ETH/USDT:USDT'' 2)) = 2"
  by (simp add: x_contracts_to_amount_def x_amount_to_precision_def x_amount_to_contracts_def contracts_to_amount_def
      amount_to_contracts_def amount_to_precision_def get_contract_size_def get_precision_amount_def example_x_market)
    (simp add: example_x_def example_futures_market_def ccxt_example_def)

lemma example_x_price: "x_price_to_precision example_x ''ETH/USDT:USDT'' (of_int n) ROUND = Inr (of_int n)"
  using round_half_even_of_int [of "n * 100"]
  by (simp add: x_price_to_precision_def price_to_precision_def get_precision_price_def example_x_market)
    (simp add: example_x_def example_futures_market_def ccxt_example_def)

lemma example_x_book: "ex_has_order_book example_x"
  "ex_order_book example_x pair n = Inr \<lparr>ob_asks = [(100, 1), (101, 2)], ob_bids = [(99, 1), (98, 5)]\<rparr>"
  by (simp_all add: example_x_def)

lemmas example_order_simps = create_order_dry_def create_dry_run_order_def convert_to_market_def fill_market_def
  check_dry_limit_order_filled_def dry_is_price_crossed_def book_for_def add_dry_order_fee_def new_dry_order_def
  example_x_order example_x_price [of 98, simplified] example_x_price [of 100, simplified] example_x_book Let_def

lemma example_order_a: "\<exists>ord. example_orders ''a'' = Some ord \<and> do_status ord = ''canceled''
    \<and> do_type ord = ''limit'' \<and> \<not> do_is_stop ord \<and> do_side ord = ''buy'' \<and> do_price ord = 98 \<and> do_symbol ord = ''ETH/USDT:USDT''
    \<and> do_amount ord = 2"
  by (simp add: example_orders_def cancel_order_dry_def fetch_dry_run_order_def example_order_simps)

lemma example_order_b: "\<exists>ord. example_orders ''b'' = Some ord \<and> do_status ord = ''closed'' \<and> do_average ord = 100 \<and> do_amount ord = 2"
  by (simp add: example_orders_def cancel_order_dry_def fetch_dry_run_order_def example_order_simps)


text \<open>Property C39: a cancelled simulated order can still fill. The check whether a limit order has
  filled excludes only closed orders, so fetching a cancelled one when its price is crossed reports
  it closed and completely filled.\<close>

theorem cancelled_order_fills:
  assumes "orders i = Some ord" and "do_status ord = ''canceled''" and "do_type ord = ''limit''"
    and "\<not> do_is_stop ord" and "do_side ord = ''buy''" and "ex_has_order_book X"
    and "ex_order_book X (do_symbol ord) 1 = Inr b" and "ob_asks b = (p, v) # rest" and "p \<le> do_price ord"
  shows "\<exists>o1. fetch_dry_run_order X persisted i orders = Inr (o1, orders(i \<mapsto> o1))
    \<and> do_status o1 = ''closed'' \<and> do_filled o1 = do_amount ord"
  using assms
  by (simp add: fetch_dry_run_order_def check_dry_limit_order_filled_def dry_is_price_crossed_def book_for_def
      add_dry_order_fee_def Let_def)

theorem cancelled_order_fills_witness:
  "\<exists>o1 orders'. fetch_dry_run_order
       (example_x\<lparr>ex_order_book := (\<lambda>_ _. Inr \<lparr>ob_asks = [(97, 5)], ob_bids = [(96, 1)]\<rparr>)\<rparr>) Map.empty ''a'' example_orders
     = Inr (o1, orders') \<and> do_status o1 = ''closed'' \<and> do_filled o1 = 2"
proof -
  let ?X = "example_x\<lparr>ex_order_book := (\<lambda>_ _. Inr \<lparr>ob_asks = [(97, 5)], ob_bids = [(96, 1)]\<rparr>)\<rparr>"
  from example_order_a obtain ord where ord: "example_orders ''a'' = Some ord" "do_status ord = ''canceled''"
    "do_type ord = ''limit''" "\<not> do_is_stop ord" "do_side ord = ''buy''" "do_price ord = 98" "do_amount ord = 2" by blast
  then show ?thesis
    using cancelled_order_fills [of example_orders "''a''" ord ?X "\<lparr>ob_asks = [(97, 5)], ob_bids = [(96, 1)]\<rparr>" 97 5 "[]" Map.empty]
    by (auto simp: example_x_book)
qed

section \<open>Retries end\<close>

text \<open>A retried call ends with its first outcome that is not temporary. At most \<open>count\<close>
  further attempts follow the first; every attempt before the last failed with a temporary error, and
  the last either did not or was the final one; there are at most as many waits as failed attempts.\<close>

theorem retrier_outcome:
  "\<exists>k \<le> count. fst (retrier retries count n f) = f (n + k)
    \<and> list_all (\<lambda>i. \<exists>e. f (n + i) = Inl e \<and> is_temporary e) [0..<k]
    \<and> (k = count \<or> \<not> (\<exists>e. f (n + k) = Inl e \<and> is_temporary e))
    \<and> length (snd (retrier retries count n f)) \<le> k"
proof (induction count arbitrary: n)
  case (Suc count)
  show ?case
  proof (cases "\<exists>e. f n = Inl e \<and> is_temporary e")
    case True
    then obtain e where e: "f n = Inl e" "is_temporary e" by blast
    from Suc.IH [of "Suc n"] obtain k where k: "k \<le> count"
      "fst (retrier retries count (Suc n) f) = f (Suc n + k)" "list_all (\<lambda>i. \<exists>e. f (Suc n + i) = Inl e \<and> is_temporary e) [0..<k]"
      "k = count \<or> \<not> (\<exists>e. f (Suc n + k) = Inl e \<and> is_temporary e)"
      "length (snd (retrier retries count (Suc n) f)) \<le> k" by blast
    have "\<exists>e. f (n + i) = Inl e \<and> is_temporary e" if "i < Suc k" for i
      using that e k(3) by (cases i) (auto simp: list_all_iff)
    with e k show ?thesis
      by (intro exI [of _ "Suc k"]) (auto simp: Let_def list_all_iff split: prod.split)
  next
    case False
    then show ?thesis by (intro exI [of _ 0]) (auto split: sum.split)
  qed
qed simp

theorem retrier_outcome_witness:
  "\<exists>k :: nat. k \<le> 3 \<and> fst (retrier 3 3 0 (\<lambda>n. if n = 2 then Inr (7 :: nat) else Inl TemporaryError))
       = (if k = 2 then Inr 7 else Inl TemporaryError)
     \<and> (k = 3 \<or> k = 2)"
proof -
  let ?f = "\<lambda>n :: nat. if n = 2 then Inr (7 :: nat) else Inl TemporaryError"
  obtain k where k: "k \<le> 3" "fst (retrier 3 3 0 ?f) = ?f (0 + k)"
    "k = 3 \<or> \<not> (\<exists>e. ?f (0 + k) = Inl e \<and> is_temporary e)"
    using retrier_outcome [of 3 3 0 ?f] by blast
  from k(3) have "k = 3 \<or> k = 2" by (auto simp: is_temporary_def split: if_splits)
  with k(1,2) show ?thesis by (intro exI [of _ k]) simp
qed

end
