(* ===== verification/Bt_Orders.thy ===== *)
theory Bt_Orders
  imports Strategy_Exit Protection_Manager Exchange_Markets
begin

text \<open>
  Orders and trades in a backtest (optimize/backtesting.py): the rate at which a candle closes a
  trade, filling and processing orders, placing, replacing and cancelling them. The state holds
  what \<open>Backtesting\<close> and the classes it uses change: the trades and their container, the wallets,
  the pair locks and the counters. A trade is an address of the heap of trades.
\<close>

section \<open>Candles, configuration and state\<close>

text \<open>
  A row of prepared data. Signals are the numbers of the columns, of the candle before; the code
  tests them for being 1 when entering and for being other than 0 when exiting.
\<close>

record bt_row =
  r_date :: datetime
  r_open :: flt
  r_high :: flt
  r_low :: flt
  r_close :: flt
  r_enter_long :: flt
  r_exit_long :: flt
  r_enter_short :: flt
  r_exit_short :: flt
  r_enter_tag :: "string option"
  r_exit_tag :: "string option"

text \<open>
  The methods of a user strategy, after \<open>strategy_safe_wrapper\<close> has turned an exception into the
  default value the call gives. They see a copy of the trade.
\<close>

record callbacks =
  cb_entry_price :: "string \<Rightarrow> trade option \<Rightarrow> datetime \<Rightarrow> flt \<Rightarrow> string option \<Rightarrow> string \<Rightarrow> flt option"
  cb_exit_price :: "trade \<Rightarrow> datetime \<Rightarrow> flt \<Rightarrow> flt \<Rightarrow> string \<Rightarrow> flt option"
  cb_leverage :: "string \<Rightarrow> datetime \<Rightarrow> flt \<Rightarrow> flt \<Rightarrow> string \<Rightarrow> string option \<Rightarrow> flt"
  cb_stake_amount :: "string \<Rightarrow> datetime \<Rightarrow> flt \<Rightarrow> flt \<Rightarrow> flt \<Rightarrow> flt \<Rightarrow> flt \<Rightarrow> string option \<Rightarrow> string \<Rightarrow> flt option"
  cb_confirm_entry :: "string \<Rightarrow> flt \<Rightarrow> flt \<Rightarrow> datetime \<Rightarrow> string option \<Rightarrow> string \<Rightarrow> bool"
  cb_confirm_exit :: "trade \<Rightarrow> flt \<Rightarrow> flt \<Rightarrow> string \<Rightarrow> datetime \<Rightarrow> bool"
  cb_adjust_position :: "trade \<Rightarrow> datetime \<Rightarrow> flt \<Rightarrow> flt \<Rightarrow> flt option \<Rightarrow> flt \<Rightarrow> flt option \<times> string option"
  cb_adjust_order_price :: "trade \<Rightarrow> order \<Rightarrow> datetime \<Rightarrow> flt \<Rightarrow> flt option"

record bt_config =
  bc_strategy :: strategy
  bc_callbacks :: callbacks
  bc_exchange :: exchange
  bc_liquidation :: liq_exchange
  bc_wallet_config :: wallet_config
  bc_wallet_exchange :: wallet_exchange
  bc_env :: env
  bc_protections :: "protection list"
  bc_enable_protections :: bool
  bc_position_stacking :: bool
  bc_can_short :: bool
  bc_position_adjustment :: bool
  bc_max_entry_adjustment :: int
  bc_max_open_trades :: "int option" \<comment> \<open>\<^term>\<open>None\<close> is infinity\<close>
  bc_fee :: flt
  bc_margin_mode :: margin_mode
  bc_entry_order_type :: string
  bc_exit_order_type :: string
  bc_exchange_name :: string
  bc_starting_balance :: flt
  bc_clock :: datetime
  bc_timeframe_us :: int
  bc_price_precision :: "string \<Rightarrow> datetime \<Rightarrow> flt option" \<comment> \<open>tick size at a time, when known\<close>
  bc_futures_data :: "string \<Rightarrow> funding_row list"
  bc_funding_unit :: int
  bc_funding_secs :: int

record bt_run =
  br_bt :: bt_state
  br_wallets :: wallets
  br_locks :: lock_store
  br_trade_id :: nat
  br_order_id :: nat
  br_rejected :: nat
  br_timedout_entry :: nat
  br_timedout_exit :: nat
  br_canceled_trade_entries :: nat
  br_canceled_entry :: nat
  br_replaced_entry :: nat
  br_canceled_exit :: nat
  br_replaced_exit :: nat

abbreviation bc_ccxt :: "bt_config \<Rightarrow> ccxt" where
  "bc_ccxt B \<equiv> ex_ccxt (bc_exchange B)"

section \<open>Programs over the state\<close>

text \<open>An exception ends the backtest, unless the code catches it; then its definition says so.\<close>

type_synonym 'a bt = "bt_run \<Rightarrow> py_error + 'a \<times> bt_run"

definition retS :: "'a \<Rightarrow> 'a bt" where
  "retS x s = Inr (x, s)"

definition failS :: "py_error \<Rightarrow> 'a bt" where
  "failS e s = Inl e"

definition bindS :: "'a bt \<Rightarrow> ('a \<Rightarrow> 'b bt) \<Rightarrow> 'b bt" where
  "bindS m f s = bindE (m s) (\<lambda>(x, s'). f x s')"

definition thenS :: "unit bt \<Rightarrow> 'b bt \<Rightarrow> 'b bt" where
  "thenS m n = bindS m (\<lambda>_. n)"

definition liftS :: "py_error + 'a \<Rightarrow> 'a bt" where
  "liftS r s = bindE r (\<lambda>x. Inr (x, s))"

definition readS :: "(bt_run \<Rightarrow> 'a bt) \<Rightarrow> 'a bt" where
  "readS f s = f s s"

definition modS :: "(bt_run \<Rightarrow> bt_run) \<Rightarrow> unit bt" where
  "modS f s = Inr ((), f s)"

definition trade_of :: "bt_run \<Rightarrow> nat \<Rightarrow> trade" where
  "trade_of s i = bt_heap (br_bt s) i"

definition put_trade :: "nat \<Rightarrow> trade \<Rightarrow> bt_run \<Rightarrow> bt_run" where
  "put_trade i t s = s\<lparr>br_bt := write_trade i t (br_bt s)\<rparr>"

definition on_trade :: "nat \<Rightarrow> (trade \<Rightarrow> py_error + trade) \<Rightarrow> unit bt" where
  "on_trade i f s = bindE (f (trade_of s i)) (\<lambda>t. Inr ((), put_trade i t s))"

definition on_bt :: "(bt_state \<Rightarrow> py_error + bt_state) \<Rightarrow> unit bt" where
  "on_bt f s = bindE (f (br_bt s)) (\<lambda>b. Inr ((), s\<lparr>br_bt := b\<rparr>))"

fun forS :: "'e list \<Rightarrow> ('e \<Rightarrow> unit bt) \<Rightarrow> unit bt" where
  "forS [] f = retS ()"
| "forS (x # xs) f = thenS (f x) (forS xs f)"

text \<open>\<open>self.wallets.update()\<close>\<close>

definition wallets_update :: "bt_config \<Rightarrow> unit bt" where
  "wallets_update B s =
     bindE (update_wallets (bc_wallet_config B) (bc_wallet_exchange B) (br_bt s) (bc_clock B) True (br_wallets s))
       (\<lambda>W. Inr ((), s\<lparr>br_wallets := W\<rparr>))"

text \<open>An order is an object; its identifier, which a counter makes unique, finds it in its trade.\<close>

definition order_pos :: "trade \<Rightarrow> string \<Rightarrow> nat" where
  "order_pos t i = length (takeWhile (\<lambda>ord. o_order_id ord \<noteq> i) (t_orders t))"

definition delete_order :: "string \<Rightarrow> trade \<Rightarrow> py_error + trade" where
  "delete_order i t =
     (if order_pos t i < length (t_orders t)
      then Inr (t\<lparr>t_orders := take (order_pos t i) (t_orders t) @ drop (Suc (order_pos t i)) (t_orders t)\<rparr>)
      else Inl ValueError)"

definition is_entry_order :: "trade \<Rightarrow> order \<Rightarrow> bool" where
  "is_entry_order t ord \<longleftrightarrow> o_side ord = Some (entry_side t)"

definition is_exit_order :: "trade \<Rightarrow> order \<Rightarrow> bool" where
  "is_exit_order t ord \<longleftrightarrow> o_side ord = Some (exit_side t)"

section \<open>The rate at which a candle closes a trade\<close>

definition get_close_rate_for_stoploss ::
    "bt_config \<Rightarrow> bt_row \<Rightarrow> trade \<Rightarrow> exit_check \<Rightarrow> int \<Rightarrow> flt" where
  "get_close_rate_for_stoploss B row t ex trade_dur =
     (let S = bc_strategy B; leverage = leverage_or_1 t; side_1 = (if t_is_short t then -1 else 1);
          stoploss_value = (if ec_type ex = LIQUIDATION \<and> truthy (t_liquidation_price t)
                            then the (t_liquidation_price t) else t_stop_loss t)
      in if (if t_is_short t then stoploss_value < r_low row else stoploss_value > r_high row) then r_open row
         else if ec_type ex = TRAILING_STOP_LOSS \<and> trade_dur = 0 then
           (let stop_rate =
                  (if \<not> st_use_custom_stoploss S \<and> st_trailing_stop S \<and> st_trailing_only_offset_is_reached S
                      \<and> truthy (st_trailing_stop_positive S)
                   then r_open row * (1 + side_1 * \<bar>st_trailing_stop_positive_offset S\<bar>
                                      - side_1 * \<bar>the (st_trailing_stop_positive S) / leverage\<bar>)
                   else r_open row * (1 - side_1 * \<bar>or_val (t_stop_loss_pct t) 0 / leverage\<bar>))
            in if t_is_short t then min (r_high row) stop_rate else max (r_low row) stop_rate)
         else stoploss_value)"

text \<open>The rate for a return on investment; \<open>ValueError\<close> marks an exit that cannot happen.\<close>

definition get_close_rate_for_roi ::
    "bt_config \<Rightarrow> bt_row \<Rightarrow> trade \<Rightarrow> datetime \<Rightarrow> int \<Rightarrow> py_error + flt" where
  "get_close_rate_for_roi B row t current_time trade_dur =
     (let timeframe_min = bc_timeframe_us B div minutes_us 1
      in case min_roi_reached_entry (bc_strategy B) t trade_dur current_time of
           None \<Rightarrow> Inr (r_open row)
         | Some (roi_entry, roi) \<Rightarrow>
             if roi = -1 \<and> roi_entry mod timeframe_min = 0 then Inr (r_open row)
             else
               bindE (calc_close_rate_for_roi (bc_ccxt B) (bc_clock B) t roi) (\<lambda>close_rate.
                 let is_new_roi = (if t_is_short t then r_open row < close_rate else r_open row > close_rate)
                 in if trade_dur > 0 \<and> trade_dur = roi_entry \<and> roi_entry mod timeframe_min = 0 \<and> is_new_roi
                    then Inr (r_open row)
                    else if trade_dur = 0
                      \<and> ((t_is_short t \<and> r_open row < r_close row \<and> t_open_rate t > r_open row
                          \<and> close_rate < r_close row)
                         \<or> (\<not> t_is_short t \<and> r_open row > r_close row \<and> t_open_rate t < r_open row
                          \<and> close_rate > r_close row))
                    then Inl ValueError
                    else Inr (min (max close_rate (r_low row)) (r_high row))))"

definition get_close_rate ::
    "bt_config \<Rightarrow> bt_row \<Rightarrow> trade \<Rightarrow> datetime \<Rightarrow> exit_check \<Rightarrow> int \<Rightarrow> py_error + flt" where
  "get_close_rate B row t current_time ex trade_dur =
     (if ec_type ex \<in> {STOP_LOSS, TRAILING_STOP_LOSS, LIQUIDATION}
      then Inr (get_close_rate_for_stoploss B row t ex trade_dur)
      else if ec_type ex = ROI then get_close_rate_for_roi B row t current_time trade_dur
      else Inr (r_open row))"

section \<open>Fills\<close>

definition get_order_filled :: "flt \<Rightarrow> bt_row \<Rightarrow> bool" where
  "get_order_filled rate row \<longleftrightarrow> r_low row \<le> rate \<and> rate \<le> r_high row"

definition run_funding_fees :: "bt_config \<Rightarrow> nat \<Rightarrow> datetime \<Rightarrow> bool \<Rightarrow> unit bt" where
  "run_funding_fees B i current_time force =
     (if ex_trading_mode (bc_exchange B) = FUTURES
         \<and> (force \<or> current_time mod (bc_funding_secs B * 1000000) = 0)
      then on_trade i (\<lambda>t. bindE (date_last_filled_utc t) (\<lambda>d.
             Inr (set_funding_fees t (Some (calculate_funding_fees (bc_funding_unit B)
                    (bc_futures_data B (t_pair t)) (t_amount t) (t_is_short t) d current_time)))))
      else retS ())"

definition call_adjust_stop :: "bt_config \<Rightarrow> datetime \<Rightarrow> flt \<Rightarrow> nat \<Rightarrow> unit bt" where
  "call_adjust_stop B current_date current_rate i =
     on_trade i (\<lambda>t. bindE (calc_profit_ratio (bc_ccxt B) (bc_clock B) t (Some current_rate) None None) (\<lambda>profit.
       ft_stoploss_adjust (bc_ccxt B) (bc_strategy B) (bc_clock B) current_rate current_date profit 0 None None
         None True t))"

definition update_liquidation :: "bt_config \<Rightarrow> nat \<Rightarrow> unit bt" where
  "update_liquidation B i s =
     bindE (update_liquidation_prices (bc_ccxt B) (bc_liquidation B) (bc_wallet_config B) (br_wallets s) True
              (Some i) (br_bt s)) (\<lambda>b. Inr ((), s\<lparr>br_bt := b\<rparr>))"

text \<open>An exit order that covers the whole position ends the trade.\<close>

definition covers_position :: "trade \<Rightarrow> string \<Rightarrow> bool" where
  "covers_position t i \<longleftrightarrow> (let ord = t_orders t ! order_pos t i
     in o_ft_order_side ord = exit_side t \<and> safe_amount ord = t_amount t)"

definition try_close_open_order ::
    "bt_config \<Rightarrow> order option \<Rightarrow> nat \<Rightarrow> datetime \<Rightarrow> bt_row \<Rightarrow> bool bt" where
  "try_close_open_order B ord i current_date row =
     (case ord of
        None \<Rightarrow> retS False
      | Some od \<Rightarrow>
          (case o_ft_price od of
             None \<Rightarrow> failS TypeError
           | Some price \<Rightarrow>
               if \<not> get_order_filled price row then retS False
               else
                 thenS (on_trade i (\<lambda>t. close_bt_order (bc_ccxt B) (bc_clock B) (order_pos t (o_order_id od))
                                           current_date t))
                (thenS (run_funding_fees B i current_date True)
                (readS (\<lambda>s. let closes = covers_position (trade_of s i) (o_order_id od)
                   in thenS (if bc_margin_mode B = CROSS \<or> \<not> closes then update_liquidation B i else retS ())
                     (thenS (if \<not> closes then call_adjust_stop B current_date price i else retS ())
                     (retS True)))))))"

definition run_protections :: "bt_config \<Rightarrow> string \<Rightarrow> datetime \<Rightarrow> string \<Rightarrow> unit bt" where
  "run_protections B pair current_time side s =
     (if bc_enable_protections B then
        bindE (stop_per_pair (bc_env B) (bc_protections B) (br_bt s) pair current_time side (bc_starting_balance B)
                 (br_locks s)) (\<lambda>(_, locks1).
        bindE (global_stop (bc_env B) (bc_protections B) (br_bt s) current_time side (bc_starting_balance B) locks1)
          (\<lambda>(_, locks2). Inr ((), s\<lparr>br_locks := locks2\<rparr>)))
      else Inr ((), s))"

definition process_exit_order ::
    "bt_config \<Rightarrow> order \<Rightarrow> nat \<Rightarrow> datetime \<Rightarrow> bt_row \<Rightarrow> string \<Rightarrow> unit bt" where
  "process_exit_order B od i current_time row pair =
     bindS (try_close_open_order B (Some od) i current_time row) (\<lambda>filled.
       if filled then
         readS (\<lambda>s. let t = trade_of s i; ord = t_orders t ! order_pos t (o_order_id od)
           in thenS
                (if safe_amount_after_fee ord \<noteq> t_amount t
                 then on_trade i (recalc_trade_from_orders (bc_ccxt B) (bc_clock B) False)
                 else thenS (on_trade i (\<lambda>t. close_trade (bc_ccxt B) (bc_clock B) (o_ft_price ord)
                                              (t\<lparr>t_close_date := Some current_time\<rparr>)))
                        (on_bt (close_bt_trade i)))
             (thenS (wallets_update B)
                (run_protections B pair current_time (trade_direction t))))
       else retS ())"

section \<open>Cancelling and placing orders\<close>

text \<open>One open order is cancelled: it is counted by its side and leaves the list of the trade.\<close>

definition cancel_one :: "nat \<Rightarrow> order \<Rightarrow> unit bt" where
  "cancel_one i od =
     thenS (modS (\<lambda>s. let t = trade_of s i
              in if is_entry_order t od then s\<lparr>br_canceled_entry := br_canceled_entry s + 1\<rparr>
                 else if is_exit_order t od then s\<lparr>br_canceled_exit := br_canceled_exit s + 1\<rparr> else s))
       (on_trade i (delete_order (o_order_id od)))"

definition cancel_open_orders :: "nat \<Rightarrow> unit bt" where
  "cancel_open_orders i = readS (\<lambda>s. forS (filter o_ft_is_open (t_orders (trade_of s i))) (cancel_one i))"

definition handle_similar_order :: "nat \<Rightarrow> flt \<Rightarrow> flt \<Rightarrow> string \<Rightarrow> bool bt" where
  "handle_similar_order i price amount side =
     readS (\<lambda>s. let t = trade_of s i
       in if has_open_orders t then
            (case select_order t (Some side) (Some True) False of
               Some oo \<Rightarrow>
                 if o_price oo = Some price \<and> o_side oo = Some side \<and> o_amount oo = Some amount then retS True
                 else thenS (cancel_open_orders i) (retS False)
             | None \<Rightarrow> thenS (cancel_open_orders i) (retS False))
          else retS False)"

definition next_order_id :: "unit bt" where
  "next_order_id = modS (\<lambda>s. s\<lparr>br_order_id := br_order_id s + 1\<rparr>)"

definition bt_new_order ::
    "bt_config \<Rightarrow> nat \<Rightarrow> string \<Rightarrow> string \<Rightarrow> string \<Rightarrow> flt \<Rightarrow> flt \<Rightarrow> datetime \<Rightarrow> datetime option \<Rightarrow> string option
       \<Rightarrow> order" where
  "bt_new_order B i pair side order_type price amount date filled_date tag =
     (new_order (show_nat i) side pair amount (Some price))\<lparr>
        o_status := Some ''open'', o_symbol := Some pair, o_order_type := Some order_type, o_side := Some side,
        o_price := Some price, o_average := Some price, o_amount := Some amount, o_filled := Some 0,
        o_remaining := Some amount, o_cost := Some (amount * price * (1 + bc_fee B)),
        o_order_date := Some date, o_order_filled_date := filled_date, o_order_update_date := Some date,
        o_ft_order_tag := tag\<rparr>"

definition append_order :: "order \<Rightarrow> nat \<Rightarrow> unit bt" where
  "append_order ord i = on_trade i (\<lambda>t. Inr (t\<lparr>t_orders := t_orders t @ [ord]\<rparr>))"

text \<open>The result says whether an order was placed.\<close>

definition bt_exit_trade :: "bt_config \<Rightarrow> nat \<Rightarrow> bt_row \<Rightarrow> flt \<Rightarrow> flt \<Rightarrow> string option \<Rightarrow> bool bt" where
  "bt_exit_trade B i row close_rate amount exit_reason =
     thenS next_order_id
     (readS (\<lambda>s. let t = trade_of s i
       in bindS (liftS (price_to_precision (bc_ccxt B) close_rate (t_price_precision t) (t_precision_mode_price t) ROUND))
         (\<lambda>rate. let amt = amount_to_contract_precision (bc_ccxt B) (or_val (Some amount) (t_amount t))
                              (t_amount_precision t) (Some (ex_precision_mode (bc_exchange B))) (t_contract_size t)
          in bindS (handle_similar_order i rate amt (exit_side t)) (\<lambda>similar.
               if similar then retS False
               else thenS (append_order (bt_new_order B (br_order_id s) (t_pair t) (exit_side t)
                                 (bc_exit_order_type B) rate amt (r_date row) None exit_reason) i)
                      (retS True)))))"

definition exit_tag_of :: "bt_row \<Rightarrow> exit_check \<Rightarrow> string" where
  "exit_tag_of row ex =
     (if ec_type ex = EXIT_SIGNAL then str_or (r_exit_tag row) (ec_reason ex) else ec_reason ex)"

text \<open>A limit exit for a signal may ask for another price, but not for one beyond the candle.\<close>

definition custom_exit_rate ::
    "bt_config \<Rightarrow> trade \<Rightarrow> bt_row \<Rightarrow> exit_check \<Rightarrow> datetime \<Rightarrow> flt \<Rightarrow> flt \<Rightarrow> flt" where
  "custom_exit_rate B t row ex current_time current_profit close_rate =
     (if ec_type ex \<in> {EXIT_SIGNAL, CUSTOM_EXIT, PARTIAL_EXIT} \<and> bc_exit_order_type B = ''limit'' then
        (let rate = (case cb_exit_price (bc_callbacks B) t current_time close_rate current_profit (exit_tag_of row ex) of
                       Some r \<Rightarrow> r | None \<Rightarrow> close_rate)
         in if t_is_short t then min rate (r_high row) else max rate (r_low row))
      else close_rate)"

definition get_exit_for_signal ::
    "bt_config \<Rightarrow> nat \<Rightarrow> bt_row \<Rightarrow> exit_check \<Rightarrow> datetime \<Rightarrow> flt option \<Rightarrow> bool bt" where
  "get_exit_for_signal B i row ex current_time amount =
     (if ec_type ex = EXIT_NONE then retS False
      else
        thenS (on_trade i (\<lambda>t. Inr (t\<lparr>t_close_date := Some current_time\<rparr>)))
        (readS (\<lambda>s. let t = trade_of s i; amt = (case amount of Some a \<Rightarrow> a | None \<Rightarrow> t_amount t);
               trade_dur = (current_time - t_open_date t) div minutes_us 1
           in case get_close_rate B row t current_time ex trade_dur of
                Inl e \<Rightarrow> if e = ValueError then retS False else failS e
              | Inr close_rate \<Rightarrow>
                  bindS (liftS (calc_profit_ratio (bc_ccxt B) (bc_clock B) t (Some close_rate) None None)) (\<lambda>profit.
                    let reason = (if ec_type ex \<in> {EXIT_SIGNAL, CUSTOM_EXIT, PARTIAL_EXIT}
                                  then exit_tag_of row ex else ec_reason ex);
                        rate = custom_exit_rate B t row ex current_time profit close_rate
                    in if ec_type ex \<notin> {LIQUIDATION, PARTIAL_EXIT}
                          \<and> \<not> cb_confirm_exit (bc_callbacks B) t amt rate reason current_time
                       then retS False
                       else thenS (on_trade i (\<lambda>t. Inr (t\<lparr>t_exit_reason := Some reason\<rparr>)))
                              (bt_exit_trade B i row rate amt (Some reason))))))"

end
