(* ===== verification/Bt_Loop.thy ===== *)
theory Bt_Loop
  imports Bt_Orders
begin

text \<open>
  The event loop of a backtest (optimize/backtesting.py): preparing the rows, entering trades,
  adjusting positions, managing open orders, one candle of one pair, the order in which candles and
  pairs are visited, and closing what is left open at the end.
\<close>

section \<open>Rows from analysed candles\<close>

text \<open>
  An analysed candle; a signal is \<^term>\<open>None\<close> when its column is missing or holds NaN. Signals are
  shifted by one candle and the first candle is dropped.
\<close>

record analysed =
  a_date :: datetime
  a_open :: flt
  a_high :: flt
  a_low :: flt
  a_close :: flt
  a_enter_long :: "flt option"
  a_exit_long :: "flt option"
  a_enter_short :: "flt option"
  a_exit_short :: "flt option"
  a_enter_tag :: "string option"
  a_exit_tag :: "string option"

definition signal_of :: "flt option \<Rightarrow> flt" where
  "signal_of v = (case v of None \<Rightarrow> 0 | Some x \<Rightarrow> x)"

definition row_of :: "analysed \<Rightarrow> analysed \<Rightarrow> bt_row" where
  "row_of prev c =
     \<lparr>r_date = a_date c, r_open = a_open c, r_high = a_high c, r_low = a_low c, r_close = a_close c,
      r_enter_long = signal_of (a_enter_long prev), r_exit_long = signal_of (a_exit_long prev),
      r_enter_short = signal_of (a_enter_short prev), r_exit_short = signal_of (a_exit_short prev),
      r_enter_tag = a_enter_tag prev, r_exit_tag = a_exit_tag prev\<rparr>"

definition get_ohlcv_as_lists :: "analysed list \<Rightarrow> bt_row list" where
  "get_ohlcv_as_lists cs = List.map2 row_of cs (tl cs)"

section \<open>Entering a trade\<close>

definition get_pair_precision :: "bt_config \<Rightarrow> string \<Rightarrow> datetime \<Rightarrow> flt option \<times> precision_mode" where
  "get_pair_precision B pair current_time =
     (case bc_price_precision B pair current_time of
        Some p \<Rightarrow> (Some p, TICK_SIZE)
      | None \<Rightarrow> (get_precision_price (bc_exchange B) pair, ex_precision_mode_price (bc_exchange B)))"

definition entry_rate ::
    "bt_config \<Rightarrow> string \<Rightarrow> bt_row \<Rightarrow> flt \<Rightarrow> string \<Rightarrow> datetime \<Rightarrow> string option \<Rightarrow> trade option \<Rightarrow> flt option
       \<Rightarrow> precision_mode \<Rightarrow> py_error + flt" where
  "entry_rate B pair row propose_rate direction current_time entry_tag t precision mode =
     (if bc_entry_order_type B = ''limit'' then
        bindE (case cb_entry_price (bc_callbacks B) pair t current_time propose_rate entry_tag direction of
                 Some r \<Rightarrow> if r \<noteq> propose_rate then price_to_precision (bc_ccxt B) r precision (Some mode) ROUND
                           else Inr propose_rate
               | None \<Rightarrow> Inr propose_rate)
          (\<lambda>r. Inr (if direction = ''short'' then max r (r_low row) else min r (r_high row)))
      else Inr propose_rate)"

text \<open>The stake for a new trade; an unavailable stake makes everything 0.\<close>

definition new_trade_leverage ::
    "bt_config \<Rightarrow> string \<Rightarrow> bt_row \<Rightarrow> string \<Rightarrow> datetime \<Rightarrow> string option \<Rightarrow> flt \<Rightarrow> py_error + flt" where
  "new_trade_leverage B pair row direction current_time entry_tag stake_amount =
     bindE (get_max_leverage (bc_exchange B) pair (Some stake_amount)) (\<lambda>max_leverage.
       let leverage = (if ex_trading_mode (bc_exchange B) \<noteq> SPOT
                       then cb_leverage (bc_callbacks B) pair current_time (r_open row) max_leverage direction entry_tag
                       else 1)
       in Inr (min (max leverage 1) max_leverage))"

definition get_valid_entry_price_and_stake ::
    "bt_config \<Rightarrow> string \<Rightarrow> bt_row \<Rightarrow> flt \<Rightarrow> flt \<Rightarrow> string \<Rightarrow> datetime \<Rightarrow> string option \<Rightarrow> trade option
       \<Rightarrow> flt option \<Rightarrow> precision_mode \<Rightarrow> (flt \<times> flt \<times> flt \<times> flt) bt" where
  "get_valid_entry_price_and_stake B pair row propose_rate stake direction current_time entry_tag t precision mode s =
     bindE (entry_rate B pair row propose_rate direction current_time entry_tag t precision mode) (\<lambda>rate.
     bindE
       (case t of
          Some tr \<Rightarrow> Inr (Some (stake, t_leverage tr))
        | None \<Rightarrow>
            (case get_trade_stake_amount (bc_wallet_config B) (bc_wallet_exchange B) (br_bt s) (bc_clock B)
                    (bc_max_open_trades B) False (br_wallets s) of
               Inl e \<Rightarrow> if is_dependency_exception e then Inr None else Inl e
             | Inr (amount, _) \<Rightarrow>
                 bindE (new_trade_leverage B pair row direction current_time entry_tag amount)
                   (\<lambda>lev. Inr (Some (amount, lev)))))
       (\<lambda>found. case found of
          None \<Rightarrow> Inr ((0, 0, 0, 0), s)
        | Some (stake0, leverage) \<Rightarrow>
            bindE (get_min_pair_stake_amount (bc_exchange B) pair rate (if t = None then - 5/100 else 0) leverage) (\<lambda>mn.
            bindE (get_max_pair_stake_amount (bc_exchange B) pair rate leverage) (\<lambda>mx.
            bindE (get_available_stake_amount (bc_wallet_config B) (br_bt s) (br_wallets s)) (\<lambda>available.
              let min_stake = or_val mn 0;
                  stake1 = (if t = None
                            then cb_stake_amount (bc_callbacks B) pair current_time rate stake0 min_stake
                                   (min_limit mx available) leverage entry_tag direction
                            else Some stake0)
              in bindE (validate_stake_amount (bc_wallet_config B) (br_bt s) (br_wallets s) stake1 (Some min_stake) mx
                          (map_option t_stake_amount t))
                   (\<lambda>v. Inr ((rate, v, leverage, min_stake), s)))))))"

definition bt_new_trade ::
    "bt_config \<Rightarrow> nat \<Rightarrow> string \<Rightarrow> bt_row \<Rightarrow> bool \<Rightarrow> flt \<Rightarrow> flt \<Rightarrow> flt \<Rightarrow> string option \<Rightarrow> flt option
       \<Rightarrow> precision_mode \<Rightarrow> trade" where
  "bt_new_trade B i pair row is_short rate stake leverage entry_tag price_precision mode =
     recalc_open_trade_value
       \<lparr>t_id = int i, t_orders = [], t_exchange = bc_exchange_name B, t_pair = pair,
        t_base_currency = Some (get_pair_base_currency (bc_exchange B) pair),
        t_stake_currency = Some (wc_stake_currency (bc_wallet_config B)), t_is_open = True,
        t_fee_open = bc_fee B, t_fee_open_cost = None, t_fee_open_currency = Some [],
        t_fee_close = Some (bc_fee B), t_fee_close_cost = None, t_fee_close_currency = Some [],
        t_open_rate = rate, t_open_trade_value = 0, t_close_rate = None, t_close_rate_requested = None,
        t_close_profit = None, t_close_profit_abs = None, t_realized_profit = 0,
        t_stake_amount = stake, t_max_stake_amount = Some 0, t_amount = 0, t_open_date = r_date row,
        t_close_date = None, t_stop_loss = 0, t_stop_loss_pct = Some 0, t_initial_stop_loss = Some 0,
        t_initial_stop_loss_pct = None, t_is_stop_loss_trailing = False, t_max_rate = None,
        t_min_rate = None, t_exit_reason = Some [], t_exit_order_status = Some [], t_enter_tag = entry_tag,
        t_trading_mode = Some (ex_trading_mode (bc_exchange B)),
        t_amount_precision = get_precision_amount (bc_exchange B) pair, t_price_precision = price_precision,
        t_precision_mode = Some (ex_precision_mode (bc_exchange B)), t_precision_mode_price = Some mode,
        t_contract_size = get_contract_size (bc_exchange B) pair, t_liquidation_price = None,
        t_is_short = is_short, t_leverage = leverage, t_interest_rate = Some 0, t_funding_fees = None,
        t_funding_fee_running = None\<rparr>"

text \<open>A new trade gets the next identifier, which is its address.\<close>

definition open_trade :: "bt_config \<Rightarrow> (nat \<Rightarrow> trade) \<Rightarrow> nat bt" where
  "open_trade B new s =
     (let i = br_trade_id s + 1; b = write_trade i (new i) (br_bt s)
      in Inr (i, s\<lparr>br_trade_id := i, br_bt := add_bt_trade i b\<rparr>))"

text \<open>
  The trade to enter: a new one, or the given one unless a similar order is already open, which
  ends the entry.
\<close>

definition trade_to_enter ::
    "bt_config \<Rightarrow> nat option \<Rightarrow> (nat \<Rightarrow> trade) \<Rightarrow> flt \<Rightarrow> flt \<Rightarrow> nat option bt" where
  "trade_to_enter B t new rate amount =
     (case t of
        None \<Rightarrow> bindS (open_trade B new) (\<lambda>i. retS (Some i))
      | Some i \<Rightarrow>
          readS (\<lambda>s. bindS (handle_similar_order i rate amount (entry_side (trade_of s i)))
            (\<lambda>similar. retS (if similar then None else Some i))))"

text \<open>The new entry order is placed, filled when the candle reaches its price, and replayed.\<close>

definition place_entry ::
    "bt_config \<Rightarrow> nat \<Rightarrow> string \<Rightarrow> bt_row \<Rightarrow> flt \<Rightarrow> flt \<Rightarrow> nat \<Rightarrow> string option \<Rightarrow> unit bt" where
  "place_entry B i pair row rate amount order_id entry_tag =
     thenS (on_trade i (\<lambda>t. adjust_stop_loss (bc_ccxt B) (t_open_rate t) (Some (st_stoploss (bc_strategy B))) True False t))
     (readS (\<lambda>s. let ord = bt_new_order B order_id pair (entry_side (trade_of s i)) (bc_entry_order_type B) rate
                         amount (r_date row) (Some (r_date row)) entry_tag
        in thenS (append_order ord i)
          (bindS (try_close_open_order B (Some ord) i (r_date row) row) (\<lambda>_.
             on_trade i (recalc_trade_from_orders (bc_ccxt B) (bc_clock B) False)))))"

text \<open>
  \<open>t\<close> is the trade to adjust, or \<^term>\<open>None\<close>; a requested rate or stake replaces the proposed one.
  The result is the trade the code returns.
\<close>

definition enter_trade ::
    "bt_config \<Rightarrow> string \<Rightarrow> bt_row \<Rightarrow> string \<Rightarrow> flt option \<Rightarrow> nat option \<Rightarrow> flt option \<Rightarrow> flt option
       \<Rightarrow> string option \<Rightarrow> nat option bt" where
  "enter_trade B pair row direction stake_amount t requested_rate requested_stake entry_tag1 =
     (let current_time = r_date row;
          entry_tag = (if entry_tag1 = None \<or> entry_tag1 = Some [] then r_enter_tag row else entry_tag1);
          (precision_price, mode) = get_pair_precision B pair current_time
      in readS (\<lambda>s0.
         let tr = map_option (trade_of s0) t;
             stake1 = (if truthy stake_amount then the stake_amount
                       else case tr of Some x \<Rightarrow> t_stake_amount x | None \<Rightarrow> 0)
         in bindS (get_valid_entry_price_and_stake B pair row (r_open row) stake1 direction current_time entry_tag tr
                    precision_price mode) (\<lambda>(rate0, stake0, leverage, min_stake).
            let rate = or_val requested_rate rate0; stake = or_val requested_stake stake0
            in if stake = 0 \<or> \<not> (min_stake = 0 \<or> stake \<ge> min_stake) then retS t
               else thenS next_order_id
                 (if rate = 0 \<or> leverage = 0 then failS ZeroDivisionError
                  else
                    (let amount = amount_to_contract_precision (bc_ccxt B) (stake / rate * leverage)
                                    (get_precision_amount (bc_exchange B) pair)
                                    (Some (ex_precision_mode (bc_exchange B))) (get_contract_size (bc_exchange B) pair)
                     in if amount = 0 then retS t
                        else if \<not> (t \<noteq> None \<and> requested_rate = None)
                             \<and> \<not> cb_confirm_entry (bc_callbacks B) pair amount rate current_time entry_tag direction
                        then retS t
                        else
                          bindS (trade_to_enter B t
                                   (\<lambda>i. bt_new_trade B i pair row (direction = ''short'') rate (amount * rate / leverage)
                                          leverage entry_tag precision_price mode) rate amount)
                            (\<lambda>found. case found of
                               None \<Rightarrow> retS None
                             | Some i \<Rightarrow>
                                 thenS (readS (\<lambda>s. place_entry B i pair row rate amount (br_order_id s) entry_tag))
                                   (retS (Some i))))))))"

section \<open>Adjusting a position\<close>

text \<open>A smaller position is left alone when what remains could not be sold.\<close>

definition reduce_position :: "bt_config \<Rightarrow> nat \<Rightarrow> bt_row \<Rightarrow> datetime \<Rightarrow> flt \<Rightarrow> flt option \<Rightarrow> string option \<Rightarrow> unit bt" where
  "reduce_position B i row current_time stake_amount min_stake order_tag =
     readS (\<lambda>s. let t = trade_of s i; C = bc_ccxt B;
          amount = amount_to_contract_precision C \<bar>precise_div C (stake_amount * t_amount t) (t_stake_amount t)\<bar>
                     (t_amount_precision t) (Some (ex_precision_mode (bc_exchange B))) (t_contract_size t);
          remaining = (t_amount t - amount) * r_open row
       in if amount = 0 then retS ()
          else if truthy min_stake \<and> remaining \<noteq> 0 \<and> remaining < the min_stake then retS ()
          else bindS (get_exit_for_signal B i row
                        (exit_check_tuple PARTIAL_EXIT (case order_tag of Some g \<Rightarrow> g | None \<Rightarrow> [])) current_time
                        (Some amount))
                 (\<lambda>placed. if placed then
                    readS (\<lambda>s'. process_exit_order B (last (t_orders (trade_of s' i))) i current_time row (t_pair t))
                  else retS ()))"

definition check_adjust_trade_for_candle :: "bt_config \<Rightarrow> nat \<Rightarrow> bt_row \<Rightarrow> datetime \<Rightarrow> unit bt" where
  "check_adjust_trade_for_candle B i row current_time =
     readS (\<lambda>s. let t = trade_of s i; rate = r_open row
       in bindS (liftS (calc_profit_ratio (bc_ccxt B) (bc_clock B) t (Some rate) None None)) (\<lambda>profit.
          bindS (liftS (get_min_pair_stake_amount (bc_exchange B) (t_pair t) rate (- 1/10) 1)) (\<lambda>min_stake.
          bindS (liftS (get_max_pair_stake_amount (bc_exchange B) (t_pair t) rate 1)) (\<lambda>max_stake.
          bindS (liftS (get_available_stake_amount (bc_wallet_config B) (br_bt s) (br_wallets s))) (\<lambda>available.
            (case cb_adjust_position (bc_callbacks B) t current_time rate profit min_stake
                    (min_limit max_stake available) of
               (None, _) \<Rightarrow> retS ()
             | (Some stake, order_tag) \<Rightarrow>
                 if stake > 0 then
                   (if bc_max_entry_adjustment B > -1
                       \<and> \<not> int (nr_of_successful_entries t) \<le> bc_max_entry_adjustment B
                    then retS ()
                    else bindS (enter_trade B (t_pair t) row (if t_is_short t then ''short'' else ''long'') (Some stake)
                                  (Some i) None None order_tag)
                           (\<lambda>found. if found \<noteq> None then wallets_update B else retS ()))
                 else if stake < 0 then reduce_position B i row current_time stake min_stake order_tag
                 else retS ()))))))"

section \<open>Exits of a candle\<close>

text \<open>The reasons to exit are tried in order until one of them places an order.\<close>

fun try_exits :: "bt_config \<Rightarrow> nat \<Rightarrow> bt_row \<Rightarrow> datetime \<Rightarrow> exit_check list \<Rightarrow> unit bt" where
  "try_exits B i row current_time [] = retS ()"
| "try_exits B i row current_time (ex # exs) =
     bindS (get_exit_for_signal B i row ex current_time None)
       (\<lambda>placed. if placed then retS () else try_exits B i row current_time exs)"

definition check_trade_exit :: "bt_config \<Rightarrow> nat \<Rightarrow> bt_row \<Rightarrow> datetime \<Rightarrow> unit bt" where
  "check_trade_exit B i row current_time =
     thenS (run_funding_fees B i current_time False)
    (thenS (if bc_position_adjustment B then check_adjust_trade_for_candle B i row current_time else retS ())
    (readS (\<lambda>s. let t = trade_of s i
       in if t_is_open t then
            bindS (liftS (should_exit (bc_ccxt B) (bc_strategy B) (bc_clock B) t (r_open row) (r_date row)
                     ((if t_is_short t then r_enter_short row else r_enter_long row) \<noteq> 0)
                     ((if t_is_short t then r_exit_short row else r_exit_long row) \<noteq> 0)
                     (Some (r_low row)) (Some (r_high row)) 0))
              (\<lambda>(exits, t'). thenS (modS (put_trade i t')) (try_exits B i row current_time exits))
          else retS ())))"

section \<open>Open orders of a trade\<close>

text \<open>
  Whether an open order is cancelled: \<^term>\<open>Some True\<close> when the trade is to be removed, \<^term>\<open>Some False\<close>
  when only the order went, \<^term>\<open>None\<close> when it stays.
\<close>

definition check_order_cancel :: "bt_config \<Rightarrow> nat \<Rightarrow> order \<Rightarrow> datetime \<Rightarrow> bool option bt" where
  "check_order_cancel B i od current_time =
     readS (\<lambda>s. let t = trade_of s i
       in bindS (liftS (ft_check_timed_out (bc_strategy B) t od current_time)) (\<lambda>timedout.
            if \<not> timedout then retS None
            else if is_entry_order t od then
              thenS (modS (\<lambda>s. s\<lparr>br_timedout_entry := br_timedout_entry s + 1\<rparr>))
                (if nr_of_successful_entries t = 0 then retS (Some True)
                 else thenS (on_trade i (delete_order (o_order_id od))) (retS (Some False)))
            else if is_exit_order t od then
              thenS (modS (\<lambda>s. s\<lparr>br_timedout_exit := br_timedout_exit s + 1\<rparr>))
                (thenS (on_trade i (delete_order (o_order_id od))) (retS (Some False)))
            else retS None))"

text \<open>A new order for a replaced one; it says whether the trade is left without order and fill.\<close>

definition replace_order :: "bt_config \<Rightarrow> nat \<Rightarrow> order \<Rightarrow> bt_row \<Rightarrow> bool \<Rightarrow> flt \<Rightarrow> bool bt" where
  "replace_order B i od row is_entry rate =
     readS (\<lambda>s. let t = trade_of s i
       in thenS
            (if is_entry then
               bindS (enter_trade B (t_pair t) row (if t_is_short t then ''short'' else ''long'') None (Some i)
                        (Some rate) (Some (safe_remaining od * the (o_ft_price od) / t_leverage t)) None)
                 (\<lambda>_. modS (\<lambda>s. s\<lparr>br_replaced_entry := br_replaced_entry s + 1\<rparr>))
             else
               bindS (bt_exit_trade B i row rate (safe_remaining od) (o_ft_order_tag od))
                 (\<lambda>_. modS (\<lambda>s. s\<lparr>br_replaced_exit := br_replaced_exit s + 1\<rparr>)))
            (readS (\<lambda>s'. let t' = trade_of s' i
               in retS (\<not> has_open_orders t' \<and> is_entry \<and> nr_of_successful_entries t' = 0))))"

definition check_order_replace :: "bt_config \<Rightarrow> nat \<Rightarrow> order \<Rightarrow> datetime \<Rightarrow> bt_row \<Rightarrow> bool bt" where
  "check_order_replace B i od current_time row =
     readS (\<lambda>s. let t = trade_of s i
       in bindS (liftS (order_date_utc od)) (\<lambda>placed.
            if \<not> current_time > placed then retS False
            else
              (let is_entry = is_entry_order t od;
                   requested = cb_adjust_order_price (bc_callbacks B) t od current_time (r_open row)
               in if requested = o_ft_price od then retS False
                  else
                    thenS (on_trade i (delete_order (o_order_id od)))
                   (thenS (modS (\<lambda>s. if is_entry then s\<lparr>br_canceled_entry := br_canceled_entry s + 1\<rparr>
                                     else s\<lparr>br_canceled_exit := br_canceled_exit s + 1\<rparr>))
                     (if truthy requested then replace_order B i od row is_entry (the requested)
                      else readS (\<lambda>s'. retS (nr_of_successful_entries (trade_of s' i) = 0)))))))"

fun manage_orders :: "bt_config \<Rightarrow> nat \<Rightarrow> datetime \<Rightarrow> bt_row \<Rightarrow> order list \<Rightarrow> bool bt" where
  "manage_orders B i current_time row [] = retS False"
| "manage_orders B i current_time row (od # ods) =
     bindS (check_order_cancel B i od current_time) (\<lambda>oc.
       if oc = Some True then retS True
       else if oc = None then
         bindS (check_order_replace B i od current_time row) (\<lambda>gone.
           if gone then thenS (modS (\<lambda>s. s\<lparr>br_canceled_trade_entries := br_canceled_trade_entries s + 1\<rparr>)) (retS True)
           else manage_orders B i current_time row ods)
       else manage_orders B i current_time row ods)"

definition manage_open_orders :: "bt_config \<Rightarrow> nat \<Rightarrow> datetime \<Rightarrow> bt_row \<Rightarrow> bool bt" where
  "manage_open_orders B i current_time row =
     readS (\<lambda>s. manage_orders B i current_time row (filter o_ft_is_open (t_orders (trade_of s i))))"

section \<open>One candle of one pair\<close>

definition trade_slot_available :: "bt_config \<Rightarrow> int \<Rightarrow> bool bt" where
  "trade_slot_available B open_trade_count =
     (if (case bc_max_open_trades B of None \<Rightarrow> True | Some n \<Rightarrow> n \<le> 0 \<or> open_trade_count < n) then retS True
      else thenS (modS (\<lambda>s. s\<lparr>br_rejected := br_rejected s + 1\<rparr>)) (retS False))"

definition check_for_trade_entry :: "bt_config \<Rightarrow> bt_row \<Rightarrow> string option" where
  "check_for_trade_entry B row =
     (let enter_long = (r_enter_long row = 1); exit_long = (r_exit_long row = 1);
          enter_short = (bc_can_short B \<and> r_enter_short row = 1);
          exit_short = (bc_can_short B \<and> r_exit_short row = 1)
      in if enter_long \<and> \<not> (exit_long \<or> enter_short) then Some ''long''
         else if enter_short \<and> \<not> (exit_short \<or> enter_long) then Some ''short''
         else None)"

definition open_of_pair :: "bt_run \<Rightarrow> string \<Rightarrow> nat list" where
  "open_of_pair s pair = bt_trades_open_pp (br_bt s) pair"

definition manage_trade :: "bt_config \<Rightarrow> datetime \<Rightarrow> bt_row \<Rightarrow> nat \<Rightarrow> unit bt" where
  "manage_trade B current_time row i =
     bindS (manage_open_orders B i current_time row) (\<lambda>gone.
       if gone then thenS (on_bt (remove_bt_trade i)) (wallets_update B) else retS ())"

definition process_entries ::
    "bt_config \<Rightarrow> bt_row \<Rightarrow> string \<Rightarrow> string option \<Rightarrow> bool \<Rightarrow> unit bt" where
  "process_entries B row pair trade_dir can_enter =
     readS (\<lambda>s. case trade_dir of
         None \<Rightarrow> retS ()
       | Some dir \<Rightarrow>
           if can_enter \<and> (bc_position_stacking B \<or> open_of_pair s pair = [])
              \<and> \<not> is_pair_locked (br_locks s) pair (r_date row) dir
           then bindS (trade_slot_available B (bt_open_open_trade_count (br_bt s))) (\<lambda>free.
                  if free then
                    bindS (enter_trade B pair row dir None None None None None)
                      (\<lambda>t. if t \<noteq> None then wallets_update B else retS ())
                  else retS ())
           else retS ())"

definition process_trade :: "bt_config \<Rightarrow> datetime \<Rightarrow> bt_row \<Rightarrow> string \<Rightarrow> nat \<Rightarrow> unit bt" where
  "process_trade B current_time row pair i =
     readS (\<lambda>s.
       bindS (try_close_open_order B (select_order (trade_of s i) (Some (entry_side (trade_of s i))) (Some True) False)
                i current_time row) (\<lambda>filled.
       thenS (if filled then wallets_update B else retS ())
      (thenS (readS (\<lambda>s. if has_open_position (trade_of s i) then check_trade_exit B i row current_time else retS ()))
      (readS (\<lambda>s. case select_order (trade_of s i) (Some (exit_side (trade_of s i))) (Some True) False of
                     None \<Rightarrow> retS ()
                   | Some od \<Rightarrow> process_exit_order B od i current_time row pair)))))"

text \<open>The result is the direction of a position that was open before and is closed now.\<close>

definition backtest_loop ::
    "bt_config \<Rightarrow> bt_row \<Rightarrow> string \<Rightarrow> datetime \<Rightarrow> string option \<Rightarrow> bool \<Rightarrow> string option bt" where
  "backtest_loop B row pair current_time trade_dir can_enter =
     readS (\<lambda>s0.
       let exiting_dir = (if \<not> bc_position_stacking B \<and> open_of_pair s0 pair \<noteq> []
                          then Some (if t_is_short (trade_of s0 (hd (open_of_pair s0 pair))) then ''short'' else ''long'')
                          else None)
       in thenS (forS (open_of_pair s0 pair) (manage_trade B current_time row))
         (thenS (process_entries B row pair trade_dir can_enter)
         (thenS (readS (\<lambda>s. forS (open_of_pair s pair) (process_trade B current_time row pair)))
         (readS (\<lambda>s. retS (if open_of_pair s pair = [] then exiting_dir else None))))))"

text \<open>With shorting, a position that closes may be reversed on the same candle.\<close>

definition run_candle ::
    "bt_config \<Rightarrow> bt_row \<Rightarrow> string \<Rightarrow> datetime \<Rightarrow> string option \<Rightarrow> bool \<Rightarrow> unit bt" where
  "run_candle B row pair current_time trade_dir can_enter =
     bindS (backtest_loop B row pair current_time trade_dir can_enter) (\<lambda>a.
       if bc_can_short B \<and> trade_dir \<noteq> None \<and> a \<noteq> None \<and> a \<noteq> trade_dir
       then bindS (backtest_loop B row pair current_time trade_dir can_enter) (\<lambda>_. retS ())
       else retS ())"

section \<open>What is left open at the end\<close>

definition left_open_trade :: "bt_config \<Rightarrow> (string \<Rightarrow> bt_row list) \<Rightarrow> string \<Rightarrow> nat \<Rightarrow> unit bt" where
  "left_open_trade B data pair i =
     readS (\<lambda>s. let t = trade_of s i
       in if (has_open_orders t \<and> nr_of_successful_entries t = 0) \<or> \<not> has_open_position t
          then on_bt (remove_bt_trade i)
          else if data pair = [] then failS IndexError
          else
            (let row = last (data pair)
             in bindS (bt_exit_trade B i row (r_open row) (t_amount t) (Some (exit_type_value FORCE_EXIT))) (\<lambda>_.
                thenS (on_trade i (\<lambda>t. Inr (t\<lparr>t_exit_reason := Some (exit_type_value FORCE_EXIT)\<rparr>)))
                (readS (\<lambda>s'. process_exit_order B (last (t_orders (trade_of s' i))) i (r_date row) row pair)))))"

text \<open>\<open>keys\<close> are the pairs of the index of open trades, in the order they were first asked for.\<close>

definition handle_left_open :: "bt_config \<Rightarrow> (string \<Rightarrow> bt_row list) \<Rightarrow> string list \<Rightarrow> unit bt" where
  "handle_left_open B data keys =
     forS keys (\<lambda>pair. readS (\<lambda>s. forS (open_of_pair s pair) (left_open_trade B data pair)))"

end
