(* ===== verification/Bt_Run.thy ===== *)
theory Bt_Run
  imports Bt_Loop
begin

text \<open>
  The run of a backtest (optimize/backtesting.py): the order in which \<open>time_pair_generator\<close> visits
  times and pairs, with detail candles, and \<open>backtest\<close> itself. The generator is lazy: the pairs of
  a candle are chosen from the trades open at that moment, so it is modelled together with its
  consumer. The data provider, progress reports and the export of rejected signals are left out.
\<close>

section \<open>Times and candles\<close>

record run_config =
  rc_config :: bt_config
  rc_detail_us :: "int option"
  rc_detail :: "string \<Rightarrow> (datetime \<times> flt \<times> flt \<times> flt \<times> flt) list option"
  rc_whitelist :: "(datetime \<Rightarrow> string list) option" \<comment> \<open>of a dynamic pair list\<close>
  rc_capture :: bool

function times :: "datetime \<Rightarrow> datetime \<Rightarrow> int \<Rightarrow> datetime list" where
  "times current end_date step =
     (if 0 < step \<and> current \<le> end_date then current # times (current + step) end_date step else [])"
  by pat_completeness auto
termination by (relation "measure (\<lambda>(current, end_date, step). nat (end_date + 1 - current))") auto

declare times.simps [simp del]

definition time_generator :: "bt_config \<Rightarrow> datetime \<Rightarrow> datetime \<Rightarrow> datetime list" where
  "time_generator B start_date end_date = times (start_date + bc_timeframe_us B) end_date (bc_timeframe_us B)"

text \<open>Time, first candle of the main candle, detail candles exist, index.\<close>

definition time_generator_det :: "run_config \<Rightarrow> datetime \<Rightarrow> datetime \<Rightarrow> (datetime \<times> bool \<times> bool \<times> nat) list" where
  "time_generator_det R start_date end_date =
     (case rc_detail_us R of
        None \<Rightarrow> [(start_date, True, False, 0)]
      | Some d \<Rightarrow> List.map (\<lambda>(i, t). (t, i = 0, True, i)) (enumerate 0 (times start_date end_date d)))"

definition get_detail_data :: "run_config \<Rightarrow> string \<Rightarrow> bt_row \<Rightarrow> bt_row list option" where
  "get_detail_data R pair row =
     (case rc_detail R pair of
        None \<Rightarrow> None
      | Some candles \<Rightarrow>
          (let lo = r_date row; hi = r_date row + bc_timeframe_us (rc_config R);
               a = length (takeWhile (\<lambda>c. fst c < lo) candles);
               b = length (takeWhile (\<lambda>c. fst c < hi) candles)
           in if b \<le> a then None
              else Some (List.map (\<lambda>(d, op, hg, lw, cl). row\<lparr>r_date := d, r_open := op, r_high := hg, r_low := lw,
                                                             r_close := cl\<rparr>)
                           (drop a (take b candles)))))"

definition validate_row :: "(string \<Rightarrow> bt_row list) \<Rightarrow> string \<Rightarrow> nat \<Rightarrow> datetime \<Rightarrow> bt_row option" where
  "validate_row data pair row_index current_time =
     (if row_index < length (data pair) \<and> r_date (data pair ! row_index) \<le> current_time
      then Some (data pair ! row_index) else None)"

text \<open>With a dynamic pair list a stale index is moved forward to the row of the current time.\<close>

definition sync_pair_index :: "run_config \<Rightarrow> (string \<Rightarrow> bt_row list) \<Rightarrow> string \<Rightarrow> nat \<Rightarrow> datetime \<Rightarrow> nat" where
  "sync_pair_index R data pair row_index current_time =
     (if rc_whitelist R = None then row_index
      else row_index + length (takeWhile (\<lambda>r. r_date r < current_time) (drop row_index (data pair))))"

section \<open>The generator and the loop it feeds\<close>

text \<open>\<open>gs_keys\<close> are the keys of the index of open trades, in the order of their first use.\<close>

record gen_state =
  gs_run :: bt_run
  gs_indexes :: "string \<Rightarrow> nat"
  gs_detail_cache :: "string \<Rightarrow> bt_row list option"
  gs_tradedir :: "string \<Rightarrow> string option"
  gs_open_pairs :: "string list"
  gs_keys :: "string list"
  gs_captures :: "(datetime \<times> string \<times> flt \<times> flt) list"

definition capture_wallet :: "run_config \<Rightarrow> datetime \<Rightarrow> string \<Rightarrow> flt \<Rightarrow> gen_state \<Rightarrow> gen_state" where
  "capture_wallet R current_time currency price g =
     (let total = get_total (br_wallets (gs_run g)) currency
      in if rc_capture R \<and> total \<noteq> 0
         then g\<lparr>gs_captures := gs_captures g @ [(current_time, currency, price, total)]\<rparr> else g)"

definition pairs_of_open :: "bt_run \<Rightarrow> string list" where
  "pairs_of_open s = List.map (\<lambda>i. t_pair (trade_of s i)) (bt_trades_open (br_bt s))"

text \<open>\<open>list(dict.fromkeys(xs))\<close> keeps the first occurrence of each.\<close>

definition unique :: "'a list \<Rightarrow> 'a list" where
  "unique xs = rev (remdups (rev xs))"

text \<open>
  The row and direction for one pair at one time: from the data on the first candle, from the
  detail cache later. \<^term>\<open>None\<close> skips the pair.
\<close>

definition main_row ::
    "run_config \<Rightarrow> (string \<Rightarrow> bt_row list) \<Rightarrow> datetime \<Rightarrow> string \<Rightarrow> gen_state
       \<Rightarrow> ((bt_row \<times> string option) \<times> gen_state) option" where
  "main_row R data current_time pair g =
     (let i = sync_pair_index R data pair (gs_indexes g pair) current_time
      in case validate_row data pair i current_time of
           None \<Rightarrow> None
         | Some row \<Rightarrow>
             (let dir = check_for_trade_entry (rc_config R) row;
                  g1 = g\<lparr>gs_indexes := (gs_indexes g)(pair := i + 1), gs_tradedir := (gs_tradedir g)(pair := dir)\<rparr>
              in Some ((row, dir), capture_wallet R current_time (takeWhile (\<lambda>c. c \<noteq> CHR ''/'') pair) (r_open row) g1)))"

definition detail_row ::
    "run_config \<Rightarrow> datetime \<Rightarrow> datetime \<Rightarrow> nat \<Rightarrow> string \<Rightarrow> gen_state \<Rightarrow> (bt_row \<times> string option) option" where
  "detail_row R current_time current_time_det idx pair g =
     (case gs_detail_cache g pair of
        None \<Rightarrow> None
      | Some rows \<Rightarrow>
          if length rows \<le> idx then None
          else
            (let dir = gs_tradedir g pair; td = bc_timeframe_us (rc_config R)
             in Some (rows ! idx,
                  if ignore_expired_candle (bc_strategy (rc_config R)) (current_time - td) current_time_det
                       (td div 1000000) (dir \<noteq> None)
                  then None else dir)))"

text \<open>The first use of the index of open trades for a pair creates its key.\<close>

definition touch_key :: "string \<Rightarrow> gen_state \<Rightarrow> gen_state" where
  "touch_key pair g = (if pair \<in> set (gs_keys g) then g else g\<lparr>gs_keys := gs_keys g @ [pair]\<rparr>)"

text \<open>On the first candle of an active pair the detail candles are fetched and take over.\<close>

definition spread_detail ::
    "run_config \<Rightarrow> bool \<Rightarrow> bool \<Rightarrow> string \<Rightarrow> bt_row \<Rightarrow> string option \<Rightarrow> bool \<Rightarrow> gen_state \<Rightarrow> bt_row \<times> gen_state" where
  "spread_detail R is_first has_detail pair row dir has_open g =
     (if is_first \<and> (dir \<noteq> None \<or> has_open) \<and> has_detail \<and> gs_detail_cache g pair = None then
        (case get_detail_data R pair row of
           None \<Rightarrow> (row, g)
         | Some rows \<Rightarrow> (hd rows, g\<lparr>gs_detail_cache := (gs_detail_cache g)(pair \<mapsto> rows)\<rparr>))
      else (row, g))"

text \<open>A pair that was open at the start of the candle and is closed is not looked at again.\<close>

definition visit_row ::
    "run_config \<Rightarrow> datetime \<Rightarrow> datetime \<Rightarrow> bool \<Rightarrow> bool \<Rightarrow> string \<Rightarrow> bt_row \<Rightarrow> string option \<Rightarrow> gen_state
       \<Rightarrow> py_error + gen_state" where
  "visit_row R end_date current_time_det is_first has_detail pair row dir g =
     (let g1 = touch_key pair g;
          has_open = (open_of_pair (gs_run g) pair \<noteq> [])
      in if pair \<in> set (gs_open_pairs g1) \<and> \<not> has_open then Inr g1
         else
           (let g2 = (if has_open \<and> pair \<notin> set (gs_open_pairs g1)
                      then g1\<lparr>gs_open_pairs := gs_open_pairs g1 @ [pair]\<rparr> else g1);
                (row', g3) = spread_detail R is_first has_detail pair row dir has_open g2
            in bindE (run_candle (rc_config R) row' pair current_time_det dir (current_time_det \<noteq> end_date)
                        (gs_run g3))
                 (\<lambda>(_, s). Inr (g3\<lparr>gs_run := s\<rparr>))))"

definition visit_pair ::
    "run_config \<Rightarrow> (string \<Rightarrow> bt_row list) \<Rightarrow> datetime \<Rightarrow> datetime \<Rightarrow> datetime \<times> bool \<times> bool \<times> nat \<Rightarrow> string
       \<Rightarrow> gen_state \<Rightarrow> py_error + gen_state" where
  "visit_pair R data end_date current_time det pair g =
     (case det of (current_time_det, is_first, has_detail, idx) \<Rightarrow>
        if is_first then
          (case main_row R data current_time pair g of
             None \<Rightarrow> Inr g
           | Some ((row, dir), g0) \<Rightarrow>
               visit_row R end_date current_time_det is_first has_detail pair row dir g0)
        else
          (case detail_row R current_time current_time_det idx pair g of
             None \<Rightarrow> Inr g
           | Some (row, dir) \<Rightarrow>
               visit_row R end_date current_time_det is_first has_detail pair row dir g))"

definition visit_time ::
    "run_config \<Rightarrow> (string \<Rightarrow> bt_row list) \<Rightarrow> datetime \<Rightarrow> string list \<Rightarrow> datetime
       \<Rightarrow> datetime \<times> bool \<times> bool \<times> nat \<Rightarrow> gen_state \<Rightarrow> py_error + gen_state" where
  "visit_time R data end_date pairs current_time det g =
     runE (visit_pair R data end_date current_time det) (unique (pairs_of_open (gs_run g) @ pairs)) g"

definition visit_candle ::
    "run_config \<Rightarrow> (string \<Rightarrow> bt_row list) \<Rightarrow> datetime \<Rightarrow> string list \<Rightarrow> datetime \<Rightarrow> gen_state
       \<Rightarrow> py_error + gen_state" where
  "visit_candle R data end_date pairs current_time g =
     (let pairs' = (case rc_whitelist R of None \<Rightarrow> pairs | Some w \<Rightarrow> w current_time);
          g1 = g\<lparr>gs_detail_cache := Map.empty, gs_tradedir := (\<lambda>_. None),
                 gs_open_pairs := pairs_of_open (gs_run g)\<rparr>;
          g2 = capture_wallet R current_time (wc_stake_currency (bc_wallet_config (rc_config R))) 1 g1
      in runE (visit_time R data end_date pairs' current_time)
           (time_generator_det R current_time (current_time + bc_timeframe_us (rc_config R))) g2)"

section \<open>The backtest\<close>

definition reset_backtest :: "bt_config \<Rightarrow> bt_run \<Rightarrow> bt_run" where
  "reset_backtest B s = s\<lparr>br_bt := reset_trades (br_bt s),
     br_locks := reset_locks ((br_locks s)\<lparr>use_db := False, ls_timeframe := st_timeframe (bc_strategy B)\<rparr>),
     br_rejected := 0, br_timedout_entry := 0, br_timedout_exit := 0, br_canceled_trade_entries := 0,
     br_canceled_entry := 0, br_replaced_entry := 0, br_canceled_exit := 0, br_replaced_exit := 0\<rparr>"

definition gen_init :: "bt_run \<Rightarrow> gen_state" where
  "gen_init s = \<lparr>gs_run = s, gs_indexes = (\<lambda>_. 0), gs_detail_cache = Map.empty, gs_tradedir = (\<lambda>_. None),
     gs_open_pairs = [], gs_keys = [], gs_captures = []\<rparr>"

definition rows_of :: "(string \<times> analysed list) list \<Rightarrow> string \<Rightarrow> bt_row list" where
  "rows_of processed pair = (case map_of processed pair of None \<Rightarrow> [] | Some cs \<Rightarrow> get_ohlcv_as_lists cs)"

definition run_candles_until ::
    "run_config \<Rightarrow> (string \<times> analysed list) list \<Rightarrow> datetime list \<Rightarrow> datetime \<Rightarrow> bt_run \<Rightarrow> py_error + gen_state" where
  "run_candles_until R processed ts end_date s =
     (let data = rows_of processed
      in bindE (wallets_update (rc_config R) (reset_backtest (rc_config R) s)) (\<lambda>(_, s1).
           runE (visit_candle R data end_date (List.map fst processed)) ts (gen_init s1)))"

text \<open>\<open>processed\<close> is the dictionary of the trimmed analysed candles per pair.\<close>

definition backtest ::
    "run_config \<Rightarrow> (string \<times> analysed list) list \<Rightarrow> datetime \<Rightarrow> datetime \<Rightarrow> bt_run \<Rightarrow> py_error + gen_state" where
  "backtest R processed start_date end_date s =
     (let data = rows_of processed
      in bindE (run_candles_until R processed (time_generator (rc_config R) start_date end_date) end_date s) (\<lambda>g.
         bindE (handle_left_open (rc_config R) data (gs_keys g) (gs_run g)) (\<lambda>(_, s1).
         bindE (wallets_update (rc_config R) s1) (\<lambda>(_, s2). Inr (g\<lparr>gs_run := s2\<rparr>)))))"

end
