(* ===== verification/Bt_Frame.thy ===== *)
theory Bt_Frame
  imports Bt_Run
begin

text \<open>
  What the operations of a backtest leave alone: the pair, direction, identifier and opening date of
  a trade, and the shape of the container. A program obeys a relation when every run of it that
  returns ends in a related state; the rules for composed programs are proved once, in a locale
  over reflexive and transitive relations.
\<close>

section \<open>The identity of a trade\<close>

definition trade_key :: "trade \<Rightarrow> string \<times> bool \<times> int \<times> datetime" where
  "trade_key t = (t_pair t, t_is_short t, t_id t, t_open_date t)"

definition keeps_key :: "(trade \<Rightarrow> py_error + trade) \<Rightarrow> bool" where
  "keeps_key f \<longleftrightarrow> (\<forall>t t'. f t = Inr t' \<longrightarrow> trade_key t' = trade_key t)"

lemma keeps_keyI: "(\<And>t t'. f t = Inr t' \<Longrightarrow> trade_key t' = trade_key t) \<Longrightarrow> keeps_key f"
  by (simp add: keeps_key_def)

lemma set_stop_loss_key [simp]: "trade_key (set_stop_loss t x p) = trade_key t"
  by (simp add: trade_key_def set_stop_loss_def Let_def)

lemma adjust_stop_loss_key:
  assumes "adjust_stop_loss C price sl initial refresh t = Inr t'"
  shows "trade_key t' = trade_key t"
  using assms by (cases rule: adjust_stop_loss_cases) (simp_all add: trade_key_def set_stop_loss_def Let_def)

lemma recalc_key:
  assumes "recalc_trade_from_orders C now cl t = Inr t'"
  shows "trade_key t' = trade_key t"
proof -
  from assms obtain a t2 where a: "runE (recalc_step C now) (t_orders t) (recalc_init t) = Inr a"
    and t2: "finish_totals a = Inr t2" and t': "finish_position C cl a t2 = Inr t'"
    by (auto simp: recalc_trade_from_orders_def recalc_finish_def bindE_eq_Inr)
  from recalc_run_effect [OF a] have "trade_key (ra_self a) = trade_key t"
    by (auto simp: recalc_init_def trade_key_def)
  moreover from t2 have "trade_key t2 = trade_key (ra_self a)"
    by (auto simp: finish_totals_def trade_key_def Let_def split: if_splits option.splits)
  moreover from t' have "trade_key t' = trade_key t2"
    by (auto simp: finish_position_def reopen_position_def bindE_eq_Inr Let_def recalc_open_trade_value_def
        dest!: adjust_stop_loss_key split: if_splits) (simp_all add: trade_key_def)
  ultimately show ?thesis by simp
qed

lemma close_trade_key:
  assumes "close_trade C now rate t = Inr t'"
  shows "trade_key t' = trade_key t"
  using assms by (auto simp: close_trade_def bindE_eq_Inr dest!: recalc_key) (simp_all add: trade_key_def)

lemma close_bt_order_key:
  assumes "close_bt_order C now i d t = Inr t'"
  shows "trade_key t' = trade_key t"
  using assms
  by (auto simp: close_bt_order_def Let_def bindE_eq_Inr dest!: adjust_stop_loss_key recalc_key split: if_splits)
    (simp_all add: trade_key_def)

lemma ft_stoploss_adjust_key:
  assumes "ft_stoploss_adjust C S clock rate time profit force low high bp af t = Inr t'"
  shows "trade_key t' = trade_key t"
proof -
  from assms consider "t' = t" | s0 t1 t2 s1 rate' bp' dir where
      "adjust_stop_loss C (t_open_rate t) (Some s0) True False t = Inr t1"
      "apply_custom_stop C S time rate' bp' af dir s0 t1 = Inr (t2, s1)"
      "apply_trailing_stop C S rate' bp' dir s1 t2 = Inr t'"
    by (simp add: ft_stoploss_adjust_def Let_def bindE_eq_Inr split: if_splits) blast+
  then show ?thesis
    by cases (auto simp: apply_custom_stop_def apply_trailing_stop_def Let_def bindE_eq_Inr
        dest!: adjust_stop_loss_key split: if_splits)
qed

lemma should_exit_key:
  assumes "should_exit C S clock t rate time en ex low high force = Inr (exits, t')"
  shows "trade_key t' = trade_key t"
  using assms
  by (auto simp: should_exit_def ft_stoploss_reached_def bindE_eq_Inr dest!: ft_stoploss_adjust_key)
    (simp_all add: trade_key_def adjust_min_max_rates_def)

lemma set_funding_fees_key [simp]: "trade_key (set_funding_fees t f) = trade_key t"
  by (simp add: set_funding_fees_def trade_key_def Let_def split: option.split)

lemma delete_order_key: "delete_order i t = Inr t' \<Longrightarrow> trade_key t' = trade_key t"
  by (auto simp: delete_order_def trade_key_def split: if_splits)

lemma set_liquidation_price_key: "set_liquidation_price C t p = Inr t' \<Longrightarrow> trade_key t' = trade_key t"
  by (auto simp: set_liquidation_price_def trade_key_def bindE_eq_Inr split: option.splits)


lemma liquidation_step_key:
  assumes "liquidation_step C X w i s = Inr s'"
  shows "\<exists>t'. s' = write_trade i t' s \<and> trade_key t' = trade_key (bt_heap s i)"
  using assms by (auto simp: liquidation_step_def Let_def bindE_eq_Inr dest!: set_liquidation_price_key)

lemma swallow_dependency_Inr: "swallow_dependency r = Inr b \<Longrightarrow> b = snd r"
  by (auto simp: swallow_dependency_def split: option.splits if_splits)

section \<open>Programs that respect a relation\<close>

definition obeys :: "(bt_run \<Rightarrow> bt_run \<Rightarrow> bool) \<Rightarrow> 'a bt \<Rightarrow> bool" where
  "obeys R m \<longleftrightarrow> (\<forall>s x s'. m s = Inr (x, s') \<longrightarrow> R s s')"

lemma obeysI: "(\<And>s x s'. m s = Inr (x, s') \<Longrightarrow> R s s') \<Longrightarrow> obeys R m"
  by (simp add: obeys_def)

lemma obeysD: "obeys R m \<Longrightarrow> m s = Inr (x, s') \<Longrightarrow> R s s'"
  by (simp add: obeys_def)

lemma obeys_read: "(\<And>s. obeys R (f s)) \<Longrightarrow> obeys R (readS f)"
  by (auto simp: obeys_def readS_def)

lemma obeys_if: "obeys R m \<Longrightarrow> obeys R n \<Longrightarrow> obeys R (if b then m else n)"
  by simp

lemma obeys_option: "obeys R m \<Longrightarrow> (\<And>x. obeys R (f x)) \<Longrightarrow> obeys R (case a of None \<Rightarrow> m | Some x \<Rightarrow> f x)"
  by (cases a) auto

lemma obeys_sum: "(\<And>e. obeys R (f e)) \<Longrightarrow> (\<And>x. obeys R (g x)) \<Longrightarrow> obeys R (case a of Inl e \<Rightarrow> f e | Inr x \<Rightarrow> g x)"
  by (cases a) auto

lemma obeys_pair: "(\<And>x y. obeys R (f x y)) \<Longrightarrow> obeys R (case p of (x, y) \<Rightarrow> f x y)"
  by (cases p) auto

lemma obeys_fail: "obeys R (failS e)"
  by (simp add: obeys_def failS_def)

lemmas obeys_structural = obeys_read obeys_if obeys_option obeys_sum obeys_pair obeys_fail

locale bt_relation =
  fixes R :: "bt_run \<Rightarrow> bt_run \<Rightarrow> bool"
  assumes R_refl: "R s s"
    and R_trans: "R s t \<Longrightarrow> R t u \<Longrightarrow> R s u"
begin

lemma ret: "obeys R (retS x)"
  by (simp add: obeys_def retS_def R_refl)

lemma lift: "obeys R (liftS r)"
  by (auto simp: obeys_def liftS_def bindE_eq_Inr R_refl)

lemma bind: "obeys R m \<Longrightarrow> (\<And>x. obeys R (f x)) \<Longrightarrow> obeys R (bindS m f)"
  unfolding obeys_def bindS_def bindE_eq_Inr by (metis (no_types, lifting) R_trans old.prod.case surj_pair)

lemma seq: "obeys R m \<Longrightarrow> obeys R n \<Longrightarrow> obeys R (thenS m n)"
  by (simp add: thenS_def bind)

lemma for_each: "(\<And>x. obeys R (f x)) \<Longrightarrow> obeys R (forS xs f)"
  by (induction xs) (auto intro: ret seq)

lemmas composed = ret lift bind seq for_each obeys_structural

end

text \<open>
  A relation that only looks at what a change of a trade object, of counters, wallets and locks
  cannot reach, and that removing and closing a trade keep, is respected by every operation that
  does not open a trade.
\<close>

locale bt_frame = bt_relation +
  assumes R_put: "trade_key t = trade_key (trade_of s i) \<Longrightarrow> R s (put_trade i t s)"
    and R_wallets: "R s (s\<lparr>br_wallets := W\<rparr>)"
    and R_locks: "R s (s\<lparr>br_locks := L\<rparr>)"
    and R_order_id: "R s (s\<lparr>br_order_id := br_order_id s + 1\<rparr>)"
    and R_rejected: "R s (s\<lparr>br_rejected := n\<rparr>)"
    and R_timedout_entry: "R s (s\<lparr>br_timedout_entry := n\<rparr>)"
    and R_timedout_exit: "R s (s\<lparr>br_timedout_exit := n\<rparr>)"
    and R_canceled_trade_entries: "R s (s\<lparr>br_canceled_trade_entries := n\<rparr>)"
    and R_canceled_entry: "R s (s\<lparr>br_canceled_entry := n\<rparr>)"
    and R_replaced_entry: "R s (s\<lparr>br_replaced_entry := n\<rparr>)"
    and R_canceled_exit: "R s (s\<lparr>br_canceled_exit := n\<rparr>)"
    and R_replaced_exit: "R s (s\<lparr>br_replaced_exit := n\<rparr>)"
    and R_remove: "remove_bt_trade i (br_bt s) = Inr b \<Longrightarrow> R s (s\<lparr>br_bt := b\<rparr>)"
    and R_close: "close_bt_trade i (br_bt s) = Inr b \<Longrightarrow> R s (s\<lparr>br_bt := b\<rparr>)"
begin

lemmas R_counters = R_order_id R_rejected R_timedout_entry R_timedout_exit R_canceled_trade_entries
  R_canceled_entry R_replaced_entry R_canceled_exit R_replaced_exit

lemma trade_op: "keeps_key f \<Longrightarrow> obeys R (on_trade i f)"
  by (auto simp: obeys_def on_trade_def bindE_eq_Inr keeps_key_def intro: R_put)

lemma close_op: "obeys R (on_bt (close_bt_trade i))"
  by (auto simp: obeys_def on_bt_def bindE_eq_Inr intro: R_close)

lemma remove_op: "obeys R (on_bt (remove_bt_trade i))"
  by (auto simp: obeys_def on_bt_def bindE_eq_Inr intro: R_remove)

lemma wallets: "obeys R (wallets_update B)"
  by (auto simp: obeys_def wallets_update_def bindE_eq_Inr intro: R_wallets)

lemma protections: "obeys R (run_protections B pair now side)"
  by (auto simp: obeys_def run_protections_def bindE_eq_Inr intro: R_locks R_refl split: if_splits)

lemma change: "(\<And>s. R s (f s)) \<Longrightarrow> obeys R (modS f)"
  by (simp add: obeys_def modS_def)

lemma liquidation_step_R:
  assumes "liquidation_step C X w i (br_bt s) = Inr b"
  shows "R s (s\<lparr>br_bt := b\<rparr>)"
  using liquidation_step_key [OF assms] R_put [of _ s i] by (auto simp: put_trade_def trade_of_def)

lemma liquidation_loop_R:
  assumes "liquidation_loop C X w is (br_bt s) = (e, b)"
  shows "R s (s\<lparr>br_bt := b\<rparr>)"
  using assms
proof (induction "is" arbitrary: s)
  case Nil
  then show ?case by (auto intro: R_refl)
next
  case (Cons i js)
  show ?case
  proof (cases "has_open_position (bt_heap (br_bt s) i)")
    case False
    with Cons show ?thesis by simp
  next
    case open_position: True
    show ?thesis
    proof (cases "liquidation_step C X w i (br_bt s)")
      case (Inl err)
      with Cons.prems open_position show ?thesis by (auto intro: R_refl)
    next
      case (Inr b1)
      with Cons.prems open_position have "liquidation_loop C X w js (br_bt (s\<lparr>br_bt := b1\<rparr>)) = (e, b)"
        by simp
      from R_trans [OF liquidation_step_R [OF Inr] Cons.IH [OF this]] show ?thesis by simp
    qed
  qed
qed

lemma liquidation: "obeys R (update_liquidation B i)"
proof (rule obeysI)
  fix s x s'
  assume "update_liquidation B i s = Inr (x, s')"
  then obtain b where s': "s' = s\<lparr>br_bt := b\<rparr>"
    and "update_liquidation_prices (bc_ccxt B) (bc_liquidation B) (bc_wallet_config B) (br_wallets s) True
           (Some i) (br_bt s) = Inr b"
    by (auto simp: update_liquidation_def bindE_eq_Inr)
  then have b: "b = snd
       (if lx_margin_mode (bc_liquidation B) = CROSS
        then liquidation_loop (bc_ccxt B) (bc_liquidation B) (get_collateral (bc_wallet_config B) (br_wallets s))
               (get_open_trades (br_bt s)) (br_bt s)
        else case liquidation_step (bc_ccxt B) (bc_liquidation B) (t_stake_amount (bt_heap (br_bt s) i)) i (br_bt s) of
               Inl e \<Rightarrow> (Some e, br_bt s) | Inr b1 \<Rightarrow> (None, b1))"
    by (auto simp: update_liquidation_prices_def dest!: swallow_dependency_Inr)
  show "R s s'"
  proof (cases "lx_margin_mode (bc_liquidation B) = CROSS")
    case True
    with b s' show ?thesis by (auto intro!: liquidation_loop_R intro: prod.collapse [symmetric])
  next
    case False
    with b s' show ?thesis by (auto intro: liquidation_step_R R_refl split: sum.splits)
  qed
qed

subsection \<open>Orders\<close>

lemma funding: "obeys R (run_funding_fees B i now force)"
  unfolding run_funding_fees_def by (intro composed trade_op keeps_keyI) (auto simp: bindE_eq_Inr)

lemma adjust_stop: "obeys R (call_adjust_stop B now rate i)"
  unfolding call_adjust_stop_def
  by (intro trade_op keeps_keyI) (auto simp: bindE_eq_Inr dest: ft_stoploss_adjust_key)

lemma try_close: "obeys R (try_close_open_order B od i now row)"
  unfolding try_close_open_order_def Let_def
  by (intro composed funding adjust_stop liquidation trade_op keeps_keyI) (auto dest: close_bt_order_key)

lemma close_key: "keeps_key (\<lambda>t. close_trade C now rate (t\<lparr>t_close_date := d\<rparr>))"
  by (rule keeps_keyI) (auto dest!: close_trade_key simp: trade_key_def)

lemma replay: "obeys R (on_trade i (recalc_trade_from_orders C now cl))"
  by (intro trade_op keeps_keyI) (rule recalc_key)

lemma process_exit: "obeys R (process_exit_order B od i now row pair)"
  unfolding process_exit_order_def Let_def
  by (intro composed try_close replay close_op wallets protections trade_op close_key)

lemma delete: "obeys R (on_trade i (delete_order od))"
  by (intro trade_op keeps_keyI) (rule delete_order_key)

lemma write_field:
  "(\<And>t. trade_key (f t) = trade_key t) \<Longrightarrow> obeys R (on_trade i (\<lambda>t. Inr (f t)))"
  by (intro trade_op keeps_keyI) auto

lemma cancel_orders: "obeys R (cancel_open_orders i)"
  unfolding cancel_open_orders_def cancel_one_def Let_def
  by (intro composed delete change) (auto intro: R_counters R_refl)

lemma similar: "obeys R (handle_similar_order i price amount side)"
  unfolding handle_similar_order_def Let_def by (intro composed cancel_orders)

lemma next_id: "obeys R next_order_id"
  unfolding next_order_id_def by (intro change R_counters)

lemma append: "obeys R (append_order ord i)"
  unfolding append_order_def by (intro write_field) (simp add: trade_key_def)

lemma exit_trade: "obeys R (bt_exit_trade B i row rate amount reason)"
  unfolding bt_exit_trade_def Let_def by (intro composed next_id similar append)

lemma exit_for_signal: "obeys R (get_exit_for_signal B i row ex now amount)"
  unfolding get_exit_for_signal_def Let_def
  by (intro composed exit_trade write_field) (simp_all add: trade_key_def)

lemma exits: "obeys R (try_exits B i row now exs)"
  by (induction exs) (auto intro!: composed exit_for_signal)

subsection \<open>Entries into an existing trade\<close>

lemma valid_entry: "obeys R (get_valid_entry_price_and_stake B pair row rate stake dir now tag t prec mode)"
  by (rule obeysI)
    (auto simp: get_valid_entry_price_and_stake_def Let_def bindE_eq_Inr R_refl split: option.splits)

lemma place: "obeys R (place_entry B i pair row rate amount order_id tag)"
  unfolding place_entry_def Let_def
  by (intro composed append try_close replay trade_op keeps_keyI) (auto dest: adjust_stop_loss_key)

lemma enter_existing: "obeys R (enter_trade B pair row dir stake (Some i) rate rstake tag)"
  unfolding enter_trade_def trade_to_enter_def Let_def option.case
  by (intro composed valid_entry next_id similar place)

lemma reduce: "obeys R (reduce_position B i row now stake mn tag)"
  unfolding reduce_position_def Let_def by (intro composed exit_for_signal process_exit)

lemma adjust_position: "obeys R (check_adjust_trade_for_candle B i row now)"
  unfolding check_adjust_trade_for_candle_def Let_def
  by (intro composed enter_existing wallets reduce)

subsection \<open>Open orders and exits\<close>

lemma order_cancel: "obeys R (check_order_cancel B i od now)"
  unfolding check_order_cancel_def Let_def by (intro composed delete change R_counters)

lemma order_replace: "obeys R (check_order_replace B i od now row)"
  unfolding check_order_replace_def replace_order_def Let_def
  by (intro composed delete change enter_existing exit_trade) (auto intro: R_counters)

lemma orders: "obeys R (manage_orders B i now row ods)"
  by (induction ods) (auto intro!: composed order_cancel order_replace change R_counters)

lemma manage: "obeys R (manage_trade B now row i)"
  unfolding manage_trade_def manage_open_orders_def by (intro composed orders remove_op wallets)

lemma trade_exit: "obeys R (check_trade_exit B i row now)"
  unfolding check_trade_exit_def Let_def
proof (intro seq funding obeys_if adjust_position ret, rule obeysI)
  fix s x s'
  assume run: "readS (\<lambda>s. if t_is_open (trade_of s i) then
            bindS (liftS (should_exit (bc_ccxt B) (bc_strategy B) (bc_clock B) (trade_of s i) (r_open row) (r_date row)
                     ((if t_is_short (trade_of s i) then r_enter_short row else r_enter_long row) \<noteq> 0)
                     ((if t_is_short (trade_of s i) then r_exit_short row else r_exit_long row) \<noteq> 0)
                     (Some (r_low row)) (Some (r_high row)) 0))
              (\<lambda>(exits, t'). thenS (modS (put_trade i t')) (try_exits B i row now exits))
          else retS ()) s = Inr (x, s')"
  show "R s s'"
  proof (cases "t_is_open (trade_of s i)")
    case False
    with run show ?thesis by (simp add: readS_def retS_def R_refl)
  next
    case True
    with run obtain en ex exits t' where
      "should_exit (bc_ccxt B) (bc_strategy B) (bc_clock B) (trade_of s i) (r_open row) (r_date row)
         en ex (Some (r_low row)) (Some (r_high row)) 0 = Inr (exits, t')"
      and rest: "try_exits B i row now exits (put_trade i t' s) = Inr (x, s')"
      by (auto simp: readS_def bindS_def liftS_def thenS_def modS_def bindE_eq_Inr)
    from should_exit_key [OF this(1)] have "R s (put_trade i t' s)" by (rule R_put)
    from R_trans [OF this obeysD [OF exits rest]] show ?thesis .
  qed
qed

lemma process: "obeys R (process_trade B now row pair i)"
  unfolding process_trade_def by (intro composed try_close wallets trade_exit process_exit)

lemma left_open: "obeys R (left_open_trade B data pair i)"
  unfolding left_open_trade_def Let_def
  by (intro composed remove_op exit_trade write_field process_exit) (simp add: trade_key_def)

lemma all_left_open: "obeys R (handle_left_open B data keys)"
  unfolding handle_left_open_def by (intro composed left_open)

text \<open>The part of a candle before and after the entries.\<close>

lemma manage_all: "obeys R (readS (\<lambda>s. forS (open_of_pair s pair) (manage_trade B now row)))"
  by (intro composed manage)

lemma process_all: "obeys R (readS (\<lambda>s. forS (open_of_pair s pair) (process_trade B now row pair)))"
  by (intro composed process)

end

end
