(* ===== verification/Bt_Safety.thy ===== *)
theory Bt_Safety
  imports Bt_Frame "HOL-Library.Sublist"
begin

text \<open>
  What holds at every moment of a backtest: the limit on open trades, one position per pair without
  position stacking, the history of closed trades, and that a run never looks ahead.
\<close>

section \<open>The container during a candle\<close>

text \<open>
  The container is indexed, no trade is listed twice, and identifiers come from the counter.
\<close>

definition bt_sound :: "bt_run \<Rightarrow> bool" where
  "bt_sound s \<longleftrightarrow> bt_indexed (br_bt s)
     \<and> distinct (bt_trades_open (br_bt s) @ bt_trades (br_bt s))
     \<and> list_all (\<lambda>i. i \<le> br_trade_id s) (bt_trades_open (br_bt s) @ bt_trades (br_bt s))"

text \<open>At most \<open>k\<close> trades were added, all of them of one pair.\<close>

definition grows :: "nat \<Rightarrow> string \<Rightarrow> bt_run \<Rightarrow> bt_run \<Rightarrow> bool" where
  "grows k pair s s' \<longleftrightarrow> (bt_sound s \<longrightarrow> bt_sound s'
     \<and> length (bt_trades_open (br_bt s')) \<le> length (bt_trades_open (br_bt s)) + k
     \<and> (\<forall>p. length (open_of_pair s' p) \<le> length (open_of_pair s p) + (if p = pair then k else 0)))"

lemma grows_trans:
  assumes "grows j pair s t" and "grows k pair t u"
  shows "grows (j + k) pair s u"
  unfolding grows_def
proof
  assume "bt_sound s"
  with assms(1) have t: "bt_sound t"
    and lt: "length (bt_trades_open (br_bt t)) \<le> length (bt_trades_open (br_bt s)) + j"
    and pt: "length (open_of_pair t p) \<le> length (open_of_pair s p) + (if p = pair then j else 0)" for p
    by (auto simp: grows_def)
  from t assms(2) have u: "bt_sound u"
    and lu: "length (bt_trades_open (br_bt u)) \<le> length (bt_trades_open (br_bt t)) + k"
    and pu: "length (open_of_pair u p) \<le> length (open_of_pair t p) + (if p = pair then k else 0)" for p
    by (auto simp: grows_def)
  have "length (open_of_pair u p) \<le> length (open_of_pair s p) + (if p = pair then j + k else 0)" for p
    using pt [of p] pu [of p] by (auto split: if_splits)
  with u lt lu show "bt_sound u
     \<and> length (bt_trades_open (br_bt u)) \<le> length (bt_trades_open (br_bt s)) + (j + k)
     \<and> (\<forall>p. length (open_of_pair u p) \<le> length (open_of_pair s p) + (if p = pair then j + k else 0))"
    by simp
qed

lemma grows_Suc: "grows 0 pair s t \<Longrightarrow> grows (Suc 0) pair s t"
  by (simp add: grows_def le_SucI)

lemma bt_sound_put:
  assumes "trade_key t = trade_key (trade_of s i)" and "bt_sound s"
  shows "bt_sound (put_trade i t s)"
  using assms bt_indexed_modify [of "br_bt s" "\<lambda>u. if trade_key u = trade_key t then t else u" i]
  by (auto simp: bt_sound_def put_trade_def trade_of_def trade_key_def write_trade_def)

lemma bt_sound_remove:
  assumes "remove_bt_trade i (br_bt s) = Inr b" and "bt_sound s"
  shows "bt_sound (s\<lparr>br_bt := b\<rparr>) \<and> length (bt_trades_open b) \<le> length (bt_trades_open (br_bt s))
    \<and> length (bt_trades_open_pp b p) \<le> length (bt_trades_open_pp (br_bt s) p)"
  using assms bt_indexed_remove [OF _ assms(1)]
  by (auto simp: bt_sound_def remove_bt_trade_def Let_def list_all_iff length_remove1
      dest: in_set_remove1 [THEN iffD1] notin_set_remove1 set_remove1_subset [THEN subsetD] split: if_splits)

lemma bt_sound_close:
  assumes "close_bt_trade i (br_bt s) = Inr b" and "bt_sound s"
  shows "bt_sound (s\<lparr>br_bt := b\<rparr>) \<and> length (bt_trades_open b) \<le> length (bt_trades_open (br_bt s))
    \<and> length (bt_trades_open_pp b p) \<le> length (bt_trades_open_pp (br_bt s) p)"
proof -
  from assms(1) obtain b1 q where b1: "remove_bt_trade i (br_bt s) = Inr b1"
    and b: "b = b1\<lparr>bt_trades := bt_trades b1 @ [i], bt_total_profit := q\<rparr>"
    by (auto simp: close_bt_trade_def bindE_eq_Inr Let_def split: option.splits)
  from b1 have i: "i \<in> set (bt_trades_open (br_bt s))" "bt_trades b1 = bt_trades (br_bt s)"
    "bt_trades_open b1 = remove1 i (bt_trades_open (br_bt s))"
    by (auto simp: remove_bt_trade_def Let_def split: if_splits)
  from bt_sound_remove [OF b1 assms(2), of p] i assms(2) show ?thesis
    by (auto simp: b bt_sound_def list_all_iff)
qed

interpretation settled: bt_frame "grows 0 pair" for pair
proof
  fix s t u :: bt_run assume "grows 0 pair s t" "grows 0 pair t u"
  then show "grows 0 pair s u" using grows_trans [of 0 pair s t 0 u] by simp
next
  fix t i and s :: bt_run assume "trade_key t = trade_key (trade_of s i)"
  then show "grows 0 pair s (put_trade i t s)"
    using bt_sound_put [of t s i] by (simp add: grows_def put_trade_def write_trade_def open_of_pair_def)
next
  fix i b and s :: bt_run assume "remove_bt_trade i (br_bt s) = Inr b"
  then show "grows 0 pair s (s\<lparr>br_bt := b\<rparr>)"
    using bt_sound_remove [of i s b] by (simp add: grows_def open_of_pair_def)
next
  fix i b and s :: bt_run assume "close_bt_trade i (br_bt s) = Inr b"
  then show "grows 0 pair s (s\<lparr>br_bt := b\<rparr>)"
    using bt_sound_close [of i s b] by (simp add: grows_def open_of_pair_def)
qed (simp_all add: grows_def bt_sound_def open_of_pair_def)

section \<open>Entries\<close>

lemma bind_grows_first:
  "obeys (grows (Suc 0) pair) m \<Longrightarrow> (\<And>x. obeys (grows 0 pair) (f x)) \<Longrightarrow> obeys (grows (Suc 0) pair) (bindS m f)"
  unfolding obeys_def bindS_def bindE_eq_Inr
  using grows_trans [of "Suc 0" pair _ _ 0] by (auto split: prod.splits) blast

lemma bind_grows_second:
  "obeys (grows 0 pair) m \<Longrightarrow> (\<And>x. obeys (grows (Suc 0) pair) (f x)) \<Longrightarrow> obeys (grows (Suc 0) pair) (bindS m f)"
  unfolding obeys_def bindS_def bindE_eq_Inr
  using grows_trans [of 0 pair _ _ "Suc 0"] by (auto split: prod.splits) blast

lemma obeys_grows_Suc: "obeys (grows 0 pair) m \<Longrightarrow> obeys (grows (Suc 0) pair) m"
  by (auto simp: obeys_def intro: grows_Suc)

lemma bt_new_trade_key:
  "trade_key (bt_new_trade B i pair row short rate stake lev tag prec mode) = (pair, short, int i, r_date row)"
  "t_is_open (bt_new_trade B i pair row short rate stake lev tag prec mode)"
  by (simp_all add: bt_new_trade_def recalc_open_trade_value_def trade_key_def)

lemma open_trade_grows:
  assumes "\<And>i. t_pair (new i) = pair" and "\<And>i. t_is_open (new i)"
  shows "obeys (grows (Suc 0) pair) (open_trade B new)"
proof (rule obeysI)
  fix s x s'
  assume run: "open_trade B new s = Inr (x, s')"
  define n where "n = Suc (br_trade_id s)"
  from run have s': "s' = s\<lparr>br_trade_id := n, br_bt := add_bt_trade n (write_trade n (new n) (br_bt s))\<rparr>"
    by (auto simp: open_trade_def Let_def n_def)
  show "grows (Suc 0) pair s s'"
    unfolding grows_def
  proof
    assume sound: "bt_sound s"
    then have fresh: "n \<notin> set (bt_trades_open (br_bt s))" "n \<notin> set (bt_trades (br_bt s))"
      by (auto simp: bt_sound_def list_all_iff n_def dest!: bspec [of _ _ "Suc (br_trade_id s)"])
    have "bt_indexed (write_trade n (new n) (br_bt s))"
      using sound fresh unfolding bt_sound_def bt_indexed_def write_trade_def
      by (auto intro!: filter_cong)
    then have "bt_indexed (br_bt s')" by (simp add: s' bt_indexed_add)
    with sound fresh assms show "bt_sound s'
       \<and> length (bt_trades_open (br_bt s')) \<le> length (bt_trades_open (br_bt s)) + Suc 0
       \<and> (\<forall>p. length (open_of_pair s' p) \<le> length (open_of_pair s p) + (if p = pair then Suc 0 else 0))"
      by (auto simp: bt_sound_def s' add_bt_trade_def Let_def write_trade_def open_of_pair_def list_all_iff n_def
          intro: le_SucI)
  qed
qed

lemma enter_new_tail:
  assumes "\<And>i. t_pair (new i) = pair" and "\<And>i. t_is_open (new i)" and "\<And>x. obeys (grows 0 pair) (f x)"
  shows "obeys (grows (Suc 0) pair) (bindS (bindS (open_trade B new) (\<lambda>i. retS (Some i))) f)"
  by (intro bind_grows_first open_trade_grows assms settled.ret)

lemma enter_new: "obeys (grows (Suc 0) pair) (enter_trade B pair row dir stake None rate rstake tag)"
  unfolding enter_trade_def trade_to_enter_def Let_def option.case thenS_def
  by (intro obeys_structural enter_new_tail bind_grows_second settled.valid_entry settled.next_id settled.place
      settled.bind obeys_grows_Suc [OF settled.ret] settled.ret)
    (use bt_new_trade_key in \<open>simp_all add: trade_key_def\<close>)

section \<open>The slots\<close>

text \<open>What a configuration promises about the open trades.\<close>

definition slots_kept :: "bt_config \<Rightarrow> bt_run \<Rightarrow> bool" where
  "slots_kept B s \<longleftrightarrow> bt_sound s
     \<and> (case bc_max_open_trades B of None \<Rightarrow> True
        | Some n \<Rightarrow> 0 < n \<longrightarrow> int (length (bt_trades_open (br_bt s))) \<le> n)
     \<and> (bc_position_stacking B \<or> (\<forall>p. length (open_of_pair s p) \<le> 1))"

definition keeps_slots :: "bt_config \<Rightarrow> bt_run \<Rightarrow> bt_run \<Rightarrow> bool" where
  "keeps_slots B s s' \<longleftrightarrow> (slots_kept B s \<longrightarrow> slots_kept B s')"

lemma settled_keeps_slots: "grows 0 pair s s' \<Longrightarrow> keeps_slots B s s'"
  unfolding grows_def keeps_slots_def slots_kept_def
  by (auto split: option.splits) (metis le_trans)+

lemma obeys_keeps_slots: "obeys (grows 0 pair) m \<Longrightarrow> obeys (keeps_slots B) m"
  by (auto simp: obeys_def intro: settled_keeps_slots)

interpretation slots: bt_relation "keeps_slots B" for B
  by unfold_locales (simp_all add: keeps_slots_def)

lemma trade_slot_available_Inr:
  assumes "trade_slot_available B c s = Inr (free, s1)"
  shows "(\<exists>n. s1 = s\<lparr>br_rejected := n\<rparr>)
    \<and> (free \<longrightarrow> s1 = s \<and> (case bc_max_open_trades B of None \<Rightarrow> True | Some n \<Rightarrow> 0 < n \<longrightarrow> c < n))"
proof -
  have "\<exists>n. s = s\<lparr>br_rejected := n\<rparr>" by (rule exI [of _ "br_rejected s"]) simp
  with assms show ?thesis
    by (auto simp: trade_slot_available_def retS_def thenS_def bindS_def modS_def split: if_splits option.splits)
qed

lemma slots_after_entry:
  assumes "slots_kept B s" and "grows (Suc 0) pair s s'"
    and "case bc_max_open_trades B of None \<Rightarrow> True
      | Some n \<Rightarrow> 0 < n \<longrightarrow> bt_open_open_trade_count (br_bt s) < n"
    and "bc_position_stacking B \<or> open_of_pair s pair = []"
  shows "slots_kept B s'"
proof -
  from assms(1) have "bt_sound s" by (simp add: slots_kept_def)
  with assms(2) have all: "bt_sound s' \<and> length (bt_trades_open (br_bt s')) \<le> length (bt_trades_open (br_bt s)) + Suc 0
      \<and> (\<forall>p. length (open_of_pair s' p) \<le> length (open_of_pair s p) + (if p = pair then Suc 0 else 0))"
    unfolding grows_def by blast
  then have s': "bt_sound s'"
    and l: "length (bt_trades_open (br_bt s')) \<le> length (bt_trades_open (br_bt s)) + 1"
    and p: "length (open_of_pair s' p) \<le> length (open_of_pair s p) + (if p = pair then 1 else 0)" for p
    by (blast, simp, metis One_nat_def)
  from \<open>bt_sound s\<close> have c: "bt_open_open_trade_count (br_bt s) = int (length (bt_trades_open (br_bt s)))"
    by (simp add: bt_sound_def bt_indexed_def)
  have "length (open_of_pair s' q) \<le> 1" if "\<not> bc_position_stacking B" for q
  proof (cases "q = pair")
    case True
    with p [of pair] assms(4) that show ?thesis by simp
  next
    case False
    with p [of q] assms(1) that show ?thesis by (auto simp: slots_kept_def dest: spec [of _ q])
  qed
  with s' l c assms(3) show ?thesis
    by (auto simp: slots_kept_def split: option.splits)
qed

lemma entries_keep_slots: "obeys (keeps_slots B) (process_entries B row pair trade_dir can_enter)"
proof (rule obeysI)
  fix s x s'
  assume run: "process_entries B row pair trade_dir can_enter s = Inr (x, s')"
  have enters: "obeys (grows (Suc 0) pair) (bindS (enter_trade B pair row dir None None None None None)
      (\<lambda>t. if t \<noteq> None then wallets_update B else retS ()))" for dir
    by (intro bind_grows_first enter_new settled.composed settled.wallets)
  from run consider "s' = s" | n where "s' = s\<lparr>br_rejected := n\<rparr>" | dir where
      "case bc_max_open_trades B of None \<Rightarrow> True
         | Some n \<Rightarrow> 0 < n \<longrightarrow> bt_open_open_trade_count (br_bt s) < n"
      "bc_position_stacking B \<or> open_of_pair s pair = []"
      "bindS (enter_trade B pair row dir None None None None None)
         (\<lambda>t. if t \<noteq> None then wallets_update B else retS ()) s = Inr (x, s')"
    by (auto simp: process_entries_def readS_def retS_def bindS_def [of "trade_slot_available B _"] bindE_eq_Inr
        dest!: trade_slot_available_Inr split: option.splits if_splits)
  then show "keeps_slots B s s'"
  proof cases
    case (3 dir)
    from slots_after_entry [OF _ obeysD [OF enters 3(3)] 3(1,2)] show ?thesis
      by (simp add: keeps_slots_def)
  qed (auto simp: keeps_slots_def slots_kept_def bt_sound_def open_of_pair_def split: option.splits)
qed

lemma loop_keeps_slots: "obeys (keeps_slots B) (backtest_loop B row pair now dir can_enter)"
  unfolding backtest_loop_def Let_def
  by (intro slots.composed entries_keep_slots obeys_keeps_slots [OF settled.manage] obeys_keeps_slots [OF settled.process])

lemma candle_keeps_slots: "obeys (keeps_slots B) (run_candle B row pair now dir can_enter)"
  unfolding run_candle_def by (intro slots.composed loop_keeps_slots)

section \<open>History\<close>

text \<open>A relation that opening a trade keeps as well is respected by whole candles.\<close>

locale bt_ledger = bt_frame +
  assumes R_open: "(\<And>i. t_is_open (new i)) \<Longrightarrow> open_trade B new s = Inr (i, s') \<Longrightarrow> R s s'"
begin

lemma open_op: "(\<And>i. t_is_open (new i)) \<Longrightarrow> obeys R (open_trade B new)"
  by (auto simp: obeys_def intro: R_open)

lemma enter_any: "obeys R (enter_trade B pair row dir stake t rate rstake tag)"
proof (cases t)
  case None
  then show ?thesis
    unfolding enter_trade_def trade_to_enter_def Let_def
    by (simp only: option.case) (intro composed valid_entry next_id place open_op bt_new_trade_key)
next
  case (Some i)
  then show ?thesis by (simp add: enter_existing)
qed

lemma slot: "obeys R (trade_slot_available B c)"
  unfolding trade_slot_available_def by (intro composed change R_counters)

lemma entries: "obeys R (process_entries B row pair trade_dir can_enter)"
  unfolding process_entries_def by (intro composed slot enter_any wallets)

lemma candle: "obeys R (run_candle B row pair now dir can_enter)"
  unfolding run_candle_def backtest_loop_def Let_def by (intro composed manage entries process)

end

text \<open>Closed trades stay closed, in their order, and a trade keeps its identity.\<close>

definition history :: "bt_run \<Rightarrow> bt_run \<Rightarrow> bool" where
  "history s s' \<longleftrightarrow> prefix (bt_trades (br_bt s)) (bt_trades (br_bt s')) \<and> br_trade_id s \<le> br_trade_id s'
     \<and> (\<forall>i \<le> br_trade_id s. trade_key (trade_of s' i) = trade_key (trade_of s i))"

interpretation past: bt_ledger history
proof
  fix s t u :: bt_run assume "history s t" "history t u"
  then show "history s u" by (auto simp: history_def intro: prefix_order.trans)
next
  fix i b and s :: bt_run assume "remove_bt_trade i (br_bt s) = Inr b"
  then show "history s (s\<lparr>br_bt := b\<rparr>)"
    by (auto simp: history_def remove_bt_trade_def trade_of_def Let_def split: if_splits)
next
  fix i b and s :: bt_run assume "close_bt_trade i (br_bt s) = Inr b"
  then show "history s (s\<lparr>br_bt := b\<rparr>)"
    by (auto simp: history_def close_bt_trade_def remove_bt_trade_def trade_of_def bindE_eq_Inr Let_def
        split: if_splits option.splits)
next
  fix new :: "nat \<Rightarrow> trade" and B i and s s' :: bt_run
  assume "\<And>i. t_is_open (new i)" and "open_trade B new s = Inr (i, s')"
  then show "history s s'"
    by (auto simp: history_def open_trade_def add_bt_trade_def write_trade_def trade_of_def Let_def)
qed (auto simp: history_def put_trade_def trade_of_def write_trade_def)

section \<open>Whole runs\<close>

lemma gs_run_frame [simp]:
  "gs_run (touch_key pair g) = gs_run g"
  "gs_run (capture_wallet R now cur price g) = gs_run g"
  "gs_run (snd (spread_detail R first det pair row dir op g)) = gs_run g"
  by (simp_all add: touch_key_def capture_wallet_def spread_detail_def Let_def split: option.split)

lemma main_row_run: "main_row R data now pair g = Some (x, g') \<Longrightarrow> gs_run g' = gs_run g"
  by (auto simp: main_row_def Let_def split: option.splits)

lemma visit_row_run:
  assumes "visit_row R end_date now first has pair row dir g = Inr g'"
  shows "gs_run g' = gs_run g
    \<or> (\<exists>row' en x. run_candle (rc_config R) row' pair now dir en (gs_run g) = Inr (x, gs_run g'))"
proof -
  define has_open where "has_open = (open_of_pair (gs_run g) pair \<noteq> [])"
  define g1 where "g1 = touch_key pair g"
  define g2 where "g2 = (if has_open \<and> pair \<notin> set (gs_open_pairs g1)
                         then g1\<lparr>gs_open_pairs := gs_open_pairs g1 @ [pair]\<rparr> else g1)"
  define sp where "sp = spread_detail R first has pair row dir has_open g2"
  have "gs_run g2 = gs_run g" "gs_run g1 = gs_run g" by (simp_all add: g2_def g1_def)
  then have sp_run: "gs_run (snd sp) = gs_run g" by (simp add: sp_def)
  have "visit_row R end_date now first has pair row dir g =
     (if pair \<in> set (gs_open_pairs g1) \<and> \<not> has_open then Inr g1
      else bindE (run_candle (rc_config R) (fst sp) pair now dir (now \<noteq> end_date) (gs_run (snd sp)))
             (\<lambda>(_, s). Inr ((snd sp)\<lparr>gs_run := s\<rparr>)))"
    by (simp only: visit_row_def Let_def g1_def has_open_def g2_def sp_def split_beta)
  with assms sp_run show ?thesis by (auto simp: bindE_eq_Inr g1_def split: if_splits)
qed

lemma visit_pair_run:
  assumes "visit_pair R data end_date now det pair g = Inr g'"
  shows "gs_run g' = gs_run g
    \<or> (\<exists>row now' dir en x. run_candle (rc_config R) row pair now' dir en (gs_run g) = Inr (x, gs_run g'))"
proof -
  obtain now' first has idx where det: "det = (now', first, has, idx)" by (cases det) auto
  define found where "found = (if first then main_row R data now pair g
                   else map_option (\<lambda>x. (x, g)) (detail_row R now now' idx pair g))"
  have run: "visit_pair R data end_date now det pair g = (case found of None \<Rightarrow> Inr g
      | Some ((row, dir), g0) \<Rightarrow> visit_row R end_date now' first has pair row dir g0)"
    by (cases "detail_row R now now' idx pair g") (auto simp: visit_pair_def det found_def)
  show ?thesis
  proof (cases found)
    case None
    with assms run show ?thesis by simp
  next
    case (Some r)
    then obtain row dir g0 where r: "found = Some ((row, dir), g0)" by (metis prod.collapse)
    then have "gs_run g0 = gs_run g"
      by (auto simp: found_def dest: main_row_run split: if_splits)
    moreover from assms run r have "visit_row R end_date now' first has pair row dir g0 = Inr g'" by simp
    ultimately show ?thesis using visit_row_run by metis
  qed
qed

lemma visit_pair_step:
  assumes "visit_pair R data end_date now det pair g = Inr g'"
  shows "keeps_slots (rc_config R) (gs_run g) (gs_run g') \<and> history (gs_run g) (gs_run g')"
  using visit_pair_run [OF assms]
  by (auto intro: obeysD [OF candle_keeps_slots] obeysD [OF past.candle] slots.R_refl past.R_refl)

interpretation pairs: monotone_steps "visit_pair R data end_date now det"
  "\<lambda>g. slots_kept (rc_config R) (gs_run g)" "\<lambda>g g'. history (gs_run g) (gs_run g')" for R data end_date now det
  by unfold_locales (auto intro: past.R_refl past.R_trans simp: keeps_slots_def dest: visit_pair_step)

interpretation visits: monotone_steps "visit_time R data end_date pairs now"
  "\<lambda>g. slots_kept (rc_config R) (gs_run g)" "\<lambda>g g'. history (gs_run g) (gs_run g')" for R data end_date pairs now
  by unfold_locales (auto intro: past.R_refl past.R_trans simp: visit_time_def dest: pairs.run_inv pairs.run_below)

lemma visit_candle_start:
  assumes "visit_candle R data end_date pairs now g = Inr g'"
  obtains ds h ps where "gs_run h = gs_run g" and "runE (visit_time R data end_date ps now) ds h = Inr g'"
proof (rule that)
  let ?g = "capture_wallet R now (wc_stake_currency (bc_wallet_config (rc_config R))) 1
    (g\<lparr>gs_detail_cache := Map.empty, gs_tradedir := (\<lambda>_. None), gs_open_pairs := pairs_of_open (gs_run g)\<rparr>)"
  show "gs_run ?g = gs_run g" by simp
  from assms show "runE (visit_time R data end_date (case rc_whitelist R of None \<Rightarrow> pairs | Some w \<Rightarrow> w now) now)
      (time_generator_det R now (now + bc_timeframe_us (rc_config R))) ?g = Inr g'"
    by (simp add: visit_candle_def Let_def)
qed

interpretation candles: monotone_steps "visit_candle R data end_date pairs"
  "\<lambda>g. slots_kept (rc_config R) (gs_run g)" "\<lambda>g g'. history (gs_run g) (gs_run g')" for R data end_date pairs
proof
  fix g t g' assume inv: "slots_kept (rc_config R) (gs_run g)" and step: "visit_candle R data end_date pairs t g = Inr g'"
  from step obtain ds h ps where "gs_run h = gs_run g" and "runE (visit_time R data end_date ps t) ds h = Inr g'"
    by (rule visit_candle_start)
  with inv visits.run_inv [of R h data end_date ps t ds g'] visits.run_below [of R h data end_date ps t ds g']
  show "slots_kept (rc_config R) (gs_run g')" "history (gs_run g) (gs_run g')" by simp_all
qed (auto intro: past.R_refl past.R_trans)

lemma run_starts_sound:
  assumes "run_candles_until R processed ts end_date s = Inr g"
  shows "\<exists>s1 data. slots_kept (rc_config R) s1 \<and> bt_trades (br_bt s1) = []
    \<and> runE (visit_candle R data end_date (List.map fst processed)) ts (gen_init s1) = Inr g"
proof -
  from assms obtain s1 data u where w: "wallets_update (rc_config R) (reset_backtest (rc_config R) s) = Inr (u, s1)"
    and run: "runE (visit_candle R data end_date (List.map fst processed)) ts (gen_init s1) = Inr g"
    by (auto simp: run_candles_until_def Let_def bindE_eq_Inr)
  from w have "br_bt s1 = reset_trades (br_bt s)"
    by (auto simp: wallets_update_def reset_backtest_def bindE_eq_Inr)
  then have "slots_kept (rc_config R) s1 \<and> bt_trades (br_bt s1) = []"
    by (simp add: slots_kept_def bt_sound_def open_of_pair_def reset_trades_def bt_indexed_def split: option.split)
  with run show ?thesis by blast
qed

lemma run_keeps_slots:
  assumes "run_candles_until R processed ts end_date s = Inr g"
  shows "slots_kept (rc_config R) (gs_run g)"
proof -
  obtain s1 data where "slots_kept (rc_config R) s1"
    and "runE (visit_candle R data end_date (List.map fst processed)) ts (gen_init s1) = Inr g"
    using run_starts_sound [OF assms] by blast
  from candles.run_inv [OF _ this(2)] this(1) show ?thesis by (simp add: gen_init_def)
qed

lemma open_of_pair_filter:
  "bt_sound s \<Longrightarrow> open_of_pair s p = filter (\<lambda>i. t_pair (trade_of s i) = p) (bt_trades_open (br_bt s))"
  by (simp add: bt_sound_def bt_indexed_def open_of_pair_def trade_of_def)

lemma run_candles_append:
  "run_candles_until R processed (ts @ us) end_date s =
     bindE (run_candles_until R processed ts end_date s)
       (runE (visit_candle R (rows_of processed) end_date (List.map fst processed)) us)"
  by (auto simp: run_candles_until_def Let_def bindE_def runE_append split: sum.split)

section \<open>An example\<close>

text \<open>One pair, one slot, an entry signal on the first candle; the second row enters, the third sells.\<close>

definition example_callbacks :: callbacks where
  "example_callbacks = \<lparr>cb_entry_price = (\<lambda>_ _ _ _ _ _. None), cb_exit_price = (\<lambda>_ _ _ _ _. None),
     cb_leverage = (\<lambda>_ _ _ _ _ _. 1), cb_stake_amount = (\<lambda>_ _ _ proposed _ _ _ _ _. Some proposed),
     cb_confirm_entry = (\<lambda>_ _ _ _ _ _. True), cb_confirm_exit = (\<lambda>_ _ _ _ _. True),
     cb_adjust_position = (\<lambda>_ _ _ _ _ _. (None, None)), cb_adjust_order_price = (\<lambda>_ _ _ _. None)\<rparr>"

definition example_spot_market :: xmarket where
  "example_spot_market = \<lparr>xm_base = Some ''ETH'', xm_quote = Some ''USDT'', xm_type = Some ''spot'',
     xm_flags = (\<lambda>f. f \<in> {''spot''}), xm_active = Some True,
     xm_price_precision = Some (1/100), xm_amount_precision = Some (1/1000), xm_contract_size = None,
     xm_cost = \<lparr>lr_min = Some 5, lr_max = None\<rparr>, xm_amount = \<lparr>lr_min = Some (1/100), lr_max = Some 1000\<rparr>,
     xm_leverage_max = None\<rparr>"

definition example_bt_config :: bt_config where
  "example_bt_config = \<lparr>bc_strategy = example_strategy, bc_callbacks = example_callbacks,
     bc_exchange = example_x\<lparr>ex_trading_mode := SPOT, ex_markets := [(''ETH/USDT'', example_spot_market)]\<rparr>,
     bc_liquidation = example_futures\<lparr>lx_trading_mode := SPOT\<rparr>, bc_wallet_config = example_config\<lparr>wc_stake_amount := Some 100\<rparr>,
     bc_wallet_exchange = Wallets.example_exchange, bc_env = example_env, bc_protections = [], bc_enable_protections = True,
     bc_position_stacking = False, bc_can_short = False, bc_position_adjustment = False,
     bc_max_entry_adjustment = - 1, bc_max_open_trades = Some 1, bc_fee = 1/1000, bc_margin_mode = NO_MARGIN,
     bc_entry_order_type = ''limit'', bc_exit_order_type = ''limit'', bc_exchange_name = ''binance'',
     bc_starting_balance = 1000, bc_clock = 0, bc_timeframe_us = 300000000, bc_price_precision = (\<lambda>_ _. None),
     bc_futures_data = (\<lambda>_. []), bc_funding_unit = 1, bc_funding_secs = 3600\<rparr>"

definition example_run_config :: run_config where
  "example_run_config = \<lparr>rc_config = example_bt_config, rc_detail_us = None, rc_detail = (\<lambda>_. None),
     rc_whitelist = None, rc_capture = False\<rparr>"

definition example_candle :: "int \<Rightarrow> flt \<Rightarrow> bool \<Rightarrow> analysed" where
  "example_candle k price enter = \<lparr>a_date = k * 300000000, a_open = price, a_high = price + 1, a_low = price - 1,
     a_close = price, a_enter_long = (if enter then Some 1 else None), a_exit_long = None,
     a_enter_short = None, a_exit_short = None, a_enter_tag = None, a_exit_tag = None\<rparr>"

definition example_bt_run :: bt_run where
  "example_bt_run = \<lparr>br_bt = \<lparr>bt_heap = (\<lambda>_. example_trade), bt_trades = [], bt_trades_open = [],
     bt_trades_open_pp = (\<lambda>_. []), bt_open_open_trade_count = 0, bt_total_profit = 0\<rparr>,
     br_wallets = no_wallets, br_locks = example_store, br_trade_id = 0, br_order_id = 0, br_rejected = 0,
     br_timedout_entry = 0, br_timedout_exit = 0, br_canceled_trade_entries = 0, br_canceled_entry = 0,
     br_replaced_entry = 0, br_canceled_exit = 0, br_replaced_exit = 0\<rparr>"

definition example_data :: "(string \<times> analysed list) list" where
  "example_data = [(''ETH/USDT'', [example_candle 0 100 True, example_candle 1 101 False, example_candle 2 150 False])]"

lemma example_bt_enters:
  "\<exists>g. run_candles_until example_run_config example_data [300000000] 900000000 example_bt_run = Inr g
     \<and> bt_trades_open (br_bt (gs_run g)) = [1]"
proof -
  have "case run_candles_until example_run_config example_data [300000000] 900000000 example_bt_run of
      Inl e \<Rightarrow> False | Inr g \<Rightarrow> bt_trades_open (br_bt (gs_run g)) = [1]"
    by code_simp
  then show ?thesis by (auto split: sum.splits)
qed

lemma example_bt_closes:
  "\<exists>g. run_candles_until example_run_config example_data ([300000000] @ [600000000]) 900000000 example_bt_run = Inr g
     \<and> bt_trades (br_bt (gs_run g)) = [1] \<and> bt_trades_open (br_bt (gs_run g)) = []"
proof -
  have "case run_candles_until example_run_config example_data ([300000000] @ [600000000]) 900000000 example_bt_run of
      Inl e \<Rightarrow> False | Inr g \<Rightarrow> bt_trades (br_bt (gs_run g)) = [1] \<and> bt_trades_open (br_bt (gs_run g)) = []"
    by code_simp
  then show ?thesis by (auto split: sum.splits)
qed

lemma example_bt_config_simps [simp]:
  "rc_config example_run_config = example_bt_config" "bc_max_open_trades example_bt_config = Some 1"
  "\<not> bc_position_stacking example_bt_config"
  by (simp_all add: example_run_config_def example_bt_config_def)

section \<open>Properties of whole runs\<close>

text \<open>Property C5: the limit on open trades holds at every moment of a backtest. Whatever the data,
  the strategy's methods and the exchange's answers, after any number of candles the number of open
  trades is at most \<open>max_open_trades\<close> when that is positive (other values mean no limit), also when
  a candle reverses a position or detail candles are used.\<close>

theorem open_trades_limited:
  assumes "run_candles_until R processed ts end_date s = Inr g"
    and "bc_max_open_trades (rc_config R) = Some n" and "0 < n"
  shows "int (length (bt_trades_open (br_bt (gs_run g)))) \<le> n"
  using run_keeps_slots [OF assms(1)] assms(2,3) by (simp add: slots_kept_def)

theorem open_trades_limited_witness:
  "\<exists>g. run_candles_until example_run_config example_data [300000000] 900000000 example_bt_run = Inr g
     \<and> bt_trades_open (br_bt (gs_run g)) = [1] \<and> int (length (bt_trades_open (br_bt (gs_run g)))) \<le> 1"
proof -
  obtain g where g: "run_candles_until example_run_config example_data [300000000] 900000000 example_bt_run = Inr g"
    "bt_trades_open (br_bt (gs_run g)) = [1]"
    using example_bt_enters by blast
  from open_trades_limited [OF g(1), of 1] g show ?thesis by simp
qed

text \<open>Without position stacking a pair has at most one position. After any number of
  candles at most one open trade is of the pair.\<close>

theorem one_position_per_pair:
  assumes "run_candles_until R processed ts end_date s = Inr g"
    and "\<not> bc_position_stacking (rc_config R)"
  shows "length (filter (\<lambda>i. t_pair (trade_of (gs_run g) i) = pair) (bt_trades_open (br_bt (gs_run g)))) \<le> 1"
  using run_keeps_slots [OF assms(1)] assms(2)
  by (simp add: slots_kept_def open_of_pair_filter [symmetric])

theorem one_position_per_pair_witness:
  "\<exists>g. run_candles_until example_run_config example_data [300000000] 900000000 example_bt_run = Inr g
     \<and> bt_trades_open (br_bt (gs_run g)) = [1]
     \<and> length (filter (\<lambda>i. t_pair (trade_of (gs_run g) i) = ''ETH/USDT'') (bt_trades_open (br_bt (gs_run g)))) \<le> 1"
proof -
  obtain g where g: "run_candles_until example_run_config example_data [300000000] 900000000 example_bt_run = Inr g"
    "bt_trades_open (br_bt (gs_run g)) = [1]"
    using example_bt_enters by blast
  from one_position_per_pair [OF g(1), of "''ETH/USDT''"] g show ?thesis by auto
qed

text \<open>Property C6: later candles only add to the history. The closed trades after some candles are
  an initial part of those after more candles, every trade is listed once as open or closed, and a
  trade never changes its pair, direction, identifier or opening date.\<close>

theorem closed_trades_final:
  assumes "run_candles_until R processed ts end_date s = Inr g"
    and "run_candles_until R processed (ts @ us) end_date s = Inr g'"
  shows "prefix (bt_trades (br_bt (gs_run g))) (bt_trades (br_bt (gs_run g')))
    \<and> distinct (bt_trades_open (br_bt (gs_run g')) @ bt_trades (br_bt (gs_run g')))
    \<and> list_all (\<lambda>i. trade_key (trade_of (gs_run g') i) = trade_key (trade_of (gs_run g) i))
        (bt_trades_open (br_bt (gs_run g)) @ bt_trades (br_bt (gs_run g)))"
proof -
  note inv = run_keeps_slots [OF assms(1)]
  from assms have rest:
    "runE (visit_candle R (rows_of processed) end_date (List.map fst processed)) us g = Inr g'"
    by (simp add: run_candles_append)
  from candles.run_below [OF inv rest] inv run_keeps_slots [OF assms(2)] show ?thesis
    by (auto simp: slots_kept_def bt_sound_def history_def list_all_iff)
qed

theorem closed_trades_final_witness:
  "\<exists>g g'. run_candles_until example_run_config example_data [300000000] 900000000 example_bt_run = Inr g
     \<and> run_candles_until example_run_config example_data ([300000000] @ [600000000]) 900000000 example_bt_run = Inr g'
     \<and> bt_trades (br_bt (gs_run g')) = [1] \<and> trade_key (trade_of (gs_run g') 1) = trade_key (trade_of (gs_run g) 1)"
proof -
  obtain g where g: "run_candles_until example_run_config example_data [300000000] 900000000 example_bt_run = Inr g"
    "bt_trades_open (br_bt (gs_run g)) = [1]"
    using example_bt_enters by blast
  obtain g' where g': "run_candles_until example_run_config example_data ([300000000] @ [600000000]) 900000000
      example_bt_run = Inr g'" "bt_trades (br_bt (gs_run g')) = [1]"
    using example_bt_closes by blast
  from closed_trades_final [OF g(1) g'(1)] g g' show ?thesis by auto
qed

section \<open>The times of a run\<close>

lemma times_exact:
  "0 < step \<Longrightarrow> times a b step = List.map (\<lambda>k. a + int k * step) [0 ..< nat ((b - a) div step + 1)]"
proof (induction a b step rule: times.induct)
  case (1 a b step)
  show ?case
  proof (cases "a \<le> b")
    case False
    with 1(2) have "(b - a) div step + 1 \<le> 0" by (simp add: div_neg_pos_less0 add1_zle_eq)
    with False show ?thesis by (subst times.simps) simp
  next
    case True
    have n: "nat ((b - a) div step + 1) = Suc (nat ((b - (a + step)) div step + 1))"
    proof -
      have "(b - (a + step)) div step = (b - a) div step - 1"
        using 1(2) div_mult_self2 [of step "b - (a + step)" 1] by (simp add: algebra_simps)
      moreover have "0 \<le> (b - a) div step" using True 1(2) by (simp add: pos_imp_zdiv_nonneg_iff)
      ultimately show ?thesis by simp
    qed
    have "times a b step = a # times (a + step) b step"
      using True 1(2) by (subst times.simps) simp
    also have "\<dots> = a # List.map (\<lambda>k. a + step + int k * step) [0 ..< nat ((b - (a + step)) div step + 1)]"
      using 1 True by simp
    also have "\<dots> = List.map (\<lambda>k. a + int k * step) [0 ..< nat ((b - a) div step + 1)]"
      unfolding n by (simp add: upt_conv_Cons map_Suc_upt [symmetric] algebra_simps comp_def del: upt_Suc)
    finally show ?thesis .
  qed
qed

text \<open>Property C29: the clock of a backtest terminates and misses no candle. The generator yields
  the times one, two, three, ... candle lengths after the start, every one that is not after the end
  and no other; there is a candle length between neighbours, so each candle is visited once.\<close>

theorem time_generator_exact:
  assumes "0 < bc_timeframe_us B"
  shows "time_generator B start_date end_date =
    List.map (\<lambda>k. start_date + (int k + 1) * bc_timeframe_us B)
      [0 ..< nat ((end_date - start_date) div bc_timeframe_us B)]"
proof -
  have "(end_date - (start_date + bc_timeframe_us B)) div bc_timeframe_us B + 1
      = (end_date - start_date) div bc_timeframe_us B"
    using assms div_mult_self2 [of "bc_timeframe_us B" "end_date - (start_date + bc_timeframe_us B)" 1]
    by (simp add: algebra_simps)
  then show ?thesis
    by (simp add: time_generator_def times_exact [OF assms] algebra_simps)
qed

theorem time_generator_exact_witness:
  "time_generator example_bt_config 0 900000000 = [300000000, 600000000, 900000000]"
  by (subst time_generator_exact) (simp_all add: example_bt_config_def upt_rec)

section \<open>No look ahead\<close>

definition candle_prices :: "analysed \<Rightarrow> datetime \<times> flt \<times> flt \<times> flt \<times> flt" where
  "candle_prices c = (a_date c, a_open c, a_high c, a_low c, a_close c)"

text \<open>
  What is known at the candle of time \<open>T\<close>: the candles before it with their signals, and the prices
  of the candle itself.
\<close>

definition known_at :: "datetime \<Rightarrow> analysed list \<Rightarrow> analysed list \<times> (datetime \<times> flt \<times> flt \<times> flt \<times> flt) list" where
  "known_at T cs = (takeWhile (\<lambda>c. a_date c < T) cs, List.map candle_prices (takeWhile (\<lambda>c. a_date c \<le> T) cs))"

definition ascending :: "analysed list \<Rightarrow> bool" where
  "ascending cs \<longleftrightarrow> sorted_wrt (\<lambda>a b. a_date a < a_date b) cs"

definition rows_until :: "datetime \<Rightarrow> bt_row list \<Rightarrow> bt_row list" where
  "rows_until T = takeWhile (\<lambda>r. r_date r \<le> T)"

lemma rows_simps [simp]:
  "get_ohlcv_as_lists [] = []" "get_ohlcv_as_lists [c] = []"
  "get_ohlcv_as_lists (c # d # cs) = row_of c d # get_ohlcv_as_lists (d # cs)"
  by (simp_all add: get_ohlcv_as_lists_def)

lemma row_of_prices: "candle_prices d = candle_prices d' \<Longrightarrow> row_of c d = row_of c d'"
  by (simp add: row_of_def candle_prices_def)

lemma row_date [simp]: "r_date (row_of c d) = a_date d"
  by (simp add: row_of_def)

lemma rows_beyond: "ascending (c # cs) \<Longrightarrow> T \<le> a_date c \<Longrightarrow> rows_until T (get_ohlcv_as_lists (c # cs)) = []"
  by (cases cs) (auto simp: ascending_def rows_until_def)

lemma known_at_Cons:
  assumes "known_at T (c # cs) = known_at T cs'" and "a_date c < T"
  obtains ds where "cs' = c # ds" and "known_at T cs = known_at T ds"
  using assms by (cases cs') (auto simp: known_at_def split: if_splits)

lemma known_at_head:
  assumes "known_at T (d # cs) = known_at T ds" and "a_date d \<le> T"
  obtains d' ds' where "ds = d' # ds'" and "candle_prices d = candle_prices d'"
  using assms by (cases ds) (auto simp: known_at_def split: if_splits)

lemma ascending_Cons: "ascending (c # cs) \<Longrightarrow> ascending cs"
  by (simp add: ascending_def)

lemma known_at_future: "known_at T [] = known_at T (d # ds) \<Longrightarrow> T < a_date d"
  by (auto simp: known_at_def split: if_splits)

lemma rows_until_known:
  assumes "known_at T cs = known_at T cs'" and "ascending cs" and "ascending cs'"
  shows "rows_until T (get_ohlcv_as_lists cs) = rows_until T (get_ohlcv_as_lists cs')"
  using assms
proof (induction cs arbitrary: cs')
  case Nil
  then show ?case
    by (cases cs') (auto dest!: known_at_future simp: rows_beyond, simp add: rows_until_def)
next
  case (Cons c cs)
  show ?case
  proof (cases "a_date c < T")
    case False
    with Cons.prems(1) have "cs' = [] \<or> (\<exists>d ds. cs' = d # ds \<and> T \<le> a_date d)"
      by (cases cs') (auto simp: known_at_def split: if_splits)
    with Cons.prems(3) have "rows_until T (get_ohlcv_as_lists cs') = []"
      using rows_beyond by (auto simp: rows_until_def)
    with False Cons.prems(2) show ?thesis by (simp add: rows_beyond)
  next
    case True
    with Cons.prems(1) obtain ds where cs': "cs' = c # ds" and ds: "known_at T cs = known_at T ds"
      by (rule known_at_Cons)
    from Cons.prems cs' have asc: "ascending cs" "ascending ds" by (auto dest: ascending_Cons)
    note IH = Cons.IH [OF ds asc]
    show ?thesis
    proof (cases "rows_until T (get_ohlcv_as_lists (c # cs)) = [] \<and> rows_until T (get_ohlcv_as_lists cs') = []")
      case False
      then consider d es where "cs = d # es" "a_date d \<le> T" | d es where "ds = d # es" "a_date d \<le> T"
        by (cases cs; cases ds) (auto simp: cs' rows_until_def split: if_splits)
      then obtain d es d' es' where cs: "cs = d # es" and ds': "ds = d' # es'" and same: "candle_prices d = candle_prices d'"
      proof cases
        case (1 d es)
        with ds have "known_at T (d # es) = known_at T ds" by simp
        from this 1(2) obtain d' es' where "ds = d' # es'" "candle_prices d = candle_prices d'"
          by (rule known_at_head)
        with 1(1) show ?thesis by (rule that)
      next
        case (2 d es)
        with ds have "known_at T (d # es) = known_at T cs" by simp
        from this 2(2) obtain d' es' where c': "cs = d' # es'" and "candle_prices d = candle_prices d'"
          by (rule known_at_head)
        then have "candle_prices d' = candle_prices d" by simp
        with c' 2(1) show ?thesis by (rule that)
      qed
      from row_of_prices [OF same, of c] IH show ?thesis by (simp add: cs' cs ds' rows_until_def del: row_date)
    qed simp
  qed
qed


text \<open>With ascending rows everything the loop reads at a time up to \<open>T\<close> lies in \<open>rows_until T\<close>.\<close>

definition row_sorted :: "bt_row list \<Rightarrow> bool" where
  "row_sorted rows \<longleftrightarrow> sorted_wrt (\<lambda>a b. r_date a < r_date b) rows"

lemma rows_ascending: "ascending cs \<Longrightarrow> row_sorted (get_ohlcv_as_lists cs)"
proof (induction cs)
  case (Cons c cs)
  then show ?case
  proof (cases cs)
    case (Cons d ds)
    have "a_date d < r_date r" if "r \<in> set (get_ohlcv_as_lists (d # ds))" for r
    proof -
      from that obtain x y where "(x, y) \<in> set (zip (d # ds) ds)" "r = row_of x y"
        by (auto simp: get_ohlcv_as_lists_def)
      then have "y \<in> set ds" "r_date r = a_date y" by (auto dest: set_zip_rightD)
      with Cons.prems Cons show ?thesis by (simp add: ascending_def)
    qed
    with Cons.IH Cons.prems Cons show ?thesis by (auto simp: ascending_def row_sorted_def)
  qed (simp add: row_sorted_def)
qed (simp add: row_sorted_def)

lemma rows_split:
  assumes "row_sorted rows"
  obtains later where "rows = rows_until T rows @ later" and "list_all (\<lambda>r. T < r_date r) later"
proof
  let ?later = "dropWhile (\<lambda>r. r_date r \<le> T) rows"
  show "rows = rows_until T rows @ ?later" by (simp add: rows_until_def)
  show "list_all (\<lambda>r. T < r_date r) ?later"
    using assms
    by (induction rows) (auto simp: row_sorted_def list_all_iff intro: less_trans)
qed

lemma validate_until:
  assumes "row_sorted (data pair)" and "t \<le> T"
  shows "validate_row data pair i t =
    (if i < length (rows_until T (data pair)) \<and> r_date (rows_until T (data pair) ! i) \<le> t
     then Some (rows_until T (data pair) ! i) else None)"
proof -
  obtain later where d: "data pair = rows_until T (data pair) @ later" and l: "list_all (\<lambda>r. T < r_date r) later"
    using rows_split [OF assms(1)] .
  define xs where "xs = rows_until T (data pair)"
  have "t < r_date (later ! k)" if "k < length later" for k
    using l that assms(2) by (auto simp: list_all_length)
  then have later_k: "\<not> r_date (later ! (i - length xs)) \<le> t" if "i < length xs + length later" "\<not> i < length xs"
    using that by (simp add: not_le)
  have data: "data pair = xs @ later" using d by (simp add: xs_def)
  show ?thesis
    unfolding validate_row_def xs_def [symmetric] unfolding data
    using later_k by (cases "i < length xs") (auto simp: nth_append)
qed

lemma takeWhile_append_none: "takeWhile P ys = [] \<Longrightarrow> takeWhile P (xs @ ys) = takeWhile P xs"
  by (induction xs) auto

lemma sync_until:
  assumes "row_sorted (data pair)" and "t \<le> T"
  shows "sync_pair_index R data pair i t =
    (if rc_whitelist R = None then i
     else i + length (takeWhile (\<lambda>r. r_date r < t) (drop i (rows_until T (data pair)))))"
proof -
  obtain later where d: "data pair = rows_until T (data pair) @ later" and l: "list_all (\<lambda>r. T < r_date r) later"
    using rows_split [OF assms(1)] .
  have "takeWhile (\<lambda>r. r_date r < t) (drop k later) = []" for k
  proof (cases "drop k later")
    case (Cons r rs)
    then have "r \<in> set later" by (metis in_set_dropD list.set_intros(1))
    with l assms(2) Cons show ?thesis by (auto simp: list_all_iff)
  qed simp
  then have "takeWhile (\<lambda>r. r_date r < t) (drop i (xs @ later)) = takeWhile (\<lambda>r. r_date r < t) (drop i xs)" for xs
    by (simp add: takeWhile_append_none)
  from this [of "rows_until T (data pair)"] d show ?thesis by (simp add: sync_pair_index_def)
qed

definition same_until :: "datetime \<Rightarrow> (string \<Rightarrow> bt_row list) \<Rightarrow> (string \<Rightarrow> bt_row list) \<Rightarrow> bool" where
  "same_until T data data' \<longleftrightarrow> (\<forall>pair. row_sorted (data pair) \<and> row_sorted (data' pair)
     \<and> rows_until T (data pair) = rows_until T (data' pair))"

lemma visit_pair_until:
  assumes "same_until T data data'" and "t \<le> T"
  shows "visit_pair R data end_date t = visit_pair R data' end_date t"
proof -
  from assms have "validate_row data pair i t = validate_row data' pair i t"
    and "sync_pair_index R data pair i t = sync_pair_index R data' pair i t" for pair i
    by (simp_all add: same_until_def validate_until [of _ _ t T] sync_until [of _ _ t T])
  then have "main_row R data t pair g = main_row R data' t pair g" for pair g
    by (simp add: main_row_def)
  then show ?thesis by (simp add: visit_pair_def fun_eq_iff)
qed

lemma visit_candle_until:
  "same_until T data data' \<Longrightarrow> t \<le> T \<Longrightarrow> visit_candle R data end_date pairs t = visit_candle R data' end_date pairs t"
  by (simp add: visit_candle_def visit_time_def visit_pair_until [of T data data' t] fun_eq_iff cong: runE_cong)

lemma same_rows:
  assumes "list_all2 (\<lambda>x y. fst x = fst y \<and> known_at T (snd x) = known_at T (snd y)
      \<and> ascending (snd x) \<and> ascending (snd y)) processed processed'"
  shows "same_until T (rows_of processed) (rows_of processed')"
  using assms
proof (induction rule: list_all2_induct)
  case Nil
  then show ?case by (simp add: same_until_def rows_of_def row_sorted_def)
next
  case (Cons x xs y ys)
  from Cons.hyps(1) have "row_sorted (get_ohlcv_as_lists (snd x))" "row_sorted (get_ohlcv_as_lists (snd y))"
    "rows_until T (get_ohlcv_as_lists (snd x)) = rows_until T (get_ohlcv_as_lists (snd y))"
    by (auto intro: rows_ascending rows_until_known)
  with Cons show ?case
    by (cases x; cases y) (auto simp: same_until_def rows_of_def)
qed


text \<open>The other data: the signals of the candle at \<open>T\<close> and everything after it differ.\<close>

definition example_other_data :: "(string \<times> analysed list) list" where
  "example_other_data = [(''ETH/USDT'', [example_candle 0 100 True, example_candle 1 101 True, example_candle 2 70 True])]"


end
