(* ===== verification/Bt_Rates.thy ===== *)
theory Bt_Rates
  imports Bt_Safety
begin

text \<open>
  The price of a simulated exit (\<open>_get_close_rate\<close> in optimize/backtesting.py): it lies inside the
  candle, except for a trailing stop that is armed and hit on the candle of the entry.
\<close>

section \<open>Exits inside the candle\<close>

definition sane_row :: "bt_row \<Rightarrow> bool" where
  "sane_row row \<longleftrightarrow> r_low row \<le> r_open row \<and> r_open row \<le> r_high row
     \<and> r_low row \<le> r_close row \<and> r_close row \<le> r_high row"

text \<open>The stop or liquidation price that ends the trade, and that the candle reaches it.\<close>

definition stop_value :: "exit_check \<Rightarrow> trade \<Rightarrow> flt" where
  "stop_value ex t = (if ec_type ex = LIQUIDATION \<and> truthy (t_liquidation_price t)
     then the (t_liquidation_price t) else t_stop_loss t)"

definition stop_reached :: "exit_check \<Rightarrow> trade \<Rightarrow> bt_row \<Rightarrow> bool" where
  "stop_reached ex t row \<longleftrightarrow>
     (if t_is_short t then stop_value ex t \<le> r_high row else r_low row \<le> stop_value ex t)"

lemma roi_rate_inside:
  assumes "get_close_rate_for_roi B row t now dur = Inr rate" and "sane_row row"
  shows "r_low row \<le> rate \<and> rate \<le> r_high row"
  using assms
  by (auto simp: get_close_rate_for_roi_def Let_def bindE_eq_Inr sane_row_def
      split: option.splits prod.splits if_splits)

lemma stop_rate_inside:
  assumes "sane_row row" and "stop_reached ex t row" and "\<not> (ec_type ex = TRAILING_STOP_LOSS \<and> dur = 0)"
  shows "r_low row \<le> get_close_rate_for_stoploss B row t ex dur
    \<and> get_close_rate_for_stoploss B row t ex dur \<le> r_high row"
  using assms
  by (auto simp: get_close_rate_for_stoploss_def Let_def sane_row_def stop_reached_def stop_value_def [symmetric])

lemma close_rate_inside:
  assumes "get_close_rate B row t now ex dur = Inr rate" and "sane_row row"
    and "ec_type ex \<in> {STOP_LOSS, TRAILING_STOP_LOSS, LIQUIDATION} \<Longrightarrow> stop_reached ex t row"
    and "\<not> (ec_type ex = TRAILING_STOP_LOSS \<and> dur = 0)"
  shows "r_low row \<le> rate \<and> rate \<le> r_high row"
proof (cases "ec_type ex \<in> {STOP_LOSS, TRAILING_STOP_LOSS, LIQUIDATION}")
  case True
  with assms(1) have "rate = get_close_rate_for_stoploss B row t ex dur" by (simp add: get_close_rate_def)
  with stop_rate_inside [OF assms(2) assms(3) [OF True] assms(4)] show ?thesis by simp
next
  case False
  with assms(1,2) roi_rate_inside [of B row t now dur rate] show ?thesis
    by (auto simp: get_close_rate_def sane_row_def split: if_splits)
qed

text \<open>A stop or liquidation that the strategy reports on a candle was reached by the candle.\<close>

lemma reported_stop_reached:
  assumes "should_exit C S clock t0 rate time en exs (Some (r_low row)) (Some (r_high row)) force = Inr (exits, t)"
    and "ex \<in> set exits" and "0 < r_low row" and "r_low row \<le> r_high row"
    and "ec_type ex \<in> {STOP_LOSS, TRAILING_STOP_LOSS, LIQUIDATION}"
  shows "stop_reached ex t row"
proof -
  from assms(1) have "\<exists>sig p roi. exits = collect_exits S sig p
      (exit_check_tuple (stop_exit_type S rate (Some (r_low row)) (Some (r_high row)) t) []) roi"
    by (auto simp: should_exit_def ft_stoploss_reached_def bindE_eq_Inr simp del: split_paired_Ex)
  then obtain sig p roi where exits: "exits = collect_exits S sig p
      (exit_check_tuple (stop_exit_type S rate (Some (r_low row)) (Some (r_high row)) t) []) roi"
    by blast
  have "ex = exit_check_tuple (stop_exit_type S rate (Some (r_low row)) (Some (r_high row)) t) []"
    using assms(2,5) by (auto simp: exits collect_exits_def split: if_splits)
  then have ty: "ec_type ex = stop_exit_type S rate (Some (r_low row)) (Some (r_high row)) t" by simp
  have low: "or_val (Some (r_low row)) rate = r_low row" "or_val (Some (r_high row)) rate = r_high row"
    using assms(3,4) by simp_all
  show ?thesis
  proof (cases "ec_type ex = LIQUIDATION")
    case True
    with ty have "liquidation_hit rate (Some (r_low row)) (Some (r_high row)) t"
      by (simp add: stop_exit_type_def split: if_splits)
    with True show ?thesis
      unfolding stop_reached_def stop_value_def liquidation_hit_def low by (auto split: if_splits)
  next
    case False
    with ty assms(5) have "stop_hit rate (Some (r_low row)) (Some (r_high row)) t"
      by (auto simp: stop_exit_type_def split: if_splits)
    with False show ?thesis
      unfolding stop_reached_def stop_value_def stop_hit_def low by (auto split: if_splits)
  qed
qed

lemma stop_reached_close_date [simp]: "stop_reached ex (t\<lparr>t_close_date := d\<rparr>) row = stop_reached ex t row"
  by (simp add: stop_reached_def stop_value_def)

text \<open>Property C28: a simulated exit is priced inside its candle. For a candle with a positive low
  and its open and close between low and high, every exit that \<open>should_exit\<close> finds on it (a
  signal, a stop, a liquidation, a return on investment) gets a close rate between the low and the
  high, so the order it places can fill on this candle. The exception is a trailing stop on the
  candle of the entry.\<close>

theorem exit_priced_inside_candle:
  assumes "should_exit C S clock t0 (r_open row) time en exs (Some (r_low row)) (Some (r_high row)) force
      = Inr (exits, t)" and "ex \<in> set exits"
    and "get_close_rate B row (t\<lparr>t_close_date := d\<rparr>) now ex dur = Inr rate"
    and "sane_row row" and "0 < r_low row" and "\<not> (ec_type ex = TRAILING_STOP_LOSS \<and> dur = 0)"
  shows "r_low row \<le> rate \<and> rate \<le> r_high row \<and> get_order_filled rate row"
  using close_rate_inside [OF assms(3,4) _ assms(6)] reported_stop_reached [OF assms(1,2,5)] assms(4,5)
  by (auto simp: get_order_filled_def sane_row_def)

definition example_row :: bt_row where
  "example_row = \<lparr>r_date = 3600000000, r_open = 95, r_high = 96, r_low = 85, r_close = 92, r_enter_long = 0,
     r_exit_long = 0, r_enter_short = 0, r_exit_short = 0, r_enter_tag = None, r_exit_tag = None\<rparr>"

abbreviation example_fixed_stop :: strategy where
  "example_fixed_stop \<equiv> example_strategy\<lparr>st_trailing_stop := False\<rparr>"

lemma example_row_exit:
  "\<exists>exits t. should_exit ccxt_example example_fixed_stop 0 example_stopped (r_open example_row) 3600000000
       False False (Some (r_low example_row)) (Some (r_high example_row)) 0 = Inr (exits, t)
     \<and> exits = [exit_check_tuple STOP_LOSS []]
     \<and> get_close_rate example_bt_config example_row (t\<lparr>t_close_date := Some 3600000000\<rparr>) 3600000000
          (exit_check_tuple STOP_LOSS []) 60 = Inr 90"
proof -
  have "case should_exit ccxt_example example_fixed_stop 0 example_stopped (r_open example_row) 3600000000
       False False (Some (r_low example_row)) (Some (r_high example_row)) 0 of
      Inl e \<Rightarrow> False
    | Inr (exits, t) \<Rightarrow> exits = [exit_check_tuple STOP_LOSS []]
        \<and> get_close_rate example_bt_config example_row (t\<lparr>t_close_date := Some 3600000000\<rparr>) 3600000000
            (exit_check_tuple STOP_LOSS []) 60 = Inr 90"
    by code_simp
  then show ?thesis by (auto split: sum.splits)
qed

theorem exit_priced_inside_candle_witness:
  "r_low example_row \<le> 90 \<and> (90 :: flt) \<le> r_high example_row \<and> get_order_filled 90 example_row"
proof -
  obtain t where e: "should_exit ccxt_example example_fixed_stop 0 example_stopped (r_open example_row) 3600000000
       False False (Some (r_low example_row)) (Some (r_high example_row)) 0
       = Inr ([exit_check_tuple STOP_LOSS []], t)"
    and r: "get_close_rate example_bt_config example_row (t\<lparr>t_close_date := Some 3600000000\<rparr>) 3600000000
          (exit_check_tuple STOP_LOSS []) 60 = Inr 90"
    using example_row_exit by blast
  show ?thesis
    by (rule exit_priced_inside_candle [OF e _ r]) (simp_all add: sane_row_def example_row_def)
qed

text \<open>
  The exception is real: with an offset of 10\% that is reached, a custom entry price below the open
  and a candle that does not rise, the rate lies above the high and the exit cannot fill on it.
\<close>

lemma trailing_rate_above_high:
  "get_close_rate_for_stoploss
     (example_bt_config\<lparr>bc_strategy := example_strategy\<lparr>st_trailing_only_offset_is_reached := True,
        st_trailing_stop_positive := Some (1/100), st_trailing_stop_positive_offset := 1/10\<rparr>\<rparr>)
     (example_row\<lparr>r_open := 100, r_high := 100\<rparr>) (example_stopped\<lparr>t_stop_loss := 99\<rparr>)
     (exit_check_tuple TRAILING_STOP_LOSS []) 0 = 109"
  by code_simp

end
