(* ===== verification/Bot_State.thy ===== *)
theory Bot_State
  imports Bt_Orders Exchange_Orders Islamic
begin

text \<open>
  The state of the trading bot (freqtradebot.py) and the programs over it. A handler runs against
  the database of trades, the wallets, the pair locks and an exchange. What the exchange, the clock,
  the market data and the methods of the user strategy answer may depend on everything sent to the
  exchange before, so an answer is a function of the log of the calls. An exception does not undo
  what was done before it: a program returns a state in both cases.

  Orders of the exchange carry the fields that the bot reads. A field that is missing from a
  response is a field without a value.
\<close>

section \<open>Exchange responses\<close>

record exec_trade =
  et_symbol :: string
  et_amount :: "flt option"
  et_cost :: "flt option"
  et_fee :: "fee_dict option"
  et_fees :: "fee_dict list"

record x_order = ccxt_order +
  xo_fee :: "fee_dict option"
  xo_trades :: "exec_trade list"
  xo_id_stop :: "string option"
  xo_status_stop :: "string option"
  xo_algo_id :: "string option" \<comment> \<open>\<open>order["info"]\<close> at \<open>stoploss_algo_order_info_id\<close>\<close>

definition ccxt_part :: "x_order \<Rightarrow> ccxt_order" where
  "ccxt_part c = ccxt_order.truncate c"

record order_request =
  rq_pair :: string
  rq_type :: string
  rq_side :: string
  rq_amount :: flt
  rq_rate :: flt
  rq_leverage :: flt
  rq_reduce_only :: bool
  rq_initial :: bool

datatype call =
    Create_call order_request
  | Create_stop_call string flt flt string flt
  | Cancel_call string string bool
  | Fetch_call string string bool
  | Fetch_orders_call string datetime
  | Fetch_trades_call string string "datetime option"
  | Book_call string nat
  | Rate_call string
  | Funding_call string
  | Balance_call
  | Refresh_call

record live_callbacks =
  lc_entry_price :: "string \<Rightarrow> trade option \<Rightarrow> datetime \<Rightarrow> flt \<Rightarrow> string option \<Rightarrow> string \<Rightarrow> flt option"
  lc_exit_price :: "trade \<Rightarrow> datetime \<Rightarrow> flt \<Rightarrow> flt \<Rightarrow> string \<Rightarrow> flt option"
  lc_leverage :: "string \<Rightarrow> datetime \<Rightarrow> flt \<Rightarrow> flt \<Rightarrow> string \<Rightarrow> string option \<Rightarrow> flt"
  lc_stake_amount :: "string \<Rightarrow> datetime \<Rightarrow> flt \<Rightarrow> flt \<Rightarrow> flt option \<Rightarrow> flt \<Rightarrow> flt \<Rightarrow> string option \<Rightarrow> string \<Rightarrow> flt option"
  lc_confirm_entry :: "string \<Rightarrow> string \<Rightarrow> flt \<Rightarrow> flt \<Rightarrow> datetime \<Rightarrow> string option \<Rightarrow> string \<Rightarrow> bool"
  lc_confirm_exit :: "trade \<Rightarrow> string \<Rightarrow> flt \<Rightarrow> flt \<Rightarrow> string \<Rightarrow> datetime \<Rightarrow> bool"
  lc_adjust_position ::
    "trade \<Rightarrow> datetime \<Rightarrow> flt \<Rightarrow> flt \<Rightarrow> flt option \<Rightarrow> flt \<Rightarrow> flt \<Rightarrow> flt \<Rightarrow> flt option \<times> string option"
  lc_adjust_order_price :: "trade \<Rightarrow> order \<Rightarrow> datetime \<Rightarrow> flt \<Rightarrow> flt option \<Rightarrow> bool \<Rightarrow> flt option"

text \<open>
  The answers. The methods of \<open>Exchange\<close> that place, cancel and fetch orders are thin wrappers of the
  ccxt library; in a dry run they work on the simulated orders of the theory on exchange orders.
\<close>

record live_api =
  la_now :: "call list \<Rightarrow> datetime"
  la_exchange :: "call list \<Rightarrow> exchange"
  la_wallets :: "call list \<Rightarrow> py_error + wallet_exchange"
  la_liquidation :: "call list \<Rightarrow> liq_exchange"
  la_create_order :: "call list \<Rightarrow> order_request \<Rightarrow> py_error + x_order"
  la_create_stoploss :: "call list \<Rightarrow> string \<Rightarrow> flt \<Rightarrow> flt \<Rightarrow> string \<Rightarrow> flt \<Rightarrow> py_error + x_order"
  la_cancel_order :: "call list \<Rightarrow> string \<Rightarrow> string \<Rightarrow> bool \<Rightarrow> py_error + x_order"
  la_fetch_order :: "call list \<Rightarrow> string \<Rightarrow> string \<Rightarrow> bool \<Rightarrow> py_error + x_order"
  la_fetch_orders :: "call list \<Rightarrow> string \<Rightarrow> datetime \<Rightarrow> py_error + x_order list"
  la_fetch_trades :: "call list \<Rightarrow> string \<Rightarrow> string \<Rightarrow> datetime option \<Rightarrow> py_error + exec_trade list"
  la_funding_fees :: "call list \<Rightarrow> string \<Rightarrow> flt \<Rightarrow> bool \<Rightarrow> datetime \<Rightarrow> py_error + flt"
  la_candles :: "call list \<Rightarrow> string \<Rightarrow> candle list"
  la_pairlist :: "call list \<Rightarrow> py_error + string list"
  la_callbacks :: "call list \<Rightarrow> live_callbacks"

section \<open>Configuration and state\<close>

datatype bot_state = STATE_RUNNING | STATE_PAUSED | STATE_STOPPED | STATE_RELOAD_CONFIG

record live_config =
  lv_api :: live_api
  lv_bot :: bot_config
  lv_strategy :: strategy
  lv_wallets :: wallet_config
  lv_env :: env
  lv_protections :: "protection list"
  lv_pricing :: "bool \<Rightarrow> pricing"
  lv_margin_mode :: margin_mode
  lv_exchange_id :: string
  lv_max_open_trades :: "int option" \<comment> \<open>\<^term>\<open>None\<close> is infinity\<close>
  lv_order_types :: "string \<Rightarrow> string" \<comment> \<open>entry, exit, stoploss; force_entry and force_exit are those when not configured\<close>
  lv_emergency_type :: string \<comment> \<open>\<open>order_types.get("emergency_exit", "market")\<close>\<close>
  lv_sl_interval :: int \<comment> \<open>seconds, 60 when not configured\<close>
  lv_stoploss_blocks_assets :: bool
  lv_sl_supported :: bool
  lv_stop_flag :: bool
  lv_algo_orders :: bool
  lv_position_adjustment :: bool
  lv_max_entry_adjustment :: int
  lv_custom_price_distance :: flt
  lv_exit_timeout_count :: int
  lv_depth_of_market :: "flt option" \<comment> \<open>\<open>bids_to_ask_delta\<close> of an enabled check\<close>
  lv_cancel_on_exit :: bool
  lv_skip_order_update :: bool
  lv_recursion_limit :: nat
  lv_force_entry :: bool
  lv_initial_state :: bot_state

text \<open>
  The trades are objects of a heap; those of the database are listed by their addresses in the order
  they were added. A trade that was deleted keeps its object, which the code still holds.
\<close>

record bot =
  lb_heap :: "nat \<Rightarrow> trade"
  lb_db :: "nat list"
  lb_next :: nat
  lb_wallets :: wallets
  lb_locks :: lock_store
  lb_rates :: rate_caches
  lb_exit_cache :: "(string \<times> datetime) list"
  lb_cancel_reasons :: "nat \<Rightarrow> nat \<Rightarrow> string option" \<comment> \<open>\<open>ft_cancel_reason\<close> by trade and position\<close>
  lb_state :: bot_state
  lb_whitelist :: "string list"
  lb_log :: "call list"

abbreviation lv_exchange :: "live_config \<Rightarrow> bot \<Rightarrow> exchange" where
  "lv_exchange B s \<equiv> la_exchange (lv_api B) (lb_log s)"

abbreviation lv_ccxt :: "live_config \<Rightarrow> bot \<Rightarrow> ccxt" where
  "lv_ccxt B s \<equiv> ex_ccxt (lv_exchange B s)"

abbreviation lv_now :: "live_config \<Rightarrow> bot \<Rightarrow> datetime" where
  "lv_now B s \<equiv> la_now (lv_api B) (lb_log s)"

abbreviation lv_user :: "live_config \<Rightarrow> bot \<Rightarrow> live_callbacks" where
  "lv_user B s \<equiv> la_callbacks (lv_api B) (lb_log s)"

abbreviation lv_dry_run :: "live_config \<Rightarrow> bool" where
  "lv_dry_run B \<equiv> wc_dry_run (lv_wallets B)"

abbreviation lv_trading_mode :: "live_config \<Rightarrow> trading_mode" where
  "lv_trading_mode B \<equiv> st_trading_mode (lv_strategy B)"

definition bot_open_ids :: "bot \<Rightarrow> nat list" where \<comment> \<open>\<open>Trade.get_open_trades()\<close>\<close>
  "bot_open_ids s = filter (\<lambda>i. t_is_open (lb_heap s i)) (lb_db s)"

text \<open>The trades of the database the way the wallets and the protections query them.\<close>

definition db_view :: "bot \<Rightarrow> bt_state" where
  "db_view s =
     \<lparr>bt_heap = lb_heap s,
      bt_trades = filter (\<lambda>i. \<not> t_is_open (lb_heap s i)) (lb_db s),
      bt_trades_open = bot_open_ids s,
      bt_trades_open_pp = (\<lambda>p. filter (\<lambda>i. t_pair (lb_heap s i) = p) (bot_open_ids s)),
      bt_open_open_trade_count = int (length (bot_open_ids s)),
      bt_total_profit = 0\<rparr>"

section \<open>Programs\<close>

type_synonym 'a live = "bot \<Rightarrow> (py_error + 'a) \<times> bot"

definition retM :: "'a \<Rightarrow> 'a live" where
  "retM x s = (Inr x, s)"

definition raiseM :: "py_error \<Rightarrow> 'a live" where
  "raiseM e s = (Inl e, s)"

definition bindM :: "'a live \<Rightarrow> ('a \<Rightarrow> 'b live) \<Rightarrow> 'b live" where
  "bindM m f s = (case m s of (Inl e, s') \<Rightarrow> (Inl e, s') | (Inr x, s') \<Rightarrow> f x s')"

definition thenM :: "unit live \<Rightarrow> 'b live \<Rightarrow> 'b live" where
  "thenM m n = bindM m (\<lambda>_. n)"

definition readM :: "(bot \<Rightarrow> 'a live) \<Rightarrow> 'a live" where
  "readM f s = f s s"

definition modM :: "(bot \<Rightarrow> bot) \<Rightarrow> unit live" where
  "modM f s = (Inr (), f s)"

definition liftM :: "py_error + 'a \<Rightarrow> 'a live" where
  "liftM r s = (r, s)"

text \<open>\<open>try: m except p as e: h(e)\<close>\<close>

definition catchM :: "(py_error \<Rightarrow> bool) \<Rightarrow> 'a live \<Rightarrow> (py_error \<Rightarrow> 'a live) \<Rightarrow> 'a live" where
  "catchM p m h s = (case m s of (Inl e, s') \<Rightarrow> if p e then h e s' else (Inl e, s') | (Inr x, s') \<Rightarrow> (Inr x, s'))"

fun forM :: "'e list \<Rightarrow> ('e \<Rightarrow> unit live) \<Rightarrow> unit live" where
  "forM [] f = retM ()"
| "forM (x # xs) f = thenM (f x) (forM xs f)"

definition whenM :: "bool \<Rightarrow> unit live \<Rightarrow> unit live" where
  "whenM b m = (if b then m else retM ())"

text \<open>A request to the exchange: it is answered from the log and then recorded.\<close>

definition ask :: "call \<Rightarrow> (call list \<Rightarrow> py_error + 'a) \<Rightarrow> 'a live" where
  "ask c f s = (f (lb_log s), s\<lparr>lb_log := lb_log s @ [c]\<rparr>)"

text \<open>A method of a trade object that may raise; one that raises leaves the object as it was.\<close>

definition put_live :: "nat \<Rightarrow> trade \<Rightarrow> bot \<Rightarrow> bot" where
  "put_live i t s = s\<lparr>lb_heap := (lb_heap s)(i := t)\<rparr>"

definition onM :: "nat \<Rightarrow> (trade \<Rightarrow> py_error + trade) \<Rightarrow> unit live" where
  "onM i f s = (case f (lb_heap s i) of Inl e \<Rightarrow> (Inl e, s) | Inr t \<Rightarrow> (Inr (), put_live i t s))"

abbreviation setM :: "nat \<Rightarrow> (trade \<Rightarrow> trade) \<Rightarrow> unit live" where
  "setM i f \<equiv> onM i (\<lambda>t. Inr (f t))"

definition delete_live :: "nat \<Rightarrow> unit live" where \<comment> \<open>\<open>Trade.delete\<close>\<close>
  "delete_live i = modM (\<lambda>s. s\<lparr>lb_db := filter (\<lambda>j. j \<noteq> i) (lb_db s)\<rparr>)"

section \<open>Classes of exceptions\<close>

definition is_exchange_error :: "py_error \<Rightarrow> bool" where
  "is_exchange_error e \<longleftrightarrow>
     e \<in> {ExchangeError, InvalidOrderException, RetryableOrderError, InsufficientFundsError, TemporaryError, DDosProtection}"

definition is_invalid_order :: "py_error \<Rightarrow> bool" where
  "is_invalid_order e \<longleftrightarrow> e \<in> {InvalidOrderException, RetryableOrderError, InsufficientFundsError}"

end
