(* ===== verification/Bot_Exchange.thy ===== *)
theory Bot_Exchange
  imports Bot_State
begin

text \<open>
  What the bot asks of its surroundings: rates and funding fees, fetching and cancelling orders with
  the fallbacks of exchange.py, the wallets, the locks, and the bounds that prices and exit amounts
  are held to.
\<close>

section \<open>Rates and fees\<close>

definition bot_rate :: "live_config \<Rightarrow> string \<Rightarrow> bool \<Rightarrow> bool \<Rightarrow> bool \<Rightarrow> flt live" where
  "bot_rate B pair is_entry is_short refresh s =
     (let s1 = s\<lparr>lb_log := lb_log s @ [Rate_call pair]\<rparr>
      in case get_rate (lv_exchange B s) (lv_pricing B) pair refresh is_entry is_short None None (lb_rates s) of
           Inl e \<Rightarrow> (Inl e, s1)
         | Inr (r, rc) \<Rightarrow> (Inr r, s1\<lparr>lb_rates := rc\<rparr>))"

definition bot_rates :: "live_config \<Rightarrow> string \<Rightarrow> bool \<Rightarrow> (flt \<times> flt) live" where
  "bot_rates B pair is_short s =
     (let s1 = s\<lparr>lb_log := lb_log s @ [Rate_call pair]\<rparr>
      in case get_rates (lv_exchange B s) (lv_pricing B) pair True is_short (lb_rates s) of
           Inl e \<Rightarrow> (Inl e, s1)
         | Inr (entry, exit, rc) \<Rightarrow> (Inr (entry, exit), s1\<lparr>lb_rates := rc\<rparr>))"

definition get_funding_fees :: "live_config \<Rightarrow> string \<Rightarrow> flt \<Rightarrow> bool \<Rightarrow> datetime \<Rightarrow> flt live" where
  "get_funding_fees B pair amount is_short open_date =
     (if lv_trading_mode B = FUTURES
      then catchM is_exchange_error
             (ask (Funding_call pair) (\<lambda>log. la_funding_fees (lv_api B) log pair amount is_short open_date))
             (\<lambda>_. retM 0)
      else retM 0)"

text \<open>\<open>trade.set_funding_fees(exchange.get_funding_fees(...))\<close>\<close>

definition bot_funding :: "live_config \<Rightarrow> nat \<Rightarrow> unit live" where
  "bot_funding B i =
     readM (\<lambda>s. let t = lb_heap s i
       in bindM (liftM (date_last_filled_utc t)) (\<lambda>d.
          bindM (get_funding_fees B (t_pair t) (t_amount t) (t_is_short t) d) (\<lambda>f.
            setM i (\<lambda>t. set_funding_fees t (Some f)))))"

section \<open>Orders on the exchange\<close>

definition fetch_order :: "live_config \<Rightarrow> string \<Rightarrow> string \<Rightarrow> bool \<Rightarrow> x_order live" where
  "fetch_order B order_id pair stop =
     ask (Fetch_call order_id pair stop) (\<lambda>log. la_fetch_order (lv_api B) log order_id pair stop)"

definition fetch_stoploss_order :: "live_config \<Rightarrow> string \<Rightarrow> string \<Rightarrow> x_order live" where
  "fetch_stoploss_order B order_id pair =
     bindM (fetch_order B order_id pair (lv_stop_flag B)) (\<lambda>order.
       case xo_algo_id order of
         Some new_orderid \<Rightarrow>
           if lv_algo_orders B \<and> c_status order = Some ''closed'' \<and> new_orderid \<noteq> [] then
             bindM (fetch_order B new_orderid pair False) (\<lambda>actual.
               retM (actual\<lparr>xo_id_stop := Some (c_id actual), c_id := order_id, c_type := Some ''stoploss'',
                            c_stopPrice := c_stopPrice order, xo_status_stop := Some ''triggered''\<rparr>))
           else retM order
       | None \<Rightarrow> retM order)"

definition fetch_order_or_stoploss_order :: "live_config \<Rightarrow> string \<Rightarrow> string \<Rightarrow> bool \<Rightarrow> x_order live" where
  "fetch_order_or_stoploss_order B order_id pair stoploss_order =
     (if stoploss_order then fetch_stoploss_order B order_id pair else fetch_order B order_id pair False)"

definition x_canceled_empty :: "x_order \<Rightarrow> bool" where
  "x_canceled_empty c \<longleftrightarrow> c_status c \<in> Some ` set NON_OPEN_EXCHANGE_STATES \<and> c_filled c = Some 0"

definition x_not_open :: "x_order \<Rightarrow> bool" where \<comment> \<open>\<open>status in NON_OPEN_EXCHANGE_STATES\<close>\<close>
  "x_not_open c \<longleftrightarrow> c_status c \<in> Some ` set NON_OPEN_EXCHANGE_STATES"

definition is_cancel_order_result_suitable :: "x_order \<Rightarrow> bool" where
  "is_cancel_order_result_suitable c \<longleftrightarrow> xo_fee c \<noteq> None \<and> c_status c \<noteq> None \<and> c_amount c \<noteq> None"

definition bot_cancel :: "live_config \<Rightarrow> string \<Rightarrow> string \<Rightarrow> bool \<Rightarrow> x_order live" where
  "bot_cancel B order_id pair stop =
     ask (Cancel_call order_id pair stop) (\<lambda>log. la_cancel_order (lv_api B) log order_id pair stop)"

definition fake_cancelled :: "string \<Rightarrow> flt \<Rightarrow> flt option \<Rightarrow> x_order" where
  "fake_cancelled order_id amount filled =
     \<lparr>c_id = order_id, c_status = Some ''canceled'', c_symbol = None, c_type = None, c_side = None, c_price = None,
      c_amount = Some amount, c_filled = filled, c_average = None, c_remaining = None, c_cost = None,
      c_stopPrice = None, c_timestamp = None, c_lastTradeTimestamp = None,
      xo_fee = Some \<lparr>fd_currency = None, fd_cost = None, fd_rate = None\<rparr>, xo_trades = [], xo_id_stop = None,
      xo_status_stop = None, xo_algo_id = None\<rparr>"

definition cancel_order_with_result :: "live_config \<Rightarrow> string \<Rightarrow> string \<Rightarrow> flt \<Rightarrow> x_order live" where
  "cancel_order_with_result B order_id pair amount =
     bindM (catchM is_invalid_order
              (bindM (bot_cancel B order_id pair False) (\<lambda>c.
                 retM (if is_cancel_order_result_suitable c then Some c else None)))
              (\<lambda>_. retM None))
       (\<lambda>res. case res of
          Some c \<Rightarrow> retM c
        | None \<Rightarrow> catchM is_invalid_order (fetch_order B order_id pair False)
                   (\<lambda>_. retM (fake_cancelled order_id amount (Some 0))))"

definition cancel_stoploss_order_with_result :: "live_config \<Rightarrow> string \<Rightarrow> string \<Rightarrow> flt \<Rightarrow> x_order live" where
  "cancel_stoploss_order_with_result B order_id pair amount =
     bindM (bot_cancel B order_id pair (lv_stop_flag B)) (\<lambda>c.
       if is_cancel_order_result_suitable c then retM c
       else catchM is_invalid_order (fetch_stoploss_order B order_id pair)
              (\<lambda>_. retM (fake_cancelled order_id amount None)))"

text \<open>The code reads \<open>order["type"]\<close>, which the substitute for a cancelled order does not have.\<close>

definition get_order_id_conditional :: "live_config \<Rightarrow> x_order \<Rightarrow> py_error + string" where
  "get_order_id_conditional B c =
     (if lv_stop_flag B then
        (case c_type c of
           None \<Rightarrow> Inl KeyError
         | Some ty \<Rightarrow>
             if ty \<in> {''stoploss'', ''stop''} then
               (case xo_id_stop c of Some i \<Rightarrow> Inr i | None \<Rightarrow> Inr (c_id c))
             else Inr (c_id c))
      else Inr (c_id c))"

definition get_trades_for_order :: "live_config \<Rightarrow> string \<Rightarrow> string \<Rightarrow> datetime option \<Rightarrow> exec_trade list live" where
  "get_trades_for_order B order_id pair since =
     (if lv_dry_run B then retM []
      else ask (Fetch_trades_call order_id pair since) (\<lambda>log. la_fetch_trades (lv_api B) log order_id pair since))"

definition bot_fetch_orders :: "live_config \<Rightarrow> string \<Rightarrow> datetime \<Rightarrow> x_order list live" where
  "bot_fetch_orders B pair since =
     (if lv_dry_run B then retM []
      else ask (Fetch_orders_call pair since) (\<lambda>log. la_fetch_orders (lv_api B) log pair since))"

section \<open>Wallets, locks and caches\<close>

definition bot_wallets_update :: "live_config \<Rightarrow> bool \<Rightarrow> unit live" where
  "bot_wallets_update B require_update =
     readM (\<lambda>s. let now = lv_now B s
       in if require_update \<or> (case ws_last_refresh (lb_wallets s) of None \<Rightarrow> True | Some d \<Rightarrow> d + hour_us < now) then
            bindM (ask Balance_call (la_wallets (lv_api B))) (\<lambda>X.
            bindM (liftM (update_wallets (lv_wallets B) X (db_view s) now True (lb_wallets s))) (\<lambda>W.
              modM (\<lambda>s. s\<lparr>lb_wallets := W\<rparr>)))
          else retM ())"

definition bot_check_exit_amount :: "live_config \<Rightarrow> nat \<Rightarrow> bool live" where
  "bot_check_exit_amount B i =
     readM (\<lambda>s. if exit_amount_available (lb_wallets s) (lb_heap s i) then retM True
       else thenM (bot_wallets_update B True)
              (readM (\<lambda>s. retM (exit_amount_available (lb_wallets s) (lb_heap s i)))))"

text \<open>\<open>PeriodicCache\<close>: an entry is dropped at the end of the candle in which it was written.\<close>

definition exit_reason_key :: "trade \<Rightarrow> string \<Rightarrow> string" where
  "exit_reason_key t reason = t_pair t @ ''_'' @ show_nat (nat (t_id t)) @ ''_'' @ reason"

definition exit_reason_seen :: "live_config \<Rightarrow> bot \<Rightarrow> string \<Rightarrow> bool" where
  "exit_reason_seen B s key \<longleftrightarrow>
     (let ttl = timeframe_to_seconds (lv_ccxt B s) (st_timeframe (lv_strategy B)) * 1000000
      in case map_of (lb_exit_cache s) key of
           None \<Rightarrow> False | Some d \<Rightarrow> lv_now B s div ttl \<le> d div ttl)"

definition remember_exit_reason :: "live_config \<Rightarrow> nat \<Rightarrow> string \<Rightarrow> unit live" where
  "remember_exit_reason B i reason =
     modM (\<lambda>s. s\<lparr>lb_exit_cache := (exit_reason_key (lb_heap s i) reason, lv_now B s) # lb_exit_cache s\<rparr>)"

definition handle_protections :: "live_config \<Rightarrow> string \<Rightarrow> string \<Rightarrow> unit live" where
  "handle_protections B pair side =
     thenM (modM (\<lambda>s. s\<lparr>lb_locks := snd (lock_pair (lv_ccxt B s) (lb_locks s) pair (lv_now B s)
                                             (Some ''Auto lock'') (lv_now B s) side)\<rparr>))
     (readM (\<lambda>s.
        bindM (liftM (Wallets.get_starting_balance (lv_wallets B) (db_view s) (lb_wallets s))) (\<lambda>balance.
        bindM (liftM (stop_per_pair (lv_env B) (lv_protections B) (db_view s) pair (lv_now B s) side balance
                        (lb_locks s))) (\<lambda>(_, locks1).
        thenM (modM (\<lambda>s. s\<lparr>lb_locks := locks1\<rparr>))
        (bindM (liftM (global_stop (lv_env B) (lv_protections B) (db_view s) (lv_now B s) side balance locks1))
           (\<lambda>(_, locks2). modM (\<lambda>s. s\<lparr>lb_locks := locks2\<rparr>)))))))"

definition bot_update_liquidation :: "live_config \<Rightarrow> nat option \<Rightarrow> unit live" where
  "bot_update_liquidation B trade =
     readM (\<lambda>s.
       bindM (liftM (update_liquidation_prices (lv_ccxt B s) (la_liquidation (lv_api B) (lb_log s)) (lv_wallets B)
                       (lb_wallets s) (lv_dry_run B) trade (db_view s)))
         (\<lambda>b. modM (\<lambda>s. s\<lparr>lb_heap := bt_heap b\<rparr>)))"

section \<open>Prices and amounts of the bot's orders\<close>

definition get_valid_price :: "live_config \<Rightarrow> flt option \<Rightarrow> flt \<Rightarrow> flt" where
  "get_valid_price B custom_price proposed_price =
     (let valid_custom_price = or_val custom_price proposed_price;
          ratio = lv_custom_price_distance B;
          min_custom_price_allowed = proposed_price - proposed_price * ratio;
          max_custom_price_allowed = proposed_price + proposed_price * ratio
      in max (min valid_custom_price max_custom_price_allowed) min_custom_price_allowed)"

definition safe_exit_amount :: "live_config \<Rightarrow> nat \<Rightarrow> string \<Rightarrow> flt \<Rightarrow> flt live" where
  "safe_exit_amount B i pair amount =
     thenM (bot_wallets_update B True)
       (if lv_trading_mode B = FUTURES then retM amount
        else readM (\<lambda>s.
          let cur = get_pair_base_currency (lv_exchange B s) pair;
              wallet_amount = get_free (lb_wallets s) cur + get_used (lb_wallets s) cur
          in if wallet_amount \<ge> amount then retM amount
             else if wallet_amount > amount * (98/100)
             then thenM (setM i (\<lambda>t. t\<lparr>t_amount := wallet_amount\<rparr>)) (retM wallet_amount)
             else raiseM DependencyException))"

end
