(* ===== verification/Bot_Fills.thy ===== *)
theory Bot_Fills
  imports Bot_Exchange
begin

text \<open>
  How the bot takes over the state of an order: the fee it detects, the trade it updates, what
  follows a fill, and the messages, of which only the calls that can raise are kept. An order object
  is the position of the order in its trade; positions do not change, since the bot only appends.
\<close>

section \<open>Messages\<close>

definition notify_enter :: "live_config \<Rightarrow> nat \<Rightarrow> bool \<Rightarrow> unit live" where
  "notify_enter B i fill =
     readM (\<lambda>s. let t = lb_heap s i in
       bindM (bot_rate B (t_pair t) True (t_is_short t) False) (\<lambda>_.
         readM (\<lambda>s. if \<not> fill \<and> nr_of_successful_entries t > 0 then
           bindM (liftM (sum_mapE (order_stake_amount (lv_ccxt B s) (t_leverage t))
                    (filter (\<lambda>ord. o_ft_order_side ord = entry_side t) (open_orders t)))) (\<lambda>_. retM ())
         else retM ())))"

definition notify_enter_cancel :: "live_config \<Rightarrow> nat \<Rightarrow> unit live" where
  "notify_enter_cancel B i =
     readM (\<lambda>s. let t = lb_heap s i in
       bindM (bot_rate B (t_pair t) True (t_is_short t) False) (\<lambda>_. retM ()))"

definition notify_exit :: "live_config \<Rightarrow> nat \<Rightarrow> bool \<Rightarrow> (bool \<times> nat) option \<Rightarrow> unit live" where
  "notify_exit B i fill sub =
     readM (\<lambda>s. let t = lb_heap s i in
       thenM (if fill then retM () else bindM (bot_rate B (t_pair t) False (t_is_short t) False) (\<lambda>_. retM ()))
       (readM (\<lambda>s. case sub of
          Some (True, k) \<Rightarrow>
            let ord = t_orders t ! k;
                amount = (if fill then safe_filled ord else safe_amount ord)
            in bindM (liftM (calculate_profit (lv_ccxt B s) (lv_now B s) t (safe_price ord) (Some amount)
                               (Some (t_open_rate t)))) (\<lambda>_. retM ())
        | _ \<Rightarrow>
            bindM (liftM (calculate_profit (lv_ccxt B s) (lv_now B s) t (Some (safe_close_rate t)) None None))
              (\<lambda>_. retM ()))))"

definition notify_exit_cancel :: "live_config \<Rightarrow> nat \<Rightarrow> string \<Rightarrow> string \<Rightarrow> unit live" where
  "notify_exit_cancel B i reason order_id =
     readM (\<lambda>s. let t = lb_heap s i in
       if t_exit_order_status t = Some reason then retM ()
       else
         thenM (setM i (\<lambda>t. t\<lparr>t_exit_order_status := Some reason\<rparr>))
         (if select_order_by_order_id t order_id = None then raiseM DependencyException
          else
            thenM (readM (\<lambda>s. bindM (liftM (calculate_profit (lv_ccxt B s) (lv_now B s) t
                                              (Some (safe_close_rate t)) None None)) (\<lambda>_. retM ())))
              (bindM (bot_rate B (t_pair t) False (t_is_short t) False) (\<lambda>_. retM ()))))"

section \<open>Fees\<close>

text \<open>The amount is only used, and only then has to be a number, for the exits and the later entries.\<close>

definition apply_fee_conditional ::
    "live_config \<Rightarrow> nat \<Rightarrow> string \<Rightarrow> flt option \<Rightarrow> flt \<Rightarrow> nat \<Rightarrow> flt option live" where
  "apply_fee_conditional B i base amount fee_abs k =
     thenM (bot_wallets_update B True)
     (readM (\<lambda>s. let t = lb_heap s i; side = o_ft_order_side (t_orders t ! k);
            is_exit = (side = exit_side t \<or> side = ''stoploss'');
            is_reentry = (nr_of_successful_entries t \<ge> 1 \<and> side = entry_side t)
        in if (is_exit \<or> is_reentry) \<and> amount = None then raiseM TypeError
           else
             (let needed = (if is_reentry then t_amount t + the amount
                             else if is_exit then t_amount t - the amount else t_amount t)
              in if fee_abs \<noteq> 0 \<and> get_free (lb_wallets s) base \<ge> needed then retM None
                 else if fee_abs \<noteq> 0 then retM (Some fee_abs) else retM None)))"

definition trades_valid_for_fee :: "exec_trade list \<Rightarrow> bool" where
  "trades_valid_for_fee trades \<longleftrightarrow>
     trades \<noteq> [] \<and> \<not> (\<exists>t \<in> set trades. et_amount t = None \<or> et_cost t = None)"

record fee_sum =
  fs_amount :: flt
  fs_currency :: "string option"
  fs_abs :: flt
  fs_cost :: flt
  fs_rates :: "flt list"

definition add_fee :: "exchange \<Rightarrow> string \<Rightarrow> exec_trade \<Rightarrow> fee_dict \<Rightarrow> fee_sum \<Rightarrow> py_error + fee_sum" where
  "add_fee X base tr fee acc =
     bindE (extract_cost_curr_rate X fee (et_symbol tr) (et_cost tr) (the (et_amount tr))) (\<lambda>(cost, cur, rate).
       Inr (acc\<lparr>fs_currency := Some cur, fs_cost := fs_cost acc + cost,
                fs_rates := fs_rates acc @ (case rate of None \<Rightarrow> [] | Some r \<Rightarrow> [r]),
                fs_abs := (if base = cur then fs_abs acc + cost else fs_abs acc)\<rparr>))"

definition add_exec_trade :: "exchange \<Rightarrow> string \<Rightarrow> exec_trade \<Rightarrow> fee_sum \<Rightarrow> py_error + fee_sum" where
  "add_exec_trade X base tr acc =
     (case et_amount tr of
        None \<Rightarrow> Inl TypeError
      | Some a \<Rightarrow>
          runE (add_fee X base tr) (if order_has_fee (et_fee tr) then [the (et_fee tr)] else et_fees tr)
            (acc\<lparr>fs_amount := fs_amount acc + a\<rparr>))"

definition mean_fee_rate :: "flt list \<Rightarrow> flt option" where
  "mean_fee_rate rates = (if rates = [] then None else Some (sum_list rates / of_nat (length rates)))"

definition MAX_FEE_RATE :: flt where
  "MAX_FEE_RATE = 2 / 100"

definition order_side_or_empty :: "x_order \<Rightarrow> string" where \<comment> \<open>\<open>order.get("side", "")\<close>\<close>
  "order_side_or_empty c = (case c_side c of None \<Rightarrow> [] | Some x \<Rightarrow> x)"

definition fee_detection_from_trades ::
    "live_config \<Rightarrow> nat \<Rightarrow> x_order \<Rightarrow> nat \<Rightarrow> flt option \<Rightarrow> flt option live" where
  "fee_detection_from_trades B i order k order_amount =
     readM (\<lambda>s. let t = lb_heap s i in
     bindM (if trades_valid_for_fee (xo_trades order) then retM (xo_trades order)
            else bindM (liftM (get_order_id_conditional B order)) (\<lambda>order_id.
                   get_trades_for_order B order_id (t_pair t) (o_order_date (t_orders t ! k)))) (\<lambda>trades.
       if trades = [] then retM None
       else
         readM (\<lambda>s. let base = get_pair_base_currency (lv_exchange B s) (t_pair t) in
         bindM (liftM (runE (add_exec_trade (lv_exchange B s) base) trades
                  \<lparr>fs_amount = 0, fs_currency = None, fs_abs = 0, fs_cost = 0, fs_rates = []\<rparr>)) (\<lambda>acc.
           thenM (case (fs_currency acc, mean_fee_rate (fs_rates acc)) of
                    (Some cur, Some rate) \<Rightarrow>
                      whenM (cur \<noteq> [] \<and> rate < MAX_FEE_RATE)
                        (setM i (\<lambda>t. update_fee t (fs_cost acc) (Some cur) (Some rate) (order_side_or_empty order)))
                  | _ \<Rightarrow> retM ())
           (case order_amount of
              None \<Rightarrow> raiseM TypeError
            | Some oa \<Rightarrow>
                if \<not> py_isclose (fs_amount acc) oa MATH_CLOSE_PREC then raiseM DependencyException
                else if fs_abs acc \<noteq> 0
                then apply_fee_conditional B i base (Some (fs_amount acc)) (fs_abs acc) k
                else retM None)))))"

definition get_real_amount :: "live_config \<Rightarrow> nat \<Rightarrow> x_order \<Rightarrow> nat \<Rightarrow> flt option live" where
  "get_real_amount B i order k =
     readM (\<lambda>s. let t = lb_heap s i; X = lv_exchange B s;
         order_amount = (case c_filled order of Some f \<Rightarrow> Some f | None \<Rightarrow> c_amount order);
         from_trades = fee_detection_from_trades B i order k order_amount
       in if fee_updated t (order_side_or_empty order) \<or> c_status order = Some ''open'' then retM None
          else if order_has_fee (xo_fee order) then
            (case c_symbol order of
               None \<Rightarrow> raiseM KeyError
             | Some symbol \<Rightarrow>
                 bindM (liftM (extract_cost_curr_rate X (the (xo_fee order)) symbol (c_cost order)
                                 (safe_filled (t_orders t ! k)))) (\<lambda>(fee_cost, fee_currency, fee_rate).
                   if fee_rate = None \<or> the fee_rate < MAX_FEE_RATE then
                     thenM (setM i (\<lambda>t. update_fee t fee_cost (Some fee_currency) fee_rate (order_side_or_empty order)))
                     (if get_pair_base_currency X (t_pair t) = fee_currency
                      then apply_fee_conditional B i fee_currency order_amount fee_cost k
                      else retM None)
                   else from_trades))
          else from_trades)"

definition handle_order_fee :: "live_config \<Rightarrow> nat \<Rightarrow> nat \<Rightarrow> x_order \<Rightarrow> unit live" where
  "handle_order_fee B i k order =
     catchM is_dependency_exception
       (bindM (get_real_amount B i order k) (\<lambda>fee.
          case fee of None \<Rightarrow> retM ()
          | Some f \<Rightarrow> setM i (\<lambda>t. t\<lparr>t_orders := (t_orders t)[k := (t_orders t ! k)\<lparr>o_ft_fee_base := Some f\<rparr>]\<rparr>)))
       (\<lambda>_. retM ())"

end
