(* ===== verification/Bot_Update.thy ===== *)
theory Bot_Update
  imports Bot_Fills
begin

text \<open>
  \<open>update_trade_state\<close>: a trade takes over the state of one of its orders, and what a fill brings with
  it. The method calls itself through the cancellation of the stop orders, so the model recurses on
  the depth that is left, and a call with none left raises what Python raises at its recursion limit.
\<close>

section \<open>After a fill\<close>

definition cancel_stop_orders ::
    "(nat \<Rightarrow> string \<Rightarrow> x_order option \<Rightarrow> bool \<Rightarrow> bool \<Rightarrow> bool live) \<Rightarrow> live_config \<Rightarrow> nat \<Rightarrow> unit live" where
  "cancel_stop_orders update B i =
     readM (\<lambda>s. forM (open_sl_orders (lb_heap s i)) (\<lambda>oslo.
       catchM is_invalid_order
         (readM (\<lambda>s. let t = lb_heap s i in
            bindM (cancel_stoploss_order_with_result B (o_order_id oslo) (t_pair t) (t_amount t)) (\<lambda>co.
            bindM (update i (o_order_id oslo) (Some co) True True) (\<lambda>_. retM ()))))
         (\<lambda>_. retM ())))"

text \<open>\<open>_update_trade_after_fill\<close>; the order is the one at position \<open>k\<close>.\<close>

definition entry_filled :: "unit live \<Rightarrow> live_config \<Rightarrow> nat \<Rightarrow> bool \<Rightarrow> unit live" where
  "entry_filled cancel B i send_msg =
     thenM (whenM send_msg
       (thenM (setM i (\<lambda>t. if nr_of_successful_entries t > 1 then t\<lparr>t_fee_open_currency := None\<rparr> else t)) cancel))
     (readM (\<lambda>s. onM i (\<lambda>t. adjust_stop_loss (lv_ccxt B s) (t_open_rate t) (Some (st_stoploss (lv_strategy B)))
                                True False t)))"

definition stop_after_fill :: "live_config \<Rightarrow> nat \<Rightarrow> unit live" where
  "stop_after_fill B i =
     readM (\<lambda>s. let t = lb_heap s i in
       bindM (bot_rate B (t_pair t) False (t_is_short t) True) (\<lambda>current_rate.
         readM (\<lambda>s. onM i (\<lambda>t.
           bindE (calc_profit_ratio (lv_ccxt B s) (lv_now B s) t (Some current_rate) None None) (\<lambda>profit.
             ft_stoploss_adjust (lv_ccxt B s) (lv_strategy B) (lv_now B s) current_rate (lv_now B s) profit 0
               None None None True t)))))"

definition update_trade_after_fill :: "unit live \<Rightarrow> live_config \<Rightarrow> nat \<Rightarrow> nat \<Rightarrow> bool \<Rightarrow> unit live" where
  "update_trade_after_fill cancel B i k send_msg =
     readM (\<lambda>s. let ord = t_orders (lb_heap s i) ! k; is_entry = (o_ft_order_side ord = entry_side (lb_heap s i)) in
       if \<not> in_non_open_state ord then retM ()
       else
         thenM (whenM is_entry (entry_filled cancel B i send_msg))
         (thenM (readM (\<lambda>s. let t = lb_heap s i in
            whenM (is_entry \<or> (t_amount t > 0 \<and> t_is_open t) \<or> lv_margin_mode B = CROSS)
              (bot_update_liquidation B (Some i))))
         (thenM (readM (\<lambda>s. whenM (st_use_custom_stoploss (lv_strategy B) \<and> t_is_open (lb_heap s i))
                  (stop_after_fill B i)))
         (thenM (readM (\<lambda>s. whenM (\<not> t_is_open (lb_heap s i)) cancel))
            (bot_wallets_update B True)))))"

definition order_close_notify :: "live_config \<Rightarrow> nat \<Rightarrow> nat \<Rightarrow> bool \<Rightarrow> bool \<Rightarrow> unit live" where
  "order_close_notify B i k stoploss_order send_msg =
     readM (\<lambda>s. let t = lb_heap s i; ord = t_orders t ! k;
         tell = (send_msg \<and> \<not> stoploss_order \<and> o_order_id ord \<notin> set (open_orders_ids t))
       in if o_ft_order_side ord = exit_side t then
            thenM (whenM tell (notify_exit B i True (Some (t_is_open t, k))))
              (readM (\<lambda>s. let t = lb_heap s i in
                 whenM (\<not> t_is_open t) (handle_protections B (t_pair t) (trade_direction t))))
          else whenM tell (notify_enter B i True))"

section \<open>The state of an order\<close>

definition take_over_order :: "live_config \<Rightarrow> nat \<Rightarrow> x_order \<Rightarrow> unit live" where \<comment> \<open>\<open>trade.update_order(order)\<close>\<close>
  "take_over_order B i order =
     readM (\<lambda>s. onM i (\<lambda>t. bindE (update_orders (lv_now B s) (t_orders t) (ccxt_part order)) (\<lambda>os.
                  Inr (t\<lparr>t_orders := os\<rparr>))))"

definition update_trade_state_body ::
    "unit live \<Rightarrow> live_config \<Rightarrow> nat \<Rightarrow> string \<Rightarrow> x_order option \<Rightarrow> bool \<Rightarrow> bool \<Rightarrow> bool live" where
  "update_trade_state_body cancel B i order_id action_order stoploss_order send_msg =
     (if order_id = [] then retM False
      else
        bindM (case action_order of
                 Some c \<Rightarrow> retM (Some c)
               | None \<Rightarrow> catchM is_invalid_order
                   (readM (\<lambda>s. bindM (fetch_order_or_stoploss_order B order_id (t_pair (lb_heap s i)) stoploss_order)
                                  (\<lambda>c. retM (Some c))))
                   (\<lambda>_. retM None))
          (\<lambda>found. case found of
             None \<Rightarrow> retM False
           | Some order \<Rightarrow>
               thenM (take_over_order B i order)
               (if x_canceled_empty order then retM True
                else readM (\<lambda>s. let k = order_pos (lb_heap s i) order_id in
                  if k \<ge> length (t_orders (lb_heap s i)) then raiseM DependencyException
                  else
                    thenM (handle_order_fee B i k order)
                    (thenM (readM (\<lambda>s. onM i (update_trade (lv_ccxt B s) (lv_now B s) k (\<not> send_msg))))
                    (thenM (update_trade_after_fill cancel B i k send_msg)
                    (thenM (order_close_notify B i k stoploss_order send_msg)
                       (retM False))))))))"

primrec update_trade_state_in ::
    "nat \<Rightarrow> live_config \<Rightarrow> nat \<Rightarrow> string \<Rightarrow> x_order option \<Rightarrow> bool \<Rightarrow> bool \<Rightarrow> bool live" where
  "update_trade_state_in 0 = (\<lambda>B i order_id action stop send. raiseM RuntimeError)"
| "update_trade_state_in (Suc n) = (\<lambda>B i order_id action stop send.
     update_trade_state_body (cancel_stop_orders (update_trade_state_in n B) B i) B i order_id action stop send)"

definition update_trade_state ::
    "live_config \<Rightarrow> nat \<Rightarrow> string \<Rightarrow> x_order option \<Rightarrow> bool \<Rightarrow> bool \<Rightarrow> bool live" where
  "update_trade_state B = update_trade_state_in (lv_recursion_limit B) B"

definition cancel_stoploss_on_exchange :: "live_config \<Rightarrow> nat \<Rightarrow> bool \<Rightarrow> unit live" where
  "cancel_stoploss_on_exchange B i allow_nonblocking =
     (if allow_nonblocking \<and> \<not> lv_stoploss_blocks_assets B then retM ()
      else cancel_stop_orders (update_trade_state B) B i)"

section \<open>Recovery\<close>

definition is_stop_order :: "order \<Rightarrow> bool" where
  "is_stop_order ord \<longleftrightarrow> o_ft_order_side ord = ''stoploss''"

text \<open>The loop looks at each order when it reaches it; the list grows only at its end, by no call in it.\<close>

definition handle_insufficient_funds :: "live_config \<Rightarrow> nat \<Rightarrow> unit live" where
  "handle_insufficient_funds B i =
     readM (\<lambda>s. forM [0 ..< length (t_orders (lb_heap s i))] (\<lambda>k. readM (\<lambda>s.
       let ord = t_orders (lb_heap s i) ! k in
       if \<not> o_ft_is_open ord then retM ()
       else
         catchM is_exchange_error
           (bindM (fetch_order_or_stoploss_order B (o_order_id ord) (o_ft_pair ord) (is_stop_order ord)) (\<lambda>fo.
            bindM (update_trade_state B i (o_order_id ord) (Some fo) (is_stop_order ord) True) (\<lambda>_. retM ())))
           (\<lambda>_. retM ()))))"

definition update_trades_without_assigned_fees :: "live_config \<Rightarrow> unit live" where
  "update_trades_without_assigned_fees B =
     (if lv_dry_run B then retM ()
      else
        thenM (readM (\<lambda>s.
          forM (filter (\<lambda>i. let t = lb_heap s i in t_fee_close_currency t = None \<and> t_orders t \<noteq> [] \<and> \<not> t_is_open t)
                  (lb_db s)) (\<lambda>i. readM (\<lambda>s. let t = lb_heap s i in
            if \<not> t_is_open t \<and> \<not> fee_updated t (exit_side t) then
              (case (case select_order t (Some (exit_side t)) (Some False) True of
                       Some ord \<Rightarrow> Some ord
                     | None \<Rightarrow> select_order t (Some ''stoploss'') (Some False) False) of
                 Some ord \<Rightarrow>
                   bindM (update_trade_state B i (o_order_id ord) None (is_stop_order ord) False) (\<lambda>_. retM ())
               | None \<Rightarrow> retM ())
            else retM ()))))
        (readM (\<lambda>s.
          forM (filter (\<lambda>i. let t = lb_heap s i in t_fee_open_currency t = None \<and> t_orders t \<noteq> [] \<and> t_is_open t)
                  (lb_db s)) (\<lambda>i. readM (\<lambda>s. let t = lb_heap s i in
            if t_is_open t \<and> \<not> fee_updated t (entry_side t) then
              (case (select_order t (Some (entry_side t)) (Some False) True,
                     select_order t (Some (entry_side t)) (Some True) False) of
                 (Some ord, None) \<Rightarrow>
                   bindM (update_trade_state B i (o_order_id ord) None False False) (\<lambda>_. retM ())
               | _ \<Rightarrow> retM ())
            else retM ())))))"

end
