(* ===== verification/Bot_Cancel.thy ===== *)
theory Bot_Cancel
  imports Bot_Update
begin

text \<open>
  Cancelling the open orders of a trade: what is kept because its partial fill could not be exited,
  which trades are removed, and how an order that is to be replaced is treated.
\<close>

section \<open>Reasons\<close>

definition REASON_TIMEOUT :: string where
  "REASON_TIMEOUT = ''cancelled due to timeout''"

definition REASON_PARTIALLY_FILLED_KEEP_OPEN :: string where
  "REASON_PARTIALLY_FILLED_KEEP_OPEN = ''partially filled - keeping order open''"

definition REASON_PARTIALLY_FILLED :: string where
  "REASON_PARTIALLY_FILLED = ''partially filled''"

definition REASON_FULLY_CANCELLED :: string where
  "REASON_FULLY_CANCELLED = ''fully cancelled''"

definition REASON_ALL_CANCELLED :: string where
  "REASON_ALL_CANCELLED = ''cancelled (all unfilled and partially filled open orders cancelled)''"

definition REASON_CANCELLED_ON_EXCHANGE :: string where
  "REASON_CANCELLED_ON_EXCHANGE = ''cancelled on exchange''"

definition REASON_REPLACE :: string where
  "REASON_REPLACE = ''cancelled to be replaced by new limit order''"

definition REASON_USER_CANCEL :: string where
  "REASON_USER_CANCEL = ''user requested order cancel''"

definition set_cancel_reason :: "nat \<Rightarrow> nat \<Rightarrow> (string option \<Rightarrow> string option) \<Rightarrow> unit live" where
  "set_cancel_reason i k f =
     modM (\<lambda>s. s\<lparr>lb_cancel_reasons := (lb_cancel_reasons s)(i := (lb_cancel_reasons s i)(k := f (lb_cancel_reasons s i k)))\<rparr>)"

definition cancelled_on_exchange :: "nat \<Rightarrow> nat \<Rightarrow> unit live" where
  "cancelled_on_exchange i k =
     set_cancel_reason i k (\<lambda>r. case r of None \<Rightarrow> Some REASON_CANCELLED_ON_EXCHANGE | Some x \<Rightarrow> Some x)"

definition add_cancel_reason :: "nat \<Rightarrow> nat \<Rightarrow> string \<Rightarrow> unit live" where
  "add_cancel_reason i k suffix = set_cancel_reason i k (map_option (\<lambda>r. r @ '', '' @ suffix))"

section \<open>Entry orders\<close>

text \<open>An order that is being replaced is fetched up to three times until it has left the open states.\<close>

fun refetch :: "live_config \<Rightarrow> string \<Rightarrow> string \<Rightarrow> nat \<Rightarrow> x_order \<Rightarrow> x_order live" where
  "refetch B order_id pair 0 c = retM c"
| "refetch B order_id pair (Suc n) c =
     (if x_not_open c then retM c
      else bindM (fetch_order B order_id pair False) (refetch B order_id pair n))"

definition min_stake_to_exit :: "live_config \<Rightarrow> bot \<Rightarrow> trade \<Rightarrow> py_error + flt option" where
  "min_stake_to_exit B s t =
     get_min_pair_stake_amount (lv_exchange B s) (t_pair t) (t_open_rate t) (st_stoploss (lv_strategy B)) 1"

definition stake_too_small :: "flt option \<Rightarrow> flt \<Rightarrow> bool" where
  "stake_too_small minstake stake \<longleftrightarrow> truthy minstake \<and> stake < the minstake"

text \<open>The order as the exchange has it when the cancellation may go on.\<close>

definition cancel_entry_on_exchange ::
    "live_config \<Rightarrow> nat \<Rightarrow> x_order \<Rightarrow> nat \<Rightarrow> string \<Rightarrow> bool \<Rightarrow> x_order option live" where
  "cancel_entry_on_exchange B i order k reason replacing =
     readM (\<lambda>s. let t = lb_heap s i; order_id = o_order_id (t_orders t ! k); filled_val = or_val (c_filled order) 0 in
       if x_not_open order then thenM (cancelled_on_exchange i k) (retM (Some order))
       else
         bindM (if filled_val > 0 then liftM (min_stake_to_exit B s t) else retM None) (\<lambda>minstake.
           if stake_too_small minstake (filled_val * t_open_rate t) then retM None
           else
             bindM (cancel_order_with_result B order_id (t_pair t) (t_amount t)) (\<lambda>c1.
             thenM (set_cancel_reason i k (\<lambda>_. Some reason))
             (bindM (refetch B order_id (t_pair t) (if replacing then 3 else 0) c1) (\<lambda>corder.
                retM (if x_not_open corder then Some corder else None))))))"

definition other_open_orders :: "trade \<Rightarrow> string \<Rightarrow> nat" where
  "other_open_orders t order_id =
     length (filter (\<lambda>ord. o_ft_is_open ord \<and> o_order_id ord \<noteq> order_id) (t_orders t))"

definition handle_cancel_enter ::
    "live_config \<Rightarrow> nat \<Rightarrow> x_order \<Rightarrow> nat \<Rightarrow> string \<Rightarrow> bool \<Rightarrow> bool live" where
  "handle_cancel_enter B i order k reason replacing =
     bindM (cancel_entry_on_exchange B i order k reason replacing) (\<lambda>res.
       case res of
         None \<Rightarrow> retM False
       | Some corder \<Rightarrow>
           (case (case c_filled corder of Some f \<Rightarrow> Some f | None \<Rightarrow> c_filled order) of
              None \<Rightarrow> raiseM TypeError
            | Some filled_amount \<Rightarrow>
                readM (\<lambda>s. let t = lb_heap s i; order_id = o_order_id (t_orders t ! k);
                    fully = py_isclose filled_amount 0 MATH_CLOSE_PREC;
                    update = bindM (update_trade_state B i order_id (Some corder) False True) (\<lambda>_. retM ())
                  in
                    thenM
                      (if fully then
                         (if other_open_orders t order_id < 1 \<and> nr_of_successful_entries t = 0 \<and> \<not> replacing
                          then thenM (delete_live i) (add_cancel_reason i k REASON_FULLY_CANCELLED)
                          else update)
                       else thenM update (add_cancel_reason i k REASON_PARTIALLY_FILLED))
                    (thenM (bot_wallets_update B True)
                    (thenM (notify_enter_cancel B i)
                       (retM fully))))))"

section \<open>Exit orders\<close>

text \<open>\<open>Inl b\<close> ends the handler with \<open>b\<close>; \<open>Inr\<close> gives the order and whether it was cancelled here.\<close>

definition cancel_exit_on_exchange ::
    "live_config \<Rightarrow> nat \<Rightarrow> x_order \<Rightarrow> nat \<Rightarrow> string \<Rightarrow> (bool + x_order \<times> bool) live" where
  "cancel_exit_on_exchange B i order k reason =
     readM (\<lambda>s. let t = lb_heap s i; filled_amt = or_val (c_filled order) 0 in
       if x_not_open order then
         thenM (cancelled_on_exchange i k)
           (thenM (setM i (\<lambda>t. t\<lparr>t_exit_reason := None\<rparr>)) (retM (Inr (order, False))))
       else if filled_amt > 0 \<and> t_leverage t = 0 then raiseM ZeroDivisionError
       else
         bindM (if filled_amt > 0 then liftM (min_stake_to_exit B s t) else retM None) (\<lambda>minstake.
           if stake_too_small minstake (t_stake_amount t - filled_amt * t_open_rate t / t_leverage t) then
             thenM (notify_exit_cancel B i REASON_PARTIALLY_FILLED_KEEP_OPEN (c_id order)) (retM (Inl False))
           else
             thenM (set_cancel_reason i k (\<lambda>_. Some (if filled_amt > 0 then REASON_PARTIALLY_FILLED else reason)))
             (bindM (catchM is_invalid_order
                      (bindM (cancel_order_with_result B (c_id order) (t_pair t) (t_amount t)) (\<lambda>c. retM (Some c)))
                      (\<lambda>_. retM None))
                (\<lambda>res. case res of
                   None \<Rightarrow> retM (Inl False)
                 | Some c \<Rightarrow>
                     thenM (whenM (c_status c \<in> {Some ''canceled'', Some ''cancelled''})
                              (setM i (\<lambda>t. t\<lparr>t_exit_reason := None\<rparr>)))
                       (retM (Inr (c, True)))))))"

definition handle_cancel_exit :: "live_config \<Rightarrow> nat \<Rightarrow> x_order \<Rightarrow> nat \<Rightarrow> string \<Rightarrow> bool live" where
  "handle_cancel_exit B i order k reason =
     bindM (cancel_exit_on_exchange B i order k reason) (\<lambda>res.
       case res of
         Inl b \<Rightarrow> retM b
       | Inr (corder, cancelled) \<Rightarrow>
           bindM (update_trade_state B i (c_id corder) (Some corder) False True) (\<lambda>_.
           thenM (setM i (\<lambda>t. t\<lparr>t_close_rate := None, t_close_rate_requested := None\<rparr>))
           (readM (\<lambda>s. thenM (notify_exit_cancel B i
                                 (case lb_cancel_reasons s i k of Some r \<Rightarrow> r | None \<Rightarrow> []) (c_id corder))
              (retM cancelled)))))"

section \<open>All open orders of a trade\<close>

definition open_positions :: "trade \<Rightarrow> nat list" where \<comment> \<open>of \<open>trade.open_orders\<close>\<close>
  "open_positions t =
     filter (\<lambda>k. o_ft_is_open (t_orders t ! k) \<and> o_ft_order_side (t_orders t ! k) \<noteq> ''stoploss'')
       [0 ..< length (t_orders t)]"

definition cancel_open_orders_of_trade :: "live_config \<Rightarrow> nat \<Rightarrow> string list \<Rightarrow> string \<Rightarrow> bool \<Rightarrow> unit live" where
  "cancel_open_orders_of_trade B i sides reason replacing =
     readM (\<lambda>s. forM (open_positions (lb_heap s i)) (\<lambda>k. readM (\<lambda>s. let t = lb_heap s i in
       bindM (catchM is_exchange_error
                (bindM (fetch_order B (o_order_id (t_orders t ! k)) (t_pair t) False) (\<lambda>c. retM (Some c)))
                (\<lambda>_. retM None)) (\<lambda>res.
         case res of
           None \<Rightarrow> retM ()
         | Some order \<Rightarrow>
             if c_side order \<notin> Some ` set sides then retM ()
             else if c_side order = Some (entry_side t)
             then bindM (handle_cancel_enter B i order k reason replacing) (\<lambda>_. retM ())
             else if c_side order = Some (exit_side t)
             then bindM (handle_cancel_exit B i order k reason) (\<lambda>_. retM ())
             else retM ()))))"

definition cancel_all_open_orders :: "live_config \<Rightarrow> unit live" where
  "cancel_all_open_orders B =
     readM (\<lambda>s. forM (bot_open_ids s) (\<lambda>i. readM (\<lambda>s. let t = lb_heap s i in
       cancel_open_orders_of_trade B i [entry_side t, exit_side t] REASON_ALL_CANCELLED False)))"

definition handle_similar_open_order :: "live_config \<Rightarrow> nat \<Rightarrow> flt \<Rightarrow> flt \<Rightarrow> string \<Rightarrow> bool live" where
  "handle_similar_open_order B i price amount side =
     readM (\<lambda>s. let t = lb_heap s i in
       if \<not> has_open_orders t then retM False
       else if (case select_order t (Some side) (Some True) False of
                  Some oo \<Rightarrow> o_price oo = Some price \<and> o_side oo = Some side \<and> o_amount oo = Some amount
                | None \<Rightarrow> False) then retM True
       else
         thenM (cancel_open_orders_of_trade B i [entry_side t, exit_side t] REASON_REPLACE True)
           (readM (\<lambda>s. retM (has_open_orders (lb_heap s i)))))"

end
