(* ===== verification/Bot_Exit.thy ===== *)
theory Bot_Exit
  imports Bot_Cancel
begin

text \<open>
  Exits of the trading bot: placing an exit order, the stop order kept on the exchange, recovering
  orders that are not in the database, and the pass over the open trades.
\<close>

section \<open>Placing an exit order\<close>

definition exit_order_type :: "live_config \<Rightarrow> exit_check \<Rightarrow> string option \<Rightarrow> string" where
  "exit_order_type B ex ordertype =
     (if ec_type ex = EMERGENCY_EXIT then lv_emergency_type B
      else str_or ordertype (lv_order_types B
             (if ec_type ex \<in> {STOP_LOSS, TRAILING_STOP_LOSS, LIQUIDATION} then ''stoploss'' else ''exit'')))"

definition wanted_exit_price :: "live_config \<Rightarrow> nat \<Rightarrow> flt \<Rightarrow> string \<Rightarrow> string \<Rightarrow> bool \<Rightarrow> flt option live" where
  "wanted_exit_price B i rate order_type exit_reason skip_custom_exit_price =
     (if order_type = ''limit'' \<and> \<not> skip_custom_exit_price then
        readM (\<lambda>s. let t = lb_heap s i in
          bindM (liftM (calc_profit_ratio (lv_ccxt B s) (lv_now B s) t (Some rate) None None)) (\<lambda>profit.
            retM (lc_exit_price (lv_user B s) t (lv_now B s) rate profit exit_reason)))
      else retM (Some rate))"

definition exit_request :: "live_config \<Rightarrow> trade \<Rightarrow> string \<Rightarrow> flt \<Rightarrow> flt \<Rightarrow> order_request" where
  "exit_request B t order_type amount rate =
     \<lparr>rq_pair = t_pair t, rq_type = order_type, rq_side = exit_side t, rq_amount = amount, rq_rate = rate,
      rq_leverage = t_leverage t, rq_reduce_only = (lv_trading_mode B = FUTURES), rq_initial = False\<rparr>"

definition create_order :: "live_config \<Rightarrow> order_request \<Rightarrow> x_order live" where
  "create_order B rq = ask (Create_call rq) (\<lambda>log. la_create_order (lv_api B) log rq)"

text \<open>The order that was placed is recorded, and a market order may already be filled.\<close>

definition record_exit :: "live_config \<Rightarrow> nat \<Rightarrow> x_order \<Rightarrow> flt \<Rightarrow> flt \<Rightarrow> string \<Rightarrow> bool \<Rightarrow> unit live" where
  "record_exit B i order amount rate exit_reason sub_trade =
     thenM (remember_exit_reason B i exit_reason)
     (readM (\<lambda>s. let t = lb_heap s i; k = length (t_orders t) in
        bindM (liftM (parse_from_ccxt_object (lv_now B s) (ccxt_part order) (t_pair t) (exit_side t) (Some amount)
                        (Some rate))) (\<lambda>ord.
        thenM (setM i (\<lambda>t. t\<lparr>t_orders := t_orders t @ [ord\<lparr>o_ft_order_tag := Some exit_reason\<rparr>],
                              t_exit_order_status := Some [], t_close_rate_requested := Some rate,
                              t_exit_reason := Some exit_reason\<rparr>))
        (thenM (notify_exit B i False (Some (sub_trade, k)))
        (if c_status order \<in> {Some ''closed'', Some ''expired''}
         then bindM (update_trade_state B i (o_order_id ord) (Some order) False True) (\<lambda>_. retM ())
         else retM ())))))"

definition execute_trade_exit ::
    "live_config \<Rightarrow> nat \<Rightarrow> flt \<Rightarrow> exit_check \<Rightarrow> string option \<Rightarrow> string option \<Rightarrow> flt option \<Rightarrow> bool \<Rightarrow> bool live" where
  "execute_trade_exit B i rate ex exit_tag ordertype sub_trade_amt skip_custom_exit_price =
     (let exit_reason = str_or exit_tag (ec_reason ex); order_type = exit_order_type B ex ordertype in
      thenM (bot_funding B i)
      (bindM (wanted_exit_price B i rate order_type exit_reason skip_custom_exit_price) (\<lambda>custom.
       let price = get_valid_price B custom rate in
       thenM (cancel_stoploss_on_exchange B i True)
       (readM (\<lambda>s. let t = lb_heap s i in
       bindM (safe_exit_amount B i (t_pair t) (or_val sub_trade_amt (t_amount t))) (\<lambda>amount.
       readM (\<lambda>s. let t = lb_heap s i in
         if ec_type ex \<noteq> LIQUIDATION \<and> \<not> truthy sub_trade_amt
            \<and> \<not> lc_confirm_exit (lv_user B s) t order_type amount price exit_reason (lv_now B s)
         then retM False
         else
           bindM (handle_similar_open_order B i price amount (exit_side t)) (\<lambda>similar.
             if similar then retM False
             else
               readM (\<lambda>s.
               bindM (catchM (\<lambda>e. e = InsufficientFundsError)
                        (bindM (create_order B (exit_request B (lb_heap s i) order_type amount price))
                           (\<lambda>order. retM (Some order)))
                        (\<lambda>_. thenM (handle_insufficient_funds B i) (retM None)))
                 (\<lambda>res. case res of
                    None \<Rightarrow> retM False
                  | Some order \<Rightarrow>
                      thenM (record_exit B i order amount price exit_reason (truthy sub_trade_amt))
                        (retM True)))))))))))"

text \<open>A price that is missing from the order of the exchange raises in the arithmetic on it.\<close>

definition emergency_exit :: "live_config \<Rightarrow> nat \<Rightarrow> flt option \<Rightarrow> flt option \<Rightarrow> unit live" where
  "emergency_exit B i price sub_trade_amt =
     (case price of
        None \<Rightarrow> catchM is_dependency_exception (thenM (bot_funding B i) (raiseM TypeError)) (\<lambda>_. retM ())
      | Some p \<Rightarrow>
          catchM is_dependency_exception
            (bindM (execute_trade_exit B i p (exit_check_tuple EMERGENCY_EXIT []) None None sub_trade_amt False)
               (\<lambda>_. retM ()))
            (\<lambda>_. retM ()))"

section \<open>The stop order on the exchange\<close>

definition create_stoploss_order :: "live_config \<Rightarrow> nat \<Rightarrow> flt \<Rightarrow> bool live" where
  "create_stoploss_order B i stop_price =
     catchM is_exchange_error
       (readM (\<lambda>s. let t = lb_heap s i in
          bindM (ask (Create_stop_call (t_pair t) (t_amount t) stop_price (exit_side t) (t_leverage t))
                   (\<lambda>log. la_create_stoploss (lv_api B) log (t_pair t) (t_amount t) stop_price (exit_side t) (t_leverage t)))
            (\<lambda>order. readM (\<lambda>s.
              bindM (liftM (parse_from_ccxt_object (lv_now B s) (ccxt_part order) (t_pair t) ''stoploss''
                              (Some (t_amount t)) (Some stop_price))) (\<lambda>ord.
                thenM (setM i (\<lambda>t. t\<lparr>t_orders := t_orders t @ [ord]\<rparr>)) (retM True))))))
       (\<lambda>e. if e = InsufficientFundsError then thenM (handle_insufficient_funds B i) (retM False)
            else if is_invalid_order e then thenM (emergency_exit B i (Some stop_price) None) (retM False)
            else retM False)"

definition stoploss_last_update :: "trade \<Rightarrow> py_error + datetime option" where
  "stoploss_last_update t =
     (if open_sl_orders t = [] then Inr None
      else foldr (\<lambda>ord acc. bindE (order_date_utc ord) (\<lambda>d. bindE acc (\<lambda>m.
             Inr (Some (case m of None \<Rightarrow> d | Some x \<Rightarrow> max d x))))) (open_sl_orders t) (Inr None))"

definition handle_trailing_stoploss_on_exchange :: "live_config \<Rightarrow> nat \<Rightarrow> x_order \<Rightarrow> unit live" where
  "handle_trailing_stoploss_on_exchange B i order =
     readM (\<lambda>s. let t = lb_heap s i in
     bindM (liftM (x_price_to_precision (lv_exchange B s) (t_pair t) (stoploss_or_liquidation t)
                     (if t_is_short t then ROUND_DOWN else ROUND_UP))) (\<lambda>stoploss_norm.
     bindM (liftM (stoploss_adjust (lv_sl_supported B) stoploss_norm (c_stopPrice order) (exit_side t))) (\<lambda>adjust.
       if \<not> adjust then retM ()
       else
         bindM (liftM (stoploss_last_update t)) (\<lambda>last.
           if (case last of None \<Rightarrow> True | Some d \<Rightarrow> lv_now B s - lv_sl_interval B * 1000000 < d) then retM ()
           else
             thenM (cancel_stoploss_on_exchange B i False)
             (readM (\<lambda>s. if \<not> t_is_open (lb_heap s i) then retM ()
               else bindM (create_stoploss_order B i stoploss_norm) (\<lambda>_. retM ())))))))"

definition sl_canceled :: "x_order \<Rightarrow> bool" where
  "sl_canceled c \<longleftrightarrow> c_status c \<in> {Some ''canceled'', Some ''cancelled''}"

definition manage_trade_stoploss_orders :: "live_config \<Rightarrow> nat \<Rightarrow> x_order list \<Rightarrow> unit live" where
  "manage_trade_stoploss_orders B i stoploss_orders =
     readM (\<lambda>s. let t = lb_heap s i in
       bindM (if t_is_open t \<and> stoploss_orders \<noteq> [] \<and> list_all sl_canceled stoploss_orders
              then create_stoploss_order B i (stoploss_or_liquidation t) else retM False) (\<lambda>recreated.
         if recreated then retM ()
         else
           readM (\<lambda>s. let active = filter (\<lambda>c. \<not> sl_canceled c) stoploss_orders in
             if active \<noteq> [] \<and> t_is_open (lb_heap s i) \<and> xo_status_stop (last active) \<noteq> Some ''triggered''
                \<and> (st_trailing_stop (lv_strategy B) \<or> st_use_custom_stoploss (lv_strategy B))
             then handle_trailing_stoploss_on_exchange B i (last active)
             else retM ())))"

text \<open>\<open>Inl ()\<close>: a stop order was filled; otherwise the orders that were found on the exchange.\<close>

fun look_at_stop_orders :: "live_config \<Rightarrow> nat \<Rightarrow> string list \<Rightarrow> x_order list \<Rightarrow> (unit + x_order list) live" where
  "look_at_stop_orders B i [] found = retM (Inr found)"
| "look_at_stop_orders B i (order_id # ids) found =
     bindM (if order_id = [] then retM None
            else catchM is_invalid_order
                   (readM (\<lambda>s. bindM (fetch_stoploss_order B order_id (t_pair (lb_heap s i))) (\<lambda>c. retM (Some c))))
                   (\<lambda>_. retM None))
       (\<lambda>res. case res of
          None \<Rightarrow> look_at_stop_orders B i ids found
        | Some c \<Rightarrow>
            bindM (update_trade_state B i order_id (Some c) True True) (\<lambda>_.
              if c_status c \<in> {Some ''closed'', Some ''triggered''} then
                thenM (setM i (\<lambda>t. t\<lparr>t_exit_reason := Some (exit_type_value STOPLOSS_ON_EXCHANGE)\<rparr>))
                (thenM (notify_exit B i True None)
                (readM (\<lambda>s. let t = lb_heap s i in
                   thenM (handle_protections B (t_pair t) (trade_direction t)) (retM (Inl ())))))
              else look_at_stop_orders B i ids (found @ [c])))"

definition handle_stoploss_on_exchange :: "live_config \<Rightarrow> nat \<Rightarrow> bool live" where
  "handle_stoploss_on_exchange B i =
     readM (\<lambda>s. bindM (look_at_stop_orders B i (map o_order_id (open_sl_orders (lb_heap s i))) []) (\<lambda>res.
       case res of
         Inl _ \<Rightarrow> retM True
       | Inr stoploss_orders \<Rightarrow>
           readM (\<lambda>s. let t = lb_heap s i in
             if \<not> has_open_position t \<or> \<not> t_is_open t \<or> (has_open_orders t \<and> lv_stoploss_blocks_assets B)
             then retM False
             else
               bindM (if stoploss_orders = [] then create_stoploss_order B i (stoploss_or_liquidation t)
                      else retM False) (\<lambda>created.
                 if created then retM False
                 else thenM (manage_trade_stoploss_orders B i stoploss_orders) (retM False)))))"

section \<open>Orders that are not in the database\<close>

definition position_of_order :: "trade \<Rightarrow> string \<Rightarrow> nat option" where
  "position_of_order t order_id =
     (if order_pos t order_id < length (t_orders t) then Some (order_pos t order_id) else None)"

definition adopt_order :: "live_config \<Rightarrow> nat \<Rightarrow> x_order \<Rightarrow> unit live" where
  "adopt_order B i order =
     readM (\<lambda>s. let t = lb_heap s i in
       if position_of_order t (c_id order) \<noteq> None then retM ()
       else
         (case c_side order of
            None \<Rightarrow> raiseM KeyError
          | Some side \<Rightarrow>
              bindM (liftM (parse_from_ccxt_object (lv_now B s) (ccxt_part order) (t_pair t) side None None)) (\<lambda>ord.
                case safe_value_fallback (c_lastTradeTimestamp order) (c_timestamp order) None of
                  None \<Rightarrow> raiseM TypeError
                | Some ts \<Rightarrow>
                    setM i (\<lambda>t. t\<lparr>t_orders := t_orders t @ [ord\<lparr>o_order_filled_date := Some (dt_from_ts ts)\<rparr>],
                                    t_exit_reason := Some (exit_type_value SOLD_ON_EXCHANGE)\<rparr>))))"

text \<open>The part after the loop; the result says whether the trade was deleted.\<close>

definition settle_recovery ::
    "live_config \<Rightarrow> nat \<Rightarrow> x_order list \<Rightarrow> string option \<Rightarrow> bool \<Rightarrow> flt \<Rightarrow> bool live" where
  "settle_recovery B i orders prev_exit_reason prev_open prev_amount =
     readM (\<lambda>s. let t = lb_heap s i in
       if \<not> t_is_open t then
         bindM (liftM (date_last_filled_utc t)) (\<lambda>d.
         thenM (setM i (\<lambda>t. t\<lparr>t_close_date := Some d\<rparr>))
         (if orders = [] then raiseM UnboundLocalError
          else
            (let k = order_pos t (c_id (last orders))
             in thenM (order_close_notify B i k (is_stop_order (t_orders t ! k)) prev_open) (retM False))))
       else
         thenM (setM i (\<lambda>t. t\<lparr>t_exit_reason := prev_exit_reason\<rparr>))
         (let total = (if t_base_currency t \<in> {None, Some []} then 0
                       else get_owned (lv_wallets B) (lb_wallets s) (t_pair t) (the (t_base_currency t)));
              missing = (total < t_amount t \<or> (total = 0 \<and> t_amount t = 0))
          in if missing \<and> fully_canceled_entry_order_count t = length (t_orders t) then
               thenM (notify_enter_cancel B i) (thenM (delete_live i) (retM True))
             else
               thenM (whenM (missing \<and> total > t_amount t * (98/100)) (setM i (\<lambda>t. t\<lparr>t_amount := total\<rparr>)))
               (thenM (readM (\<lambda>s. whenM (prev_amount \<noteq> t_amount (lb_heap s i)) (cancel_stoploss_on_exchange B i False)))
                  (retM False))))"

definition handle_onexchange_order :: "live_config \<Rightarrow> nat \<Rightarrow> bool live" where
  "handle_onexchange_order B i =
     catchM (\<lambda>_. True)
       (readM (\<lambda>s. let t = lb_heap s i in
          bindM (bot_fetch_orders B (t_pair t) (t_open_date t - 10 * 1000000)) (\<lambda>orders.
          thenM (forM orders (\<lambda>order.
                   thenM (adopt_order B i order)
                     (bindM (update_trade_state B i (c_id order) (Some order) False False) (\<lambda>_. retM ()))))
            (settle_recovery B i orders (t_exit_reason t) (t_is_open t) (t_amount t)))))
       (\<lambda>_. retM False)"

end
