(* ===== verification/Bot_Entry.thy ===== *)
theory Bot_Entry
  imports Bot_Exit
begin

text \<open>
  Entries of the trading bot: price, leverage and stake of an order, the compliance gate, the order
  itself and the trade it opens or enlarges.
\<close>

section \<open>Price, leverage and stake\<close>

datatype entry_mode = Initial_entry | Pos_adjust_entry | Replace_entry

definition enter_price ::
    "live_config \<Rightarrow> string \<Rightarrow> flt option \<Rightarrow> string \<Rightarrow> string option \<Rightarrow> trade option \<Rightarrow> entry_mode \<Rightarrow> flt live" where
  "enter_price B pair price trade_side entry_tag t mode =
     bindM (if truthy price then retM (the price) else bot_rate B pair True (trade_side = ''short'') True) (\<lambda>rate.
     readM (\<lambda>s.
       let requested = (if mode \<noteq> Replace_entry
             then get_valid_price B (lc_entry_price (lv_user B s) pair t (lv_now B s) rate entry_tag trade_side) rate
             else rate)
       in if requested = 0 then raiseM PricingError else retM requested))"

definition enter_leverage ::
    "live_config \<Rightarrow> string \<Rightarrow> flt \<Rightarrow> flt \<Rightarrow> string \<Rightarrow> string option \<Rightarrow> trade option \<Rightarrow> flt option \<Rightarrow> flt live" where
  "enter_leverage B pair rate stake_amount trade_side entry_tag t leverage_arg =
     (if lv_trading_mode B \<noteq> SPOT \<and> t = None then
        readM (\<lambda>s.
        bindM (liftM (get_max_leverage (lv_exchange B s) pair (Some stake_amount))) (\<lambda>max_leverage.
          let leverage = (if truthy leverage_arg then the leverage_arg
                          else lc_leverage (lv_user B s) pair (lv_now B s) rate max_leverage trade_side entry_tag)
          in retM (min (max leverage 1) max_leverage)))
      else retM (case t of None \<Rightarrow> 1 | Some tr \<Rightarrow> t_leverage tr))"

definition get_valid_enter_price_and_stake ::
    "live_config \<Rightarrow> string \<Rightarrow> flt option \<Rightarrow> flt \<Rightarrow> string \<Rightarrow> string option \<Rightarrow> trade option \<Rightarrow> entry_mode \<Rightarrow> flt option
       \<Rightarrow> (flt \<times> flt \<times> flt) live" where
  "get_valid_enter_price_and_stake B pair price stake_amount trade_side entry_tag t mode leverage_arg =
     bindM (enter_price B pair price trade_side entry_tag t mode) (\<lambda>rate.
     bindM (enter_leverage B pair rate stake_amount trade_side entry_tag t leverage_arg) (\<lambda>leverage.
     readM (\<lambda>s. let X = lv_exchange B s; stop = (if mode \<noteq> Pos_adjust_entry then st_stoploss (lv_strategy B) else 0) in
     bindM (liftM (get_min_pair_stake_amount X pair rate stop leverage)) (\<lambda>min_stake.
     bindM (liftM (get_max_pair_stake_amount X pair rate leverage)) (\<lambda>max_stake.
     bindM (if t = None then
              bindM (liftM (get_available_stake_amount (lv_wallets B) (db_view s) (lb_wallets s))) (\<lambda>available.
                retM (lc_stake_amount (lv_user B s) pair (lv_now B s) rate stake_amount min_stake
                        (min_limit max_stake available) leverage entry_tag trade_side))
            else retM (Some stake_amount)) (\<lambda>stake.
     bindM (liftM (validate_stake_amount (lv_wallets B) (db_view s) (lb_wallets s) stake min_stake max_stake
                     (map_option t_stake_amount t))) (\<lambda>valid.
       retM (rate, valid, leverage))))))))"

section \<open>The trade of an entry\<close>

definition order_price_or :: "x_order \<Rightarrow> flt \<Rightarrow> flt" where
  "order_price_or c d = (case safe_value_fallback (c_average c) (c_price c) (Some d) of Some p \<Rightarrow> p | None \<Rightarrow> d)"

definition new_live_trade ::
    "live_config \<Rightarrow> bot \<Rightarrow> string \<Rightarrow> flt \<Rightarrow> flt \<Rightarrow> flt \<Rightarrow> bool \<Rightarrow> string option \<Rightarrow> trade" where
  "new_live_trade B s pair stake_amount rate leverage is_short enter_tag =
     (let X = lv_exchange B s; fee = ex_fee X pair False in
      recalc_open_trade_value
       \<lparr>t_id = int (lb_next s), t_orders = [], t_exchange = lv_exchange_id B, t_pair = pair,
        t_base_currency = Some (get_pair_base_currency X pair),
        t_stake_currency = Some (wc_stake_currency (lv_wallets B)), t_is_open = True,
        t_fee_open = fee, t_fee_open_cost = None, t_fee_open_currency = None,
        t_fee_close = Some fee, t_fee_close_cost = None, t_fee_close_currency = None,
        t_open_rate = rate, t_open_trade_value = 0, t_close_rate = None, t_close_rate_requested = None,
        t_close_profit = None, t_close_profit_abs = None, t_realized_profit = 0,
        t_stake_amount = stake_amount, t_max_stake_amount = None, t_amount = 0, t_open_date = lv_now B s,
        t_close_date = None, t_stop_loss = 0, t_stop_loss_pct = None, t_initial_stop_loss = Some 0,
        t_initial_stop_loss_pct = None, t_is_stop_loss_trailing = False, t_max_rate = Some 0,
        t_min_rate = None, t_exit_reason = None, t_exit_order_status = None, t_enter_tag = enter_tag,
        t_trading_mode = Some (lv_trading_mode B),
        t_amount_precision = get_precision_amount X pair, t_price_precision = get_precision_price X pair,
        t_precision_mode = Some (ex_precision_mode X), t_precision_mode_price = Some (ex_precision_mode_price X),
        t_contract_size = get_contract_size X pair, t_liquidation_price = None,
        t_is_short = is_short, t_leverage = leverage, t_interest_rate = Some 0, t_funding_fees = Some 0,
        t_funding_fee_running = None\<rparr>)"

text \<open>A trade enters the database once its first order has been recorded and replayed.\<close>

definition add_live_trade :: "trade \<Rightarrow> nat live" where
  "add_live_trade t s =
     (Inr (lb_next s), s\<lparr>lb_heap := (lb_heap s)(lb_next s := t), lb_db := lb_db s @ [lb_next s], lb_next := lb_next s + 1\<rparr>)"

definition open_live_trade ::
    "live_config \<Rightarrow> string \<Rightarrow> flt \<Rightarrow> flt \<Rightarrow> flt \<Rightarrow> bool \<Rightarrow> string option \<Rightarrow> order \<Rightarrow> nat live" where
  "open_live_trade B pair stake_amount rate leverage is_short enter_tag ord =
     readM (\<lambda>s. bindM (liftM
        (bindE (adjust_stop_loss (lv_ccxt B s) rate (Some (st_stoploss (lv_strategy B))) True False
                  (new_live_trade B s pair stake_amount rate leverage is_short enter_tag)) (\<lambda>t.
           recalc_trade_from_orders (lv_ccxt B s) (lv_now B s) False (t\<lparr>t_orders := [ord]\<rparr>))))
        add_live_trade)"

definition extend_live_trade :: "live_config \<Rightarrow> nat \<Rightarrow> flt \<Rightarrow> order \<Rightarrow> nat live" where
  "extend_live_trade B i funding_fees ord =
     thenM (setM i (\<lambda>t. set_funding_fees (t\<lparr>t_is_open := True\<rparr>) (Some funding_fees)))
     (thenM (setM i (\<lambda>t. t\<lparr>t_orders := t_orders t @ [ord]\<rparr>))
     (thenM (readM (\<lambda>s. onM i (recalc_trade_from_orders (lv_ccxt B s) (lv_now B s) False)))
        (retM i)))"

section \<open>The entry\<close>

definition entry_order_request ::
    "string \<Rightarrow> string \<Rightarrow> bool \<Rightarrow> flt \<Rightarrow> flt \<Rightarrow> flt \<Rightarrow> bool \<Rightarrow> order_request" where
  "entry_order_request pair order_type is_short amount rate leverage initial =
     \<lparr>rq_pair = pair, rq_type = order_type, rq_side = (if is_short then ''sell'' else ''buy''), rq_amount = amount,
      rq_rate = rate, rq_leverage = leverage, rq_reduce_only = False, rq_initial = initial\<rparr>"

text \<open>What follows once the exchange has taken the order. The result says that an order was created.\<close>

definition after_entry :: "live_config \<Rightarrow> nat \<Rightarrow> x_order \<Rightarrow> nat \<Rightarrow> bool \<Rightarrow> entry_mode \<Rightarrow> bool live" where
  "after_entry B i order k pos_adjust mode =
     thenM (bot_wallets_update B True)
     (thenM (notify_enter B i False)
     (thenM (whenM (pos_adjust \<and> c_status order = Some ''closed'') (cancel_stoploss_on_exchange B i False))
     (thenM
       (if x_not_open order then
          bindM (update_trade_state B i (c_id order) (Some order) False True) (\<lambda>fully_canceled.
            if fully_canceled \<and> mode \<noteq> Replace_entry
            then bindM (handle_cancel_enter B i order k REASON_TIMEOUT False) (\<lambda>_. retM ())
            else retM ())
        else retM ())
       (retM True))))"

definition take_entry ::
    "live_config \<Rightarrow> string \<Rightarrow> nat option \<Rightarrow> flt \<Rightarrow> flt \<Rightarrow> flt \<Rightarrow> bool \<Rightarrow> string option \<Rightarrow> flt \<Rightarrow> entry_mode \<Rightarrow> x_order
       \<Rightarrow> bool live" where
  "take_entry B pair trade stake_amount rate leverage is_short enter_tag amount mode order =
     readM (\<lambda>s.
     bindM (liftM (parse_from_ccxt_object (lv_now B s) (ccxt_part order) pair (if is_short then ''sell'' else ''buy'')
                     (Some amount) (Some rate))) (\<lambda>ord0.
       let ord = ord0\<lparr>o_ft_order_tag := enter_tag\<rparr>; gone = (c_status order \<in> {Some ''expired'', Some ''rejected''})
       in if gone \<and> c_filled order = None then raiseM TypeError
          else if gone \<and> c_filled order = Some 0 then retM False
          else
            (let filled_price = (if gone \<or> c_status order = Some ''closed'' then order_price_or order rate else rate) in
             case trade of
               None \<Rightarrow>
                 bindM (open_live_trade B pair stake_amount filled_price leverage is_short enter_tag ord) (\<lambda>i.
                   after_entry B i order 0 False mode)
             | Some i \<Rightarrow>
                 readM (\<lambda>s. let t = lb_heap s i in
                 bindM (liftM (date_last_filled_utc t)) (\<lambda>d.
                 bindM (get_funding_fees B pair (t_amount t) is_short d) (\<lambda>funding_fees.
                 bindM (extend_live_trade B i funding_fees ord) (\<lambda>_.
                   after_entry B i order (length (t_orders t)) True mode)))))))"

definition execute_entry ::
    "live_config \<Rightarrow> string \<Rightarrow> flt \<Rightarrow> flt option \<Rightarrow> bool \<Rightarrow> string option \<Rightarrow> string option \<Rightarrow> nat option \<Rightarrow> entry_mode
       \<Rightarrow> flt option \<Rightarrow> bool live" where
  "execute_entry B pair stake price is_short ordertype enter_tag trade mode leverage_arg =
     readM (\<lambda>s. let trade_side = (if is_short then ''short'' else ''long'');
         side = (if is_short then ''sell'' else ''buy'') in
     bindM (get_valid_enter_price_and_stake B pair price stake trade_side enter_tag (map_option (lb_heap s) trade) mode
              leverage_arg) (\<lambda>(rate, stake_amount, leverage).
       if stake_amount = 0 then retM False
       else if \<not> execute_entry_gate (lv_bot B) pair is_short leverage then retM False
       else
         (let amount = stake_amount / rate * leverage; order_type = str_or ordertype (lv_order_types B ''entry'') in
          readM (\<lambda>s.
            if mode = Initial_entry
               \<and> \<not> lc_confirm_entry (lv_user B s) pair order_type amount rate (lv_now B s) enter_tag trade_side
            then retM False
            else
              bindM (case trade of None \<Rightarrow> retM False
                     | Some i \<Rightarrow> handle_similar_open_order B i rate amount side) (\<lambda>similar.
                if similar then retM False
                else
                  bindM (create_order B (entry_order_request pair order_type is_short amount rate leverage (trade = None)))
                    (take_entry B pair trade stake_amount rate leverage is_short enter_tag amount mode))))))"

section \<open>New trades\<close>

definition free_open_trades :: "live_config \<Rightarrow> bot \<Rightarrow> int option" where \<comment> \<open>\<^term>\<open>None\<close> is infinity\<close>
  "free_open_trades B s =
     (case lv_max_open_trades B of None \<Rightarrow> None | Some n \<Rightarrow> Some (max 0 (n - int (length (bot_open_ids s)))))"

definition check_depth_of_market :: "live_config \<Rightarrow> string \<Rightarrow> flt \<Rightarrow> signal_direction \<Rightarrow> bool live" where
  "check_depth_of_market B pair delta side =
     bindM (ask (Book_call pair 1000) (\<lambda>log. ex_order_book (la_exchange (lv_api B) log) pair 1000)) (\<lambda>book.
       if ob_bids book = [] \<or> ob_asks book = [] then raiseM IndexError
       else
         (let bids = sum_list (map snd (ob_bids book)); asks = sum_list (map snd (ob_asks book));
              entry = (if side = LONG then bids else asks); exit = (if side = LONG then asks else bids)
          in retM (if exit = 0 then entry > 0 else entry / exit \<ge> delta)))"

definition trade_stake :: "live_config \<Rightarrow> flt live" where \<comment> \<open>\<open>wallets.get_trade_stake_amount\<close>\<close>
  "trade_stake B =
     thenM (bot_wallets_update B True)
     (readM (\<lambda>s. let cfg = lv_wallets B in
        bindM (liftM (get_available_stake_amount cfg (db_view s) (lb_wallets s))) (\<lambda>available.
          liftM (check_available_stake_amount cfg
                   (case wc_stake_amount cfg of Some a \<Rightarrow> a
                    | None \<Rightarrow> calculate_unlimited_stake_amount available (total_open_trades_stakes (db_view s))
                               (lv_max_open_trades B)) available))))"

definition create_trade :: "live_config \<Rightarrow> string \<Rightarrow> bool live" where
  "create_trade B pair =
     readM (\<lambda>s. let C = lv_ccxt B s; S = lv_strategy B; now = lv_now B s;
         df = la_candles (lv_api B) (lb_log s) pair;
         nowtime = (if df = [] then None else Some (cd_date (last df)))
       in if free_open_trades B s = Some 0 then retM False
          else
            (case get_entry_signal C S now df of
               (None, _) \<Rightarrow> retM False
             | (Some signal, enter_tag) \<Rightarrow>
                 if strategy_is_pair_locked C S (lb_locks s) now pair nowtime
                      (if signal = SHORT then ''short'' else ''long'') then retM False
                 else
                   bindM (trade_stake B) (\<lambda>stake_amount.
                   bindM (case lv_depth_of_market B of
                            Some delta \<Rightarrow> if delta > 0 then check_depth_of_market B pair delta signal else retM True
                          | None \<Rightarrow> retM True) (\<lambda>deep.
                     if deep
                     then execute_entry B pair stake_amount None (signal = SHORT) None enter_tag None Initial_entry None
                     else retM False))))"

text \<open>Trades are created pair by pair; a pair that raises is skipped.\<close>

fun create_trades :: "live_config \<Rightarrow> int option \<Rightarrow> string list \<Rightarrow> unit live" where
  "create_trades B slots [] = retM ()"
| "create_trades B slots (pair # pairs) =
     (if slots \<noteq> None \<and> the slots \<le> 0 then retM ()
      else
        bindM (catchM is_dependency_exception (create_trade B pair) (\<lambda>_. retM False)) (\<lambda>created.
          create_trades B (if created then map_option (\<lambda>n. n - 1) slots else slots) pairs))"

definition free_pairs :: "bot \<Rightarrow> string list" where
  "free_pairs s = foldl (\<lambda>ps i. remove1 (t_pair (lb_heap s i)) ps) (lb_whitelist s) (bot_open_ids s)"

definition enter_positions :: "live_config \<Rightarrow> int option \<Rightarrow> unit live" where
  "enter_positions B free_trade_slots =
     readM (\<lambda>s.
       if free_pairs s = [] then retM ()
       else if is_global_lock (lb_locks s) (lv_now B s) ''*'' then retM ()
       else create_trades B free_trade_slots (free_pairs s))"

end
