(* ===== verification/Bot_Process.thy ===== *)
theory Bot_Process
  imports Bot_Entry
begin

text \<open>
  One iteration of the trading bot: open orders that time out or are replaced, the exits, the
  adjustment of positions and the entries, and what the bot does when it starts and stops.
\<close>

section \<open>Exits\<close>

fun execute_first_exit :: "live_config \<Rightarrow> nat \<Rightarrow> flt \<Rightarrow> string option \<Rightarrow> exit_check list \<Rightarrow> bool live" where
  "execute_first_exit B i exit_rate exit_tag [] = retM False"
| "execute_first_exit B i exit_rate exit_tag (ex # exs) =
     (let exit_tag1 = (if ec_type ex = EXIT_SIGNAL then exit_tag else None) in
      if ec_type ex = EXIT_NONE then execute_first_exit B i exit_rate exit_tag exs
      else
        readM (\<lambda>s. let t = lb_heap s i in
          if has_open_orders t \<and> exit_reason_seen B s (exit_reason_key t (str_or exit_tag1 (ec_reason ex)))
          then execute_first_exit B i exit_rate exit_tag exs
          else
            bindM (execute_trade_exit B i exit_rate ex exit_tag1 None None False) (\<lambda>exited.
              if exited then retM True else execute_first_exit B i exit_rate exit_tag exs)))"

definition check_and_execute_exit ::
    "live_config \<Rightarrow> nat \<Rightarrow> flt \<Rightarrow> bool \<Rightarrow> bool \<Rightarrow> string option \<Rightarrow> bool live" where
  "check_and_execute_exit B i exit_rate enter exit_sig exit_tag =
     readM (\<lambda>s.
     bindM (liftM (should_exit (lv_ccxt B s) (lv_strategy B) (lv_now B s) (lb_heap s i) exit_rate (lv_now B s)
                     enter exit_sig None None 0)) (\<lambda>(exits, t).
       thenM (setM i (\<lambda>_. t)) (execute_first_exit B i exit_rate exit_tag exits)))"

definition handle_trade :: "live_config \<Rightarrow> nat \<Rightarrow> bool live" where
  "handle_trade B i =
     readM (\<lambda>s. let t = lb_heap s i; S = lv_strategy B in
       if \<not> t_is_open t then raiseM DependencyException
       else
         (let (enter, exit_sig, exit_tag) =
                (if st_use_exit_signal S \<or> st_ignore_roi_if_entry_signal S
                 then get_exit_signal (lv_ccxt B s) S (lv_now B s) (la_candles (lv_api B) (lb_log s) (t_pair t)) (t_is_short t)
                 else (False, False, None))
          in bindM (bot_rate B (t_pair t) False (t_is_short t) True) (\<lambda>exit_rate.
               check_and_execute_exit B i exit_rate enter exit_sig exit_tag)))"

text \<open>One open trade; the result says whether it counts as closed.\<close>

definition exit_position :: "live_config \<Rightarrow> nat \<Rightarrow> bool live" where
  "exit_position B i =
     readM (\<lambda>s. let t = lb_heap s i in
       bindM (if \<not> has_open_orders t \<and> \<not> has_open_sl_orders t \<and> t_fee_open_currency t \<noteq> None then
                bindM (bot_check_exit_amount B i) (\<lambda>enough.
                  if enough then retM False else handle_onexchange_order B i)
              else retM False) (\<lambda>deleted.
         if deleted then retM False
         else
           catchM is_dependency_exception
             (bindM (catchM is_invalid_order
                       (if st_stoploss_on_exchange (lv_strategy B) then handle_stoploss_on_exchange B i else retM False)
                       (\<lambda>_. retM False)) (\<lambda>stopped.
                if stopped then retM True
                else readM (\<lambda>s. let t = lb_heap s i in
                  if has_open_position t \<and> t_is_open t then handle_trade B i else retM False)))
             (\<lambda>_. retM False)))"

fun exit_each :: "live_config \<Rightarrow> nat list \<Rightarrow> bool live" where
  "exit_each B [] = retM False"
| "exit_each B (i # is) =
     bindM (exit_position B i) (\<lambda>closed. bindM (exit_each B is) (\<lambda>more. retM (closed \<or> more)))"

definition exit_positions :: "live_config \<Rightarrow> nat list \<Rightarrow> unit live" where
  "exit_positions B trades =
     bindM (exit_each B trades) (\<lambda>any_closed. whenM any_closed (bot_wallets_update B True))"

section \<open>Open orders\<close>

definition handle_cancel_order ::
    "live_config \<Rightarrow> x_order \<Rightarrow> nat \<Rightarrow> nat \<Rightarrow> string \<Rightarrow> bool \<Rightarrow> bool live" where
  "handle_cancel_order B order k i reason replacing =
     readM (\<lambda>s. if c_side order = Some (entry_side (lb_heap s i))
       then handle_cancel_enter B i order k reason replacing
       else
         bindM (handle_cancel_exit B i order k reason) (\<lambda>canceled.
         readM (\<lambda>s. let t = lb_heap s i; limit_count = lv_exit_timeout_count B in
           thenM (if \<not> replacing \<and> canceled \<and> limit_count > 0 \<and> int (canceled_exit_order_count t) \<ge> limit_count
                  then emergency_exit B i (c_price order) (Some (safe_remaining (t_orders t ! k)))
                  else retM ())
             (retM canceled))))"

definition replace_order_failed :: "live_config \<Rightarrow> nat \<Rightarrow> unit live" where
  "replace_order_failed B i =
     readM (\<lambda>s. whenM (nr_of_successful_entries (lb_heap s i) = 0)
       (thenM (notify_enter_cancel B i) (delete_live i)))"

definition place_replacement :: "live_config \<Rightarrow> nat \<Rightarrow> nat \<Rightarrow> flt \<Rightarrow> bool \<Rightarrow> bool live" where
  "place_replacement B i k new_order_price is_entry =
     readM (\<lambda>s. let t = lb_heap s i; ord = t_orders t ! k in
       if is_entry then
         (case safe_price ord of
            None \<Rightarrow> raiseM TypeError
          | Some p \<Rightarrow>
              if t_leverage t = 0 then raiseM ZeroDivisionError
              else execute_entry B (t_pair t) (safe_remaining ord * p / t_leverage t) (Some new_order_price) (t_is_short t)
                     None None (Some i) Replace_entry None)
       else execute_trade_exit B i new_order_price
              (exit_check_tuple CUSTOM_EXIT (str_or (o_ft_order_tag ord) ''order_replaced''))
              None (Some ''limit'') (Some (safe_remaining ord)) False)"

definition handle_replace_order ::
    "live_config \<Rightarrow> x_order \<Rightarrow> nat \<Rightarrow> nat \<Rightarrow> flt option \<Rightarrow> bool \<Rightarrow> string \<Rightarrow> bool \<Rightarrow> unit live" where
  "handle_replace_order B order k i new_order_price is_entry cancel_reason replacing =
     bindM (handle_cancel_order B order k i cancel_reason replacing) (\<lambda>res.
       if \<not> res then replace_order_failed B i
       else if \<not> truthy new_order_price then retM ()
       else
         catchM is_dependency_exception
           (bindM (place_replacement B i k (the new_order_price) is_entry) (\<lambda>succeeded.
              whenM (\<not> succeeded) (replace_order_failed B i)))
           (\<lambda>_. replace_order_failed B i))"

definition live_replace_order :: "live_config \<Rightarrow> x_order \<Rightarrow> nat \<Rightarrow> nat \<Rightarrow> unit live" where
  "live_replace_order B order k i =
     readM (\<lambda>s. let t = lb_heap s i; ord = t_orders t ! k; df = la_candles (lv_api B) (lb_log s) (t_pair t);
         latest = (if df = [] then lv_now B s else cd_date (last df));
         is_entry = (o_side ord = Some (entry_side t)); current = safe_placement_price ord in
       bindM (liftM (order_date_utc ord)) (\<lambda>d.
         if timeframe_to_next_date (lv_ccxt B s) (st_timeframe (lv_strategy B)) latest > d then
           bindM (bot_rate B (t_pair t) is_entry (t_is_short t) True) (\<lambda>proposed_rate.
           readM (\<lambda>s.
             let adjusted = lc_adjust_order_price (lv_user B s) t ord (lv_now B s) proposed_rate current is_entry;
                 replacing = truthy adjusted
             in if current \<noteq> adjusted
                then handle_replace_order B order k i adjusted is_entry
                       (if replacing then REASON_REPLACE else REASON_USER_CANCEL) replacing
                else retM ()))
         else retM ()))"

definition manage_open_order :: "live_config \<Rightarrow> nat \<Rightarrow> nat \<Rightarrow> unit live" where
  "manage_open_order B i k =
     readM (\<lambda>s. let t = lb_heap s i; ord = t_orders t ! k in
     bindM (catchM is_exchange_error
              (bindM (fetch_order B (o_order_id ord) (t_pair t) False) (\<lambda>c. retM (Some c))) (\<lambda>_. retM None)) (\<lambda>res.
       case res of
         None \<Rightarrow> retM ()
       | Some order \<Rightarrow>
           bindM (update_trade_state B i (o_order_id ord) (Some order) False True) (\<lambda>fully_cancelled.
             if c_status order = Some ''open'' \<or> fully_cancelled then
               readM (\<lambda>s. let t = lb_heap s i; ord = t_orders t ! k in
               bindM (if fully_cancelled then retM True
                      else liftM (ft_check_timed_out (lv_strategy B) t ord (lv_now B s))) (\<lambda>timed_out.
                 if timed_out then bindM (handle_cancel_order B order k i REASON_TIMEOUT False) (\<lambda>_. retM ())
                 else live_replace_order B order k i))
             else retM ())))"

definition live_manage_open_orders :: "live_config \<Rightarrow> unit live" where
  "live_manage_open_orders B =
     readM (\<lambda>s. forM (bot_open_ids s) (\<lambda>i.
       readM (\<lambda>s. forM (open_positions (lb_heap s i)) (manage_open_order B i))))"

section \<open>Adjusting positions\<close>

definition increase_position :: "live_config \<Rightarrow> nat \<Rightarrow> flt \<Rightarrow> flt \<Rightarrow> string option \<Rightarrow> unit live" where
  "increase_position B i stake_amount entry_rate order_tag =
     readM (\<lambda>s. let t = lb_heap s i; limit_count = lv_max_entry_adjustment B in
       if lb_state s = STATE_PAUSED then retM ()
       else if limit_count > -1 \<and> int (nr_of_successful_entries t) > limit_count then retM ()
       else bindM (execute_entry B (t_pair t) stake_amount (Some entry_rate) (t_is_short t) None order_tag (Some i)
                     Pos_adjust_entry None) (\<lambda>_. retM ()))"

definition decrease_position :: "live_config \<Rightarrow> nat \<Rightarrow> flt \<Rightarrow> flt \<Rightarrow> string option \<Rightarrow> unit live" where
  "decrease_position B i stake_amount exit_rate order_tag =
     readM (\<lambda>s. let t = lb_heap s i; X = lv_exchange B s in
       if t_stake_amount t = 0 then raiseM ZeroDivisionError
       else
         (let amount = x_amount_to_contract_precision X (t_pair t)
                         \<bar>precise_div (ex_ccxt X) (stake_amount * t_amount t) (t_stake_amount t)\<bar>;
              remaining = (t_amount t - amount) * exit_rate
          in if amount = 0 then retM ()
             else
               bindM (liftM (get_min_pair_stake_amount X (t_pair t) exit_rate (st_stoploss (lv_strategy B))
                               (t_leverage t))) (\<lambda>min_exit_stake.
                 if truthy min_exit_stake \<and> remaining \<noteq> 0 \<and> remaining < the min_exit_stake then retM ()
                 else bindM (execute_trade_exit B i exit_rate (exit_check_tuple PARTIAL_EXIT []) order_tag None
                               (Some amount) False) (\<lambda>_. retM ()))))"

definition check_and_call_adjust_trade_position :: "live_config \<Rightarrow> nat \<Rightarrow> unit live" where
  "check_and_call_adjust_trade_position B i =
     readM (\<lambda>s. let t = lb_heap s i in
     bindM (bot_rates B (t_pair t) (t_is_short t)) (\<lambda>(entry_rate, exit_rate).
     readM (\<lambda>s. let X = lv_exchange B s; C = lv_ccxt B s; now = lv_now B s in
     bindM (liftM (calc_profit_ratio C now t (Some entry_rate) None None)) (\<lambda>entry_profit.
     bindM (liftM (calc_profit_ratio C now t (Some exit_rate) None None)) (\<lambda>exit_profit.
     bindM (liftM (get_min_pair_stake_amount X (t_pair t) entry_rate 0 (t_leverage t))) (\<lambda>min_stake.
     bindM (liftM (get_max_pair_stake_amount X (t_pair t) entry_rate (t_leverage t))) (\<lambda>max_stake.
     bindM (liftM (get_available_stake_amount (lv_wallets B) (db_view s) (lb_wallets s))) (\<lambda>available.
       let (stake_amount, order_tag) =
             lc_adjust_position (lv_user B s) t now entry_rate entry_profit min_stake (min_limit max_stake available)
               exit_rate exit_profit
       in case stake_amount of
            None \<Rightarrow> retM ()
          | Some stake \<Rightarrow>
              if stake > 0 then increase_position B i stake entry_rate order_tag
              else if stake < 0 then decrease_position B i stake exit_rate order_tag
              else retM ()))))))))"

definition process_open_trade_positions :: "live_config \<Rightarrow> unit live" where
  "process_open_trade_positions B =
     readM (\<lambda>s. forM (bot_open_ids s) (\<lambda>i. readM (\<lambda>s. let t = lb_heap s i in
       whenM (has_open_position t \<or> has_open_orders t)
         (thenM (bot_wallets_update B False)
            (catchM is_dependency_exception (check_and_call_adjust_trade_position B i) (\<lambda>_. retM ()))))))"

section \<open>An iteration\<close>

text \<open>
  Pairs of open trades are appended to the list the pair list manager returns. Reloading the
  markets, refreshing the candles and analysing them is one request.
\<close>

definition refresh_active_whitelist :: "live_config \<Rightarrow> nat list \<Rightarrow> unit live" where
  "refresh_active_whitelist B trades =
     bindM (ask Refresh_call (la_pairlist (lv_api B))) (\<lambda>pairs.
       modM (\<lambda>s. s\<lparr>lb_whitelist := pairs @ filter (\<lambda>p. p \<notin> set pairs) (map (\<lambda>i. t_pair (lb_heap s i)) trades)\<rparr>))"

definition process :: "live_config \<Rightarrow> unit live" where
  "process B =
     thenM (update_trades_without_assigned_fees B)
     (thenM (readM (\<lambda>s. refresh_active_whitelist B (bot_open_ids s)))
     (thenM (live_manage_open_orders B)
     (thenM (readM (\<lambda>s. exit_positions B (bot_open_ids s)))
     (thenM (whenM (lv_position_adjustment B) (process_open_trade_positions B))
        (readM (\<lambda>s. let slots = free_open_trades B s in
           whenM (lb_state s = STATE_RUNNING \<and> (slots = None \<or> the slots > 0)) (enter_positions B slots)))))))"

definition process_stopped :: "live_config \<Rightarrow> unit live" where
  "process_stopped B = whenM (lv_cancel_on_exit B) (cancel_all_open_orders B)"

section \<open>Scheduled updates and startup\<close>

definition update_all_liquidation_prices :: "live_config \<Rightarrow> unit live" where
  "update_all_liquidation_prices B =
     whenM (lv_trading_mode B = FUTURES \<and> lv_margin_mode B = CROSS) (bot_update_liquidation B None)"

definition update_funding_fees :: "live_config \<Rightarrow> unit live" where
  "update_funding_fees B =
     whenM (lv_trading_mode B = FUTURES) (readM (\<lambda>s. forM (bot_open_ids s) (bot_funding B)))"

definition scheduled_update :: "live_config \<Rightarrow> unit live" where
  "scheduled_update B =
     thenM (update_funding_fees B) (thenM (update_all_liquidation_prices B) (bot_wallets_update B True))"

definition startup_backpopulate_precision :: "live_config \<Rightarrow> unit live" where
  "startup_backpopulate_precision B =
     readM (\<lambda>s. let X = lv_exchange B s in
       forM (filter (\<lambda>i. t_contract_size (lb_heap s i) = None) (lb_db s)) (\<lambda>i.
         setM i (\<lambda>t. if t_exchange t \<noteq> lv_exchange_id B then t
           else t\<lparr>t_precision_mode := Some (ex_precision_mode X), t_precision_mode_price := Some (ex_precision_mode_price X),
                  t_amount_precision := get_precision_amount X (t_pair t),
                  t_price_precision := get_precision_price X (t_pair t),
                  t_contract_size := get_contract_size X (t_pair t)\<rparr>)))"

text \<open>\<open>order.to_ccxt_object()\<close> with the status set to canceled.\<close>

definition as_cancelled :: "order \<Rightarrow> x_order" where
  "as_cancelled ord =
     \<lparr>c_id = o_order_id ord, c_status = Some ''canceled'', c_symbol = Some (o_ft_pair ord), c_type = o_order_type ord,
      c_side = Some (o_ft_order_side ord), c_price = o_price ord, c_amount = o_amount ord, c_filled = o_filled ord,
      c_average = o_average ord, c_remaining = o_remaining ord, c_cost = o_cost ord,
      c_stopPrice = (if is_stop_order ord then o_stop_price ord else None),
      c_timestamp = map_option dt_ts (o_order_date ord),
      c_lastTradeTimestamp = None, xo_fee = None, xo_trades = [],
      xo_id_stop = None, xo_status_stop = None, xo_algo_id = None\<rparr>"

definition days_us :: "int \<Rightarrow> int" where
  "days_us n = n * day_us"

text \<open>The test the code makes before it takes an unknown order for cancelled.\<close>

definition assumed_cancelled :: "datetime \<Rightarrow> datetime \<Rightarrow> bool" where
  "assumed_cancelled order_date now \<longleftrightarrow> order_date - days_us 5 < now"

definition startup_update_order :: "live_config \<Rightarrow> nat \<Rightarrow> nat \<Rightarrow> unit live" where
  "startup_update_order B i k =
     readM (\<lambda>s. let ord = t_orders (lb_heap s i) ! k in
       catchM is_exchange_error
         (bindM (fetch_order_or_stoploss_order B (o_order_id ord) (o_ft_pair ord) (is_stop_order ord)) (\<lambda>fo.
          bindM (update_trade_state B i (o_order_id ord) (Some fo) (is_stop_order ord) True) (\<lambda>_. retM ())))
         (\<lambda>e. if is_invalid_order e then
                 readM (\<lambda>s. let ord = t_orders (lb_heap s i) ! k in
                 bindM (liftM (order_date_utc ord)) (\<lambda>d.
                   if assumed_cancelled d (lv_now B s)
                   then bindM (handle_cancel_order B (as_cancelled ord) k i REASON_TIMEOUT False) (\<lambda>_. retM ())
                   else retM ()))
               else retM ()))"

definition startup_update_open_orders :: "live_config \<Rightarrow> unit live" where
  "startup_update_open_orders B =
     (if lv_dry_run B \<or> lv_skip_order_update B then retM ()
      else
        readM (\<lambda>s.
          forM (concat (map (\<lambda>i. map (Pair i) (filter (\<lambda>k. o_ft_is_open (t_orders (lb_heap s i) ! k))
                                              [0 ..< length (t_orders (lb_heap s i))])) (lb_db s)))
            (\<lambda>(i, k). startup_update_order B i k)))"

end
