(* ===== verification/Bot_Frame.thy ===== *)
theory Bot_Frame
  imports Bot_Process Bt_Frame
begin

text \<open>
  What the operations of the trading bot keep. A program keeps a predicate when every run from a
  state in which it holds ends, normally or with an exception, in a state in which it holds. A
  locale states what a predicate has to allow, and proves that every operation then keeps it.
\<close>

section \<open>The identity of a trade, and that only an entry opens one\<close>

definition same_trade :: "trade \<Rightarrow> trade \<Rightarrow> bool" where
  "same_trade t t' \<longleftrightarrow> trade_key t' = trade_key t \<and> (t_is_open t' \<longrightarrow> t_is_open t)"

lemma same_trade_refl [simp]: "same_trade t t"
  by (simp add: same_trade_def)

lemma same_trade_trans: "same_trade t u \<Longrightarrow> same_trade u v \<Longrightarrow> same_trade t v"
  by (auto simp: same_trade_def)

lemma same_tradeI: "trade_key t' = trade_key t \<Longrightarrow> t_is_open t' = t_is_open t \<Longrightarrow> same_trade t t'"
  by (simp add: same_trade_def)

definition keeps_same :: "(trade \<Rightarrow> py_error + trade) \<Rightarrow> bool" where
  "keeps_same f \<longleftrightarrow> (\<forall>t t'. f t = Inr t' \<longrightarrow> same_trade t t')"

lemma keeps_sameI: "(\<And>t t'. f t = Inr t' \<Longrightarrow> same_trade t t') \<Longrightarrow> keeps_same f"
  by (simp add: keeps_same_def)

lemma keeps_same_set: "(\<And>t. same_trade t (f t)) \<Longrightarrow> keeps_same (\<lambda>t. Inr (f t))"
  by (auto simp: keeps_same_def)

lemma adjust_stop_loss_open:
  assumes "adjust_stop_loss C price sl initial refresh t = Inr t'"
  shows "t_is_open t' = t_is_open t"
  using assms by (cases rule: adjust_stop_loss_cases) (simp_all add: set_stop_loss_def Let_def)

lemma recalc_open:
  assumes "recalc_trade_from_orders C now cl t = Inr t'"
  shows "t_is_open t' = t_is_open t"
proof -
  from assms obtain a t2 where a: "runE (recalc_step C now) (t_orders t) (recalc_init t) = Inr a"
    and t2: "finish_totals a = Inr t2" and t': "finish_position C cl a t2 = Inr t'"
    by (auto simp: recalc_trade_from_orders_def recalc_finish_def bindE_eq_Inr)
  from recalc_run_effect [OF a] have "t_is_open (ra_self a) = t_is_open t"
    by (auto simp: recalc_init_def)
  moreover from t2 have "t_is_open t2 = t_is_open (ra_self a)"
    by (auto simp: finish_totals_def Let_def split: if_splits option.splits)
  moreover from t' have "t_is_open t' = t_is_open t2"
    by (auto simp: finish_position_def reopen_position_def bindE_eq_Inr Let_def recalc_open_trade_value_def
        dest!: adjust_stop_loss_open split: if_splits)
  ultimately show ?thesis by simp
qed

lemma close_trade_open: "close_trade C now rate t = Inr t' \<Longrightarrow> \<not> t_is_open t'"
  by (auto simp: close_trade_def bindE_eq_Inr dest!: recalc_open)

lemma recalc_same: "recalc_trade_from_orders C now cl t = Inr t' \<Longrightarrow> same_trade t t'"
  by (intro same_tradeI recalc_key recalc_open)

lemma adjust_stop_loss_same: "adjust_stop_loss C price sl initial refresh t = Inr t' \<Longrightarrow> same_trade t t'"
  by (intro same_tradeI adjust_stop_loss_key adjust_stop_loss_open)

lemma close_trade_same: "close_trade C now rate t = Inr t' \<Longrightarrow> same_trade t t'"
  using close_trade_key [of C now rate t t'] close_trade_open [of C now rate t t'] by (simp add: same_trade_def)

lemma ft_stoploss_adjust_open:
  assumes "ft_stoploss_adjust C S clock rate time profit force low high bp af t = Inr t'"
  shows "t_is_open t' = t_is_open t"
proof -
  from assms consider "t' = t" | s0 t1 t2 s1 rate' bp' dir where
      "adjust_stop_loss C (t_open_rate t) (Some s0) True False t = Inr t1"
      "apply_custom_stop C S time rate' bp' af dir s0 t1 = Inr (t2, s1)"
      "apply_trailing_stop C S rate' bp' dir s1 t2 = Inr t'"
    by (simp add: ft_stoploss_adjust_def Let_def bindE_eq_Inr split: if_splits) blast+
  then show ?thesis
    by cases (auto simp: apply_custom_stop_def apply_trailing_stop_def Let_def bindE_eq_Inr
        dest!: adjust_stop_loss_open split: if_splits)
qed

lemma ft_stoploss_adjust_same:
  "ft_stoploss_adjust C S clock rate time profit force low high bp af t = Inr t' \<Longrightarrow> same_trade t t'"
  by (intro same_tradeI ft_stoploss_adjust_key ft_stoploss_adjust_open)

lemma should_exit_same:
  assumes "should_exit C S clock t rate time en ex low high force = Inr (exits, t')"
  shows "same_trade t t'"
proof (rule same_tradeI)
  from assms show "trade_key t' = trade_key t" by (rule should_exit_key)
  from assms show "t_is_open t' = t_is_open t"
    by (auto simp: should_exit_def ft_stoploss_reached_def bindE_eq_Inr adjust_min_max_rates_def
        dest!: ft_stoploss_adjust_open)
qed

lemma set_liquidation_price_same:
  assumes "set_liquidation_price C t p = Inr t'"
  shows "same_trade t t'"
  using assms by (auto simp: set_liquidation_price_def same_trade_def trade_key_def bindE_eq_Inr split: option.splits)

lemma update_trade_branches:
  assumes "(if a then Inr t else if b then bindE r f else if c then x else if d then y else Inl e) = Inr t'"
  shows "t' = t \<or> (\<exists>u. r = Inr u \<and> f u = Inr t') \<or> x = Inr t' \<or> y = Inr t'"
  using assms by (auto simp: bindE_eq_Inr split: if_splits)

lemma update_trade_same:
  assumes "update_trade C now k recalculating t = Inr t'"
  shows "same_trade t t'"
proof -
  have same: "same_trade t u \<Longrightarrow> trade_key v = trade_key u \<Longrightarrow> t_is_open v = t_is_open u \<Longrightarrow> same_trade t v"
    for u v by (simp add: same_trade_def)
  define ord where "ord = t_orders t ! k"
  define t1 where "t1 = (if o_ft_order_side ord \<noteq> ''stoploss''
      then t\<lparr>t_orders := (t_orders t)[k := ord\<lparr>o_funding_fee := t_funding_fee_running t\<rparr>], t_funding_fee_running := Some 0\<rparr>
      else t)"
  have t1: "same_trade t t1" by (simp add: same_trade_def t1_def trade_key_def)
  define fin where "fin = (\<lambda>u. if o_ft_order_side ord \<noteq> entry_side u then
          (let amount_tr = amount_to_contract_precision C (t_amount u) (t_amount_precision u) (t_precision_mode u)
                             (t_contract_size u);
               filled = safe_amount_after_fee ord
           in if py_isclose filled amount_tr MATH_CLOSE_PREC \<or> (\<not> recalculating \<and> filled > amount_tr)
              then close_trade C now (safe_price ord) u else recalc_trade_from_orders C now False u)
         else Inr u)"
  have fin: "same_trade u v" if "fin u = Inr v" for u v
  proof -
    have "fin u = close_trade C now (safe_price ord) u \<or> fin u = recalc_trade_from_orders C now False u \<or> fin u = Inr u"
      by (simp add: fin_def Let_def)
    with that show ?thesis by (metis close_trade_same recalc_same same_trade_refl sum.inject(2))
  qed
  have eq: "update_trade C now k recalculating t =
     (if o_status ord = Some ''open'' \<or> safe_price ord = None then Inr t
      else if o_ft_order_side ord = entry_side t1 then
        bindE (recalc_trade_from_orders C now False
                 (t1\<lparr>t_open_rate := the (safe_price ord), t_amount := safe_amount_after_fee ord\<rparr>)) fin
      else if o_ft_order_side ord = exit_side t1 then fin t1
      else if o_ft_order_side ord = ''stoploss'' \<and> o_status ord \<noteq> Some ''open'' then
        fin (t1\<lparr>t_close_rate_requested := Some (t_stop_loss t1),
                t_exit_reason := Some (exit_type_value STOPLOSS_ON_EXCHANGE)\<rparr>)
      else Inl ValueError)"
    unfolding update_trade_def Let_def ord_def [symmetric] t1_def [symmetric] fin_def by (rule refl)
  from update_trade_branches [OF assms [unfolded eq]] consider "t' = t"
    | u where "recalc_trade_from_orders C now False
                 (t1\<lparr>t_open_rate := the (safe_price ord), t_amount := safe_amount_after_fee ord\<rparr>) = Inr u"
        and "fin u = Inr t'"
    | "fin t1 = Inr t'"
    | "fin (t1\<lparr>t_close_rate_requested := Some (t_stop_loss t1),
              t_exit_reason := Some (exit_type_value STOPLOSS_ON_EXCHANGE)\<rparr>) = Inr t'"
    by (elim disjE exE conjE)
  then show ?thesis
  proof cases
    case 1
    then show ?thesis by simp
  next
    case (2 u)
    have "same_trade t1 (t1\<lparr>t_open_rate := the (safe_price ord), t_amount := safe_amount_after_fee ord\<rparr>)"
      by (simp add: same_trade_def trade_key_def)
    from same_trade_trans [OF t1 same_trade_trans [OF this same_trade_trans [OF recalc_same [OF 2(1)] fin [OF 2(2)]]]]
    show ?thesis .
  next
    case 3
    from same_trade_trans [OF t1 fin [OF this]] show ?thesis .
  next
    case 4
    from fin [OF this] have "same_trade t1 t'" by (simp add: same_trade_def trade_key_def)
    with t1 show ?thesis by (rule same_trade_trans)
  qed
qed

lemma set_funding_fees_same [simp]: "same_trade t (set_funding_fees t f)"
  by (simp add: same_trade_def) (simp add: set_funding_fees_def Let_def split: option.split)

lemma update_fee_same [simp]: "same_trade t (update_fee t c cur r side)"
  by (simp add: update_fee_def same_trade_def trade_key_def Let_def split: option.split)

section \<open>Keeping a predicate\<close>

definition keeps :: "(bot \<Rightarrow> bool) \<Rightarrow> 'a live \<Rightarrow> bool" where
  "keeps P m \<longleftrightarrow> (\<forall>s. P s \<longrightarrow> P (snd (m s)))"

lemma keepsI: "(\<And>s. P s \<Longrightarrow> P (snd (m s))) \<Longrightarrow> keeps P m"
  by (simp add: keeps_def)

lemma keepsD: "keeps P m \<Longrightarrow> P s \<Longrightarrow> P (snd (m s))"
  by (simp add: keeps_def)

lemma keeps_ret: "keeps P (retM x)"
  by (simp add: keeps_def retM_def)

lemma keeps_raise: "keeps P (raiseM e)"
  by (simp add: keeps_def raiseM_def)

lemma keeps_lift: "keeps P (liftM r)"
  by (simp add: keeps_def liftM_def)

lemma keeps_bind: "keeps P m \<Longrightarrow> (\<And>x. keeps P (f x)) \<Longrightarrow> keeps P (bindM m f)"
  by (auto simp: keeps_def bindM_def split: prod.split sum.split)

lemma keeps_then: "keeps P m \<Longrightarrow> keeps P n \<Longrightarrow> keeps P (thenM m n)"
  by (simp add: thenM_def keeps_bind)

lemma keeps_read: "(\<And>s. P s \<Longrightarrow> keeps P (f s)) \<Longrightarrow> keeps P (readM f)"
  by (simp add: keeps_def readM_def)

lemma keeps_mod: "(\<And>s. P s \<Longrightarrow> P (f s)) \<Longrightarrow> keeps P (modM f)"
  by (simp add: keeps_def modM_def)

lemma keeps_catch: "keeps P m \<Longrightarrow> (\<And>e. keeps P (h e)) \<Longrightarrow> keeps P (catchM p m h)"
  by (auto simp: keeps_def catchM_def split: prod.split sum.split)

lemma keeps_for: "(\<And>x. x \<in> set xs \<Longrightarrow> keeps P (f x)) \<Longrightarrow> keeps P (forM xs f)"
  by (induction xs) (auto intro: keeps_ret keeps_then)

lemma keeps_when: "(b \<Longrightarrow> keeps P m) \<Longrightarrow> keeps P (whenM b m)"
  by (simp add: whenM_def keeps_ret)

lemma keeps_if: "(b \<Longrightarrow> keeps P m) \<Longrightarrow> (\<not> b \<Longrightarrow> keeps P n) \<Longrightarrow> keeps P (if b then m else n)"
  by simp

lemma keeps_option: "keeps P m \<Longrightarrow> (\<And>x. keeps P (f x)) \<Longrightarrow> keeps P (case a of None \<Rightarrow> m | Some x \<Rightarrow> f x)"
  by (cases a) auto

lemma keeps_sum: "(\<And>e. keeps P (f e)) \<Longrightarrow> (\<And>x. keeps P (g x)) \<Longrightarrow> keeps P (case a of Inl e \<Rightarrow> f e | Inr x \<Rightarrow> g x)"
  by (cases a) auto

lemma keeps_pair: "(\<And>x y. keeps P (f x y)) \<Longrightarrow> keeps P (case p of (x, y) \<Rightarrow> f x y)"
  by (cases p) auto

lemma keeps_list: "keeps P m \<Longrightarrow> (\<And>x xs. keeps P (f x xs)) \<Longrightarrow> keeps P (case ys of [] \<Rightarrow> m | x # xs \<Rightarrow> f x xs)"
  by (cases ys) auto

lemma keeps_bool: "keeps P m \<Longrightarrow> keeps P n \<Longrightarrow> keeps P (case b of True \<Rightarrow> m | False \<Rightarrow> n)"
  by (cases b) auto

lemmas keeps_rules = keeps_ret keeps_raise keeps_lift keeps_bind keeps_then keeps_read keeps_catch keeps_for
  keeps_when keeps_if keeps_option keeps_sum keeps_pair keeps_list keeps_bool

end
