(* ===== verification/Bot_Keeps.thy ===== *)
theory Bot_Keeps
  imports Bot_Frame
begin

text \<open>
  The contract between the trading bot and a predicate on its state. A predicate that allows what
  single statements do to the state, except opening a trade, is kept by every operation on existing
  trades; \<open>J\<close> names the trades that an order of theirs may open again. A second locale adds the
  opening of a trade, which may lead to a weaker predicate.
\<close>

locale live_frame =
  fixes B :: live_config and P :: "bot \<Rightarrow> bool" and J :: "nat set"
  assumes P_put: "P s \<Longrightarrow> same_trade (lb_heap s i) t \<Longrightarrow> P (put_live i t s)"
    and P_reopen: "P s \<Longrightarrow> i \<in> J \<Longrightarrow> trade_key t = trade_key (lb_heap s i) \<Longrightarrow> P (put_live i t s)"
    and P_wallets: "P s \<Longrightarrow> P (s\<lparr>lb_wallets := W\<rparr>)"
    and P_locks: "P s \<Longrightarrow> P (s\<lparr>lb_locks := L\<rparr>)"
    and P_rates: "P s \<Longrightarrow> P (s\<lparr>lb_rates := rc\<rparr>)"
    and P_cache: "P s \<Longrightarrow> P (s\<lparr>lb_exit_cache := ec\<rparr>)"
    and P_reasons: "P s \<Longrightarrow> P (s\<lparr>lb_cancel_reasons := cr\<rparr>)"
    and P_delete: "P s \<Longrightarrow> P (s\<lparr>lb_db := filter (\<lambda>j. j \<noteq> i) (lb_db s)\<rparr>)"
    and P_call: "P s \<Longrightarrow> (\<And>rq. c \<noteq> Create_call rq) \<Longrightarrow> P (s\<lparr>lb_log := lb_log s @ [c]\<rparr>)"
    and P_exit_call: "P s \<Longrightarrow> P u
      \<Longrightarrow> P (u\<lparr>lb_log := lb_log u @ [Create_call (exit_request B (lb_heap s i) ty a r)]\<rparr>)"
    and P_entry_call: "P s \<Longrightarrow> execute_entry_gate (lv_bot B) pair is_short lev
      \<Longrightarrow> P (s\<lparr>lb_log := lb_log s @ [Create_call (entry_order_request pair ty is_short a r lev initial)]\<rparr>)"
begin

subsection \<open>Single statements\<close>

lemma trade_op: "keeps_same f \<Longrightarrow> keeps P (onM i f)"
  by (auto simp: keeps_def onM_def keeps_same_def split: sum.split intro: P_put)

lemma change_field: "(\<And>t. same_trade t (f t)) \<Longrightarrow> keeps P (setM i f)"
  by (intro trade_op keeps_same_set)

lemma request: "(\<And>rq. c \<noteq> Create_call rq) \<Longrightarrow> keeps P (ask c f)"
  by (auto simp: keeps_def ask_def intro: P_call)

lemma rate: "keeps P (bot_rate B pair en sh re)"
  by (rule keepsI) (auto simp: bot_rate_def Let_def split: sum.split prod.split intro!: P_rates P_call)

lemma rates: "keeps P (bot_rates B pair sh)"
  by (rule keepsI) (auto simp: bot_rates_def Let_def split: sum.split prod.split intro!: P_rates P_call)

lemma funding_fees: "keeps P (get_funding_fees B pair amount sh d)"
  unfolding get_funding_fees_def by (intro keeps_rules request) simp

lemma funding: "keeps P (bot_funding B i)"
  unfolding bot_funding_def Let_def by (intro keeps_rules funding_fees change_field) simp

lemma fetch: "keeps P (fetch_order B oid pair stop)"
  unfolding fetch_order_def by (rule request) simp

lemma fetch_stop: "keeps P (fetch_stoploss_order B oid pair)"
  unfolding fetch_stoploss_order_def by (intro keeps_rules fetch)

lemma fetch_either: "keeps P (fetch_order_or_stoploss_order B oid pair stop)"
  unfolding fetch_order_or_stoploss_order_def by (intro keeps_rules fetch fetch_stop)

lemma cancel_call: "keeps P (bot_cancel B oid pair stop)"
  unfolding bot_cancel_def by (rule request) simp

lemma cancel_result: "keeps P (cancel_order_with_result B oid pair amount)"
  unfolding cancel_order_with_result_def by (intro keeps_rules fetch cancel_call)

lemma cancel_stop_result: "keeps P (cancel_stoploss_order_with_result B oid pair amount)"
  unfolding cancel_stoploss_order_with_result_def by (intro keeps_rules fetch_stop cancel_call)

lemma trades_for_order: "keeps P (get_trades_for_order B oid pair since)"
  unfolding get_trades_for_order_def by (intro keeps_rules request) simp

lemma fetch_all: "keeps P (bot_fetch_orders B pair since)"
  unfolding bot_fetch_orders_def by (intro keeps_rules request) simp

lemma wallets: "keeps P (bot_wallets_update B req)"
  unfolding bot_wallets_update_def Let_def by (intro keeps_rules request keeps_mod P_wallets) simp_all

lemma check_amount: "keeps P (bot_check_exit_amount B i)"
  unfolding bot_check_exit_amount_def by (intro keeps_rules wallets)

lemma remember: "keeps P (remember_exit_reason B i reason)"
  unfolding remember_exit_reason_def by (intro keeps_mod P_cache)

lemma protections: "keeps P (handle_protections B pair side)"
  unfolding handle_protections_def by (intro keeps_rules keeps_mod P_locks)

lemma delete: "keeps P (delete_live i)"
  unfolding delete_live_def by (intro keeps_mod P_delete)

lemma safe_amount: "keeps P (safe_exit_amount B i pair amount)"
  unfolding safe_exit_amount_def Let_def
  by (intro keeps_rules wallets change_field) (simp add: same_trade_def trade_key_def)

text \<open>Liquidation prices are written trade by trade; an exception keeps those already written.\<close>

lemma liquidation_step_P:
  assumes "P s" and "liquidation_step C X w i b = Inr b'" and "bt_heap b = lb_heap s"
  shows "P (s\<lparr>lb_heap := bt_heap b'\<rparr>)"
proof -
  from assms(2) obtain p t' where b': "b' = write_trade i t' b" and "set_liquidation_price C (bt_heap b i) p = Inr t'"
    by (auto simp: liquidation_step_def Let_def bindE_eq_Inr)
  then have "same_trade (lb_heap s i) t'" using assms(3) by (auto dest: set_liquidation_price_same)
  from P_put [OF assms(1) this] show ?thesis
    by (simp add: b' write_trade_def put_live_def assms(3))
qed

lemma liquidation_loop_P:
  assumes "P s" and "bt_heap b = lb_heap s"
  shows "P (s\<lparr>lb_heap := bt_heap (snd (liquidation_loop C X w is b))\<rparr>)"
  using assms
proof (induction "is" arbitrary: s b)
  case Nil
  then show ?case by simp
next
  case (Cons i js)
  show ?case
  proof (cases "has_open_position (bt_heap b i)")
    case False
    with Cons show ?thesis by simp
  next
    case open_position: True
    show ?thesis
    proof (cases "liquidation_step C X w i b")
      case (Inl err)
      with Cons.prems open_position show ?thesis by simp
    next
      case (Inr b1)
      from Cons.IH [OF liquidation_step_P [OF Cons.prems(1) Inr Cons.prems(2)]] Inr open_position
      show ?thesis by simp
    qed
  qed
qed

lemma liquidation: "keeps P (bot_update_liquidation B trade)"
proof (rule keepsI)
  fix s assume P: "P s"
  let ?X = "la_liquidation (lv_api B) (lb_log s)"
  have same: "s\<lparr>lb_heap := lb_heap s\<rparr> = s" by simp
  have heap: "bt_heap (db_view s) = lb_heap s" by (simp add: db_view_def)
  have loop: "P (s\<lparr>lb_heap := bt_heap (snd (liquidation_loop (lv_ccxt B s) ?X w (get_open_trades (db_view s)) (db_view s)))\<rparr>)"
    for w by (rule liquidation_loop_P [OF P heap])
  have one: "P (s\<lparr>lb_heap := bt_heap (snd (case liquidation_step (lv_ccxt B s) ?X w i (db_view s) of
               Inl e \<Rightarrow> (Some e, db_view s) | Inr b1 \<Rightarrow> (None, b1)))\<rparr>)" for w i
    using liquidation_step_P [OF P _ heap] P by (auto simp: heap split: sum.split)
  show "P (snd (bot_update_liquidation B trade s))"
  proof (cases "update_liquidation_prices (lv_ccxt B s) ?X (lv_wallets B) (lb_wallets s) (lv_dry_run B) trade (db_view s)")
    case (Inl e)
    with P show ?thesis by (simp add: bot_update_liquidation_def readM_def bindM_def liftM_def)
  next
    case (Inr b)
    then have b: "b = snd (if lx_margin_mode ?X = CROSS then
            liquidation_loop (lv_ccxt B s) ?X (if lv_dry_run B then get_collateral (lv_wallets B) (lb_wallets s) else 0)
              (get_open_trades (db_view s)) (db_view s)
          else case trade of
             Some i \<Rightarrow> (case liquidation_step (lv_ccxt B s) ?X (t_stake_amount (bt_heap (db_view s) i)) i (db_view s) of
                          Inl e \<Rightarrow> (Some e, db_view s) | Inr s' \<Rightarrow> (None, s'))
           | None \<Rightarrow> (Some DependencyException, db_view s))"
      by (auto simp: update_liquidation_prices_def dest!: swallow_dependency_Inr)
    have "P (s\<lparr>lb_heap := bt_heap b\<rparr>)"
      unfolding b using loop one P by (auto simp: heap split: option.split)
    with Inr show ?thesis
      by (simp add: bot_update_liquidation_def readM_def bindM_def liftM_def modM_def)
  qed
qed

subsection \<open>Taking over the state of an order\<close>

lemma tell_enter: "keeps P (notify_enter B i fill)"
  unfolding notify_enter_def Let_def by (intro keeps_rules rate)

lemma tell_enter_cancel: "keeps P (notify_enter_cancel B i)"
  unfolding notify_enter_cancel_def Let_def by (intro keeps_rules rate)

lemma tell_exit: "keeps P (notify_exit B i fill sub)"
  unfolding notify_exit_def Let_def by (intro keeps_rules rate)

lemma tell_exit_cancel: "keeps P (notify_exit_cancel B i reason oid)"
  unfolding notify_exit_cancel_def Let_def
  by (intro keeps_rules rate change_field) (simp add: same_trade_def trade_key_def)

lemma apply_fee: "keeps P (apply_fee_conditional B i base amount fee k)"
  unfolding apply_fee_conditional_def Let_def by (intro keeps_rules wallets)

lemma fee_from_trades: "keeps P (fee_detection_from_trades B i order k amount)"
  unfolding fee_detection_from_trades_def Let_def by (intro keeps_rules trades_for_order apply_fee change_field) simp_all

lemma real_amount: "keeps P (get_real_amount B i order k)"
  unfolding get_real_amount_def Let_def by (intro keeps_rules fee_from_trades apply_fee change_field) simp_all

lemma order_fee: "keeps P (handle_order_fee B i k order)"
  unfolding handle_order_fee_def by (intro keeps_rules real_amount change_field) (simp add: same_trade_def trade_key_def)

lemma stop_filled: "keeps P (stop_after_fill B i)"
  unfolding stop_after_fill_def Let_def
  by (intro keeps_rules rate trade_op keeps_sameI) (auto simp: bindE_eq_Inr dest: ft_stoploss_adjust_same)

lemma entry_fill: "keeps P cancel \<Longrightarrow> keeps P (entry_filled cancel B i send)"
  unfolding entry_filled_def
  by (intro keeps_rules change_field trade_op keeps_sameI)
    (auto dest: adjust_stop_loss_same simp: same_trade_def trade_key_def)

lemma after_fill: "keeps P cancel \<Longrightarrow> keeps P (update_trade_after_fill cancel B i k send)"
  unfolding update_trade_after_fill_def Let_def
  by (intro keeps_rules entry_fill liquidation stop_filled wallets)

lemma close_notify: "keeps P (order_close_notify B i k stop send)"
  unfolding order_close_notify_def Let_def by (intro keeps_rules tell_exit tell_enter protections)

lemma take_over: "keeps P (take_over_order B i order)"
  unfolding take_over_order_def
  by (intro keeps_rules trade_op keeps_sameI) (auto simp: bindE_eq_Inr same_trade_def trade_key_def)

lemma update_body: "keeps P cancel \<Longrightarrow> keeps P (update_trade_state_body cancel B i oid action stop send)"
  unfolding update_trade_state_body_def Let_def
  by (intro keeps_rules fetch_either take_over order_fee after_fill close_notify trade_op keeps_sameI)
    (auto dest: update_trade_same)

lemma cancel_stops: "(\<And>i oid a st se. keeps P (update i oid a st se)) \<Longrightarrow> keeps P (cancel_stop_orders update B i)"
  unfolding cancel_stop_orders_def Let_def by (intro keeps_rules cancel_stop_result)

lemma update_in: "keeps P (update_trade_state_in n B i oid action stop send)"
proof (induction n arbitrary: i oid action stop send)
  case 0
  show ?case by (simp add: keeps_raise)
next
  case (Suc n)
  show ?case unfolding update_trade_state_in.simps by (intro update_body cancel_stops Suc)
qed

lemma update: "keeps P (update_trade_state B i oid action stop send)"
  unfolding update_trade_state_def by (rule update_in)

lemma cancel_stoploss: "keeps P (cancel_stoploss_on_exchange B i allow)"
  unfolding cancel_stoploss_on_exchange_def by (intro keeps_rules cancel_stops update)

lemma insufficient: "keeps P (handle_insufficient_funds B i)"
  unfolding handle_insufficient_funds_def Let_def by (intro keeps_rules fetch_either update)

lemma assign_fees: "keeps P (update_trades_without_assigned_fees B)"
  unfolding update_trades_without_assigned_fees_def Let_def by (intro keeps_rules update)

subsection \<open>Cancelling\<close>

lemma reason: "keeps P (set_cancel_reason i k f)"
  unfolding set_cancel_reason_def by (intro keeps_mod P_reasons)

lemma refetching: "keeps P (refetch B oid pair n c)"
  by (induction n arbitrary: c) (auto intro!: keeps_rules fetch)

lemma cancel_entry: "keeps P (cancel_entry_on_exchange B i order k why replacing)"
  unfolding cancel_entry_on_exchange_def cancelled_on_exchange_def Let_def
  by (intro keeps_rules reason refetching cancel_result)

lemma cancel_enter: "keeps P (handle_cancel_enter B i order k why replacing)"
  unfolding handle_cancel_enter_def add_cancel_reason_def Let_def
  by (intro keeps_rules cancel_entry delete reason update wallets tell_enter_cancel)

lemma cancel_exit_call: "keeps P (cancel_exit_on_exchange B i order k why)"
  unfolding cancel_exit_on_exchange_def cancelled_on_exchange_def Let_def
  by (intro keeps_rules reason cancel_result tell_exit_cancel change_field) (simp_all add: same_trade_def trade_key_def)

lemma cancel_exit: "keeps P (handle_cancel_exit B i order k why)"
  unfolding handle_cancel_exit_def Let_def
  by (intro keeps_rules cancel_exit_call update tell_exit_cancel change_field) (simp add: same_trade_def trade_key_def)

lemma cancel_trade: "keeps P (cancel_open_orders_of_trade B i sides why replacing)"
  unfolding cancel_open_orders_of_trade_def Let_def by (intro keeps_rules fetch cancel_enter cancel_exit)

lemma cancel_everything: "keeps P (cancel_all_open_orders B)"
  unfolding cancel_all_open_orders_def Let_def by (intro keeps_rules cancel_trade)

lemma similar: "keeps P (handle_similar_open_order B i price amount side)"
  unfolding handle_similar_open_order_def Let_def by (intro keeps_rules cancel_trade)

subsection \<open>Exits\<close>

lemma exit_price: "keeps P (wanted_exit_price B i rate ty why skip)"
  unfolding wanted_exit_price_def Let_def by (intro keeps_rules)

lemma exit_call: "P s \<Longrightarrow> keeps P (create_order B (exit_request B (lb_heap s i) ty a r))"
  by (auto simp: keeps_def create_order_def ask_def intro: P_exit_call)

lemma recorded: "keeps P (record_exit B i order amount rate why sub)"
  unfolding record_exit_def Let_def
  by (intro keeps_rules remember change_field tell_exit update) (simp add: same_trade_def trade_key_def)

lemma execute_exit: "keeps P (execute_trade_exit B i rate ex tag ty sub skip)"
  unfolding execute_trade_exit_def Let_def
  by (intro keeps_rules funding exit_price cancel_stoploss safe_amount similar exit_call insufficient recorded)

lemma emergency: "keeps P (emergency_exit B i price sub)"
  unfolding emergency_exit_def by (intro keeps_rules execute_exit funding)

lemma create_stop: "keeps P (create_stoploss_order B i price)"
  unfolding create_stoploss_order_def Let_def
  by (intro keeps_rules request change_field insufficient emergency) (simp_all add: same_trade_def trade_key_def)

lemma trail: "keeps P (handle_trailing_stoploss_on_exchange B i order)"
  unfolding handle_trailing_stoploss_on_exchange_def Let_def by (intro keeps_rules cancel_stoploss create_stop)

lemma manage_stops: "keeps P (manage_trade_stoploss_orders B i orders)"
  unfolding manage_trade_stoploss_orders_def Let_def by (intro keeps_rules create_stop trail)

lemma look_at_stops: "keeps P (look_at_stop_orders B i ids found)"
  by (induction ids arbitrary: found)
    (auto intro!: keeps_rules fetch_stop update change_field tell_exit protections simp: Let_def same_trade_def trade_key_def)

lemma stops_on_exchange: "keeps P (handle_stoploss_on_exchange B i)"
  unfolding handle_stoploss_on_exchange_def Let_def by (intro keeps_rules look_at_stops create_stop manage_stops)

lemma adopt: "keeps P (adopt_order B i order)"
  unfolding adopt_order_def Let_def by (intro keeps_rules change_field) (simp add: same_trade_def trade_key_def)

lemma settle: "keeps P (settle_recovery B i orders why op amount)"
  unfolding settle_recovery_def Let_def
  by (intro keeps_rules change_field close_notify tell_enter_cancel delete cancel_stoploss)
    (simp_all add: same_trade_def trade_key_def)

lemma onexchange: "keeps P (handle_onexchange_order B i)"
  unfolding handle_onexchange_order_def Let_def by (intro keeps_rules fetch_all adopt update settle)

lemma first_exit: "keeps P (execute_first_exit B i rate tag exs)"
  by (induction exs) (auto intro!: keeps_rules execute_exit simp: Let_def)

lemma check_exit: "keeps P (check_and_execute_exit B i rate en ex tag)"
proof (rule keepsI)
  fix s assume P: "P s"
  show "P (snd (check_and_execute_exit B i rate en ex tag s))"
  proof (cases "should_exit (lv_ccxt B s) (lv_strategy B) (lv_now B s) (lb_heap s i) rate (lv_now B s) en ex None None 0")
    case (Inl e)
    with P show ?thesis by (simp add: check_and_execute_exit_def readM_def bindM_def liftM_def)
  next
    case (Inr r)
    obtain exits t where r: "r = (exits, t)" by (cases r)
    from Inr r have "P (put_live i t s)" by (auto intro: P_put [OF P] dest: should_exit_same)
    from keepsD [OF first_exit this] Inr r show ?thesis
      by (simp add: check_and_execute_exit_def readM_def bindM_def liftM_def thenM_def onM_def)
  qed
qed

lemma handle_one: "keeps P (handle_trade B i)"
  unfolding handle_trade_def Let_def by (intro keeps_rules rate check_exit)

lemma exit_one: "keeps P (exit_position B i)"
  unfolding exit_position_def Let_def
  by (intro keeps_rules check_amount onexchange stops_on_exchange handle_one)

lemma exit_list: "keeps P (exit_each B is)"
  by (induction "is") (auto intro!: keeps_rules exit_one)

lemma exits: "keeps P (exit_positions B is)"
  unfolding exit_positions_def by (intro keeps_rules exit_list wallets)

subsection \<open>Entries into an existing trade\<close>

lemma price: "keeps P (enter_price B pair price side tag t mode)"
  unfolding enter_price_def Let_def by (intro keeps_rules rate)

lemma leverage: "keeps P (enter_leverage B pair rate stake side tag t lev)"
  unfolding enter_leverage_def Let_def by (intro keeps_rules)

lemma valid_entry: "keeps P (get_valid_enter_price_and_stake B pair price stake side tag t mode lev)"
  unfolding get_valid_enter_price_and_stake_def Let_def by (intro keeps_rules price leverage)

lemma entry_call:
  "execute_entry_gate (lv_bot B) pair is_short lev
     \<Longrightarrow> keeps P (create_order B (entry_order_request pair ty is_short a r lev initial))"
  by (auto simp: keeps_def create_order_def ask_def intro: P_entry_call)

lemma entered: "keeps P (after_entry B i order k adj mode)"
  unfolding after_entry_def by (intro keeps_rules wallets tell_enter cancel_stoploss update cancel_enter)

lemma reopen:
  assumes "i \<in> J"
  shows "keeps P (setM i (\<lambda>t. set_funding_fees (t\<lparr>t_is_open := True\<rparr>) (Some f)))"
proof -
  have key: "trade_key (t\<lparr>t_is_open := True\<rparr>) = trade_key t" for t by (simp add: trade_key_def)
  show ?thesis by (auto simp: keeps_def onM_def key intro!: P_reopen assms)
qed

lemma extend: "i \<in> J \<Longrightarrow> keeps P (extend_live_trade B i fees ord)"
  unfolding extend_live_trade_def
  by (intro keeps_rules reopen change_field trade_op keeps_sameI)
    (auto dest: recalc_same simp: same_trade_def trade_key_def)

lemma take_existing: "i \<in> J \<Longrightarrow> keeps P (take_entry B pair (Some i) stake rate lev sh tag amount mode order)"
  unfolding take_entry_def Let_def option.case by (intro keeps_rules funding_fees extend entered)

lemma enter_existing: "i \<in> J \<Longrightarrow> keeps P (execute_entry B pair stake price sh ty tag (Some i) mode lev)"
  unfolding execute_entry_def Let_def option.case
  by (intro keeps_rules valid_entry similar entry_call take_existing) simp_all

subsection \<open>Open orders and adjustments\<close>

lemma cancel_order: "keeps P (handle_cancel_order B order k i why replacing)"
  unfolding handle_cancel_order_def Let_def by (intro keeps_rules cancel_enter cancel_exit emergency)

lemma failed: "keeps P (replace_order_failed B i)"
  unfolding replace_order_failed_def by (intro keeps_rules tell_enter_cancel delete)

lemma replacement: "i \<in> J \<Longrightarrow> keeps P (place_replacement B i k price en)"
  unfolding place_replacement_def Let_def by (intro keeps_rules enter_existing execute_exit)

lemma handle_replace: "i \<in> J \<Longrightarrow> keeps P (handle_replace_order B order k i price en why replacing)"
  unfolding handle_replace_order_def by (intro keeps_rules cancel_order failed replacement)

lemma replace: "i \<in> J \<Longrightarrow> keeps P (live_replace_order B order k i)"
  unfolding live_replace_order_def Let_def by (intro keeps_rules rate handle_replace)

lemma manage_order: "i \<in> J \<Longrightarrow> keeps P (manage_open_order B i k)"
  unfolding manage_open_order_def Let_def by (intro keeps_rules fetch update cancel_order replace)

lemma increase: "i \<in> J \<Longrightarrow> keeps P (increase_position B i stake rate tag)"
  unfolding increase_position_def Let_def by (intro keeps_rules enter_existing)

lemma decrease: "keeps P (decrease_position B i stake rate tag)"
  unfolding decrease_position_def Let_def by (intro keeps_rules execute_exit)

lemma adjust: "i \<in> J \<Longrightarrow> keeps P (check_and_call_adjust_trade_position B i)"
  unfolding check_and_call_adjust_trade_position_def Let_def by (intro keeps_rules rates increase decrease)

text \<open>The passes over the open trades, when only these may be opened again.\<close>

lemma manage_all:
  assumes "\<And>s. P s \<Longrightarrow> set (bot_open_ids s) \<subseteq> J"
  shows "keeps P (live_manage_open_orders B)"
  unfolding live_manage_open_orders_def using assms by (intro keeps_rules manage_order) blast

lemma adjust_all:
  assumes "\<And>s. P s \<Longrightarrow> set (bot_open_ids s) \<subseteq> J"
  shows "keeps P (process_open_trade_positions B)"
  unfolding process_open_trade_positions_def Let_def using assms by (intro keeps_rules wallets adjust) blast

lemma whitelist:
  assumes "\<And>s w. P s \<Longrightarrow> P (s\<lparr>lb_whitelist := w\<rparr>)"
  shows "keeps P (refresh_active_whitelist B is)"
  unfolding refresh_active_whitelist_def by (intro keeps_rules request keeps_mod assms) simp

end

section \<open>Opening a trade\<close>

definition moves :: "(bot \<Rightarrow> bool) \<Rightarrow> (bot \<Rightarrow> bool) \<Rightarrow> 'a live \<Rightarrow> bool" where
  "moves P Q m \<longleftrightarrow> (\<forall>s. P s \<longrightarrow> Q (snd (m s)))"

lemma moves_weaken: "keeps P m \<Longrightarrow> (\<And>s. P s \<Longrightarrow> Q s) \<Longrightarrow> moves P Q m"
  by (simp add: moves_def keeps_def)

lemma moves_bind:
  assumes "keeps P m" and "\<And>s. P s \<Longrightarrow> Q s" and "\<And>x. moves P Q (f x)"
  shows "moves P Q (bindM m f)"
  using assms by (auto simp: moves_def keeps_def bindM_def split: prod.split sum.split)

lemma moves_then_keeps: "moves P Q m \<Longrightarrow> (\<And>x. keeps Q (f x)) \<Longrightarrow> moves P Q (bindM m f)"
  by (auto simp: moves_def keeps_def bindM_def split: prod.split sum.split)

lemma moves_read: "(\<And>s. P s \<Longrightarrow> moves P Q (f s)) \<Longrightarrow> moves P Q (readM f)"
  by (simp add: moves_def readM_def)

lemma moves_if: "(b \<Longrightarrow> moves P Q m) \<Longrightarrow> (\<not> b \<Longrightarrow> moves P Q n) \<Longrightarrow> moves P Q (if b then m else n)"
  by simp

lemma moves_pair: "(\<And>x y. moves P Q (f x y)) \<Longrightarrow> moves P Q (case p of (x, y) \<Rightarrow> f x y)"
  by (cases p) auto

lemma moves_option: "moves P Q m \<Longrightarrow> (\<And>x. moves P Q (f x)) \<Longrightarrow> moves P Q (case a of None \<Rightarrow> m | Some x \<Rightarrow> f x)"
  by (cases a) auto

text \<open>
  A new trade of the pair \<open>pair0\<close> may be opened in a state of \<open>P\<close> when the gate lets it pass, and
  leads to a state of \<open>Q\<close>.
\<close>

locale live_opening = before: live_frame B P J + after: live_frame B Q J'
  for B :: live_config and P Q :: "bot \<Rightarrow> bool" and J J' :: "nat set" +
  fixes pair0 :: string
  assumes weaker: "P s \<Longrightarrow> Q s"
    and P_add: "P s \<Longrightarrow> t_is_open t \<Longrightarrow> t_pair t = pair0 \<Longrightarrow> execute_entry_gate (lv_bot B) pair0 (t_is_short t) lev
      \<Longrightarrow> Q (snd (add_live_trade t s))"
begin

lemma quit: "moves P Q (retM x)" "moves P Q (raiseM e)"
  by (simp_all add: moves_def retM_def raiseM_def weaker)

lemma opened:
  assumes "execute_entry_gate (lv_bot B) pair0 is_short lev"
  shows "moves P Q (open_live_trade B pair0 stake rate lev is_short tag ord)"
proof -
  have "Q (snd (open_live_trade B pair0 stake rate lev is_short tag ord s))" if P: "P s" for s
  proof (cases "bindE (adjust_stop_loss (lv_ccxt B s) rate (Some (st_stoploss (lv_strategy B))) True False
                  (new_live_trade B s pair0 stake rate lev is_short tag)) (\<lambda>t.
           recalc_trade_from_orders (lv_ccxt B s) (lv_now B s) False (t\<lparr>t_orders := [ord]\<rparr>))")
    case (Inl e)
    with weaker [OF P] show ?thesis
      by (simp add: open_live_trade_def readM_def bindM_def liftM_def)
  next
    case (Inr t)
    then obtain t1 where t1: "adjust_stop_loss (lv_ccxt B s) rate (Some (st_stoploss (lv_strategy B))) True False
        (new_live_trade B s pair0 stake rate lev is_short tag) = Inr t1"
      and t: "recalc_trade_from_orders (lv_ccxt B s) (lv_now B s) False (t1\<lparr>t_orders := [ord]\<rparr>) = Inr t"
      by (auto simp: bindE_eq_Inr)
    from recalc_key [OF t] recalc_open [OF t] adjust_stop_loss_key [OF t1] adjust_stop_loss_open [OF t1]
    have "t_is_open t" "t_pair t = pair0" "t_is_short t = is_short"
      by (simp_all add: trade_key_def new_live_trade_def Let_def recalc_open_trade_value_def)
    with P assms have "Q (snd (add_live_trade t s))" by (auto intro: P_add)
    with Inr show ?thesis by (simp add: open_live_trade_def readM_def bindM_def liftM_def)
  qed
  then show ?thesis by (simp add: moves_def)
qed

lemma take_new:
  assumes "execute_entry_gate (lv_bot B) pair0 is_short lev"
  shows "moves P Q (take_entry B pair0 None stake rate lev is_short tag amount mode order)"
  unfolding take_entry_def Let_def option.case
  by (intro moves_read moves_bind keeps_lift moves_if quit moves_then_keeps [OF opened] after.entered weaker assms)

lemma enter_fresh: "moves P Q (execute_entry B pair0 stake price is_short ty tag None mode lev)"
  unfolding execute_entry_def Let_def option.case
  by (intro moves_read moves_bind [OF before.valid_entry] moves_pair moves_if quit weaker moves_bind [OF keeps_ret]
      moves_bind [OF before.entry_call] take_new) simp_all

lemma stake: "keeps P (trade_stake B)"
  unfolding trade_stake_def Let_def by (intro keeps_rules before.wallets)

lemma depth: "keeps P (check_depth_of_market B pair delta side)"
  unfolding check_depth_of_market_def Let_def by (intro keeps_rules before.request) simp

lemma create: "moves P Q (create_trade B pair0)"
  unfolding create_trade_def Let_def
  by (intro moves_read moves_if quit moves_pair moves_option moves_bind [OF stake] weaker enter_fresh
      moves_bind keeps_option keeps_if keeps_ret depth)

lemma try_create: "moves P Q (catchM is_dependency_exception (create_trade B pair0) (\<lambda>_. retM False))"
  using create by (auto simp: moves_def catchM_def retM_def split: prod.split sum.split)

end

end
