(* ===== verification/Bot_Commands.thy ===== *)
theory Bot_Commands
  imports Bot_Process
begin

text \<open>
  Around the loop of the bot: the commands that users send (rpc.py) and the worker that calls the
  loop, starts the bot, stops it and replaces it when the configuration is loaded again (worker.py).
  A command runs in a thread of its own; here it runs between two operations of the loop.
\<close>

section \<open>Leaving a trade on request\<close>

definition REASON_FORCE_EXIT :: string where
  "REASON_FORCE_EXIT = ''forcesold''"

text \<open>The result says that no entry order of the trade was fully cancelled.\<close>

fun cancel_for_exit :: "live_config \<Rightarrow> nat \<Rightarrow> nat list \<Rightarrow> bool live" where
  "cancel_for_exit B i [] = retM True"
| "cancel_for_exit B i (k # ks) =
     readM (\<lambda>s. let t = lb_heap s i in
       bindM (fetch_order B (o_order_id (t_orders t ! k)) (t_pair t) False) (\<lambda>order.
       bindM (if c_side order = Some (entry_side t) then handle_cancel_enter B i order k REASON_FORCE_EXIT False
              else retM False) (\<lambda>fully_canceled.
       bindM (if c_side order = Some (exit_side t) then handle_cancel_exit B i order k REASON_FORCE_EXIT
              else retM False) (\<lambda>_.
       bindM (cancel_for_exit B i ks) (\<lambda>others. retM (\<not> fully_canceled \<and> others))))))"

definition force_exit_amount :: "live_config \<Rightarrow> nat \<Rightarrow> flt \<Rightarrow> flt option \<Rightarrow> flt option live" where
  "force_exit_amount B i rate amount =
     readM (\<lambda>s. let t = lb_heap s i in
       if truthy amount \<and> the amount < t_amount t then
         bindM (liftM (get_min_pair_stake_amount (lv_exchange B s) (t_pair t) rate (or_val (t_stop_loss_pct t) 0) 1))
           (\<lambda>min_exit_stake.
             if truthy min_exit_stake \<and> (t_amount t - the amount) * rate < the min_exit_stake then raiseM RPCException
             else retM amount)
       else retM None)"

definition exec_force_exit :: "live_config \<Rightarrow> nat \<Rightarrow> string option \<Rightarrow> flt option \<Rightarrow> flt option \<Rightarrow> bool live" where
  "exec_force_exit B i ordertype amount price =
     readM (\<lambda>s. bindM (cancel_for_exit B i (open_positions (lb_heap s i))) (\<lambda>exitable.
       readM (\<lambda>s. let t = lb_heap s i in
         if \<not> exitable \<or> has_open_orders t then retM False
         else
           bindM (if ordertype = Some ''market'' \<or> price = None then bot_rate B (t_pair t) False (t_is_short t) True
                  else retM (the price)) (\<lambda>rate.
           bindM (force_exit_amount B i rate amount) (\<lambda>sub_amount.
           bindM (execute_trade_exit B i rate (exit_check_tuple FORCE_EXIT []) None
                    (Some (str_or ordertype (lv_order_types B ''force_exit''))) sub_amount
                    (price \<noteq> None \<and> ordertype = Some ''limit'')) (\<lambda>_. retM True))))))"

text \<open>Looking up a trade by its number: of the open trades, or of all.\<close>

definition find_trade :: "bot \<Rightarrow> nat list \<Rightarrow> int \<Rightarrow> nat option" where
  "find_trade s ids trade_id = find (\<lambda>i. t_id (lb_heap s i) = trade_id) ids"

definition rpc_force_exit :: "live_config \<Rightarrow> int option \<Rightarrow> string option \<Rightarrow> flt option \<Rightarrow> flt option \<Rightarrow> unit live" where
  "rpc_force_exit B trade_id ordertype amount price =
     readM (\<lambda>s.
       if lb_state s = STATE_STOPPED then raiseM RPCException
       else
         (case trade_id of
            None \<Rightarrow>
              thenM (forM (bot_open_ids s) (\<lambda>i. bindM (exec_force_exit B i ordertype None None) (\<lambda>_. retM ())))
                (bot_wallets_update B True)
          | Some n \<Rightarrow>
              (case find_trade s (bot_open_ids s) n of
                 None \<Rightarrow> raiseM RPCException
               | Some i \<Rightarrow>
                   bindM (exec_force_exit B i ordertype amount price) (\<lambda>exited.
                   thenM (bot_wallets_update B True) (if exited then retM () else raiseM RPCException)))))"

section \<open>Entering on request\<close>

definition force_entry_allowed :: "live_config \<Rightarrow> bot \<Rightarrow> string \<Rightarrow> signal_direction \<Rightarrow> py_error + unit" where
  "force_entry_allowed B s pair order_side =
     (if \<not> lv_force_entry B \<or> lb_state s \<noteq> STATE_RUNNING \<or> (order_side = SHORT \<and> lv_trading_mode B = SPOT)
      then Inl RPCException
      else
        bindE (get_markets (lv_exchange B s) [] [] False False False True False) (\<lambda>ms.
          if pair \<notin> fst ` set ms \<or> get_pair_quote_currency (lv_exchange B s) pair \<noteq> wc_stake_currency (lv_wallets B)
          then Inl RPCException else Inr ()))"

definition trade_of_pair :: "bot \<Rightarrow> string \<Rightarrow> nat option" where
  "trade_of_pair s pair = find (\<lambda>i. t_pair (lb_heap s i) = pair) (bot_open_ids s)"

text \<open>The trade that a forced entry enlarges, or none when it opens a new one.\<close>

definition force_entry_target :: "live_config \<Rightarrow> bot \<Rightarrow> string \<Rightarrow> py_error + nat option" where
  "force_entry_target B s pair =
     (case trade_of_pair s pair of
        Some i \<Rightarrow> if \<not> lv_position_adjustment B \<or> has_open_orders (lb_heap s i) then Inl RPCException else Inr (Some i)
      | None \<Rightarrow>
          if (case lv_max_open_trades B of None \<Rightarrow> False | Some n \<Rightarrow> int (length (bot_open_ids s)) \<ge> n)
          then Inl RPCException else Inr None)"

definition force_entry_run ::
    "live_config \<Rightarrow> nat option \<Rightarrow> string \<Rightarrow> flt option \<Rightarrow> string option \<Rightarrow> bool \<Rightarrow> flt option \<Rightarrow> string option
       \<Rightarrow> flt option \<Rightarrow> unit live" where
  "force_entry_run B trade pair price order_type is_short stake_amount enter_tag leverage =
     bindM (if truthy stake_amount then retM (the stake_amount) else trade_stake B) (\<lambda>stake.
     bindM (execute_entry B pair stake price is_short (Some (str_or order_type (lv_order_types B ''force_entry'')))
              enter_tag trade (if trade = None then Initial_entry else Pos_adjust_entry) leverage) (\<lambda>entered.
       if entered then retM () else raiseM RPCException))"

definition rpc_force_entry ::
    "live_config \<Rightarrow> string \<Rightarrow> flt option \<Rightarrow> string option \<Rightarrow> signal_direction \<Rightarrow> flt option \<Rightarrow> string option
       \<Rightarrow> flt option \<Rightarrow> unit live" where
  "rpc_force_entry B pair price order_type order_side stake_amount enter_tag leverage =
     readM (\<lambda>s.
       bindM (liftM (force_entry_allowed B s pair order_side)) (\<lambda>_.
       bindM (liftM (force_entry_target B s pair)) (\<lambda>trade.
         force_entry_run B trade pair price order_type
           (case trade of Some i \<Rightarrow> t_is_short (lb_heap s i) | None \<Rightarrow> order_side = SHORT)
           stake_amount enter_tag leverage)))"

section \<open>Orders, trades and locks\<close>

definition rpc_cancel_open_order :: "live_config \<Rightarrow> int \<Rightarrow> unit live" where
  "rpc_cancel_open_order B trade_id =
     readM (\<lambda>s.
       if lb_state s = STATE_STOPPED then raiseM RPCException
       else
         (case find_trade s (bot_open_ids s) trade_id of
            None \<Rightarrow> raiseM RPCException
          | Some i \<Rightarrow>
              if \<not> has_open_orders (lb_heap s i) then raiseM RPCException
              else
                forM (open_positions (lb_heap s i)) (\<lambda>k. readM (\<lambda>s. let t = lb_heap s i in
                  bindM (catchM is_exchange_error (fetch_order B (o_order_id (t_orders t ! k)) (t_pair t) False)
                           (\<lambda>_. raiseM RPCException)) (\<lambda>order.
                  bindM (handle_cancel_order B order k i REASON_USER_CANCEL False) (\<lambda>_. retM ()))))))"

definition try_cancel :: "live_config \<Rightarrow> bool \<Rightarrow> string \<Rightarrow> string \<Rightarrow> unit live" where
  "try_cancel B stop pair order_id =
     catchM is_exchange_error (bindM (bot_cancel B order_id pair stop) (\<lambda>_. retM ())) (\<lambda>_. retM ())"

definition rpc_delete :: "live_config \<Rightarrow> int \<Rightarrow> unit live" where
  "rpc_delete B trade_id =
     readM (\<lambda>s.
       case find_trade s (lb_db s) trade_id of
         None \<Rightarrow> raiseM RPCException
       | Some i \<Rightarrow>
           (let t = lb_heap s i in
            thenM (forM (open_orders_ids t) (try_cancel B False (t_pair t)))
            (thenM (whenM (st_stoploss_on_exchange (lv_strategy B))
                      (forM (map o_order_id (open_sl_orders t)) (try_cancel B (lv_stop_flag B) (t_pair t))))
            (thenM (delete_live i) (bot_wallets_update B True)))))"

definition rpc_reload_trade :: "live_config \<Rightarrow> int \<Rightarrow> unit live" where
  "rpc_reload_trade B trade_id =
     readM (\<lambda>s.
       case find_trade s (lb_db s) trade_id of
         None \<Rightarrow> raiseM RPCException
       | Some i \<Rightarrow> bindM (handle_onexchange_order B i) (\<lambda>_. retM ()))"

text \<open>The rows of locks are numbered from one in the order they were added; none is ever removed.\<close>

definition rpc_delete_lock :: "lock_store \<Rightarrow> datetime \<Rightarrow> nat option \<Rightarrow> string option \<Rightarrow> lock_store" where
  "rpc_delete_lock L now lockid pair =
     (let chosen = (\<lambda>k l. case lockid of
            Some (Suc n) \<Rightarrow> k = n
          | _ \<Rightarrow> (case pair of Some (c # cs) \<Rightarrow> pair_locks_filter L (Some (c # cs)) now None l | _ \<Rightarrow> False))
      in L\<lparr>ls_locks := map (\<lambda>(k, l). if chosen k l then l\<lparr>l_active := False, l_lock_end_time := now\<rparr> else l)
                        (List.enumerate 0 (ls_locks L))\<rparr>)"

section \<open>The state of the bot\<close>

fun pause_state :: "bot_state \<Rightarrow> bot_state" where
  "pause_state STATE_RUNNING = STATE_PAUSED"
| "pause_state STATE_STOPPED = STATE_PAUSED"
| "pause_state st = st"

datatype command =
    Cmd_start
  | Cmd_stop
  | Cmd_pause
  | Cmd_reload_config
  | Cmd_force_exit "int option" "string option" "flt option" "flt option"
  | Cmd_force_entry string "flt option" "string option" signal_direction "flt option" "string option" "flt option"
  | Cmd_cancel_open_order int
  | Cmd_delete int
  | Cmd_reload_trade int
  | Cmd_add_lock string datetime "string option" string
  | Cmd_delete_lock "nat option" "string option"

fun rpc :: "live_config \<Rightarrow> command \<Rightarrow> unit live" where
  "rpc B Cmd_start = modM (\<lambda>s. s\<lparr>lb_state := STATE_RUNNING\<rparr>)"
| "rpc B Cmd_stop = modM (\<lambda>s. s\<lparr>lb_state := STATE_STOPPED\<rparr>)"
| "rpc B Cmd_pause = modM (\<lambda>s. s\<lparr>lb_state := pause_state (lb_state s)\<rparr>)"
| "rpc B Cmd_reload_config = modM (\<lambda>s. s\<lparr>lb_state := STATE_RELOAD_CONFIG\<rparr>)"
| "rpc B (Cmd_force_exit trade_id ordertype amount price) = rpc_force_exit B trade_id ordertype amount price"
| "rpc B (Cmd_force_entry pair price ordertype side stake tag leverage) =
     rpc_force_entry B pair price ordertype side stake tag leverage"
| "rpc B (Cmd_cancel_open_order trade_id) = rpc_cancel_open_order B trade_id"
| "rpc B (Cmd_delete trade_id) = rpc_delete B trade_id"
| "rpc B (Cmd_reload_trade trade_id) = rpc_reload_trade B trade_id"
| "rpc B (Cmd_add_lock pair until reason side) =
     modM (\<lambda>s. s\<lparr>lb_locks := snd (lock_pair (lv_ccxt B s) (lb_locks s) pair until reason (lv_now B s) side)\<rparr>)"
| "rpc B (Cmd_delete_lock lockid pair) =
     modM (\<lambda>s. s\<lparr>lb_locks := rpc_delete_lock (lb_locks s) (lv_now B s) lockid pair\<rparr>)"

section \<open>The worker\<close>

definition live_startup :: "live_config \<Rightarrow> unit live" where
  "live_startup B =
     thenM (startup_backpopulate_precision B)
     (thenM (readM (\<lambda>s. forM (bot_open_ids s) (\<lambda>i. readM (\<lambda>s.
               onM i (reinit_trade (lv_ccxt B s) (st_stoploss (lv_strategy B)))))))
     (thenM (startup_update_open_orders B)
     (thenM (update_all_liquidation_prices B) (update_funding_fees B))))"

definition process_running :: "live_config \<Rightarrow> unit live" where
  "process_running B =
     catchM (\<lambda>e. e \<in> {OperationalException, ConfigurationError})
       (catchM (\<lambda>e. e \<in> {TemporaryError, DDosProtection}) (process B) (\<lambda>_. retM ()))
       (\<lambda>_. modM (\<lambda>s. s\<lparr>lb_state := STATE_STOPPED\<rparr>))"

text \<open>One turn of the worker; the state it looked at is what the next turn compares with.\<close>

definition worker_turn :: "live_config \<Rightarrow> bot_state option \<Rightarrow> bot_state live" where
  "worker_turn B old_state =
     readM (\<lambda>s. let state = lb_state s; active = {STATE_RUNNING, STATE_PAUSED} in
       thenM (whenM (state \<in> active \<and> old_state \<notin> Some ` active) (live_startup B))
       (thenM (if state = STATE_STOPPED then process_stopped B
               else whenM (state \<in> active) (process_running B))
          (retM state)))"

definition bot_cleanup :: "live_config \<Rightarrow> unit live" where
  "bot_cleanup B = catchM (\<lambda>_. True) (whenM (lv_cancel_on_exit B) (cancel_all_open_orders B)) (\<lambda>_. retM ())"

text \<open>A new bot over the same database; what the old one kept in memory is gone.\<close>

definition forget_memory :: "live_config \<Rightarrow> bot \<Rightarrow> bot" where
  "forget_memory B s = s\<lparr>lb_wallets := no_wallets, lb_rates := \<lparr>rc_entry = Map.empty, rc_exit = Map.empty\<rparr>,
     lb_exit_cache := [], lb_whitelist := [], lb_state := STATE_STOPPED\<rparr>"

definition new_bot :: "live_config \<Rightarrow> unit live" where
  "new_bot B =
     catchM (\<lambda>_. True)
       (thenM (modM (forget_memory B))
       (thenM (bot_wallets_update B True)
       (thenM (refresh_active_whitelist B [])
          (modM (\<lambda>s. s\<lparr>lb_state := lv_initial_state B\<rparr>)))))
       (\<lambda>e. thenM (bot_cleanup B) (raiseM e))"

definition reconfigure :: "live_config \<Rightarrow> unit live" where
  "reconfigure B = thenM (bot_cleanup B) (new_bot B)"

end
