(* ===== verification/Bot_Safety.thy ===== *)
theory Bot_Safety
  imports Bot_Keeps Bot_Commands
begin

text \<open>
  What every run of the trading bot keeps, whatever the exchange, the market and the user strategy
  answer: the compliance gate holds for every order that is sent, the number of open trades stays
  within \<open>max_open_trades\<close>, and no pair is held twice.
\<close>

section \<open>Runs\<close>

text \<open>
  The worker takes turns, whatever state it saw last, the scheduler runs its updates, and commands
  of the users come in between. An exception ends an operation; when it leaves the worker the process
  ends and may be started again, over the state that was left.
\<close>

datatype bot_op =
    Op_turn "bot_state option"
  | Op_schedule
  | Op_reconfigure
  | Op_cleanup
  | Op_command command

fun bot_step :: "live_config \<Rightarrow> bot_op \<Rightarrow> bot \<Rightarrow> bot" where
  "bot_step B (Op_turn old) s = snd (worker_turn B old s)"
| "bot_step B Op_schedule s = snd (scheduled_update B s)"
| "bot_step B Op_reconfigure s = snd (reconfigure B s)"
| "bot_step B Op_cleanup s = snd (bot_cleanup B s)"
| "bot_step B (Op_command c) s = snd (rpc B c s)"

definition bot_run :: "live_config \<Rightarrow> bot_op list \<Rightarrow> bot \<Rightarrow> bot" where
  "bot_run B ops s = fold (bot_step B) ops s"

context live_frame
begin

lemma all_funding: "keeps P (update_funding_fees B)"
  unfolding update_funding_fees_def by (intro keeps_rules funding)

lemma all_liquidation: "keeps P (update_all_liquidation_prices B)"
  unfolding update_all_liquidation_prices_def by (intro keeps_rules liquidation)

lemma schedule: "keeps P (scheduled_update B)"
  unfolding scheduled_update_def by (intro keeps_rules all_funding all_liquidation wallets)

lemma stopped: "keeps P (process_stopped B)"
  unfolding process_stopped_def by (intro keeps_rules cancel_everything)

lemma backpopulate: "keeps P (startup_backpopulate_precision B)"
  unfolding startup_backpopulate_precision_def Let_def
  by (intro keeps_rules change_field) (auto simp: same_trade_def trade_key_def)

lemma startup_orders: "keeps P (startup_update_open_orders B)"
  unfolding startup_update_open_orders_def startup_update_order_def Let_def
  by (intro keeps_rules fetch_either update cancel_order)

lemma startup: "keeps P (live_startup B)"
proof -
  have "same_trade t (t\<lparr>t_stop_loss := 0, t_initial_stop_loss_pct := None\<rparr>)" for t
    by (simp add: same_trade_def trade_key_def)
  then have "keeps_same (reinit_trade C sl)" for C sl
    by (intro keeps_sameI)
      (auto simp: reinit_trade_def split: if_splits dest!: adjust_stop_loss_same intro: same_trade_trans)
  then show ?thesis
    unfolding live_startup_def
    by (intro keeps_rules trade_op backpopulate startup_orders all_liquidation all_funding)
qed

text \<open>Commands.\<close>

lemma exit_orders_cancelled: "keeps P (cancel_for_exit B i ks)"
  by (induction ks) (auto simp: Let_def intro!: keeps_rules fetch cancel_enter cancel_exit)

lemma forced_exit: "keeps P (exec_force_exit B i ty amount price)"
  unfolding exec_force_exit_def force_exit_amount_def Let_def
  by (intro keeps_rules exit_orders_cancelled rate execute_exit)

lemma forced_exits: "keeps P (rpc_force_exit B trade_id ty amount price)"
  unfolding rpc_force_exit_def by (intro keeps_rules forced_exit wallets)

lemma order_cancelled: "keeps P (rpc_cancel_open_order B trade_id)"
  unfolding rpc_cancel_open_order_def Let_def by (intro keeps_rules fetch cancel_order)

lemma trade_deleted: "keeps P (rpc_delete B trade_id)"
  unfolding rpc_delete_def try_cancel_def Let_def by (intro keeps_rules cancel_call delete wallets)

lemma trade_reloaded: "keeps P (rpc_reload_trade B trade_id)"
  unfolding rpc_reload_trade_def by (intro keeps_rules onexchange)

lemma stake_computed: "keeps P (trade_stake B)"
  unfolding trade_stake_def Let_def by (intro keeps_rules wallets)

lemma forced_enlargement: "i \<in> J \<Longrightarrow> keeps P (force_entry_run B (Some i) pair price ty sh stake tag lev)"
  unfolding force_entry_run_def by (intro keeps_rules stake_computed enter_existing)

lemma other_commands:
  assumes "\<And>s st. P s \<Longrightarrow> P (s\<lparr>lb_state := st\<rparr>)"
    and "case c of Cmd_force_entry pair price ty side stake tag lev \<Rightarrow> False | _ \<Rightarrow> True"
  shows "keeps P (rpc B c)"
  using assms
  by (cases c)
    (auto intro!: keeps_mod P_locks forced_exits order_cancelled trade_deleted trade_reloaded)

lemma cleaned: "keeps P (bot_cleanup B)"
  unfolding bot_cleanup_def by (intro keeps_rules cancel_everything)

text \<open>An iteration up to the entries.\<close>

lemma before_entries:
  assumes "\<And>s. P s \<Longrightarrow> set (bot_open_ids s) \<subseteq> J" and "\<And>s w. P s \<Longrightarrow> P (s\<lparr>lb_whitelist := w\<rparr>)"
  shows "keeps P (thenM (update_trades_without_assigned_fees B)
     (thenM (readM (\<lambda>s. refresh_active_whitelist B (bot_open_ids s)))
     (thenM (live_manage_open_orders B)
     (thenM (readM (\<lambda>s. exit_positions B (bot_open_ids s)))
        (whenM (lv_position_adjustment B) (process_open_trade_positions B))))))"
  by (intro keeps_rules assign_fees whitelist manage_all exits adjust_all assms)

end

context live_opening
begin

lemma forced_opening: "moves P Q (force_entry_run B None pair0 price ty sh stake tag lev)"
  unfolding force_entry_run_def if_P [OF refl]
  by (intro moves_bind keeps_if keeps_ret before.stake_computed weaker moves_then_keeps [OF enter_fresh]
      after.trade_op keeps_rules)

end

text \<open>What a forced entry may do: be refused, enlarge an open trade, or open one where there is room.\<close>

lemma force_entry_cases:
  obtains (refused) e where "rpc_force_entry B pair price ty side stake tag lev s = (Inl e, s)"
  | (enlarged) i sh where "i \<in> set (bot_open_ids s)"
      "rpc_force_entry B pair price ty side stake tag lev s = force_entry_run B (Some i) pair price ty sh stake tag lev s"
  | (opened) sh where "pair \<notin> (\<lambda>i. t_pair (lb_heap s i)) ` set (bot_open_ids s)"
      "case lv_max_open_trades B of None \<Rightarrow> True | Some n \<Rightarrow> int (length (bot_open_ids s)) < n"
      "rpc_force_entry B pair price ty side stake tag lev s = force_entry_run B None pair price ty sh stake tag lev s"
proof (cases "force_entry_allowed B s pair side")
  case (Inl e)
  with refused show ?thesis by (simp add: rpc_force_entry_def readM_def bindM_def liftM_def)
next
  case Inr
  show ?thesis
  proof (cases "force_entry_target B s pair")
    case (Inl e)
    with \<open>force_entry_allowed B s pair side = Inr _\<close> refused show ?thesis
      by (simp add: rpc_force_entry_def readM_def bindM_def liftM_def)
  next
    case target: (Inr trade)
    with \<open>force_entry_allowed B s pair side = Inr _\<close>
    have run: "rpc_force_entry B pair price ty side stake tag lev s
        = force_entry_run B trade pair price ty (case trade of Some i \<Rightarrow> t_is_short (lb_heap s i) | None \<Rightarrow> side = SHORT)
            stake tag lev s"
      by (simp add: rpc_force_entry_def readM_def bindM_def liftM_def)
    show ?thesis
    proof (cases "trade_of_pair s pair")
      case None
      then have "pair \<notin> (\<lambda>i. t_pair (lb_heap s i)) ` set (bot_open_ids s)"
        by (auto simp: trade_of_pair_def find_None_iff)
      with None target run opened show ?thesis
        by (auto simp: force_entry_target_def not_le split: option.splits if_splits)
    next
      case (Some i)
      then have "i \<in> set (bot_open_ids s)" by (auto simp: trade_of_pair_def find_Some_iff)
      with Some target run enlarged show ?thesis
        by (auto simp: force_entry_target_def split: if_splits)
    qed
  qed
qed

subsection \<open>Turns and runs\<close>

lemma keeps_turn:
  assumes "keeps P (process B)" and "keeps P (live_startup B)" and "keeps P (process_stopped B)"
    and "\<And>s st. P s \<Longrightarrow> P (s\<lparr>lb_state := st\<rparr>)"
  shows "keeps P (worker_turn B old)"
  unfolding worker_turn_def process_running_def Let_def by (intro keeps_rules keeps_mod assms)

lemma keeps_reconfigure:
  assumes "keeps P (bot_cleanup B)" and "keeps P (bot_wallets_update B True)"
    and "keeps P (refresh_active_whitelist B [])" and "\<And>s. P s \<Longrightarrow> P (forget_memory B s)"
    and "\<And>s st. P s \<Longrightarrow> P (s\<lparr>lb_state := st\<rparr>)"
  shows "keeps P (reconfigure B)"
  unfolding reconfigure_def new_bot_def by (intro keeps_rules keeps_mod assms)

lemma run_keeps:
  assumes "\<And>old. keeps P (worker_turn B old)" and "keeps P (scheduled_update B)" and "keeps P (reconfigure B)"
    and "keeps P (bot_cleanup B)" and "\<And>c. keeps P (rpc B c)" and "P s"
  shows "P (bot_run B ops s)"
proof -
  have "P (bot_step B op u)" if "P u" for op u
    using that assms(1-5) by (cases op) (auto intro: keepsD)
  with assms(6) show ?thesis
    unfolding bot_run_def by (induction ops arbitrary: s) auto
qed

section \<open>The compliance gate\<close>

definition compliant_call :: "call \<Rightarrow> bool" where
  "compliant_call c =
     (case c of Create_call rq \<Rightarrow>
        (rq_side rq = ''buy'' \<longrightarrow> \<bar>rq_leverage rq - 1\<bar> \<le> 1 / 10 ^ 9 \<and> \<not> leveraged_token_name (base_currency (rq_pair rq)))
        \<and> (rq_initial rq \<longrightarrow> rq_side rq = ''buy'')
      | _ \<Rightarrow> True)"

definition gate_held :: "live_config \<Rightarrow> bot \<Rightarrow> bool" where
  "gate_held B s \<longleftrightarrow> spot_only_enforced (lv_bot B) \<longrightarrow>
     (\<forall>i. \<not> t_is_short (lb_heap s i)) \<and> list_all compliant_call (lb_log s)"

lemma gate_passed:
  assumes "spot_only_enforced cfg" and "execute_entry_gate cfg pair is_short lev"
  shows "\<not> is_short" and "\<bar>lev - 1\<bar> \<le> 1 / 10 ^ 9" and "\<not> leveraged_token_name (base_currency pair)"
  using assms compliant_order [of pair is_short lev] by (auto simp: execute_entry_gate_def)

interpretation gate: live_frame B "gate_held B" UNIV for B
proof unfold_locales
  fix s :: bot and pair is_short lev ty a r initial
  assume "gate_held B s" and "execute_entry_gate (lv_bot B) pair is_short lev"
  then show "gate_held B (s\<lparr>lb_log := lb_log s @ [Create_call (entry_order_request pair ty is_short a r lev initial)]\<rparr>)"
    using gate_passed [of "lv_bot B" pair is_short lev]
    by (auto simp: gate_held_def compliant_call_def entry_order_request_def)
next
  fix s u :: bot and i ty a r
  assume "gate_held B s" and "gate_held B u"
  then show "gate_held B (u\<lparr>lb_log := lb_log u @ [Create_call (exit_request B (lb_heap s i) ty a r)]\<rparr>)"
    by (auto simp: gate_held_def compliant_call_def exit_request_def exit_side_def)
next
  fix s :: bot and c
  assume "gate_held B s" and "\<And>rq. c \<noteq> Create_call rq"
  then show "gate_held B (s\<lparr>lb_log := lb_log s @ [c]\<rparr>)"
    by (cases c) (auto simp: gate_held_def compliant_call_def)
qed (auto simp: gate_held_def put_live_def same_trade_def trade_key_def)

interpretation gate_opening: live_opening B "gate_held B" "gate_held B" UNIV UNIV pair0 for B pair0
  by unfold_locales (auto simp: gate_held_def add_live_trade_def dest: gate_passed)

lemma gate_create_trades: "keeps (gate_held B) (create_trades B slots pairs)"
proof (induction pairs arbitrary: slots)
  case Nil
  show ?case by (simp add: keeps_ret)
next
  case (Cons pair pairs)
  have "keeps (gate_held B) (catchM is_dependency_exception (create_trade B pair) (\<lambda>_. retM False))"
    using gate_opening.try_create by (simp add: moves_def keeps_def)
  with Cons show ?case by (auto intro!: keeps_rules)
qed

lemma gate_process: "keeps (gate_held B) (process B)"
proof -
  have "keeps (gate_held B) (enter_positions B slots)" for slots
    unfolding enter_positions_def by (intro keeps_rules gate_create_trades)
  then show ?thesis
    unfolding process_def Let_def
    by (intro keeps_rules gate.assign_fees gate.whitelist gate.manage_all gate.exits gate.adjust_all)
      (auto simp: gate_held_def)
qed

lemma gate_frame [simp]:
  "gate_held B (s\<lparr>lb_state := st\<rparr>) = gate_held B s" "gate_held B (forget_memory B s) = gate_held B s"
  by (simp_all add: gate_held_def forget_memory_def)

lemma gate_command: "keeps (gate_held B) (rpc B c)"
proof (cases c)
  case (Cmd_force_entry pair price ty side stake tag lev)
  show ?thesis
  proof (rule keepsI)
    fix s assume "gate_held B s"
    then show "gate_held B (snd (rpc B c s))"
      unfolding Cmd_force_entry rpc.simps
      by (cases rule: force_entry_cases [of B pair price ty side stake tag lev s])
        (auto intro: keepsD [OF gate.forced_enlargement] gate_opening.forced_opening [unfolded moves_def, rule_format])
  qed
qed (intro gate.other_commands; simp)+

lemma gate_run:
  assumes "gate_held B s"
  shows "gate_held B (bot_run B ops s)"
proof (rule run_keeps)
  show "keeps (gate_held B) (worker_turn B old)" for old
    by (rule keeps_turn) (simp_all add: gate_process gate.startup gate.stopped)
  have "keeps (gate_held B) (refresh_active_whitelist B [])"
    by (rule gate.whitelist) (simp add: gate_held_def)
  then show "keeps (gate_held B) (reconfigure B)"
    by (intro keeps_reconfigure) (simp_all add: gate.cleaned gate.wallets)
qed (simp_all add: gate.schedule gate.cleaned gate_command assms)

section \<open>Which trades are open\<close>

definition addressed :: "bot \<Rightarrow> bool" where
  "addressed s \<longleftrightarrow> distinct (lb_db s) \<and> (\<forall>i \<in> set (lb_db s). i < lb_next s)"

text \<open>
  The open trades are among \<open>J\<close>, whose pairs are given; the list of pairs and the next address are
  those of the state the pass began with.
\<close>

definition open_among :: "nat set \<Rightarrow> (nat \<Rightarrow> string) \<Rightarrow> string list \<Rightarrow> nat \<Rightarrow> bot \<Rightarrow> bool" where
  "open_among J pr w n s \<longleftrightarrow>
     addressed s \<and> set (bot_open_ids s) \<subseteq> J \<and> (\<forall>i \<in> J. t_pair (lb_heap s i) = pr i) \<and> lb_whitelist s = w
     \<and> lb_next s = n \<and> J \<subseteq> {..<n}"

lemma open_amongD:
  assumes "open_among J pr w n s"
  shows "set (bot_open_ids s) \<subseteq> J" "i \<in> J \<Longrightarrow> t_pair (lb_heap s i) = pr i" "lb_whitelist s = w"
    "distinct (bot_open_ids s)" "addressed s"
  using assms by (auto simp: open_among_def addressed_def bot_open_ids_def)

lemma open_among_start:
  assumes "addressed s"
  shows "open_among (set (bot_open_ids s)) (\<lambda>i. t_pair (lb_heap s i)) (lb_whitelist s) (lb_next s) s"
  using assms by (auto simp: open_among_def addressed_def bot_open_ids_def)

interpretation pass: live_frame B "open_among J pr w n" J for B J pr w n
proof unfold_locales
  fix s :: bot and i t
  assume s: "open_among J pr w n s" and same: "same_trade (lb_heap s i) t"
  then have "set (bot_open_ids (put_live i t s)) \<subseteq> set (bot_open_ids s)"
    by (auto simp: bot_open_ids_def put_live_def same_trade_def split: if_splits)
  with s same show "open_among J pr w n (put_live i t s)"
    by (auto simp: open_among_def addressed_def put_live_def same_trade_def trade_key_def)
next
  fix s :: bot and i t
  assume s: "open_among J pr w n s" and i: "i \<in> J" and key: "trade_key t = trade_key (lb_heap s i)"
  then have "set (bot_open_ids (put_live i t s)) \<subseteq> insert i (set (bot_open_ids s))"
    by (auto simp: bot_open_ids_def put_live_def split: if_splits)
  with s i key show "open_among J pr w n (put_live i t s)"
    by (auto simp: open_among_def addressed_def put_live_def trade_key_def)
qed (auto simp: open_among_def addressed_def bot_open_ids_def)

text \<open>A new trade takes the next address.\<close>

definition grown :: "nat set \<Rightarrow> (nat \<Rightarrow> string) \<Rightarrow> string list \<Rightarrow> nat \<Rightarrow> string \<Rightarrow> bot \<Rightarrow> bool" where
  "grown J pr w n pair s \<longleftrightarrow>
     open_among J pr w n s \<or> open_among (insert n J) (pr(n := pair)) w (Suc n) s"

lemma keeps_disj: "keeps P m \<Longrightarrow> keeps Q m \<Longrightarrow> keeps (\<lambda>s. P s \<or> Q s) m"
  by (auto simp: keeps_def)

interpretation grow: live_frame B "grown J pr w n pair" J for B J pr w n pair
proof unfold_locales
  fix s u :: bot and i ty a r
  assume "grown J pr w n pair u"
  then show "grown J pr w n pair (u\<lparr>lb_log := lb_log u @ [Create_call (exit_request B (lb_heap s i) ty a r)]\<rparr>)"
    using pass.P_exit_call [where s = u and u = u] by (auto simp: grown_def open_among_def addressed_def bot_open_ids_def)
next
  fix s :: bot and i t
  assume "grown J pr w n pair s" and "i \<in> J" and "trade_key t = trade_key (lb_heap s i)"
  then show "grown J pr w n pair (put_live i t s)"
    unfolding grown_def by (metis insertI2 pass.P_reopen)
qed (unfold grown_def, auto intro: pass.P_put pass.P_wallets pass.P_locks pass.P_rates pass.P_cache
      pass.P_reasons pass.P_delete pass.P_call pass.P_entry_call)

lemma open_among_add:
  assumes s: "open_among J pr w n s" and pair: "t_pair t = pair"
  shows "open_among (insert n J) (pr(n := pair)) w (Suc n) (snd (add_live_trade t s))"
proof -
  from s have n: "lb_next s = n" and J: "J \<subseteq> {..<n}" and addr: "addressed s" by (auto simp: open_among_def)
  let ?s = "snd (add_live_trade t s)"
  from addr n have "set (bot_open_ids ?s) \<subseteq> insert n (set (bot_open_ids s))"
    by (auto simp: bot_open_ids_def add_live_trade_def addressed_def)
  moreover from addr n have "addressed ?s" by (auto simp: addressed_def add_live_trade_def)
  ultimately show ?thesis
    using s J pair by (auto simp: open_among_def add_live_trade_def n)
qed

interpretation entry: live_opening B "open_among J pr w n" "grown J pr w n pair0" J J pair0 for B J pr w n pair0
  by unfold_locales (auto simp: grown_def intro: open_among_add)

lemma create_trade_grows:
  assumes "addressed s"
  shows "grown (set (bot_open_ids s)) (\<lambda>i. t_pair (lb_heap s i)) (lb_whitelist s) (lb_next s) pair
           (snd (catchM is_dependency_exception (create_trade B pair) (\<lambda>_. retM False) s))"
  using entry.try_create open_among_start [OF assms] by (simp add: moves_def)

lemma create_trade_full:
  assumes "free_open_trades B s = Some 0"
  shows "catchM is_dependency_exception (create_trade B pair) (\<lambda>_. retM False) s = (Inr False, s)"
  using assms by (simp add: catchM_def create_trade_def readM_def retM_def Let_def)

section \<open>Slots\<close>

definition slots_held :: "live_config \<Rightarrow> bot \<Rightarrow> bool" where
  "slots_held B s \<longleftrightarrow> addressed s \<and>
     (case lv_max_open_trades B of None \<Rightarrow> True | Some n \<Rightarrow> int (length (bot_open_ids s)) \<le> n)"

lemma open_count:
  assumes "addressed s"
  shows "length (bot_open_ids s) = card (set (bot_open_ids s))"
proof -
  from assms have "distinct (bot_open_ids s)" by (simp add: addressed_def bot_open_ids_def)
  then show ?thesis by (simp add: distinct_card)
qed

lemma open_ids_frame [simp]:
  "bot_open_ids (s\<lparr>lb_state := st\<rparr>) = bot_open_ids s" "bot_open_ids (s\<lparr>lb_whitelist := w\<rparr>) = bot_open_ids s"
  "addressed (s\<lparr>lb_state := st\<rparr>) = addressed s" "addressed (s\<lparr>lb_whitelist := w\<rparr>) = addressed s"
  "bot_open_ids (forget_memory B s) = bot_open_ids s" "addressed (forget_memory B s) = addressed s"
  by (simp_all add: bot_open_ids_def addressed_def forget_memory_def)

lemma slots_among:
  assumes "slots_held B s" and "open_among (set (bot_open_ids s)) pr w n s'"
  shows "slots_held B s'"
proof -
  from assms(2) have "addressed s'" and "set (bot_open_ids s') \<subseteq> set (bot_open_ids s)"
    by (auto dest: open_amongD)
  with assms(1) have "length (bot_open_ids s') \<le> length (bot_open_ids s)"
    by (auto simp: open_count slots_held_def intro: card_mono)
  with assms(1) \<open>addressed s'\<close> show ?thesis by (auto simp: slots_held_def split: option.splits)
qed

lemma slots_keep:
  assumes "\<And>J pr w n. keeps (open_among J pr w n) m"
  shows "keeps (slots_held B) m"
proof (rule keepsI)
  fix s assume "slots_held B s"
  moreover from this have "addressed s" by (simp add: slots_held_def)
  ultimately show "slots_held B (snd (m s))"
    by (auto intro: slots_among keepsD [OF assms] open_among_start)
qed

lemma slots_grown:
  assumes s: "slots_held B s" and u: "grown (set (bot_open_ids s)) pr w (lb_next s) pair u"
    and room: "case lv_max_open_trades B of None \<Rightarrow> True | Some n \<Rightarrow> int (length (bot_open_ids s)) < n"
  shows "slots_held B u"
proof -
  from s have addr: "addressed s" by (simp add: slots_held_def)
  from u have "addressed u" and "set (bot_open_ids u) \<subseteq> insert (lb_next s) (set (bot_open_ids s))"
    by (auto simp: grown_def dest: open_amongD)
  then have "card (set (bot_open_ids u)) \<le> card (insert (lb_next s) (set (bot_open_ids s)))"
    by (intro card_mono) auto
  also have "\<dots> \<le> Suc (card (set (bot_open_ids s)))" by (rule card_insert_le_m1) simp_all
  finally have "length (bot_open_ids u) \<le> Suc (length (bot_open_ids s))"
    using addr \<open>addressed u\<close> by (simp add: open_count)
  with room \<open>addressed u\<close> show ?thesis by (auto simp: slots_held_def split: option.splits)
qed

lemma slots_create: "keeps (slots_held B) (catchM is_dependency_exception (create_trade B pair) (\<lambda>_. retM False))"
proof (rule keepsI)
  fix s assume s: "slots_held B s"
  show "slots_held B (snd (catchM is_dependency_exception (create_trade B pair) (\<lambda>_. retM False) s))"
  proof (cases "free_open_trades B s = Some 0")
    case True
    with s show ?thesis by (simp add: create_trade_full)
  next
    case False
    then have "case lv_max_open_trades B of None \<Rightarrow> True | Some n \<Rightarrow> int (length (bot_open_ids s)) < n"
      by (auto simp: free_open_trades_def split: option.splits)
    moreover from s have "addressed s" by (simp add: slots_held_def)
    ultimately show ?thesis by (intro slots_grown [OF s create_trade_grows])
  qed
qed

lemma forced_grows:
  assumes "addressed s"
  shows "grown (set (bot_open_ids s)) (\<lambda>i. t_pair (lb_heap s i)) (lb_whitelist s) (lb_next s) pair
           (snd (force_entry_run B None pair price ty sh stake tag lev s))"
  using entry.forced_opening open_among_start [OF assms] by (simp add: moves_def)

lemma forced_among:
  assumes "addressed s" and "i \<in> set (bot_open_ids s)"
  shows "open_among (set (bot_open_ids s)) (\<lambda>i. t_pair (lb_heap s i)) (lb_whitelist s) (lb_next s)
           (snd (force_entry_run B (Some i) pair price ty sh stake tag lev s))"
  by (rule keepsD [OF pass.forced_enlargement [OF assms(2)] open_among_start [OF assms(1)]])

lemma slots_refresh: "keeps (slots_held B) (refresh_active_whitelist B is)"
  unfolding refresh_active_whitelist_def
  by (intro keeps_bind keeps_mod slots_keep pass.request) (auto simp: slots_held_def split: option.splits)

lemma slots_process: "keeps (slots_held B) (process B)"
proof -
  have "keeps (slots_held B) (create_trades B slots pairs)" for slots pairs
    by (induction pairs arbitrary: slots) (auto intro!: keeps_rules slots_create)
  then have entries: "keeps (slots_held B) (enter_positions B slots)" for slots
    unfolding enter_positions_def by (intro keeps_rules)
  show ?thesis
    unfolding process_def Let_def
    by (intro keeps_then keeps_when keeps_read entries slots_refresh slots_keep pass.assign_fees pass.exits
        pass.manage_all pass.adjust_all) (auto dest: open_amongD)
qed

lemma slots_frame [simp]:
  "slots_held B (s\<lparr>lb_state := st\<rparr>) = slots_held B s" "slots_held B (forget_memory B' s) = slots_held B s"
  by (simp_all add: slots_held_def split: option.split)

lemma open_among_frame: "open_among J pr w n s \<Longrightarrow> open_among J pr w n (s\<lparr>lb_state := st\<rparr>)"
  by (simp add: open_among_def)

lemma slots_command: "keeps (slots_held B) (rpc B c)"
proof (cases c)
  case (Cmd_force_entry pair price ty side stake tag lev)
  show ?thesis
  proof (rule keepsI)
    fix s assume s: "slots_held B s"
    then have "addressed s" by (simp add: slots_held_def)
    with s show "slots_held B (snd (rpc B c s))"
      unfolding Cmd_force_entry rpc.simps
      by (cases rule: force_entry_cases [of B pair price ty side stake tag lev s])
        (auto intro: slots_among [OF s forced_among] slots_grown [OF s forced_grows])
  qed
qed (rule slots_keep; rule pass.other_commands; simp add: open_among_frame)+

lemma slots_run:
  assumes "slots_held B s"
  shows "slots_held B (bot_run B ops s)"
proof (rule run_keeps)
  show "keeps (slots_held B) (worker_turn B old)" for old
    by (rule keeps_turn) (simp_all add: slots_process slots_keep pass.startup pass.stopped)
  show "keeps (slots_held B) (reconfigure B)"
    by (rule keeps_reconfigure) (simp_all add: slots_keep pass.cleaned pass.wallets slots_refresh)
qed (simp_all add: slots_keep pass.schedule pass.cleaned slots_command assms)

section \<open>One position per pair\<close>

definition pair_of :: "bot \<Rightarrow> nat \<Rightarrow> string" where
  "pair_of s i = t_pair (lb_heap s i)"

definition one_per_pair :: "bot \<Rightarrow> bool" where
  "one_per_pair s \<longleftrightarrow> distinct (map (pair_of s) (bot_open_ids s))"

definition pairs_held :: "bot \<Rightarrow> bool" where
  "pairs_held s \<longleftrightarrow> addressed s \<and> one_per_pair s \<and> distinct (lb_whitelist s)"

text \<open>The pair list manager lists a pair once.\<close>

definition distinct_pairlists :: "live_config \<Rightarrow> bool" where
  "distinct_pairlists B \<longleftrightarrow> (\<forall>log ps. la_pairlist (lv_api B) log = Inr ps \<longrightarrow> distinct ps)"

lemma pair_of_frame [simp]:
  "pair_of (s\<lparr>lb_state := st\<rparr>) = pair_of s" "pair_of (s\<lparr>lb_whitelist := w\<rparr>) = pair_of s"
  by (simp_all add: pair_of_def [abs_def])

lemma one_per_pair_frame [simp]:
  "one_per_pair (s\<lparr>lb_state := st\<rparr>) = one_per_pair s" "one_per_pair (s\<lparr>lb_whitelist := w\<rparr>) = one_per_pair s"
  by (simp_all add: one_per_pair_def)

lemma pairs_among:
  assumes "one_per_pair s" and "open_among (set (bot_open_ids s)) (pair_of s) w n s'"
  shows "one_per_pair s'"
proof -
  have "set (bot_open_ids s') \<subseteq> set (bot_open_ids s)" and "distinct (bot_open_ids s')"
    using open_amongD [OF assms(2)] by auto
  moreover have "pair_of s' i = pair_of s i" if "i \<in> set (bot_open_ids s)" for i
    using open_amongD(2) [OF assms(2) that] by (simp add: pair_of_def)
  ultimately show ?thesis
    using assms(1) by (auto simp: one_per_pair_def distinct_map inj_on_def subset_iff)
qed

lemma open_among_pairs:
  assumes "addressed s"
  shows "open_among (set (bot_open_ids s)) (pair_of s) (lb_whitelist s) (lb_next s) s"
  using open_among_start [OF assms] by (simp add: pair_of_def [abs_def])

lemma pairs_keep:
  assumes "\<And>J pr w n. keeps (open_among J pr w n) m"
  shows "keeps pairs_held m"
proof (rule keepsI)
  fix s assume s: "pairs_held s"
  then have "open_among (set (bot_open_ids s)) (pair_of s) (lb_whitelist s) (lb_next s) (snd (m s))"
    by (intro keepsD [OF assms] open_among_pairs) (simp add: pairs_held_def)
  with s show "pairs_held (snd (m s))"
    by (auto simp: pairs_held_def dest: pairs_among open_amongD)
qed

lemma pairs_refresh_from:
  assumes "distinct_pairlists B" and s: "pairs_held s" and "distinct (map (\<lambda>i. t_pair (lb_heap s i)) ids)"
  shows "pairs_held (snd (refresh_active_whitelist B ids s))"
proof -
  let ?u = "s\<lparr>lb_log := lb_log s @ [Refresh_call]\<rparr>"
  have ids: "bot_open_ids ?u = bot_open_ids s" and pairs: "pair_of ?u = pair_of s"
    by (simp_all add: bot_open_ids_def pair_of_def fun_eq_iff)
  have u: "pairs_held ?u" using s by (simp add: pairs_held_def one_per_pair_def ids pairs addressed_def)
  show ?thesis
  proof (cases "la_pairlist (lv_api B) (lb_log s)")
    case (Inl e)
    with u show ?thesis by (simp add: readM_def refresh_active_whitelist_def bindM_def ask_def)
  next
    case (Inr ps)
    with assms have "distinct ps" by (auto simp: distinct_pairlists_def)
    with assms(3) have "distinct (ps @ filter (\<lambda>p. p \<notin> set ps) (map (\<lambda>i. t_pair (lb_heap s i)) ids))"
      by (auto simp: distinct_filter)
    with u Inr show ?thesis
      by (simp add: readM_def refresh_active_whitelist_def bindM_def ask_def modM_def pairs_held_def)
  qed
qed

lemma pairs_refresh:
  assumes "distinct_pairlists B"
  shows "keeps pairs_held (readM (\<lambda>s. refresh_active_whitelist B (bot_open_ids s)))"
    and "keeps pairs_held (refresh_active_whitelist B [])"
  using assms
  by (auto intro!: keepsI pairs_refresh_from simp: readM_def)
    (simp add: pairs_held_def one_per_pair_def pair_of_def [abs_def])

lemma remove_pairs:
  assumes "distinct w"
  shows "distinct (foldl (\<lambda>ps i. remove1 (f i) ps) w ids)"
    and "set (foldl (\<lambda>ps i. remove1 (f i) ps) w ids) = set w - f ` set ids"
  using assms by (induction ids arbitrary: w) auto

text \<open>While trades are created the pairs still to come are not held.\<close>

definition pairs_free :: "string list \<Rightarrow> bot \<Rightarrow> bool" where
  "pairs_free pairs s \<longleftrightarrow>
     pairs_held s \<and> distinct pairs \<and> set pairs \<inter> pair_of s ` set (bot_open_ids s) = {}"

lemma pairs_grown:
  fixes s u :: bot
  defines "J \<equiv> set (bot_open_ids s)" and "n \<equiv> lb_next s"
  assumes s: "pairs_free (pair # pairs) s" and "grown J (pair_of s) (lb_whitelist s) n pair u"
  shows "pairs_free pairs u"
proof -
  from s have addr: "addressed s" and one: "one_per_pair s" and w: "distinct (lb_whitelist s)"
    and free: "pair \<notin> pair_of s ` J" "set pairs \<inter> pair_of s ` J = {}" and d: "distinct pairs" "pair \<notin> set pairs"
    by (auto simp: pairs_free_def pairs_held_def J_def)
  let ?pr = "(pair_of s)(n := pair)"
  from addr have fresh: "n \<notin> J" by (auto simp: addressed_def bot_open_ids_def J_def n_def)
  from assms(4) show ?thesis
    unfolding grown_def
  proof
    assume a: "open_among J (pair_of s) (lb_whitelist s) n u"
    have same: "pair_of u i = pair_of s i" if "i \<in> J" for i
      using open_amongD(2) [OF a that] by (simp add: pair_of_def)
    with open_amongD(1) [OF a] have "pair_of u ` set (bot_open_ids u) \<subseteq> pair_of s ` J"
      by (auto simp: subset_iff)
    with free have "set pairs \<inter> pair_of u ` set (bot_open_ids u) = {}" by blast
    with open_amongD(3,5) [OF a] pairs_among [OF one a [unfolded J_def]] w d show ?thesis
      by (simp add: pairs_free_def pairs_held_def)
  next
    assume a: "open_among (insert n J) ?pr (lb_whitelist s) (Suc n) u"
    note ids = open_amongD(1) [OF a]
    have pr: "pair_of u i = ?pr i" if "i \<in> insert n J" for i
      using open_amongD(2) [OF a that] by (simp add: pair_of_def)
    have "inj_on ?pr (insert n J)"
      using one free(1) fresh by (auto simp: one_per_pair_def distinct_map inj_on_def J_def)
    moreover have "inj_on (pair_of u) (insert n J) = inj_on ?pr (insert n J)"
      by (rule inj_on_cong) (rule pr)
    ultimately have "inj_on (pair_of u) (set (bot_open_ids u))"
      using ids by (metis inj_on_subset)
    with open_amongD(4) [OF a] have "one_per_pair u" by (simp add: one_per_pair_def distinct_map)
    moreover have "pair_of u i \<in> insert pair (pair_of s ` J)" if "i \<in> insert n J" for i
      unfolding pr [OF that] using that by (cases "i = n") simp_all
    then have "pair_of u ` set (bot_open_ids u) \<subseteq> insert pair (pair_of s ` J)"
      using ids by (meson image_subsetI subsetD)
    with free(2) d(2) have "set pairs \<inter> pair_of u ` set (bot_open_ids u) = {}" by blast
    ultimately show ?thesis
      using open_amongD(3,5) [OF a] w d by (simp add: pairs_free_def pairs_held_def)
  qed
qed

lemma pairs_create:
  assumes s: "pairs_free (pair # pairs) s"
  shows "pairs_free pairs (snd (catchM is_dependency_exception (create_trade B pair) (\<lambda>_. retM False) s))"
proof -
  from s have "addressed s" by (simp add: pairs_free_def pairs_held_def)
  from pairs_grown [OF s] create_trade_grows [OF this] show ?thesis by (simp add: pair_of_def [abs_def])
qed

lemma pairs_create_all:
  "pairs_free pairs s \<Longrightarrow> pairs_held (snd (create_trades B slots pairs s))"
proof (induction pairs arbitrary: slots s)
  case Nil
  then show ?case by (simp add: retM_def pairs_free_def)
next
  case (Cons pair pairs)
  note step = pairs_create [OF Cons.prems, where B = B]
  show ?case
  proof (cases "slots \<noteq> None \<and> the slots \<le> 0")
    case True
    with Cons.prems show ?thesis by (auto simp: retM_def pairs_free_def)
  next
    case False
    then show ?thesis
      using Cons.IH [OF step] step by (auto simp: bindM_def pairs_free_def split: prod.split sum.split)
  qed
qed

lemma pairs_enter: "keeps pairs_held (enter_positions B slots)"
proof (rule keepsI)
  fix s assume s: "pairs_held s"
  then have w: "distinct (lb_whitelist s)" by (simp add: pairs_held_def)
  have "pairs_free (free_pairs s) s"
    using s remove_pairs [OF w, of "pair_of s" "bot_open_ids s"]
    by (auto simp: pairs_free_def free_pairs_def pair_of_def [abs_def])
  with s show "pairs_held (snd (enter_positions B slots s))"
    by (simp add: enter_positions_def readM_def retM_def pairs_create_all)
qed

lemma pairs_process:
  assumes "distinct_pairlists B"
  shows "keeps pairs_held (process B)"
proof -
  have "keeps pairs_held (readM (\<lambda>s. exit_positions B (bot_open_ids s)))"
    by (intro pairs_keep keeps_read pass.exits)
  moreover have "keeps pairs_held (readM (\<lambda>s. whenM (b s) (enter_positions B (slots s))))" for b slots
    by (intro keeps_read keeps_when pairs_enter)
  moreover have "keeps pairs_held (update_trades_without_assigned_fees B)" "keeps pairs_held (live_manage_open_orders B)"
      "keeps pairs_held (process_open_trade_positions B)"
    by (auto intro!: pairs_keep pass.assign_fees pass.manage_all pass.adjust_all dest: open_amongD)
  ultimately show ?thesis
    unfolding process_def Let_def by (intro keeps_then keeps_when pairs_refresh assms)
qed

lemma pairs_frame [simp]:
  "pairs_held (s\<lparr>lb_state := st\<rparr>) = pairs_held s" "pairs_held s \<Longrightarrow> pairs_held (forget_memory B s)"
  by (simp_all add: pairs_held_def one_per_pair_def)
    (simp add: forget_memory_def pair_of_def [abs_def])

lemma pairs_command: "keeps pairs_held (rpc B c)"
proof (cases c)
  case (Cmd_force_entry pair price ty side stake tag lev)
  show ?thesis
  proof (rule keepsI)
    fix s assume s: "pairs_held s"
    then have addr: "addressed s" by (simp add: pairs_held_def)
    show "pairs_held (snd (rpc B c s))"
      unfolding Cmd_force_entry rpc.simps
    proof (cases rule: force_entry_cases [of B pair price ty side stake tag lev s])
      case refused
      with s show "pairs_held (snd (rpc_force_entry B pair price ty side stake tag lev s))" by simp
    next
      case (enlarged i sh)
      have among: "open_among (set (bot_open_ids s)) (pair_of s) (lb_whitelist s) (lb_next s)
          (snd (force_entry_run B (Some i) pair price ty sh stake tag lev s))"
        using forced_among [OF addr enlarged(1)] by (simp add: pair_of_def [abs_def])
      from s have "one_per_pair s" and "distinct (lb_whitelist s)" by (simp_all add: pairs_held_def)
      with pairs_among [OF _ among] open_amongD(3,5) [OF among] enlarged(2)
      show "pairs_held (snd (rpc_force_entry B pair price ty side stake tag lev s))"
        by (simp add: pairs_held_def)
    next
      case (opened sh)
      with s have "pairs_free [pair] s" by (auto simp: pairs_free_def pair_of_def)
      from pairs_grown [OF this] forced_grows [OF addr]
      have "pairs_free [] (snd (force_entry_run B None pair price ty sh stake tag lev s))"
        by (simp add: pair_of_def [abs_def])
      with opened(3) show "pairs_held (snd (rpc_force_entry B pair price ty side stake tag lev s))"
        by (simp add: pairs_free_def)
    qed
  qed
qed (rule pairs_keep; rule pass.other_commands; simp add: open_among_frame)+

lemma pairs_run:
  assumes "distinct_pairlists B" and "pairs_held s"
  shows "pairs_held (bot_run B ops s)"
proof (rule run_keeps)
  show "keeps pairs_held (worker_turn B old)" for old
    by (rule keeps_turn) (simp_all add: pairs_process pairs_keep pass.startup pass.stopped assms)
  show "keeps pairs_held (reconfigure B)"
    by (rule keeps_reconfigure) (simp_all add: pairs_keep pass.cleaned pass.wallets pairs_refresh assms)
qed (simp_all add: pairs_keep pass.schedule pass.cleaned pairs_command assms)

end
