(* ===== verification/Bot_Claims.thy ===== *)
theory Bot_Claims
  imports Bot_Safety Bt_Safety
begin

text \<open>
  The properties of the trading bot over whole runs, and a concrete bot on which they are applied:
  one pair, whose entry signal is always on, and an exchange that takes every order and fills the
  first one a little.
\<close>

section \<open>A concrete bot\<close>

definition refreshes :: "call list \<Rightarrow> int" where
  "refreshes calls = int (length (filter (\<lambda>c. c = Refresh_call) calls))"

definition example_answer :: "string \<Rightarrow> flt \<Rightarrow> flt \<Rightarrow> flt \<Rightarrow> string \<Rightarrow> x_order" where
  "example_answer oid amount price filled side =
     \<lparr>c_id = oid, c_status = Some ''open'', c_symbol = Some ''ETH/USDT'', c_type = Some ''limit'', c_side = Some side,
      c_price = Some price, c_amount = Some amount, c_filled = Some filled, c_average = None,
      c_remaining = Some (amount - filled), c_cost = Some (filled * price), c_stopPrice = None, c_timestamp = None,
      c_lastTradeTimestamp = None, xo_fee = None, xo_trades = [], xo_id_stop = None, xo_status_stop = None,
      xo_algo_id = None\<rparr>"

definition example_live_callbacks :: live_callbacks where
  "example_live_callbacks = \<lparr>lc_entry_price = (\<lambda>_ _ _ _ _ _. None), lc_exit_price = (\<lambda>_ _ _ _ _. None),
     lc_leverage = (\<lambda>_ _ _ _ _ _. 1), lc_stake_amount = (\<lambda>_ _ _ proposed _ _ _ _ _. Some proposed),
     lc_confirm_entry = (\<lambda>_ _ _ _ _ _ _. True), lc_confirm_exit = (\<lambda>_ _ _ _ _ _. True),
     lc_adjust_position = (\<lambda>_ _ _ _ _ _ _ _. (None, None)), lc_adjust_order_price = (\<lambda>_ _ _ _ _ _. Some 98)\<rparr>"

definition example_live_candle :: "int \<Rightarrow> candle" where
  "example_live_candle n = \<lparr>cd_date = n * 300000000, cd_enter_long = True, cd_exit_long = False, cd_enter_short = False,
     cd_exit_short = False, cd_enter_tag = None, cd_exit_tag = None\<rparr>"

definition example_spot_exchange :: exchange where
  "example_spot_exchange = example_x\<lparr>ex_trading_mode := SPOT, ex_markets := [(''ETH/USDT'', example_spot_market)]\<rparr>"

definition example_api :: live_api where
  "example_api = \<lparr>la_now = (\<lambda>log. refreshes log * 300000000 + 400000000),
     la_exchange = (\<lambda>_. example_spot_exchange), la_wallets = (\<lambda>_. Inr Wallets.example_exchange),
     la_liquidation = (\<lambda>_. example_futures\<lparr>lx_trading_mode := SPOT\<rparr>),
     la_create_order = (\<lambda>log rq. Inr (example_answer (show_nat (length log)) (rq_amount rq) (rq_rate rq) 0 (rq_side rq))),
     la_create_stoploss = (\<lambda>_ _ _ _ _ _. Inl ExchangeError),
     la_cancel_order = (\<lambda>log oid _ _. Inr ((example_answer oid 1 100 0 ''buy'')\<lparr>c_status := Some ''canceled''\<rparr>)),
     la_fetch_order = (\<lambda>log oid _ _.
       Inr (example_answer oid 1 100 (if refreshes log \<ge> 2 then 4/100 else 0) ''buy'')),
     la_fetch_orders = (\<lambda>_ _ _. Inr []), la_fetch_trades = (\<lambda>_ _ _ _. Inr []),
     la_funding_fees = (\<lambda>_ _ _ _ _. Inr 0), la_candles = (\<lambda>log _. [example_live_candle (refreshes log)]),
     la_pairlist = (\<lambda>_. Inr [''ETH/USDT'']), la_callbacks = (\<lambda>_. example_live_callbacks)\<rparr>"

definition example_live :: live_config where
  "example_live = \<lparr>lv_api = example_api, lv_bot = example_bot\<lparr>bc_spot_only_enforced := True\<rparr>,
     lv_strategy = example_strategy, lv_wallets = example_config\<lparr>wc_stake_amount := Some 100, wc_use_db := True\<rparr>,
     lv_env = example_env, lv_protections = [],
     lv_pricing = (\<lambda>_. \<lparr>pc_price_side = ''other'', pc_use_order_book = True, pc_order_book_top = 1, pc_price_last_balance = 0\<rparr>),
     lv_margin_mode = NO_MARGIN, lv_exchange_id = ''binance'', lv_max_open_trades = Some 1,
     lv_order_types = (\<lambda>_. ''limit''), lv_emergency_type = ''market'', lv_sl_interval = 60,
     lv_stoploss_blocks_assets = True, lv_sl_supported = True, lv_stop_flag = False, lv_algo_orders = False,
     lv_position_adjustment = False, lv_max_entry_adjustment = - 1, lv_custom_price_distance = 2/100,
     lv_exit_timeout_count = 0, lv_depth_of_market = None, lv_cancel_on_exit = True, lv_skip_order_update = False,
     lv_recursion_limit = 100, lv_force_entry = True, lv_initial_state = STATE_RUNNING\<rparr>"

definition example_idle :: bot where
  "example_idle = \<lparr>lb_heap = (\<lambda>_. example_trade), lb_db = [], lb_next = 1, lb_wallets = no_wallets,
     lb_locks = example_store\<lparr>ls_locks := []\<rparr>, lb_rates = \<lparr>rc_entry = Map.empty, rc_exit = Map.empty\<rparr>,
     lb_exit_cache = [], lb_cancel_reasons = (\<lambda>_ _. None), lb_state = STATE_RUNNING, lb_whitelist = [], lb_log = []\<rparr>"

definition example_day :: "bot_op list" where
  "example_day = [Op_turn None, Op_turn (Some STATE_RUNNING),
     Op_command (Cmd_force_entry ''ETH/USDT'' None (Some ''market'') LONG None None (Some 10)), Op_schedule,
     Op_command (Cmd_force_exit None None None None), Op_command Cmd_stop, Op_turn (Some STATE_RUNNING), Op_reconfigure]"

lemma example_idle_simps [simp]:
  "lb_log example_idle = []" "lb_heap example_idle i = example_trade" "bot_open_ids example_idle = []"
  "lb_whitelist example_idle = []" "addressed example_idle"
  by (simp_all add: example_idle_def bot_open_ids_def addressed_def)

lemma example_live_simps [simp]:
  "lv_max_open_trades example_live = Some 1" "spot_only_enforced (lv_bot example_live)"
  "distinct_pairlists example_live"
  by (simp_all add: example_live_def example_bot_def spot_only_enforced_def distinct_pairlists_def example_api_def)

section \<open>Whole runs\<close>

text \<open>Property C1: the compliance gate holds for the whole bot. When the spot-only enforcement is
  armed, then in every run of the bot - turns of the worker, startups, scheduled updates, stops,
  restarts and the commands of users, forced entries with any leverage among them, in any order, with
  whatever errors and answers of the exchange, whatever the market and whatever the methods of the user
  strategy return - every buy order that is sent is without leverage (up to the tolerance) and of a pair
  whose base is no leveraged token (like BTCUP or ETH3S), every order that opens a position is a buy,
  and no trade is short.\<close>

theorem armed_bot_sends_compliant_orders:
  assumes "spot_only_enforced (lv_bot B)" and "lb_log s = []" and "\<And>i. \<not> t_is_short (lb_heap s i)"
  shows "list_all compliant_call (lb_log (bot_run B ops s)) \<and> \<not> t_is_short (lb_heap (bot_run B ops s) i)"
proof -
  have "gate_held B s" using assms by (simp add: gate_held_def)
  from gate_run [OF this] assms(1) show ?thesis by (simp add: gate_held_def)
qed

theorem armed_bot_sends_compliant_orders_witness:
  "list_all compliant_call (lb_log (bot_run example_live example_day example_idle))"
  using armed_bot_sends_compliant_orders [of example_live example_idle example_day]
  by (simp add: example_trade_def)





section \<open>What a failed replacement forgets\<close>

lemma entry_kept_when_unexitable:
  assumes "\<not> x_not_open order" and "c_filled order = Some f" and "0 < f"
    and "min_stake_to_exit B s (lb_heap s i) = Inr (Some m)" and "m \<noteq> 0" and "f * t_open_rate (lb_heap s i) < m"
  shows "handle_cancel_enter B i order k why replacing s = (Inr False, s)"
  using assms
  by (simp add: handle_cancel_enter_def cancel_entry_on_exchange_def bindM_def readM_def liftM_def retM_def Let_def
      stake_too_small_def)

text \<open>Property C38: a replacement that fails forgets what was filled. When the first entry order of a
  trade is to be replaced while it is open on the exchange with a fill too small to be exited, the bot
  neither cancels the order nor keeps the trade: the only request it makes is one for a rate, the order
  stays open in the trade object and on the exchange, and the trade is gone from the database, so that
  no later operation watches the order, its fill or the slot it takes.\<close>

theorem replacement_forgets_partial_fill:
  fixes s :: bot and i :: nat
  defines "t \<equiv> lb_heap s i"
  assumes "\<not> x_not_open order" and "c_side order = Some (entry_side t)" and "c_filled order = Some f" and "0 < f"
    and "min_stake_to_exit B s t = Inr (Some m)" and "m \<noteq> 0" and "f * t_open_rate t < m"
    and "nr_of_successful_entries t = 0"
    and "get_rate (lv_exchange B s) (lv_pricing B) (t_pair t) False True (t_is_short t) None None (lb_rates s) = Inr (r, rc)"
  shows "let s' = snd (handle_replace_order B order k i price True why replacing s)
    in i \<notin> set (lb_db s') \<and> lb_log s' = lb_log s @ [Rate_call (t_pair t)] \<and> lb_heap s' i = t"
proof -
  have "handle_cancel_order B order k i why replacing s = (Inr False, s)"
    using assms entry_kept_when_unexitable [of order f B s i m k why replacing]
    by (simp add: handle_cancel_order_def readM_def)
  then show ?thesis
    using assms
    by (simp add: handle_replace_order_def replace_order_failed_def notify_enter_cancel_def bot_rate_def delete_live_def
        bindM_def thenM_def readM_def whenM_def retM_def modM_def Let_def)
qed

definition example_partly_filled :: trade where
  "example_partly_filled = example_trade\<lparr>t_pair := ''ETH/USDT'', t_amount := 0, t_orders := [example_entry\<lparr>
     o_ft_is_open := True, o_status := Some ''open'', o_filled := Some (4/100), o_order_id := ''3''\<rparr>]\<rparr>"

definition example_waiting :: bot where
  "example_waiting = example_idle\<lparr>lb_heap := (\<lambda>_. example_partly_filled), lb_db := [1], lb_next := 2\<rparr>"

lemma example_waiting_checks:
  "\<not> x_not_open (example_answer ''3'' 1 100 (4/100) ''buy'')"
  "nr_of_successful_entries example_partly_filled = 0" "t_pair example_partly_filled = ''ETH/USDT''"
  "t_open_rate example_partly_filled = 100" "\<not> t_is_short example_partly_filled"
  by code_simp+

lemma example_min_stake: "\<exists>m. min_stake_to_exit example_live example_waiting example_partly_filled = Inr (Some m) \<and> 4 < m"
proof -
  have "case min_stake_to_exit example_live example_waiting example_partly_filled of Inr (Some m) \<Rightarrow> 4 < m | _ \<Rightarrow> False"
    by code_simp
  then show ?thesis by (auto split: sum.splits option.splits)
qed

lemma example_cached_rate:
  "\<exists>r rc. get_rate (lv_exchange example_live example_waiting) (lv_pricing example_live) ''ETH/USDT'' False True False None None
            (lb_rates example_waiting) = Inr (r, rc)"
proof -
  have "case get_rate (lv_exchange example_live example_waiting) (lv_pricing example_live) ''ETH/USDT'' False True False None
          None (lb_rates example_waiting) of Inr r \<Rightarrow> True | Inl _ \<Rightarrow> False"
    by code_simp
  then show ?thesis by (auto split: sum.splits)
qed

theorem replacement_forgets_partial_fill_witness:
  "let s' = snd (handle_replace_order example_live (example_answer ''3'' 1 100 (4/100) ''buy'') 0 1 (Some 98) True
                   REASON_REPLACE True example_waiting)
   in 1 \<notin> set (lb_db s') \<and> lb_log s' = lb_log example_waiting @ [Rate_call ''ETH/USDT'']
      \<and> lb_heap s' 1 = example_partly_filled"
proof -
  obtain m where m: "min_stake_to_exit example_live example_waiting example_partly_filled = Inr (Some m)" and "4 < m"
    using example_min_stake by blast
  obtain r rc where rate: "get_rate (lv_exchange example_live example_waiting) (lv_pricing example_live) ''ETH/USDT''
      False True False None None (lb_rates example_waiting) = Inr (r, rc)"
    using example_cached_rate by blast
  have t: "lb_heap example_waiting n = example_partly_filled" for n by (simp add: example_waiting_def)
  have "let s' = snd (handle_replace_order example_live (example_answer ''3'' 1 100 (4/100) ''buy'') 0 1 (Some 98) True
      REASON_REPLACE True example_waiting)
    in 1 \<notin> set (lb_db s') \<and> lb_log s' = lb_log example_waiting @ [Rate_call (t_pair (lb_heap example_waiting 1))]
       \<and> lb_heap s' 1 = lb_heap example_waiting 1"
  proof (rule replacement_forgets_partial_fill)
    show "min_stake_to_exit example_live example_waiting (lb_heap example_waiting 1) = Inr (Some m)" using m by (simp only: t)
    show "c_filled (example_answer ''3'' 1 100 (4/100) ''buy'') = Some (4/100)" by (simp add: example_answer_def)
    show "4 / 100 * t_open_rate (lb_heap example_waiting 1) < m" using \<open>4 < m\<close> by (simp add: t example_waiting_checks)
    show "c_side (example_answer ''3'' 1 100 (4/100) ''buy'') = Some (entry_side (lb_heap example_waiting 1))"
      by (simp add: t entry_side_def example_waiting_checks) (simp add: example_answer_def)
    show "get_rate (lv_exchange example_live example_waiting) (lv_pricing example_live)
        (t_pair (lb_heap example_waiting 1)) False True (t_is_short (lb_heap example_waiting 1)) None None
        (lb_rates example_waiting) = Inr (r, rc)"
      using rate by (simp only: t example_waiting_checks if_False simp_thms)
  qed (use \<open>4 < m\<close> in \<open>simp_all only: t example_waiting_checks, simp_all\<close>)
  then show ?thesis by (simp only: t example_waiting_checks)
qed

section \<open>Smaller flaws\<close>

text \<open>The test for orders that are older than five days holds for every order of the past.\<close>

lemma every_order_assumed_cancelled: "order_date \<le> now \<Longrightarrow> assumed_cancelled order_date now"
  by (simp add: assumed_cancelled_def days_us_def day_us_def)

text \<open>The substitute for a cancelled stop order does not count as cancelled, and has no type.\<close>

lemma fake_stop_result:
  "\<not> x_canceled_empty (fake_cancelled order_id amount None)"
  "lv_stop_flag B \<Longrightarrow> get_order_id_conditional B (fake_cancelled order_id amount None) = Inl KeyError"
  by (simp_all add: x_canceled_empty_def fake_cancelled_def get_order_id_conditional_def)

text \<open>An order book without bids or asks raises what no handler of the loop over the pairs catches.\<close>

lemma empty_side_raises:
  assumes "ex_order_book (lv_exchange B s) pair 1000 = Inr book" and "ob_bids book = [] \<or> ob_asks book = []"
  shows "fst (check_depth_of_market B pair delta side s) = Inl IndexError \<and> \<not> is_dependency_exception IndexError"
  using assms by (simp add: check_depth_of_market_def bindM_def ask_def raiseM_def)

end
