(* ===== verification/Pairlists.thy ===== *)
theory Pairlists
  imports Exchange_Markets Islamic Metrics
begin

text \<open>
  The pair lists of freqtrade (plugins/pairlistmanager.py and plugins/pairlist): the handlers that
  generate and filter the pairs to trade, their caches, and the manager that chains them and applies
  the blacklist. Lists that handlers change in place or keep in a cache live in an explicit store.
  Answers of the exchange, the clock, the database and the random generator are the environment of a
  refresh.
\<close>

section \<open>The environment\<close>

record full_ticker = ticker +
  tk_quote_volume :: "flt option"
  tk_percentage :: "flt option"

record pl_candle =
  pc_high :: flt
  pc_low :: flt
  pc_close :: flt
  pc_volume :: flt

record closed_trade =
  ct_pair :: string
  ct_close_date :: int
  ct_profit :: flt
  ct_entry_cost :: flt \<comment> \<open>the filled entry orders over the leverage\<close>

text \<open>
  A regular expression is what \<open>re\<close> makes of it: nothing when it does not compile, or the texts it
  matches in full without regard to case. Candles are asked for by time frame and number.
\<close>

record pl_env =
  pe_now :: int \<comment> \<open>microseconds\<close>
  pe_exchange :: exchange
  pe_tickers :: "(string \<times> full_ticker) list"
  pe_regex :: "string \<Rightarrow> (string \<Rightarrow> bool) option"
  pe_candles :: "string \<Rightarrow> int \<Rightarrow> string \<Rightarrow> pl_candle list option"
  pe_volatility :: "nat \<Rightarrow> pl_candle list \<Rightarrow> efloat"
  pe_market_info :: "string \<Rightarrow> string \<Rightarrow> string" \<comment> \<open>pair, key; empty when missing\<close>
  pe_delisting :: "string \<Rightarrow> int option"
  pe_open_trades :: nat
  pe_closed_trades :: "closed_trade list option" \<comment> \<open>\<^term>\<open>None\<close>: no database\<close>
  pe_producer_pairs :: "string list"
  pe_shuffle :: "nat \<Rightarrow> string list \<Rightarrow> string list"

abbreviation pl_seconds :: "int \<Rightarrow> int" where
  "pl_seconds n \<equiv> n * 1000000"

abbreviation pl_day :: int where
  "pl_day \<equiv> pl_seconds 86400"

section \<open>Wildcards\<close>

definition is_word_char :: "char \<Rightarrow> bool" where
  "is_word_char c \<longleftrightarrow>
     (let n = (of_char c :: nat) in (97 \<le> n \<and> n \<le> 122) \<or> (65 \<le> n \<and> n \<le> 90) \<or> (48 \<le> n \<and> n \<le> 57))"

text \<open>\<open>^[\w:/-]+$\<close> without an underscore, for ASCII texts\<close>

definition is_plain_pair :: "string \<Rightarrow> bool" where
  "is_plain_pair p \<longleftrightarrow> p \<noteq> [] \<and> list_all (\<lambda>c. is_word_char c \<or> c \<in> {CHR '':'', CHR ''/'', CHR ''-''}) p"

fun expand_wildcards ::
    "(string \<Rightarrow> (string \<Rightarrow> bool) option) \<Rightarrow> string list \<Rightarrow> bool \<Rightarrow> string list \<Rightarrow> py_error + string list" where
  "expand_wildcards rx available keep [] = Inr []"
| "expand_wildcards rx available keep (w # ws) =
     (case rx w of
        None \<Rightarrow> Inl ValueError
      | Some m \<Rightarrow>
          (let found = filter m available;
               part = (if keep \<and> found = [] then [w] else found)
           in bindE (expand_wildcards rx available keep ws) (\<lambda>rest. Inr (part @ rest))))"

definition expand_pairlist ::
    "(string \<Rightarrow> (string \<Rightarrow> bool) option) \<Rightarrow> string list \<Rightarrow> string list \<Rightarrow> bool \<Rightarrow> py_error + string list" where
  "expand_pairlist rx wildcardpl available keep_invalid =
     bindE (expand_wildcards rx available keep_invalid wildcardpl) (\<lambda>result.
       Inr (if keep_invalid then filter is_plain_pair result else result))"

section \<open>Lists that are shared\<close>

record list_store =
  ls_at :: "nat \<Rightarrow> string list"
  ls_next :: nat

definition alloc :: "string list \<Rightarrow> list_store \<Rightarrow> nat \<times> list_store" where
  "alloc xs h = (ls_next h, h\<lparr>ls_at := (ls_at h)(ls_next h := xs), ls_next := ls_next h + 1\<rparr>)"

definition put_list :: "nat \<Rightarrow> string list \<Rightarrow> list_store \<Rightarrow> list_store" where
  "put_list r xs h = h\<lparr>ls_at := (ls_at h)(r := xs)\<rparr>"

text \<open>\<open>for p in pairlist.copy(): if not valid(p): pairlist.remove(p)\<close>\<close>

definition remove_step :: "(string \<Rightarrow> py_error + bool) \<Rightarrow> string \<Rightarrow> string list \<Rightarrow> py_error + string list" where
  "remove_step valid p xs = bindE (valid p) (\<lambda>ok. Inr (if ok then xs else remove1 p xs))"

definition remove_invalid :: "(string \<Rightarrow> py_error + bool) \<Rightarrow> string list \<Rightarrow> py_error + string list" where
  "remove_invalid valid xs = runE (remove_step valid) xs xs"

section \<open>The handlers and their state\<close>

datatype sort_order = Ascending | Descending

record top_config = \<comment> \<open>VolumePairList and PercentChangePairList\<close>
  tc_number :: nat
  tc_min_value :: "flt option"
  tc_max_value :: "flt option"
  tc_refresh :: int
  tc_timeframe :: string
  tc_period :: nat
  tc_use_range :: bool
  tc_base_volume :: bool \<comment> \<open>candles count volume in the base currency\<close>
  tc_order :: sort_order

record price_config =
  pf_low_price_ratio :: flt
  pf_min_price :: flt
  pf_max_price :: flt
  pf_max_value :: flt

record range_config = \<comment> \<open>VolatilityFilter and RangeStabilityFilter\<close>
  rg_days :: nat
  rg_min :: flt
  rg_max :: "flt option"
  rg_refresh :: int
  rg_sort :: "sort_order option"

datatype handler =
    StaticPairList "string list" bool \<comment> \<open>\<open>pair_whitelist\<close>, \<open>allow_inactive\<close>\<close>
  | VolumePairList top_config
  | PercentChangePairList top_config
  | ProducerPairList nat
  | CrossMarketPairList bool int \<comment> \<open>\<open>both_markets\<close>, refresh period\<close>
  | AgeFilter nat "nat option"
  | DelistFilter nat
  | FullTradesFilter "nat option" \<comment> \<open>\<open>max_open_trades\<close>, \<^term>\<open>None\<close> is infinity\<close>
  | IslamicComplianceFilter compliance_filter
  | OffsetFilter nat nat
  | PairInformationFilter bool string string
  | PerformanceFilter int "flt option"
  | PrecisionFilter flt
  | PriceFilter price_config
  | RangeStabilityFilter range_config
  | ShuffleFilter bool int \<comment> \<open>once per candle, seconds of a candle\<close>
  | SpreadFilter flt
  | VolatilityFilter range_config

text \<open>
  The caches of a handler: an expiring list, the list of a static handler in the backtest (a shared
  object), shuffled lists by input and period (shared objects), values by pair, and the symbols
  AgeFilter has checked.
\<close>

record handler_state =
  hs_pairs :: "(int \<times> string list) option"
  hs_static :: "nat option"
  hs_shuffled :: "string list \<Rightarrow> (int \<times> nat) option"
  hs_shuffles :: nat
  hs_values :: "string \<Rightarrow> (int \<times> efloat) option"
  hs_checked :: "string list"
  hs_failed :: "string \<Rightarrow> int option"

definition new_handler_state :: handler_state where
  "new_handler_state = \<lparr>hs_pairs = None, hs_static = None, hs_shuffled = Map.empty, hs_shuffles = 0,
     hs_values = Map.empty, hs_checked = [], hs_failed = Map.empty\<rparr>"

record pl_mode =
  md_optimize :: bool \<comment> \<open>backtest or hyperopt\<close>
  md_live :: bool \<comment> \<open>live or dry run\<close>

section \<open>Markets and blacklist\<close>

definition tradable_step :: "exchange \<Rightarrow> string \<Rightarrow> string list \<Rightarrow> string list" where
  "tradable_step X p acc =
     (case x_market X p of
        None \<Rightarrow> acc
      | Some m \<Rightarrow>
          if \<not> market_is_tradable X m then acc
          else if get_pair_quote_currency X p \<noteq> ex_stake_currency X then acc
          else if \<not> market_is_active m then acc
          else if p \<notin> set acc then acc @ [p] else acc)"

definition whitelist_for_active_markets :: "exchange \<Rightarrow> string list \<Rightarrow> py_error + string list" where
  "whitelist_for_active_markets X pairlist =
     (if ex_markets X = [] then Inl OperationalException else Inr (fold (tradable_step X) pairlist []))"

text \<open>
  The expanded blacklist: none is needed when the configured one is empty, and an invalid wildcard
  empties every list that is checked.
\<close>

datatype blacklist = No_blacklist | Invalid_blacklist | Pairs_blacklist "string list"

definition verify_blacklist :: "blacklist \<Rightarrow> string list \<Rightarrow> string list" where
  "verify_blacklist bl pairlist =
     (case bl of
        No_blacklist \<Rightarrow> pairlist
      | Invalid_blacklist \<Rightarrow> []
      | Pairs_blacklist b \<Rightarrow> fold (\<lambda>p xs. if p \<in> set b then remove1 p xs else xs) pairlist pairlist)"

definition verify_whitelist :: "pl_env \<Rightarrow> string list \<Rightarrow> bool \<Rightarrow> py_error + string list" where
  "verify_whitelist E pairlist keep_invalid =
     bindE (get_markets (pe_exchange E) [] [] False False False True False) (\<lambda>ms.
       Inr (case expand_pairlist (pe_regex E) pairlist (map fst ms) keep_invalid of Inl _ \<Rightarrow> [] | Inr w \<Rightarrow> w))"

definition stake_markets :: "pl_env \<Rightarrow> py_error + string list" where
  "stake_markets E =
     bindE (get_markets (pe_exchange E) [] [ex_stake_currency (pe_exchange E)] False False False True True)
       (\<lambda>ms. Inr (map fst ms))"

section \<open>Filters that look at one pair\<close>

type_synonym tickers = "(string \<times> full_ticker) list"

definition price_pair_ok :: "pl_env \<Rightarrow> price_config \<Rightarrow> string \<Rightarrow> full_ticker option \<Rightarrow> py_error + bool" where
  "price_pair_ok E C pair ticker =
     (let X = pe_exchange E in
      case ticker of
        None \<Rightarrow> Inr False
      | Some t \<Rightarrow>
      (case tk_last t of
        None \<Rightarrow> Inr False
      | Some price \<Rightarrow>
      if price = 0 then Inr False
      else
        bindE (if pf_low_price_ratio C \<noteq> 0
               then bindE (price_get_one_pip X pair) (\<lambda>c. Inr (c / price > pf_low_price_ratio C))
               else Inr False) (\<lambda>steep.
        if steep then Inr False
        else
        bindE (if pf_max_value C \<noteq> 0 then
                 (case x_market X pair of
                    None \<Rightarrow> Inl KeyError
                  | Some m \<Rightarrow>
                      (case lr_min (xm_amount m) of
                         None \<Rightarrow> Inr False
                       | Some min_amount \<Rightarrow>
                           (case xm_amount_precision m of
                              None \<Rightarrow> Inl TypeError
                            | Some prec \<Rightarrow>
                                (let step = (if ex_precision_mode X = TICK_SIZE then prec else (1/10) powi \<lfloor>prec\<rfloor>)
                                 in Inr ((min_amount + step) * price - min_amount * price > pf_max_value C)))))
               else Inr False) (\<lambda>dear.
        if dear then Inr False
        else if pf_min_price C \<noteq> 0 \<and> price < pf_min_price C then Inr False
        else if pf_max_price C \<noteq> 0 \<and> price > pf_max_price C then Inr False
        else Inr True))))"

definition price_enabled :: "price_config \<Rightarrow> bool" where
  "price_enabled C \<longleftrightarrow> pf_low_price_ratio C > 0 \<or> pf_min_price C > 0 \<or> pf_max_price C > 0 \<or> pf_max_value C > 0"

definition spread_pair_ok :: "flt \<Rightarrow> full_ticker option \<Rightarrow> bool" where
  "spread_pair_ok max_spread_ratio ticker =
     (case ticker of
        None \<Rightarrow> False
      | Some t \<Rightarrow>
          (case (tk_bid t, tk_ask t) of
             (Some bid, Some ask) \<Rightarrow> ask \<noteq> 0 \<and> bid \<noteq> 0 \<and> \<not> (1 - bid / ask > max_spread_ratio)
           | _ \<Rightarrow> False))"

definition precision_pair_ok :: "pl_env \<Rightarrow> flt \<Rightarrow> string \<Rightarrow> full_ticker option \<Rightarrow> py_error + bool" where
  "precision_pair_ok E stoploss pair ticker =
     (case ticker of
        None \<Rightarrow> Inr False
      | Some t \<Rightarrow>
          (case tk_last t of
             None \<Rightarrow> Inr False
           | Some price \<Rightarrow>
               (let stop_price = price * (1 - \<bar>stoploss\<bar>)
                in bindE (x_price_to_precision (pe_exchange E) pair stop_price ROUND_UP) (\<lambda>sp.
                   bindE (x_price_to_precision (pe_exchange E) pair (stop_price * (99/100)) ROUND_UP) (\<lambda>gap.
                     Inr (\<not> sp \<le> gap))))))"

definition delist_pair_ok :: "pl_env \<Rightarrow> nat \<Rightarrow> string \<Rightarrow> bool" where
  "delist_pair_ok E max_days pair =
     (case pe_delisting E pair of
        None \<Rightarrow> True
      | Some d \<Rightarrow> \<not> (max_days = 0 \<or> d \<le> pe_now E + int max_days * pl_day))"

text \<open>The check of the handlers that use the generic loop, and whether they are enabled.\<close>

fun pair_check :: "pl_env \<Rightarrow> tickers \<Rightarrow> handler \<Rightarrow> string \<Rightarrow> py_error + bool" where
  "pair_check E tk (PriceFilter C) p = (if price_enabled C then price_pair_ok E C p (map_of tk p) else Inr True)"
| "pair_check E tk (SpreadFilter r) p = Inr (r \<noteq> 0 \<longrightarrow> spread_pair_ok r (map_of tk p))"
| "pair_check E tk (PrecisionFilter sl) p = (if sl \<noteq> 0 then precision_pair_ok E sl p (map_of tk p) else Inr True)"
| "pair_check E tk (DelistFilter n) p = Inr (delist_pair_ok E n p)"
| "pair_check E tk (IslamicComplianceFilter F) p = Inr (validate_pair F p)"
| "pair_check E tk h p = Inr True"

section \<open>Filters that look at the whole list\<close>

definition performance_rows :: "closed_trade list \<Rightarrow> int \<Rightarrow> string \<Rightarrow> (flt \<times> nat) option" where
  \<comment> \<open>\<open>get_overall_performance(start_date)\<close>, the row of a pair: ratio and count\<close>
  "performance_rows trades start_date pair =
     (case filter (\<lambda>t. ct_pair t = pair \<and> start_date \<le> ct_close_date t) trades of
        [] \<Rightarrow> None
      | ts \<Rightarrow> Some (sum_list (map ct_profit ts) / sum_list (map ct_entry_cost ts), length ts))"

definition performance_filter :: "pl_env \<Rightarrow> int \<Rightarrow> flt option \<Rightarrow> string list \<Rightarrow> string list option" where
  \<comment> \<open>\<^term>\<open>None\<close>: the list itself is returned\<close>
  "performance_filter E minutes min_profit pairlist =
     (case pe_closed_trades E of
        None \<Rightarrow> None
      | Some trades \<Rightarrow>
          (let start_date = pe_now E - minutes * pl_seconds 60;
               row = (\<lambda>p. case performance_rows trades start_date p of None \<Rightarrow> (0, 0) | Some r \<Rightarrow> r)
           in if \<not> (\<exists>t \<in> set trades. start_date \<le> ct_close_date t) then None
              else Some
                (let ordered = sort_key (\<lambda>p. - fst (row p)) (sort_key (\<lambda>p. snd (row p)) pairlist)
                 in case min_profit of
                      None \<Rightarrow> ordered
                    | Some m \<Rightarrow> filter (\<lambda>p. fst (row p) \<ge> m) ordered)))"

definition pair_information_filter :: "pl_env \<Rightarrow> bool \<Rightarrow> string \<Rightarrow> string \<Rightarrow> string list \<Rightarrow> py_error + string list" where
  "pair_information_filter E white key compare pairlist =
     (if \<exists>p \<in> set pairlist. x_market (pe_exchange E) p = None then Inl KeyError
      else Inr (filter (\<lambda>p. (pe_market_info E p key = compare) = white) pairlist))"

text \<open>\<open>sorted(..., reverse=True)\<close> keeps the order of equal elements.\<close>

definition sorted_by :: "sort_order \<Rightarrow> (string \<times> flt) list \<Rightarrow> string list" where
  "sorted_by dir xs =
     map fst (case dir of Ascending \<Rightarrow> sort_key snd xs | Descending \<Rightarrow> sort_key (\<lambda>x. - snd x) xs)"

definition bounded :: "top_config \<Rightarrow> (string \<times> flt) list \<Rightarrow> (string \<times> flt) list" where
  "bounded C xs =
     filter (\<lambda>x. case tc_max_value C of None \<Rightarrow> True | Some m \<Rightarrow> snd x < m)
       (filter (\<lambda>x. case tc_min_value C of None \<Rightarrow> True | Some m \<Rightarrow> snd x > m) xs)"

text \<open>Active markets, then the blacklist, then the number of pairs.\<close>

definition best_pairs :: "pl_env \<Rightarrow> blacklist \<Rightarrow> top_config \<Rightarrow> (string \<times> flt) list \<Rightarrow> py_error + string list" where
  "best_pairs E bl C xs =
     bindE (whitelist_for_active_markets (pe_exchange E) (sorted_by (tc_order C) xs)) (\<lambda>pairs.
       Inr (take (tc_number C) (verify_blacklist bl pairs)))"

definition range_volume :: "pl_env \<Rightarrow> top_config \<Rightarrow> string \<Rightarrow> py_error + flt" where
  "range_volume E C pair =
     (case x_market (pe_exchange E) pair of
        None \<Rightarrow> Inl KeyError
      | Some m \<Rightarrow>
          (let size = (case xm_contract_size m of None \<Rightarrow> 1 | Some c \<Rightarrow> if c = 0 then 1 else c);
               vol = (\<lambda>c. if tc_base_volume C then pc_volume c * ((pc_high c + pc_low c + pc_close c) / 3) * size
                          else pc_volume c)
           in Inr (case pe_candles E (tc_timeframe C) (int (tc_period C)) pair of
                     None \<Rightarrow> 0
                   | Some cs \<Rightarrow>
                       if length cs < tc_period C then 0
                       else sum_list (map vol (drop (length cs - tc_period C) cs)))))"

fun mapE :: "('a \<Rightarrow> py_error + 'b) \<Rightarrow> 'a list \<Rightarrow> py_error + 'b list" where
  "mapE f [] = Inr []"
| "mapE f (x # xs) = bindE (f x) (\<lambda>y. bindE (mapE f xs) (\<lambda>ys. Inr (y # ys)))"

text \<open>Comparing a missing volume raises; a single one is not compared when sorting.\<close>

definition ticker_volumes :: "top_config \<Rightarrow> tickers \<Rightarrow> string list \<Rightarrow> py_error + (string \<times> flt) list" where
  "ticker_volumes C tk pairlist =
     (let vs = map (\<lambda>(k, t). (k, tk_quote_volume t)) (filter (\<lambda>(k, t). k \<in> set pairlist) tk)
      in if list_all (\<lambda>(k, v). v \<noteq> None) vs then Inr (map (\<lambda>(k, v). (k, the v)) vs)
         else if tc_min_value C = None \<and> tc_max_value C = None \<and> length vs = 1 then Inr (map (\<lambda>(k, v). (k, 0)) vs)
         else Inl TypeError)"

text \<open>A minimum of 0 or less is no minimum here.\<close>

definition volume_filter :: "pl_env \<Rightarrow> blacklist \<Rightarrow> tickers \<Rightarrow> top_config \<Rightarrow> string list \<Rightarrow> py_error + string list" where
  "volume_filter E bl tk C pairlist =
     (let C' = C\<lparr>tc_min_value := (case tc_min_value C of None \<Rightarrow> None | Some m \<Rightarrow> if m > 0 then Some m else None),
                 tc_order := Descending\<rparr>
      in bindE (if tc_use_range C
                then mapE (\<lambda>p. bindE (range_volume E C p) (\<lambda>v. Inr (p, v))) pairlist
                else ticker_volumes C' tk pairlist) (\<lambda>vs.
         best_pairs E bl C' (bounded C' vs)))"

definition range_change :: "pl_env \<Rightarrow> top_config \<Rightarrow> string \<Rightarrow> flt" where
  "range_change E C pair =
     (case pe_candles E (tc_timeframe C) (int (tc_period C)) pair of
        None \<Rightarrow> 0
      | Some cs \<Rightarrow>
          if length cs \<le> tc_period C then 0
          else (let now_close = pc_close (last cs); before = pc_close (cs ! (length cs - 1 - tc_period C))
                in if before > 0 then (now_close - before) / before * 100 else 0))"

definition percent_change_filter ::
    "pl_env \<Rightarrow> blacklist \<Rightarrow> tickers \<Rightarrow> top_config \<Rightarrow> string list \<Rightarrow> py_error + string list" where
  "percent_change_filter E bl tk C pairlist =
     (let vs = (if tc_use_range C then map (\<lambda>p. (p, range_change E C p)) pairlist
                else map (\<lambda>p. (p, the (tk_percentage (the (map_of tk p)))))
                       (filter (\<lambda>p. (case map_of tk p of None \<Rightarrow> False | Some t \<Rightarrow> tk_percentage t \<noteq> None)
                                    \<and> p \<noteq> ''UNI/USDT'') pairlist))
      in best_pairs E bl C (bounded C vs))"

definition PairPrefixes :: "string list" where
  "PairPrefixes = [''1000'', ''1000000'', ''1M'', ''K'']"

definition found_in_bases :: "string list \<Rightarrow> string \<Rightarrow> bool" where
  "found_in_bases bases base \<longleftrightarrow>
     base \<in> set bases
   \<or> (\<exists>prefix \<in> set PairPrefixes. prefix @ base \<in> set bases
        \<or> prefix \<noteq> ''K'' \<and> take (length prefix) base = prefix \<and> drop (length prefix) base \<in> set bases)"

definition cross_market_filter :: "pl_env \<Rightarrow> bool \<Rightarrow> string list \<Rightarrow> py_error + string list" where
  "cross_market_filter E both pairlist =
     (let X = pe_exchange E; spot = (ex_trading_mode X = FUTURES) in
      bindE (get_markets X [] [ex_stake_currency X] spot False (\<not> spot) False True) (\<lambda>ms.
        let bases = map (\<lambda>(_, m). case xm_base m of Some b \<Rightarrow> b | None \<Rightarrow> []) ms;
            found = (\<lambda>p. get_pair_base_currency X p \<noteq> [] \<and> found_in_bases bases (get_pair_base_currency X p))
        in Inr (if both then filter found pairlist
                else filter (\<lambda>p. get_pair_base_currency X p \<noteq> [] \<and> \<not> found p) pairlist)))"

definition producer_filter :: "pl_env \<Rightarrow> nat \<Rightarrow> string list \<Rightarrow> string list" where
  "producer_filter E num_assets pairlist =
     (let pairs = rev (remdups (rev (pairlist @ pe_producer_pairs E)))
      in if num_assets \<noteq> 0 then take num_assets pairs else pairs)"

section \<open>Filters with a memory\<close>

text \<open>The period of AgeFilter's cache of failures and of ShuffleFilter's lists ends at straight times.\<close>

definition period_of :: "int \<Rightarrow> int \<Rightarrow> int" where
  "period_of now ttl_seconds = now div pl_seconds ttl_seconds"

definition age_failed :: "pl_env \<Rightarrow> handler_state \<Rightarrow> string \<Rightarrow> bool" where
  "age_failed E hs p \<longleftrightarrow> hs_failed hs p = Some (period_of (pe_now E) 86400)"

definition age_step ::
    "pl_env \<Rightarrow> nat \<Rightarrow> nat option \<Rightarrow> (string \<Rightarrow> pl_candle list option) \<Rightarrow> string \<Rightarrow> handler_state \<times> string list
       \<Rightarrow> handler_state \<times> string list" where
  "age_step E min_days max_days daily p acc =
     (case acc of (hs, xs) \<Rightarrow>
        if p \<in> set (hs_checked hs) then (hs, xs)
        else (case daily p of
                None \<Rightarrow> (hs, remove1 p xs)
              | Some cs \<Rightarrow>
                  if min_days \<le> length cs
                     \<and> (case max_days of None \<Rightarrow> True | Some m \<Rightarrow> m = 0 \<or> length cs \<le> m)
                  then (hs\<lparr>hs_checked := hs_checked hs @ [p]\<rparr>, xs)
                  else (hs\<lparr>hs_failed := (hs_failed hs)(p \<mapsto> period_of (pe_now E) 86400)\<rparr>, remove1 p xs)))"

definition age_days :: "nat \<Rightarrow> nat option \<Rightarrow> int" where
  "age_days min_days max_days =
     int (case max_days of None \<Rightarrow> min_days | Some m \<Rightarrow> if m = 0 then min_days else m) + 1"

text \<open>The result is the changed list or, when every pair is known, a new one.\<close>

definition age_filter ::
    "pl_env \<Rightarrow> nat \<Rightarrow> nat option \<Rightarrow> handler_state \<Rightarrow> nat \<Rightarrow> list_store \<Rightarrow> nat \<times> handler_state \<times> list_store" where
  "age_filter E min_days max_days hs r h =
     (let xs = ls_at h r;
          needed = filter (\<lambda>p. p \<notin> set (hs_checked hs) \<and> \<not> age_failed E hs p) xs
      in if needed = [] then (case alloc (filter (\<lambda>p. \<not> age_failed E hs p) xs) h of (r', h') \<Rightarrow> (r', hs, h'))
         else
           (let daily = (\<lambda>p. if p \<in> set needed then pe_candles E ''1d'' (age_days min_days max_days) p else None)
            in case fold (age_step E min_days max_days daily) xs (hs, xs) of
                 (hs', ys) \<Rightarrow> (r, hs', put_list r ys h)))"

definition cached_value :: "pl_env \<Rightarrow> handler_state \<Rightarrow> string \<Rightarrow> efloat option" where
  "cached_value E hs p =
     (case hs_values hs p of Some (until, v) \<Rightarrow> if pe_now E < until then Some v else None | None \<Rightarrow> None)"

definition rate_of_change :: "pl_candle list \<Rightarrow> efloat" where
  "rate_of_change cs =
     (let high = max_list (map pc_high cs); low = min_list_py (map pc_low cs)
      in Fin (if low > 0 then (high - low) / low else 0))"

definition max_size :: flt where
  "max_size = 2 ^ 63 - 1"

fun value_ok :: "handler \<Rightarrow> efloat \<Rightarrow> bool" where
  "value_ok (VolatilityFilter C) v \<longleftrightarrow>
     ele (Fin (rg_min C)) v \<and> ele v (Fin (case rg_max C of None \<Rightarrow> max_size | Some m \<Rightarrow> m))"
| "value_ok (RangeStabilityFilter C) v \<longleftrightarrow>
     \<not> (ele v (Fin (rg_min C)) \<and> v \<noteq> Fin (rg_min C))
   \<and> (case rg_max C of None \<Rightarrow> True | Some m \<Rightarrow> m = 0 \<or> ele v (Fin m))"
| "value_ok _ v \<longleftrightarrow> True"

definition value_step ::
    "pl_env \<Rightarrow> handler \<Rightarrow> range_config \<Rightarrow> (pl_candle list \<Rightarrow> efloat) \<Rightarrow> int \<Rightarrow> string
       \<Rightarrow> handler_state \<times> (string \<times> efloat) list \<Rightarrow> handler_state \<times> (string \<times> efloat) list" where
  "value_step E H C calc days p acc =
     (case acc of (hs, out) \<Rightarrow>
        let (hs', v) =
          (case cached_value E hs p of
             Some v \<Rightarrow> (hs, Some v)
           | None \<Rightarrow>
               (case pe_candles E ''1d'' days p of
                  Some (c # cs) \<Rightarrow>
                    (hs\<lparr>hs_values := (hs_values hs)(p \<mapsto> (pe_now E + pl_seconds (rg_refresh C), calc (c # cs)))\<rparr>,
                     Some (calc (c # cs)))
                | _ \<Rightarrow> (hs, None)))
        in (hs', case v of None \<Rightarrow> out | Some v \<Rightarrow> if value_ok H v then out @ [(p, v)] else out))"

definition value_key :: "efloat \<Rightarrow> flt" where
  "value_key v = (case v of Fin a \<Rightarrow> a | _ \<Rightarrow> 0)"

definition value_filter ::
    "pl_env \<Rightarrow> handler \<Rightarrow> range_config \<Rightarrow> (pl_candle list \<Rightarrow> efloat) \<Rightarrow> int \<Rightarrow> handler_state \<Rightarrow> string list
       \<Rightarrow> handler_state \<times> string list" where
  "value_filter E H C calc days hs xs =
     (case fold (value_step E H C calc days) xs (hs, []) of
        (hs', out) \<Rightarrow>
          (hs', case rg_sort C of
                  None \<Rightarrow> map fst out
                | Some dir \<Rightarrow> sorted_by dir (map (\<lambda>(p, v). (p, value_key v)) out)))"

text \<open>
  ShuffleFilter shuffles in place and, live, keeps the shuffled list itself for the rest of the candle.
\<close>

definition shuffle_filter ::
    "pl_env \<Rightarrow> pl_mode \<Rightarrow> bool \<Rightarrow> int \<Rightarrow> handler_state \<Rightarrow> nat \<Rightarrow> list_store \<Rightarrow> nat \<times> handler_state \<times> list_store" where
  "shuffle_filter E md per_candle candle hs r h =
     (let before = ls_at h r;
          kept = (case hs_shuffled hs before of
                    Some (period, r') \<Rightarrow>
                      if period = period_of (pe_now E) candle \<and> ls_at h r' \<noteq> [] \<and> per_candle then Some r' else None
                  | None \<Rightarrow> None)
      in case kept of
           Some r' \<Rightarrow> (r', hs, h)
         | None \<Rightarrow>
             (r, hs\<lparr>hs_shuffles := hs_shuffles hs + 1,
                    hs_shuffled := (if md_live md
                      then (hs_shuffled hs)(before \<mapsto> (period_of (pe_now E) candle, r)) else hs_shuffled hs)\<rparr>,
              put_list r (pe_shuffle E (hs_shuffles hs) before) h))"

section \<open>One handler\<close>

definition fresh_list :: "handler_state \<Rightarrow> list_store \<Rightarrow> string list \<Rightarrow> nat \<times> handler_state \<times> list_store" where
  "fresh_list hs h xs = (case alloc xs h of (r, h') \<Rightarrow> (r, hs, h'))"

fun full_trades :: "pl_env \<Rightarrow> nat option \<Rightarrow> bool" where
  "full_trades E None = False"
| "full_trades E (Some m) = (m \<le> pe_open_trades E \<and> 0 < m)"

definition static_append :: "string list \<Rightarrow> string list \<Rightarrow> string list" where
  "static_append whitelist xs = fold (\<lambda>p ys. if p \<in> set ys then ys else ys @ [p]) whitelist xs"

definition offset_slice :: "nat \<Rightarrow> nat \<Rightarrow> string list \<Rightarrow> string list" where
  "offset_slice offset number_pairs xs =
     (let pairs = drop offset xs in if number_pairs \<noteq> 0 then take number_pairs pairs else pairs)"

definition filter_pairlist ::
    "pl_env \<Rightarrow> pl_mode \<Rightarrow> blacklist \<Rightarrow> tickers \<Rightarrow> handler \<Rightarrow> handler_state \<Rightarrow> nat \<Rightarrow> list_store
       \<Rightarrow> py_error + nat \<times> handler_state \<times> list_store" where
  "filter_pairlist E md bl tk H hs r h =
     (let xs = ls_at h r; new = (\<lambda>ys. Inr (fresh_list hs h ys)) in
      case H of
        StaticPairList whitelist _ \<Rightarrow> new (static_append whitelist xs)
      | VolumePairList C \<Rightarrow> bindE (volume_filter E bl tk C xs) new
      | PercentChangePairList C \<Rightarrow> bindE (percent_change_filter E bl tk C xs) new
      | ProducerPairList n \<Rightarrow> new (producer_filter E n xs)
      | CrossMarketPairList both _ \<Rightarrow> bindE (cross_market_filter E both xs) new
      | AgeFilter min_days max_days \<Rightarrow> Inr (age_filter E min_days max_days hs r h)
      | FullTradesFilter m \<Rightarrow> if full_trades E m then new [] else Inr (r, hs, h)
      | OffsetFilter offset n \<Rightarrow> new (offset_slice offset n xs)
      | PairInformationFilter white key compare \<Rightarrow> bindE (pair_information_filter E white key compare xs) new
      | PerformanceFilter minutes min_profit \<Rightarrow> 
          (case performance_filter E minutes min_profit xs of None \<Rightarrow> Inr (r, hs, h) | Some ys \<Rightarrow> new ys)
      | RangeStabilityFilter C \<Rightarrow>
          (case value_filter E H C rate_of_change (int (rg_days C) + 1) hs xs of
             (hs', ys) \<Rightarrow> Inr (fresh_list hs' h ys))
      | VolatilityFilter C \<Rightarrow>
          (case value_filter E H C (pe_volatility E (rg_days C)) (int (rg_days C)) hs xs of
             (hs', ys) \<Rightarrow> Inr (fresh_list hs' h ys))
      | ShuffleFilter per_candle candle \<Rightarrow> Inr (shuffle_filter E md per_candle candle hs r h)
      | _ \<Rightarrow> bindE (remove_invalid (pair_check E tk H) xs) (\<lambda>ys. Inr (r, hs, put_list r ys h)))"

definition cached_pairs ::
    "pl_env \<Rightarrow> int \<Rightarrow> handler_state \<Rightarrow> list_store \<Rightarrow> (unit \<Rightarrow> py_error + string list)
       \<Rightarrow> py_error + nat \<times> handler_state \<times> list_store" where
  "cached_pairs E refresh hs h compute_pairs =
     (case hs_pairs hs of
        Some (until, p # ps) \<Rightarrow>
          if pe_now E < until then Inr (fresh_list hs h (p # ps))
          else bindE (compute_pairs ()) (\<lambda>ys. Inr (fresh_list (hs\<lparr>hs_pairs := Some (pe_now E + pl_seconds refresh, ys)\<rparr>) h ys))
      | _ \<Rightarrow> bindE (compute_pairs ()) (\<lambda>ys. Inr (fresh_list (hs\<lparr>hs_pairs := Some (pe_now E + pl_seconds refresh, ys)\<rparr>) h ys)))"

definition ticker_pairs :: "pl_env \<Rightarrow> tickers \<Rightarrow> (full_ticker \<Rightarrow> bool) \<Rightarrow> string list \<Rightarrow> string list" where
  "ticker_pairs E tk ok pairs =
     map fst (filter (\<lambda>(k, t). get_pair_quote_currency (pe_exchange E) k = ex_stake_currency (pe_exchange E)
                               \<and> ok t \<and> k \<in> set pairs) tk)"

definition static_pairs :: "pl_env \<Rightarrow> string list \<Rightarrow> bool \<Rightarrow> py_error + string list" where
  "static_pairs E whitelist allow_inactive =
     bindE (verify_whitelist E whitelist True) (\<lambda>wl.
       if allow_inactive then Inr wl else whitelist_for_active_markets (pe_exchange E) wl)"

text \<open>In the backtest a copy is kept, and later the kept list itself is returned.\<close>

definition static_fresh ::
    "pl_env \<Rightarrow> pl_mode \<Rightarrow> string list \<Rightarrow> bool \<Rightarrow> handler_state \<Rightarrow> list_store
       \<Rightarrow> py_error + nat \<times> handler_state \<times> list_store" where
  "static_fresh E md whitelist allow_inactive hs h =
     bindE (static_pairs E whitelist allow_inactive) (\<lambda>ys.
       if md_optimize md
       then (case alloc ys h of (kept, h1) \<Rightarrow> Inr (fresh_list (hs\<lparr>hs_static := Some kept\<rparr>) h1 ys))
       else Inr (fresh_list hs h ys))"

definition volume_gen :: "pl_env \<Rightarrow> blacklist \<Rightarrow> tickers \<Rightarrow> top_config \<Rightarrow> py_error + string list" where
  "volume_gen E bl tk C =
     bindE (stake_markets E) (\<lambda>ms.
       let known = verify_blacklist bl ms
       in volume_filter E bl tk C
            (if tc_use_range C then known else ticker_pairs E tk (\<lambda>t. tk_quote_volume t \<noteq> None) known))"

definition percent_change_gen :: "pl_env \<Rightarrow> blacklist \<Rightarrow> tickers \<Rightarrow> top_config \<Rightarrow> py_error + string list" where
  "percent_change_gen E bl tk C =
     bindE (stake_markets E) (\<lambda>ms.
       let known = verify_blacklist bl ms
       in percent_change_filter E bl tk C
            (if tc_use_range C then known else ticker_pairs E tk (\<lambda>_. True) known))"

definition cross_market_gen :: "pl_env \<Rightarrow> blacklist \<Rightarrow> bool \<Rightarrow> py_error + string list" where
  "cross_market_gen E bl both =
     bindE (stake_markets E) (\<lambda>ms. cross_market_filter E both (verify_blacklist bl ms))"

definition producer_gen :: "pl_env \<Rightarrow> nat \<Rightarrow> py_error + string list" where
  "producer_gen E n =
     bindE (verify_whitelist E (producer_filter E n []) False) (whitelist_for_active_markets (pe_exchange E))"

definition static_gen ::
    "pl_env \<Rightarrow> pl_mode \<Rightarrow> string list \<Rightarrow> bool \<Rightarrow> handler_state \<Rightarrow> list_store
       \<Rightarrow> py_error + nat \<times> handler_state \<times> list_store" where
  "static_gen E md whitelist allow_inactive hs h =
     (case hs_static hs of
        Some r \<Rightarrow> if ls_at h r \<noteq> [] then Inr (r, hs, h) else static_fresh E md whitelist allow_inactive hs h
      | None \<Rightarrow> static_fresh E md whitelist allow_inactive hs h)"

definition gen_pairlist ::
    "pl_env \<Rightarrow> pl_mode \<Rightarrow> blacklist \<Rightarrow> tickers \<Rightarrow> handler \<Rightarrow> handler_state \<Rightarrow> list_store
       \<Rightarrow> py_error + nat \<times> handler_state \<times> list_store" where
  "gen_pairlist E md bl tk H hs h =
     (case H of
        StaticPairList whitelist allow_inactive \<Rightarrow> static_gen E md whitelist allow_inactive hs h
      | VolumePairList C \<Rightarrow> cached_pairs E (tc_refresh C) hs h (\<lambda>_. volume_gen E bl tk C)
      | PercentChangePairList C \<Rightarrow> cached_pairs E (tc_refresh C) hs h (\<lambda>_. percent_change_gen E bl tk C)
      | CrossMarketPairList both refresh \<Rightarrow> cached_pairs E refresh hs h (\<lambda>_. cross_market_gen E bl both)
      | ProducerPairList n \<Rightarrow> bindE (producer_gen E n) (\<lambda>ys. Inr (fresh_list hs h ys))
      | _ \<Rightarrow> Inl OperationalException)"

section \<open>The manager\<close>

record pl_manager =
  pm_blacklist :: "string list"
  pm_handlers :: "(handler \<times> handler_state) list"
  pm_eblacklist :: "string list option" \<comment> \<open>the cache of the expanded blacklist\<close>
  pm_whitelist :: "nat option"
  pm_store :: list_store
  pm_mode :: pl_mode

fun needs_tickers :: "handler \<Rightarrow> bool" where
  "needs_tickers (VolumePairList C) = (\<not> tc_use_range C)"
| "needs_tickers (PercentChangePairList C) = (\<not> tc_use_range C)"
| "needs_tickers (PriceFilter _) = True"
| "needs_tickers (SpreadFilter _) = True"
| "needs_tickers (PrecisionFilter _) = True"
| "needs_tickers _ = False"

datatype backtesting_support = BT_YES | BT_NO | BT_NO_ACTION | BT_BIASED

fun supports_backtesting :: "handler \<Rightarrow> backtesting_support" where
  "supports_backtesting (StaticPairList _ _) = BT_YES"
| "supports_backtesting (IslamicComplianceFilter _) = BT_YES"
| "supports_backtesting (OffsetFilter _ _) = BT_YES"
| "supports_backtesting (ShuffleFilter _ _) = BT_YES"
| "supports_backtesting (CrossMarketPairList _ _) = BT_BIASED"
| "supports_backtesting (PairInformationFilter _ _ _) = BT_BIASED"
| "supports_backtesting (PrecisionFilter _) = BT_BIASED"
| "supports_backtesting (PriceFilter _) = BT_BIASED"
| "supports_backtesting (FullTradesFilter _) = BT_NO_ACTION"
| "supports_backtesting (PerformanceFilter _ _) = BT_NO_ACTION"
| "supports_backtesting _ = BT_NO"

definition manager_init ::
    "string list \<Rightarrow> handler list \<Rightarrow> bool \<Rightarrow> pl_mode \<Rightarrow> py_error + pl_manager" where
  "manager_init black handlers has_fetch_tickers md =
     (if handlers = [] then Inl OperationalException
      else if (\<exists>H \<in> set handlers. needs_tickers H) \<and> \<not> has_fetch_tickers then Inl OperationalException
      else if md_optimize md \<and> (\<exists>H \<in> set handlers. supports_backtesting H = BT_NO) then Inl OperationalException
      else Inr \<lparr>pm_blacklist = black, pm_handlers = map (\<lambda>H. (H, new_handler_state)) handlers,
                pm_eblacklist = None, pm_whitelist = None,
                pm_store = \<lparr>ls_at = (\<lambda>_. []), ls_next = 0\<rparr>, pm_mode = md\<rparr>)"

definition expanded_blacklist :: "pl_env \<Rightarrow> pl_manager \<Rightarrow> py_error + blacklist" where
  "expanded_blacklist E M =
     (if pm_blacklist M = [] then Inr No_blacklist
      else case pm_eblacklist M of
        Some (p # ps) \<Rightarrow> Inr (Pairs_blacklist (p # ps))
      | _ \<Rightarrow>
          bindE (get_markets (pe_exchange E) [] [] False False False True False) (\<lambda>ms.
            Inr (case expand_pairlist (pe_regex E) (pm_blacklist M) (map fst ms) False of
                   Inl _ \<Rightarrow> Invalid_blacklist | Inr b \<Rightarrow> Pairs_blacklist b)))"

fun run_filters ::
    "pl_env \<Rightarrow> pl_mode \<Rightarrow> blacklist \<Rightarrow> tickers \<Rightarrow> (handler \<times> handler_state) list \<Rightarrow> nat \<Rightarrow> list_store
       \<Rightarrow> py_error + (handler \<times> handler_state) list \<times> nat \<times> list_store" where
  "run_filters E md bl tk [] r h = Inr ([], r, h)"
| "run_filters E md bl tk ((H, hs) # rest) r h =
     bindE (filter_pairlist E md bl tk H hs r h) (\<lambda>(r1, hs1, h1).
     bindE (run_filters E md bl tk rest r1 h1) (\<lambda>(rest', r2, h2). Inr ((H, hs1) # rest', r2, h2)))"

definition checked_list :: "blacklist \<Rightarrow> nat \<Rightarrow> list_store \<Rightarrow> nat \<times> list_store" where
  "checked_list bl r h =
     (case bl of
        Invalid_blacklist \<Rightarrow> alloc [] h
      | _ \<Rightarrow> (r, put_list r (verify_blacklist bl (ls_at h r)) h))"

definition intersect_list :: "string list option \<Rightarrow> nat \<Rightarrow> list_store \<Rightarrow> nat \<times> list_store" where
  "intersect_list pairs r h =
     (case pairs of None \<Rightarrow> (r, h) | Some ps \<Rightarrow> alloc (filter (\<lambda>p. p \<in> set ps) (ls_at h r)) h)"

definition store_result :: "blacklist \<Rightarrow> (handler \<times> handler_state) list \<Rightarrow> nat \<times> list_store \<Rightarrow> pl_manager \<Rightarrow> pl_manager" where
  "store_result bl handlers rh M =
     M\<lparr>pm_handlers := handlers, pm_whitelist := Some (fst rh), pm_store := snd rh,
       pm_eblacklist := (case bl of
         Pairs_blacklist b \<Rightarrow> if md_optimize (pm_mode M) then Some b else pm_eblacklist M
       | _ \<Rightarrow> pm_eblacklist M)\<rparr>"

definition refresh_pairlist ::
    "pl_env \<Rightarrow> bool \<Rightarrow> string list option \<Rightarrow> pl_manager \<Rightarrow> py_error + pl_manager" where
  "refresh_pairlist E only_first pairs M =
     (let tk = (if \<exists>(H, _) \<in> set (pm_handlers M). needs_tickers H then pe_tickers E else []) in
      case pm_handlers M of
        [] \<Rightarrow> Inl IndexError
      | (H, hs) # rest \<Rightarrow>
          bindE (expanded_blacklist E M) (\<lambda>bl.
          bindE (gen_pairlist E (pm_mode M) bl tk H hs (pm_store M)) (\<lambda>(r0, hs0, h0).
            case intersect_list pairs r0 h0 of (r1, h1) \<Rightarrow>
              bindE (if only_first then Inr (rest, r1, h1) else run_filters E (pm_mode M) bl tk rest r1 h1)
                (\<lambda>(rest', r2, h2). Inr (store_result bl ((H, hs0) # rest') (checked_list bl r2 h2) M)))))"

definition whitelist_of :: "pl_manager \<Rightarrow> string list" where
  "whitelist_of M = (case pm_whitelist M of None \<Rightarrow> [] | Some r \<Rightarrow> ls_at (pm_store M) r)"

text \<open>The bot extends the list of the manager itself by the pairs of open trades.\<close>

definition refresh_shared_whitelist :: "pl_env \<Rightarrow> string list \<Rightarrow> pl_manager \<Rightarrow> py_error + pl_manager" where
  "refresh_shared_whitelist E trade_pairs M =
     bindE (refresh_pairlist E False None M) (\<lambda>M'.
       Inr (case pm_whitelist M' of
              None \<Rightarrow> M'
            | Some r \<Rightarrow> M'\<lparr>pm_store := put_list r
                (ls_at (pm_store M') r @ filter (\<lambda>p. p \<notin> set (ls_at (pm_store M') r)) trade_pairs) (pm_store M')\<rparr>))"

end
