(* ===== verification/Pairlist_Claims.thy ===== *)
theory Pairlist_Claims
  imports Pairlists
begin

text \<open>
  What the pair lists guarantee: the blacklist and the compliance filter hold for every list a refresh
  produces, and two behaviours that differ from what is meant.
\<close>

section \<open>Removing while iterating over a copy\<close>

lemma remove_loop:
  "\<forall>y \<in> set ys. \<not> Q y \<Longrightarrow>
    fold (\<lambda>p xs. if Q p then remove1 p xs else xs) xs (ys @ xs) = ys @ filter (\<lambda>p. \<not> Q p) xs"
proof (induction xs arbitrary: ys)
  case (Cons x xs)
  show ?case
  proof (cases "Q x")
    case True
    with Cons.prems have "remove1 x (ys @ x # xs) = ys @ xs" by (auto simp: remove1_append)
    with Cons.IH [OF Cons.prems] True show ?thesis by simp
  next
    case False
    with Cons.IH [of "ys @ [x]"] Cons.prems show ?thesis by simp
  qed
qed simp

lemma verify_blacklist_filter: "verify_blacklist (Pairs_blacklist b) xs = filter (\<lambda>p. p \<notin> set b) xs"
  using remove_loop [of "[]" "\<lambda>p. p \<in> set b" xs] by (simp add: verify_blacklist_def)

lemma verify_blacklist_subset: "set (verify_blacklist bl xs) \<subseteq> set xs"
  by (cases bl) (auto simp: verify_blacklist_filter, auto simp: verify_blacklist_def)

lemma remove_invalid_loop:
  "runE (remove_step f) xs (ys @ xs) = Inr zs \<Longrightarrow> \<forall>y \<in> set ys. f y = Inr True
    \<Longrightarrow> zs = ys @ filter (\<lambda>x. f x = Inr True) xs"
proof (induction xs arbitrary: ys)
  case (Cons x xs)
  from Cons.prems(1) obtain ok where ok: "f x = Inr ok"
    and rest: "runE (remove_step f) xs (if ok then ys @ x # xs else remove1 x (ys @ x # xs)) = Inr zs"
    by (auto simp: remove_step_def [of f x] bindE_eq_Inr)
  show ?case
  proof (cases ok)
    case True
    with Cons.IH [of "ys @ [x]"] Cons.prems(2) ok rest show ?thesis by simp
  next
    case False
    with Cons.prems(2) ok have "remove1 x (ys @ x # xs) = ys @ xs" by (auto simp: remove1_append)
    with Cons.IH [of ys] Cons.prems(2) ok rest False show ?thesis by simp
  qed
qed simp

text \<open>The loop that removes from the list it checks leaves exactly the valid pairs, in order.\<close>

lemma remove_invalid_filter:
  "remove_invalid f xs = Inr ys \<Longrightarrow> ys = filter (\<lambda>x. f x = Inr True) xs"
  using remove_invalid_loop [of f xs "[]"] by (simp add: remove_invalid_def)

section \<open>Handlers that only remove\<close>

fun only_removes :: "handler \<Rightarrow> bool" where
  "only_removes (StaticPairList _ _) = False"
| "only_removes (ProducerPairList _) = False"
| "only_removes (ShuffleFilter _ _) = False"
| "only_removes _ = True"

lemma sorted_by_set: "set (sorted_by dir xs) = fst ` set xs"
  by (cases dir) (auto simp: sorted_by_def)

lemma bounded_subset: "set (bounded C xs) \<subseteq> set xs"
  by (auto simp: bounded_def)

lemma tradable_fold_subset: "set (fold (tradable_step X) xs acc) \<subseteq> set acc \<union> set xs"
proof (induction xs arbitrary: acc)
  case (Cons x xs)
  have "set (tradable_step X x acc) \<subseteq> insert x (set acc)" by (auto simp: tradable_step_def split: option.split)
  with Cons.IH [of "tradable_step X x acc"] show ?case by auto
qed simp

lemma best_pairs_subset: "best_pairs E bl C xs = Inr ys \<Longrightarrow> set ys \<subseteq> fst ` set xs"
  using tradable_fold_subset [of "pe_exchange E" "sorted_by (tc_order C) xs" "[]"] verify_blacklist_subset
  by (fastforce simp: best_pairs_def bindE_eq_Inr whitelist_for_active_markets_def sorted_by_set
      split: if_splits dest: in_set_takeD)

lemma mapE_fst: "mapE (\<lambda>p. bindE (f p) (\<lambda>v. Inr (p, v))) xs = Inr ys \<Longrightarrow> map fst ys = xs"
  by (induction xs arbitrary: ys) (auto simp: bindE_eq_Inr)

lemma ticker_volumes_fst: "ticker_volumes C tk xs = Inr vs \<Longrightarrow> fst ` set vs \<subseteq> set xs"
  by (auto simp: ticker_volumes_def Let_def split: if_splits)

lemma volume_filter_subset:
  assumes "volume_filter E bl tk C xs = Inr ys" shows "set ys \<subseteq> set xs"
proof -
  from assms obtain vs C' where vs: "(tc_use_range C \<and> mapE (\<lambda>p. bindE (range_volume E C p) (\<lambda>v. Inr (p, v))) xs = Inr vs
      \<or> ticker_volumes C' tk xs = Inr vs)" and best: "best_pairs E bl C' (bounded C' vs) = Inr ys"
    by (auto simp: volume_filter_def Let_def bindE_eq_Inr split: if_splits)
  from vs have "fst ` set vs \<subseteq> set xs"
  proof
    assume "tc_use_range C \<and> mapE (\<lambda>p. bindE (range_volume E C p) (\<lambda>v. Inr (p, v))) xs = Inr vs"
    then have "map fst vs = xs" by (blast dest: mapE_fst)
    then show ?thesis by (metis list.set_map order_refl)
  qed (rule ticker_volumes_fst)
  with best_pairs_subset [OF best] bounded_subset [of C' vs] show ?thesis by auto
qed

lemma percent_change_subset: "percent_change_filter E bl tk C xs = Inr ys \<Longrightarrow> set ys \<subseteq> set xs"
  unfolding percent_change_filter_def Let_def
  by (drule best_pairs_subset) (use bounded_subset in \<open>fastforce split: if_splits\<close>)

lemma age_fold_subset: "set (snd (fold (age_step E a b d) ps (hs, xs))) \<subseteq> set xs"
proof (induction ps arbitrary: hs xs)
  case (Cons p ps)
  obtain hs' xs' where s: "age_step E a b d p (hs, xs) = (hs', xs')" by fastforce
  then have "set xs' \<subseteq> set xs" by (auto simp: age_step_def split: if_splits option.splits dest: set_mp [OF set_remove1_subset])
  with Cons.IH [of hs' xs'] s show ?case by simp
qed simp

lemma age_filter_subset:
  assumes "age_filter E a b hs r h = (r', hs', h')"
  shows "set (ls_at h' r') \<subseteq> set (ls_at h r)"
proof -
  have "set ys \<subseteq> set xs" if "fold (age_step E a b d) xs (hs, xs) = (hs2, ys)" for d xs hs2 ys
    using age_fold_subset [of E a b d xs hs xs] that by simp
  with assms show ?thesis
    by (auto simp: age_filter_def Let_def alloc_def put_list_def split: if_splits prod.splits) blast+
qed

lemma value_fold_subset:
  "fst ` set (snd (fold (value_step E H C calc days) ps (hs, out))) \<subseteq> fst ` set out \<union> set ps"
proof (induction ps arbitrary: hs out)
  case (Cons p ps)
  obtain hs' out' where s: "value_step E H C calc days p (hs, out) = (hs', out')" by fastforce
  then have "fst ` set out' \<subseteq> insert p (fst ` set out)"
    by (auto simp: value_step_def Let_def split: prod.splits option.splits if_splits)
  with Cons.IH [of hs' out'] s show ?case by auto
qed simp

lemma value_filter_subset: "value_filter E H C calc days hs xs = (hs', ys) \<Longrightarrow> set ys \<subseteq> set xs"
  using value_fold_subset [of E H C calc days xs hs "[]"]
  by (fastforce simp: value_filter_def sorted_by_set split: prod.splits option.splits)

lemma fresh_list_at: "fresh_list hs h xs = (r', hs', h') \<Longrightarrow> ls_at h' r' = xs"
  by (auto simp: fresh_list_def alloc_def)

lemma performance_subset: "performance_filter E m p xs = Some ys \<Longrightarrow> set ys \<subseteq> set xs"
  by (auto simp: performance_filter_def Let_def split: option.splits if_splits)

lemma cross_market_subset: "cross_market_filter E both xs = Inr ys \<Longrightarrow> set ys \<subseteq> set xs"
  by (auto simp: cross_market_filter_def Let_def bindE_eq_Inr split: if_splits)

lemma pair_information_subset: "pair_information_filter E white key v xs = Inr ys \<Longrightarrow> set ys \<subseteq> set xs"
  by (auto simp: pair_information_filter_def split: if_splits)

lemma slice_subset: "x \<in> set (take n (drop m xs)) \<Longrightarrow> x \<in> set xs"
  by (blast dest: in_set_takeD in_set_dropD)

lemma only_removes_subset:
  assumes "only_removes H" and "filter_pairlist E md bl tk H hs r h = Inr (r', hs', h')"
  shows "set (ls_at h' r') \<subseteq> set (ls_at h r)"
  using assms
proof (cases H)
  case (AgeFilter a b)
  with assms show ?thesis by (auto simp: filter_pairlist_def Let_def dest: age_filter_subset)
next
  case (VolatilityFilter C)
  with assms show ?thesis
    by (auto simp: filter_pairlist_def Let_def split: prod.splits dest!: fresh_list_at value_filter_subset)
next
  case (RangeStabilityFilter C)
  with assms show ?thesis
    by (auto simp: filter_pairlist_def Let_def split: prod.splits dest!: fresh_list_at value_filter_subset)
next
  case (PerformanceFilter a b)
  with assms show ?thesis
    by (auto simp: filter_pairlist_def Let_def split: option.splits dest!: fresh_list_at performance_subset)
next
  case (CrossMarketPairList a b)
  with assms show ?thesis
    by (auto simp: filter_pairlist_def Let_def bindE_eq_Inr dest!: fresh_list_at cross_market_subset)
next
  case (OffsetFilter a b)
  with assms show ?thesis
    by (auto simp: filter_pairlist_def Let_def offset_slice_def split: if_splits dest!: fresh_list_at dest: slice_subset in_set_dropD)
next
  case (PairInformationFilter a b c)
  with assms show ?thesis
    by (auto simp: filter_pairlist_def Let_def bindE_eq_Inr dest!: fresh_list_at pair_information_subset)
next
  case (VolumePairList C)
  with assms show ?thesis
    by (auto simp: filter_pairlist_def Let_def bindE_eq_Inr dest!: fresh_list_at volume_filter_subset)
next
  case (PercentChangePairList C)
  with assms show ?thesis
    by (auto simp: filter_pairlist_def Let_def bindE_eq_Inr dest!: fresh_list_at percent_change_subset)
next
  case (FullTradesFilter m)
  with assms show ?thesis
    by (auto simp: filter_pairlist_def Let_def split: if_splits dest!: fresh_list_at)
qed (auto simp: filter_pairlist_def Let_def bindE_eq_Inr put_list_def dest!: remove_invalid_filter)

section \<open>What a refresh leaves\<close>

lemma run_filters_subset:
  "list_all (only_removes \<circ> fst) hs \<Longrightarrow> run_filters E md bl tk hs r h = Inr (hs', r', h')
    \<Longrightarrow> set (ls_at h' r') \<subseteq> set (ls_at h r)"
proof (induction hs arbitrary: r h hs')
  case (Cons H hs)
  obtain K st where H: "H = (K, st)" by fastforce
  with Cons.prems obtain r1 st1 h1 hs1 where f: "filter_pairlist E md bl tk K st r h = Inr (r1, st1, h1)"
    and rest: "run_filters E md bl tk hs r1 h1 = Inr (hs1, r', h')"
    by (auto simp: bindE_eq_Inr)
  from Cons.prems(1) H have "only_removes K" and "list_all (only_removes \<circ> fst) hs" by (simp_all add: comp_def)
  with only_removes_subset [OF _ f] Cons.IH [OF _ rest] show ?case by blast
qed simp

lemma run_filters_append:
  "run_filters E md bl tk (xs @ ys) r h =
     bindE (run_filters E md bl tk xs r h) (\<lambda>(xs', r1, h1).
     bindE (run_filters E md bl tk ys r1 h1) (\<lambda>(ys', r2, h2). Inr (xs' @ ys', r2, h2)))"
  by (induction xs arbitrary: r h) (auto simp: bindE_def split: sum.split prod.split)

lemma screened_after_filter:
  assumes "filter_pairlist E md bl tk (IslamicComplianceFilter F) hs r h = Inr (r', hs', h')"
  shows "\<forall>p \<in> set (ls_at h' r'). validate_pair F p"
  using assms by (auto simp: filter_pairlist_def Let_def bindE_eq_Inr put_list_def dest!: remove_invalid_filter)

lemma screened_after_filters:
  assumes "run_filters E md bl tk (pre @ (IslamicComplianceFilter F, st) # post) r h = Inr (hs', r', h')"
    and "list_all (only_removes \<circ> fst) post"
  shows "\<forall>p \<in> set (ls_at h' r'). validate_pair F p"
  using assms(1)
  by (auto simp: run_filters_append bindE_eq_Inr dest!: screened_after_filter run_filters_subset [OF assms(2)])

lemma checked_list_at: "ls_at (snd (checked_list bl r h)) (fst (checked_list bl r h)) = verify_blacklist bl (ls_at h r)"
  by (cases bl) (simp_all add: checked_list_def verify_blacklist_def alloc_def put_list_def)

lemma whitelist_stored: "whitelist_of (store_result bl hs (checked_list bl r h) M) = verify_blacklist bl (ls_at h r)"
  by (simp add: whitelist_of_def store_result_def checked_list_at)

lemma refresh_result:
  assumes "refresh_pairlist E only_first pairs M = Inr M'"
  shows "\<exists>bl H hs rest tk r1 h1 hs0 rest' r2 h2. pm_handlers M = (H, hs) # rest \<and> expanded_blacklist E M = Inr bl
    \<and> (if only_first then Inr (rest, r1, h1) else run_filters E (pm_mode M) bl tk rest r1 h1) = Inr (rest', r2, h2)
    \<and> M' = store_result bl ((H, hs0) # rest') (checked_list bl r2 h2) M"
proof (cases "pm_handlers M")
  case (Cons Hs rest)
  obtain H hs where Hs: "Hs = (H, hs)" by fastforce
  define tk where "tk = (if \<exists>(H, _) \<in> set (pm_handlers M). needs_tickers H then pe_tickers E else [])"
  define finish where "finish = (\<lambda>bl (r0, hs0, h0).
    case intersect_list pairs r0 h0 of (r1, h1) \<Rightarrow>
      bindE (if only_first then Inr (rest, r1, h1) else run_filters E (pm_mode M) bl tk rest r1 h1)
        (\<lambda>(rest', r2, h2). Inr (store_result bl ((H, hs0) # rest') (checked_list bl r2 h2) M)))"
  from assms have "bindE (expanded_blacklist E M) (\<lambda>bl.
      bindE (gen_pairlist E (pm_mode M) bl tk H hs (pm_store M)) (finish bl)) = Inr M'"
    unfolding refresh_pairlist_def finish_def tk_def Let_def by (simp only: Cons Hs list.case prod.case)
  then obtain bl r0 hs0 h0 where bl: "expanded_blacklist E M = Inr bl" and rest: "finish bl (r0, hs0, h0) = Inr M'"
    by (auto simp: bindE_eq_Inr)
  obtain r1 h1 where "intersect_list pairs r0 h0 = (r1, h1)" by fastforce
  with rest obtain rest' r2 h2 where
    "(if only_first then Inr (rest, r1, h1) else run_filters E (pm_mode M) bl tk rest r1 h1) = Inr (rest', r2, h2)"
    "M' = store_result bl ((H, hs0) # rest') (checked_list bl r2 h2) M"
    by (fastforce simp: finish_def bindE_eq_Inr)
  with bl Cons Hs show ?thesis by blast
qed (use assms in \<open>simp add: refresh_pairlist_def\<close>)

section \<open>The blacklist holds\<close>

definition tradable_pairs :: "exchange \<Rightarrow> string list" where
  "tradable_pairs X = map fst (filter (market_is_tradable X \<circ> snd) (ex_markets X))"

lemma default_markets: "get_markets X [] [] False False False True False = Inr ms \<Longrightarrow> map fst ms = tradable_pairs X"
  by (auto simp: get_markets_def keep_markets_def tradable_pairs_def split: if_splits)

lemma expand_wildcards_has:
  "expand_wildcards rx av False ws = Inr b \<Longrightarrow> w \<in> set ws \<Longrightarrow> rx w = Some m \<Longrightarrow> p \<in> set av \<Longrightarrow> m p \<Longrightarrow> p \<in> set b"
  by (induction ws arbitrary: b) (auto simp: bindE_eq_Inr split: option.splits)

definition eblacklist_of :: "exchange \<Rightarrow> (string \<Rightarrow> (string \<Rightarrow> bool) option) \<Rightarrow> pl_manager \<Rightarrow> bool" where
  "eblacklist_of X rx M \<longleftrightarrow> (\<forall>b. pm_eblacklist M = Some b \<longrightarrow>
     expand_pairlist rx (pm_blacklist M) (tradable_pairs X) False = Inr b)"

lemma expanded_blacklist_is:
  assumes "expanded_blacklist E M = Inr bl" and "eblacklist_of (pe_exchange E) (pe_regex E) M"
  shows "bl = (if pm_blacklist M = [] then No_blacklist
    else case expand_pairlist (pe_regex E) (pm_blacklist M) (tradable_pairs (pe_exchange E)) False of
           Inl _ \<Rightarrow> Invalid_blacklist | Inr b \<Rightarrow> Pairs_blacklist b)"
  using assms
  by (auto simp: expanded_blacklist_def eblacklist_of_def bindE_eq_Inr default_markets split: option.splits list.splits if_splits)

lemma refresh_eblacklist:
  assumes "eblacklist_of (pe_exchange E) (pe_regex E) M" and "refresh_pairlist E only_first pairs M = Inr M'"
  shows "eblacklist_of (pe_exchange E) (pe_regex E) M'" and "pm_blacklist M' = pm_blacklist M"
    and "w \<in> set (pm_blacklist M) \<Longrightarrow> pe_regex E w = Some m \<Longrightarrow> m p \<Longrightarrow> p \<in> set (tradable_pairs (pe_exchange E))
      \<Longrightarrow> p \<notin> set (whitelist_of M')"
proof -
  from refresh_result [OF assms(2)] obtain bl hs r h where bl: "expanded_blacklist E M = Inr bl"
    and M': "M' = store_result bl hs (checked_list bl r h) M" by blast
  note bl_is = expanded_blacklist_is [OF bl assms(1)]
  show "eblacklist_of (pe_exchange E) (pe_regex E) M'"
    using assms(1) by (auto simp: bl_is M' eblacklist_of_def store_result_def split: if_splits sum.splits)
  show "pm_blacklist M' = pm_blacklist M" by (simp add: M' store_result_def)
  assume w: "w \<in> set (pm_blacklist M)" "pe_regex E w = Some m" "m p" "p \<in> set (tradable_pairs (pe_exchange E))"
  then have "pm_blacklist M \<noteq> []" by auto
  show "p \<notin> set (whitelist_of M')"
  proof (cases "expand_pairlist (pe_regex E) (pm_blacklist M) (tradable_pairs (pe_exchange E)) False")
    case (Inr b)
    with w have "p \<in> set b" by (auto simp: expand_pairlist_def bindE_eq_Inr intro: expand_wildcards_has)
    with Inr \<open>pm_blacklist M \<noteq> []\<close> show ?thesis by (simp add: M' whitelist_stored bl_is verify_blacklist_filter)
  qed (use \<open>pm_blacklist M \<noteq> []\<close> in \<open>simp add: M' whitelist_stored bl_is verify_blacklist_def\<close>)
qed

abbreviation refresh_once :: "pl_env \<times> bool \<times> string list option \<Rightarrow> pl_manager \<Rightarrow> py_error + pl_manager" where
  "refresh_once r \<equiv> refresh_pairlist (fst r) (fst (snd r)) (snd (snd r))"

lemma refreshes_eblacklist:
  assumes "runE refresh_once rs M = Inr M'" and "eblacklist_of X rx M"
    and "\<forall>r \<in> set rs. pe_exchange (fst r) = X \<and> pe_regex (fst r) = rx"
  shows "eblacklist_of X rx M' \<and> pm_blacklist M' = pm_blacklist M"
  using assms
proof (induction rs arbitrary: M)
  case (Cons r rs)
  from Cons.prems(1) obtain N where N: "refresh_once r M = Inr N" "runE refresh_once rs N = Inr M'"
    by (auto simp: bindE_eq_Inr)
  from refresh_eblacklist(1,2) [OF _ N(1)] Cons.prems(2,3) have "eblacklist_of X rx N" "pm_blacklist N = pm_blacklist M" by auto
  with Cons.IH [OF N(2)] Cons.prems(3) show ?case by auto
qed simp

text \<open>Property C16: a blacklisted pair is never on the list of pairs to trade. Whatever handlers a
  configuration chains, in whatever mode, and after any number of refreshes with any tickers, candles
  and trades, the resulting whitelist contains no tradable pair of the exchange that an entry of the
  blacklist matches.\<close>

theorem whitelist_respects_blacklist:
  assumes "manager_init black handlers has_tickers md = Inr M0"
    and "runE refresh_once rs M0 = Inr M" and "rs \<noteq> []"
    and "\<forall>r \<in> set rs. pe_exchange (fst r) = X \<and> pe_regex (fst r) = rx"
    and "w \<in> set black" and "rx w = Some matches" and "matches p" and "p \<in> set (tradable_pairs X)"
  shows "p \<notin> set (whitelist_of M)"
proof -
  from assms(1) have M0: "eblacklist_of X rx M0" "pm_blacklist M0 = black"
    by (auto simp: manager_init_def eblacklist_of_def split: if_splits)
  from assms(3) obtain qs q where rs: "rs = qs @ [q]" by (cases rs rule: rev_cases) auto
  with assms(2) obtain N where N: "runE refresh_once qs M0 = Inr N" "refresh_once q N = Inr M"
    by (auto simp: runE_append bindE_eq_Inr)
  from refreshes_eblacklist [OF N(1) M0(1)] assms(4) rs have "eblacklist_of X rx N" "pm_blacklist N = black"
    by (auto simp: M0)
  with refresh_eblacklist(3) [OF _ N(2), of w matches p] assms(4-8) rs show ?thesis by auto
qed

text \<open>Property C17: the compliance filter has the last word. When it stands in the chain of handlers,
  not in its audit mode, and every handler after it only removes or reorders pairs from what it is
  given, then no pair of the resulting whitelist is a leveraged token or on the list of forbidden
  assets.\<close>

theorem compliant_whitelist:
  assumes "refresh_pairlist E False pairs M = Inr M'"
    and "map fst (pm_handlers M) = generator # before @ IslamicComplianceFilter F # after"
    and "list_all only_removes after" and "\<not> cf_audit_mode F"
  shows "\<forall>p \<in> set (whitelist_of M').
    screen_pair p (cf_blacklist F) (cf_allowlist F) (cf_suffixes F) DEFAULT_MIN_UNDERLYING_LEN = None"
proof -
  from refresh_result [OF assms(1)] obtain bl H hs rest tk r1 h1 hs0 rest' r2 h2 where
    M: "pm_handlers M = (H, hs) # rest" and M': "M' = store_result bl ((H, hs0) # rest') (checked_list bl r2 h2) M"
    and run: "run_filters E (pm_mode M) bl tk rest r1 h1 = Inr (rest', r2, h2)" by auto
  from M assms(2) obtain pre st post where rest: "rest = pre @ (IslamicComplianceFilter F, st) # post"
    and "map fst post = after" by (auto simp: map_eq_append_conv)
  with assms(3) have "list_all (only_removes \<circ> fst) post" by (metis list.pred_map)
  with screened_after_filters [OF run [unfolded rest]] have "\<forall>p \<in> set (ls_at h2 r2). validate_pair F p" by blast
  with assms(4) verify_blacklist_subset [of bl "ls_at h2 r2"] show ?thesis
    by (auto simp: M' whitelist_stored validate_pair_def)
qed

section \<open>Two surprises\<close>

text \<open>Property C37: a performance filter without a period looks at no trade at all. With
  \<open>minutes\<close> at 0, which the documentation describes as all-time performance, the start of the period
  is the present moment: when every trade was closed in the past, the list comes back as it was,
  unsorted, and no pair is removed whatever the minimum profit.\<close>

theorem performance_zero_minutes_sees_nothing:
  assumes "pe_closed_trades E = Some trades" and "\<forall>t \<in> set trades. ct_close_date t < pe_now E"
  shows "filter_pairlist E md bl tk (PerformanceFilter 0 min_profit) hs r h = Inr (r, hs, h)"
  using assms by (auto simp: filter_pairlist_def performance_filter_def not_le [symmetric] split: option.split)

lemma static_refresh:
  assumes "pm_handlers M = [(StaticPairList wl ai, st), (ShuffleFilter True candle, hs)]" and "hs_static st = None"
    and "pm_blacklist M = []" and "\<not> md_optimize (pm_mode M)" and "refresh_pairlist E False None M = Inr M'"
  shows "\<exists>ys r hs' h'. static_pairs E wl ai = Inr ys
    \<and> shuffle_filter E (pm_mode M) True candle hs (ls_next (pm_store M)) (snd (alloc ys (pm_store M))) = (r, hs', h')
    \<and> pm_whitelist M' = Some r \<and> pm_store M' = put_list r (ls_at h' r) h'
    \<and> pm_handlers M' = [(StaticPairList wl ai, st), (ShuffleFilter True candle, hs')]
    \<and> pm_blacklist M' = [] \<and> pm_mode M' = pm_mode M"
proof (cases "static_pairs E wl ai")
  case (Inr ys)
  obtain r hs' h' where
    "shuffle_filter E (pm_mode M) True candle hs (ls_next (pm_store M)) (snd (alloc ys (pm_store M))) = (r, hs', h')"
    by (rule prod_cases3)
  with assms Inr show ?thesis
    by (auto simp: refresh_pairlist_def expanded_blacklist_def gen_pairlist_def static_gen_def static_fresh_def
      fresh_list_def alloc_def intersect_list_def filter_pairlist_def checked_list_def store_result_def
      verify_blacklist_def Let_def)
qed (use assms in \<open>simp add: refresh_pairlist_def expanded_blacklist_def gen_pairlist_def static_gen_def static_fresh_def\<close>)

text \<open>Property C36: a pair outside the configured list stays tradable for the rest of a candle. The
  bot extends the list of pairs by the pairs of its open trades, and with ShuffleFilter at the end of
  the chain that list is the very object the filter keeps for the candle. A later refresh in the same
  candle, when the trade may long be closed, still has the pair on the whitelist, although the static
  list does not contain it.\<close>

theorem shuffled_list_keeps_traded_pair:
  assumes "manager_init [] [StaticPairList wl ai, ShuffleFilter True candle] has_tickers md = Inr M0"
    and "\<not> md_optimize md" and "md_live md"
    and "refresh_shared_whitelist E [p] M0 = Inr M1"
    and "static_pairs E wl ai = static_pairs E' wl ai"
    and "period_of (pe_now E) candle = period_of (pe_now E') candle"
    and "refresh_shared_whitelist E' [] M1 = Inr M2"
  shows "p \<in> set (whitelist_of M2)"
proof -
  from assms(1) have M0: "pm_handlers M0 = [(StaticPairList wl ai, new_handler_state), (ShuffleFilter True candle, new_handler_state)]"
    "pm_blacklist M0 = []" "pm_mode M0 = md" by (auto simp: manager_init_def split: if_splits)
  from assms(4) obtain N where N: "refresh_pairlist E False None M0 = Inr N"
    by (auto simp: refresh_shared_whitelist_def bindE_eq_Inr)
  from static_refresh [OF M0(1) _ M0(2) _ N] assms(2) M0(3) obtain ys r hs h where
    ys: "static_pairs E wl ai = Inr ys"
    and sh: "shuffle_filter E md True candle new_handler_state (ls_next (pm_store M0)) (snd (alloc ys (pm_store M0))) = (r, hs, h)"
    and N': "pm_whitelist N = Some r" "pm_store N = put_list r (ls_at h r) h" "pm_blacklist N = []" "pm_mode N = md"
      "pm_handlers N = [(StaticPairList wl ai, new_handler_state), (ShuffleFilter True candle, hs)]"
    by (auto simp: new_handler_state_def)
  from sh have first: "hs_shuffled hs ys = Some (period_of (pe_now E) candle, r)" "r < ls_next h"
    using assms(3) by (auto simp: shuffle_filter_def new_handler_state_def Let_def alloc_def put_list_def)
  from assms(4) N N' have M1: "p \<in> set (ls_at (pm_store M1) r)" "pm_handlers M1 = pm_handlers N"
    "pm_blacklist M1 = []" "pm_mode M1 = md" "r < ls_next (pm_store M1)"
    using first(2) by (auto simp: refresh_shared_whitelist_def put_list_def)
  from assms(7) obtain N2 where N2: "refresh_pairlist E' False None M1 = Inr N2"
    by (auto simp: refresh_shared_whitelist_def bindE_eq_Inr)
  from static_refresh [OF M1(2) [unfolded N'(5)] _ M1(3) _ N2] assms(2,5) M1(4) ys obtain r2 hs2 h2 where
    sh2: "shuffle_filter E' md True candle hs (ls_next (pm_store M1)) (snd (alloc ys (pm_store M1))) = (r2, hs2, h2)"
    and N2': "pm_whitelist N2 = Some r2" "pm_store N2 = put_list r2 (ls_at h2 r2) h2"
    by (auto simp: new_handler_state_def)
  from M1(1,5) have "ls_at (snd (alloc ys (pm_store M1))) r = ls_at (pm_store M1) r" by (simp add: alloc_def)
  moreover from M1(1) have "ls_at (pm_store M1) r \<noteq> []" by auto
  ultimately have "r2 = r" "p \<in> set (ls_at h2 r)"
    using sh2 first(1) assms(6) M1(1) by (auto simp: shuffle_filter_def Let_def alloc_def)
  with assms(7) N2 N2' show ?thesis
    by (auto simp: refresh_shared_whitelist_def whitelist_of_def put_list_def)
qed

section \<open>An example\<close>

definition example_spot_market :: "string \<Rightarrow> xmarket" where
  "example_spot_market base = example_futures_market\<lparr>xm_base := Some base, xm_type := Some ''spot'',
     xm_flags := (\<lambda>f. f = ''spot'')\<rparr>"

definition example_spot :: exchange where
  "example_spot = example_x\<lparr>ex_trading_mode := SPOT,
     ex_markets := [(''BTC/USDT'', example_spot_market ''BTC''), (''DOGE/USDT'', example_spot_market ''DOGE''),
                    (''BTC3L/USDT'', example_spot_market ''BTC3L'')]\<rparr>"

definition example_pl_env :: "int \<Rightarrow> pl_env" where
  "example_pl_env t = \<lparr>pe_now = t, pe_exchange = example_spot, pe_tickers = [],
     pe_regex = (\<lambda>w. Some (\<lambda>p. p = w)), pe_candles = (\<lambda>_ _ _. None), pe_volatility = (\<lambda>_ _. NaN),
     pe_market_info = (\<lambda>_ _. []), pe_delisting = (\<lambda>_. None), pe_open_trades = 0, pe_closed_trades = Some
       [\<lparr>ct_pair = ''BTC/USDT'', ct_close_date = 5, ct_profit = - 1, ct_entry_cost = 100\<rparr>],
     pe_producer_pairs = [], pe_shuffle = (\<lambda>_. rev)\<rparr>"

lemma example_static:
  "static_pairs (example_pl_env t) [''BTC/USDT'', ''DOGE/USDT'', ''BTC3L/USDT''] False
     = Inr [''BTC/USDT'', ''DOGE/USDT'', ''BTC3L/USDT'']"
  "static_pairs (example_pl_env t) [''BTC/USDT''] False = Inr [''BTC/USDT'']"
  by (simp_all add: static_pairs_def verify_whitelist_def example_pl_env_def example_spot_def example_spot_market_def
      get_markets_def keep_markets_def market_is_tradable_def market_is_spot_def example_x_def example_futures_market_def
      expand_pairlist_def is_plain_pair_def is_word_char_def whitelist_for_active_markets_def tradable_step_def
      x_market_def get_pair_quote_currency_def market_is_active_def)

definition example_manager :: "string list \<Rightarrow> handler list \<Rightarrow> pl_manager" where
  "example_manager black handlers =
     (case manager_init black handlers True \<lparr>md_optimize = False, md_live = True\<rparr> of Inr M \<Rightarrow> M | Inl _ \<Rightarrow> undefined)"

abbreviation example_live_mode :: pl_mode where
  "example_live_mode \<equiv> \<lparr>md_optimize = False, md_live = True\<rparr>"

lemma example_manager_init:
  "handlers \<noteq> [] \<Longrightarrow> manager_init black handlers True example_live_mode = Inr (example_manager black handlers)"
  by (simp add: example_manager_def manager_init_def)

abbreviation example_filter :: compliance_filter where
  "example_filter \<equiv> compliance_filter_init [''DOGE''] [] None False"

abbreviation example_pairs :: "string list" where
  "example_pairs \<equiv> [''BTC/USDT'', ''DOGE/USDT'', ''BTC3L/USDT'']"

lemma example_refresh:
  "\<exists>M. refresh_pairlist (example_pl_env 0) False None (example_manager [''DOGE/USDT''] [StaticPairList example_pairs False]) = Inr M
     \<and> whitelist_of M = [''BTC/USDT'', ''BTC3L/USDT'']"
  using example_static(1) [of 0]
  by (simp add: refresh_pairlist_def example_manager_def manager_init_def new_handler_state_def expanded_blacklist_def
      gen_pairlist_def static_gen_def static_fresh_def fresh_list_def intersect_list_def alloc_def whitelist_stored verify_blacklist_filter)
    (simp add: example_pl_env_def example_spot_def example_spot_market_def get_markets_def keep_markets_def
      market_is_tradable_def market_is_spot_def example_x_def example_futures_market_def expand_pairlist_def
      whitelist_stored verify_blacklist_filter)

theorem whitelist_respects_blacklist_witness:
  "\<exists>M. refresh_pairlist (example_pl_env 0) False None (example_manager [''DOGE/USDT''] [StaticPairList example_pairs False]) = Inr M
     \<and> whitelist_of M = [''BTC/USDT'', ''BTC3L/USDT''] \<and> ''DOGE/USDT'' \<notin> set (whitelist_of M)"
proof -
  from example_refresh obtain M where
    M: "refresh_pairlist (example_pl_env 0) False None (example_manager [''DOGE/USDT''] [StaticPairList example_pairs False]) = Inr M"
       "whitelist_of M = [''BTC/USDT'', ''BTC3L/USDT'']" by blast
  have "''DOGE/USDT'' \<notin> set (whitelist_of M)"
  proof (rule whitelist_respects_blacklist [OF example_manager_init, where w = "''DOGE/USDT''" and X = example_spot
        and matches = "\<lambda>p. p = ''DOGE/USDT''" and rx = "\<lambda>w. Some (\<lambda>p. p = w)"])
    show "runE refresh_once [(example_pl_env 0, False, None)] (example_manager [''DOGE/USDT''] [StaticPairList example_pairs False]) = Inr M"
      by (simp add: M)
    show "\<forall>r \<in> set [(example_pl_env 0, False, None :: string list option)].
        pe_exchange (fst r) = example_spot \<and> pe_regex (fst r) = (\<lambda>w. Some (\<lambda>p. p = w))"
      by (simp add: example_pl_env_def)
    show "''DOGE/USDT'' \<in> set (tradable_pairs example_spot)"
      by (simp add: tradable_pairs_def example_spot_def example_spot_market_def market_is_tradable_def market_is_spot_def
          example_x_def example_futures_market_def)
  qed simp_all
  with M show ?thesis by blast
qed

lemma example_screened:
  "validate_pair example_filter ''BTC/USDT''" "\<not> validate_pair example_filter ''DOGE/USDT''"
  "\<not> validate_pair example_filter ''BTC3L/USDT''"
  by code_simp+

theorem compliant_whitelist_witness:
  "\<exists>M. refresh_pairlist (example_pl_env 0) False None
      (example_manager [] [StaticPairList example_pairs False, IslamicComplianceFilter example_filter, OffsetFilter 0 5]) = Inr M
    \<and> whitelist_of M = [''BTC/USDT'']
    \<and> (\<forall>p \<in> set (whitelist_of M). screen_pair p [''DOGE''] [] DEFAULT_LEVERAGED_SUFFIXES DEFAULT_MIN_UNDERLYING_LEN = None)"
proof -
  let ?M = "example_manager [] [StaticPairList example_pairs False, IslamicComplianceFilter example_filter, OffsetFilter 0 5]"
  have "\<exists>M. refresh_pairlist (example_pl_env 0) False None ?M = Inr M \<and> whitelist_of M = [''BTC/USDT'']"
    using example_static(1) [of 0] example_screened
    by (simp add: refresh_pairlist_def example_manager_def manager_init_def new_handler_state_def expanded_blacklist_def
        gen_pairlist_def static_gen_def static_fresh_def fresh_list_def intersect_list_def alloc_def whitelist_stored verify_blacklist_def
        filter_pairlist_def offset_slice_def remove_invalid_def remove_step_def put_list_def)
  then obtain M where M: "refresh_pairlist (example_pl_env 0) False None ?M = Inr M" "whitelist_of M = [''BTC/USDT'']" by blast
  have "map fst (pm_handlers ?M) = StaticPairList example_pairs False # [] @ IslamicComplianceFilter example_filter # [OffsetFilter 0 5]"
    by (simp add: example_manager_def manager_init_def)
  from compliant_whitelist [OF M(1) this] M have "\<forall>p \<in> set (whitelist_of M).
      screen_pair p (cf_blacklist example_filter) (cf_allowlist example_filter) (cf_suffixes example_filter) DEFAULT_MIN_UNDERLYING_LEN = None"
    by (simp add: compliance_filter_init_def)
  moreover have "cf_blacklist example_filter = [''DOGE'']" "cf_allowlist example_filter = []"
    "cf_suffixes example_filter = DEFAULT_LEVERAGED_SUFFIXES"
    by code_simp+
  ultimately show ?thesis using M by auto
qed

theorem performance_zero_minutes_sees_nothing_witness:
  "filter_pairlist (example_pl_env 10) example_live_mode No_blacklist [] (PerformanceFilter 0 (Some 0)) new_handler_state 0
      \<lparr>ls_at = (\<lambda>_. [''BTC/USDT'']), ls_next = 1\<rparr>
    = Inr (0, new_handler_state, \<lparr>ls_at = (\<lambda>_. [''BTC/USDT'']), ls_next = 1\<rparr>)
   \<and> performance_filter (example_pl_env 10) 1 (Some 0) [''BTC/USDT''] = Some []"
proof -
  have t: "pe_closed_trades (example_pl_env 10)
      = Some [\<lparr>ct_pair = ''BTC/USDT'', ct_close_date = 5, ct_profit = - 1, ct_entry_cost = 100\<rparr>]" "pe_now (example_pl_env 10) = 10"
    by (simp_all add: example_pl_env_def)
  from performance_zero_minutes_sees_nothing [OF t(1)] t(2)
  show ?thesis by (simp add: performance_filter_def performance_rows_def t)
qed

theorem shuffled_list_keeps_traded_pair_witness:
  "\<exists>M1 M2. refresh_shared_whitelist (example_pl_env 0) [''XRP/USDT'']
        (example_manager [] [StaticPairList [''BTC/USDT''] False, ShuffleFilter True 300]) = Inr M1
     \<and> refresh_shared_whitelist (example_pl_env 60000000) [] M1 = Inr M2
     \<and> ''XRP/USDT'' \<in> set (whitelist_of M2)"
proof -
  let ?M = "example_manager [] [StaticPairList [''BTC/USDT''] False, ShuffleFilter True 300]"
  have i: "manager_init [] [StaticPairList [''BTC/USDT''] False, ShuffleFilter True 300] True example_live_mode = Inr ?M"
    by (rule example_manager_init) simp
  note defs = refresh_shared_whitelist_def refresh_pairlist_def expanded_blacklist_def gen_pairlist_def static_gen_def static_fresh_def
    fresh_list_def intersect_list_def alloc_def filter_pairlist_def shuffle_filter_def new_handler_state_def
  have "\<exists>M1 M2. refresh_shared_whitelist (example_pl_env 0) [''XRP/USDT''] ?M = Inr M1
      \<and> refresh_shared_whitelist (example_pl_env 60000000) [] M1 = Inr M2"
    using example_static(2)
    by (simp add: defs example_manager_def manager_init_def checked_list_def store_result_def verify_blacklist_def
        put_list_def Let_def)
  then obtain M1 M2 where M: "refresh_shared_whitelist (example_pl_env 0) [''XRP/USDT''] ?M = Inr M1"
    "refresh_shared_whitelist (example_pl_env 60000000) [] M1 = Inr M2" by blast
  have "''XRP/USDT'' \<in> set (whitelist_of M2)"
    by (rule shuffled_list_keeps_traded_pair [OF i _ _ M(1) _ _ M(2)])
      (simp_all add: example_static period_of_def, simp add: example_pl_env_def)
  with M show ?thesis by blast
qed

end
