(* ===== verification/Spec2Isabelle.thy ===== *)
theory Spec2Isabelle
  imports Protection_Manager Bt_Trades Metrics Wallets Liquidation Strategy_Exit Islamic Ql_Paper Ql_Interop Ql_Live
    Ql_Jobs Ql_Auth Ql_Watchdog Exchange_Orders Bt_Rates Bot_Claims Pairlist_Claims
begin

text \<open>
  A verification development of a cryptocurrency trading platform. The repository holds two programs.
  The package \<open>freqtrade\<close> (under \<open>src/freqtrade\<close>) is a trading bot with a backtester, to which the package
  \<open>freqtrade/islamic\<close> adds a compliance guard: spot trading only, no leverage, no short selling, no
  leveraged tokens. The package \<open>quantlab\<close> (under \<open>src/quantlab\<close>) is a research and trading service with a
  candle simulation, paper trading, an approval process and a live engine of its own.

  \<^bold>\<open>How the program is modelled.\<close> Definitions follow the source function by function and keep its names.
  Records stand for objects, datatypes for enumerations. A float is an exact rational (type \<open>flt\<close>), so
  rounding errors of floating point are not modelled; the rounding that the code asks for (precision of
  amounts and prices, contract sizes, steps) is. Python's ints are unbounded. Times of freqtrade are integers
  of microseconds, those of quantlab integers of seconds. An exception is a value: a function that may
  raise returns \<open>py_error + 'a\<close> and is composed with \<open>bindE\<close>; in programs that change a state before
  they raise, the state they leave is returned as well. Third-party code (ccxt and the exchange behind it,
  the clock, pandas sorting, the methods of a user strategy) is a parameter: a record of functions. Loops
  are structural recursions over lists or recursions with a measure. Only two bounds occur: the retry
  wrapper recurses on its number of retries, as the code does, and \<open>update_trade_state\<close> of the bot, which
  calls itself through the cancellation of stop orders, recurses on Python's recursion limit and raises
  \<^const>\<open>RuntimeError\<close> when it is used up, as Python does.

  \<^bold>\<open>The theories.\<close>
    \<^item> \<open>Prelude\<close>: exceptions, loops that may raise, options and strings as the source uses them, and the
      locale of steps that move a state in one direction only.
    \<^item> \<open>Precision\<close>, \<open>Trade\<close>, \<open>Trade_Stops\<close>, \<open>Trade_Profit\<close>, \<open>Trade_Recalc\<close>: \<open>exchange_utils.py\<close> and the orders and
      trades of \<open>persistence/trade_model.py\<close>: rounding, the stop that only tightens, profits, and the replay
      of the orders of a trade, which refines a position of exact fills. \<open>Bt_Trades\<close>: the container of
      trades that a backtest uses instead of a database.
    \<^item> \<open>Pair_Locks\<close>, \<open>Protections\<close>, \<open>Protection_Manager\<close>: \<open>persistence/pairlock*.py\<close>, \<open>plugins/protections\<close>,
      \<open>plugins/protectionmanager.py\<close>. A locale states what a client of the locks relies on.
    \<^item> \<open>Wallets\<close>, \<open>Liquidation\<close>, \<open>Metrics\<close>: \<open>wallets.py\<close>, the liquidation prices of \<open>exchange.py\<close> and
      \<open>leverage/\<close>, the drawdown and expectancy of \<open>data/metrics.py\<close>.
    \<^item> \<open>Strategy_Exit\<close>: \<open>strategy/interface.py\<close>, from signals to the reasons to exit.
    \<^item> \<open>Exchange_Markets\<close>, \<open>Exchange_Orders\<close>: \<open>exchange/exchange.py\<close>, markets, limits, leverage tiers, rates, fees,
      and the simulated orders of a dry run; \<open>exchange/common.py\<close>, the retry wrapper.
    \<^item> \<open>Bt_Orders\<close>, \<open>Bt_Loop\<close>, \<open>Bt_Run\<close>: \<open>optimize/backtesting.py\<close>, the run of a backtest. \<open>Bt_Frame\<close> and
      \<open>Bt_Safety\<close> hold the locales of relations that every step keeps and the properties of whole runs,
      \<open>Bt_Rates\<close> those of the prices and of the clock.
    \<^item> \<open>Bot_State\<close>, \<open>Bot_Exchange\<close>, \<open>Bot_Fills\<close>, \<open>Bot_Update\<close>, \<open>Bot_Cancel\<close>, \<open>Bot_Exit\<close>, \<open>Bot_Entry\<close>, \<open>Bot_Process\<close>:
      \<open>freqtradebot.py\<close>, the loop of the trading bot, as programs over a heap of trades, the database,
      wallets, locks and the log of what was sent to the exchange. \<open>Bot_Commands\<close>: \<open>worker.py\<close> and the
      commands of \<open>rpc/rpc.py\<close>. \<open>Bot_Frame\<close> has the rules of the program logic, \<open>Bot_Keeps\<close> the locales
      of predicates that every operation keeps, \<open>Bot_Safety\<close> their interpretations, \<open>Bot_Claims\<close> the
      properties of whole runs with any exchange, market, strategy, errors and order of operations.
    \<^item> \<open>Islamic\<close>: the package \<open>freqtrade/islamic\<close>, its pair list filter, and the guards of the worker.
    \<^item> \<open>Ql_Risk\<close>, \<open>Ql_Sim\<close>, \<open>Ql_Backtest\<close>, \<open>Ql_Paper\<close>, \<open>Ql_Approval\<close>, \<open>Ql_Live\<close>, \<open>Ql_Jobs\<close>, \<open>Ql_Market\<close>:
      the packages \<open>risk\<close>, \<open>backtest\<close>, \<open>paper\<close>, \<open>evaluation\<close>, \<open>live\<close>, the jobs of \<open>services.py\<close> and the candle
      store of \<open>quantlab\<close>. Paper trading refines the simulation; jobs and live orders are step relations
      with crashes.
    \<^item> \<open>Pairlists\<close>, \<open>Pairlist_Claims\<close>: \<open>plugins/pairlistmanager.py\<close> and the handlers of \<open>plugins/pairlist\<close>.
      Lists that are shared by caches live in a store, so that a change in place is seen by all.
    \<^item> \<open>Ql_Strategies\<close>, \<open>Ql_Rules\<close>: the packages \<open>strategies\<close> (\<open>indicators.py\<close>, \<open>technical.py\<close>, \<open>rules.py\<close>) and
      \<open>risk/sizing.py\<close>, and the backtest of a strategy. Here a float may be infinite or NaN; \<open>causal\<close> says that
      later rows change no earlier value, which is proved of every indicator over any pandas that has it. \<open>Ql_Interop\<close>: specifications of another
      framework, converted to rules.
    \<^item> \<open>Ql_Auth\<close>, \<open>Ql_Watchdog\<close>: logins with their lockout and session tokens (\<open>api/auth.py\<close>), the alerts of
      \<open>watchdog.py\<close>. The locale \<open>token_format\<close> states what tokens rely on.

  \<^bold>\<open>Interfaces.\<close> \<open>monotone_steps\<close> (interpreted for stops, protections and the passes of a backtest),
  \<open>directed_rounding\<close> (for each mode of precision), \<open>lock_interface\<close>, \<open>bt_relation\<close>, \<open>bt_frame\<close>, \<open>bt_ledger\<close>
  (relations between states of a backtest), \<open>live_frame\<close> and \<open>live_opening\<close> (predicates on the state of
  the bot). Each has its lemmas proved once and is interpreted on the definitions of the model.

  \<^bold>\<open>Assumptions of the model of the bot.\<close> A command runs between two operations of the loop, although its
  first checks are made outside the lock in the code. The clock does not change between two calls of the
  exchange. A method of a trade that raises leaves the trade as it was. A session of the database is
  flushed at once, nothing is rolled back. The cache of reasons to exit has no bound on its size. Open
  orders of the database are visited by trade. Loading the configuration again gives the same one.

  \<^bold>\<open>Not modelled.\<close> Texts of messages and log lines; the front ends (Telegram, REST, web), configuration
  and command line, dynamic loading and database migrations; HTTP clients, web sockets and asynchronous
  downloads; computations of data frames (candle files, FreqAI, hyperopt, research sweeps, machine
  learning) and measures with square roots (Sharpe, Sortino, Calmar, SQN): they rest on third-party
  libraries or are input and output around the modelled core.
\<close>

end
